(* ===== verification/Prelude.thy ===== *)
theory Prelude
  imports Main "HOL-Library.Product_Lexorder"
begin

text \<open>
  Shared vocabulary of the development: instants and durations, the error monad in which the
  Python exceptions are values, JSON documents, the tables of the SQL store as lists of rows,
  and the generic facts about them that the component theories use.
\<close>

section \<open>Time, errors, JSON\<close>

text \<open>
  A Python \<open>datetime\<close> is a number of microseconds (UTC); a \<open>timedelta\<close> a number of
  microseconds.  Both have microsecond resolution in Python, so \<open>int\<close> is exact.
\<close>

type_synonym datetime = int
type_synonym timedelta = int

definition seconds :: "int \<Rightarrow> timedelta" where
  "seconds n = n * 1000000"

text \<open>The named collections the component theories extend.\<close>

named_theorems table_simps \<open>updates of table rows and what they keep\<close>
named_theorems step_invs \<open>preservation of an invariant by one operation\<close>

text \<open>Exceptions as values: \<open>Inl\<close> is the raised exception, \<open>Inr\<close> the returned value.\<close>

fun bindR :: "'e + 'a \<Rightarrow> ('a \<Rightarrow> 'e + 'b) \<Rightarrow> 'e + 'b" where
  "bindR (Inl e) f = Inl e"
| "bindR (Inr x) f = f x"

lemma bindR_eq_Inr [simp]: "bindR m f = Inr y \<longleftrightarrow> (\<exists>x. m = Inr x \<and> f x = Inr y)"
  by (cases m) auto

lemma bindR_eq_Inl: "bindR m f = Inl e \<longleftrightarrow> m = Inl e \<or> (\<exists>x. m = Inr x \<and> f x = Inl e)"
  by (cases m) auto

lemma bindR_cong [fundef_cong]:
  "m = m' \<Longrightarrow> (\<And>x. m' = Inr x \<Longrightarrow> f x = g x) \<Longrightarrow> bindR m f = bindR m' g"
  by (cases m') auto

definition require :: "bool \<Rightarrow> 'e \<Rightarrow> 'e + unit" where
  "require b e = (if b then Inr () else Inl e)"

lemma require_eq_Inr [simp]: "require b e = Inr u \<longleftrightarrow> b"
  by (simp add: require_def)

lemma require_True [simp]: "require True e = Inr ()"
  by (simp add: require_def)

lemma require_False [simp]: "require False e = Inl e"
  by (simp add: require_def)

lemma require_eq_Inl [simp]: "require b e = Inl e' \<longleftrightarrow> \<not> b \<and> e' = e"
  by (auto simp add: require_def)

text \<open>Python's \<open>x or y\<close> on an optional datetime, which is the SQL \<open>coalesce\<close>.\<close>

definition coalesce :: "'a option \<Rightarrow> 'a \<Rightarrow> 'a" where
  "coalesce x d = (case x of None \<Rightarrow> d | Some v \<Rightarrow> v)"

lemma coalesce_simps [simp]: "coalesce None d = d" "coalesce (Some v) d = v"
  by (simp_all add: coalesce_def)

text \<open>JSON documents, as they are stored in JSON columns and returned by the Docker API.\<close>

datatype json =
    JNull
  | JBool bool
  | JInt int
  | JStr string
  | JList "json list"
  | JObj "(string \<times> json) list"

text \<open>
  \<open>d.get(k)\<close>: the absent key and the null value are both \<open>JNull\<close>, Python's \<open>None\<close>.
\<close>

definition jget :: "(string \<times> json) list \<Rightarrow> string \<Rightarrow> json" where
  "jget m k = (case map_of m k of None \<Rightarrow> JNull | Some v \<Rightarrow> v)"

section \<open>Tables as lists of rows\<close>

text \<open>
  A table is the list of its rows.  \<open>UPDATE .. WHERE p SET f\<close> rewrites every row that
  satisfies \<open>p\<close>; \<open>RETURNING id\<close> read with \<open>scalar\<close> is the id of the first of them.
\<close>

definition update_rows :: "('r \<Rightarrow> bool) \<Rightarrow> ('r \<Rightarrow> 'r) \<Rightarrow> 'r list \<Rightarrow> 'r list" where
  "update_rows p f rows = map (\<lambda>r. if p r then f r else r) rows"

definition first_row :: "('r \<Rightarrow> bool) \<Rightarrow> 'r list \<Rightarrow> 'r option" where
  "first_row p rows = List.find p rows"

text \<open>\<open>SELECT .. ORDER BY key LIMIT 1\<close>.\<close>

definition select_one :: "('r \<Rightarrow> 'k::linorder) \<Rightarrow> ('r \<Rightarrow> bool) \<Rightarrow> 'r list \<Rightarrow> 'r option" where
  "select_one key p rows =
     (case sort_key key (filter p rows) of [] \<Rightarrow> None | r # _ \<Rightarrow> Some r)"

text \<open>The key of a new row: the largest row id plus one, as SQLite assigns it.\<close>

definition next_id :: "int list \<Rightarrow> int" where
  "next_id ids = foldr max ids 0 + 1"

text \<open>A UNIQUE column: SQL lets NULL repeat.\<close>

definition unique_column :: "'a option list \<Rightarrow> bool" where
  "unique_column xs = distinct (filter (\<lambda>x. x \<noteq> None) xs)"

lemma set_update_rows:
  "set (update_rows p f rows) = (\<lambda>r. if p r then f r else r) ` set rows"
  by (simp add: update_rows_def)

lemma in_update_rowsE:
  assumes "r' \<in> set (update_rows p f rows)"
  obtains r where "r \<in> set rows" and "p r" and "r' = f r"
    | "r' \<in> set rows" and "\<not> p r'"
  using assms by (auto simp: update_rows_def split: if_splits)

lemma in_update_rowsI1: "r \<in> set rows \<Longrightarrow> p r \<Longrightarrow> f r \<in> set (update_rows p f rows)"
  by (force simp: update_rows_def)

lemma in_update_rowsI2: "r \<in> set rows \<Longrightarrow> \<not> p r \<Longrightarrow> r \<in> set (update_rows p f rows)"
  by (force simp: update_rows_def)

lemma map_update_rows [table_simps]:
  "(\<And>r. p r \<Longrightarrow> g (f r) = g r) \<Longrightarrow> map g (update_rows p f rows) = map g rows"
  by (simp add: update_rows_def)

lemma update_rows_none [table_simps]:
  "(\<And>r. r \<in> set rows \<Longrightarrow> \<not> p r) \<Longrightarrow> update_rows p f rows = rows"
  by (simp add: update_rows_def map_idI)

text \<open>The same update when exactly one row is rewritten.\<close>

definition put_row :: "'r \<Rightarrow> 'r \<Rightarrow> 'r list \<Rightarrow> 'r list" where
  "put_row r r' rows = map (\<lambda>x. if x = r then r' else x) rows"

lemma set_put_row [simp]:
  "r \<in> set rows \<Longrightarrow> set (put_row r r' rows) = insert r' (set rows - {r})"
  by (auto simp: put_row_def)

lemma length_put_row [simp]: "length (put_row r r' rows) = length rows"
  by (simp add: put_row_def)

lemma map_put_row [table_simps]: "g r' = g r \<Longrightarrow> map g (put_row r r' rows) = map g rows"
  by (simp add: put_row_def)

lemma first_row_SomeD: "first_row p rows = Some r \<Longrightarrow> r \<in> set rows \<and> p r"
  by (auto simp: first_row_def find_Some_iff)

lemma first_row_None_iff: "first_row p rows = None \<longleftrightarrow> (\<forall>r \<in> set rows. \<not> p r)"
  by (auto simp: first_row_def find_None_iff)

lemma first_row_exists: "r \<in> set rows \<Longrightarrow> p r \<Longrightarrow> \<exists>r'. first_row p rows = Some r'"
  using first_row_None_iff [of p rows] by (cases "first_row p rows") auto

lemma first_row_unique:
  assumes "distinct (map key rows)" and "r \<in> set rows"
  shows "first_row (\<lambda>r'. key r' = key r) rows = Some r"
  using assms by (induction rows) (auto simp: first_row_def)

lemma distinct_map_unique:
  "distinct (map key rows) \<Longrightarrow> r \<in> set rows \<Longrightarrow> r' \<in> set rows \<Longrightarrow> key r = key r' \<Longrightarrow> r = r'"
  by (metis inj_onD distinct_map)

lemma first_row_key_unique:
  assumes "distinct (map key rows)" and "\<And>x. p x \<Longrightarrow> key x = k"
    and "first_row p rows = Some r"
  shows "update_rows p f rows = put_row r (f r) rows" and "r \<in> set rows" and "p r"
proof -
  from assms(3) show r: "r \<in> set rows" "p r"
    by (auto dest: first_row_SomeD)
  have "p x \<longleftrightarrow> x = r" if "x \<in> set rows" for x
    using distinct_map_unique [OF assms(1) that r(1)] assms(2) r(2) by auto
  then show "update_rows p f rows = put_row r (f r) rows"
    by (simp add: update_rows_def put_row_def)
qed

lemma select_one_SomeD:
  assumes "select_one key p rows = Some r"
  shows "r \<in> set rows \<and> p r \<and> (\<forall>r' \<in> set rows. p r' \<longrightarrow> key r \<le> key r')"
proof -
  from assms obtain rs where srt: "sort_key key (filter p rows) = r # rs"
    by (auto simp: select_one_def split: list.splits)
  then have mem: "set (r # rs) = set (filter p rows)"
    by (metis set_sort)
  have "sorted (map key (r # rs))"
    by (metis srt sorted_sort_key)
  with mem show ?thesis by (fastforce)
qed

lemma select_one_None_iff: "select_one key p rows = None \<longleftrightarrow> (\<forall>r \<in> set rows. \<not> p r)"
proof -
  have "select_one key p rows = None \<longleftrightarrow> sort_key key (filter p rows) = []"
    by (simp add: select_one_def split: list.splits)
  also have "\<dots> \<longleftrightarrow> filter p rows = []"
    by (metis length_0_conv length_sort)
  finally show ?thesis by (simp add: filter_empty_conv)
qed

lemma foldr_max_ge: "(x::int) \<in> set xs \<Longrightarrow> x \<le> foldr max xs b"
  by (induction xs) (auto simp: max_def)

lemma next_id_gt: "x \<in> set ids \<Longrightarrow> x < next_id ids"
  unfolding next_id_def using foldr_max_ge [of x ids 0] by simp

lemma next_id_fresh: "next_id ids \<notin> set ids"
  using next_id_gt by force

lemma next_id_pos: "1 \<le> next_id ids"
proof -
  have "0 \<le> foldr max ids (0::int)"
    by (induction ids) (auto simp: max_def)
  then show ?thesis by (simp add: next_id_def)
qed

lemma unique_column_append_None [simp]: "unique_column (xs @ [None]) = unique_column xs"
  by (simp add: unique_column_def)

lemma unique_column_append_Some [simp]:
  "unique_column (xs @ [Some k]) \<longleftrightarrow> unique_column xs \<and> Some k \<notin> set xs"
  by (auto simp: unique_column_def)

section \<open>Rounding\<close>

text \<open>
  Division of integers rounded to the nearest, ties to even: \<open>timedelta / int\<close>, and the
  rounding of IEEE doubles.
\<close>

definition round_half_even_div :: "int \<Rightarrow> int \<Rightarrow> int" where
  "round_half_even_div a b =
     (let q = a div b; r = a mod b
      in if 2 * r < b then q else if b < 2 * r then q + 1 else if even q then q else q + 1)"

function bit_len :: "int \<Rightarrow> int" where
  "bit_len n = (if n \<le> 0 then 0 else 1 + bit_len (n div 2))"
  by pat_completeness auto
termination by (relation "measure nat") auto

declare bit_len.simps [simp del]

text \<open>
  The double nearest to \<open>a / b\<close>, for \<open>0 < b\<close>, as a fraction whose denominator is a power of
  two: 53 significant bits, ties to even.  The quotients rounded here are durations, far from
  the limits of the exponent.  \<open>a \<le> 0\<close> is not rounded: its only reader clamps it to 0.
\<close>

definition float_div :: "int \<Rightarrow> int \<Rightarrow> int \<times> int" where
  "float_div a b =
     (if a \<le> 0 then (0, 1)
      else
        let p = 53 - (bit_len a - bit_len b);
            scaled = (\<lambda>q::int. if 0 \<le> q then (a * 2 ^ nat q, b) else (a, b * 2 ^ nat (- q)));
            q = (if 2 ^ 53 * snd (scaled p) \<le> fst (scaled p) then p - 1 else p);
            m = round_half_even_div (fst (scaled q)) (snd (scaled q))
        in if 0 \<le> q then (m, 2 ^ nat q) else (m * 2 ^ nat (- q), 1))"

section \<open>Strings\<close>

text \<open>
  A Python string is the list of its UTF-8 bytes.  \<open>s[:n]\<close> counts code points: a byte that
  continues one is not counted.
\<close>

definition continuation_byte :: "char \<Rightarrow> bool" where
  "continuation_byte c = (let n = of_char c :: nat in 128 \<le> n \<and> n < 192)"

fun take_chars :: "nat \<Rightarrow> string \<Rightarrow> string" where
  "take_chars n [] = []"
| "take_chars n (c # s) =
     (if continuation_byte c then c # take_chars n s
      else case n of 0 \<Rightarrow> [] | Suc m \<Rightarrow> c # take_chars m s)"

text \<open>\<open>s.split('/')\<close>.\<close>

fun split_slash :: "string \<Rightarrow> string list" where
  "split_slash [] = [[]]"
| "split_slash (c # s) =
     (if c = CHR ''/'' then [] # split_slash s
      else case split_slash s of [] \<Rightarrow> [[c]] | w # ws \<Rightarrow> (c # w) # ws)"

text \<open>\<open>str.lower\<close> and \<open>str.upper\<close> on ASCII letters.\<close>

definition lower_char :: "char \<Rightarrow> char" where
  "lower_char c = (let n = of_char c :: nat in if 65 \<le> n \<and> n \<le> 90 then char_of (n + 32) else c)"

definition lower :: "string \<Rightarrow> string" where
  "lower s = map lower_char s"

definition upper_char :: "char \<Rightarrow> char" where
  "upper_char c = (let n = of_char c :: nat in if 97 \<le> n \<and> n \<le> 122 then char_of (n - 32) else c)"

definition upper :: "string \<Rightarrow> string" where
  "upper s = map upper_char s"

text \<open>Decimal rendering of an integer, \<open>str(n)\<close>.\<close>

definition digit_char :: "nat \<Rightarrow> char" where
  "digit_char n = char_of (48 + n)"

fun nat_str :: "nat \<Rightarrow> string" where
  "nat_str n = (if n < 10 then [digit_char n] else nat_str (n div 10) @ [digit_char (n mod 10)])"

declare nat_str.simps [simp del]

definition int_str :: "int \<Rightarrow> string" where
  "int_str i = (if i < 0 then CHR ''-'' # nat_str (nat (- i)) else nat_str (nat i))"

text \<open>
  Python's \<open>repr\<close> of a string, over its UTF-8 bytes: the quote that needs fewer escapes, and the
  ASCII control characters escaped.  The bytes of other code points are taken as printable.
\<close>

definition hex_char :: "nat \<Rightarrow> char" where
  "hex_char n = char_of (if n < 10 then 48 + n else 87 + n)"

definition repr_char :: "char \<Rightarrow> char \<Rightarrow> string" where
  "repr_char q c =
     (let n = of_char c :: nat; backslash = char_of (92 :: nat)
      in if c = q \<or> c = backslash then [backslash, c]
         else if n = 10 then [backslash, CHR ''n'']
         else if n = 13 then [backslash, CHR ''r'']
         else if n = 9 then [backslash, CHR ''t'']
         else if n < 32 \<or> n = 127
         then [backslash, CHR ''x'', hex_char (n div 16), hex_char (n mod 16)]
         else [c])"

definition py_repr :: "string \<Rightarrow> string" where
  "py_repr s =
     (let single = char_of (39 :: nat); double = char_of (34 :: nat);
          q = (if single \<in> set s \<and> double \<notin> set s then double else single)
      in [q] @ concat (map (repr_char q) s) @ [q])"

end
