(* ===== verification/Models.thy ===== *)
theory Models
  imports Prelude
begin

text \<open>
  The rows of the SQL tables (\<open>app/models/\<close>): enumerations of the status columns, one record
  per table, the CHECK constraints and triggers that SQLite enforces, and the database as a
  record of tables.  The statements \<open>UPDATE\<close> and \<open>INSERT\<close> check the constraints and the
  triggers, and fail with \<open>IntegrityError\<close>.  A SQL statement that fails changes nothing.
\<close>

section \<open>Status columns\<close>

datatype task_status =
    Pending | Running | Retry | WaitingCredential | CancelRequested | Success | Failed | Cancelled

datatype run_status = RunRunning | RunSuccess | RunFailed | RunBlocked | RunLost | RunCancelled

datatype provider_op_status = OpIntent | OpPending | OpSucceeded | OpUncertain

definition TERMINAL_TASK_RUN_STATUSES :: "run_status set" where
  "TERMINAL_TASK_RUN_STATUSES = {RunSuccess, RunFailed, RunBlocked, RunLost, RunCancelled}"

lemma terminal_run_iff [simp]: "s \<in> TERMINAL_TASK_RUN_STATUSES \<longleftrightarrow> s \<noteq> RunRunning"
  by (cases s) (simp_all add: TERMINAL_TASK_RUN_STATUSES_def)

section \<open>Rows\<close>

record task =
  t_id :: int
  t_account_id :: "int option"
  t_subscription_id :: "int option"
  t_file_id :: "int option"
  t_type :: string
  t_trigger_type :: string
  t_status :: task_status
  t_priority :: int
  t_payload_version :: int
  t_payload :: "(string \<times> json) list"
  t_idempotency_key :: "string option"
  t_retry_count :: int
  t_max_retries :: int
  t_next_attempt_at :: "datetime option"
  t_blocked_reason :: "string option"
  t_blocked_at :: "datetime option"
  t_cancel_requested_at :: "datetime option"
  t_locked_by :: "string option"
  t_lock_token :: "string option"
  t_locked_at :: "datetime option"
  t_lease_until :: "datetime option"
  t_last_error_code :: "string option"
  t_last_error_message :: "string option"
  t_completed_at :: "datetime option"
  t_provider_write_intent_at :: "datetime option"
  t_provider_operation_id :: "string option"
  t_provider_operation_status :: "provider_op_status option"
  t_provider_result :: "(string \<times> json) list option"
  t_message :: "string option"
  t_error_code :: "string option"
  t_attempt_count :: int
  t_max_attempts :: int
  t_started_at :: "datetime option"
  t_finished_at :: "datetime option"
  t_created_at :: datetime
  t_updated_at :: datetime

record task_run =
  r_id :: int
  r_task_id :: int
  r_run_number :: int
  r_worker_id :: "string option"
  r_lock_token :: "string option"
  r_status :: run_status
  r_started_at :: datetime
  r_finished_at :: "datetime option"
  r_last_heartbeat_at :: "datetime option"
  r_duration_ms :: "int option"
  r_result_summary :: "string option"
  r_error_code :: "string option"
  r_error_message :: "string option"
  r_metrics :: "(string \<times> json) list"
  r_created_at :: datetime
  r_updated_at :: datetime

record subscription =
  s_id :: int
  s_cloud_account_id :: int
  s_name :: string
  s_provider :: string
  s_share_url :: string
  s_share_key :: "string option"
  s_share_password :: "string option"
  s_source_folder_id :: "string option"
  s_target_path :: string
  s_target_drive_id :: "string option"
  s_target_drive_type :: "string option"
  s_target_folder_id :: "string option"
  s_schedule :: string
  s_enabled :: bool
  s_status :: string
  s_initial_sync_mode :: string
  s_last_scanned_at :: "datetime option"
  s_last_full_scanned_at :: "datetime option"
  s_next_scan_at :: "datetime option"
  s_last_error :: "string option"

record cloud_file =
  f_id :: int
  f_subscription_id :: int
  f_remote_file_id :: string
  f_parent_remote_file_id :: "string option"
  f_filename :: string
  f_relative_path :: string
  f_item_type :: string
  f_size :: "int option"
  f_content_hash :: "string option"
  f_fingerprint :: string
  f_status :: string
  f_target_file_id :: "string option"
  f_target_path :: "string option"
  f_first_seen_at :: datetime
  f_last_seen_at :: datetime
  f_saved_at :: "datetime option"
  f_last_error :: "string option"

datatype update_status =
    UpChecking | UpAvailable | UpPulling | UpDraining | UpHandoff | UpSnapshotting | UpSwitching
  | UpVerifying | UpRollingBack | UpSuccess | UpFailed | UpRolledBack | UpRollbackFailed
  | UpCancelled

record update_operation =
  u_id :: int
  u_operation_id :: string
  u_status :: update_status
  u_active_slot :: "string option"
  u_source_version :: string
  u_target_version :: "string option"
  u_target_digest :: "string option"
  u_error_code :: "string option"
  u_error_message :: "string option"
  u_completed_at :: "datetime option"
  u_created_at :: datetime
  u_updated_at :: datetime

record db =
  db_tasks :: "task list"
  db_runs :: "task_run list"
  db_subscriptions :: "subscription list"
  db_files :: "cloud_file list"
  db_updates :: "update_operation list"

section \<open>Constraints and triggers\<close>

definition ownership_clear :: "task \<Rightarrow> bool" where
  "ownership_clear t \<longleftrightarrow> t_locked_by t = None \<and> t_lock_token t = None \<and>
     t_locked_at t = None \<and> t_lease_until t = None"

definition ownership_complete :: "task \<Rightarrow> bool" where
  "ownership_complete t \<longleftrightarrow> t_locked_by t \<noteq> None \<and> t_lock_token t \<noteq> None \<and>
     t_locked_at t \<noteq> None \<and> t_lease_until t \<noteq> None"

definition task_check :: "task \<Rightarrow> bool" where
  "task_check t \<longleftrightarrow> 0 \<le> t_priority t \<and> 1 \<le> t_payload_version t \<and> 0 \<le> t_retry_count t \<and>
     0 \<le> t_max_retries t \<and> (ownership_clear t \<or> ownership_complete t)"

text \<open>The two \<open>BEFORE UPDATE\<close> triggers of \<open>tasks\<close>: payload and idempotency key.\<close>

definition task_trigger :: "task \<Rightarrow> task \<Rightarrow> bool" where
  "task_trigger old new \<longleftrightarrow>
     t_payload new = t_payload old \<and> t_payload_version new = t_payload_version old \<and>
     (t_idempotency_key old = None \<or> t_idempotency_key new = t_idempotency_key old)"

definition run_check :: "task_run \<Rightarrow> bool" where
  "run_check r \<longleftrightarrow> 1 \<le> r_run_number r \<and>
     (case r_duration_ms r of None \<Rightarrow> True | Some n \<Rightarrow> 0 \<le> n)"

text \<open>The \<open>BEFORE UPDATE\<close> triggers of \<open>task_runs\<close>: identity, and terminal rows.\<close>

definition run_trigger :: "task_run \<Rightarrow> task_run \<Rightarrow> bool" where
  "run_trigger old new \<longleftrightarrow>
     r_task_id new = r_task_id old \<and> r_run_number new = r_run_number old \<and>
     r_status old = RunRunning"

definition TERMINAL_UPDATE_OPERATION_STATUSES :: "update_status set" where
  "TERMINAL_UPDATE_OPERATION_STATUSES =
     {UpSuccess, UpFailed, UpRolledBack, UpRollbackFailed, UpCancelled}"

definition update_check :: "update_operation \<Rightarrow> bool" where
  "update_check u \<longleftrightarrow>
     (u_active_slot u = Some ''global'' \<and> u_completed_at u = None) \<or>
     (u_active_slot u = None \<and> u_completed_at u \<noteq> None)"

definition update_trigger :: "update_operation \<Rightarrow> update_operation \<Rightarrow> bool" where
  "update_trigger old new \<longleftrightarrow> u_active_slot old \<noteq> None"

section \<open>Statements\<close>

text \<open>
  The errors of \<open>app/repositories/tasks.py\<close>, together with the \<open>ValueError\<close>s it raises
  (each named after its check) and SQLite's \<open>IntegrityError\<close>.
\<close>

datatype expected_status = Exactly task_status | RunningOrCancelRequested

datatype value_error =
    NewTaskNotPending | EmptyWorkerId | EmptyLockToken | NonPositiveLease
  | ContinuationInvalid | RunStatusMismatch task_status | CannotConsumeRetryBudget task_status
  | LimitOutOfRange | NextAttemptRequired | NewRunNotRunning | InvalidSchedule | NegativeRetryCount
  | NonPositiveDelay

datatype repo_error =
    TaskNotFoundError int
  | TaskRunNotFoundError int
  | TaskStateConflictError int expected_status task_status
  | ActiveTaskRunExistsError int
  | TaskOwnershipRequiredError task_status task_status
  | TaskOwnershipLostError int string
  | LegacyTaskRunConflictError int
  | InvalidTaskTransitionError task_status task_status
  | ValueError value_error
  | IntegrityError

text \<open>
  \<open>UPDATE tasks SET f WHERE p RETURNING id\<close>: every row that satisfies \<open>p\<close> is rewritten, the
  CHECK constraints, the triggers and the UNIQUE column are checked, and the first id is
  returned (\<open>None\<close> when no row matched).
\<close>

definition sql_update_tasks ::
    "(task \<Rightarrow> bool) \<Rightarrow> (task \<Rightarrow> task) \<Rightarrow> db \<Rightarrow> repo_error + int option \<times> db" where
  "sql_update_tasks p f d =
     (let rows = update_rows p f (db_tasks d)
      in if (\<forall>t \<in> set (db_tasks d). p t \<longrightarrow> task_check (f t) \<and> task_trigger t (f t)) \<and>
            unique_column (map t_idempotency_key rows)
         then Inr (map_option t_id (first_row p (db_tasks d)), d\<lparr>db_tasks := rows\<rparr>)
         else Inl IntegrityError)"

definition sql_insert_task :: "task \<Rightarrow> db \<Rightarrow> repo_error + task \<times> db" where
  "sql_insert_task t d =
     (let row = t\<lparr>t_id := next_id (map t_id (db_tasks d))\<rparr>
      in if task_check row \<and> unique_column (map t_idempotency_key (db_tasks d @ [row]))
         then Inr (row, d\<lparr>db_tasks := db_tasks d @ [row]\<rparr>)
         else Inl IntegrityError)"

definition sql_update_runs ::
    "(task_run \<Rightarrow> bool) \<Rightarrow> (task_run \<Rightarrow> task_run) \<Rightarrow> db \<Rightarrow> repo_error + int option \<times> db" where
  "sql_update_runs p f d =
     (if \<forall>r \<in> set (db_runs d). p r \<longrightarrow> run_check (f r) \<and> run_trigger r (f r)
      then Inr (map_option r_id (first_row p (db_runs d)),
                d\<lparr>db_runs := update_rows p f (db_runs d)\<rparr>)
      else Inl IntegrityError)"

definition sql_insert_run :: "task_run \<Rightarrow> db \<Rightarrow> repo_error + task_run \<times> db" where
  "sql_insert_run r d =
     (let row = r\<lparr>r_id := next_id (map r_id (db_runs d))\<rparr>
      in if run_check row \<and>
            (\<forall>r' \<in> set (db_runs d).
               \<not> (r_task_id r' = r_task_id row \<and> r_run_number r' = r_run_number row)) \<and>
            (\<exists>t \<in> set (db_tasks d). t_id t = r_task_id row)
         then Inr (row, d\<lparr>db_runs := db_runs d @ [row]\<rparr>)
         else Inl IntegrityError)"

end
