(* ===== verification/Transitions.thy ===== *)
theory Transitions
  imports Models
begin

text \<open>
  The task transition policy (\<open>app/task_engine/transitions.py\<close>): which status may follow which.
\<close>

section \<open>The policy\<close>

fun ALLOWED_TASK_TRANSITIONS :: "task_status \<Rightarrow> task_status set" where
  "ALLOWED_TASK_TRANSITIONS Pending = {Running, Cancelled}"
| "ALLOWED_TASK_TRANSITIONS Running =
     {Pending, Success, Failed, Retry, WaitingCredential, CancelRequested}"
| "ALLOWED_TASK_TRANSITIONS Retry = {Running, Cancelled}"
| "ALLOWED_TASK_TRANSITIONS WaitingCredential = {Pending, Cancelled}"
| "ALLOWED_TASK_TRANSITIONS CancelRequested = {CancelRequested, Cancelled, Success}"
| "ALLOWED_TASK_TRANSITIONS Success = {}"
| "ALLOWED_TASK_TRANSITIONS Failed = {}"
| "ALLOWED_TASK_TRANSITIONS Cancelled = {}"

definition TERMINAL_TASK_STATUSES :: "task_status set" where
  "TERMINAL_TASK_STATUSES = {Success, Failed, Cancelled}"

definition can_transition :: "task_status \<Rightarrow> task_status \<Rightarrow> bool" where
  "can_transition source target \<longleftrightarrow> target \<in> ALLOWED_TASK_TRANSITIONS source"

definition validate_transition :: "task_status \<Rightarrow> task_status \<Rightarrow> repo_error + unit" where
  "validate_transition source target =
     (if \<not> can_transition source target then Inl (InvalidTaskTransitionError source target)
      else Inr ())"

lemma validate_transition_Inr [simp]:
  "validate_transition s t = Inr u \<longleftrightarrow> can_transition s t"
  by (simp add: validate_transition_def)

lemma terminal_task_iff [simp]:
  "s \<in> TERMINAL_TASK_STATUSES \<longleftrightarrow> s = Success \<or> s = Failed \<or> s = Cancelled"
  by (auto simp: TERMINAL_TASK_STATUSES_def)

section \<open>Paths through the policy\<close>

text \<open>A path is a run of allowed changes of status; \<open>status_path s ss\<close> starts at \<open>s\<close>.\<close>

fun status_path :: "task_status \<Rightarrow> task_status list \<Rightarrow> bool" where
  "status_path s [] = True"
| "status_path s (u # us) \<longleftrightarrow> can_transition s u \<and> status_path u us"

lemma terminal_stuck: "s \<in> TERMINAL_TASK_STATUSES \<longleftrightarrow> (\<forall>u. \<not> can_transition s u)"
proof (cases s)
  case Pending
  then have "can_transition s Running" by (simp add: can_transition_def)
  with Pending show ?thesis by auto
next
  case Running
  then have "can_transition s Success" by (simp add: can_transition_def)
  with Running show ?thesis by auto
next
  case Retry
  then have "can_transition s Running" by (simp add: can_transition_def)
  with Retry show ?thesis by auto
next
  case WaitingCredential
  then have "can_transition s Pending" by (simp add: can_transition_def)
  with WaitingCredential show ?thesis by auto
next
  case CancelRequested
  then have "can_transition s Cancelled" by (simp add: can_transition_def)
  with CancelRequested show ?thesis by auto
qed (simp_all add: can_transition_def)

lemma status_path_cancel_requested:
  "status_path CancelRequested us \<Longrightarrow> u \<in> set us \<Longrightarrow>
     u = CancelRequested \<or> u = Cancelled \<or> u = Success"
proof (induction us)
  case Nil
  then show ?case by simp
next
  case (Cons v vs)
  from Cons.prems(1) consider "v = CancelRequested" | "v = Cancelled" | "v = Success"
    by (auto simp: can_transition_def)
  then show ?case
  proof cases
    case 1
    with Cons show ?thesis by auto
  next
    case 2
    with Cons.prems show ?thesis by (cases vs) (auto simp: can_transition_def)
  next
    case 3
    with Cons.prems show ?thesis by (cases vs) (auto simp: can_transition_def)
  qed
qed

end
