(* ===== verification/TaskRepository.thy ===== *)
theory TaskRepository
  imports Transitions
begin

text \<open>
  The operations of \<open>TaskRepository\<close> (\<open>app/repositories/tasks.py\<close>).

  Every operation returns \<open>Inl\<close> the exception it raises, or \<open>Inr\<close> its value with the new
  database.  An exception leaves the database as it was: no operation writes before a check that
  can fail, but inside \<open>begin_nested\<close>, whose savepoint is rolled back.

  An operation that reads and then writes takes the two states separately: \<open>seen\<close> is what its
  reads returned (the ORM's identity map and its \<open>SELECT\<close>s may be older than the database),
  \<open>d\<close> is the database its \<open>UPDATE\<close>s meet.  With \<open>seen = d\<close> the operation runs alone.
  \<open>occurred_at or self._clock()\<close> and its like are the argument \<open>now\<close>; the random lock token of
  \<open>secrets.token_hex\<close> is the argument \<open>token\<close>.
\<close>

section \<open>Constants and results\<close>

definition QUEUE_TASK_STATUSES :: "task_status set" where
  "QUEUE_TASK_STATUSES = {Pending, Retry}"

definition CLAIMABLE_TASK_STATUSES :: "task_status set" where
  "CLAIMABLE_TASK_STATUSES = insert CancelRequested QUEUE_TASK_STATUSES"

definition LEASED_TASK_STATUSES :: "task_status set" where
  "LEASED_TASK_STATUSES = {Running, CancelRequested}"

definition LEASE_EXPIRED_ERROR_CODE :: string where
  "LEASE_EXPIRED_ERROR_CODE = ''WORKER_LEASE_EXPIRED''"

definition LEASE_EXPIRED_ERROR_MESSAGE :: string where
  "LEASE_EXPIRED_ERROR_MESSAGE = ''worker lease expired before task completion''"

definition LEGACY_CUTOVER_ERROR_CODE :: string where
  "LEGACY_CUTOVER_ERROR_CODE = ''LEGACY_CUTOVER_RECOVERY''"

definition LEGACY_CUTOVER_ERROR_MESSAGE :: string where
  "LEGACY_CUTOVER_ERROR_MESSAGE =
     ''legacy execution stopped during process cutover; remote outcome is unknown''"

fun TASK_TO_RUN_TERMINAL_STATUS :: "task_status \<Rightarrow> run_status option" where
  "TASK_TO_RUN_TERMINAL_STATUS Pending = Some RunSuccess"
| "TASK_TO_RUN_TERMINAL_STATUS Success = Some RunSuccess"
| "TASK_TO_RUN_TERMINAL_STATUS Failed = Some RunFailed"
| "TASK_TO_RUN_TERMINAL_STATUS Retry = Some RunFailed"
| "TASK_TO_RUN_TERMINAL_STATUS WaitingCredential = Some RunBlocked"
| "TASK_TO_RUN_TERMINAL_STATUS Cancelled = Some RunCancelled"
| "TASK_TO_RUN_TERMINAL_STATUS Running = None"
| "TASK_TO_RUN_TERMINAL_STATUS CancelRequested = None"

lemmas task_status_sets =
  QUEUE_TASK_STATUSES_def CLAIMABLE_TASK_STATUSES_def LEASED_TASK_STATUSES_def

record task_claim =
  c_task :: task
  c_task_run :: task_run
  c_lock_token :: string
  c_lease_until :: datetime

record expired_lease =
  e_task_id :: int
  e_status :: task_status
  e_worker_id :: string
  e_lock_token :: string
  e_lease_until :: datetime
  e_retry_count :: int

record recovered_lease =
  v_task :: task
  v_task_run :: task_run
  v_previous_lock_token :: string

datatype run_action = RunAppended | RunFinalized | RunPreserved

record reconciled_legacy =
  l_task :: task
  l_task_run :: task_run
  l_run_action :: run_action

section \<open>Private helpers\<close>

definition require_task :: "db \<Rightarrow> int \<Rightarrow> repo_error + task" where
  "require_task d task_id =
     (case first_row (\<lambda>t. t_id t = task_id) (db_tasks d) of
        None \<Rightarrow> Inl (TaskNotFoundError task_id)
      | Some t \<Rightarrow> Inr t)"

definition require_task_run :: "db \<Rightarrow> int \<Rightarrow> repo_error + task_run" where
  "require_task_run d run_id =
     (case first_row (\<lambda>r. r_id r = run_id) (db_runs d) of
        None \<Rightarrow> Inl (TaskRunNotFoundError run_id)
      | Some r \<Rightarrow> Inr r)"

definition append_task_run :: "task_run \<Rightarrow> db \<Rightarrow> repo_error + task_run \<times> db" where
  "append_task_run r d =
     (if r_status r \<noteq> RunRunning then Inl (ValueError NewRunNotRunning)
      else sql_insert_run r d)"

definition active_run_of :: "int \<Rightarrow> string \<Rightarrow> string \<Rightarrow> task_run \<Rightarrow> bool" where
  "active_run_of task_id worker_id lock_token r \<longleftrightarrow>
     r_task_id r = task_id \<and> r_status r = RunRunning \<and>
     r_worker_id r = Some worker_id \<and> r_lock_token r = Some lock_token"

definition lost_run_row :: "datetime \<Rightarrow> task_run \<Rightarrow> task_run" where
  "lost_run_row recovered_at r =
     r\<lparr>r_status := RunLost,
       r_finished_at := Some recovered_at,
       r_result_summary := Some LEASE_EXPIRED_ERROR_MESSAGE,
       r_error_code := Some LEASE_EXPIRED_ERROR_CODE,
       r_error_message := Some LEASE_EXPIRED_ERROR_MESSAGE,
       r_updated_at := recovered_at\<rparr>"

definition mark_task_run_lost ::
    "int \<Rightarrow> string \<Rightarrow> string \<Rightarrow> datetime \<Rightarrow> db \<Rightarrow> repo_error + int option \<times> db" where
  "mark_task_run_lost task_id worker_id lock_token recovered_at d =
     sql_update_runs
       (active_run_of task_id worker_id lock_token) (lost_run_row recovered_at) d"

definition validate_owner_arguments :: "string \<Rightarrow> timedelta \<Rightarrow> repo_error + unit" where
  "validate_owner_arguments worker_id lease_duration =
     (if worker_id = [] then Inl (ValueError EmptyWorkerId)
      else if lease_duration \<le> 0 then Inl (ValueError NonPositiveLease)
      else Inr ())"

definition validate_expected_status :: "task \<Rightarrow> task_status \<Rightarrow> repo_error + unit" where
  "validate_expected_status t expected =
     (if t_status t \<noteq> expected
      then Inl (TaskStateConflictError (t_id t) (Exactly expected) (t_status t))
      else Inr ())"

text \<open>
  \<open>_task_transition_values\<close> returns the columns to set; here it is the update they make.  A
  column the dictionary does not hold keeps its value.
\<close>

definition task_transition_values ::
    "task_status \<Rightarrow> datetime \<Rightarrow> string option \<Rightarrow> string option \<Rightarrow> string option \<Rightarrow>
     datetime option \<Rightarrow> task \<Rightarrow> task" where
  "task_transition_values target occurred_at reason ec em next_attempt t =
     (let t1 = t\<lparr>t_status := target,
                 t_last_error_code := ec,
                 t_last_error_message := em,
                 t_next_attempt_at := (if target \<in> {Pending, Retry} then next_attempt else None),
                 t_completed_at :=
                   (if target \<in> TERMINAL_TASK_STATUSES then Some occurred_at else None)\<rparr>;
          t2 = (if target = WaitingCredential
                then t1\<lparr>t_blocked_reason := reason, t_blocked_at := Some occurred_at\<rparr>
                else if target \<noteq> CancelRequested
                then t1\<lparr>t_blocked_reason := None, t_blocked_at := None\<rparr>
                else t1)
      in if target = CancelRequested
         then t2\<lparr>t_cancel_requested_at := Some occurred_at\<rparr> else t2)"

definition release_ownership :: "datetime \<Rightarrow> task \<Rightarrow> task" where
  "release_ownership updated_at t =
     t\<lparr>t_locked_by := None, t_lock_token := None, t_locked_at := None, t_lease_until := None,
       t_updated_at := updated_at\<rparr>"

section \<open>Creating and reading tasks\<close>

text \<open>
  \<open>task.status is None\<close> stands for the column default; here a task always has a status.
\<close>

definition create_task :: "task \<Rightarrow> db \<Rightarrow> repo_error + task \<times> db" where
  "create_task t d =
     (if t_status t \<noteq> Pending then Inl (ValueError NewTaskNotPending)
      else sql_insert_task t d)"

definition get_task :: "db \<Rightarrow> int \<Rightarrow> task option" where
  "get_task d task_id = first_row (\<lambda>t. t_id t = task_id) (db_tasks d)"

section \<open>Plain transitions\<close>

definition transition_row ::
    "task_status \<Rightarrow> datetime \<Rightarrow> string option \<Rightarrow> string option \<Rightarrow> string option \<Rightarrow>
     datetime option \<Rightarrow> task \<Rightarrow> task" where
  "transition_row target now reason ec em next_attempt t =
     (let t' = task_transition_values target now reason ec em next_attempt t;
          t'' = (if target = CancelRequested
                 then t'\<lparr>t_cancel_requested_at := Some (coalesce (t_cancel_requested_at t) now)\<rparr>
                 else t')
      in t''\<lparr>t_updated_at := now\<rparr>)"

definition transition ::
    "db \<Rightarrow> db \<Rightarrow> int \<Rightarrow> task_status \<Rightarrow> task_status \<Rightarrow> datetime \<Rightarrow> string option \<Rightarrow>
     string option \<Rightarrow> string option \<Rightarrow> datetime option \<Rightarrow> repo_error + task \<times> db" where
  "transition seen d task_id expected target now reason ec em next_attempt =
     bindR (require_task seen task_id) (\<lambda>t.
     bindR (validate_expected_status t expected) (\<lambda>_.
     bindR (validate_transition expected target) (\<lambda>_.
     if target = Running \<or> (expected \<in> LEASED_TASK_STATUSES \<and> target \<noteq> CancelRequested)
     then Inl (TaskOwnershipRequiredError expected target)
     else
     bindR (sql_update_tasks
              (\<lambda>t. t_id t = task_id \<and> t_status t = expected)
              (transition_row target now reason ec em next_attempt) d) (\<lambda>(transitioned, d').
     case transitioned of
       None \<Rightarrow> bindR (require_task d' task_id) (\<lambda>actual.
                 Inl (TaskStateConflictError task_id (Exactly expected) (t_status actual)))
     | Some tid \<Rightarrow> bindR (require_task d' tid) (\<lambda>t'. Inr (t', d'))))))"

section \<open>Runs\<close>

definition max_run_number :: "int \<Rightarrow> db \<Rightarrow> int" where
  "max_run_number task_id d =
     foldr max (map r_run_number (filter (\<lambda>r. r_task_id r = task_id) (db_runs d))) 0"

definition create_run ::
    "int \<Rightarrow> string \<Rightarrow> string \<Rightarrow> datetime \<Rightarrow> datetime option \<Rightarrow> datetime \<Rightarrow> db \<Rightarrow>
     repo_error + task_run \<times> db" where
  "create_run task_id worker_id lock_token started_at last_heartbeat_at created_at d =
     bindR (require_task d task_id) (\<lambda>t.
     if t_status t \<notin> LEASED_TASK_STATUSES
     then Inl (TaskStateConflictError (t_id t) RunningOrCancelRequested (t_status t))
     else if t_locked_by t \<noteq> Some worker_id \<or> t_lock_token t \<noteq> Some lock_token
     then Inl (TaskOwnershipLostError task_id worker_id)
     else if first_row (\<lambda>r. r_task_id r = task_id \<and> r_status r = RunRunning) (db_runs d) \<noteq> None
     then Inl (ActiveTaskRunExistsError task_id)
     else append_task_run
            \<lparr>r_id = 0, r_task_id = task_id, r_run_number = max_run_number task_id d + 1,
             r_worker_id = Some worker_id, r_lock_token = Some lock_token,
             r_status = RunRunning, r_started_at = started_at, r_finished_at = None,
             r_last_heartbeat_at = last_heartbeat_at, r_duration_ms = None,
             r_result_summary = None, r_error_code = None, r_error_message = None,
             r_metrics = [], r_created_at = created_at, r_updated_at = created_at\<rparr> d)"

section \<open>Claiming\<close>

definition is_due :: "datetime \<Rightarrow> task \<Rightarrow> bool" where
  "is_due now t = (case t_next_attempt_at t of None \<Rightarrow> True | Some at \<Rightarrow> at \<le> now)"

definition is_claimable :: "datetime \<Rightarrow> task \<Rightarrow> bool" where
  "is_claimable now t \<longleftrightarrow>
     (t_status t \<in> QUEUE_TASK_STATUSES \<and> is_due now t \<and> ownership_clear t) \<or>
     (t_status t = CancelRequested \<and> ownership_clear t)"

text \<open>
  \<open>ORDER BY priority DESC, coalesce(next_attempt_at, created_at) ASC, created_at ASC, id ASC\<close>.
\<close>

definition claim_order :: "task \<Rightarrow> int \<times> datetime \<times> datetime \<times> int" where
  "claim_order t =
     (- t_priority t, coalesce (t_next_attempt_at t) (t_created_at t), t_created_at t, t_id t)"

definition claim_candidate :: "datetime \<Rightarrow> db \<Rightarrow> int option" where
  "claim_candidate now d = map_option t_id (select_one claim_order (is_claimable now) (db_tasks d))"

definition claim_row :: "string \<Rightarrow> string \<Rightarrow> datetime \<Rightarrow> datetime \<Rightarrow> task \<Rightarrow> task" where
  "claim_row worker_id token now lease_until t =
     t\<lparr>t_status := (if t_status t = CancelRequested then CancelRequested else Running),
       t_locked_by := Some worker_id,
       t_lock_token := Some token,
       t_locked_at := Some now,
       t_lease_until := Some lease_until,
       t_next_attempt_at := None,
       t_updated_at := now\<rparr>"

definition claim_next ::
    "string \<Rightarrow> timedelta \<Rightarrow> string \<Rightarrow> datetime \<Rightarrow> db \<Rightarrow> repo_error + task_claim option \<times> db" where
  "claim_next worker_id lease_duration token now d =
     bindR (validate_owner_arguments worker_id lease_duration) (\<lambda>_.
     let lease_until = now + lease_duration;
         candidate = claim_candidate now d
     in
     bindR (sql_update_tasks
              (\<lambda>t. Some (t_id t) = candidate \<and> t_status t \<in> CLAIMABLE_TASK_STATUSES \<and>
                   ownership_clear t \<and> (t_status t = CancelRequested \<or> is_due now t))
              (claim_row worker_id token now lease_until) d) (\<lambda>(claimed, d1).
     case claimed of
       None \<Rightarrow> Inr (None, d1)
     | Some task_id \<Rightarrow>
         bindR (require_task d1 task_id) (\<lambda>t.
         bindR (create_run task_id worker_id token now (Some now) now d1) (\<lambda>(r, d2).
         Inr (Some \<lparr>c_task = t, c_task_run = r, c_lock_token = token,
                     c_lease_until = lease_until\<rparr>, d2)))))"

section \<open>Heartbeat\<close>

definition lease_live :: "datetime \<Rightarrow> task \<Rightarrow> bool" where
  "lease_live now t = (case t_lease_until t of None \<Rightarrow> False | Some u \<Rightarrow> now < u)"

definition lease_expired :: "datetime \<Rightarrow> task \<Rightarrow> bool" where
  "lease_expired now t = (case t_lease_until t of None \<Rightarrow> False | Some u \<Rightarrow> u \<le> now)"

definition owned_row :: "int \<Rightarrow> string \<Rightarrow> string \<Rightarrow> datetime \<Rightarrow> task \<Rightarrow> bool" where
  "owned_row task_id worker_id lock_token now t \<longleftrightarrow>
     t_id t = task_id \<and> t_locked_by t = Some worker_id \<and> t_lock_token t = Some lock_token \<and>
     lease_live now t"

definition heartbeat ::
    "int \<Rightarrow> string \<Rightarrow> string \<Rightarrow> timedelta \<Rightarrow> datetime \<Rightarrow> db \<Rightarrow>
     repo_error + (task \<times> task_run) \<times> db" where
  "heartbeat task_id worker_id lock_token lease_duration now d =
     bindR (validate_owner_arguments worker_id lease_duration) (\<lambda>_.
     if lock_token = [] then Inl (ValueError EmptyLockToken)
     else
     bindR (sql_update_tasks
              (\<lambda>t. t_status t \<in> LEASED_TASK_STATUSES \<and>
                   owned_row task_id worker_id lock_token now t)
              (\<lambda>t. t\<lparr>t_lease_until := Some (now + lease_duration), t_updated_at := now\<rparr>) d)
       (\<lambda>(task_id_result, d1).
     case task_id_result of
       None \<Rightarrow> Inl (TaskOwnershipLostError task_id worker_id)
     | Some _ \<Rightarrow>
     bindR (sql_update_runs (active_run_of task_id worker_id lock_token)
              (\<lambda>r. r\<lparr>r_last_heartbeat_at := Some now, r_updated_at := now\<rparr>) d1)
       (\<lambda>(task_run_id, d2).
     case task_run_id of
       None \<Rightarrow> Inl (TaskOwnershipLostError task_id worker_id)
     | Some run_id \<Rightarrow>
     bindR (require_task d2 task_id) (\<lambda>t.
     bindR (require_task_run d2 run_id) (\<lambda>r. Inr ((t, r), d2))))))"

section \<open>Finishing a run\<close>

definition finish_task_row ::
    "task_status \<Rightarrow> datetime \<Rightarrow> datetime \<Rightarrow> string option \<Rightarrow> string option \<Rightarrow> string option \<Rightarrow>
     datetime option \<Rightarrow> bool \<Rightarrow> task \<Rightarrow> task" where
  "finish_task_row task_status outcome_at clock_now reason ec em next_attempt consume t =
     (let t' = release_ownership clock_now
                 (task_transition_values task_status outcome_at reason ec em next_attempt t)
      in if consume then t'\<lparr>t_retry_count := t_retry_count t + 1\<rparr> else t')"

definition finish_run_row ::
    "run_status \<Rightarrow> datetime \<Rightarrow> datetime \<Rightarrow> int option \<Rightarrow> string option \<Rightarrow> string option \<Rightarrow>
     string option \<Rightarrow> (string \<times> json) list option \<Rightarrow> task_run \<Rightarrow> task_run" where
  "finish_run_row run_status outcome_at clock_now duration summary ec em metrics r =
     (let r' = r\<lparr>r_status := run_status,
                 r_finished_at := Some outcome_at,
                 r_duration_ms := duration,
                 r_result_summary := summary,
                 r_error_code := ec,
                 r_error_message := em,
                 r_updated_at := clock_now\<rparr>
      in case metrics of None \<Rightarrow> r' | Some m \<Rightarrow> r'\<lparr>r_metrics := m\<rparr>)"

text \<open>
  \<open>clock_now\<close> is \<open>ownership_checked_at\<close>, the clock read of the operation, and \<open>finished_at\<close>
  the optional argument.  The checks are in the order of the code; the check that a status can
  consume retry budget comes after the values are built, still before the first write.
\<close>

definition finish_run ::
    "int \<Rightarrow> int \<Rightarrow> string \<Rightarrow> string \<Rightarrow> task_status \<Rightarrow> task_status \<Rightarrow> run_status \<Rightarrow>
     datetime option \<Rightarrow> int option \<Rightarrow> string option \<Rightarrow> string option \<Rightarrow> string option \<Rightarrow>
     (string \<times> json) list option \<Rightarrow> string option \<Rightarrow> datetime option \<Rightarrow> bool \<Rightarrow> datetime \<Rightarrow>
     db \<Rightarrow> repo_error + (task \<times> task_run) \<times> db" where
  "finish_run task_id task_run_id worker_id lock_token expected task_status run_status
     finished_at duration_ms summary ec em metrics reason next_attempt consume clock_now d =
     (if worker_id = [] then Inl (ValueError EmptyWorkerId)
      else if lock_token = [] then Inl (ValueError EmptyLockToken)
      else
      bindR (validate_transition expected task_status) (\<lambda>_.
      let expected_run_status = TASK_TO_RUN_TERMINAL_STATUS task_status in
      if task_status = Pending \<and>
         (expected \<noteq> Running \<or> next_attempt = None \<or>
          (case metrics of None \<Rightarrow> True | Some m \<Rightarrow> jget m ''continuation'' \<noteq> JBool True) \<or>
          consume)
      then Inl (ValueError ContinuationInvalid)
      else if expected_run_status \<noteq> Some run_status \<or> run_status \<notin> TERMINAL_TASK_RUN_STATUSES
      then Inl (ValueError (RunStatusMismatch task_status))
      else
      let outcome_at = coalesce finished_at clock_now in
      if consume \<and> task_status \<in> {Success, WaitingCredential, Cancelled}
      then Inl (ValueError (CannotConsumeRetryBudget task_status))
      else
      bindR (sql_update_tasks
               (\<lambda>t. t_status t = expected \<and>
                    owned_row task_id worker_id lock_token clock_now t)
               (finish_task_row task_status outcome_at clock_now reason ec em next_attempt
                  consume) d)
        (\<lambda>(persisted_task_id, d1).
      case persisted_task_id of
        None \<Rightarrow> Inl (TaskOwnershipLostError task_id worker_id)
      | Some tid \<Rightarrow>
      bindR (sql_update_runs
               (\<lambda>r. r_id r = task_run_id \<and> active_run_of task_id worker_id lock_token r)
               (finish_run_row run_status outcome_at clock_now duration_ms summary ec em
                  metrics) d1)
        (\<lambda>(persisted_run_id, d2).
      case persisted_run_id of
        None \<Rightarrow> Inl (TaskRunNotFoundError task_run_id)
      | Some rid \<Rightarrow>
      bindR (require_task d2 tid) (\<lambda>t.
      bindR (require_task_run d2 rid) (\<lambda>r. Inr ((t, r), d2)))))))"

section \<open>Recovering expired leases\<close>

definition list_expired_leases :: "int \<Rightarrow> datetime \<Rightarrow> db \<Rightarrow> repo_error + expired_lease list" where
  "list_expired_leases limit now d =
     (if limit < 1 \<or> 1000 < limit then Inl (ValueError LimitOutOfRange)
      else Inr
        (let rows = take (nat limit)
           (sort_key (\<lambda>t. (coalesce (t_lease_until t) 0, - t_priority t, t_id t))
             (filter (\<lambda>t. t_status t \<in> LEASED_TASK_STATUSES \<and> t_locked_by t \<noteq> None \<and>
                          t_lock_token t \<noteq> None \<and> t_lease_until t \<noteq> None \<and>
                          lease_expired now t) (db_tasks d)))
         in List.map_filter (\<lambda>t.
              case (t_locked_by t, t_lock_token t, t_lease_until t) of
                (Some w, Some k, Some u) \<Rightarrow>
                  Some \<lparr>e_task_id = t_id t, e_status = t_status t, e_worker_id = w,
                        e_lock_token = k, e_lease_until = u, e_retry_count = t_retry_count t\<rparr>
              | _ \<Rightarrow> None) rows))"

definition lease_matches :: "expired_lease \<Rightarrow> datetime \<Rightarrow> task \<Rightarrow> bool" where
  "lease_matches lease now t \<longleftrightarrow>
     t_id t = e_task_id lease \<and> t_status t = e_status lease \<and>
     t_locked_by t = Some (e_worker_id lease) \<and> t_lock_token t = Some (e_lock_token lease) \<and>
     lease_expired now t"

definition recovery_target ::
    "task_status \<Rightarrow> int \<Rightarrow> int \<Rightarrow> datetime option \<Rightarrow>
     repo_error + task_status \<times> datetime option" where
  "recovery_target status retry_count max_retries next_attempt =
     (if status = CancelRequested then Inr (CancelRequested, None)
      else if max_retries < retry_count then Inr (Failed, None)
      else case next_attempt of
             None \<Rightarrow> Inl (ValueError NextAttemptRequired)
           | Some at \<Rightarrow> Inr (Retry, Some at))"

definition recover_row :: "task_status \<Rightarrow> datetime option \<Rightarrow> int \<Rightarrow> datetime \<Rightarrow> task \<Rightarrow> task" where
  "recover_row target retry_at retry_count now t =
     (let t' = task_transition_values target now None (Some LEASE_EXPIRED_ERROR_CODE)
                 (Some LEASE_EXPIRED_ERROR_MESSAGE) retry_at t;
          t'' = (if target = CancelRequested
                 then t'\<lparr>t_cancel_requested_at := t_cancel_requested_at t\<rparr> else t')
      in release_ownership now (t''\<lparr>t_retry_count := retry_count\<rparr>))"

definition recover_expired_lease ::
    "db \<Rightarrow> expired_lease \<Rightarrow> datetime option \<Rightarrow> datetime \<Rightarrow> db \<Rightarrow>
     repo_error + recovered_lease option \<times> db" where
  "recover_expired_lease seen lease next_attempt now d =
     (case first_row (lease_matches lease now) (db_tasks seen) of
        None \<Rightarrow> Inr (None, d)
      | Some current \<Rightarrow>
      let retry_count = t_retry_count current + 1 in
      bindR (recovery_target (t_status current) retry_count (t_max_retries current) next_attempt)
        (\<lambda>(target, retry_at).
      bindR (sql_update_tasks (lease_matches lease now)
               (recover_row target retry_at retry_count now) d)
        (\<lambda>(recovered_task_id, d1).
      case recovered_task_id of
        None \<Rightarrow> Inr (None, d1)
      | Some tid \<Rightarrow>
      bindR (mark_task_run_lost (e_task_id lease) (e_worker_id lease) (e_lock_token lease) now d1)
        (\<lambda>(recovered_run_id, d2).
      case recovered_run_id of
        None \<Rightarrow> Inl (TaskRunNotFoundError (e_task_id lease))
      | Some rid \<Rightarrow>
      bindR (require_task d2 tid) (\<lambda>t.
      bindR (require_task_run d2 rid) (\<lambda>r.
      Inr (Some \<lparr>v_task = t, v_task_run = r,
                  v_previous_lock_token = e_lock_token lease\<rparr>, d2)))))))"

section \<open>Reconciling a legacy orphan\<close>

text \<open>
  \<open>int((finished_at - started_at).total_seconds() * 1000)\<close>: the seconds are a double, and so is
  the product.  Naive and aware datetimes are both UTC instants here.
\<close>

definition duration_ms :: "datetime \<Rightarrow> datetime \<Rightarrow> int" where
  "duration_ms started_at finished_at =
     (let (m, e) = float_div (finished_at - started_at) 1000000;
          (m', e') = float_div (m * 1000) e
      in max 0 (m' div e'))"

definition orphan_row ::
    "task_status \<Rightarrow> int \<Rightarrow> datetime \<Rightarrow> datetime \<Rightarrow> task \<Rightarrow> task" where
  "orphan_row target retry_count next_attempt now t =
     release_ownership now
       (t\<lparr>t_status := target,
          t_retry_count := retry_count,
          t_next_attempt_at := (if target = Retry then Some next_attempt else None),
          t_last_error_code := Some LEGACY_CUTOVER_ERROR_CODE,
          t_last_error_message := Some LEGACY_CUTOVER_ERROR_MESSAGE,
          t_completed_at := (if target = Failed then Some now else None)\<rparr>)"

definition reconcile_run ::
    "db \<Rightarrow> task \<Rightarrow> task_run list \<Rightarrow> task_run option \<Rightarrow> datetime \<Rightarrow> db \<Rightarrow>
     repo_error + (int \<times> run_action) \<times> db" where
  "reconcile_run seen t active_runs equivalent_run now d =
     (case active_runs of
        active_run # _ \<Rightarrow>
          bindR (sql_update_runs (\<lambda>r. r_id r = r_id active_run \<and> r_status r = RunRunning)
                   (\<lambda>r. r\<lparr>r_status := RunLost,
                          r_finished_at := Some now,
                          r_duration_ms := Some (duration_ms (r_started_at active_run) now),
                          r_result_summary := Some LEGACY_CUTOVER_ERROR_MESSAGE,
                          r_error_code := Some LEGACY_CUTOVER_ERROR_CODE,
                          r_error_message := Some LEGACY_CUTOVER_ERROR_MESSAGE,
                          r_updated_at := now\<rparr>) d) (\<lambda>(rid, d1).
          case rid of
            None \<Rightarrow> Inl (TaskRunNotFoundError (r_id active_run))
          | Some i \<Rightarrow> Inr ((i, RunFinalized), d1))
      | [] \<Rightarrow>
          (case equivalent_run of
             Some r \<Rightarrow> Inr ((r_id r, RunPreserved), d)
           | None \<Rightarrow>
               let started = coalesce (t_started_at t) (t_created_at t) in
               bindR (sql_insert_run
                        \<lparr>r_id = 0, r_task_id = t_id t,
                         r_run_number = max_run_number (t_id t) d + 1,
                         r_worker_id = Some ''legacy-cutover'', r_lock_token = None,
                         r_status = RunLost, r_started_at = started, r_finished_at = Some now,
                         r_last_heartbeat_at = None,
                         r_duration_ms = Some (duration_ms started now),
                         r_result_summary = Some LEGACY_CUTOVER_ERROR_MESSAGE,
                         r_error_code = Some LEGACY_CUTOVER_ERROR_CODE,
                         r_error_message = Some LEGACY_CUTOVER_ERROR_MESSAGE,
                         r_metrics = [(''schema_version'', JInt 1),
                                      (''reconciled_from'', JStr ''legacy'')],
                         r_created_at = now, r_updated_at = now\<rparr> d) (\<lambda>(r, d1).
               Inr ((r_id r, RunAppended), d1))))"

definition reconcile_legacy_orphan ::
    "db \<Rightarrow> int \<Rightarrow> datetime \<Rightarrow> datetime \<Rightarrow> db \<Rightarrow> repo_error + reconciled_legacy option \<times> db" where
  "reconcile_legacy_orphan seen task_id next_attempt now d =
     bindR (require_task seen task_id) (\<lambda>t.
     if t_status t \<noteq> Running then Inr (None, d)
     else if ownership_complete t then Inr (None, d)
     else
     let retry_count = max (max (t_retry_count t) (t_attempt_count t)) 1;
         target = (if retry_count \<le> t_max_retries t then Retry else Failed);
         active_runs = sort_key (\<lambda>r. (r_run_number r, r_id r))
           (filter (\<lambda>r. r_task_id r = task_id \<and> r_status r = RunRunning) (db_runs seen));
         equivalent_run = select_one (\<lambda>r. (- r_run_number r, - r_id r))
           (\<lambda>r. r_task_id r = task_id \<and> r_status r = RunLost \<and>
                r_error_code r = Some LEGACY_CUTOVER_ERROR_CODE) (db_runs seen)
     in
     if 1 < length active_runs then Inl (LegacyTaskRunConflictError task_id)
     else if active_runs \<noteq> [] \<and> equivalent_run \<noteq> None
     then Inl (LegacyTaskRunConflictError task_id)
     else
     bindR (sql_update_tasks
              (\<lambda>t. t_id t = task_id \<and> t_status t = Running \<and> \<not> ownership_complete t)
              (orphan_row target retry_count next_attempt now) d)
       (\<lambda>(reconciled_task_id, d1).
     case reconciled_task_id of
       None \<Rightarrow> Inr (None, d1)
     | Some tid \<Rightarrow>
     bindR (reconcile_run seen t active_runs equivalent_run now d1) (\<lambda>((rid, action), d2).
     bindR (require_task d2 tid) (\<lambda>t'.
     bindR (require_task_run d2 rid) (\<lambda>r.
     Inr (Some \<lparr>l_task = t', l_task_run = r, l_run_action = action\<rparr>, d2))))))"

end
