(* ===== verification/TaskInvariants.thy ===== *)
theory TaskInvariants
  imports TaskRepository
begin

text \<open>
  The invariants of the task store and their preservation by each repository operation: the
  tables satisfy the SQL constraints (\<open>table_inv\<close>), and the leases on the tasks correspond one
  to one to the running task runs (\<open>lease_inv\<close>).
\<close>

section \<open>Invariants\<close>

definition table_inv :: "db \<Rightarrow> bool" where
  "table_inv d \<longleftrightarrow>
     distinct (map t_id (db_tasks d)) \<and>
     (\<forall>t \<in> set (db_tasks d). task_check t) \<and>
     unique_column (map t_idempotency_key (db_tasks d)) \<and>
     distinct (map r_id (db_runs d)) \<and>
     distinct (map (\<lambda>r. (r_task_id r, r_run_number r)) (db_runs d)) \<and>
     (\<forall>r \<in> set (db_runs d). run_check r) \<and>
     (\<forall>r \<in> set (db_runs d). r_task_id r \<in> t_id ` set (db_tasks d))"

definition run_of :: "task \<Rightarrow> task_run \<Rightarrow> bool" where
  "run_of t r \<longleftrightarrow> r_task_id r = t_id t \<and> r_status r = RunRunning \<and>
     r_worker_id r = t_locked_by t \<and> r_lock_token r = t_lock_token t"

text \<open>
  A leased task is running or being cancelled, a running task is leased, a running run belongs
  to a leased task with its worker and token, and every leased task has exactly one running run.
\<close>

definition leases_agree :: "task set \<Rightarrow> task_run set \<Rightarrow> bool" where
  "leases_agree ts rs \<longleftrightarrow>
     (\<forall>t \<in> ts. ownership_complete t \<longrightarrow> t_status t \<in> LEASED_TASK_STATUSES) \<and>
     (\<forall>t \<in> ts. t_status t = Running \<longrightarrow> ownership_complete t) \<and>
     (\<forall>t \<in> ts. ownership_complete t \<longrightarrow> (\<exists>r \<in> rs. run_of t r)) \<and>
     (\<forall>r \<in> rs. r_status r = RunRunning \<longrightarrow> (\<exists>t \<in> ts. ownership_complete t \<and> run_of t r)) \<and>
     (\<forall>r \<in> rs. \<forall>r' \<in> rs.
        r_status r = RunRunning \<and> r_status r' = RunRunning \<and> r_task_id r = r_task_id r' \<longrightarrow> r = r')"

definition lease_inv :: "db \<Rightarrow> bool" where
  "lease_inv d \<longleftrightarrow> leases_agree (set (db_tasks d)) (set (db_runs d))"

definition store_inv :: "db \<Rightarrow> bool" where
  "store_inv d \<longleftrightarrow> table_inv d \<and> lease_inv d"

text \<open>The history of runs only grows: no run disappears, and a terminal run is never rewritten.\<close>

definition history_extends :: "db \<Rightarrow> db \<Rightarrow> bool" where
  "history_extends d d' \<longleftrightarrow>
     (\<forall>r \<in> set (db_runs d). r_status r \<noteq> RunRunning \<longrightarrow> r \<in> set (db_runs d')) \<and>
     (\<forall>r \<in> set (db_runs d). \<exists>r' \<in> set (db_runs d').
        r_id r' = r_id r \<and> r_task_id r' = r_task_id r \<and> r_run_number r' = r_run_number r)"

section \<open>What the row updates keep\<close>

lemma task_transition_values_simps [simp]:
  "t_id (task_transition_values s o1 b c e n t) = t_id t"
  "t_status (task_transition_values s o1 b c e n t) = s"
  "t_priority (task_transition_values s o1 b c e n t) = t_priority t"
  "t_payload (task_transition_values s o1 b c e n t) = t_payload t"
  "t_payload_version (task_transition_values s o1 b c e n t) = t_payload_version t"
  "t_idempotency_key (task_transition_values s o1 b c e n t) = t_idempotency_key t"
  "t_retry_count (task_transition_values s o1 b c e n t) = t_retry_count t"
  "t_max_retries (task_transition_values s o1 b c e n t) = t_max_retries t"
  "t_locked_by (task_transition_values s o1 b c e n t) = t_locked_by t"
  "t_lock_token (task_transition_values s o1 b c e n t) = t_lock_token t"
  "t_locked_at (task_transition_values s o1 b c e n t) = t_locked_at t"
  "t_lease_until (task_transition_values s o1 b c e n t) = t_lease_until t"
  by (simp_all add: task_transition_values_def Let_def)

lemma release_ownership_simps [simp]:
  "t_id (release_ownership u t) = t_id t"
  "t_status (release_ownership u t) = t_status t"
  "t_priority (release_ownership u t) = t_priority t"
  "t_payload (release_ownership u t) = t_payload t"
  "t_payload_version (release_ownership u t) = t_payload_version t"
  "t_idempotency_key (release_ownership u t) = t_idempotency_key t"
  "t_retry_count (release_ownership u t) = t_retry_count t"
  "t_max_retries (release_ownership u t) = t_max_retries t"
  "ownership_clear (release_ownership u t)"
  "\<not> ownership_complete (release_ownership u t)"
  by (simp_all add: release_ownership_def ownership_clear_def ownership_complete_def)

lemma ownership_clear_not_complete: "ownership_clear t \<Longrightarrow> \<not> ownership_complete t"
  by (simp add: ownership_clear_def ownership_complete_def)

lemma transition_row_simps [simp]:
  "t_id (transition_row s o1 b c e n t) = t_id t"
  "t_status (transition_row s o1 b c e n t) = s"
  "t_idempotency_key (transition_row s o1 b c e n t) = t_idempotency_key t"
  "t_payload (transition_row s o1 b c e n t) = t_payload t"
  "t_payload_version (transition_row s o1 b c e n t) = t_payload_version t"
  "t_priority (transition_row s o1 b c e n t) = t_priority t"
  "t_retry_count (transition_row s o1 b c e n t) = t_retry_count t"
  "t_max_retries (transition_row s o1 b c e n t) = t_max_retries t"
  "t_locked_by (transition_row s o1 b c e n t) = t_locked_by t"
  "t_lock_token (transition_row s o1 b c e n t) = t_lock_token t"
  "t_locked_at (transition_row s o1 b c e n t) = t_locked_at t"
  "t_lease_until (transition_row s o1 b c e n t) = t_lease_until t"
  by (simp_all add: transition_row_def Let_def)

lemma claim_row_simps [simp]:
  "t_id (claim_row w k a u t) = t_id t"
  "t_status (claim_row w k a u t) =
     (if t_status t = CancelRequested then CancelRequested else Running)"
  "t_idempotency_key (claim_row w k a u t) = t_idempotency_key t"
  "t_payload (claim_row w k a u t) = t_payload t"
  "t_payload_version (claim_row w k a u t) = t_payload_version t"
  "t_retry_count (claim_row w k a u t) = t_retry_count t"
  "t_max_retries (claim_row w k a u t) = t_max_retries t"
  "t_priority (claim_row w k a u t) = t_priority t"
  "t_locked_by (claim_row w k a u t) = Some w"
  "t_lock_token (claim_row w k a u t) = Some k"
  "t_lease_until (claim_row w k a u t) = Some u"
  "ownership_complete (claim_row w k a u t)"
  by (simp_all add: claim_row_def ownership_complete_def)

lemma finish_task_row_simps [simp]:
  "t_id (finish_task_row s o1 u c e m n b t) = t_id t"
  "t_status (finish_task_row s o1 u c e m n b t) = s"
  "t_idempotency_key (finish_task_row s o1 u c e m n b t) = t_idempotency_key t"
  "t_payload (finish_task_row s o1 u c e m n b t) = t_payload t"
  "t_payload_version (finish_task_row s o1 u c e m n b t) = t_payload_version t"
  "t_priority (finish_task_row s o1 u c e m n b t) = t_priority t"
  "t_retry_count (finish_task_row s o1 u c e m n b t) = t_retry_count t + (if b then 1 else 0)"
  "t_max_retries (finish_task_row s o1 u c e m n b t) = t_max_retries t"
  "ownership_clear (finish_task_row s o1 u c e m n b t)"
  "\<not> ownership_complete (finish_task_row s o1 u c e m n b t)"
  by (simp_all add: finish_task_row_def Let_def ownership_clear_def ownership_complete_def
       release_ownership_def)

lemma finish_run_row_simps [simp]:
  "r_id (finish_run_row s o1 u n1 m c e x r) = r_id r"
  "r_task_id (finish_run_row s o1 u n1 m c e x r) = r_task_id r"
  "r_run_number (finish_run_row s o1 u n1 m c e x r) = r_run_number r"
  "r_status (finish_run_row s o1 u n1 m c e x r) = s"
  "r_duration_ms (finish_run_row s o1 u n1 m c e x r) = n1"
  by (simp_all add: finish_run_row_def Let_def split: option.splits)

lemma lost_run_row_simps [simp]:
  "r_id (lost_run_row u r) = r_id r"
  "r_task_id (lost_run_row u r) = r_task_id r"
  "r_run_number (lost_run_row u r) = r_run_number r"
  "r_duration_ms (lost_run_row u r) = r_duration_ms r"
  "r_status (lost_run_row u r) = RunLost"
  by (simp_all add: lost_run_row_def)

lemma recover_row_simps [simp]:
  "t_id (recover_row s n c u t) = t_id t"
  "t_status (recover_row s n c u t) = s"
  "t_idempotency_key (recover_row s n c u t) = t_idempotency_key t"
  "t_payload (recover_row s n c u t) = t_payload t"
  "t_payload_version (recover_row s n c u t) = t_payload_version t"
  "t_priority (recover_row s n c u t) = t_priority t"
  "t_retry_count (recover_row s n c u t) = c"
  "t_max_retries (recover_row s n c u t) = t_max_retries t"
  "ownership_clear (recover_row s n c u t)"
  "\<not> ownership_complete (recover_row s n c u t)"
  by (simp_all add: recover_row_def Let_def ownership_clear_def ownership_complete_def
       release_ownership_def)

lemma orphan_row_simps [simp]:
  "t_id (orphan_row s c n u t) = t_id t"
  "t_status (orphan_row s c n u t) = s"
  "t_idempotency_key (orphan_row s c n u t) = t_idempotency_key t"
  "t_payload (orphan_row s c n u t) = t_payload t"
  "t_payload_version (orphan_row s c n u t) = t_payload_version t"
  "t_priority (orphan_row s c n u t) = t_priority t"
  "t_retry_count (orphan_row s c n u t) = c"
  "t_max_retries (orphan_row s c n u t) = t_max_retries t"
  "ownership_clear (orphan_row s c n u t)"
  "\<not> ownership_complete (orphan_row s c n u t)"
  by (simp_all add: orphan_row_def ownership_clear_def ownership_complete_def
       release_ownership_def)

section \<open>One row at a time\<close>

lemma sql_update_tasks_one:
  assumes "table_inv d" and "sql_update_tasks p f d = Inr (Some i, d')"
    and "\<And>x. p x \<Longrightarrow> t_id x = tid"
  obtains t where "t \<in> set (db_tasks d)" and "p t" and "t_id t = tid" and "i = tid"
    and "d' = d\<lparr>db_tasks := put_row t (f t) (db_tasks d)\<rparr>"
    and "task_check (f t)" and "task_trigger t (f t)"
proof -
  from assms(2) obtain t where t: "first_row p (db_tasks d) = Some t" "i = t_id t"
    and d': "d' = d\<lparr>db_tasks := update_rows p f (db_tasks d)\<rparr>"
    and chk: "\<forall>t \<in> set (db_tasks d). p t \<longrightarrow> task_check (f t) \<and> task_trigger t (f t)"
    by (auto simp: sql_update_tasks_def Let_def split: if_splits)
  have "distinct (map t_id (db_tasks d))"
    using assms(1) by (simp add: table_inv_def)
  note one = first_row_key_unique [OF this assms(3) t(1)]
  show thesis
    using that [of t] one t d' chk assms(3) by auto
qed

lemma sql_update_tasks_none:
  assumes "sql_update_tasks p f d = Inr (None, d')"
  shows "d' = d" and "\<forall>t \<in> set (db_tasks d). \<not> p t"
proof -
  from assms show none: "\<forall>t \<in> set (db_tasks d). \<not> p t"
    by (auto simp: sql_update_tasks_def Let_def first_row_None_iff split: if_splits)
  with assms show "d' = d"
    by (auto simp: sql_update_tasks_def Let_def update_rows_none split: if_splits)
qed

lemma sql_update_tasks_total:
  assumes "table_inv d"
    and "\<And>t. t \<in> set (db_tasks d) \<Longrightarrow> p t \<Longrightarrow> task_check (f t) \<and> task_trigger t (f t)"
    and "\<And>t. t_idempotency_key (f t) = t_idempotency_key t"
  shows "sql_update_tasks p f d = Inr (map_option t_id (first_row p (db_tasks d)),
           d\<lparr>db_tasks := update_rows p f (db_tasks d)\<rparr>)"
  using assms by (simp add: sql_update_tasks_def table_inv_def map_update_rows)

lemma sql_update_runs_one:
  assumes "sql_update_runs p f d = Inr (Some i, d')"
    and "\<forall>x \<in> set (db_runs d). \<forall>y \<in> set (db_runs d). p x \<and> p y \<longrightarrow> x = y"
  obtains r where "r \<in> set (db_runs d)" and "p r" and "i = r_id r"
    and "d' = d\<lparr>db_runs := put_row r (f r) (db_runs d)\<rparr>"
    and "run_check (f r)" and "run_trigger r (f r)"
proof -
  from assms(1) obtain r where r: "first_row p (db_runs d) = Some r" "i = r_id r"
    and d': "d' = d\<lparr>db_runs := update_rows p f (db_runs d)\<rparr>"
    and chk: "\<forall>r \<in> set (db_runs d). p r \<longrightarrow> run_check (f r) \<and> run_trigger r (f r)"
    by (auto simp: sql_update_runs_def split: if_splits)
  from r(1) have mem: "r \<in> set (db_runs d)" "p r"
    by (auto dest: first_row_SomeD)
  have "p x \<longleftrightarrow> x = r" if "x \<in> set (db_runs d)" for x
    using assms(2) that mem by blast
  then have "update_rows p f (db_runs d) = put_row r (f r) (db_runs d)"
    by (simp add: update_rows_def put_row_def)
  then show thesis
    using that [OF mem r(2)] d' chk mem by auto
qed

lemma sql_update_runs_none:
  "sql_update_runs p f d = Inr (None, d') \<Longrightarrow> d' = d \<and> (\<forall>r \<in> set (db_runs d). \<not> p r)"
  by (auto simp: sql_update_runs_def first_row_None_iff update_rows_none split: if_splits)

lemma sql_update_tasks_put:
  assumes tab: "table_inv d" and t: "t \<in> set (db_tasks d)" "p t"
    and key: "\<And>x. p x \<Longrightarrow> t_id x = t_id t"
    and f: "task_check (f t)" "task_trigger t (f t)" "t_idempotency_key (f t) = t_idempotency_key t"
  shows "sql_update_tasks p f d = Inr (Some (t_id t), d\<lparr>db_tasks := put_row t (f t) (db_tasks d)\<rparr>)"
proof -
  have dist: "distinct (map t_id (db_tasks d))"
    using tab by (simp add: table_inv_def)
  obtain x where x: "first_row p (db_tasks d) = Some x"
    using first_row_exists [of t "db_tasks d" p] t by blast
  have only: "y = t" if "y \<in> set (db_tasks d)" "p y" for y
    by (rule distinct_map_unique [OF dist that(1) t(1) key [OF that(2)]])
  have "x = t"
    using first_row_SomeD [OF x] only by blast
  moreover have "update_rows p f (db_tasks d) = put_row t (f t) (db_tasks d)"
    using first_row_key_unique(1) [OF dist key x] \<open>x = t\<close> by simp
  moreover have "\<forall>y \<in> set (db_tasks d). p y \<longrightarrow> task_check (f y) \<and> task_trigger y (f y)"
    using only f(1,2) by blast
  moreover have "unique_column (map t_idempotency_key (put_row t (f t) (db_tasks d)))"
    using tab f(3) by (simp add: table_inv_def map_put_row)
  ultimately show ?thesis
    using x by (simp add: sql_update_tasks_def Let_def)
qed

lemma sql_update_runs_put:
  assumes r: "r \<in> set (db_runs d)" "p r" and only: "\<forall>x \<in> set (db_runs d). p x \<longrightarrow> x = r"
    and f: "run_check (f r)" "run_trigger r (f r)"
  shows "sql_update_runs p f d = Inr (Some (r_id r), d\<lparr>db_runs := put_row r (f r) (db_runs d)\<rparr>)"
proof -
  obtain x where x: "first_row p (db_runs d) = Some x"
    using first_row_exists [of r "db_runs d" p] r by blast
  have "x = r"
    using only first_row_SomeD [OF x] by simp
  moreover have "p y \<longleftrightarrow> y = r" if "y \<in> set (db_runs d)" for y
    using only r(2) that by blast
  then have "update_rows p f (db_runs d) = put_row r (f r) (db_runs d)"
    by (simp add: update_rows_def put_row_def)
  moreover have "\<forall>y \<in> set (db_runs d). p y \<longrightarrow> run_check (f y) \<and> run_trigger y (f y)"
    using only f by blast
  ultimately show ?thesis
    using x by (simp add: sql_update_runs_def)
qed

section \<open>Preservation of the table constraints\<close>

lemma table_inv_put_task:
  assumes "table_inv d" and "t \<in> set (db_tasks d)" and "t_id t' = t_id t"
    and "t_idempotency_key t' = t_idempotency_key t" and "task_check t'"
  shows "table_inv (d\<lparr>db_tasks := put_row t t' (db_tasks d)\<rparr>)"
proof -
  have "t_id ` set (put_row t t' (db_tasks d)) = t_id ` set (db_tasks d)"
    using map_put_row [of t_id t' t "db_tasks d"] assms(3) by (metis set_map)
  with assms show ?thesis
    by (simp add: table_inv_def map_put_row)
qed

lemma table_inv_put_run:
  assumes "table_inv d" and "r \<in> set (db_runs d)" and "r_id r' = r_id r"
    and "r_task_id r' = r_task_id r" and "r_run_number r' = r_run_number r" and "run_check r'"
  shows "table_inv (d\<lparr>db_runs := put_row r r' (db_runs d)\<rparr>)"
  using assms by (auto simp: table_inv_def map_put_row)

lemma sql_insert_runD:
  assumes "sql_insert_run r d = Inr (row, d')"
  shows "row = r\<lparr>r_id := next_id (map r_id (db_runs d))\<rparr>"
    and "d' = d\<lparr>db_runs := db_runs d @ [row]\<rparr>" and "run_check row"
    and "\<forall>r' \<in> set (db_runs d).
           \<not> (r_task_id r' = r_task_id row \<and> r_run_number r' = r_run_number row)"
    and "\<exists>t \<in> set (db_tasks d). t_id t = r_task_id row"
  using assms unfolding sql_insert_run_def Let_def by (simp_all split: if_splits) auto

lemma table_inv_insert_run:
  assumes "table_inv d" and "sql_insert_run r d = Inr (row, d')"
  shows "table_inv d'"
proof -
  note row = sql_insert_runD [OF assms(2)]
  have "r_id row \<notin> set (map r_id (db_runs d))"
    using next_id_fresh [of "map r_id (db_runs d)"] row(1) by simp
  moreover have "(r_task_id row, r_run_number row) \<notin>
      set (map (\<lambda>r. (r_task_id r, r_run_number r)) (db_runs d))"
    using row(4) by force
  moreover have "r_task_id row \<in> t_id ` set (db_tasks d)"
    using row(5) by force
  ultimately show ?thesis
    using assms(1) row(2,3) by (simp add: table_inv_def)
qed

lemma table_inv_insert_task:
  assumes "table_inv d" and "sql_insert_task t d = Inr (row, d')"
  shows "table_inv d'"
proof -
  from assms(2) have row: "row = t\<lparr>t_id := next_id (map t_id (db_tasks d))\<rparr>"
    and d': "d' = d\<lparr>db_tasks := db_tasks d @ [row]\<rparr>" and chk: "task_check row"
    and uni: "unique_column (map t_idempotency_key (db_tasks d @ [row]))"
    by (auto simp: sql_insert_task_def Let_def split: if_splits)
  have "t_id row \<notin> set (map t_id (db_tasks d))"
    using next_id_fresh [of "map t_id (db_tasks d)"] row by simp
  with assms(1) d' chk uni show ?thesis
    by (auto simp: table_inv_def)
qed

lemma max_run_number_fresh:
  "r \<in> set (db_runs d) \<Longrightarrow> r_task_id r = tid \<Longrightarrow> r_run_number r \<le> max_run_number tid d"
  unfolding max_run_number_def by (rule foldr_max_ge) simp

lemma max_run_number_nonneg: "0 \<le> max_run_number tid d"
proof -
  have "0 \<le> foldr max xs (0::int)" for xs
    by (induction xs) (auto simp: max_def)
  then show ?thesis by (simp add: max_run_number_def)
qed

section \<open>Preservation of the lease correspondence\<close>

lemma lease_invD:
  assumes "lease_inv d"
  shows "\<And>t. t \<in> set (db_tasks d) \<Longrightarrow> ownership_complete t \<Longrightarrow> t_status t \<in> LEASED_TASK_STATUSES"
    and "\<And>t. t \<in> set (db_tasks d) \<Longrightarrow> t_status t = Running \<Longrightarrow> ownership_complete t"
    and "\<And>t. t \<in> set (db_tasks d) \<Longrightarrow> ownership_complete t \<Longrightarrow> \<exists>r \<in> set (db_runs d). run_of t r"
    and "\<And>r. r \<in> set (db_runs d) \<Longrightarrow> r_status r = RunRunning \<Longrightarrow>
           \<exists>t \<in> set (db_tasks d). ownership_complete t \<and> run_of t r"
    and "\<And>r r'. r \<in> set (db_runs d) \<Longrightarrow> r' \<in> set (db_runs d) \<Longrightarrow> r_status r = RunRunning \<Longrightarrow>
           r_status r' = RunRunning \<Longrightarrow> r_task_id r = r_task_id r' \<Longrightarrow> r = r'"
  using assms unfolding lease_inv_def leases_agree_def by blast+

lemma leases_agreeI:
  assumes "\<And>t. t \<in> ts \<Longrightarrow> ownership_complete t \<Longrightarrow> t_status t \<in> LEASED_TASK_STATUSES"
    and "\<And>t. t \<in> ts \<Longrightarrow> t_status t = Running \<Longrightarrow> ownership_complete t"
    and "\<And>t. t \<in> ts \<Longrightarrow> ownership_complete t \<Longrightarrow> \<exists>r \<in> rs. run_of t r"
    and "\<And>r. r \<in> rs \<Longrightarrow> r_status r = RunRunning \<Longrightarrow>
           \<exists>t \<in> ts. ownership_complete t \<and> run_of t r"
    and "\<And>r r'. r \<in> rs \<Longrightarrow> r' \<in> rs \<Longrightarrow> r_status r = RunRunning \<Longrightarrow>
           r_status r' = RunRunning \<Longrightarrow> r_task_id r = r_task_id r' \<Longrightarrow> r = r'"
  shows "leases_agree ts rs"
  using assms unfolding leases_agree_def by blast

lemma table_inv_id_unique:
  "table_inv d \<Longrightarrow> t \<in> set (db_tasks d) \<Longrightarrow> t' \<in> set (db_tasks d) \<Longrightarrow> t_id t = t_id t' \<Longrightarrow> t = t'"
  using distinct_map_unique [of t_id "db_tasks d" t t'] by (simp add: table_inv_def)

text \<open>A leased task has exactly one running run, and its worker and token are the task's.\<close>

lemma active_run_of_owned:
  assumes "table_inv d" and "lease_inv d" and "t \<in> set (db_tasks d)" and "ownership_complete t"
    and "r \<in> set (db_runs d)" and "r_status r = RunRunning" and "r_task_id r = t_id t"
  shows "run_of t r"
proof -
  obtain x where x: "x \<in> set (db_tasks d)" "ownership_complete x" "run_of x r"
    using lease_invD(4) [OF assms(2,5,6)] by blast
  then have "t_id x = t_id t"
    using assms(7) by (simp add: run_of_def)
  with x assms(1,3) have "x = t"
    using table_inv_id_unique by blast
  with x show ?thesis by simp
qed

lemma no_active_run_of_free:
  assumes "table_inv d" and "lease_inv d" and "t \<in> set (db_tasks d)" and "\<not> ownership_complete t"
    and "r \<in> set (db_runs d)" and "r_task_id r = t_id t"
  shows "r_status r \<noteq> RunRunning"
proof
  assume "r_status r = RunRunning"
  then obtain x where x: "x \<in> set (db_tasks d)" "ownership_complete x" "run_of x r"
    using lease_invD(4) [OF assms(2,5)] by blast
  then have "t_id x = t_id t"
    using assms(6) by (simp add: run_of_def)
  then have "x = t"
    by (rule table_inv_id_unique [OF assms(1) x(1) assms(3)])
  with x assms(4) show False by simp
qed

lemma lease_inv_put_task:
  assumes "lease_inv d" and "t \<in> set (db_tasks d)" and "t_id t' = t_id t"
    and "t_locked_by t' = t_locked_by t" and "t_lock_token t' = t_lock_token t"
    and "ownership_complete t' = ownership_complete t"
    and "ownership_complete t' \<Longrightarrow> t_status t' \<in> LEASED_TASK_STATUSES"
    and "t_status t' = Running \<Longrightarrow> ownership_complete t'"
  shows "lease_inv (d\<lparr>db_tasks := put_row t t' (db_tasks d)\<rparr>)"
proof -
  have same: "run_of t' r = run_of t r" for r
    using assms(3-5) by (simp add: run_of_def)
  note old = lease_invD [OF assms(1)]
  have c4: "\<exists>x \<in> insert t' (set (db_tasks d) - {t}). ownership_complete x \<and> run_of x y"
    if y: "y \<in> set (db_runs d)" "r_status y = RunRunning" for y
  proof -
    obtain x where "x \<in> set (db_tasks d)" "ownership_complete x" "run_of x y"
      using old(4) [OF y] by blast
    with same assms(6) show ?thesis by (cases "x = t") auto
  qed
  have mem: "set (put_row t t' (db_tasks d)) = insert t' (set (db_tasks d) - {t})"
    using assms(2) by simp
  have c3: "\<exists>r \<in> set (db_runs d). run_of x r"
    if "x \<in> insert t' (set (db_tasks d) - {t})" "ownership_complete x" for x
    using that old(3) same assms(2,6) by (cases "x = t'") auto
  have c1: "t_status x \<in> LEASED_TASK_STATUSES"
    if "x \<in> insert t' (set (db_tasks d) - {t})" "ownership_complete x" for x
    using that old(1) assms(7) by blast
  have c2: "ownership_complete x"
    if "x \<in> insert t' (set (db_tasks d) - {t})" "t_status x = Running" for x
    using that old(2) assms(8) by blast
  have "leases_agree (insert t' (set (db_tasks d) - {t})) (set (db_runs d))"
    by (rule leases_agreeI) (fact c1 c2 c3 c4 old(5))+
  with mem show ?thesis by (simp add: lease_inv_def)
qed

lemma lease_inv_put_run:
  assumes "lease_inv d" and "r \<in> set (db_runs d)" and "r_task_id r' = r_task_id r"
    and "r_worker_id r' = r_worker_id r" and "r_lock_token r' = r_lock_token r"
    and "r_status r' = r_status r"
  shows "lease_inv (d\<lparr>db_runs := put_row r r' (db_runs d)\<rparr>)"
proof -
  have same: "run_of t r' = run_of t r" for t
    using assms(3-6) by (simp add: run_of_def)
  note old = lease_invD [OF assms(1)]
  have c3: "\<exists>y \<in> insert r' (set (db_runs d) - {r}). run_of x y"
    if x: "x \<in> set (db_tasks d)" "ownership_complete x" for x
  proof -
    obtain y where "y \<in> set (db_runs d)" "run_of x y"
      using old(3) [OF x] by blast
    with same show ?thesis by (cases "y = r") auto
  qed
  have c4: "\<exists>x \<in> set (db_tasks d). ownership_complete x \<and> run_of x y"
    if y: "y \<in> insert r' (set (db_runs d) - {r})" "r_status y = RunRunning" for y
  proof (cases "y = r'")
    case True
    with y assms(6) have "r_status r = RunRunning" by simp
    then show ?thesis using old(4) [OF assms(2)] same True by simp
  next
    case False
    with y old(4) show ?thesis by blast
  qed
  have c5: "x = y"
    if xy: "x \<in> insert r' (set (db_runs d) - {r})" "y \<in> insert r' (set (db_runs d) - {r})"
      "r_status x = RunRunning" "r_status y = RunRunning" "r_task_id x = r_task_id y" for x y
  proof -
    have clash: "z = r" if "z \<in> set (db_runs d)" "r_status z = RunRunning"
        "r_status r' = RunRunning" "r_task_id z = r_task_id r'" for z
      using old(5) [OF that(1) assms(2) that(2)] that(3,4) assms(3,6) by simp
    show ?thesis
    proof (cases "x = r' \<or> y = r'")
      case True
      with xy clash show ?thesis by auto
    next
      case False
      with xy old(5) show ?thesis by blast
    qed
  qed
  have mem: "set (put_row r r' (db_runs d)) = insert r' (set (db_runs d) - {r})"
    using assms(2) by simp
  have "leases_agree (set (db_tasks d)) (insert r' (set (db_runs d) - {r}))"
    by (rule leases_agreeI) (fact old(1,2) c3 c4 c5)+
  with mem show ?thesis by (simp add: lease_inv_def)
qed

lemma lease_inv_claim:
  assumes inv: "table_inv d" "lease_inv d" and t: "t \<in> set (db_tasks d)" "\<not> ownership_complete t"
    and t': "t_id t' = t_id t" "ownership_complete t'" "t_status t' \<in> LEASED_TASK_STATUSES"
    and r: "run_of t' r"
  shows "lease_inv (d\<lparr>db_tasks := put_row t t' (db_tasks d), db_runs := db_runs d @ [r]\<rparr>)"
proof -
  have idle: "r_status x \<noteq> RunRunning" if "x \<in> set (db_runs d)" "r_task_id x = r_task_id r" for x
    using no_active_run_of_free [OF inv t that(1)] that(2) r t'(1) by (simp add: run_of_def)
  note old = lease_invD [OF inv(2)]
  have c3: "\<exists>y \<in> set (db_runs d @ [r]). run_of x y"
    if "x \<in> insert t' (set (db_tasks d) - {t})" "ownership_complete x" for x
    using that old(3) r by (cases "x = t'") auto
  have c4: "\<exists>x \<in> insert t' (set (db_tasks d) - {t}). ownership_complete x \<and> run_of x y"
    if y: "y \<in> set (db_runs d @ [r])" "r_status y = RunRunning" for y
  proof (cases "y = r")
    case True
    with t' r show ?thesis by blast
  next
    case False
    with y old(4) obtain x where "x \<in> set (db_tasks d)" "ownership_complete x" "run_of x y"
      by auto
    with t(2) show ?thesis by auto
  qed
  have c5: "x = y"
    if "x \<in> set (db_runs d @ [r])" "y \<in> set (db_runs d @ [r])" "r_status x = RunRunning"
      "r_status y = RunRunning" "r_task_id x = r_task_id y" for x y
  proof (cases "x = r \<or> y = r")
    case True
    with that idle show ?thesis by auto
  next
    case False
    with that old(5) show ?thesis by simp
  qed
  have mem: "set (put_row t t' (db_tasks d)) = insert t' (set (db_tasks d) - {t})"
    using t(1) by simp
  have c1: "t_status x \<in> LEASED_TASK_STATUSES"
    if "x \<in> insert t' (set (db_tasks d) - {t})" "ownership_complete x" for x
    using that old(1) t'(3) by blast
  have c2: "ownership_complete x"
    if "x \<in> insert t' (set (db_tasks d) - {t})" "t_status x = Running" for x
    using that old(2) t'(2) by blast
  have "leases_agree (insert t' (set (db_tasks d) - {t})) (set (db_runs d @ [r]))"
    by (rule leases_agreeI) (fact c1 c2 c3 c4 c5)+
  with mem show ?thesis by (simp add: lease_inv_def)
qed

lemma lease_inv_release:
  assumes inv: "table_inv d" "lease_inv d" and t: "t \<in> set (db_tasks d)" "ownership_complete t"
    and t': "t_id t' = t_id t" "\<not> ownership_complete t'" "t_status t' \<noteq> Running"
    and r: "r \<in> set (db_runs d)" "run_of t r"
    and r': "r_status r' \<noteq> RunRunning"
  shows "lease_inv (d\<lparr>db_tasks := put_row t t' (db_tasks d), db_runs := put_row r r' (db_runs d)\<rparr>)"
proof -
  note old = lease_invD [OF inv(2)]
  have c3: "\<exists>y \<in> insert r' (set (db_runs d) - {r}). run_of x y"
    if x: "x \<in> insert t' (set (db_tasks d) - {t})" "ownership_complete x" for x
  proof -
    from x t'(2) have mem: "x \<in> set (db_tasks d)" "x \<noteq> t" by auto
    then obtain y where y: "y \<in> set (db_runs d)" "run_of x y"
      using old(3) x(2) by blast
    have "t_id x \<noteq> t_id t"
      using mem t(1) table_inv_id_unique [OF inv(1)] by blast
    with y(2) r(2) have "y \<noteq> r" by (auto simp: run_of_def)
    with y show ?thesis by auto
  qed
  have c4: "\<exists>x \<in> insert t' (set (db_tasks d) - {t}). ownership_complete x \<and> run_of x y"
    if y: "y \<in> insert r' (set (db_runs d) - {r})" "r_status y = RunRunning" for y
  proof -
    from y r' have mem: "y \<in> set (db_runs d)" "y \<noteq> r" by auto
    then obtain x where x: "x \<in> set (db_tasks d)" "ownership_complete x" "run_of x y"
      using old(4) y(2) by blast
    have "x \<noteq> t"
      using x(3) r mem y(2) old(5) [OF mem(1) r(1)] by (auto simp: run_of_def)
    with x show ?thesis by blast
  qed
  have mem: "set (put_row t t' (db_tasks d)) = insert t' (set (db_tasks d) - {t})"
    "set (put_row r r' (db_runs d)) = insert r' (set (db_runs d) - {r})"
    using t(1) r(1) by simp_all
  have c1: "t_status x \<in> LEASED_TASK_STATUSES"
    if "x \<in> insert t' (set (db_tasks d) - {t})" "ownership_complete x" for x
    using that old(1) t'(2) by blast
  have c2: "ownership_complete x"
    if "x \<in> insert t' (set (db_tasks d) - {t})" "t_status x = Running" for x
    using that old(2) t'(3) by blast
  have c5: "x = y"
    if "x \<in> insert r' (set (db_runs d) - {r})" "y \<in> insert r' (set (db_runs d) - {r})"
      "r_status x = RunRunning" "r_status y = RunRunning" "r_task_id x = r_task_id y" for x y
    using that old(5) r' by blast
  have "leases_agree (insert t' (set (db_tasks d) - {t})) (insert r' (set (db_runs d) - {r}))"
    by (rule leases_agreeI) (fact c1 c2 c3 c4 c5)+
  with mem show ?thesis by (simp add: lease_inv_def)
qed

end
