(* ===== verification/TaskLifecycle.thy ===== *)
theory TaskLifecycle
  imports TaskInvariants
begin

text \<open>
  What each repository operation does to a store that satisfies the invariant: its effect as a
  change of single rows, that it keeps \<open>store_inv\<close> and extends the run history, and that it
  never fails on a constraint.
\<close>

lemma require_taskD: "require_task d i = Inr t \<Longrightarrow> t \<in> set (db_tasks d) \<and> t_id t = i"
  by (auto simp: require_task_def dest: first_row_SomeD split: option.splits)

lemma require_task_in:
  "table_inv d \<Longrightarrow> t \<in> set (db_tasks d) \<Longrightarrow> require_task d (t_id t) = Inr t"
  using first_row_unique [of t_id "db_tasks d" t] by (simp add: require_task_def table_inv_def)

lemma require_task_runD: "require_task_run d i = Inr r \<Longrightarrow> r \<in> set (db_runs d) \<and> r_id r = i"
  by (auto simp: require_task_run_def dest: first_row_SomeD split: option.splits)

lemma require_task_run_in:
  "table_inv d \<Longrightarrow> r \<in> set (db_runs d) \<Longrightarrow> require_task_run d (r_id r) = Inr r"
  using first_row_unique [of r_id "db_runs d" r] by (simp add: require_task_run_def table_inv_def)

lemma store_inv_parts: "store_inv d \<Longrightarrow> table_inv d" "store_inv d \<Longrightarrow> lease_inv d"
  by (simp_all add: store_inv_def)

lemma store_inv_task_check: "store_inv d \<Longrightarrow> t \<in> set (db_tasks d) \<Longrightarrow> task_check t"
  by (simp add: store_inv_def table_inv_def)

lemma task_check_owned:
  "task_check t \<Longrightarrow> t_locked_by t \<noteq> None \<Longrightarrow> ownership_complete t"
  "task_check t \<Longrightarrow> t_lock_token t \<noteq> None \<Longrightarrow> ownership_complete t"
  "task_check t \<Longrightarrow> t_lease_until t \<noteq> None \<Longrightarrow> ownership_complete t"
  by (auto simp: task_check_def ownership_clear_def)

lemma history_refl [simp]: "history_extends d d"
  by (auto simp: history_extends_def)

lemma history_same_runs: "db_runs d' = db_runs d \<Longrightarrow> history_extends d d'"
  by (auto simp: history_extends_def)

lemma history_put_run:
  assumes "r \<in> set (db_runs d)" and "r_status r = RunRunning" and "r_id r' = r_id r"
    and "r_task_id r' = r_task_id r" and "r_run_number r' = r_run_number r"
    and "db_runs d' = put_row r r' (db_runs d)"
  shows "history_extends d d'"
proof -
  have "\<exists>y \<in> insert r' (set (db_runs d) - {r}).
          r_id y = r_id x \<and> r_task_id y = r_task_id x \<and> r_run_number y = r_run_number x"
    if "x \<in> set (db_runs d)" for x
    using that assms(3-5) by (cases "x = r") auto
  with assms(1,2,6) show ?thesis
    by (auto simp: history_extends_def)
qed

lemma history_add_run: "db_runs d' = db_runs d @ [r] \<Longrightarrow> history_extends d d'"
  by (auto simp: history_extends_def)

lemma history_trans: "history_extends a b \<Longrightarrow> history_extends b c \<Longrightarrow> history_extends a c"
  unfolding history_extends_def by (metis (no_types, lifting))

section \<open>Claim\<close>

lemma task_check_claim_row:
  "task_check t \<Longrightarrow> task_check (claim_row w k a u t)"
  by (simp add: task_check_def)

lemma is_claimable_where:
  "is_claimable now t \<Longrightarrow>
     t_status t \<in> CLAIMABLE_TASK_STATUSES \<and> ownership_clear t \<and>
     (t_status t = CancelRequested \<or> is_due now t)"
  by (auto simp: is_claimable_def task_status_sets)

lemma claim_update:
  assumes "table_inv d" and "select_one claim_order (is_claimable now) (db_tasks d) = Some t"
  shows "sql_update_tasks
           (\<lambda>x. Some (t_id x) = claim_candidate now d \<and> t_status x \<in> CLAIMABLE_TASK_STATUSES \<and>
                ownership_clear x \<and> (t_status x = CancelRequested \<or> is_due now x))
           (claim_row w k now u) d =
         Inr (Some (t_id t), d\<lparr>db_tasks := put_row t (claim_row w k now u t) (db_tasks d)\<rparr>)"
    (is "sql_update_tasks ?p ?f d = _")
proof -
  have t: "t \<in> set (db_tasks d)" "is_claimable now t"
    using select_one_SomeD [OF assms(2)] by auto
  have cand: "claim_candidate now d = Some (t_id t)"
    using assms(2) by (simp add: claim_candidate_def)
  then have p: "?p t"
    using is_claimable_where [OF t(2)] by simp
  have dist: "distinct (map t_id (db_tasks d))"
    using assms(1) by (simp add: table_inv_def)
  obtain x where x: "first_row ?p (db_tasks d) = Some x"
    using first_row_exists [OF t(1), of ?p] p by blast
  have "x = t"
    using first_row_SomeD [OF x] cand table_inv_id_unique [OF assms(1) _ t(1)] by auto
  have chk: "task_check (?f y) \<and> task_trigger y (?f y)" if "y \<in> set (db_tasks d)" for y
    using assms(1) that task_check_claim_row by (simp add: table_inv_def task_trigger_def)
  have "sql_update_tasks ?p ?f d = Inr (map_option t_id (first_row ?p (db_tasks d)),
          d\<lparr>db_tasks := update_rows ?p ?f (db_tasks d)\<rparr>)"
    by (rule sql_update_tasks_total [OF assms(1)]) (simp_all add: chk)
  moreover have "update_rows ?p ?f (db_tasks d) = put_row t (?f t) (db_tasks d)"
    using first_row_key_unique(1) [OF dist _ x, of "t_id t" ?f] cand \<open>x = t\<close> by simp
  ultimately show ?thesis
    using x \<open>x = t\<close> by simp
qed

definition claimed_run :: "int \<Rightarrow> string \<Rightarrow> string \<Rightarrow> datetime \<Rightarrow> db \<Rightarrow> task_run" where
  "claimed_run task_id w k now d =
     \<lparr>r_id = next_id (map r_id (db_runs d)), r_task_id = task_id,
      r_run_number = max_run_number task_id d + 1,
      r_worker_id = Some w, r_lock_token = Some k, r_status = RunRunning, r_started_at = now,
      r_finished_at = None, r_last_heartbeat_at = Some now, r_duration_ms = None,
      r_result_summary = None, r_error_code = None, r_error_message = None, r_metrics = [],
      r_created_at = now, r_updated_at = now\<rparr>"

text \<open>
  A claim on a store that satisfies the invariant always succeeds: it takes the first claimable
  task in the queue order and opens the task's next run.
\<close>

lemma claim_next_eq_Some:
  fixes k :: string
  assumes inv: "store_inv d" and args: "w \<noteq> []" "0 < dur"
    and sel: "select_one claim_order (is_claimable now) (db_tasks d) = Some t"
  defines "t' \<equiv> claim_row w k now (now + dur) t"
    and "r \<equiv> claimed_run (t_id t) w k now d"
  shows "claim_next w dur k now d =
           Inr (Some \<lparr>c_task = t', c_task_run = r, c_lock_token = k, c_lease_until = now + dur\<rparr>,
                d\<lparr>db_tasks := put_row t t' (db_tasks d), db_runs := db_runs d @ [r]\<rparr>)"
proof -
  let ?d1 = "d\<lparr>db_tasks := put_row t t' (db_tasks d)\<rparr>"
  note tab = store_inv_parts(1) [OF inv] and lea = store_inv_parts(2) [OF inv]
  have t: "t \<in> set (db_tasks d)" "is_claimable now t"
    using select_one_SomeD [OF sel] by auto
  have free: "\<not> ownership_complete t"
    using is_claimable_where [OF t(2)] ownership_clear_not_complete by blast
  have tab1: "table_inv ?d1"
    by (rule table_inv_put_task [OF tab t(1)])
      (use store_inv_task_check [OF inv t(1)] in \<open>simp_all add: t'_def task_check_claim_row\<close>)
  have mem: "t' \<in> set (db_tasks ?d1)"
    using t(1) by simp
  have req: "require_task ?d1 (t_id t) = Inr t'"
    using require_task_in [OF tab1 mem] by (simp add: t'_def)
  have idle: "first_row (\<lambda>r. r_task_id r = t_id t \<and> r_status r = RunRunning) (db_runs d) = None"
    using no_active_run_of_free [OF tab lea t(1) free] by (simp add: first_row_None_iff)
  have fk: "\<exists>x \<in> set (db_tasks ?d1). t_id x = t_id t"
    using mem by (intro bexI [of _ t']) (simp_all add: t'_def)
  have num: "r_run_number x \<noteq> max_run_number (t_id t) d + 1"
    if "x \<in> set (db_runs d)" "r_task_id x = t_id t" for x
    using max_run_number_fresh [OF that] by simp
  have "max_run_number (t_id t) ?d1 = max_run_number (t_id t) d"
    by (simp add: max_run_number_def)
  then have run: "create_run (t_id t) w k now (Some now) now ?d1 =
      Inr (r, ?d1\<lparr>db_runs := db_runs d @ [r]\<rparr>)"
    using req idle fk num max_run_number_nonneg [of "t_id t" d]
    by (auto simp: create_run_def append_task_run_def sql_insert_run_def Let_def run_check_def
         r_def claimed_run_def t'_def LEASED_TASK_STATUSES_def)
  show ?thesis
    using args claim_update [OF tab sel, of w k "now + dur"] req run
    by (simp add: claim_next_def validate_owner_arguments_def Let_def t'_def)
qed

lemma claim_next_eq_None:
  assumes "w \<noteq> []" and "0 < dur"
    and "select_one claim_order (is_claimable now) (db_tasks d) = None"
    and "unique_column (map t_idempotency_key (db_tasks d))"
  shows "claim_next w dur k now d = Inr (None, d)"
proof -
  have "claim_candidate now d = None"
    using assms(3) by (simp add: claim_candidate_def)
  moreover have "first_row (\<lambda>_. False) (db_tasks d) = None"
    by (simp add: first_row_None_iff)
  ultimately show ?thesis
    using assms(1,2,4)
    by (simp add: claim_next_def validate_owner_arguments_def Let_def sql_update_tasks_def
         update_rows_none)
qed

lemma claim_next_cases:
  assumes "store_inv d" and "claim_next w dur k now d = Inr (c, d')"
  obtains (none) "c = None" and "d' = d" and "\<forall>t \<in> set (db_tasks d). \<not> is_claimable now t"
  | (some) t where "select_one claim_order (is_claimable now) (db_tasks d) = Some t"
      and "c = Some \<lparr>c_task = claim_row w k now (now + dur) t,
                     c_task_run = claimed_run (t_id t) w k now d,
                     c_lock_token = k, c_lease_until = now + dur\<rparr>"
      and "d' = d\<lparr>db_tasks := put_row t (claim_row w k now (now + dur) t) (db_tasks d),
                 db_runs := db_runs d @ [claimed_run (t_id t) w k now d]\<rparr>"
proof -
  have args: "w \<noteq> []" "0 < dur"
    using assms(2) by (auto simp: claim_next_def validate_owner_arguments_def split: if_splits)
  show thesis
  proof (cases "select_one claim_order (is_claimable now) (db_tasks d)")
    case None
    have "unique_column (map t_idempotency_key (db_tasks d))"
      using assms(1) by (simp add: store_inv_def table_inv_def)
    with None args assms(2) have "c = None" "d' = d"
      by (simp_all add: claim_next_eq_None)
    moreover have "\<forall>t \<in> set (db_tasks d). \<not> is_claimable now t"
      using None by (simp add: select_one_None_iff)
    ultimately show ?thesis by (rule none)
  next
    case (Some t)
    with args assms show ?thesis
      using some [OF Some] by (simp add: claim_next_eq_Some)
  qed
qed

lemma claim_next_store_inv [step_invs]:
  assumes inv: "store_inv d" and step: "claim_next w dur k now d = Inr (c, d')"
  shows "store_inv d' \<and> history_extends d d'"
  using inv step
proof (cases rule: claim_next_cases)
  case none
  with inv show ?thesis by simp
next
  case (some t)
  let ?t' = "claim_row w k now (now + dur) t" and ?r = "claimed_run (t_id t) w k now d"
  note tab = store_inv_parts(1) [OF inv] and lea = store_inv_parts(2) [OF inv]
  have t: "t \<in> set (db_tasks d)" "is_claimable now t"
    using select_one_SomeD [OF some(1)] by auto
  have free: "\<not> ownership_complete t"
    using is_claimable_where [OF t(2)] ownership_clear_not_complete by blast
  have run: "run_of ?t' ?r"
    by (simp add: run_of_def claimed_run_def)
  have "lease_inv d'"
    unfolding some(3)
    by (rule lease_inv_claim [OF tab lea t(1) free _ _ _ run])
      (simp_all add: LEASED_TASK_STATUSES_def)
  moreover have tab1: "table_inv (d\<lparr>db_tasks := put_row t ?t' (db_tasks d)\<rparr>)"
    by (rule table_inv_put_task [OF tab t(1)])
      (use store_inv_task_check [OF inv t(1)] in \<open>simp_all add: task_check_claim_row\<close>)
  then have "table_inv d'"
  proof -
    have "x \<in> set (db_runs d) \<Longrightarrow>
        \<not> (r_task_id x = t_id t \<and> r_run_number x = max_run_number (t_id t) d + 1)" for x
      using max_run_number_fresh [of x d "t_id t"] by auto
    moreover have "\<exists>y \<in> set (put_row t ?t' (db_tasks d)). t_id y = t_id t"
      using t(1) by (intro bexI [of _ ?t']) simp_all
    ultimately have "sql_insert_run ?r (d\<lparr>db_tasks := put_row t ?t' (db_tasks d)\<rparr>) = Inr (?r, d')"
      using max_run_number_nonneg [of "t_id t" d] some(3)
      by (auto simp: sql_insert_run_def Let_def claimed_run_def run_check_def)
    then show ?thesis
      by (rule table_inv_insert_run [OF tab1])
  qed
  moreover have "history_extends d d'"
    by (rule history_add_run [of _ _ ?r]) (simp add: some(3))
  ultimately show ?thesis by (simp add: store_inv_def)
qed

section \<open>Owned updates\<close>

text \<open>
  The row and the run that an owner's operation meets: an unexpired lease with the caller's
  worker and token.
\<close>

lemma owned_row_complete:
  "store_inv d \<Longrightarrow> t \<in> set (db_tasks d) \<Longrightarrow> owned_row i w k now t \<Longrightarrow> ownership_complete t"
  using task_check_owned(1) [OF store_inv_task_check] by (auto simp: owned_row_def)

lemma active_run_of_unique:
  assumes "lease_inv d" and "x \<in> set (db_runs d)" and "y \<in> set (db_runs d)"
    and "active_run_of i w k x" and "active_run_of i w k y"
  shows "x = y"
  using lease_invD(5) [OF assms(1-3)] assms(4,5) by (simp add: active_run_of_def)

lemma active_run_of_iff_run_of:
  "t_id t = i \<Longrightarrow> t_locked_by t = Some w \<Longrightarrow> t_lock_token t = Some k \<Longrightarrow>
     active_run_of i w k r \<longleftrightarrow> run_of t r"
  by (auto simp: active_run_of_def run_of_def)

definition heartbeat_row :: "datetime \<Rightarrow> timedelta \<Rightarrow> task \<Rightarrow> task" where
  "heartbeat_row now dur t = t\<lparr>t_lease_until := Some (now + dur), t_updated_at := now\<rparr>"

definition heartbeat_run_row :: "datetime \<Rightarrow> task_run \<Rightarrow> task_run" where
  "heartbeat_run_row now r = r\<lparr>r_last_heartbeat_at := Some now, r_updated_at := now\<rparr>"

lemma heartbeat_cases:
  assumes inv: "store_inv d" and step: "heartbeat i w k dur now d = Inr (res, d')"
  obtains t r where "t \<in> set (db_tasks d)" and "owned_row i w k now t"
    and "r \<in> set (db_runs d)" and "run_of t r"
    and "res = (heartbeat_row now dur t, heartbeat_run_row now r)"
    and "d' = d\<lparr>db_tasks := put_row t (heartbeat_row now dur t) (db_tasks d),
                db_runs := put_row r (heartbeat_run_row now r) (db_runs d)\<rparr>"
proof -
  let ?p = "\<lambda>t. t_status t \<in> LEASED_TASK_STATUSES \<and> owned_row i w k now t"
  have ff: "(\<lambda>t. t\<lparr>t_lease_until := Some (now + dur), t_updated_at := now\<rparr>) = heartbeat_row now dur"
    "(\<lambda>r. r\<lparr>r_last_heartbeat_at := Some now, r_updated_at := now\<rparr>) = heartbeat_run_row now"
    by (simp_all add: fun_eq_iff heartbeat_row_def heartbeat_run_row_def)
  from step obtain i1 d1 i2 ht hr where
    upd: "sql_update_tasks ?p (heartbeat_row now dur) d = Inr (Some i1, d1)"
    and updr: "sql_update_runs (active_run_of i w k) (heartbeat_run_row now) d1 = Inr (Some i2, d')"
    and ht: "require_task d' i = Inr ht" and hr: "require_task_run d' i2 = Inr hr"
    and res: "res = (ht, hr)"
    unfolding heartbeat_def ff by (auto split: if_splits option.splits)
  obtain t where t: "t \<in> set (db_tasks d)" "?p t" "t_id t = i"
    and d1: "d1 = d\<lparr>db_tasks := put_row t (heartbeat_row now dur t) (db_tasks d)\<rparr>"
    using sql_update_tasks_one [OF store_inv_parts(1) [OF inv] upd, of i]
    by (auto simp: owned_row_def)
  have runs: "db_runs d1 = db_runs d" by (simp add: d1)
  have uniq: "\<forall>x \<in> set (db_runs d1). \<forall>y \<in> set (db_runs d1).
      active_run_of i w k x \<and> active_run_of i w k y \<longrightarrow> x = y"
    unfolding runs using active_run_of_unique [OF store_inv_parts(2) [OF inv]] by blast
  obtain r where r: "r \<in> set (db_runs d)" "active_run_of i w k r" "i2 = r_id r"
    and d': "d' = d1\<lparr>db_runs := put_row r (heartbeat_run_row now r) (db_runs d1)\<rparr>"
    using sql_update_runs_one [OF updr uniq] runs by metis
  have run: "run_of t r"
    using active_run_of_iff_run_of [of t i w k r] t r(2) by (simp add: owned_row_def)
  have dist: "distinct (map t_id (db_tasks d'))" "distinct (map r_id (db_runs d'))"
    using store_inv_parts(1) [OF inv] d1 d' runs
    by (simp_all add: table_inv_def map_put_row heartbeat_row_def heartbeat_run_row_def)
  have "ht = heartbeat_row now dur t"
    using distinct_map_unique [OF dist(1), of ht "heartbeat_row now dur t"] require_taskD [OF ht]
      d1 d' t by (simp add: heartbeat_row_def)
  moreover have "hr = heartbeat_run_row now r"
    using distinct_map_unique [OF dist(2), of hr "heartbeat_run_row now r"]
      require_task_runD [OF hr] d' r runs by (simp add: heartbeat_run_row_def)
  ultimately show thesis
    using that [of t r] t r run res d1 d' by simp
qed

lemma heartbeat_store_inv [step_invs]:
  assumes inv: "store_inv d" and step: "heartbeat i w k dur now d = Inr (res, d')"
  shows "store_inv d' \<and> history_extends d d'"
  using inv step
proof (cases rule: heartbeat_cases)
  case (1 t r)
  let ?t' = "heartbeat_row now dur t" and ?r' = "heartbeat_run_row now r"
  let ?d1 = "d\<lparr>db_tasks := put_row t ?t' (db_tasks d)\<rparr>"
  note tab = store_inv_parts(1) [OF inv] and lea = store_inv_parts(2) [OF inv]
  have own: "ownership_complete t"
    by (rule owned_row_complete [OF inv 1(1,2)])
  have chk: "task_check ?t'"
    using store_inv_task_check [OF inv 1(1)] own
    by (auto simp: task_check_def heartbeat_row_def ownership_complete_def ownership_clear_def)
  have own': "ownership_complete ?t'"
    using own by (simp add: heartbeat_row_def ownership_complete_def)
  have "lease_inv ?d1"
    by (rule lease_inv_put_task [OF lea 1(1)])
      (use own own' lease_invD(1) [OF lea 1(1)] in \<open>simp_all add: heartbeat_row_def\<close>)
  then have "lease_inv (?d1\<lparr>db_runs := put_row r ?r' (db_runs ?d1)\<rparr>)"
    by (rule lease_inv_put_run) (use 1(3) in \<open>simp_all add: heartbeat_run_row_def\<close>)
  moreover have "table_inv ?d1"
    by (rule table_inv_put_task [OF tab 1(1)]) (use chk in \<open>simp_all add: heartbeat_row_def\<close>)
  then have "table_inv (?d1\<lparr>db_runs := put_row r ?r' (db_runs ?d1)\<rparr>)"
    by (rule table_inv_put_run)
      (use 1(3) tab in \<open>simp_all add: heartbeat_run_row_def table_inv_def run_check_def\<close>)
  moreover have "history_extends d d'"
    by (rule history_put_run [OF 1(3)])
      (use 1(4,6) in \<open>simp_all add: heartbeat_run_row_def run_of_def\<close>)
  ultimately show ?thesis
    using 1(6) by (simp add: store_inv_def)
qed

section \<open>Finish\<close>

lemma task_check_finish_task_row:
  "task_check t \<Longrightarrow> task_check (finish_task_row s o1 u c e m n b t)"
  by (simp add: task_check_def)

lemma TASK_TO_RUN_not_running: "TASK_TO_RUN_TERMINAL_STATUS s = Some rs \<Longrightarrow> rs \<noteq> RunRunning"
  by (cases s) auto

lemma finish_run_cases:
  assumes inv: "store_inv d"
    and step: "finish_run i rid w k ex ts rs fin dur sm ec em ms rsn nxt b now d = Inr (res, d')"
  obtains t r where "t \<in> set (db_tasks d)" and "owned_row i w k now t" and "t_status t = ex"
    and "can_transition ex ts" and "TASK_TO_RUN_TERMINAL_STATUS ts = Some rs"
    and "r \<in> set (db_runs d)" and "r_id r = rid" and "run_of t r"
    and "b \<longrightarrow> ts \<notin> {Success, WaitingCredential, Cancelled, Pending}"
    and "run_check (finish_run_row rs (coalesce fin now) now dur sm ec em ms r)"
    and "res = (finish_task_row ts (coalesce fin now) now rsn ec em nxt b t,
                finish_run_row rs (coalesce fin now) now dur sm ec em ms r)"
    and "d' = d\<lparr>db_tasks := put_row t (finish_task_row ts (coalesce fin now) now rsn ec em nxt b t)
                              (db_tasks d),
                db_runs := put_row r (finish_run_row rs (coalesce fin now) now dur sm ec em ms r)
                              (db_runs d)\<rparr>"
proof -
  let ?o = "coalesce fin now"
  let ?p = "\<lambda>t. t_status t = ex \<and> owned_row i w k now t"
  let ?q = "\<lambda>r. r_id r = rid \<and> active_run_of i w k r"
  let ?f = "finish_task_row ts ?o now rsn ec em nxt b"
  let ?g = "finish_run_row rs ?o now dur sm ec em ms"
  from step obtain i1 d1 i2 ft fr where
    can: "can_transition ex ts" and rs: "TASK_TO_RUN_TERMINAL_STATUS ts = Some rs"
    and b: "b \<longrightarrow> ts \<notin> {Success, WaitingCredential, Cancelled, Pending}"
    and upd: "sql_update_tasks ?p ?f d = Inr (Some i1, d1)"
    and updr: "sql_update_runs ?q ?g d1 = Inr (Some i2, d')"
    and ft: "require_task d' i1 = Inr ft" and fr: "require_task_run d' i2 = Inr fr"
    and res: "res = (ft, fr)"
    unfolding finish_run_def Let_def by (auto split: if_splits option.splits)
  obtain t where t: "t \<in> set (db_tasks d)" "?p t" "t_id t = i" "i1 = i"
    and d1: "d1 = d\<lparr>db_tasks := put_row t (?f t) (db_tasks d)\<rparr>"
    using sql_update_tasks_one [OF store_inv_parts(1) [OF inv] upd, of i]
    by (auto simp: owned_row_def)
  have runs: "db_runs d1 = db_runs d" by (simp add: d1)
  have uniq: "\<forall>x \<in> set (db_runs d1). \<forall>y \<in> set (db_runs d1). ?q x \<and> ?q y \<longrightarrow> x = y"
    unfolding runs using active_run_of_unique [OF store_inv_parts(2) [OF inv]] by blast
  obtain r where r: "r \<in> set (db_runs d)" "?q r" "i2 = r_id r"
    and d': "d' = d1\<lparr>db_runs := put_row r (?g r) (db_runs d1)\<rparr>" and chk: "run_check (?g r)"
    using sql_update_runs_one [OF updr uniq] runs by metis
  have run: "run_of t r"
    using active_run_of_iff_run_of [of t i w k r] t r(2) by (simp add: owned_row_def)
  have dist: "distinct (map t_id (db_tasks d'))" "distinct (map r_id (db_runs d'))"
    using store_inv_parts(1) [OF inv] d1 d' runs by (simp_all add: table_inv_def map_put_row)
  have "ft = ?f t"
    using distinct_map_unique [OF dist(1), of ft "?f t"] require_taskD [OF ft] d1 d' t by simp
  moreover have "fr = ?g r"
    using distinct_map_unique [OF dist(2), of fr "?g r"] require_task_runD [OF fr] d' r runs
    by simp
  ultimately show thesis
    using that [of t r] t r run res d1 d' can rs b chk by simp
qed

lemma finish_run_store_inv [step_invs]:
  assumes inv: "store_inv d"
    and step: "finish_run i rid w k ex ts rs fin dur sm ec em ms rsn nxt b now d = Inr (res, d')"
  shows "store_inv d' \<and> history_extends d d'"
  using inv step
proof (cases rule: finish_run_cases)
  case (1 t r)
  let ?t' = "finish_task_row ts (coalesce fin now) now rsn ec em nxt b t"
  let ?r' = "finish_run_row rs (coalesce fin now) now dur sm ec em ms r"
  let ?d1 = "d\<lparr>db_tasks := put_row t ?t' (db_tasks d)\<rparr>"
  note tab = store_inv_parts(1) [OF inv] and lea = store_inv_parts(2) [OF inv]
  have own: "ownership_complete t"
    by (rule owned_row_complete [OF inv 1(1,2)])
  have stat: "rs \<noteq> RunRunning" "ts \<noteq> Running"
    using TASK_TO_RUN_not_running [OF 1(5)] 1(5) by auto
  have "lease_inv d'"
    unfolding 1(12)
    by (rule lease_inv_release [OF tab lea 1(1) own _ _ _ 1(6,8)]) (use stat in simp_all)
  moreover have "table_inv ?d1"
    by (rule table_inv_put_task [OF tab 1(1)])
      (use task_check_finish_task_row [OF store_inv_task_check [OF inv 1(1)]] in simp_all)
  then have "table_inv (?d1\<lparr>db_runs := put_row r ?r' (db_runs ?d1)\<rparr>)"
    by (rule table_inv_put_run) (use 1(6,10) in simp_all)
  moreover have "history_extends d d'"
    by (rule history_put_run [OF 1(6)]) (use 1(8,12) in \<open>simp_all add: run_of_def\<close>)
  ultimately show ?thesis
    using 1(12) by (simp add: store_inv_def)
qed

section \<open>Recovery\<close>

lemma recovery_targetD:
  "recovery_target s c m n = Inr (tg, at) \<Longrightarrow>
     (s = CancelRequested \<and> tg = CancelRequested) \<or> (s \<noteq> CancelRequested \<and> m < c \<and> tg = Failed) \<or>
     (s \<noteq> CancelRequested \<and> c \<le> m \<and> tg = Retry \<and> at = n \<and> n \<noteq> None)"
  by (auto simp: recovery_target_def split: if_splits option.splits)

lemma recover_cases:
  assumes inv: "store_inv d" and step: "recover_expired_lease seen l n now d = Inr (res, d')"
  obtains (stale) "res = None" and "d' = d"
  | (some) cur t r tg at where "cur \<in> set (db_tasks seen)" and "lease_matches l now cur"
      and "recovery_target (t_status cur) (t_retry_count cur + 1) (t_max_retries cur) n = Inr (tg, at)"
      and "t \<in> set (db_tasks d)" and "lease_matches l now t"
      and "r \<in> set (db_runs d)" and "run_of t r"
      and "task_check (recover_row tg at (t_retry_count cur + 1) now t)"
      and "res = Some \<lparr>v_task = recover_row tg at (t_retry_count cur + 1) now t,
                       v_task_run = lost_run_row now r, v_previous_lock_token = e_lock_token l\<rparr>"
      and "d' = d\<lparr>db_tasks := put_row t (recover_row tg at (t_retry_count cur + 1) now t) (db_tasks d),
                  db_runs := put_row r (lost_run_row now r) (db_runs d)\<rparr>"
proof (cases "first_row (lease_matches l now) (db_tasks seen)")
  case None
  with step stale show ?thesis by (simp add: recover_expired_lease_def)
next
  case (Some cur)
  let ?p = "lease_matches l now" and ?c = "t_retry_count cur + 1"
  let ?q = "active_run_of (e_task_id l) (e_worker_id l) (e_lock_token l)"
  from Some step obtain tg at i1 d1 where
    tgt: "recovery_target (t_status cur) ?c (t_max_retries cur) n = Inr (tg, at)"
    and upd: "sql_update_tasks ?p (recover_row tg at ?c now) d = Inr (i1, d1)"
    and rest: "(case i1 of None \<Rightarrow> Inr (None, d1) | Some tid \<Rightarrow>
        bindR (mark_task_run_lost (e_task_id l) (e_worker_id l) (e_lock_token l) now d1)
          (\<lambda>(i2, d2). case i2 of None \<Rightarrow> Inl (TaskRunNotFoundError (e_task_id l)) | Some rid \<Rightarrow>
             bindR (require_task d2 tid) (\<lambda>t. bindR (require_task_run d2 rid) (\<lambda>r.
             Inr (Some \<lparr>v_task = t, v_task_run = r, v_previous_lock_token = e_lock_token l\<rparr>, d2)))))
        = Inr (res, d')"
    by (auto simp: recover_expired_lease_def Let_def)
  show ?thesis
  proof (cases i1)
    case None
    with rest sql_update_tasks_none [of ?p "recover_row tg at ?c now" d d1] upd stale
    show ?thesis by simp
  next
    case i1: (Some tid)
    obtain t where t: "t \<in> set (db_tasks d)" "?p t" "t_id t = e_task_id l" "tid = e_task_id l"
      and d1: "d1 = d\<lparr>db_tasks := put_row t (recover_row tg at ?c now t) (db_tasks d)\<rparr>"
      and chk: "task_check (recover_row tg at ?c now t)"
      using sql_update_tasks_one [OF store_inv_parts(1) [OF inv] upd [unfolded i1], of "e_task_id l"]
      by (auto simp: lease_matches_def)
    from rest i1 obtain i2 rt rr where
      updr: "sql_update_runs ?q (lost_run_row now) d1 = Inr (Some i2, d')"
      and rt: "require_task d' tid = Inr rt" and rr: "require_task_run d' i2 = Inr rr"
      and res: "res = Some \<lparr>v_task = rt, v_task_run = rr, v_previous_lock_token = e_lock_token l\<rparr>"
      by (auto simp: mark_task_run_lost_def split: option.splits)
    have runs: "db_runs d1 = db_runs d" by (simp add: d1)
    have uniq: "\<forall>x \<in> set (db_runs d1). \<forall>y \<in> set (db_runs d1). ?q x \<and> ?q y \<longrightarrow> x = y"
      unfolding runs using active_run_of_unique [OF store_inv_parts(2) [OF inv]] by blast
    obtain r where r: "r \<in> set (db_runs d)" "?q r" "i2 = r_id r"
      and d': "d' = d1\<lparr>db_runs := put_row r (lost_run_row now r) (db_runs d1)\<rparr>"
      using sql_update_runs_one [OF updr uniq] runs by metis
    have run: "run_of t r"
      using active_run_of_iff_run_of [of t "e_task_id l" "e_worker_id l" "e_lock_token l" r] t r(2)
      by (simp add: lease_matches_def)
    have dist: "distinct (map t_id (db_tasks d'))" "distinct (map r_id (db_runs d'))"
      using store_inv_parts(1) [OF inv] d1 d' runs by (simp_all add: table_inv_def map_put_row)
    have "rt = recover_row tg at ?c now t"
      using distinct_map_unique [OF dist(1), of rt "recover_row tg at ?c now t"]
        require_taskD [OF rt] d1 d' t by simp
    moreover have "rr = lost_run_row now r"
      using distinct_map_unique [OF dist(2), of rr "lost_run_row now r"]
        require_task_runD [OF rr] d' r runs by simp
    ultimately show ?thesis
      using some [OF _ _ tgt t(1,2) r(1) run chk] first_row_SomeD [OF Some] res d1 d' by simp
  qed
qed

lemma recover_store_inv [step_invs]:
  assumes inv: "store_inv d" and step: "recover_expired_lease seen l n now d = Inr (res, d')"
  shows "store_inv d' \<and> history_extends d d'"
  using inv step
proof (cases rule: recover_cases)
  case stale
  with inv show ?thesis by simp
next
  case (some cur t r tg at)
  let ?t' = "recover_row tg at (t_retry_count cur + 1) now t" and ?r' = "lost_run_row now r"
  let ?d1 = "d\<lparr>db_tasks := put_row t ?t' (db_tasks d)\<rparr>"
  note tab = store_inv_parts(1) [OF inv] and lea = store_inv_parts(2) [OF inv]
  have own: "ownership_complete t"
    using task_check_owned(1) [OF store_inv_task_check [OF inv some(4)]] some(5)
    by (simp add: lease_matches_def)
  have "tg \<noteq> Running"
    using recovery_targetD [OF some(3)] by auto
  then have "lease_inv d'"
    unfolding some(10)
    by (intro lease_inv_release [OF tab lea some(4) own _ _ _ some(6,7)]) simp_all
  moreover have "table_inv ?d1"
    by (rule table_inv_put_task [OF tab some(4)]) (use some(8) in simp_all)
  then have "table_inv (?d1\<lparr>db_runs := put_row r ?r' (db_runs ?d1)\<rparr>)"
    by (rule table_inv_put_run) (use some(6) tab in \<open>simp_all add: table_inv_def run_check_def\<close>)
  moreover have "history_extends d d'"
    by (rule history_put_run [OF some(6)]) (use some(7,10) in \<open>simp_all add: run_of_def\<close>)
  ultimately show ?thesis
    using some(10) by (simp add: store_inv_def)
qed

section \<open>Plain transitions and new tasks\<close>

lemma task_check_transition_row:
  "task_check t \<Longrightarrow> task_check (transition_row s o1 b c e n t)"
  by (simp add: task_check_def ownership_clear_def ownership_complete_def)

lemma transition_cases:
  assumes tab: "table_inv d"
    and step: "transition seen d i ex tg now rsn ec em nxt = Inr (res, d')"
  obtains t where "t \<in> set (db_tasks d)" and "t_id t = i" and "t_status t = ex"
    and "can_transition ex tg" and "tg \<noteq> Running"
    and "ex \<in> LEASED_TASK_STATUSES \<longrightarrow> tg = CancelRequested"
    and "res = transition_row tg now rsn ec em nxt t"
    and "d' = d\<lparr>db_tasks := put_row t (transition_row tg now rsn ec em nxt t) (db_tasks d)\<rparr>"
proof -
  let ?f = "transition_row tg now rsn ec em nxt"
  let ?p = "\<lambda>t. t_id t = i \<and> t_status t = ex"
  from step obtain tid where
    can: "can_transition ex tg" "tg \<noteq> Running" "ex \<in> LEASED_TASK_STATUSES \<longrightarrow> tg = CancelRequested"
    and upd: "sql_update_tasks ?p ?f d = Inr (Some tid, d')"
    and res: "require_task d' tid = Inr res"
    unfolding transition_def by (auto split: if_splits option.splits)
  obtain t where t: "t \<in> set (db_tasks d)" "?p t" "tid = i"
    and d': "d' = d\<lparr>db_tasks := put_row t (?f t) (db_tasks d)\<rparr>"
    using sql_update_tasks_one [OF tab upd, of i] by auto
  have "distinct (map t_id (db_tasks d'))"
    using tab d' by (simp add: table_inv_def map_put_row)
  then have "res = ?f t"
    using distinct_map_unique [of t_id "db_tasks d'" res "?f t"] require_taskD [OF res] d' t by simp
  with that [of t] t d' can show thesis by simp
qed

lemma transition_store_inv [step_invs]:
  assumes inv: "store_inv d"
    and step: "transition seen d i ex tg now rsn ec em nxt = Inr (res, d')"
  shows "store_inv d' \<and> history_extends d d'"
  using store_inv_parts(1) [OF inv] step
proof (cases rule: transition_cases)
  case (1 t)
  let ?t' = "transition_row tg now rsn ec em nxt t"
  note tab = store_inv_parts(1) [OF inv] and lea = store_inv_parts(2) [OF inv]
  have own: "ownership_complete ?t' = ownership_complete t"
    by (simp add: ownership_complete_def)
  have "lease_inv d'"
    unfolding 1(8)
    by (rule lease_inv_put_task [OF lea 1(1)])
      (use own 1(3,5,6) lease_invD(1) [OF lea 1(1)] in \<open>auto simp: LEASED_TASK_STATUSES_def\<close>)
  moreover have "table_inv d'"
    unfolding 1(8)
    by (rule table_inv_put_task [OF tab 1(1)])
      (use task_check_transition_row [OF store_inv_task_check [OF inv 1(1)]] in simp_all)
  ultimately show ?thesis
    using 1(8) by (simp add: store_inv_def history_same_runs)
qed

lemma create_task_cases:
  assumes "create_task t d = Inr (row, d')"
  shows "t_status t = Pending" and "row = t\<lparr>t_id := next_id (map t_id (db_tasks d))\<rparr>"
    and "d' = d\<lparr>db_tasks := db_tasks d @ [row]\<rparr>" and "task_check row"
  using assms by (auto simp: create_task_def sql_insert_task_def Let_def split: if_splits)

text \<open>A new task is not leased: the callers of \<open>create_task\<close> leave the lock columns empty.\<close>

lemma create_task_store_inv [step_invs]:
  assumes inv: "store_inv d" and step: "create_task t d = Inr (row, d')" and free: "ownership_clear t"
  shows "store_inv d' \<and> history_extends d d'"
proof -
  note c = create_task_cases [OF step]
  note old = lease_invD [OF store_inv_parts(2) [OF inv]]
  have row: "t_status row = Pending" "\<not> ownership_complete row"
    using c(1,2) free ownership_clear_not_complete
    by (auto simp: ownership_complete_def ownership_clear_def)
  have "leases_agree (insert row (set (db_tasks d))) (set (db_runs d))"
  proof (rule leases_agreeI)
    fix x
    assume "x \<in> insert row (set (db_tasks d))" and "ownership_complete x"
    then show "t_status x \<in> LEASED_TASK_STATUSES" and "\<exists>r \<in> set (db_runs d). run_of x r"
      using old(1,3) row by auto
  next
    fix x
    assume "x \<in> insert row (set (db_tasks d))" and "t_status x = Running"
    then show "ownership_complete x"
      using old(2) row by auto
  next
    fix r
    assume "r \<in> set (db_runs d)" and "r_status r = RunRunning"
    then show "\<exists>x \<in> insert row (set (db_tasks d)). ownership_complete x \<and> run_of x r"
      using old(4) by blast
  qed (fact old(5))
  then have "lease_inv d'"
    using c(3) by (simp add: lease_inv_def)
  moreover have "table_inv d'"
    using table_inv_insert_task [OF store_inv_parts(1) [OF inv]] step c(1)
    by (simp add: create_task_def)
  ultimately show ?thesis
    using c(3) by (simp add: store_inv_def history_same_runs)
qed

end
