(* ===== verification/Traces.thy ===== *)
theory Traces
  imports Main
begin

text \<open>
  State machines: sequences of steps, and the two contracts the components of the program share.
  An evolving system keeps an invariant and a relation between earlier and later states.  A
  fenced system has permissions: who lacks one is refused, and keeps lacking it until a step
  grants it.
\<close>

inductive trace :: "('e \<Rightarrow> 's \<Rightarrow> 's \<Rightarrow> bool) \<Rightarrow> 'e list \<Rightarrow> 's \<Rightarrow> 's \<Rightarrow> bool"
  for step :: "'e \<Rightarrow> 's \<Rightarrow> 's \<Rightarrow> bool" where
  trace_nil: "trace step [] s s"
| trace_cons: "step e s s1 \<Longrightarrow> trace step es s1 s' \<Longrightarrow> trace step (e # es) s s'"

inductive_simps trace_Nil [simp]: "trace step [] s s'"
inductive_simps trace_Cons [simp]: "trace step (e # es) s s'"

lemma trace_append: "trace step (es @ fs) s s' \<longleftrightarrow> (\<exists>m. trace step es s m \<and> trace step fs m s')"
  by (induction es arbitrary: s) auto

locale evolving_system =
  fixes step :: "'e \<Rightarrow> 's \<Rightarrow> 's \<Rightarrow> bool" and inv :: "'s \<Rightarrow> bool" and evolves :: "'s \<Rightarrow> 's \<Rightarrow> bool"
  assumes step_keeps: "step e s s' \<Longrightarrow> inv s \<Longrightarrow> inv s' \<and> evolves s s'"
    and evolves_refl: "evolves s s"
    and evolves_trans: "evolves s s1 \<Longrightarrow> evolves s1 s' \<Longrightarrow> evolves s s'"
begin

lemma trace_keeps: "trace step es s s' \<Longrightarrow> inv s \<Longrightarrow> inv s' \<and> evolves s s'"
proof (induction rule: trace.induct)
  case (trace_nil s)
  then show ?case by (simp add: evolves_refl)
next
  case (trace_cons e s s1 es s')
  then show ?case
    using step_keeps evolves_trans by blast
qed

end

locale fenced_system = evolving_system step inv evolves
  for step :: "'e \<Rightarrow> 's \<Rightarrow> 's \<Rightarrow> bool" and inv :: "'s \<Rightarrow> bool" and evolves :: "'s \<Rightarrow> 's \<Rightarrow> bool" +
  fixes lacks :: "'k \<Rightarrow> 's \<Rightarrow> bool" and grants :: "'k \<Rightarrow> 'e \<Rightarrow> bool" and refused :: "'k \<Rightarrow> 's \<Rightarrow> bool"
  assumes stays_lacking: "step e s s' \<Longrightarrow> inv s \<Longrightarrow> lacks k s \<Longrightarrow> \<not> grants k e \<Longrightarrow> lacks k s'"
    and lacking_is_refused: "inv s \<Longrightarrow> lacks k s \<Longrightarrow> refused k s"
begin

lemma trace_lacks:
  "trace step es s s' \<Longrightarrow> inv s \<Longrightarrow> lacks k s \<Longrightarrow> \<forall>e \<in> set es. \<not> grants k e \<Longrightarrow> lacks k s'"
proof (induction rule: trace.induct)
  case (trace_nil s)
  then show ?case by simp
next
  case (trace_cons e s s1 es s')
  then show ?case
    using stays_lacking step_keeps by simp
qed

lemma trace_refused:
  assumes "trace step es s s'" and "inv s" and "lacks k s" and "\<forall>e \<in> set es. \<not> grants k e"
  shows "refused k s'"
  using trace_lacks [OF assms] trace_keeps [OF assms(1,2)] lacking_is_refused by blast

end

end
