(* ===== verification/TaskSystem.thy ===== *)
theory TaskSystem
  imports TaskLifecycle Traces
begin

text \<open>
  The task store under any interleaving of its clients: an event is one repository call of one
  process, in its own transaction; a call that raises leaves the store as it was.  The reads of a
  call may be stale (\<open>seen\<close>).  A reachable store is one that some sequence of events makes from
  the empty database.
\<close>

section \<open>Events\<close>

datatype event =
    CreateTask task
  | ClaimNext string timedelta string datetime
  | Heartbeat int string string timedelta datetime
  | FinishRun int int string string task_status task_status run_status "datetime option"
      "int option" "string option" "string option" "string option"
      "(string \<times> json) list option" "string option" "datetime option" bool datetime
  | RecoverLease db expired_lease "datetime option" datetime
  | Transition db int task_status task_status datetime "string option" "string option"
      "string option" "datetime option"

definition commit :: "db \<Rightarrow> repo_error + 'a \<times> db \<Rightarrow> db" where
  "commit d res = (case res of Inl _ \<Rightarrow> d | Inr (_, d') \<Rightarrow> d')"

fun step_event :: "event \<Rightarrow> db \<Rightarrow> db" where
  "step_event (CreateTask t) d = commit d (create_task t d)"
| "step_event (ClaimNext w dur k now) d = commit d (claim_next w dur k now d)"
| "step_event (Heartbeat i w k dur now) d = commit d (heartbeat i w k dur now d)"
| "step_event (FinishRun i rid w k ex ts rs fin dur sm ec em ms rsn nxt b now) d =
     commit d (finish_run i rid w k ex ts rs fin dur sm ec em ms rsn nxt b now d)"
| "step_event (RecoverLease seen l n now) d = commit d (recover_expired_lease seen l n now d)"
| "step_event (Transition seen i ex tg now rsn ec em nxt) d =
     commit d (transition seen d i ex tg now rsn ec em nxt)"

text \<open>New tasks are created unleased, as every caller of \<open>create_task\<close> does.\<close>

fun fair_event :: "event \<Rightarrow> bool" where
  "fair_event (CreateTask t) = ownership_clear t"
| "fair_event _ = True"

inductive task_step :: "event \<Rightarrow> db \<Rightarrow> db \<Rightarrow> bool" where
  "fair_event e \<Longrightarrow> task_step e d (step_event e d)"

abbreviation task_trace :: "event list \<Rightarrow> db \<Rightarrow> db \<Rightarrow> bool" where
  "task_trace \<equiv> trace task_step"

inductive_simps task_step_iff: "task_step e d d'"

definition empty_db :: db where
  "empty_db = \<lparr>db_tasks = [], db_runs = [], db_subscriptions = [], db_files = [], db_updates = []\<rparr>"

definition reachable :: "db \<Rightarrow> bool" where
  "reachable d \<longleftrightarrow> (\<exists>es. task_trace es empty_db d)"

section \<open>The invariant holds in every reachable store\<close>

lemma commit_cases:
  obtains (failed) e where "res = Inl e" and "commit d res = d"
  | (committed) x where "res = Inr (x, commit d res)"
  by (cases res) (auto simp: commit_def)

lemma store_inv_empty: "store_inv empty_db"
  by (simp add: store_inv_def table_inv_def lease_inv_def leases_agree_def empty_db_def
      unique_column_def)

lemma commit_keeps:
  assumes "store_inv d" and "\<And>x d'. res = Inr (x, d') \<Longrightarrow> store_inv d' \<and> history_extends d d'"
  shows "store_inv (commit d res) \<and> history_extends d (commit d res)"
  using assms by (cases res) (auto simp: commit_def)

lemma step_event_keeps:
  assumes "store_inv d" and "fair_event e"
  shows "store_inv (step_event e d) \<and> history_extends d (step_event e d)"
  using assms
  by (cases e) (auto intro!: commit_keeps simp del: split_paired_All dest: step_invs)

lemma task_step_keeps:
  "task_step e d d' \<Longrightarrow> store_inv d \<Longrightarrow> store_inv d' \<and> history_extends d d'"
  using step_event_keeps by (auto simp: task_step_iff)

interpretation tasks: evolving_system task_step store_inv history_extends
  by unfold_locales (auto intro: history_trans dest: task_step_keeps)

lemmas task_trace_keeps = tasks.trace_keeps

lemma reachable_store_inv: "reachable d \<Longrightarrow> store_inv d"
  using task_trace_keeps store_inv_empty by (auto simp: reachable_def)

section \<open>How a task's row evolves\<close>

text \<open>The columns of a task that no operation writes.\<close>

definition task_static :: "task \<Rightarrow> int \<times> string \<times> (string \<times> json) list \<times> int \<times> string option \<times> int \<times>
    int \<times> int option \<times> int option \<times> int option \<times> string \<times> datetime" where
  "task_static t = (t_id t, t_type t, t_payload t, t_payload_version t, t_idempotency_key t,
     t_max_retries t, t_priority t, t_account_id t, t_subscription_id t, t_file_id t,
     t_trigger_type t, t_created_at t)"

lemma task_static_rows [simp]:
  "task_static (claim_row w k a u t) = task_static t"
  "task_static (heartbeat_row a dur t) = task_static t"
  "task_static (finish_task_row s o1 u c e m n b t) = task_static t"
  "task_static (recover_row s n rc u t) = task_static t"
  "task_static (transition_row s o1 bk c e n t) = task_static t"
  by (simp_all add: task_static_def claim_row_def heartbeat_row_def finish_task_row_def
      recover_row_def transition_row_def task_transition_values_def release_ownership_def Let_def)

definition row_follows :: "task \<Rightarrow> task \<Rightarrow> bool" where
  "row_follows t t' \<longleftrightarrow> task_static t' = task_static t \<and>
     (t_status t' = t_status t \<or> can_transition (t_status t) (t_status t'))"

definition rows_follow :: "db \<Rightarrow> db \<Rightarrow> bool" where
  "rows_follow d d' \<longleftrightarrow> (\<forall>t \<in> set (db_tasks d). \<exists>t' \<in> set (db_tasks d'). row_follows t t')"

lemma rows_follow_refl [simp]: "rows_follow d d"
  by (auto simp: rows_follow_def row_follows_def)

lemma rows_follow_put:
  assumes "t \<in> set (db_tasks d)" and "row_follows t t'"
    and "db_tasks d' = put_row t t' (db_tasks d)"
  shows "rows_follow d d'"
proof -
  have "\<exists>y \<in> insert t' (set (db_tasks d) - {t}). row_follows x y" if "x \<in> set (db_tasks d)" for x
    using that assms(2) by (cases "x = t") (auto simp: row_follows_def)
  with assms(1,3) show ?thesis
    by (simp add: rows_follow_def)
qed

lemma claim_rows_follow:
  assumes "store_inv d" and "claim_next w dur k now d = Inr (c, d')"
  shows "rows_follow d d'"
  using assms
proof (cases rule: claim_next_cases)
  case (some t)
  have t: "t \<in> set (db_tasks d)" "is_claimable now t"
    using select_one_SomeD [OF some(1)] by auto
  have "row_follows t (claim_row w k now (now + dur) t)"
    using is_claimable_where [OF t(2)]
    by (auto simp: row_follows_def can_transition_def task_status_sets)
  then show ?thesis
    by (rule rows_follow_put [OF t(1)]) (simp add: some(3))
qed simp

lemma heartbeat_rows_follow:
  assumes "store_inv d" and "heartbeat i w k dur now d = Inr (res, d')"
  shows "rows_follow d d'"
  using assms
proof (cases rule: heartbeat_cases)
  case (1 t r)
  then show ?thesis
    by (intro rows_follow_put [OF 1(1), of "heartbeat_row now dur t"])
      (simp_all add: row_follows_def heartbeat_row_def task_static_def)
qed

lemma finish_rows_follow:
  assumes "store_inv d"
    and "finish_run i rid w k ex ts rs fin dur sm ec em ms rsn nxt b now d = Inr (res, d')"
  shows "rows_follow d d'"
  using assms
proof (cases rule: finish_run_cases)
  case (1 t r)
  show ?thesis
    by (rule rows_follow_put [OF 1(1)]) (use 1(3,4,12) in \<open>simp_all add: row_follows_def\<close>)
qed

lemma recover_rows_follow:
  assumes inv: "store_inv d" and "recover_expired_lease seen l n now d = Inr (res, d')"
  shows "rows_follow d d'"
  using assms
proof (cases rule: recover_cases)
  case (some cur t r tg at)
  have "ownership_complete t"
    using task_check_owned(1) [OF store_inv_task_check [OF inv some(4)]] some(5)
    by (simp add: lease_matches_def)
  then have "t_status t \<in> LEASED_TASK_STATUSES"
    using lease_invD(1) [OF store_inv_parts(2) [OF inv] some(4)] by simp
  moreover have "t_status t = t_status cur"
    using some(2,5) by (simp add: lease_matches_def)
  ultimately have "can_transition (t_status t) tg"
    using recovery_targetD [OF some(3)]
    by (auto simp: LEASED_TASK_STATUSES_def can_transition_def)
  then show ?thesis
    by (intro rows_follow_put [OF some(4)]) (use some(10) in \<open>simp_all add: row_follows_def\<close>)
qed simp

lemma transition_rows_follow:
  assumes "store_inv d" and "transition seen d i ex tg now rsn ec em nxt = Inr (res, d')"
  shows "rows_follow d d'"
  using store_inv_parts(1) [OF assms(1)] assms(2)
proof (cases rule: transition_cases)
  case (1 t)
  show ?thesis
    by (rule rows_follow_put [OF 1(1)]) (use 1(3,4,8) in \<open>simp_all add: row_follows_def\<close>)
qed

lemma create_rows_follow: "create_task t d = Inr (row, d') \<Longrightarrow> rows_follow d d'"
  using create_task_cases(3) [of t d row d'] by (auto simp: rows_follow_def row_follows_def)

lemmas op_rows_follow =
  claim_rows_follow heartbeat_rows_follow finish_rows_follow recover_rows_follow
  transition_rows_follow create_rows_follow

lemma commit_rows_follow:
  assumes "\<And>x d'. res = Inr (x, d') \<Longrightarrow> rows_follow d d'"
  shows "rows_follow d (commit d res)"
  using assms by (cases res) (auto simp: commit_def)

lemma step_rows_follow: "task_step e d d' \<Longrightarrow> store_inv d \<Longrightarrow> rows_follow d d'"
  by (cases e) (auto intro!: commit_rows_follow simp: task_step_iff simp del: split_paired_All
      dest: op_rows_follow)

text \<open>Along a trace the status of a task follows a path of the transition policy.\<close>

lemma trace_status_path:
  assumes "task_trace es d d'" and "store_inv d" and "t \<in> set (db_tasks d)"
  shows "\<exists>t' \<in> set (db_tasks d'). task_static t' = task_static t \<and>
           (\<exists>us. status_path (t_status t) us \<and> last (t_status t # us) = t_status t')"
  using assms
proof (induction arbitrary: t rule: trace.induct)
  case (trace_nil d)
  then show ?case by (auto intro: exI [of _ "[]"])
next
  case (trace_cons e d d1 es d')
  obtain u where u: "u \<in> set (db_tasks d1)" "row_follows t u"
    using step_rows_follow [OF trace_cons.hyps(1) trace_cons.prems(1)] trace_cons.prems(2)
    by (auto simp: rows_follow_def)
  have "store_inv d1"
    using task_step_keeps [OF trace_cons.hyps(1) trace_cons.prems(1)] by simp
  from trace_cons.IH [OF this u(1)]
  obtain t' us where t': "t' \<in> set (db_tasks d')" "task_static t' = task_static u"
    "status_path (t_status u) us" "last (t_status u # us) = t_status t'"
    by blast
  have "\<exists>vs. status_path (t_status t) vs \<and> last (t_status t # vs) = t_status t'"
  proof (cases "t_status u = t_status t")
    case True
    with t'(3,4) show ?thesis by (intro exI [of _ us]) (simp only: simp_thms)
  next
    case False
    with u(2) have "can_transition (t_status t) (t_status u)"
      by (simp add: row_follows_def)
    with t'(3,4) show ?thesis
      by (intro exI [of _ "t_status u # us"]) simp
  qed
  moreover have "task_static t' = task_static t"
    using t'(2) u(2) by (simp add: row_follows_def)
  ultimately show ?case
    using t'(1) by (intro bexI [of _ t'] conjI)
qed

section \<open>Fencing\<close>

text \<open>Nobody holds task \<open>i\<close> with the token \<open>k\<close>.\<close>

definition token_unused :: "int \<Rightarrow> string \<Rightarrow> db \<Rightarrow> bool" where
  "token_unused i k d \<longleftrightarrow> (\<forall>t \<in> set (db_tasks d). t_id t = i \<longrightarrow> t_lock_token t \<noteq> Some k)"

fun claims_with :: "string \<Rightarrow> event \<Rightarrow> bool" where
  "claims_with k (ClaimNext w dur k' now) = (k' = k)"
| "claims_with k _ = False"

lemma release_token [simp]:
  "t_lock_token (finish_task_row s o1 u c e m n b t) = None"
  "t_lock_token (recover_row s n rc u t) = None"
  "t_lock_token (heartbeat_row a dur t) = t_lock_token t"
  by (simp_all add: finish_task_row_def recover_row_def heartbeat_row_def release_ownership_def
      Let_def)

lemma token_unused_put:
  assumes "token_unused i k d" and "t \<in> set (db_tasks d)" and "t_id t' = t_id t"
    and "t_lock_token t' = Some k \<Longrightarrow> t_lock_token t = Some k"
    and "db_tasks d' = put_row t t' (db_tasks d)"
  shows "token_unused i k d'"
  using assms by (auto simp: token_unused_def)

lemma commit_token_unused:
  assumes "token_unused i k d" and "\<And>x d'. res = Inr (x, d') \<Longrightarrow> token_unused i k d'"
  shows "token_unused i k (commit d res)"
  using assms by (cases res) (auto simp: commit_def)

lemma step_token_unused:
  assumes step: "task_step e d d'" and inv: "store_inv d" and free: "token_unused i k d"
    and new: "\<not> claims_with k e"
  shows "token_unused i k d'"
proof -
  from step have fair: "fair_event e" and d': "d' = step_event e d"
    by (simp_all add: task_step_iff)
  have "token_unused i k (step_event e d)"
  proof (cases e)
    case (CreateTask t)
    with fair have "t_lock_token t = None" by (simp add: ownership_clear_def)
    then show ?thesis
      unfolding CreateTask step_event.simps
      using free create_task_cases(2,3)
      by (intro commit_token_unused) (fastforce simp: token_unused_def)+
  next
    case (ClaimNext w dur k' now)
    show ?thesis
      unfolding ClaimNext step_event.simps
    proof (rule commit_token_unused [OF free])
      fix c d1
      assume "claim_next w dur k' now d = Inr (c, d1)"
      with inv show "token_unused i k d1"
      proof (cases rule: claim_next_cases)
        case (some t)
        with new ClaimNext select_one_SomeD [OF some(1)] show ?thesis
          by (intro token_unused_put [OF free]) auto
      qed (use free in simp)
    qed
  next
    case (Heartbeat i' w k' dur now)
    show ?thesis
      unfolding Heartbeat step_event.simps
    proof (rule commit_token_unused [OF free])
      fix c d1
      assume "heartbeat i' w k' dur now d = Inr (c, d1)"
      with inv show "token_unused i k d1"
        by (cases rule: heartbeat_cases)
          (rule token_unused_put [OF free], auto simp: heartbeat_row_def)
    qed
  next
    case (FinishRun i' rid w k' ex ts rs fin dur sm ec em ms rsn nxt b now)
    show ?thesis
      unfolding FinishRun step_event.simps
    proof (rule commit_token_unused [OF free])
      fix c d1
      assume "finish_run i' rid w k' ex ts rs fin dur sm ec em ms rsn nxt b now d = Inr (c, d1)"
      with inv show "token_unused i k d1"
        by (cases rule: finish_run_cases) (rule token_unused_put [OF free], auto)
    qed
  next
    case (RecoverLease seen l n now)
    show ?thesis
      unfolding RecoverLease step_event.simps
    proof (rule commit_token_unused [OF free])
      fix c d1
      assume "recover_expired_lease seen l n now d = Inr (c, d1)"
      with inv show "token_unused i k d1"
      proof (cases rule: recover_cases)
        case (some cur t r tg at)
        then show ?thesis by (intro token_unused_put [OF free some(4)]) auto
      qed (use free in simp)
    qed
  next
    case (Transition seen i' ex tg now rsn ec em nxt)
    show ?thesis
      unfolding Transition step_event.simps
    proof (rule commit_token_unused [OF free])
      fix c d1
      assume "transition seen d i' ex tg now rsn ec em nxt = Inr (c, d1)"
      with store_inv_parts(1) [OF inv] show "token_unused i k d1"
        by (cases rule: transition_cases) (rule token_unused_put [OF free], auto)
    qed
  qed
  then show ?thesis by (simp add: d')
qed

text \<open>Without the lease, the owner's operations are refused.\<close>

lemma finish_run_refused:
  assumes "store_inv d" and "token_unused i k d"
  shows "\<exists>err. finish_run i rid w k ex ts rs fin dur sm ec em ms rsn nxt b now d = Inl err"
proof (cases "finish_run i rid w k ex ts rs fin dur sm ec em ms rsn nxt b now d")
  case (Inr y)
  then obtain res d' where
    "finish_run i rid w k ex ts rs fin dur sm ec em ms rsn nxt b now d = Inr (res, d')"
    by (cases y) auto
  with assms(1) show ?thesis
  proof (cases rule: finish_run_cases)
    case (1 t r)
    with assms(2) show ?thesis by (auto simp: token_unused_def owned_row_def)
  qed
qed simp

lemma heartbeat_refused:
  assumes "store_inv d" and "token_unused i k d"
  shows "\<exists>err. heartbeat i w k dur now d = Inl err"
proof (cases "heartbeat i w k dur now d")
  case (Inr y)
  then obtain res d' where "heartbeat i w k dur now d = Inr (res, d')"
    by (cases y) auto
  with assms(1) show ?thesis
  proof (cases rule: heartbeat_cases)
    case (1 t r)
    with assms(2) show ?thesis by (auto simp: token_unused_def owned_row_def)
  qed
qed simp

text \<open>A task and a lock token: who does not hold the task with the token is refused.\<close>

fun lacks_lease :: "int \<times> string \<Rightarrow> db \<Rightarrow> bool" where
  "lacks_lease (i, k) d = token_unused i k d"

fun grants_lease :: "int \<times> string \<Rightarrow> event \<Rightarrow> bool" where
  "grants_lease (i, k) e = claims_with k e"

definition owner_refused :: "int \<times> string \<Rightarrow> db \<Rightarrow> bool" where
  "owner_refused p d \<longleftrightarrow>
     (\<forall>rid w ex ts rs fin dur sm ec em ms rsn nxt b now. \<exists>err.
        finish_run (fst p) rid w (snd p) ex ts rs fin dur sm ec em ms rsn nxt b now d = Inl err) \<and>
     (\<forall>w dur now. \<exists>err. heartbeat (fst p) w (snd p) dur now d = Inl err)"

interpretation leases: fenced_system task_step store_inv history_extends
    lacks_lease grants_lease owner_refused
proof
  fix e d d' p
  assume "task_step e d d'" and "store_inv d" and "lacks_lease p d" and "\<not> grants_lease p e"
  then show "lacks_lease p d'"
    by (cases p) (simp add: step_token_unused)
next
  fix d p
  assume "store_inv d" and "lacks_lease p d"
  then show "owner_refused p d"
    by (cases p) (auto simp: owner_refused_def intro!: finish_run_refused heartbeat_refused)
qed

end
