(* ===== verification/WorkerRuntime.thy ===== *)
theory WorkerRuntime
  imports TaskSystem
begin

text \<open>
  The worker (\<open>app/task_engine/worker.py\<close>, \<open>app/task_engine/handlers.py\<close>): backoff, task
  outcomes, the handler registry, and the cycle that recovers leases, claims a task, runs its
  handler under a heartbeat and settles the run.  A handler is code of another component: the
  cycle takes what it returned and what the rest of the system did to the database meanwhile.
\<close>

section \<open>Exponential backoff\<close>

record backoff =
  bo_base_delay :: timedelta
  bo_max_delay :: timedelta

definition backoff_valid :: "backoff \<Rightarrow> bool" where
  "backoff_valid b \<longleftrightarrow> 0 < bo_base_delay b \<and> bo_base_delay b \<le> bo_max_delay b"

text \<open>
  The loop of \<open>delay_for\<close>.  \<open>self.max_delay / 2\<close> divides a \<open>timedelta\<close> by an integer, which
  rounds to the nearest microsecond, ties to even.
\<close>

fun delay_loop :: "nat \<Rightarrow> timedelta \<Rightarrow> timedelta \<Rightarrow> timedelta" where
  "delay_loop 0 delay max_delay = min delay max_delay"
| "delay_loop (Suc n) delay max_delay =
     (if round_half_even_div max_delay 2 \<le> delay then max_delay
      else delay_loop n (delay * 2) max_delay)"

definition delay_for :: "backoff \<Rightarrow> int \<Rightarrow> repo_error + timedelta" where
  "delay_for b retry_count =
     (if retry_count < 0 then Inl (ValueError NegativeRetryCount)
      else Inr (delay_loop (nat retry_count) (bo_base_delay b) (bo_max_delay b)))"

definition bounded_delay :: "backoff \<Rightarrow> timedelta \<Rightarrow> repo_error + timedelta" where
  "bounded_delay b delay =
     (if delay \<le> 0 then Inl (ValueError NonPositiveDelay) else Inr (min delay (bo_max_delay b)))"

lemma round_half_even_div_2:
  "round_half_even_div m 2 =
     (if even m then m div 2 else if even (m div 2) then m div 2 else m div 2 + 1)"
  by (cases "even m") (auto simp: round_half_even_div_def Let_def odd_iff_mod_2_eq_one)

lemma delay_loop_exact:
  assumes "even mx" and "0 < delay" and "delay \<le> mx"
  shows "delay_loop n delay mx = min (delay * 2 ^ n) mx"
  using assms
proof (induction n arbitrary: delay)
  case 0
  then show ?case by simp
next
  case (Suc n)
  show ?case
  proof (cases "mx div 2 \<le> delay")
    case True
    then have "mx \<le> delay * 2" using Suc.prems(1) by presburger
    moreover have "delay * 2 \<le> delay * 2 ^ Suc n"
      using Suc.prems(2) by simp
    ultimately show ?thesis
      using True Suc.prems(1) by (simp add: round_half_even_div_2)
  next
    case False
    then have "delay * 2 \<le> mx" by presburger
    with Suc.IH [of "delay * 2"] Suc.prems False show ?thesis
      by (simp add: round_half_even_div_2 mult.assoc)
  qed
qed

lemma delay_loop_bounds:
  assumes "0 < delay" and "delay \<le> mx"
  shows "min (delay * 2 ^ n) mx \<le> delay_loop n delay mx \<and>
         delay_loop n delay mx \<le> min (delay * 2 ^ n + 1) mx"
  using assms
proof (induction n arbitrary: delay)
  case 0
  then show ?case by simp
next
  case (Suc n)
  let ?h = "round_half_even_div mx 2"
  have h: "mx - 1 \<le> 2 * ?h" "2 * ?h \<le> mx + 1"
    by (auto simp: round_half_even_div_2) presburger+
  show ?case
  proof (cases "?h \<le> delay")
    case True
    have "delay * 2 \<le> delay * 2 ^ Suc n"
      using Suc.prems(1) by simp
    with True h(1) have "mx \<le> delay * 2 ^ Suc n + 1" by linarith
    with True show ?thesis by simp
  next
    case False
    with h(2) have "delay * 2 \<le> mx" by linarith
    with Suc.IH [of "delay * 2"] Suc.prems False show ?thesis
      by (simp add: mult.assoc)
  qed
qed

section \<open>Outcomes, invocations and the registry\<close>

datatype outcome_status =
    OutDeferred | OutSuccess | OutRetry | OutFailed | OutWaitingCredential | OutCancelled

record task_outcome =
  o_status :: outcome_status
  o_summary :: "string option"
  o_error_code :: "string option"
  o_error_message :: "string option"
  o_metrics :: "(string \<times> json) list option"
  o_retry_after :: "timedelta option"
  o_blocked_reason :: "string option"

definition outcome_valid :: "task_outcome \<Rightarrow> bool" where
  "outcome_valid oc \<longleftrightarrow>
     (case o_retry_after oc of None \<Rightarrow> True | Some a \<Rightarrow> 0 < a) \<and>
     (o_status oc = OutRetry \<longrightarrow> o_error_code oc \<noteq> None) \<and>
     (o_status oc = OutWaitingCredential \<longrightarrow> o_blocked_reason oc \<noteq> None) \<and>
     (o_status oc \<notin> {OutRetry, OutDeferred} \<longrightarrow> o_retry_after oc = None) \<and>
     (o_status oc \<noteq> OutWaitingCredential \<longrightarrow> o_blocked_reason oc = None)"

record task_invocation =
  i_task_id :: int
  i_task_run_id :: int
  i_task_type :: string
  i_payload_version :: int
  i_payload :: "(string \<times> json) list"
  i_trigger_type :: string
  i_account_id :: "int option"
  i_subscription_id :: "int option"
  i_file_id :: "int option"
  i_claimed_status :: task_status
  i_retry_count :: int
  i_max_retries :: int
  i_provider_write_intent_at :: "datetime option"
  i_provider_operation_id :: "string option"
  i_provider_operation_status :: "provider_op_status option"
  i_provider_result :: "(string \<times> json) list option"

text \<open>
  The payload is copied into immutable mappings and tuples, which here it already is.
\<close>

definition invocation_from_task :: "task \<Rightarrow> int \<Rightarrow> task_invocation" where
  "invocation_from_task t run_id =
     \<lparr>i_task_id = t_id t, i_task_run_id = run_id, i_task_type = t_type t,
      i_payload_version = t_payload_version t, i_payload = t_payload t,
      i_trigger_type = t_trigger_type t, i_account_id = t_account_id t,
      i_subscription_id = t_subscription_id t, i_file_id = t_file_id t,
      i_claimed_status = t_status t, i_retry_count = t_retry_count t,
      i_max_retries = t_max_retries t,
      i_provider_write_intent_at = t_provider_write_intent_at t,
      i_provider_operation_id = t_provider_operation_id t,
      i_provider_operation_status = t_provider_operation_status t,
      i_provider_result = t_provider_result t\<rparr>"

datatype registry_error = EmptyTaskType | NonPositiveVersion | HandlerRegistered string int

definition registry_register ::
    "string \<Rightarrow> int \<Rightarrow> 'h \<Rightarrow> (string \<times> int \<rightharpoonup> 'h) \<Rightarrow> registry_error + (string \<times> int \<rightharpoonup> 'h)" where
  "registry_register task_type version handler reg =
     (if task_type = [] then Inl EmptyTaskType
      else if version < 1 then Inl NonPositiveVersion
      else if reg (task_type, version) \<noteq> None then Inl (HandlerRegistered task_type version)
      else Inr (reg((task_type, version) \<mapsto> handler)))"

definition registry_resolve :: "(string \<times> int \<rightharpoonup> 'h) \<Rightarrow> string \<Rightarrow> int \<Rightarrow> 'h option" where
  "registry_resolve reg task_type version = reg (task_type, version)"

section \<open>Runtime\<close>

record worker_runtime =
  w_worker_id :: string
  w_lease_duration :: timedelta
  w_heartbeat_interval :: timedelta
  w_recovery_limit :: int
  w_backoff :: backoff

definition runtime_valid :: "worker_runtime \<Rightarrow> bool" where
  "runtime_valid w \<longleftrightarrow> w_worker_id w \<noteq> [] \<and> 0 < w_lease_duration w \<and>
     0 < w_heartbeat_interval w \<and> w_heartbeat_interval w < w_lease_duration w \<and>
     1 \<le> w_recovery_limit w \<and> w_recovery_limit w \<le> 1000 \<and> backoff_valid (w_backoff w)"

datatype worker_error = RepoError repo_error | InvalidTaskOutcomeError

fun lift_repo :: "repo_error + 'a \<Rightarrow> worker_error + 'a" where
  "lift_repo (Inl e) = Inl (RepoError e)"
| "lift_repo (Inr x) = Inr x"

lemma lift_repo_Inr [simp]: "lift_repo m = Inr x \<longleftrightarrow> m = Inr x"
  by (cases m) auto

record claimed_execution =
  x_invocation :: task_invocation
  x_lock_token :: string

text \<open>The recovery loop of \<open>_recover_and_claim\<close>.\<close>

fun recover_leases ::
    "backoff \<Rightarrow> datetime \<Rightarrow> expired_lease list \<Rightarrow> db \<Rightarrow> repo_error + int \<times> db" where
  "recover_leases b now [] d = Inr (0, d)"
| "recover_leases b now (lease # leases) d =
     bindR (delay_for b (e_retry_count lease)) (\<lambda>delay.
     bindR (recover_expired_lease d lease (Some (now + delay)) now d) (\<lambda>(recovered, d').
     bindR (recover_leases b now leases d') (\<lambda>(n, d'').
     Inr ((case recovered of None \<Rightarrow> n | Some _ \<Rightarrow> n + 1), d''))))"

text \<open>
  One transaction: recover, then stop at the update gate, else claim.  The result is the claimed
  execution, the number of recovered leases and whether the gate blocked.
\<close>

definition recover_and_claim ::
    "worker_runtime \<Rightarrow> (db \<Rightarrow> bool) \<Rightarrow> string \<Rightarrow> datetime \<Rightarrow> db \<Rightarrow>
     repo_error + (claimed_execution option \<times> int \<times> bool) \<times> db" where
  "recover_and_claim w gate token now d =
     bindR (list_expired_leases (w_recovery_limit w) now d) (\<lambda>leases.
     bindR (recover_leases (w_backoff w) now leases d) (\<lambda>(recovered_count, d1).
     if gate d1 then Inr ((None, recovered_count, True), d1)
     else
     bindR (claim_next (w_worker_id w) (w_lease_duration w) token now d1) (\<lambda>(claim, d2).
     case claim of
       None \<Rightarrow> Inr ((None, recovered_count, False), d2)
     | Some c \<Rightarrow>
         Inr ((Some \<lparr>x_invocation = invocation_from_task (c_task c) (r_id (c_task_run c)),
                     x_lock_token = c_lock_token c\<rparr>, recovered_count, False), d2))))"

text \<open>
  The heartbeat loop.  Each tick is the time of a heartbeat with what the other processes did to
  the database since the last one; the list ends when \<open>stop\<close> is set.  The result says whether
  ownership was lost.  An error comes with the database at that moment: the transactions before
  it are committed.
\<close>

fun heartbeat_loop ::
    "worker_runtime \<Rightarrow> claimed_execution \<Rightarrow> (datetime \<times> (db \<Rightarrow> db)) list \<Rightarrow> db \<Rightarrow>
     (worker_error + bool) \<times> db" where
  "heartbeat_loop w x [] d = (Inr False, d)"
| "heartbeat_loop w x ((now, others) # ticks) d =
     (case heartbeat (i_task_id (x_invocation x)) (w_worker_id w) (x_lock_token x)
             (w_lease_duration w) now (others d) of
        Inr (_, d') \<Rightarrow> heartbeat_loop w x ticks d'
      | Inl (TaskOwnershipLostError _ _) \<Rightarrow> (Inr True, others d)
      | Inl e \<Rightarrow> (Inl (RepoError e), others d))"

definition read_cancellation ::
    "worker_runtime \<Rightarrow> claimed_execution \<Rightarrow> datetime \<Rightarrow> db \<Rightarrow> repo_error + bool" where
  "read_cancellation w x now d =
     (let task_id = i_task_id (x_invocation x) in
      case get_task d task_id of
        None \<Rightarrow> Inl (TaskOwnershipLostError task_id (w_worker_id w))
      | Some t \<Rightarrow>
          if t_locked_by t \<noteq> Some (w_worker_id w) \<or> t_lock_token t \<noteq> Some (x_lock_token x) \<or>
             \<not> lease_live now t
          then Inl (TaskOwnershipLostError task_id (w_worker_id w))
          else Inr (t_status t = CancelRequested))"

section \<open>Settling a run\<close>

text \<open>The summary is the source's message, in UTF-8.\<close>

definition download_cancelled_summary :: string where
  "download_cancelled_summary =
     map char_of [228, 184, 139, 232, 189, 189, 229, 183, 178, 229, 143, 150, 230, 182, 136 :: nat]"

definition download_cancelled_outcome :: task_outcome where
  "download_cancelled_outcome =
     \<lparr>o_status = OutCancelled, o_summary = Some download_cancelled_summary, o_error_code = None,
      o_error_message = None, o_metrics = None, o_retry_after = None, o_blocked_reason = None\<rparr>"

record settlement =
  m_task_status :: task_status
  m_run_status :: run_status
  m_consume_retry_budget :: bool
  m_next_attempt_at :: "datetime option"

text \<open>What \<open>_finish\<close> decides from the outcome and the task's row.\<close>

definition settle ::
    "backoff \<Rightarrow> datetime \<Rightarrow> task \<Rightarrow> task_outcome \<Rightarrow> worker_error + settlement" where
  "settle b now t oc =
     (case o_status oc of
        OutDeferred \<Rightarrow>
          (if (case o_metrics oc of None \<Rightarrow> True
                 | Some m \<Rightarrow> jget m ''continuation'' \<noteq> JBool True)
           then Inl InvalidTaskOutcomeError
           else Inr \<lparr>m_task_status = Pending, m_run_status = RunSuccess,
                     m_consume_retry_budget = False,
                     m_next_attempt_at = Some (now + coalesce (o_retry_after oc) (seconds 1))\<rparr>)
      | OutRetry \<Rightarrow>
          (if t_max_retries t < t_retry_count t + 1
           then Inr \<lparr>m_task_status = Failed, m_run_status = RunFailed,
                     m_consume_retry_budget = True, m_next_attempt_at = None\<rparr>
           else
           bindR (lift_repo (case o_retry_after oc of
                               Some a \<Rightarrow> Inr a | None \<Rightarrow> delay_for b (t_retry_count t))) (\<lambda>retry_after.
           bindR (lift_repo (bounded_delay b retry_after)) (\<lambda>delay.
           Inr \<lparr>m_task_status = Retry, m_run_status = RunFailed,
                m_consume_retry_budget = True, m_next_attempt_at = Some (now + delay)\<rparr>)))
      | OutWaitingCredential \<Rightarrow>
          Inr \<lparr>m_task_status = WaitingCredential, m_run_status = RunBlocked,
               m_consume_retry_budget = False, m_next_attempt_at = None\<rparr>
      | OutSuccess \<Rightarrow>
          Inr \<lparr>m_task_status = Success, m_run_status = RunSuccess,
               m_consume_retry_budget = False, m_next_attempt_at = None\<rparr>
      | OutFailed \<Rightarrow>
          Inr \<lparr>m_task_status = Failed, m_run_status = RunFailed,
               m_consume_retry_budget = True, m_next_attempt_at = None\<rparr>
      | OutCancelled \<Rightarrow>
          Inr \<lparr>m_task_status = Cancelled, m_run_status = RunCancelled,
               m_consume_retry_budget = False, m_next_attempt_at = None\<rparr>)"

definition finish ::
    "worker_runtime \<Rightarrow> claimed_execution \<Rightarrow> task_outcome \<Rightarrow> int \<Rightarrow> datetime \<Rightarrow> datetime \<Rightarrow> db \<Rightarrow>
     worker_error + task_status \<times> db" where
  "finish w x outcome dur_ms now clock_now d =
     (let task_id = i_task_id (x_invocation x);
          lost = Inl (RepoError (TaskOwnershipLostError task_id (w_worker_id w)))
      in case get_task d task_id of
        None \<Rightarrow> lost
      | Some t \<Rightarrow>
        if t_locked_by t \<noteq> Some (w_worker_id w) \<or> t_lock_token t \<noteq> Some (x_lock_token x)
        then lost
        else
        let expected_status = t_status t;
            oc = (if expected_status = CancelRequested \<and> t_type t = ''download'' \<and>
                     o_status outcome \<notin> {OutSuccess, OutCancelled}
                  then download_cancelled_outcome else outcome)
        in if expected_status = CancelRequested \<and> o_status oc \<notin> {OutSuccess, OutCancelled}
           then Inl InvalidTaskOutcomeError
           else
           bindR (settle (w_backoff w) now t oc) (\<lambda>m.
           bindR (lift_repo
             (finish_run (t_id t) (i_task_run_id (x_invocation x)) (w_worker_id w) (x_lock_token x)
                expected_status (m_task_status m) (m_run_status m) (Some now) (Some dur_ms)
                (o_summary oc) (o_error_code oc) (o_error_message oc) (o_metrics oc)
                (o_blocked_reason oc) (m_next_attempt_at m) (m_consume_retry_budget m)
                clock_now d)) (\<lambda>((t', _), d').
           Inr (t_status t', d'))))"

section \<open>The cycle\<close>

datatype cycle_status = CycleIdle | CyclePaused | CycleCompleted | CycleOwnershipLost

record cycle_result =
  y_status :: cycle_status
  y_recovered_count :: int
  y_task_id :: "int option"
  y_task_status :: "task_status option"

definition finalize ::
    "worker_runtime \<Rightarrow> claimed_execution \<Rightarrow> task_outcome \<Rightarrow> int \<Rightarrow> int \<Rightarrow> datetime \<Rightarrow>
     datetime \<Rightarrow> db \<Rightarrow> (worker_error + cycle_result) \<times> db" where
  "finalize w x outcome dur_ms recovered_count now clock_now d =
     (case finish w x outcome dur_ms now clock_now d of
        Inl (RepoError (TaskOwnershipLostError _ _)) \<Rightarrow>
          (Inr \<lparr>y_status = CycleOwnershipLost, y_recovered_count = recovered_count,
                y_task_id = Some (i_task_id (x_invocation x)), y_task_status = None\<rparr>, d)
      | Inl e \<Rightarrow> (Inl e, d)
      | Inr (ts, d') \<Rightarrow>
          (Inr \<lparr>y_status = CycleCompleted, y_recovered_count = recovered_count,
                y_task_id = Some (i_task_id (x_invocation x)), y_task_status = Some ts\<rparr>, d'))"

definition unsupported_outcome :: "task_invocation \<Rightarrow> task_outcome" where
  "unsupported_outcome i =
     \<lparr>o_status = OutFailed, o_summary = Some ''No compatible task handler is registered'',
      o_error_code = Some ''UNSUPPORTED_TASK_HANDLER'', o_error_message = Some (''unsupported task type '' @ py_repr (i_task_type i) @
        '' payload v'' @ int_str (i_payload_version i)),
      o_metrics = None, o_retry_after = None, o_blocked_reason = None\<rparr>"

definition exception_outcome :: "string \<Rightarrow> task_outcome" where
  "exception_outcome type_name =
     \<lparr>o_status = OutFailed, o_summary = Some ''Task handler raised an exception'',
      o_error_code = Some ''TASK_HANDLER_EXCEPTION'',
      o_error_message = Some (''task handler raised '' @ type_name),
      o_metrics = None, o_retry_after = None, o_blocked_reason = None\<rparr>"

text \<open>
  What running a handler amounts to for the cycle: its outcome or the type of the exception it
  raised, the ticks of the heartbeat until it ended, the measured duration, and the clock reads
  of the final transaction.  \<open>h_others\<close> is what happened to the database after the last tick.
\<close>

record handler_run =
  h_outcome :: "string + task_outcome"
  h_ticks :: "(datetime \<times> (db \<Rightarrow> db)) list"
  h_duration_ms :: int
  h_others :: "db \<Rightarrow> db"
  h_now :: datetime
  h_clock_now :: datetime

definition run_once ::
    "worker_runtime \<Rightarrow> (db \<Rightarrow> bool) \<Rightarrow> (string \<times> int \<rightharpoonup> claimed_execution \<Rightarrow> handler_run) \<Rightarrow>
     string \<Rightarrow> datetime \<Rightarrow> datetime \<Rightarrow> db \<Rightarrow> (worker_error + cycle_result) \<times> db" where
  "run_once w gate handlers token now end_now d =
     (case recover_and_claim w gate token now d of
        Inl e \<Rightarrow> (Inl (RepoError e), d)
      | Inr ((claimed, recovered, gated), d1) \<Rightarrow>
     if gated
     then (Inr \<lparr>y_status = CyclePaused, y_recovered_count = recovered, y_task_id = None,
                y_task_status = None\<rparr>, d1)
     else case claimed of
       None \<Rightarrow> (Inr \<lparr>y_status = CycleIdle, y_recovered_count = recovered, y_task_id = None,
                    y_task_status = None\<rparr>, d1)
     | Some x \<Rightarrow>
       let i = x_invocation x in
       (case registry_resolve handlers (i_task_type i) (i_payload_version i) of
          None \<Rightarrow> finalize w x (unsupported_outcome i) 0 recovered end_now end_now d1
        | Some handler \<Rightarrow>
            let run = handler x in
            (case heartbeat_loop w x (h_ticks run) d1 of
               (Inl e, d2) \<Rightarrow> (Inl e, d2)
             | (Inr True, d2) \<Rightarrow>
                 (Inr \<lparr>y_status = CycleOwnershipLost, y_recovered_count = recovered,
                       y_task_id = Some (i_task_id i), y_task_status = None\<rparr>, d2)
             | (Inr False, d2) \<Rightarrow>
                 finalize w x
                   (case h_outcome run of Inl type_name \<Rightarrow> exception_outcome type_name
                                        | Inr oc \<Rightarrow> oc)
                   (max 0 (h_duration_ms run)) recovered (h_now run) (h_clock_now run)
                   (h_others run d2))))"

end
