(* ===== verification/WorkerProofs.thy ===== *)
theory WorkerProofs
  imports WorkerRuntime
begin

text \<open>
  What the worker's cycle guarantees: recovery and claiming do not fail on a store that satisfies
  the invariant, they keep it, the update gate stops new leases, and the owner of a live lease
  settles its task by a fixed table from the handler's outcome.
\<close>

section \<open>Recovery\<close>

lemma lease_matches_id: "lease_matches l now t \<Longrightarrow> t_id t = e_task_id l"
  by (simp add: lease_matches_def)

lemma recover_row_ok:
  assumes "task_check t" and "t_retry_count t \<le> c"
  shows "task_check (recover_row s n c u t)" and "task_trigger t (recover_row s n c u t)"
  using assms by (simp_all add: task_check_def task_trigger_def)

lemma recover_eq_None:
  "\<forall>t \<in> set (db_tasks seen). \<not> lease_matches l now t \<Longrightarrow>
     recover_expired_lease seen l n now d = Inr (None, d)"
  by (simp add: recover_expired_lease_def first_row_None_iff [THEN iffD2])

lemma recover_eq_Some:
  assumes inv: "store_inv d" and t: "t \<in> set (db_tasks d)" "lease_matches l now t"
    and tgt: "recovery_target (t_status t) (t_retry_count t + 1) (t_max_retries t) n = Inr (tg, at)"
  obtains r where "r \<in> set (db_runs d)" and "run_of t r"
    and "recover_expired_lease d l n now d =
      Inr (Some \<lparr>v_task = recover_row tg at (t_retry_count t + 1) now t,
                 v_task_run = lost_run_row now r, v_previous_lock_token = e_lock_token l\<rparr>,
           d\<lparr>db_tasks := put_row t (recover_row tg at (t_retry_count t + 1) now t) (db_tasks d),
             db_runs := put_row r (lost_run_row now r) (db_runs d)\<rparr>)"
proof -
  let ?t' = "recover_row tg at (t_retry_count t + 1) now t"
  let ?d1 = "d\<lparr>db_tasks := put_row t ?t' (db_tasks d)\<rparr>"
  note tab = store_inv_parts(1) [OF inv] and lea = store_inv_parts(2) [OF inv]
  have chk: "task_check t" by (rule store_inv_task_check [OF inv t(1)])
  have own: "ownership_complete t"
    using task_check_owned(1) [OF chk] t(2) by (simp add: lease_matches_def)
  obtain r where r: "r \<in> set (db_runs d)" "run_of t r"
    using lease_invD(3) [OF lea t(1) own] by blast
  have act: "active_run_of (e_task_id l) (e_worker_id l) (e_lock_token l) r"
    using r(2) t(2) by (simp add: active_run_of_def run_of_def lease_matches_def)
  have fst: "first_row (lease_matches l now) (db_tasks d) = Some t"
  proof -
    obtain x where x: "first_row (lease_matches l now) (db_tasks d) = Some x"
      using first_row_exists [of t _ "lease_matches l now", OF t] by blast
    have "x \<in> set (db_tasks d)" "lease_matches l now x"
      using first_row_SomeD [OF x] by auto
    then have "x = t"
      using table_inv_id_unique [OF tab _ t(1)] lease_matches_id t(2) by auto
    with x show ?thesis by simp
  qed
  have upd: "sql_update_tasks (lease_matches l now) (recover_row tg at (t_retry_count t + 1) now) d =
      Inr (Some (t_id t), ?d1)"
    by (rule sql_update_tasks_put [where p = "lease_matches l now", OF tab t])
      (use recover_row_ok [OF chk] lease_matches_id t(2) in auto)
  have onlyr: "x = r" if "x \<in> set (db_runs ?d1)"
    "active_run_of (e_task_id l) (e_worker_id l) (e_lock_token l) x" for x
    by (rule active_run_of_unique [OF lea _ r(1) that(2) act]) (use that(1) in simp)
  have rchk: "run_check r"
    using tab r(1) by (simp add: table_inv_def)
  have updr: "mark_task_run_lost (e_task_id l) (e_worker_id l) (e_lock_token l) now ?d1 =
      Inr (Some (r_id r), ?d1\<lparr>db_runs := put_row r (lost_run_row now r) (db_runs ?d1)\<rparr>)"
    unfolding mark_task_run_lost_def
  proof (rule sql_update_runs_put)
    show "r \<in> set (db_runs ?d1)" using r(1) by simp
    show "active_run_of (e_task_id l) (e_worker_id l) (e_lock_token l) r" by (rule act)
    show "\<forall>x \<in> set (db_runs ?d1). active_run_of (e_task_id l) (e_worker_id l) (e_lock_token l) x \<longrightarrow> x = r"
      using onlyr by blast
    show "run_check (lost_run_row now r)" "run_trigger r (lost_run_row now r)"
      using rchk r(2) by (simp_all add: run_check_def run_trigger_def run_of_def)
  qed
  let ?d2 = "?d1\<lparr>db_runs := put_row r (lost_run_row now r) (db_runs ?d1)\<rparr>"
  have tab2: "table_inv ?d2"
  proof (rule table_inv_put_run)
    show "table_inv ?d1"
      by (rule table_inv_put_task [OF tab t(1)]) (use recover_row_ok [OF chk] in simp_all)
  qed (use r(1) rchk in \<open>simp_all add: run_check_def\<close>)
  have "require_task ?d2 (t_id t) = Inr ?t'"
    using require_task_in [OF tab2, of ?t'] t(1) by simp
  moreover have "require_task_run ?d2 (r_id r) = Inr (lost_run_row now r)"
    using require_task_run_in [OF tab2, of "lost_run_row now r"] r(1) by simp
  ultimately show thesis
    using that [OF r] fst tgt upd updr
    by (simp add: recover_expired_lease_def Let_def)
qed

lemma recovery_target_total: "\<exists>tg at. recovery_target s c m (Some n) = Inr (tg, at)"
  by (simp add: recovery_target_def)

lemma recover_total:
  assumes "store_inv d"
  shows "\<exists>res d'. recover_expired_lease d l (Some n) now d = Inr (res, d')"
proof (cases "\<exists>t \<in> set (db_tasks d). lease_matches l now t")
  case True
  then obtain t where t: "t \<in> set (db_tasks d)" "lease_matches l now t" by blast
  obtain tg at where "recovery_target (t_status t) (t_retry_count t + 1) (t_max_retries t) (Some n) =
      Inr (tg, at)"
    using recovery_target_total by blast
  from recover_eq_Some [OF assms t this] show ?thesis by metis
next
  case False
  then show ?thesis by (simp add: recover_eq_None)
qed

lemma delay_for_total: "0 \<le> c \<Longrightarrow> \<exists>n. delay_for b c = Inr n"
  by (simp add: delay_for_def)

text \<open>The recovery loop is a sequence of the repository's recoveries, and it never fails.\<close>

lemma recover_leases_trace:
  assumes "recover_leases b now ls d = Inr (n, d')"
  shows "\<exists>es. task_trace es d d' \<and> (\<forall>e \<in> set es. \<forall>k. \<not> claims_with k e)"
  using assms
proof (induction ls arbitrary: d n)
  case Nil
  then have "d' = d" by simp
  then show ?case by (intro exI [of _ "[]"]) simp
next
  case (Cons l ls)
  from Cons.prems obtain dl v d1 m where
    rec: "recover_expired_lease d l (Some (now + dl)) now d = Inr (v, d1)"
    and rest: "recover_leases b now ls d1 = Inr (m, d')"
    by auto
  obtain es where es: "task_trace es d1 d'" "\<forall>e \<in> set es. \<forall>k. \<not> claims_with k e"
    using Cons.IH [OF rest] by blast
  let ?e = "RecoverLease d l (Some (now + dl)) now"
  have "task_step ?e d d1"
    using rec by (simp add: task_step_iff commit_def)
  with es show ?case
    by (intro exI [of _ "?e # es"]) auto
qed

lemma recover_leases_total:
  assumes "store_inv d" and "\<forall>l \<in> set ls. 0 \<le> e_retry_count l"
  shows "\<exists>n d'. recover_leases b now ls d = Inr (n, d')"
  using assms
proof (induction ls arbitrary: d)
  case Nil
  then show ?case by simp
next
  case (Cons l ls)
  obtain dl where dl: "delay_for b (e_retry_count l) = Inr dl"
    using delay_for_total [of "e_retry_count l" b] Cons.prems(2) by auto
  obtain v d1 where v: "recover_expired_lease d l (Some (now + dl)) now d = Inr (v, d1)"
    using recover_total [OF Cons.prems(1)] by blast
  have "store_inv d1"
    using recover_store_inv [OF Cons.prems(1) v] by simp
  then obtain n d' where "recover_leases b now ls d1 = Inr (n, d')"
    using Cons.IH [of d1] Cons.prems(2) by (meson list.set_intros(2))
  with dl v show ?case by simp
qed

lemma list_expired_leases_members:
  assumes "list_expired_leases limit now d = Inr ls" and "l \<in> set ls"
  obtains t where "t \<in> set (db_tasks d)" and "t_status t \<in> LEASED_TASK_STATUSES"
    and "lease_matches l now t" and "e_retry_count l = t_retry_count t"
    and "t_lease_until t = Some (e_lease_until l)"
proof -
  let ?p = "\<lambda>t. t_status t \<in> LEASED_TASK_STATUSES \<and> t_locked_by t \<noteq> None \<and>
              t_lock_token t \<noteq> None \<and> t_lease_until t \<noteq> None \<and> lease_expired now t"
  let ?rows = "take (nat limit) (sort_key (\<lambda>t. (coalesce (t_lease_until t) 0, - t_priority t, t_id t))
             (filter ?p (db_tasks d)))"
  from assms obtain t where t: "t \<in> set ?rows"
    and l: "(case (t_locked_by t, t_lock_token t, t_lease_until t) of
                (Some w, Some k, Some u) \<Rightarrow>
                  Some \<lparr>e_task_id = t_id t, e_status = t_status t, e_worker_id = w,
                        e_lock_token = k, e_lease_until = u, e_retry_count = t_retry_count t\<rparr>
              | _ \<Rightarrow> None) = Some l"
    by (auto simp: list_expired_leases_def Let_def List.map_filter_def split: if_splits)
  from t have mem: "t \<in> set (db_tasks d)" "?p t"
    by (auto dest: in_set_takeD)
  from l mem(2) show thesis
    by (intro that [of t]) (use mem in \<open>auto simp: lease_matches_def split: option.splits\<close>)
qed


section \<open>Recover and claim\<close>

lemma recover_and_claim_total:
  assumes w: "runtime_valid w" and inv: "store_inv d"
  shows "\<exists>res d'. recover_and_claim w gate k now d = Inr (res, d')"
proof -
  obtain ls where ls: "list_expired_leases (w_recovery_limit w) now d = Inr ls"
    using w by (auto simp: runtime_valid_def list_expired_leases_def)
  have "0 \<le> e_retry_count l" if l: "l \<in> set ls" for l
  proof -
    from ls l obtain t where "t \<in> set (db_tasks d)" "e_retry_count l = t_retry_count t"
      by (rule list_expired_leases_members)
    with store_inv_task_check [OF inv] show ?thesis by (simp add: task_check_def)
  qed
  then obtain n d1 where rec: "recover_leases (w_backoff w) now ls d = Inr (n, d1)"
    using recover_leases_total [OF inv] by blast
  obtain es where "task_trace es d d1" using recover_leases_trace [OF rec] by blast
  then have inv1: "store_inv d1"
    using task_trace_keeps inv by blast
  have args: "w_worker_id w \<noteq> []" "0 < w_lease_duration w"
    using w by (simp_all add: runtime_valid_def)
  have uni: "unique_column (map t_idempotency_key (db_tasks d1))"
    using store_inv_parts(1) [OF inv1] by (simp add: table_inv_def)
  have "\<exists>c d2. claim_next (w_worker_id w) (w_lease_duration w) k now d1 = Inr (c, d2)"
  proof (cases "select_one claim_order (is_claimable now) (db_tasks d1)")
    case None
    then show ?thesis using claim_next_eq_None [OF args _ uni] by blast
  next
    case (Some t)
    then show ?thesis using claim_next_eq_Some [OF inv1 args] by blast
  qed
  then obtain c d2 where "claim_next (w_worker_id w) (w_lease_duration w) k now d1 = Inr (c, d2)"
    by blast
  with ls rec show ?thesis
    by (cases "gate d1"; cases c) (auto simp: recover_and_claim_def)
qed

text \<open>The three ways a cycle's first transaction ends.\<close>

lemma recover_and_claim_cases:
  assumes inv: "store_inv d" and run: "recover_and_claim w gate k now d = Inr ((x, n, gated), d')"
  obtains (gated) es where "gated" and "x = None" and "task_trace es d d'" and "gate d'"
    and "\<forall>e \<in> set es. \<forall>j. \<not> claims_with j e"
  | (idle) es where "\<not> gated" and "x = None" and "task_trace es d d'" and "\<not> gate d'"
    and "\<forall>e \<in> set es. \<forall>j. \<not> claims_with j e" and "\<forall>t \<in> set (db_tasks d'). \<not> is_claimable now t"
  | (claimed) es d1 t where "\<not> gated" and "task_trace es d d1" and "\<not> gate d1" and "store_inv d1"
    and "\<forall>e \<in> set es. \<forall>j. \<not> claims_with j e"
    and "select_one claim_order (is_claimable now) (db_tasks d1) = Some t"
    and "x = Some \<lparr>x_invocation = invocation_from_task
                      (claim_row (w_worker_id w) k now (now + w_lease_duration w) t)
                      (next_id (map r_id (db_runs d1))), x_lock_token = k\<rparr>"
    and "d' = d1\<lparr>db_tasks := put_row t (claim_row (w_worker_id w) k now
                               (now + w_lease_duration w) t) (db_tasks d1),
                 db_runs := db_runs d1 @ [claimed_run (t_id t) (w_worker_id w) k now d1]\<rparr>"
proof -
  from run obtain ls d1 where
    rec: "recover_leases (w_backoff w) now ls d = Inr (n, d1)"
    and rest: "(if gate d1 then Inr ((None, n, True), d1) else
       bindR (claim_next (w_worker_id w) (w_lease_duration w) k now d1) (\<lambda>(claim, d2).
       case claim of
         None \<Rightarrow> Inr ((None, n, False), d2)
       | Some c \<Rightarrow>
           Inr ((Some \<lparr>x_invocation = invocation_from_task (c_task c) (r_id (c_task_run c)),
                       x_lock_token = c_lock_token c\<rparr>, n, False), d2))) =
       (Inr ((x, n, gated), d') :: repo_error + _)"
    by (auto simp: recover_and_claim_def split: if_splits option.splits)
  obtain es where es: "task_trace es d d1" "\<forall>e \<in> set es. \<forall>j. \<not> claims_with j e"
    using recover_leases_trace [OF rec] by blast
  have inv1: "store_inv d1" using task_trace_keeps es(1) inv by blast
  show thesis
  proof (cases "gate d1")
    case True
    with rest es show thesis by (intro gated) auto
  next
    case False
    with rest obtain c where c: "claim_next (w_worker_id w) (w_lease_duration w) k now d1 = Inr (c, d')"
      and x: "x = map_option (\<lambda>c. \<lparr>x_invocation = invocation_from_task (c_task c) (r_id (c_task_run c)),
                 x_lock_token = c_lock_token c\<rparr>) c" and "\<not> gated"
      by (auto split: option.splits)
    from inv1 c show thesis
    proof (cases rule: claim_next_cases)
      case none
      with x \<open>\<not> gated\<close> es False show thesis by (intro idle) auto
    next
      case (some t)
      have "r_id (claimed_run (t_id t) (w_worker_id w) k now d1) = next_id (map r_id (db_runs d1))"
        by (simp add: claimed_run_def)
      with some x \<open>\<not> gated\<close> es False inv1 show thesis by (intro claimed [of es d1 t]) auto
    qed
  qed
qed


section \<open>Settling\<close>

lemma finish_run_eq:
  fixes fin nxt :: "datetime option" and rsn ec em sm :: "string option" and cn :: datetime
  assumes inv: "store_inv d" and t: "t \<in> set (db_tasks d)" and own: "owned_row i w k cn t"
    and args: "w \<noteq> []" "k \<noteq> []" and can: "can_transition (t_status t) ts"
    and rs: "TASK_TO_RUN_TERMINAL_STATUS ts = Some rs"
    and cont: "ts = Pending \<Longrightarrow> t_status t = Running \<and> nxt \<noteq> None \<and> \<not> b \<and>
                 (\<exists>m. ms = Some m \<and> jget m ''continuation'' = JBool True)"
    and budget: "b \<Longrightarrow> ts \<notin> {Success, WaitingCredential, Cancelled}"
    and r: "r \<in> set (db_runs d)" "run_of t r" and dur: "0 \<le> dur"
  defines "t' \<equiv> finish_task_row ts (coalesce fin cn) cn rsn ec em nxt b t"
    and "r' \<equiv> finish_run_row rs (coalesce fin cn) cn (Some dur) sm ec em ms r"
  shows "finish_run i (r_id r) w k (t_status t) ts rs fin (Some dur) sm ec em ms rsn nxt b cn d =
    Inr ((t', r'), d\<lparr>db_tasks := put_row t t' (db_tasks d), db_runs := put_row r r' (db_runs d)\<rparr>)"
proof -
  let ?p = "\<lambda>x. t_status x = t_status t \<and> owned_row i w k cn x"
  let ?q = "\<lambda>x. r_id x = r_id r \<and> active_run_of i w k x"
  let ?d1 = "d\<lparr>db_tasks := put_row t t' (db_tasks d)\<rparr>"
  let ?d2 = "?d1\<lparr>db_runs := put_row r r' (db_runs ?d1)\<rparr>"
  note tab = store_inv_parts(1) [OF inv] and lea = store_inv_parts(2) [OF inv]
  have chk: "task_check t'" "task_trigger t t'"
    using task_check_finish_task_row [OF store_inv_task_check [OF inv t]]
    by (simp_all add: t'_def task_trigger_def)
  have upd: "sql_update_tasks ?p (finish_task_row ts (coalesce fin cn) cn rsn ec em nxt b) d =
      Inr (Some (t_id t), ?d1)"
    unfolding t'_def
    by (rule sql_update_tasks_put [where p = ?p, OF tab t])
      (use own chk in \<open>auto simp: owned_row_def t'_def\<close>)
  have rchk: "run_check r" using tab r(1) by (simp add: table_inv_def)
  have r'chk: "run_check r'" "run_trigger r r'"
    using rchk dur r(2) by (simp_all add: run_check_def run_trigger_def run_of_def r'_def)
  have act: "active_run_of i w k r"
    using r(2) own by (simp add: active_run_of_def run_of_def owned_row_def)
  have onlyr: "x = r" if "x \<in> set (db_runs d)" "?q x" for x
    by (rule active_run_of_unique [OF lea that(1) r(1) _ act]) (use that(2) in simp)
  have updr: "sql_update_runs ?q (finish_run_row rs (coalesce fin cn) cn (Some dur) sm ec em ms) ?d1 =
      Inr (Some (r_id r), ?d2)"
    unfolding r'_def
  proof (rule sql_update_runs_put [where p = ?q])
    show "\<forall>x \<in> set (db_runs ?d1). ?q x \<longrightarrow> x = r"
      using onlyr by simp
  qed (use r(1) act r'chk in \<open>simp_all add: r'_def\<close>)
  have "table_inv ?d1"
    by (rule table_inv_put_task [OF tab t]) (use chk(1) in \<open>simp_all add: t'_def\<close>)
  then have tab2: "table_inv ?d2"
    by (rule table_inv_put_run) (use r(1) r'chk in \<open>simp_all add: r'_def\<close>)
  have "require_task ?d2 (t_id t) = Inr t'"
    using require_task_in [OF tab2, of t'] t by (simp add: t'_def)
  moreover have "require_task_run ?d2 (r_id r) = Inr r'"
    using require_task_run_in [OF tab2, of r'] r(1) by (simp add: r'_def)
  moreover have "rs \<noteq> RunRunning" by (rule TASK_TO_RUN_not_running [OF rs])
  moreover have "\<not> (ts = Pending \<and> (t_status t \<noteq> Running \<or> nxt = None \<or>
          (case ms of None \<Rightarrow> True | Some m \<Rightarrow> jget m ''continuation'' \<noteq> JBool True) \<or> b))"
    using cont by auto
  ultimately show ?thesis
    using upd updr can rs budget args
    by (simp add: finish_run_def Let_def)
qed


text \<open>The status a task ends in, from its retry budget and the handler's outcome.\<close>

fun outcome_task_status :: "task \<Rightarrow> outcome_status \<Rightarrow> task_status" where
  "outcome_task_status t OutDeferred = Pending"
| "outcome_task_status t OutSuccess = Success"
| "outcome_task_status t OutRetry =
     (if t_retry_count t + 1 \<le> t_max_retries t then Retry else Failed)"
| "outcome_task_status t OutFailed = Failed"
| "outcome_task_status t OutWaitingCredential = WaitingCredential"
| "outcome_task_status t OutCancelled = Cancelled"

definition continues :: "task_outcome \<Rightarrow> bool" where
  "continues oc \<longleftrightarrow> (\<exists>m. o_metrics oc = Some m \<and> jget m ''continuation'' = JBool True)"

lemma delay_for_pos:
  assumes "backoff_valid b" and "delay_for b c = Inr n"
  shows "0 < n \<and> n \<le> bo_max_delay b"
proof -
  have b: "0 < bo_base_delay b" "bo_base_delay b \<le> bo_max_delay b"
    using assms(1) by (simp_all add: backoff_valid_def)
  have n: "n = delay_loop (nat c) (bo_base_delay b) (bo_max_delay b)"
    using assms(2) by (simp add: delay_for_def split: if_splits)
  have "0 < bo_base_delay b * 2 ^ nat c" using b(1) by simp
  moreover have "min (bo_base_delay b * 2 ^ nat c) (bo_max_delay b) \<le> n"
    and "n \<le> min (bo_base_delay b * 2 ^ nat c + 1) (bo_max_delay b)"
    using delay_loop_bounds [OF b, of "nat c"] by (simp_all add: n)
  ultimately show ?thesis using b by linarith
qed

lemma settle_ok:
  assumes b: "backoff_valid b" and t: "0 \<le> t_retry_count t" and oc: "outcome_valid oc"
    and deferred: "o_status oc = OutDeferred \<Longrightarrow> continues oc"
  obtains m where "settle b now t oc = Inr m"
    and "m_task_status m = outcome_task_status t (o_status oc)"
    and "TASK_TO_RUN_TERMINAL_STATUS (m_task_status m) = Some (m_run_status m)"
    and "m_consume_retry_budget m \<longleftrightarrow> o_status oc \<in> {OutRetry, OutFailed}"
    and "m_task_status m = Pending \<Longrightarrow> m_next_attempt_at m \<noteq> None"
    and "m_task_status m = Retry \<Longrightarrow> \<exists>at. m_next_attempt_at m = Some at \<and>
           now < at \<and> at \<le> now + bo_max_delay b"
proof (cases "o_status oc")
  case OutDeferred
  with deferred obtain m where "o_metrics oc = Some m" "jget m ''continuation'' = JBool True"
    by (auto simp: continues_def)
  with OutDeferred that show thesis by (auto simp: settle_def)
next
  case OutRetry
  show thesis
  proof (cases "t_retry_count t + 1 \<le> t_max_retries t")
    case True
    have "\<exists>a. (case o_retry_after oc of Some a \<Rightarrow> Inr a | None \<Rightarrow> delay_for b (t_retry_count t)) = Inr a \<and> 0 < a"
    proof (cases "o_retry_after oc")
      case None
      obtain n where n: "delay_for b (t_retry_count t) = Inr n"
        using delay_for_total [OF t] by blast
      with None delay_for_pos [OF b n] show ?thesis by simp
    next
      case (Some a)
      with oc show ?thesis by (simp add: outcome_valid_def)
    qed
    then obtain a where a:
      "(case o_retry_after oc of Some a \<Rightarrow> Inr a | None \<Rightarrow> delay_for b (t_retry_count t)) = Inr a"
      "0 < a" by blast
    have mx: "0 < bo_max_delay b" using b by (simp add: backoff_valid_def)
    have "settle b now t oc = Inr \<lparr>m_task_status = Retry, m_run_status = RunFailed,
        m_consume_retry_budget = True, m_next_attempt_at = Some (now + min a (bo_max_delay b))\<rparr>"
      using OutRetry True a by (simp add: settle_def bounded_delay_def)
    with OutRetry True a(2) mx show thesis by (intro that) auto
  next
    case False
    with OutRetry show thesis by (intro that) (auto simp: settle_def)
  qed
qed (use that in \<open>auto simp: settle_def\<close>)

text \<open>The worker of the execution holds the task's lease at time \<open>cn\<close>, by the run of its claim.\<close>

definition holds_lease ::
    "worker_runtime \<Rightarrow> claimed_execution \<Rightarrow> datetime \<Rightarrow> db \<Rightarrow> task \<Rightarrow> task_run \<Rightarrow> bool" where
  "holds_lease w x cn d t r \<longleftrightarrow> t \<in> set (db_tasks d) \<and>
     owned_row (i_task_id (x_invocation x)) (w_worker_id w) (x_lock_token x) cn t \<and>
     r \<in> set (db_runs d) \<and> run_of t r \<and> r_id r = i_task_run_id (x_invocation x)"

text \<open>The outcomes \<open>_finish\<close> accepts, once a cancelled download's outcome is replaced.\<close>

definition effective_outcome :: "task \<Rightarrow> task_outcome \<Rightarrow> task_outcome" where
  "effective_outcome t oc =
     (if t_status t = CancelRequested \<and> t_type t = ''download'' \<and>
         o_status oc \<notin> {OutSuccess, OutCancelled}
      then download_cancelled_outcome else oc)"

definition acceptable :: "task \<Rightarrow> task_outcome \<Rightarrow> bool" where
  "acceptable t oc \<longleftrightarrow>
     (if t_status t = CancelRequested then o_status oc \<in> {OutSuccess, OutCancelled}
      else o_status oc \<noteq> OutCancelled \<and> (o_status oc = OutDeferred \<longrightarrow> continues oc))"

lemma holds_leaseD:
  assumes "store_inv d" and "holds_lease w x cn d t r"
  shows "t \<in> set (db_tasks d)" and "t_id t = i_task_id (x_invocation x)"
    and "get_task d (i_task_id (x_invocation x)) = Some t"
    and "t_locked_by t = Some (w_worker_id w)" and "t_lock_token t = Some (x_lock_token x)"
    and "t_status t \<in> LEASED_TASK_STATUSES" and "task_check t"
proof -
  show t: "t \<in> set (db_tasks d)" and id: "t_id t = i_task_id (x_invocation x)"
    and own: "t_locked_by t = Some (w_worker_id w)" "t_lock_token t = Some (x_lock_token x)"
    using assms(2) by (simp_all add: holds_lease_def owned_row_def)
  show "get_task d (i_task_id (x_invocation x)) = Some t"
    using require_task_in [OF store_inv_parts(1) [OF assms(1)] t] id
    by (simp add: require_task_def get_task_def split: option.splits)
  show chk: "task_check t" by (rule store_inv_task_check [OF assms(1) t])
  show "t_status t \<in> LEASED_TASK_STATUSES"
    using lease_invD(1) [OF store_inv_parts(2) [OF assms(1)] t task_check_owned(2) [OF chk]] own
    by simp
qed

lemma effective_outcome_valid:
  "outcome_valid oc \<Longrightarrow> outcome_valid (effective_outcome t oc)"
  by (simp add: effective_outcome_def outcome_valid_def download_cancelled_outcome_def)

lemma finish_eq:
  assumes inv: "store_inv d" and w: "runtime_valid w" and hold: "holds_lease w x cn d t r"
    and k: "x_lock_token x \<noteq> []" and oc: "outcome_valid oc" and dur: "0 \<le> dur"
    and ok: "acceptable t (effective_outcome t oc)"
  obtains t' r' d' where "finish w x oc dur now cn d =
        Inr (outcome_task_status t (o_status (effective_outcome t oc)), d')"
    and "t' \<in> set (db_tasks d')" and "t_id t' = t_id t" and "ownership_clear t'"
    and "t_status t' = outcome_task_status t (o_status (effective_outcome t oc))"
    and "t_retry_count t' = t_retry_count t +
           (if o_status (effective_outcome t oc) \<in> {OutRetry, OutFailed} then 1 else 0)"
    and "t_status t' = Retry \<Longrightarrow> \<exists>at. t_next_attempt_at t' = Some at \<and>
           now < at \<and> at \<le> now + bo_max_delay (w_backoff w)"
    and "r' \<in> set (db_runs d')" and "r_id r' = r_id r"
    and "TASK_TO_RUN_TERMINAL_STATUS (t_status t') = Some (r_status r')"
    and "store_inv d'" and "history_extends d d'"
proof -
  let ?oc = "effective_outcome t oc"
  note h = holds_leaseD [OF inv hold]
  have own: "owned_row (t_id t) (w_worker_id w) (x_lock_token x) cn t"
    and r: "r \<in> set (db_runs d)" "run_of t r" "r_id r = i_task_run_id (x_invocation x)"
    using hold h(2) by (simp_all add: holds_lease_def)
  have b: "backoff_valid (w_backoff w)" and wid: "w_worker_id w \<noteq> []"
    using w by (simp_all add: runtime_valid_def)
  have rc: "0 \<le> t_retry_count t" using h(7) by (simp add: task_check_def)
  have def: "o_status ?oc = OutDeferred \<Longrightarrow> continues ?oc"
    using ok by (auto simp: acceptable_def split: if_splits)
  from settle_ok [OF b rc effective_outcome_valid [OF oc] def] obtain m where
    m: "settle (w_backoff w) now t ?oc = Inr m"
      "m_task_status m = outcome_task_status t (o_status ?oc)"
      "TASK_TO_RUN_TERMINAL_STATUS (m_task_status m) = Some (m_run_status m)"
      "m_consume_retry_budget m \<longleftrightarrow> o_status ?oc \<in> {OutRetry, OutFailed}"
      "m_task_status m = Pending \<Longrightarrow> m_next_attempt_at m \<noteq> None"
      "m_task_status m = Retry \<Longrightarrow> \<exists>at. m_next_attempt_at m = Some at \<and>
         now < at \<and> at \<le> now + bo_max_delay (w_backoff w)"
    by blast
  have can: "can_transition (t_status t) (m_task_status m)"
    using h(6) ok m(2) unfolding can_transition_def acceptable_def LEASED_TASK_STATUSES_def
    by (cases "o_status ?oc") (auto split: if_splits)
  have pend: "t_status t = Running \<and> m_next_attempt_at m \<noteq> None \<and> \<not> m_consume_retry_budget m \<and>
       (\<exists>ms. o_metrics ?oc = Some ms \<and> jget ms ''continuation'' = JBool True)"
    if "m_task_status m = Pending"
  proof -
    have "o_status ?oc = OutDeferred"
      using that m(2) by (cases "o_status ?oc") (auto split: if_splits)
    with that m(4,5) def ok h(6) show ?thesis
      by (auto simp: continues_def acceptable_def LEASED_TASK_STATUSES_def split: if_splits)
  qed
  have bud: "m_task_status m \<notin> {Success, WaitingCredential, Cancelled}"
    if "m_consume_retry_budget m"
    using that m(2,4) by (cases "o_status ?oc") (auto split: if_splits)
  let ?t' = "finish_task_row (m_task_status m) (coalesce (Some now) cn) cn (o_blocked_reason ?oc)
      (o_error_code ?oc) (o_error_message ?oc) (m_next_attempt_at m) (m_consume_retry_budget m) t"
  let ?r' = "finish_run_row (m_run_status m) (coalesce (Some now) cn) cn (Some dur) (o_summary ?oc)
      (o_error_code ?oc) (o_error_message ?oc) (o_metrics ?oc) r"
  let ?d' = "d\<lparr>db_tasks := put_row t ?t' (db_tasks d), db_runs := put_row r ?r' (db_runs d)\<rparr>"
  have fr: "finish_run (t_id t) (r_id r) (w_worker_id w) (x_lock_token x) (t_status t)
      (m_task_status m) (m_run_status m) (Some now) (Some dur) (o_summary ?oc) (o_error_code ?oc)
      (o_error_message ?oc) (o_metrics ?oc) (o_blocked_reason ?oc) (m_next_attempt_at m)
      (m_consume_retry_budget m) cn d = Inr ((?t', ?r'), ?d')"
    by (rule finish_run_eq [OF inv h(1) own wid k can m(3) pend bud r(1,2) dur])
  have eff: "(if t_status t = CancelRequested \<and> t_type t = ''download'' \<and>
        o_status oc \<notin> {OutSuccess, OutCancelled} then download_cancelled_outcome else oc) = ?oc"
    by (simp only: effective_outcome_def)
  have acc: "\<not> (t_status t = CancelRequested \<and> o_status ?oc \<notin> {OutSuccess, OutCancelled})"
    using ok by (auto simp: acceptable_def split: if_splits)
  have own': "\<not> (t_locked_by t \<noteq> Some (w_worker_id w) \<or> t_lock_token t \<noteq> Some (x_lock_token x))"
    using h(4,5) by simp
  have "finish w x oc dur now cn d = Inr (m_task_status m, ?d')"
    unfolding finish_def Let_def h(3) option.case eff if_not_P [OF acc] if_not_P [OF own'] m(1)
      bindR.simps fr [unfolded r(3)] lift_repo.simps
    by simp
  moreover have "t_next_attempt_at ?t' = m_next_attempt_at m" if "m_task_status m = Retry"
    using that by (simp add: finish_task_row_def task_transition_values_def release_ownership_def Let_def)
  moreover have "store_inv ?d'" and "history_extends d ?d'"
    using finish_run_store_inv [OF inv fr] by simp_all
  ultimately show thesis
    using m h(1) r(1) by (intro that [of ?d' ?t' ?r']) auto
qed


section \<open>The cycle\<close>

text \<open>Recovery only takes leases away.\<close>

definition leased_tasks :: "db \<Rightarrow> task set" where
  "leased_tasks d = {t \<in> set (db_tasks d). ownership_complete t}"

lemma recover_leased:
  assumes "store_inv d" and "recover_expired_lease seen l n now d = Inr (res, d')"
  shows "leased_tasks d' \<subseteq> leased_tasks d"
  using assms by (cases rule: recover_cases) (auto simp: leased_tasks_def)

lemma recover_leases_leased:
  assumes "store_inv d" and "recover_leases b now ls d = Inr (n, d')"
  shows "leased_tasks d' \<subseteq> leased_tasks d"
  using assms
proof (induction ls arbitrary: d n)
  case Nil
  then show ?case by simp
next
  case (Cons l ls)
  from Cons.prems(2) obtain dl v d1 m where
    rec: "recover_expired_lease d l (Some (now + dl)) now d = Inr (v, d1)"
    and rest: "recover_leases b now ls d1 = Inr (m, d')"
    by auto
  have "store_inv d1"
    using recover_store_inv [OF Cons.prems(1) rec] by simp
  from Cons.IH [OF this rest] recover_leased [OF Cons.prems(1) rec] show ?case by blast
qed

lemma recover_and_claim_gated:
  assumes "store_inv d" and "recover_and_claim w gate k now d = Inr ((x, n, True), d')"
  shows "x = None" and "gate d'" and "leased_tasks d' \<subseteq> leased_tasks d"
proof -
  from assms show "x = None" by (cases rule: recover_and_claim_cases) simp_all
  from assms show "gate d'" by (cases rule: recover_and_claim_cases) simp_all
  from assms(2) obtain ls where "recover_leases (w_backoff w) now ls d = Inr (n, d')"
    by (auto simp: recover_and_claim_def split: if_splits option.splits)
  with assms(1) show "leased_tasks d' \<subseteq> leased_tasks d"
    by (rule recover_leases_leased)
qed

text \<open>An execution that was just claimed holds its lease until the lease duration is over.\<close>

lemma claimed_holds_lease:
  fixes k :: string
  assumes inv: "store_inv d1" and sel: "select_one claim_order (is_claimable now) (db_tasks d1) = Some t"
    and cn: "cn < now + w_lease_duration w"
  defines "t' \<equiv> claim_row (w_worker_id w) k now (now + w_lease_duration w) t"
    and "r \<equiv> claimed_run (t_id t) (w_worker_id w) k now d1"
  defines "x \<equiv> \<lparr>x_invocation = invocation_from_task t' (next_id (map r_id (db_runs d1))), x_lock_token = k\<rparr>"
  shows "holds_lease w x cn (d1\<lparr>db_tasks := put_row t t' (db_tasks d1), db_runs := db_runs d1 @ [r]\<rparr>) t' r"
proof -
  have "t \<in> set (db_tasks d1)"
    using select_one_SomeD [OF sel] by simp
  then show ?thesis
    using cn
    by (simp add: holds_lease_def owned_row_def lease_live_def t'_def r_def x_def run_of_def
        claimed_run_def invocation_from_task_def)
qed

lemma finish_store_inv:
  assumes "store_inv d" and "finish w x oc dur now cn d = Inr (s, d')"
  shows "store_inv d' \<and> history_extends d d'"
proof -
  from assms(2) obtain i rid ex ts rs fin du sm ec em ms rsn nxt b res where
    "finish_run i rid (w_worker_id w) (x_lock_token x) ex ts rs fin du sm ec em ms rsn nxt b cn d =
       Inr (res, d')"
    by (auto simp: finish_def Let_def split: option.splits if_splits)
  with assms(1) show ?thesis by (rule finish_run_store_inv)
qed

lemma finalize_store_inv:
  "store_inv d \<Longrightarrow> finalize w x oc dur n now cn d = (res, d') \<Longrightarrow> store_inv d' \<and> history_extends d d'"
  by (auto simp: finalize_def split: sum.splits worker_error.splits repo_error.splits
      dest: finish_store_inv)

text \<open>What the rest of the system does between the transactions of a cycle keeps the invariant.\<close>

definition friendly :: "(db \<Rightarrow> db) \<Rightarrow> bool" where
  "friendly f \<longleftrightarrow> (\<forall>d. store_inv d \<longrightarrow> store_inv (f d) \<and> history_extends d (f d))"

lemma heartbeat_loop_store_inv:
  assumes "store_inv d" and "\<forall>(now, f) \<in> set ticks. friendly f"
    and "heartbeat_loop w x ticks d = (res, d')"
  shows "store_inv d' \<and> history_extends d d'"
  using assms
proof (induction ticks arbitrary: d)
  case Nil
  then show ?case by simp
next
  case (Cons tick ticks)
  obtain now f where tick: "tick = (now, f)" by (cases tick)
  have f: "store_inv (f d)" "history_extends d (f d)"
    using Cons.prems(1,2) tick by (auto simp: friendly_def)
  show ?case
  proof (cases "heartbeat (i_task_id (x_invocation x)) (w_worker_id w) (x_lock_token x)
      (w_lease_duration w) now (f d)")
    case (Inl e)
    then have "d' = f d"
      using Cons.prems(3) tick by (auto split: repo_error.splits)
    with f show ?thesis by simp
  next
    case (Inr y)
    obtain hb d1 where y: "y = (hb, d1)" by (cases y)
    have d1: "store_inv d1" "history_extends (f d) d1"
      using heartbeat_store_inv [OF f(1)] Inr y by blast+
    have "store_inv d' \<and> history_extends d1 d'"
      using Cons.IH [OF d1(1)] Cons.prems(2,3) tick Inr y by simp
    with f(2) d1(2) show ?thesis
      using history_trans by blast
  qed
qed

lemma recover_and_claim_store_inv:
  assumes inv: "store_inv d" and run: "recover_and_claim w gate k now d = Inr ((x, n, gated), d')"
  shows "store_inv d' \<and> history_extends d d'"
proof -
  from run obtain ls d1 where
    rec: "recover_leases (w_backoff w) now ls d = Inr (n, d1)" and
    last: "d' = d1 \<or> (\<exists>c. claim_next (w_worker_id w) (w_lease_duration w) k now d1 = Inr (c, d'))"
    by (auto simp: recover_and_claim_def split: if_splits option.splits)
  obtain es where "task_trace es d d1"
    using recover_leases_trace [OF rec] by blast
  then have d1: "store_inv d1" "history_extends d d1"
    using task_trace_keeps [OF _ inv] by simp_all
  from last show ?thesis
  proof
    assume "\<exists>c. claim_next (w_worker_id w) (w_lease_duration w) k now d1 = Inr (c, d')"
    then have "store_inv d' \<and> history_extends d1 d'"
      using claim_next_store_inv [OF d1(1)] by blast
    with d1(2) show ?thesis using history_trans by blast
  qed (use d1 in simp)
qed

definition friendly_run :: "handler_run \<Rightarrow> bool" where
  "friendly_run run \<longleftrightarrow> friendly (h_others run) \<and> (\<forall>(now, f) \<in> set (h_ticks run). friendly f)"

lemma run_once_store_inv:
  assumes inv: "store_inv d"
    and others: "\<forall>h \<in> ran handlers. \<forall>x. friendly_run (h x)"
    and run: "run_once w gate handlers k now en d = (res, d')"
  shows "store_inv d' \<and> history_extends d d'"
proof (cases "recover_and_claim w gate k now d")
  case (Inl e)
  with inv run show ?thesis by (simp add: run_once_def)
next
  case (Inr y)
  obtain claimed n gated d1 where y: "recover_and_claim w gate k now d = Inr ((claimed, n, gated), d1)"
    using Inr by (cases y) auto
  have d1: "store_inv d1" "history_extends d d1"
    using recover_and_claim_store_inv [OF inv y] by simp_all
  have "store_inv d' \<and> history_extends d1 d'"
  proof (cases "gated \<or> claimed = None")
    case True
    with run y d1 show ?thesis by (auto simp: run_once_def split: if_splits)
  next
    case False
    then obtain x where x: "claimed = Some x" "\<not> gated" by auto
    let ?i = "x_invocation x"
    show ?thesis
    proof (cases "registry_resolve handlers (i_task_type ?i) (i_payload_version ?i)")
      case None
      with run y x finalize_store_inv [OF d1(1)] show ?thesis
        by (simp add: run_once_def Let_def)
    next
      case (Some h)
      then have h: "friendly_run (h x)"
        using others by (auto simp: registry_resolve_def intro: ranI)
      obtain lost d2 where hb: "heartbeat_loop w x (h_ticks (h x)) d1 = (lost, d2)"
        by (cases "heartbeat_loop w x (h_ticks (h x)) d1")
      have d2: "store_inv d2" "history_extends d1 d2"
        using heartbeat_loop_store_inv [OF d1(1) _ hb] h by (simp_all add: friendly_run_def)
      have d3: "store_inv (h_others (h x) d2)" "history_extends d2 (h_others (h x) d2)"
        using h d2(1) by (simp_all add: friendly_run_def friendly_def)
      show ?thesis
      proof (cases "lost = Inr False")
        case True
        with run y x Some hb have "finalize w x
            (case h_outcome (h x) of Inl tn \<Rightarrow> exception_outcome tn | Inr oc \<Rightarrow> oc)
            (max 0 (h_duration_ms (h x))) n (h_now (h x)) (h_clock_now (h x))
            (h_others (h x) d2) = (res, d')"
          by (simp add: run_once_def Let_def)
        from finalize_store_inv [OF d3(1) this] d2(2) d3(2) show ?thesis
          using history_trans by blast
      next
        case False
        then have "d' = d2"
          using run y x Some hb
          by (auto simp: run_once_def Let_def split: sum.splits bool.splits)
        with d2 show ?thesis by simp
      qed
    qed
  qed
  with d1(2) show ?thesis using history_trans by blast
qed


text \<open>An outcome the task's row does not admit escapes the cycle, and the lease stays behind.\<close>

lemma finish_refuses:
  assumes inv: "store_inv d" and hold: "holds_lease w x cn d t r"
    and st: "t_status t = CancelRequested" and ty: "t_type t \<noteq> ''download''"
    and oc: "o_status oc \<notin> {OutSuccess, OutCancelled}"
  shows "finish w x oc dur now cn' d = Inl InvalidTaskOutcomeError"
proof -
  note h = holds_leaseD [OF inv hold]
  have own': "\<not> (t_locked_by t \<noteq> Some (w_worker_id w) \<or> t_lock_token t \<noteq> Some (x_lock_token x))"
    using h(4,5) by simp
  show ?thesis
    unfolding finish_def Let_def h(3) option.case if_not_P [OF own']
    using st ty oc by simp
qed

lemma run_once_unsupported:
  assumes inv: "store_inv d" and gate: "\<not> gate d"
    and quiet: "list_expired_leases (w_recovery_limit w) now d = Inr []"
    and w: "runtime_valid w"
    and sel: "select_one claim_order (is_claimable now) (db_tasks d) = Some t"
    and nohandler: "handlers (t_type t, t_payload_version t) = None"
  shows "\<exists>x r. holds_lease w x now (d\<lparr>db_tasks := put_row t (claim_row (w_worker_id w) k now
              (now + w_lease_duration w) t) (db_tasks d), db_runs := db_runs d @ [r]\<rparr>)
              (claim_row (w_worker_id w) k now (now + w_lease_duration w) t) r \<and>
           r_task_id r = t_id t \<and> x_lock_token x = k \<and>
           store_inv (d\<lparr>db_tasks := put_row t (claim_row (w_worker_id w) k now
              (now + w_lease_duration w) t) (db_tasks d), db_runs := db_runs d @ [r]\<rparr>) \<and>
           run_once w gate handlers k now en d =
             finalize w x (unsupported_outcome (x_invocation x)) 0 0 en en
               (d\<lparr>db_tasks := put_row t (claim_row (w_worker_id w) k now
                  (now + w_lease_duration w) t) (db_tasks d), db_runs := db_runs d @ [r]\<rparr>)"
proof -
  have args: "w_worker_id w \<noteq> []" "0 < w_lease_duration w"
    using w by (simp_all add: runtime_valid_def)
  let ?t' = "claim_row (w_worker_id w) k now (now + w_lease_duration w) t"
  let ?r = "claimed_run (t_id t) (w_worker_id w) k now d"
  let ?x = "\<lparr>x_invocation = invocation_from_task ?t' (next_id (map r_id (db_runs d))), x_lock_token = k\<rparr>"
  have hold: "holds_lease w ?x now (d\<lparr>db_tasks := put_row t ?t' (db_tasks d),
      db_runs := db_runs d @ [?r]\<rparr>) ?t' ?r"
    by (rule claimed_holds_lease [OF inv sel]) (use args in simp)
  have ty: "t_type ?t' = t_type t" "t_payload_version ?t' = t_payload_version t"
    by (simp_all add: claim_row_def)
  have rid: "r_id ?r = next_id (map r_id (db_runs d))" "r_task_id ?r = t_id t"
    by (simp_all add: claimed_run_def)
  have "run_once w gate handlers k now en d =
      finalize w ?x (unsupported_outcome (x_invocation ?x)) 0 0 en en
        (d\<lparr>db_tasks := put_row t ?t' (db_tasks d), db_runs := db_runs d @ [?r]\<rparr>)"
    using gate quiet claim_next_eq_Some [OF inv args sel, of k] nohandler ty rid(1)
    by (simp add: run_once_def recover_and_claim_def registry_resolve_def
        invocation_from_task_def Let_def)
  moreover have "store_inv (d\<lparr>db_tasks := put_row t ?t' (db_tasks d), db_runs := db_runs d @ [?r]\<rparr>)"
    using claim_next_store_inv [OF inv claim_next_eq_Some [OF inv args sel, of k]] by simp
  ultimately show ?thesis
    using hold rid(2) by (intro exI [of _ ?x] exI [of _ ?r]) simp
qed

text \<open>Recovery touches nothing but tasks and runs.\<close>

lemma sql_update_tasks_updates: "sql_update_tasks p f d = Inr (x, d') \<Longrightarrow> db_updates d' = db_updates d"
  by (auto simp: sql_update_tasks_def Let_def split: if_splits)

lemma sql_update_runs_updates: "sql_update_runs p f d = Inr (x, d') \<Longrightarrow> db_updates d' = db_updates d"
  by (auto simp: sql_update_runs_def split: if_splits)

lemma recover_updates:
  "recover_expired_lease seen l n now d = Inr (x, d') \<Longrightarrow> db_updates d' = db_updates d"
  by (auto simp: recover_expired_lease_def Let_def mark_task_run_lost_def split: option.splits
      dest!: sql_update_tasks_updates sql_update_runs_updates)

lemma recover_leases_updates:
  "recover_leases b now ls d = Inr (n, d') \<Longrightarrow> db_updates d' = db_updates d"
proof (induction ls arbitrary: d n)
  case Nil
  then show ?case by simp
next
  case (Cons l ls)
  then show ?case by (auto dest!: recover_updates)
qed

end
