(* ===== verification/UpdateOperations.thy ===== *)
theory UpdateOperations
  imports Models Traces
begin

text \<open>
  The store of update operations (\<open>app/repositories/update_operations.py\<close>,
  \<open>app/models/update_operation.py\<close>): at most one is active, its status follows
  \<open>ALLOWED_UPDATE_TRANSITIONS\<close>, and a finished one never changes.

  A caller passes the ORM object it read, maybe long ago: \<open>u\<close>.  A flush writes the columns the
  operation changed, and only those, to the row with the object's id.
\<close>

section \<open>Errors and the transition policy\<close>

datatype update_state_error =
    TerminalCannotBeReused | OnlyWhilePulling | TargetVersionFixed | TargetDigestFixed
  | InvalidUpdateTransition update_status update_status

datatype update_error =
    ActiveUpdateOperationConflictError
  | UpdateOperationStateError update_state_error
  | NotAnActiveStatus
  | FinishRequiresTerminal
  | TerminalMustUseFinish
  | UpdateIntegrityError
  | StaleDataError

fun ALLOWED_UPDATE_TRANSITIONS :: "update_status \<Rightarrow> update_status set" where
  "ALLOWED_UPDATE_TRANSITIONS UpChecking = {UpAvailable, UpFailed, UpCancelled}"
| "ALLOWED_UPDATE_TRANSITIONS UpAvailable = {UpPulling, UpFailed, UpCancelled}"
| "ALLOWED_UPDATE_TRANSITIONS UpPulling = {UpDraining, UpFailed, UpCancelled}"
| "ALLOWED_UPDATE_TRANSITIONS UpDraining = {UpHandoff, UpFailed, UpCancelled}"
| "ALLOWED_UPDATE_TRANSITIONS UpHandoff = {UpSnapshotting, UpFailed}"
| "ALLOWED_UPDATE_TRANSITIONS UpSnapshotting = {UpSwitching, UpRollingBack}"
| "ALLOWED_UPDATE_TRANSITIONS UpSwitching = {UpVerifying, UpRollingBack}"
| "ALLOWED_UPDATE_TRANSITIONS UpVerifying = {UpSuccess, UpRollingBack}"
| "ALLOWED_UPDATE_TRANSITIONS UpRollingBack = {UpRolledBack, UpRollbackFailed}"
| "ALLOWED_UPDATE_TRANSITIONS _ = {}"

lemma allowed_update_irrefl: "t \<in> ALLOWED_UPDATE_TRANSITIONS s \<Longrightarrow> t \<noteq> s"
  by (cases s) auto

lemma terminal_update_no_successor:
  "s \<in> TERMINAL_UPDATE_OPERATION_STATUSES \<longleftrightarrow> ALLOWED_UPDATE_TRANSITIONS s = {}"
  by (cases s) (simp_all add: TERMINAL_UPDATE_OPERATION_STATUSES_def)

section \<open>Operations\<close>

text \<open>\<open>active_slot\<close> and \<open>operation_id\<close> are UNIQUE.\<close>

definition update_unique :: "update_operation list \<Rightarrow> bool" where
  "update_unique rows \<longleftrightarrow> unique_column (map u_active_slot rows) \<and> distinct (map u_operation_id rows)"

definition create_update ::
    "string \<Rightarrow> update_status \<Rightarrow> string option \<Rightarrow> string option \<Rightarrow> string \<Rightarrow> datetime \<Rightarrow> db \<Rightarrow>
     update_error + update_operation \<times> db" where
  "create_update source_version status target_version target_digest operation_id now d =
     (if status \<in> TERMINAL_UPDATE_OPERATION_STATUSES then Inl NotAnActiveStatus
      else
        let row = \<lparr>u_id = next_id (map u_id (db_updates d)), u_operation_id = operation_id,
                   u_status = status, u_active_slot = Some ''global'',
                   u_source_version = source_version, u_target_version = target_version,
                   u_target_digest = target_digest, u_error_code = None, u_error_message = None,
                   u_completed_at = None, u_created_at = now, u_updated_at = now\<rparr>
        in if update_check row \<and> update_unique (db_updates d @ [row])
           then Inr (row, d\<lparr>db_updates := db_updates d @ [row]\<rparr>)
           else Inl ActiveUpdateOperationConflictError)"

definition get_active :: "db \<Rightarrow> update_operation option" where
  "get_active d = first_row (\<lambda>u. u_active_slot u = Some ''global'') (db_updates d)"

definition get_by_operation_id :: "db \<Rightarrow> string \<Rightarrow> update_operation option" where
  "get_by_operation_id d operation_id =
     first_row (\<lambda>u. u_operation_id u = operation_id) (db_updates d)"

definition get_latest :: "db \<Rightarrow> update_operation option" where
  "get_latest d = select_one (\<lambda>u. (- u_created_at u, - u_id u)) (\<lambda>_. True) (db_updates d)"

definition write_column :: "('r \<Rightarrow> 'c) \<Rightarrow> 'r \<Rightarrow> 'r \<Rightarrow> 'r \<Rightarrow> 'c" where
  "write_column c u u' row = (if c u' = c u then c row else c u')"

lemma write_column_self: "write_column c u u' u = c u'"
  by (simp add: write_column_def)

definition flush_update ::
    "update_operation \<Rightarrow> update_operation \<Rightarrow> datetime \<Rightarrow> db \<Rightarrow>
     update_error + update_operation \<times> db" where
  "flush_update u u' now d =
     (if u' = u then Inr (u, d)
      else case first_row (\<lambda>row. u_id row = u_id u) (db_updates d) of
             None \<Rightarrow> Inl StaleDataError
           | Some row \<Rightarrow>
               let row' = row\<lparr>u_status := write_column u_status u u' row,
                              u_active_slot := write_column u_active_slot u u' row,
                              u_target_version := write_column u_target_version u u' row,
                              u_target_digest := write_column u_target_digest u u' row,
                              u_completed_at := write_column u_completed_at u u' row,
                              u_error_code := write_column u_error_code u u' row,
                              u_error_message := write_column u_error_message u u' row,
                              u_updated_at := now\<rparr>;
                   rows = put_row row row' (db_updates d)
               in if update_check row' \<and> update_trigger row row' \<and> update_unique rows
                  then Inr (u'\<lparr>u_updated_at := now\<rparr>, d\<lparr>db_updates := rows\<rparr>)
                  else Inl UpdateIntegrityError)"

definition validate_update_transition :: "update_status \<Rightarrow> update_status \<Rightarrow> update_error + unit" where
  "validate_update_transition current target =
     (if target \<notin> ALLOWED_UPDATE_TRANSITIONS current
      then Inl (UpdateOperationStateError (InvalidUpdateTransition current target))
      else Inr ())"

definition finish_update ::
    "update_operation \<Rightarrow> update_status \<Rightarrow> datetime option \<Rightarrow> string option \<Rightarrow> string option \<Rightarrow>
     datetime \<Rightarrow> db \<Rightarrow> update_error + update_operation \<times> db" where
  "finish_update u status completed_at ec em now d =
     (if u_active_slot u \<noteq> Some ''global''
      then Inl (UpdateOperationStateError TerminalCannotBeReused)
      else if status \<notin> TERMINAL_UPDATE_OPERATION_STATUSES then Inl FinishRequiresTerminal
      else
      bindR (validate_update_transition (u_status u) status) (\<lambda>_.
      flush_update u
        (u\<lparr>u_status := status, u_active_slot := None,
           u_completed_at := Some (coalesce completed_at now),
           u_error_code := ec, u_error_message := em\<rparr>) now d))"

definition transition_active ::
    "update_operation \<Rightarrow> update_status \<Rightarrow> datetime \<Rightarrow> db \<Rightarrow> update_error + update_operation \<times> db" where
  "transition_active u status now d =
     (if u_active_slot u \<noteq> Some ''global''
      then Inl (UpdateOperationStateError TerminalCannotBeReused)
      else if status \<in> TERMINAL_UPDATE_OPERATION_STATUSES then Inl TerminalMustUseFinish
      else
      bindR (validate_update_transition (u_status u) status) (\<lambda>_.
      flush_update u (u\<lparr>u_status := status\<rparr>) now d))"

definition set_verified_target ::
    "update_operation \<Rightarrow> string \<Rightarrow> string \<Rightarrow> datetime \<Rightarrow> db \<Rightarrow>
     update_error + update_operation \<times> db" where
  "set_verified_target u target_version target_digest now d =
     (if u_active_slot u \<noteq> Some ''global''
      then Inl (UpdateOperationStateError TerminalCannotBeReused)
      else if u_status u \<noteq> UpPulling then Inl (UpdateOperationStateError OnlyWhilePulling)
      else if u_target_version u \<notin> {None, Some target_version}
      then Inl (UpdateOperationStateError TargetVersionFixed)
      else if u_target_digest u \<notin> {None, Some target_digest}
      then Inl (UpdateOperationStateError TargetDigestFixed)
      else flush_update u
             (u\<lparr>u_target_version := Some target_version, u_target_digest := Some target_digest\<rparr>)
             now d)"

section \<open>Invariant\<close>

definition update_inv :: "db \<Rightarrow> bool" where
  "update_inv d \<longleftrightarrow>
     distinct (map u_id (db_updates d)) \<and> update_unique (db_updates d) \<and>
     (\<forall>u \<in> set (db_updates d). update_check u \<and>
        (u_active_slot u = None \<longleftrightarrow> u_status u \<in> TERMINAL_UPDATE_OPERATION_STATUSES))"

definition terminal_kept :: "db \<Rightarrow> db \<Rightarrow> bool" where
  "terminal_kept d d' \<longleftrightarrow>
     (\<forall>u \<in> set (db_updates d). u_active_slot u = None \<longrightarrow> u \<in> set (db_updates d'))"

lemma unique_column_Some_same:
  assumes "unique_column (map f xs)" and "x \<in> set xs" and "y \<in> set xs"
    and "f x = f y" and "f x \<noteq> None"
  shows "x = y"
  using assms
proof (induction xs)
  case Nil
  then show ?case by simp
next
  case (Cons a xs)
  from Cons.prems(1) have tl: "unique_column (map f xs)"
    and hd: "f a \<noteq> None \<Longrightarrow> f a \<notin> f ` set xs"
    by (auto simp: unique_column_def split: if_splits)
  show ?case
  proof (cases "x = a \<or> y = a")
    case True
    show ?thesis
    proof (rule ccontr)
      assume "x \<noteq> y"
      then have "(x = a \<and> y \<in> set xs) \<or> (y = a \<and> x \<in> set xs)"
        using True Cons.prems(2,3) by auto
      then have "f a \<in> f ` set xs"
        using Cons.prems(4) by (metis image_eqI)
      with hd Cons.prems(4,5) True show False by auto
    qed
  next
    case False
    then show ?thesis using Cons.IH [OF tl] Cons.prems(2-) by simp
  qed
qed

lemma update_inv_active_slot:
  assumes "update_inv d" and "u \<in> set (db_updates d)" and "u_active_slot u \<noteq> None"
  shows "u_active_slot u = Some ''global''"
proof -
  have "update_check u"
    using assms(1,2) by (simp add: update_inv_def)
  with assms(3) show ?thesis by (auto simp: update_check_def)
qed

lemma update_inv_single_active:
  assumes "update_inv d" and "u \<in> set (db_updates d)" and "u' \<in> set (db_updates d)"
    and "u_active_slot u \<noteq> None" and "u_active_slot u' \<noteq> None"
  shows "u = u'"
proof -
  have "u_active_slot u = u_active_slot u'"
    using update_inv_active_slot [OF assms(1)] assms(2-5) by metis
  with assms show ?thesis
    using unique_column_Some_same [of u_active_slot "db_updates d" u u']
    by (simp add: update_inv_def update_unique_def)
qed

lemma create_update_cases:
  assumes "create_update sv st tv td oid now d = Inr (row, d')"
  shows "st \<notin> TERMINAL_UPDATE_OPERATION_STATUSES" and "u_status row = st"
    and "u_active_slot row = Some ''global''" and "u_operation_id row = oid"
    and "d' = d\<lparr>db_updates := db_updates d @ [row]\<rparr>" and "update_check row"
    and "update_unique (db_updates d @ [row])" and "u_id row = next_id (map u_id (db_updates d))"
  using assms by (auto simp: create_update_def Let_def split: if_splits)

lemma create_update_inv:
  assumes inv: "update_inv d" and step: "create_update sv st tv td oid now d = Inr (row, d')"
  shows "update_inv d' \<and> terminal_kept d d'"
proof -
  note c = create_update_cases [OF step]
  have "u_id row \<notin> set (map u_id (db_updates d))"
    unfolding c(8) by (rule next_id_fresh)
  with inv c show ?thesis
    by (auto simp: update_inv_def terminal_kept_def)
qed

lemma flush_update_cases:
  assumes "flush_update u u' now d = Inr (res, d')"
  obtains (same) "u' = u" and "d' = d"
  | (changed) row row' where "row \<in> set (db_updates d)" and "u_id row = u_id u"
      and "u_active_slot row \<noteq> None"
      and "d' = d\<lparr>db_updates := put_row row row' (db_updates d)\<rparr>"
      and "u_id row' = u_id row" and "u_operation_id row' = u_operation_id row"
      and "u_status row' = write_column u_status u u' row"
      and "u_active_slot row' = write_column u_active_slot u u' row"
      and "update_check row'" and "update_unique (put_row row row' (db_updates d))"
proof (cases "u' = u")
  case True
  with assms same show thesis by (simp add: flush_update_def)
next
  case False
  with assms obtain row where row: "first_row (\<lambda>row. u_id row = u_id u) (db_updates d) = Some row"
    by (auto simp: flush_update_def split: option.splits)
  note mem = first_row_SomeD [OF row]
  from assms False row show thesis
    by (intro changed [of row]) (use mem in \<open>auto simp: flush_update_def Let_def update_trigger_def split: if_splits\<close>)
qed

lemma flush_update_inv:
  assumes inv: "update_inv d" and step: "flush_update u u' now d = Inr (res, d')"
    and life: "\<And>row. row \<in> set (db_updates d) \<Longrightarrow> u_active_slot row \<noteq> None \<Longrightarrow>
      write_column u_active_slot u u' row = None \<longleftrightarrow>
      write_column u_status u u' row \<in> TERMINAL_UPDATE_OPERATION_STATUSES"
  shows "update_inv d' \<and> terminal_kept d d'"
  using step
proof (cases rule: flush_update_cases)
  case same
  with inv show ?thesis by (simp add: terminal_kept_def)
next
  case (changed row row')
  have "distinct (map u_id (put_row row row' (db_updates d)))"
    using inv changed(5) by (simp add: update_inv_def map_put_row)
  moreover have "u_active_slot row' = None \<longleftrightarrow> u_status row' \<in> TERMINAL_UPDATE_OPERATION_STATUSES"
    using life [OF changed(1,3)] changed(7,8) by simp
  ultimately show ?thesis
    using inv changed by (auto simp: update_inv_def terminal_kept_def)
qed

lemma validate_update_transition_Inr [simp]:
  "validate_update_transition s t = Inr x \<longleftrightarrow> t \<in> ALLOWED_UPDATE_TRANSITIONS s"
  by (simp add: validate_update_transition_def)

lemma finish_update_inv:
  assumes inv: "update_inv d" and step: "finish_update u st ca ec em now d = Inr (res, d')"
  shows "update_inv d' \<and> terminal_kept d d'"
proof -
  from step have act: "u_active_slot u = Some ''global''"
    and ter: "st \<in> TERMINAL_UPDATE_OPERATION_STATUSES" and can: "st \<in> ALLOWED_UPDATE_TRANSITIONS (u_status u)"
    and fl: "flush_update u (u\<lparr>u_status := st, u_active_slot := None,
           u_completed_at := Some (coalesce ca now), u_error_code := ec, u_error_message := em\<rparr>)
           now d = Inr (res, d')"
    by (auto simp: finish_update_def split: if_splits)
  show ?thesis
    by (rule flush_update_inv [OF inv fl])
      (use act ter allowed_update_irrefl [OF can] in \<open>simp add: write_column_def\<close>)
qed

lemma transition_active_inv:
  assumes inv: "update_inv d" and step: "transition_active u st now d = Inr (res, d')"
  shows "update_inv d' \<and> terminal_kept d d'"
proof -
  from step have act: "u_active_slot u = Some ''global''"
    and ter: "st \<notin> TERMINAL_UPDATE_OPERATION_STATUSES" and can: "st \<in> ALLOWED_UPDATE_TRANSITIONS (u_status u)"
    and fl: "flush_update u (u\<lparr>u_status := st\<rparr>) now d = Inr (res, d')"
    by (auto simp: transition_active_def split: if_splits)
  show ?thesis
    by (rule flush_update_inv [OF inv fl])
      (use ter allowed_update_irrefl [OF can] in \<open>simp add: write_column_def\<close>)
qed

lemma set_verified_target_inv:
  assumes inv: "update_inv d" and step: "set_verified_target u tv td now d = Inr (res, d')"
  shows "update_inv d' \<and> terminal_kept d d'"
proof -
  from step have fl: "flush_update u
      (u\<lparr>u_target_version := Some tv, u_target_digest := Some td\<rparr>) now d = Inr (res, d')"
    by (auto simp: set_verified_target_def split: if_splits)
  show ?thesis
    by (rule flush_update_inv [OF inv fl])
      (use inv in \<open>simp add: write_column_def update_inv_def\<close>)
qed

lemma get_active_None_iff:
  "update_inv d \<Longrightarrow> get_active d = None \<longleftrightarrow> (\<forall>u \<in> set (db_updates d). u_active_slot u = None)"
  using update_inv_active_slot [of d] unfolding get_active_def first_row_None_iff by fastforce

lemma get_active_Some:
  assumes "update_inv d" and "u \<in> set (db_updates d)" and "u_active_slot u \<noteq> None"
  shows "get_active d = Some u"
proof -
  have "u_active_slot u = Some ''global''"
    using update_inv_active_slot assms by blast
  then obtain x where x: "get_active d = Some x"
    using first_row_exists [of u "db_updates d" "\<lambda>u. u_active_slot u = Some ''global''"] assms(2)
    by (auto simp: get_active_def)
  then have "x \<in> set (db_updates d)" "u_active_slot x = Some ''global''"
    using first_row_SomeD [of _ "db_updates d" x] by (auto simp: get_active_def)
  with update_inv_single_active [OF assms(1) _ assms(2)] assms(3) have "x = u" by auto
  with x show ?thesis by simp
qed

section \<open>The store as a state machine\<close>

text \<open>Every call is a transaction; one that raises changes nothing.\<close>

datatype update_event =
    CreateUpdate string update_status "string option" "string option" string datetime
  | FinishUpdate update_operation update_status "datetime option" "string option" "string option"
      datetime
  | TransitionActive update_operation update_status datetime
  | SetVerifiedTarget update_operation string string datetime

fun update_call :: "update_event \<Rightarrow> db \<Rightarrow> update_error + update_operation \<times> db" where
  "update_call (CreateUpdate sv st tv td oid now) d = create_update sv st tv td oid now d"
| "update_call (FinishUpdate u st ca ec em now) d = finish_update u st ca ec em now d"
| "update_call (TransitionActive u st now) d = transition_active u st now d"
| "update_call (SetVerifiedTarget u tv td now) d = set_verified_target u tv td now d"

inductive update_step :: "update_event \<Rightarrow> db \<Rightarrow> db \<Rightarrow> bool" where
  update_returns: "update_call e d = Inr (u, d') \<Longrightarrow> update_step e d d'"
| update_raises: "update_call e d = Inl err \<Longrightarrow> update_step e d d"

inductive_cases update_stepE: "update_step e d d'"

lemma terminal_kept_refl [simp]: "terminal_kept d d"
  by (simp add: terminal_kept_def)

lemma terminal_kept_trans: "terminal_kept a b \<Longrightarrow> terminal_kept b c \<Longrightarrow> terminal_kept a c"
  by (auto simp: terminal_kept_def)

lemma update_call_keeps:
  "update_call e d = Inr (u, d') \<Longrightarrow> update_inv d \<Longrightarrow> update_inv d' \<and> terminal_kept d d'"
  by (cases e) (auto dest: create_update_inv finish_update_inv transition_active_inv
      set_verified_target_inv)

interpretation updates: evolving_system update_step update_inv terminal_kept
proof
  fix e d d'
  assume "update_step e d d'" and "update_inv d"
  then show "update_inv d' \<and> terminal_kept d d'"
    by (auto elim!: update_stepE dest: update_call_keeps)
qed (auto intro: terminal_kept_trans)

text \<open>Creating an operation succeeds exactly when none is active and the identifier is new.\<close>

lemma no_active_slot_iff:
  assumes "update_inv d"
  shows "Some ''global'' \<notin> u_active_slot ` set (db_updates d) \<longleftrightarrow>
     (\<forall>u \<in> set (db_updates d). u_active_slot u = None)"
  using update_inv_active_slot [OF assms] by force

lemma create_update_succeeds_iff:
  assumes inv: "update_inv d" and st: "st \<notin> TERMINAL_UPDATE_OPERATION_STATUSES"
  shows "(\<exists>u d'. create_update sv st tv td oid now d = Inr (u, d')) \<longleftrightarrow>
     get_active d = None \<and> get_by_operation_id d oid = None"
proof -
  have uni: "unique_column (map u_active_slot (db_updates d))" "distinct (map u_operation_id (db_updates d))"
    using inv by (simp_all add: update_inv_def update_unique_def)
  have "(\<exists>u d'. create_update sv st tv td oid now d = Inr (u, d')) \<longleftrightarrow>
      Some ''global'' \<notin> u_active_slot ` set (db_updates d) \<and> oid \<notin> u_operation_id ` set (db_updates d)"
    using st uni by (simp add: create_update_def Let_def update_check_def update_unique_def)
  also have "\<dots> \<longleftrightarrow> (\<forall>u \<in> set (db_updates d). u_active_slot u = None) \<and>
      oid \<notin> u_operation_id ` set (db_updates d)"
    by (simp only: no_active_slot_iff [OF inv])
  also have "\<dots> \<longleftrightarrow> get_active d = None \<and> get_by_operation_id d oid = None"
    using get_active_None_iff [OF inv] by (auto simp: get_by_operation_id_def first_row_None_iff)
  finally show ?thesis .
qed

end
