(* ===== verification/Versions.thy ===== *)
theory Versions
  imports Prelude
begin

text \<open>
  Version strings (\<open>parse_version\<close> and \<open>ParsedVersion\<close> of
  \<open>app/services/update_check_service.py\<close>): the grammar, the order the dataclass has
  (\<open>order=True\<close> compares the fields from left to right), and that a printed version reads back.
  Strings are ASCII here: \<open>strip\<close> removes the ASCII white space of \<open>str.strip\<close>, and \<open>\d\<close> is an
  ASCII digit.
\<close>

section \<open>Characters\<close>

definition is_space :: "char \<Rightarrow> bool" where
  "is_space c = (let n = of_char c :: nat in (9 \<le> n \<and> n \<le> 13) \<or> (28 \<le> n \<and> n \<le> 32))"

definition is_digit :: "char \<Rightarrow> bool" where
  "is_digit c = (let n = of_char c :: nat in 48 \<le> n \<and> n \<le> 57)"

definition is_lower_hex :: "char \<Rightarrow> bool" where
  "is_lower_hex c = (let n = of_char c :: nat in is_digit c \<or> (97 \<le> n \<and> n \<le> 102))"

definition strip :: "string \<Rightarrow> string" where
  "strip s = rev (dropWhile is_space (rev (dropWhile is_space s)))"

definition digits_val :: "string \<Rightarrow> nat" where
  "digits_val ds = foldl (\<lambda>n c. 10 * n + (of_char c - 48)) 0 ds"

text \<open>\<open>0|[1-9]\d*\<close>, read greedily: in the pattern no digit can follow it.\<close>

definition read_number :: "string \<Rightarrow> (int \<times> string) option" where
  "read_number s =
     (let ds = takeWhile is_digit s
      in if ds = [] \<or> (hd ds = CHR ''0'' \<and> tl ds \<noteq> []) then None
         else Some (int (digits_val ds), dropWhile is_digit s))"

fun expect :: "string \<Rightarrow> string \<Rightarrow> string option" where
  "expect [] s = Some s"
| "expect (p # ps) [] = None"
| "expect (p # ps) (c # s) = (if c = p then expect ps s else None)"

section \<open>Versions\<close>

datatype parsed_version = ParsedVersion
  (v_major: int) (v_minor: int) (v_patch: int) (v_stability: int) (v_prerelease: int)

definition parse_version :: "string \<Rightarrow> parsed_version option" where
  "parse_version value =
     (let s = strip value;
          s0 = (case expect ''v'' s of None \<Rightarrow> s | Some r \<Rightarrow> r)
      in
      case read_number s0 of None \<Rightarrow> None | Some (major, s1) \<Rightarrow>
      case expect ''.'' s1 of None \<Rightarrow> None | Some s2 \<Rightarrow>
      case read_number s2 of None \<Rightarrow> None | Some (minor, s3) \<Rightarrow>
      case expect ''.'' s3 of None \<Rightarrow> None | Some s4 \<Rightarrow>
      case read_number s4 of None \<Rightarrow> None | Some (patch, s5) \<Rightarrow>
      if s5 = [] then Some (ParsedVersion major minor patch 1 0)
      else
      case expect ''-rc.'' s5 of None \<Rightarrow> None | Some s6 \<Rightarrow>
      case read_number s6 of None \<Rightarrow> None | Some (rc, s7) \<Rightarrow>
      if s7 = [] then Some (ParsedVersion major minor patch 0 rc) else None)"

definition version_key :: "parsed_version \<Rightarrow> int \<times> int \<times> int \<times> int \<times> int" where
  "version_key v = (v_major v, v_minor v, v_patch v, v_stability v, v_prerelease v)"

lemma version_key_inj [simp]: "version_key a = version_key b \<longleftrightarrow> a = b"
  by (cases a; cases b) (simp add: version_key_def)

instantiation parsed_version :: linorder
begin

definition less_eq_parsed_version :: "parsed_version \<Rightarrow> parsed_version \<Rightarrow> bool" where
  "less_eq_parsed_version a b \<longleftrightarrow> version_key a \<le> version_key b"

definition less_parsed_version :: "parsed_version \<Rightarrow> parsed_version \<Rightarrow> bool" where
  "less_parsed_version a b \<longleftrightarrow> version_key a < version_key b"

instance
proof
  fix a b c :: parsed_version
  show "a < b \<longleftrightarrow> a \<le> b \<and> \<not> b \<le> a"
    unfolding less_eq_parsed_version_def less_parsed_version_def by (rule less_le_not_le)
  show "a \<le> a" by (simp add: less_eq_parsed_version_def)
  show "a \<le> b \<Longrightarrow> b \<le> c \<Longrightarrow> a \<le> c"
    unfolding less_eq_parsed_version_def by (rule order_trans)
  show "a \<le> b \<Longrightarrow> b \<le> a \<Longrightarrow> a = b"
    unfolding less_eq_parsed_version_def using version_key_inj by (metis antisym)
  show "a \<le> b \<or> b \<le> a" by (simp add: less_eq_parsed_version_def linear)
qed

end

section \<open>Printing\<close>

definition render_version :: "parsed_version \<Rightarrow> string" where
  "render_version v =
     int_str (v_major v) @ ''.'' @ int_str (v_minor v) @ ''.'' @ int_str (v_patch v) @
     (if v_stability v = 0 then ''-rc.'' @ int_str (v_prerelease v) else [])"

definition version_valid :: "parsed_version \<Rightarrow> bool" where
  "version_valid v \<longleftrightarrow> 0 \<le> v_major v \<and> 0 \<le> v_minor v \<and> 0 \<le> v_patch v \<and> 0 \<le> v_prerelease v \<and>
     (v_stability v = 0 \<or> (v_stability v = 1 \<and> v_prerelease v = 0))"

lemma digit_char_is_digit [simp]: "n < 10 \<Longrightarrow> is_digit (digit_char n)"
  by (simp add: is_digit_def digit_char_def)

lemma digit_char_val [simp]: "n < 10 \<Longrightarrow> of_char (digit_char n) = 48 + n"
  by (simp add: digit_char_def)

lemma nat_str_digits: "c \<in> set (nat_str n) \<Longrightarrow> is_digit c"
proof (induction n rule: nat_str.induct)
  case (1 n)
  then show ?case
    by (subst (asm) (2) nat_str.simps) (auto split: if_splits)
qed

lemma nat_str_nonempty [simp]: "nat_str n \<noteq> []"
  by (subst nat_str.simps) simp

lemma digits_val_append: "digits_val (xs @ [c]) = 10 * digits_val xs + (of_char c - 48)"
  by (simp add: digits_val_def)

lemma digits_val_nat_str [simp]: "digits_val (nat_str n) = n"
proof (induction n rule: nat_str.induct)
  case (1 n)
  show ?case
  proof (cases "n < 10")
    case True
    then show ?thesis by (subst nat_str.simps) (simp add: digits_val_def)
  next
    case False
    have "nat_str n = nat_str (n div 10) @ [digit_char (n mod 10)]"
      using False by (subst nat_str.simps) simp
    with 1 [OF False] show ?thesis by (simp add: digits_val_append)
  qed
qed

lemma nat_str_no_leading_zero: "hd (nat_str n) = CHR ''0'' \<Longrightarrow> tl (nat_str n) = []"
proof (induction n rule: nat_str.induct)
  case (1 n)
  show ?case
  proof (cases "n < 10")
    case True
    then show ?thesis by (subst nat_str.simps) simp
  next
    case False
    have eq: "nat_str n = nat_str (n div 10) @ [digit_char (n mod 10)]"
      using False by (subst nat_str.simps) simp
    then have "hd (nat_str (n div 10)) = CHR ''0''"
      using "1.prems" by simp
    with 1 False have "tl (nat_str (n div 10)) = []" by simp
    then obtain c where c: "nat_str (n div 10) = [c]"
      using nat_str_nonempty by (metis list.collapse)
    with \<open>hd (nat_str (n div 10)) = CHR ''0''\<close> have "digits_val (nat_str (n div 10)) = 0"
      by (simp add: digits_val_def)
    with False show ?thesis by simp
  qed
qed

lemma read_number_nat_str:
  assumes "s = [] \<or> \<not> is_digit (hd s)"
  shows "read_number (nat_str n @ s) = Some (int n, s)"
proof -
  have all: "\<forall>c \<in> set (nat_str n). is_digit c" using nat_str_digits by blast
  have s: "takeWhile is_digit s = []" "dropWhile is_digit s = s"
    using assms by (cases s; simp)+
  have "takeWhile is_digit (nat_str n @ s) = nat_str n" "dropWhile is_digit (nat_str n @ s) = s"
    using all s by simp_all
  then show ?thesis
    using nat_str_no_leading_zero [of n] by (auto simp: read_number_def Let_def)
qed

lemma read_number_int_str:
  "0 \<le> i \<Longrightarrow> s = [] \<or> \<not> is_digit (hd s) \<Longrightarrow> read_number (int_str i @ s) = Some (i, s)"
  using read_number_nat_str [of s "nat i"] by (simp add: int_str_def)

lemma digit_not_space: "is_digit c \<Longrightarrow> \<not> is_space c"
  by (auto simp: is_digit_def is_space_def Let_def)

lemma strip_id:
  assumes "s \<noteq> []" and "\<not> is_space (hd s)" and "\<not> is_space (last s)"
  shows "strip s = s"
proof -
  have d: "dropWhile is_space xs = xs" if "xs \<noteq> []" "\<not> is_space (hd xs)" for xs
    using that by (cases xs) auto
  show ?thesis
    using d [OF assms(1,2)] d [of "rev s"] assms(1,3) by (simp add: strip_def hd_rev)
qed

lemma int_str_digit: "0 \<le> i \<Longrightarrow> int_str i \<noteq> [] \<and> is_digit (hd (int_str i)) \<and> is_digit (last (int_str i))"
  using nat_str_digits [of _ "nat i"] by (simp add: int_str_def)

lemma render_version_last:
  assumes "version_valid v"
  shows "\<not> is_space (last (render_version v))"
proof -
  have p: "int_str (v_patch v) \<noteq> []" "is_digit (last (int_str (v_patch v)))"
    using int_str_digit [of "v_patch v"] assms by (simp_all add: version_valid_def)
  have r: "int_str (v_prerelease v) \<noteq> []" "is_digit (last (int_str (v_prerelease v)))"
    using int_str_digit [of "v_prerelease v"] assms by (simp_all add: version_valid_def)
  show ?thesis using p r digit_not_space by (simp add: render_version_def)
qed

lemma render_version_strip:
  assumes "version_valid v"
  shows "strip (render_version v) = render_version v"
proof (rule strip_id)
  have m: "int_str (v_major v) \<noteq> []" "is_digit (hd (int_str (v_major v)))"
    using int_str_digit [of "v_major v"] assms by (simp_all add: version_valid_def)
  show "render_version v \<noteq> []" by (simp add: render_version_def)
  show "\<not> is_space (hd (render_version v))"
    using m digit_not_space by (simp add: render_version_def)
  show "\<not> is_space (last (render_version v))" by (rule render_version_last [OF assms])
qed

lemma parse_render:
  assumes "version_valid v"
  shows "parse_version (render_version v) = Some v"
proof -
  have nn: "0 \<le> v_major v" "0 \<le> v_minor v" "0 \<le> v_patch v" "0 \<le> v_prerelease v"
    using assms by (simp_all add: version_valid_def)
  have dot: "\<not> is_digit (CHR ''.'')" and dash: "\<not> is_digit (CHR ''-'')"
    by (simp_all add: is_digit_def)
  have v: "expect ''v'' (render_version v) = None"
  proof (cases "render_version v")
    case (Cons c cs)
    have "is_digit c"
      using int_str_digit [OF nn(1)] Cons by (simp add: render_version_def) (metis hd_append2 list.sel(1))
    then have "c \<noteq> CHR ''v''" by (auto simp: is_digit_def)
    with Cons show ?thesis by simp
  qed (simp add: render_version_def)
  let ?t = "if v_stability v = 0 then ''-rc.'' @ int_str (v_prerelease v) else []"
  have n1: "read_number (render_version v) =
      Some (v_major v, ''.'' @ int_str (v_minor v) @ ''.'' @ int_str (v_patch v) @ ?t)"
    unfolding render_version_def by (rule read_number_int_str [OF nn(1)]) (simp add: dot)
  have n2: "read_number (int_str (v_minor v) @ ''.'' @ int_str (v_patch v) @ ?t) =
      Some (v_minor v, ''.'' @ int_str (v_patch v) @ ?t)"
    by (rule read_number_int_str [OF nn(2)]) (simp add: dot)
  have n3: "read_number (int_str (v_patch v) @ ?t) = Some (v_patch v, ?t)"
    by (rule read_number_int_str [OF nn(3)]) (simp add: dash)
  have n4: "read_number (int_str (v_prerelease v)) = Some (v_prerelease v, [])"
    using read_number_int_str [OF nn(4), of "[]"] by simp
  show ?thesis
    using n1 n2 n3 n4 assms v
    by (cases v) (auto simp: parse_version_def render_version_strip Let_def version_valid_def)
qed

text \<open>The leading \<open>v\<close> of a tag is skipped.\<close>

lemma parse_render_v:
  assumes "version_valid v"
  shows "parse_version (CHR ''v'' # render_version v) = Some v"
proof -
  let ?s = "render_version v"
  have d: "is_digit (hd ?s)" "?s \<noteq> []"
    using int_str_digit [of "v_major v"] assms
    by (simp_all add: render_version_def version_valid_def)
  have novs: "expect ''v'' ?s = None"
  proof (cases ?s)
    case (Cons c cs)
    with d(1) have "c \<noteq> CHR ''v''" by (auto simp: is_digit_def)
    with Cons show ?thesis by simp
  qed (use d in simp)
  have last: "\<not> is_space (last ?s)"
    using render_version_last [OF assms] .
  have "strip (CHR ''v'' # ?s) = CHR ''v'' # ?s"
    by (rule strip_id) (use last d(2) in \<open>simp_all add: is_space_def\<close>)
  then have "parse_version (CHR ''v'' # ?s) = parse_version ?s"
    using novs by (simp add: parse_version_def render_version_strip [OF assms])
  with parse_render [OF assms] show ?thesis by simp
qed

end
