(* ===== verification/ExecutionGate.thy ===== *)
theory ExecutionGate
  imports UpdateOperations Versions
begin

text \<open>
  The update execution gate (\<open>app/services/update_execution_gate.py\<close>): whether an update in
  progress stops the worker and the scheduler.  The pending marker is a file; what the file
  system shows of it is a value of type \<open>marker_file\<close>.
\<close>

section \<open>Formats\<close>

definition MAX_PENDING_MARKER_BYTES :: int where
  "MAX_PENDING_MARKER_BYTES = 16 * 1024"

definition is_alnum_dash :: "char \<Rightarrow> bool" where
  "is_alnum_dash c = (let n = of_char c :: nat in
     (48 \<le> n \<and> n \<le> 57) \<or> (65 \<le> n \<and> n \<le> 90) \<or> (97 \<le> n \<and> n \<le> 122) \<or> n = 95 \<or> n = 45)"

definition digest_ok :: "string \<Rightarrow> bool" where
  "digest_ok s = (case expect ''sha256:'' s of
     None \<Rightarrow> False | Some r \<Rightarrow> length r = 64 \<and> list_all is_lower_hex r)"

definition revision_ok :: "string \<Rightarrow> bool" where
  "revision_ok s \<longleftrightarrow> length s = 40 \<and> list_all is_lower_hex s"

definition candidate_token_ok :: "string \<Rightarrow> bool" where
  "candidate_token_ok s \<longleftrightarrow> 32 \<le> length s \<and> length s \<le> 128 \<and> list_all is_alnum_dash s"

text \<open>
  \<open>uuid.UUID(s)\<close> raises \<open>ValueError\<close> unless, without \<open>urn:\<close>, \<open>uuid:\<close>, surrounding braces and
  dashes, 32 characters are left that \<open>int(_, 16)\<close> reads: blanks around, a sign, a prefix
  \<open>0x\<close>, and single underscores between digits are read too.
\<close>

fun remove_all :: "string \<Rightarrow> nat \<Rightarrow> string \<Rightarrow> string" where
  "remove_all p k [] = []"
| "remove_all p (Suc k) (c # s) = remove_all p k s"
| "remove_all p 0 (c # s) =
     (if take (length p) (c # s) = p then remove_all p (length p - 1) s else c # remove_all p 0 s)"

definition strip_braces :: "string \<Rightarrow> string" where
  "strip_braces s =
     (let b = (\<lambda>c. c = CHR ''{'' \<or> c = CHR ''}'') in rev (dropWhile b (rev (dropWhile b s))))"

definition is_hex :: "char \<Rightarrow> bool" where
  "is_hex c = (let n = of_char c :: nat in is_lower_hex c \<or> (65 \<le> n \<and> n \<le> 70))"

fun hex_group :: "string \<Rightarrow> bool" where
  "hex_group [] = False"
| "hex_group [c] = is_hex c"
| "hex_group (c # d # s) =
     (is_hex c \<and> (if d = CHR ''_'' then hex_group s else hex_group (d # s)))"

definition reads_as_hex :: "string \<Rightarrow> bool" where
  "reads_as_hex s =
     (let s1 = strip s;
          s2 = (case s1 of c # r \<Rightarrow> if c = CHR ''+'' \<or> c = CHR ''-'' then r else s1 | [] \<Rightarrow> s1)
      in case s2 of
           z # x # r \<Rightarrow>
             if z = CHR ''0'' \<and> (x = CHR ''x'' \<or> x = CHR ''X'')
             then (case r of u # r' \<Rightarrow> if u = CHR ''_'' then hex_group r' else hex_group r
                           | [] \<Rightarrow> False)
             else hex_group s2
         | _ \<Rightarrow> hex_group s2)"

definition uuid_ok :: "string \<Rightarrow> bool" where
  "uuid_ok s =
     (let hex = remove_all ''-'' 0 (strip_braces
                  (remove_all ''uuid:'' 0 (remove_all ''urn:'' 0 s)))
      in length hex = 32 \<and> reads_as_hex hex)"

section \<open>The pending marker\<close>

record pending_update_marker =
  q_operation_id :: string
  q_target_version :: string
  q_target_digest :: string
  q_target_revision :: string
  q_candidate_token :: string

text \<open>
  What the path shows: a call that raises \<open>OSError\<close>, a path that does not exist (a link
  whose target does not exist included), a link or something that is not a file, or a file with
  its size and, when it can be decoded and parsed, its JSON value.
\<close>

datatype marker_file =
    MarkerOSError | MarkerMissing | MarkerDanglingLink | MarkerUnsafe | MarkerFile int "json option"

datatype marker_problem =
    PathUnsafe | TooLarge | CannotParse | FieldsInvalid | ModeInvalid | OperationInvalid
  | VersionInvalid | DigestInvalid | RevisionInvalid | TokenInvalid

definition marker_fields :: "string set" where
  "marker_fields = {''operation_id'', ''target_version'', ''target_digest'', ''target_revision'',
     ''candidate_token'', ''mode''}"

definition str_if :: "(string \<Rightarrow> bool) \<Rightarrow> json \<Rightarrow> string option" where
  "str_if ok j = (case j of JStr s \<Rightarrow> if ok s then Some s else None | _ \<Rightarrow> None)"

definition read_marker_fields ::
    "(string \<times> json) list \<Rightarrow> marker_problem + pending_update_marker" where
  "read_marker_fields m =
     (if set (map fst m) \<noteq> marker_fields then Inl FieldsInvalid
      else if jget m ''mode'' \<noteq> JStr ''candidate_validation'' then Inl ModeInvalid
      else
      case str_if uuid_ok (jget m ''operation_id'') of None \<Rightarrow> Inl OperationInvalid
    | Some operation_id \<Rightarrow>
      case str_if (\<lambda>s. parse_version s \<noteq> None) (jget m ''target_version'') of
        None \<Rightarrow> Inl VersionInvalid
    | Some target_version \<Rightarrow>
      case str_if digest_ok (jget m ''target_digest'') of None \<Rightarrow> Inl DigestInvalid
    | Some target_digest \<Rightarrow>
      case str_if revision_ok (jget m ''target_revision'') of None \<Rightarrow> Inl RevisionInvalid
    | Some target_revision \<Rightarrow>
      case str_if candidate_token_ok (jget m ''candidate_token'') of None \<Rightarrow> Inl TokenInvalid
    | Some candidate_token \<Rightarrow>
      Inr \<lparr>q_operation_id = operation_id, q_target_version = target_version,
           q_target_digest = target_digest, q_target_revision = target_revision,
           q_candidate_token = candidate_token\<rparr>)"

text \<open>\<open>None\<close> when there is no marker; otherwise what is wrong with it, or the marker.\<close>

definition read_pending_marker ::
    "marker_file \<Rightarrow> (marker_problem + pending_update_marker) option" where
  "read_pending_marker file =
     (case file of
        MarkerOSError \<Rightarrow> Some (Inl CannotParse)
      | MarkerMissing \<Rightarrow> None
      | MarkerDanglingLink \<Rightarrow> None
      | MarkerUnsafe \<Rightarrow> Some (Inl PathUnsafe)
      | MarkerFile sz content \<Rightarrow>
          if MAX_PENDING_MARKER_BYTES < sz then Some (Inl TooLarge)
          else case content of
                 None \<Rightarrow> Some (Inl CannotParse)
               | Some (JObj m) \<Rightarrow> Some (read_marker_fields m)
               | Some _ \<Rightarrow> Some (Inl FieldsInvalid))"

definition pending_marker_present :: "marker_file \<Rightarrow> bool" where
  "pending_marker_present file \<longleftrightarrow> file \<noteq> MarkerMissing"

section \<open>The decision\<close>

definition GATED_UPDATE_STATUSES :: "update_status set" where
  "GATED_UPDATE_STATUSES =
     {UpDraining, UpHandoff, UpSnapshotting, UpSwitching, UpVerifying, UpRollingBack}"

datatype gate_mode = CandidateInvalid | CandidateValidation | Draining | Normal

datatype gate_reason = MarkerProblem marker_problem | MarkerMismatch

record update_gate_decision =
  gd_blocked :: bool
  gd_mode :: gate_mode
  gd_reason :: "gate_reason option"
  gd_operation_id :: "string option"

definition evaluate :: "marker_file \<Rightarrow> db \<Rightarrow> update_gate_decision" where
  "evaluate file d =
     (case read_pending_marker file of
        Some (Inl problem) \<Rightarrow>
          \<lparr>gd_blocked = True, gd_mode = CandidateInvalid,
           gd_reason = Some (MarkerProblem problem), gd_operation_id = None\<rparr>
      | Some (Inr marker) \<Rightarrow>
          (if (case get_active d of None \<Rightarrow> True
                 | Some active \<Rightarrow> u_operation_id active \<noteq> q_operation_id marker)
           then \<lparr>gd_blocked = True, gd_mode = CandidateInvalid,
                 gd_reason = Some MarkerMismatch, gd_operation_id = None\<rparr>
           else \<lparr>gd_blocked = True, gd_mode = CandidateValidation, gd_reason = None,
                 gd_operation_id = Some (q_operation_id marker)\<rparr>)
      | None \<Rightarrow>
          (case get_active d of
             Some active \<Rightarrow>
               if u_status active \<in> GATED_UPDATE_STATUSES
               then \<lparr>gd_blocked = True, gd_mode = Draining, gd_reason = None,
                     gd_operation_id = Some (u_operation_id active)\<rparr>
               else \<lparr>gd_blocked = False, gd_mode = Normal, gd_reason = None, gd_operation_id = None\<rparr>
           | None \<Rightarrow>
               \<lparr>gd_blocked = False, gd_mode = Normal, gd_reason = None, gd_operation_id = None\<rparr>))"

definition gate_blocked :: "marker_file \<Rightarrow> db \<Rightarrow> bool" where
  "gate_blocked file d = gd_blocked (evaluate file d)"

section \<open>Lemmas\<close>

lemma read_pending_marker_None_iff:
  "read_pending_marker file = None \<longleftrightarrow> file = MarkerMissing \<or> file = MarkerDanglingLink"
  by (auto simp: read_pending_marker_def split: marker_file.splits option.splits json.splits)

lemma gate_blocked_iff:
  "gate_blocked file d \<longleftrightarrow>
     (file \<noteq> MarkerMissing \<and> file \<noteq> MarkerDanglingLink) \<or>
     (\<exists>u. get_active d = Some u \<and> u_status u \<in> GATED_UPDATE_STATUSES)"
proof (cases "read_pending_marker file")
  case None
  then have absent: "file = MarkerMissing \<or> file = MarkerDanglingLink"
    by (simp add: read_pending_marker_None_iff)
  show ?thesis
  proof (cases "get_active d")
    case None
    with absent \<open>read_pending_marker file = None\<close> show ?thesis
      by (simp add: gate_blocked_def evaluate_def)
  next
    case (Some u)
    with absent \<open>read_pending_marker file = None\<close> show ?thesis
      by (simp add: gate_blocked_def evaluate_def)
  qed
next
  case (Some r)
  then have "read_pending_marker file \<noteq> None" by simp
  then have "file \<noteq> MarkerMissing \<and> file \<noteq> MarkerDanglingLink"
    unfolding read_pending_marker_None_iff by blast
  with Some show ?thesis
    by (cases r) (simp_all add: gate_blocked_def evaluate_def)
qed

lemma gate_blocked_updates:
  "db_updates d' = db_updates d \<Longrightarrow> gate_blocked file d' = gate_blocked file d"
  by (simp add: gate_blocked_iff get_active_def)

lemma evaluate_validation:
  assumes "gd_mode (evaluate file d) = CandidateValidation"
  obtains u where "get_active d = Some u" and "gd_operation_id (evaluate file d) = Some (u_operation_id u)"
  using assms
  by (auto simp: evaluate_def split: option.splits sum.splits if_splits)

lemma str_if_Some: "str_if ok j = Some s \<longleftrightarrow> j = JStr s \<and> ok s"
  by (auto simp: str_if_def split: json.splits if_splits)

lemma read_marker_fields_Inr:
  assumes "read_marker_fields m = Inr q"
  shows "set (map fst m) = marker_fields \<and> uuid_ok (q_operation_id q) \<and>
         parse_version (q_target_version q) \<noteq> None \<and> digest_ok (q_target_digest q) \<and>
         revision_ok (q_target_revision q) \<and> candidate_token_ok (q_candidate_token q)"
proof -
  from assms obtain oid tv td tr ct where
    f: "set (map fst m) = marker_fields"
    and s: "str_if uuid_ok (jget m ''operation_id'') = Some oid"
      "str_if (\<lambda>s. parse_version s \<noteq> None) (jget m ''target_version'') = Some tv"
      "str_if digest_ok (jget m ''target_digest'') = Some td"
      "str_if revision_ok (jget m ''target_revision'') = Some tr"
      "str_if candidate_token_ok (jget m ''candidate_token'') = Some ct"
    and q: "q = \<lparr>q_operation_id = oid, q_target_version = tv, q_target_digest = td,
      q_target_revision = tr, q_candidate_token = ct\<rparr>"
    unfolding read_marker_fields_def by (simp split: if_split_asm option.split_asm)
  from s show ?thesis
    unfolding str_if_Some using f by (simp add: q)
qed

end
