(* ===== verification/Scheduling.thy ===== *)
theory Scheduling
  imports TaskLifecycle ExecutionGate
begin

text \<open>
  Who creates tasks: the interval schedules (\<open>app/scheduler/schedule.py\<close>), the scheduler's batch
  of due scans (\<open>app/scheduler/enqueue.py\<close>, \<open>app/scheduler/runtime.py\<close>), and the manual scan and
  transfer retry of the API (\<open>app/services/task_enqueue_service.py\<close>).  The lemmas show that no
  subscription gets two active scans and that a scheduled subscription is not due again before
  its interval is over.
\<close>

section \<open>Schedules\<close>

datatype schedule_error =
    ScheduleFormat | ScheduleNotPositive | ScheduleTooShort | ScheduleOverflow | DateOverflow
  | BatchLimit | MissingSubscription | ScheduleRepo repo_error

definition MAX_TIMEDELTA :: timedelta where
  "MAX_TIMEDELTA = 86400000000 * 1000000000 - 1"

text \<open>9999-12-31T23:59:59.999999: datetimes count from 1970-01-01T00:00:00.\<close>

definition MAX_DATETIME :: datetime where
  "MAX_DATETIME = 253402300799999999"

text \<open>
  \<open>interval:(\d+)([mh])\<close>: the digits are read greedily, and the unit is the last character.
\<close>

definition match_interval :: "string \<Rightarrow> (int \<times> char) option" where
  "match_interval s =
     (case expect ''interval:'' s of None \<Rightarrow> None
      | Some r \<Rightarrow>
          (case (takeWhile is_digit r, dropWhile is_digit r) of
             ([], _) \<Rightarrow> None
           | (ds, [u]) \<Rightarrow> if u = CHR ''m'' \<or> u = CHR ''h'' then Some (int (digits_val ds), u) else None
           | _ \<Rightarrow> None))"

definition parse_schedule :: "string \<Rightarrow> schedule_error + timedelta" where
  "parse_schedule value =
     (case match_interval (strip value) of
        None \<Rightarrow> Inl ScheduleFormat
      | Some (amount, u) \<Rightarrow>
          if amount < 1 then Inl ScheduleNotPositive
          else
            let delta = (if u = CHR ''m'' then seconds (60 * amount) else seconds (3600 * amount))
            in if MAX_TIMEDELTA < delta then Inl ScheduleOverflow
               else if delta < seconds 900 then Inl ScheduleTooShort
               else Inr delta)"

lemma parse_schedule_ge: "parse_schedule v = Inr delta \<Longrightarrow> seconds 900 \<le> delta"
  by (auto simp: parse_schedule_def Let_def split: option.splits if_splits)

section \<open>The idempotency key of a slot\<close>

text \<open>
  \<open>isoformat(timespec="microseconds")\<close> of a UTC datetime.  \<open>civil_from_days\<close> is the date of a
  day of the proleptic Gregorian calendar.
\<close>

definition civil_from_days :: "int \<Rightarrow> int \<times> int \<times> int" where
  "civil_from_days days =
     (let z = days + 719468;
          era = z div 146097;
          doe = z mod 146097;
          yoe = (doe - doe div 1460 + doe div 36524 - doe div 146096) div 365;
          doy = doe - (365 * yoe + yoe div 4 - yoe div 100);
          mp = (5 * doy + 2) div 153;
          day = doy - (153 * mp + 2) div 5 + 1;
          month = (if mp < 10 then mp + 3 else mp - 9)
      in (yoe + era * 400 + (if month \<le> 2 then 1 else 0), month, day))"

definition pad :: "nat \<Rightarrow> int \<Rightarrow> string" where
  "pad w n = (let s = int_str n in replicate (w - length s) CHR ''0'' @ s)"

definition isoformat_utc :: "datetime \<Rightarrow> string" where
  "isoformat_utc at =
     (let (y, m, day) = civil_from_days (at div 86400000000);
          us = at mod 86400000000
      in pad 4 y @ ''-'' @ pad 2 m @ ''-'' @ pad 2 day @ ''T'' @
         pad 2 (us div 3600000000) @ '':'' @ pad 2 (us div 60000000 mod 60) @ '':'' @
         pad 2 (us div 1000000 mod 60) @ ''.'' @ pad 6 (us mod 1000000) @ ''+00:00'')"

definition scheduled_scan_key :: "int \<Rightarrow> datetime \<Rightarrow> string" where
  "scheduled_scan_key subscription_id due_at =
     ''scan:'' @ int_str subscription_id @ '':scheduled:'' @ isoformat_utc due_at"

section \<open>New tasks\<close>

text \<open>The column defaults of \<open>Task\<close>.\<close>

definition default_task :: "datetime \<Rightarrow> task" where
  "default_task now =
     \<lparr>t_id = 0, t_account_id = None, t_subscription_id = None, t_file_id = None, t_type = [],
      t_trigger_type = ''scheduled'', t_status = Pending, t_priority = 0, t_payload_version = 1,
      t_payload = [], t_idempotency_key = None, t_retry_count = 0, t_max_retries = 3,
      t_next_attempt_at = None, t_blocked_reason = None, t_blocked_at = None,
      t_cancel_requested_at = None, t_locked_by = None, t_lock_token = None, t_locked_at = None,
      t_lease_until = None, t_last_error_code = None, t_last_error_message = None,
      t_completed_at = None, t_provider_write_intent_at = None, t_provider_operation_id = None,
      t_provider_operation_status = None, t_provider_result = None, t_message = None,
      t_error_code = None, t_attempt_count = 0, t_max_attempts = 3, t_started_at = None,
      t_finished_at = None, t_created_at = now, t_updated_at = now\<rparr>"

definition active_task_where :: "string \<Rightarrow> int option \<Rightarrow> int option \<Rightarrow> task \<Rightarrow> bool" where
  "active_task_where task_type subscription_id file_id t \<longleftrightarrow>
     t_type t = task_type \<and> t_status t \<notin> TERMINAL_TASK_STATUSES \<and>
     (subscription_id \<noteq> None \<longrightarrow> t_subscription_id t = subscription_id) \<and>
     (file_id \<noteq> None \<longrightarrow> t_file_id t = file_id)"

definition active_task :: "string \<Rightarrow> int option \<Rightarrow> int option \<Rightarrow> db \<Rightarrow> task option" where
  "active_task task_type subscription_id file_id d =
     select_one (\<lambda>t. (- t_created_at t, - t_id t))
       (active_task_where task_type subscription_id file_id) (db_tasks d)"

section \<open>Scheduled scans\<close>

record scan_enqueue_result =
  n_inspected_count :: int
  n_enqueued_count :: int
  n_skipped_active_count :: int
  n_task_ids :: "int list"
  n_gated :: bool

definition due_subscriptions :: "int \<Rightarrow> datetime \<Rightarrow> db \<Rightarrow> subscription list" where
  "due_subscriptions limit now d =
     take (nat limit)
       (sort_key (\<lambda>s. (coalesce (s_next_scan_at s) 0, s_id s))
         (filter (\<lambda>s. s_enabled s \<and>
                      (case s_next_scan_at s of None \<Rightarrow> False | Some at \<Rightarrow> at \<le> now))
           (db_subscriptions d)))"

definition set_next_scan :: "int \<Rightarrow> datetime \<Rightarrow> db \<Rightarrow> db" where
  "set_next_scan sid at d =
     d\<lparr>db_subscriptions := update_rows (\<lambda>s. s_id s = sid) (\<lambda>s. s\<lparr>s_next_scan_at := Some at\<rparr>)
                             (db_subscriptions d)\<rparr>"

definition scheduled_scan_task :: "subscription \<Rightarrow> datetime \<Rightarrow> datetime \<Rightarrow> task" where
  "scheduled_scan_task s due_at created_at =
     (default_task created_at)
       \<lparr>t_account_id := Some (s_cloud_account_id s), t_subscription_id := Some (s_id s),
        t_type := ''scan'', t_trigger_type := ''scheduled'',
        t_payload := [(''force_full'', JBool False)],
        t_idempotency_key := Some (scheduled_scan_key (s_id s) due_at)\<rparr>"

text \<open>One turn of the loop: the new task's id, or \<open>None\<close> when a scan is active already.\<close>

definition enqueue_scan ::
    "datetime \<Rightarrow> datetime \<Rightarrow> subscription \<Rightarrow> datetime \<Rightarrow> db \<Rightarrow> schedule_error + int option \<times> db" where
  "enqueue_scan now created_at s due_at d =
     bindR (parse_schedule (s_schedule s)) (\<lambda>delta.
     if MAX_DATETIME < now + delta then Inl DateOverflow
     else
       let d1 = set_next_scan (s_id s) (now + delta) d
       in if first_row (active_task_where ''scan'' (Some (s_id s)) None) (db_tasks d1) \<noteq> None
          then Inr (None, d1)
          else case create_task (scheduled_scan_task s due_at created_at) d1 of
                 Inl e \<Rightarrow> Inl (ScheduleRepo e)
               | Inr (t, d2) \<Rightarrow> Inr (Some (t_id t), d2))"

fun enqueue_scans ::
    "datetime \<Rightarrow> datetime \<Rightarrow> subscription list \<Rightarrow> db \<Rightarrow> schedule_error + (int list \<times> int) \<times> db" where
  "enqueue_scans now created_at [] d = Inr (([], 0), d)"
| "enqueue_scans now created_at (s # ss) d =
     (case s_next_scan_at s of
        None \<Rightarrow> enqueue_scans now created_at ss d
      | Some due_at \<Rightarrow>
          bindR (enqueue_scan now created_at s due_at d) (\<lambda>(tid, d1).
          bindR (enqueue_scans now created_at ss d1) (\<lambda>((tids, skipped), d2).
          Inr ((case tid of None \<Rightarrow> (tids, skipped + 1) | Some i \<Rightarrow> (i # tids, skipped)), d2))))"

definition enqueue_due_scan_tasks ::
    "datetime \<Rightarrow> datetime \<Rightarrow> int \<Rightarrow> db \<Rightarrow> schedule_error + scan_enqueue_result \<times> db" where
  "enqueue_due_scan_tasks now created_at limit d =
     (if limit < 1 \<or> 1000 < limit then Inl BatchLimit
      else
        let subs = due_subscriptions limit now d in
        bindR (enqueue_scans now created_at subs d) (\<lambda>((tids, skipped), d').
        Inr (\<lparr>n_inspected_count = int (length subs), n_enqueued_count = int (length tids),
              n_skipped_active_count = skipped, n_task_ids = tids, n_gated = False\<rparr>, d')))"

text \<open>\<open>SchedulerRuntime.run_once\<close>, one transaction.\<close>

definition scheduler_run_once ::
    "marker_file \<Rightarrow> int \<Rightarrow> datetime \<Rightarrow> datetime \<Rightarrow> db \<Rightarrow> schedule_error + scan_enqueue_result \<times> db" where
  "scheduler_run_once marker batch_size clock created_at d =
     (if gate_blocked marker d
      then Inr (\<lparr>n_inspected_count = 0, n_enqueued_count = 0, n_skipped_active_count = 0,
                 n_task_ids = [], n_gated = True\<rparr>, d)
      else enqueue_due_scan_tasks clock created_at batch_size d)"

section \<open>Manual scans and transfer retries\<close>

definition enqueue_manual_scan ::
    "subscription \<Rightarrow> bool \<Rightarrow> datetime \<Rightarrow> db \<Rightarrow> repo_error + (task \<times> bool) \<times> db" where
  "enqueue_manual_scan s force_full now d =
     (case active_task ''scan'' (Some (s_id s)) None d of
        Some t \<Rightarrow> Inr ((t, False), d)
      | None \<Rightarrow>
          bindR (create_task
                   ((default_task now)
                      \<lparr>t_account_id := Some (s_cloud_account_id s), t_subscription_id := Some (s_id s),
                       t_type := ''scan'', t_trigger_type := ''manual'',
                       t_payload := [(''force_full'', JBool force_full)]\<rparr>) d) (\<lambda>(t, d').
          Inr ((t, True), d')))"

definition transfer_predecessor :: "int \<Rightarrow> db \<Rightarrow> task option" where
  "transfer_predecessor file_id d =
     select_one (\<lambda>t. (- t_created_at t, - t_id t))
       (\<lambda>t. t_file_id t = Some file_id \<and> t_type t = ''transfer'' \<and>
            t_status t \<in> TERMINAL_TASK_STATUSES) (db_tasks d)"

definition transfer_retry_task :: "cloud_file \<Rightarrow> subscription \<Rightarrow> task option \<Rightarrow> datetime \<Rightarrow> task" where
  "transfer_retry_task f s predecessor now =
     (default_task now)
       \<lparr>t_account_id := Some (s_cloud_account_id s),
        t_subscription_id := Some (f_subscription_id f), t_file_id := Some (f_id f),
        t_type := ''transfer'', t_trigger_type := ''retry'',
        t_idempotency_key := Some (''transfer-retry:'' @ int_str (f_id f) @ '':'' @
          int_str (case predecessor of None \<Rightarrow> 0 | Some p \<Rightarrow> t_id p)),
        t_provider_operation_id := Option.bind predecessor t_provider_operation_id,
        t_provider_operation_status := Option.bind predecessor t_provider_operation_status,
        t_provider_write_intent_at := Option.bind predecessor t_provider_write_intent_at\<rparr>"

definition enqueue_transfer_retry ::
    "cloud_file \<Rightarrow> datetime \<Rightarrow> db \<Rightarrow> schedule_error + task \<times> db" where
  "enqueue_transfer_retry f now d =
     (case active_task ''transfer'' None (Some (f_id f)) d of
        Some t \<Rightarrow> Inr (t, d)
      | None \<Rightarrow>
          (case first_row (\<lambda>s. s_id s = f_subscription_id f) (db_subscriptions d) of
             None \<Rightarrow> Inl MissingSubscription
           | Some s \<Rightarrow>
               (case create_task (transfer_retry_task f s (transfer_predecessor (f_id f) d) now) d of
                  Inl e \<Rightarrow> Inl (ScheduleRepo e)
                | Inr (t, d') \<Rightarrow>
                    Inr (t, d'\<lparr>db_files := update_rows (\<lambda>x. f_id x = f_id f)
                       (\<lambda>x. x\<lparr>f_status := ''pending'', f_last_error := None\<rparr>) (db_files d')\<rparr>))))"


section \<open>One active task per subscription or file\<close>

definition single_active :: "string \<Rightarrow> (task \<Rightarrow> int option) \<Rightarrow> db \<Rightarrow> bool" where
  "single_active ty col d \<longleftrightarrow>
     (\<forall>t \<in> set (db_tasks d). \<forall>t' \<in> set (db_tasks d).
        t_type t = ty \<and> t_type t' = ty \<and> t_status t \<notin> TERMINAL_TASK_STATUSES \<and>
        t_status t' \<notin> TERMINAL_TASK_STATUSES \<and> col t = col t' \<and> col t \<noteq> None \<longrightarrow> t = t')"

lemma single_active_create:
  assumes old: "single_active ty col d" and step: "create_task t d = Inr (row, d')"
    and col: "\<And>i. col (t\<lparr>t_id := i\<rparr>) = col t"
    and free: "t_type t = ty \<Longrightarrow> \<forall>x \<in> set (db_tasks d). t_type x = ty \<longrightarrow>
      t_status x \<notin> TERMINAL_TASK_STATUSES \<longrightarrow> col x \<noteq> col t"
  shows "single_active ty col d'"
proof -
  note c = create_task_cases [OF step]
  have row: "t_type row = t_type t" "col row = col t" using c(2) col by simp_all
  show ?thesis
    unfolding single_active_def
  proof (intro ballI impI)
    fix x y
    assume x: "x \<in> set (db_tasks d')" and y: "y \<in> set (db_tasks d')"
      and a: "t_type x = ty \<and> t_type y = ty \<and> t_status x \<notin> TERMINAL_TASK_STATUSES \<and>
        t_status y \<notin> TERMINAL_TASK_STATUSES \<and> col x = col y \<and> col x \<noteq> None"
    consider "x = row" "y = row" | "x = row" "y \<in> set (db_tasks d)" | "x \<in> set (db_tasks d)" "y = row"
      | "x \<in> set (db_tasks d)" "y \<in> set (db_tasks d)"
      using x y c(3) by auto
    then show "x = y"
    proof cases
      case 1
      then show ?thesis by simp
    next
      case 2
      with a row free show ?thesis by metis
    next
      case 3
      with a row free show ?thesis by metis
    next
      case 4
      with a old show ?thesis unfolding single_active_def by blast
    qed
  qed
qed

lemma set_next_scan_simps [simp]:
  "db_tasks (set_next_scan i at d) = db_tasks d" "db_runs (set_next_scan i at d) = db_runs d"
  "db_updates (set_next_scan i at d) = db_updates d"
  by (simp_all add: set_next_scan_def)

lemma store_inv_cong:
  "db_tasks d' = db_tasks d \<Longrightarrow> db_runs d' = db_runs d \<Longrightarrow> store_inv d' = store_inv d"
  by (simp add: store_inv_def table_inv_def lease_inv_def)

lemma default_task_free [simp]: "ownership_clear (default_task now)"
  by (simp add: default_task_def ownership_clear_def)

lemma scheduled_scan_task_simps [simp]:
  "t_type (scheduled_scan_task s due c) = ''scan''"
  "t_subscription_id (scheduled_scan_task s due c) = Some (s_id s)"
  "t_status (scheduled_scan_task s due c) = Pending"
  "ownership_clear (scheduled_scan_task s due c)"
  by (simp_all add: scheduled_scan_task_def default_task_def ownership_clear_def)

text \<open>The subscription is not due before \<open>at\<close>.\<close>

definition rests_until :: "datetime \<Rightarrow> int \<Rightarrow> db \<Rightarrow> bool" where
  "rests_until at sid d \<longleftrightarrow> (\<forall>s \<in> set (db_subscriptions d). s_id s = sid \<longrightarrow>
     (\<exists>n. s_next_scan_at s = Some n \<and> at \<le> n))"

lemma enqueue_scan_cases:
  assumes "enqueue_scan now c s due d = Inr (tid, d')"
  obtains (active) delta where "seconds 900 \<le> delta" and "tid = None"
      and "d' = set_next_scan (s_id s) (now + delta) d"
  | (created) delta t where "seconds 900 \<le> delta"
      and "create_task (scheduled_scan_task s due c) (set_next_scan (s_id s) (now + delta) d) = Inr (t, d')"
      and "\<forall>x \<in> set (db_tasks d). \<not> active_task_where ''scan'' (Some (s_id s)) None x"
      and "tid = Some (t_id t)"
proof -
  from assms obtain delta where delta: "parse_schedule (s_schedule s) = Inr delta"
    by (auto simp: enqueue_scan_def)
  note ge = parse_schedule_ge [OF delta]
  show thesis
  proof (cases "first_row (active_task_where ''scan'' (Some (s_id s)) None) (db_tasks d)")
    case None
    then have free: "\<forall>x \<in> set (db_tasks d). \<not> active_task_where ''scan'' (Some (s_id s)) None x"
      by (simp add: first_row_None_iff)
    from None assms delta obtain t where
      "create_task (scheduled_scan_task s due c) (set_next_scan (s_id s) (now + delta) d) = Inr (t, d')"
      and "tid = Some (t_id t)"
      by (auto simp: enqueue_scan_def Let_def split: if_splits sum.splits)
    then show thesis by (intro created [OF ge _ free])
  next
    case (Some x)
    with assms delta show thesis
      by (intro active [OF ge]) (auto simp: enqueue_scan_def Let_def split: if_splits)
  qed
qed

lemma set_next_scan_rests:
  "at \<le> n \<Longrightarrow> rests_until at sid d \<or> sid = i \<Longrightarrow> rests_until at sid (set_next_scan i n d)"
  by (auto simp: rests_until_def set_next_scan_def update_rows_def)

lemma enqueue_scan_keeps:
  assumes step: "enqueue_scan now c s due d = Inr (tid, d')"
    and inv: "store_inv d" and one: "single_active ''scan'' t_subscription_id d"
  shows "store_inv d'" and "single_active ''scan'' t_subscription_id d'"
    and "rests_until (now + seconds 900) (s_id s) d'"
    and "\<And>i. rests_until (now + seconds 900) i d \<Longrightarrow> rests_until (now + seconds 900) i d'"
proof -
  have "store_inv d' \<and> single_active ''scan'' t_subscription_id d' \<and>
      rests_until (now + seconds 900) (s_id s) d' \<and>
      (\<forall>i. rests_until (now + seconds 900) i d \<longrightarrow> rests_until (now + seconds 900) i d')"
    using step
  proof (cases rule: enqueue_scan_cases)
    case (active delta)
    have "store_inv d'"
      using inv store_inv_cong [of d' d] active(3) by simp
    moreover have "single_active ''scan'' t_subscription_id d'"
      using one active(3) by (simp add: single_active_def)
    ultimately show ?thesis
      using active(1) unfolding active(3) by (auto intro!: set_next_scan_rests)
  next
    case (created delta t)
    let ?d1 = "set_next_scan (s_id s) (now + delta) d"
    have inv1: "store_inv ?d1"
      using inv store_inv_cong [of ?d1 d] by simp
    have one1: "single_active ''scan'' t_subscription_id ?d1"
      using one by (simp add: single_active_def)
    have "store_inv d'"
      using create_task_store_inv [OF inv1 created(2)] by simp
    moreover have "single_active ''scan'' t_subscription_id d'"
      by (rule single_active_create [OF one1 created(2)])
        (use created(3) in \<open>auto simp: active_task_where_def\<close>)
    moreover have "db_subscriptions d' = db_subscriptions ?d1"
      using create_task_cases(3) [OF created(2)] by simp
    then have "rests_until (now + seconds 900) i d' = rests_until (now + seconds 900) i ?d1" for i
      by (simp add: rests_until_def)
    ultimately show ?thesis
      using created(1) by (auto intro!: set_next_scan_rests)
  qed
  then show "store_inv d'" "single_active ''scan'' t_subscription_id d'"
    "rests_until (now + seconds 900) (s_id s) d'"
    "\<And>i. rests_until (now + seconds 900) i d \<Longrightarrow> rests_until (now + seconds 900) i d'"
    by blast+
qed

lemma enqueue_scans_keeps:
  assumes "enqueue_scans now c ss d = Inr (r, d')"
    and "store_inv d" and "single_active ''scan'' t_subscription_id d"
  shows "store_inv d' \<and> single_active ''scan'' t_subscription_id d' \<and>
     (\<forall>s \<in> set ss. s_next_scan_at s \<noteq> None \<longrightarrow> rests_until (now + seconds 900) (s_id s) d') \<and>
     (\<forall>i. rests_until (now + seconds 900) i d \<longrightarrow> rests_until (now + seconds 900) i d')"
  using assms
proof (induction ss arbitrary: d r)
  case Nil
  then show ?case by simp
next
  case (Cons s ss)
  show ?case
  proof (cases "s_next_scan_at s")
    case None
    with Cons.IH [OF _ Cons.prems(2,3)] Cons.prems(1) show ?thesis by simp
  next
    case (Some due)
    with Cons.prems(1) obtain tid d1 r1 where
      one: "enqueue_scan now c s due d = Inr (tid, d1)" and
      rest: "enqueue_scans now c ss d1 = Inr (r1, d')"
      by auto
    note k = enqueue_scan_keeps [OF one Cons.prems(2,3)]
    from Cons.IH [OF rest k(1,2)] k(3,4) show ?thesis by auto
  qed
qed

text \<open>Every subscription of the batch is counted once: enqueued or skipped.\<close>

lemma enqueue_scans_counts:
  assumes "enqueue_scans now c ss d = Inr ((tids, skipped), d')"
    and "\<forall>s \<in> set ss. s_next_scan_at s \<noteq> None"
  shows "int (length tids) + skipped = int (length ss)"
  using assms
proof (induction ss arbitrary: d tids skipped)
  case Nil
  then show ?case by simp
next
  case (Cons s ss)
  then obtain due where due: "s_next_scan_at s = Some due" by auto
  with Cons.prems(1) obtain tid d1 tids1 sk1 where
    rest: "enqueue_scans now c ss d1 = Inr ((tids1, sk1), d')" and
    r: "(case tid of None \<Rightarrow> (tids1, sk1 + 1) | Some i \<Rightarrow> (i # tids1, sk1)) = (tids, skipped)"
    by auto
  have "int (length tids1) + sk1 = int (length ss)"
    using Cons.IH [OF rest] Cons.prems(2) by simp
  with r show ?case by (cases tid) auto
qed

lemma due_subscriptionsD:
  "s \<in> set (due_subscriptions limit now d) \<Longrightarrow>
     s \<in> set (db_subscriptions d) \<and> s_enabled s \<and> (\<exists>at. s_next_scan_at s = Some at \<and> at \<le> now)"
  by (auto simp: due_subscriptions_def dest!: in_set_takeD split: option.splits)

text \<open>A subscription whose schedule is malformed fails the whole batch.\<close>

lemma enqueue_scans_poisoned:
  assumes "s \<in> set ss" and "s_next_scan_at s \<noteq> None" and "parse_schedule (s_schedule s) = Inl e"
  shows "\<exists>err. enqueue_scans now c ss d = Inl err"
  using assms
proof (induction ss arbitrary: d)
  case Nil
  then show ?case by simp
next
  case (Cons a ss)
  show ?case
  proof (cases "s_next_scan_at a")
    case None
    with Cons show ?thesis by auto
  next
    case (Some due)
    show ?thesis
    proof (cases "enqueue_scan now c a due d")
      case (Inl err)
      with Some show ?thesis by simp
    next
      case (Inr y)
      obtain tid d1 where y: "y = (tid, d1)" by (cases y)
      have "a \<noteq> s"
        using Inr Cons.prems(3) by (auto simp: enqueue_scan_def)
      with Cons.prems Cons.IH [of d1] obtain err where "enqueue_scans now c ss d1 = Inl err" by auto
      with Some Inr y show ?thesis by simp
    qed
  qed
qed

end
