(* ===== verification/LegacyCutover.thy ===== *)
theory LegacyCutover
  imports WorkerRuntime
begin

text \<open>
  The cutover from the v0.1 scheduler (\<open>app/services/legacy_task_reconciliation.py\<close> over
  \<open>reconcile_legacy_orphan\<close> of the repository): tasks that claim to run but are leased by nobody
  are sent back to the queue or failed.  The lemmas show that the cutover turns a legacy store
  into one that satisfies the invariant of the task engine.

  The cutover runs alone, in one transaction.
\<close>

section \<open>The cutover\<close>

datatype preserved_key = PreservedStatus task_status | RunningV2Owned | RunningConcurrentChange

record reconciliation_result =
  z_inspected_count :: int
  z_preserved_by_status :: "preserved_key \<rightharpoonup> int"
  z_orphan_retry_count :: int
  z_orphan_failed_count :: int
  z_run_appended_count :: int
  z_run_finalized_count :: int
  z_run_preserved_count :: int

definition count_preserved :: "preserved_key \<Rightarrow> reconciliation_result \<Rightarrow> reconciliation_result" where
  "count_preserved k z = z\<lparr>z_preserved_by_status :=
     (z_preserved_by_status z)(k \<mapsto> coalesce (z_preserved_by_status z k) 0 + 1)\<rparr>"

definition count_reconciled :: "reconciled_legacy \<Rightarrow> reconciliation_result \<Rightarrow> reconciliation_result" where
  "count_reconciled l z =
     (let z1 = (if t_status (l_task l) = Retry
                then z\<lparr>z_orphan_retry_count := z_orphan_retry_count z + 1\<rparr>
                else z\<lparr>z_orphan_failed_count := z_orphan_failed_count z + 1\<rparr>)
      in case l_run_action l of
           RunAppended \<Rightarrow> z1\<lparr>z_run_appended_count := z_run_appended_count z1 + 1\<rparr>
         | RunFinalized \<Rightarrow> z1\<lparr>z_run_finalized_count := z_run_finalized_count z1 + 1\<rparr>
         | RunPreserved \<Rightarrow> z1\<lparr>z_run_preserved_count := z_run_preserved_count z1 + 1\<rparr>)"

fun reconcile_tasks ::
    "backoff \<Rightarrow> datetime \<Rightarrow> task list \<Rightarrow> reconciliation_result \<Rightarrow> db \<Rightarrow>
     repo_error + reconciliation_result \<times> db" where
  "reconcile_tasks b now [] z d = Inr (z, d)"
| "reconcile_tasks b now (t # ts) z d =
     (if t_status t \<noteq> Running
      then reconcile_tasks b now ts (count_preserved (PreservedStatus (t_status t)) z) d
      else if ownership_complete t
      then reconcile_tasks b now ts (count_preserved RunningV2Owned z) d
      else
        let next_retry_count = max (max (t_retry_count t) (t_attempt_count t)) 1 in
        bindR (delay_for b (max (next_retry_count - 1) 0)) (\<lambda>delay.
        bindR (reconcile_legacy_orphan d (t_id t) (now + delay) now d) (\<lambda>(reconciled, d').
        reconcile_tasks b now ts
          (case reconciled of
             None \<Rightarrow> count_preserved RunningConcurrentChange z
           | Some l \<Rightarrow> count_reconciled l z) d')))"

definition reconcile_legacy_tasks ::
    "datetime \<Rightarrow> backoff \<Rightarrow> db \<Rightarrow> repo_error + reconciliation_result \<times> db" where
  "reconcile_legacy_tasks now b d =
     reconcile_tasks b now (sort_key t_id (db_tasks d))
       \<lparr>z_inspected_count = int (length (db_tasks d)), z_preserved_by_status = Map.empty,
        z_orphan_retry_count = 0, z_orphan_failed_count = 0, z_run_appended_count = 0,
        z_run_finalized_count = 0, z_run_preserved_count = 0\<rparr> d"

section \<open>From a legacy store to the invariant\<close>

definition orphan :: "task \<Rightarrow> bool" where
  "orphan t \<longleftrightarrow> t_status t = Running \<and> \<not> ownership_complete t"

text \<open>
  A legacy store: as \<open>store_inv\<close>, but a running task may be leased by nobody, with any number of
  running runs.
\<close>

definition legacy_inv :: "db \<Rightarrow> bool" where
  "legacy_inv d \<longleftrightarrow> table_inv d \<and>
     (\<forall>t \<in> set (db_tasks d). ownership_complete t \<longrightarrow>
        t_status t \<in> LEASED_TASK_STATUSES \<and> (\<exists>r \<in> set (db_runs d). run_of t r)) \<and>
     (\<forall>r \<in> set (db_runs d). r_status r = RunRunning \<longrightarrow>
        (\<exists>t \<in> set (db_tasks d). t_id t = r_task_id r \<and>
           (orphan t \<or> (ownership_complete t \<and> run_of t r)))) \<and>
     (\<forall>t \<in> set (db_tasks d). ownership_complete t \<longrightarrow>
        (\<forall>r \<in> set (db_runs d). \<forall>r' \<in> set (db_runs d).
           r_status r = RunRunning \<and> r_status r' = RunRunning \<and>
           r_task_id r = t_id t \<and> r_task_id r' = t_id t \<longrightarrow> r = r'))"

lemma legacy_invD:
  assumes "legacy_inv d"
  shows "table_inv d"
    and "\<And>t. t \<in> set (db_tasks d) \<Longrightarrow> ownership_complete t \<Longrightarrow> t_status t \<in> LEASED_TASK_STATUSES"
    and "\<And>t. t \<in> set (db_tasks d) \<Longrightarrow> ownership_complete t \<Longrightarrow> \<exists>r \<in> set (db_runs d). run_of t r"
    and "\<And>r. r \<in> set (db_runs d) \<Longrightarrow> r_status r = RunRunning \<Longrightarrow>
      \<exists>t \<in> set (db_tasks d). t_id t = r_task_id r \<and> (orphan t \<or> (ownership_complete t \<and> run_of t r))"
    and "\<And>t r r'. t \<in> set (db_tasks d) \<Longrightarrow> ownership_complete t \<Longrightarrow> r \<in> set (db_runs d) \<Longrightarrow>
      r' \<in> set (db_runs d) \<Longrightarrow> r_status r = RunRunning \<Longrightarrow> r_status r' = RunRunning \<Longrightarrow>
      r_task_id r = t_id t \<Longrightarrow> r_task_id r' = t_id t \<Longrightarrow> r = r'"
  using assms unfolding legacy_inv_def by blast+

lemma legacy_store_inv:
  assumes inv: "legacy_inv d" and none: "\<forall>t \<in> set (db_tasks d). \<not> orphan t"
  shows "store_inv d"
proof -
  note old = legacy_invD [OF inv]
  have run: "\<exists>t \<in> set (db_tasks d). ownership_complete t \<and> run_of t r"
    if "r \<in> set (db_runs d)" "r_status r = RunRunning" for r
    using old(4) [OF that] none by blast
  have "leases_agree (set (db_tasks d)) (set (db_runs d))"
  proof (rule leases_agreeI)
    fix r r'
    assume r: "r \<in> set (db_runs d)" "r' \<in> set (db_runs d)" "r_status r = RunRunning"
      "r_status r' = RunRunning" "r_task_id r = r_task_id r'"
    obtain t where t: "t \<in> set (db_tasks d)" "ownership_complete t" "run_of t r"
      using run [OF r(1,3)] by blast
    then have "r_task_id r = t_id t" by (simp add: run_of_def)
    with old(5) [OF t(1,2) r(1,2,3,4)] r(5) show "r = r'" by simp
  qed (use old(2,3) run none in \<open>auto simp: orphan_def\<close>)
  with old(1) show ?thesis by (simp add: store_inv_def lease_inv_def)
qed


lemma orphan_row_check:
  "task_check t \<Longrightarrow> 0 \<le> c \<Longrightarrow> task_check (orphan_row s c n u t)"
  by (simp add: task_check_def)

text \<open>The run part of a reconciliation leaves no running run of the task, and touches no other's.\<close>

lemma reconcile_run_cases:
  assumes tab: "table_inv d" and tab0: "table_inv d0" and runs: "db_runs d = db_runs d0"
    and act: "active = sort_key (\<lambda>r. (r_run_number r, r_id r))
           (filter (\<lambda>r. r_task_id r = t_id t \<and> r_status r = RunRunning) (db_runs d0))"
    and len: "length active \<le> 1"
    and step: "reconcile_run d0 t active eqv now d = Inr ((rid, a), d')"
  shows "db_tasks d' = db_tasks d \<and> table_inv d' \<and>
     (\<forall>r \<in> set (db_runs d'). r_status r = RunRunning \<longrightarrow> r \<in> set (db_runs d) \<and> r_task_id r \<noteq> t_id t) \<and>
     (\<forall>r \<in> set (db_runs d). r_task_id r \<noteq> t_id t \<longrightarrow> r \<in> set (db_runs d')) \<and>
     history_extends d d'"
proof (cases active)
  case Nil
  then have idle: "r_task_id r \<noteq> t_id t" if "r \<in> set (db_runs d)" "r_status r = RunRunning" for r
  proof -
    have "set active = {r \<in> set (db_runs d0). r_task_id r = t_id t \<and> r_status r = RunRunning}"
      unfolding act by simp
    with Nil that runs show ?thesis by auto
  qed
  show ?thesis
  proof (cases eqv)
    case None
    with step Nil obtain row r0 where row: "sql_insert_run r0 d = Inr (row, d')"
      "r_status row = RunLost" "r_task_id row = t_id t"
    proof -
      from None step Nil obtain row where
        "sql_insert_run \<lparr>r_id = 0, r_task_id = t_id t,
                         r_run_number = max_run_number (t_id t) d + 1,
                         r_worker_id = Some ''legacy-cutover'', r_lock_token = None,
                         r_status = RunLost, r_started_at = coalesce (t_started_at t) (t_created_at t),
                         r_finished_at = Some now,
                         r_last_heartbeat_at = None,
                         r_duration_ms = Some (duration_ms (coalesce (t_started_at t) (t_created_at t)) now),
                         r_result_summary = Some LEGACY_CUTOVER_ERROR_MESSAGE,
                         r_error_code = Some LEGACY_CUTOVER_ERROR_CODE,
                         r_error_message = Some LEGACY_CUTOVER_ERROR_MESSAGE,
                         r_metrics = [(''schema_version'', JInt 1),
                                      (''reconciled_from'', JStr ''legacy'')],
                         r_created_at = now, r_updated_at = now\<rparr> d = Inr (row, d')"
        by (auto simp: reconcile_run_def Let_def)
      then show thesis
        by (rule that) (use sql_insert_runD(1) [OF \<open>sql_insert_run _ d = _\<close>] in simp_all)
    qed
    note ins = sql_insert_runD [OF row(1)]
    have "table_inv d'" by (rule table_inv_insert_run [OF tab row(1)])
    with ins(2) row(2,3) idle history_add_run [of d' d row] show ?thesis by auto
  next
    case (Some e)
    with step Nil have "d' = d" by (simp add: reconcile_run_def)
    with tab idle show ?thesis by auto
  qed
next
  case (Cons r rs)
  with len have active: "active = [r]" by (cases rs) simp_all
  have "set active = {r \<in> set (db_runs d0). r_task_id r = t_id t \<and> r_status r = RunRunning}"
    unfolding act by simp
  with active have only: "{x \<in> set (db_runs d). r_task_id x = t_id t \<and> r_status x = RunRunning} = {r}"
    by (simp add: runs)
  then have r: "r \<in> set (db_runs d)" "r_task_id r = t_id t" "r_status r = RunRunning" by blast+
  let ?f = "\<lambda>x. x\<lparr>r_status := RunLost, r_finished_at := Some now,
                  r_duration_ms := Some (duration_ms (r_started_at r) now),
                  r_result_summary := Some LEGACY_CUTOVER_ERROR_MESSAGE,
                  r_error_code := Some LEGACY_CUTOVER_ERROR_CODE,
                  r_error_message := Some LEGACY_CUTOVER_ERROR_MESSAGE, r_updated_at := now\<rparr>"
  let ?p = "\<lambda>x. r_id x = r_id r \<and> r_status x = RunRunning"
  from step active have upd: "sql_update_runs ?p ?f d = Inr (Some rid, d')"
    by (auto simp: reconcile_run_def split: option.splits)
  have dist: "distinct (map r_id (db_runs d))" using tab by (simp add: table_inv_def)
  have uniq: "x = r" if "x \<in> set (db_runs d)" "?p x" for x
    using distinct_map_unique [OF dist that(1) r(1)] that(2) by blast
  have "\<forall>x \<in> set (db_runs d). \<forall>y \<in> set (db_runs d). ?p x \<and> ?p y \<longrightarrow> x = y"
    using uniq by metis
  from sql_update_runs_one [OF upd this] obtain x where
    x: "x \<in> set (db_runs d)" "?p x" and d': "d' = d\<lparr>db_runs := put_row x (?f x) (db_runs d)\<rparr>"
    and chk: "run_check (?f x)" by blast
  have xr: "x = r" by (rule uniq [OF x])
  have tab': "table_inv d'"
    unfolding d' by (rule table_inv_put_run [OF tab x(1)]) (use chk in simp_all)
  have mem: "set (db_runs d') = insert (?f r) (set (db_runs d) - {r})"
    using d' x(1) xr by simp
  have "history_extends d d'"
    by (rule history_put_run [OF r(1,3), of "?f r"]) (use d' xr in simp_all)
  moreover have "y \<in> set (db_runs d) \<and> r_task_id y \<noteq> t_id t"
    if "y \<in> set (db_runs d')" "r_status y = RunRunning" for y
  proof -
    have "y \<noteq> ?f r"
    proof
      assume "y = ?f r"
      then have "r_status y = RunLost" by simp
      with that(2) show False by simp
    qed
    with that(1) have y: "y \<in> set (db_runs d)" "y \<noteq> r"
      unfolding mem by blast+
    have "y \<in> {x \<in> set (db_runs d). r_task_id x = t_id t \<and> r_status x = RunRunning}"
      if "r_task_id y = t_id t"
      using that y(1) \<open>r_status y = RunRunning\<close> by blast
    with only y show ?thesis by blast
  qed
  moreover have "y \<in> set (db_runs d')" if "y \<in> set (db_runs d)" "r_task_id y \<noteq> t_id t" for y
  proof -
    have "y \<noteq> r" using that(2) r(2) by blast
    with that(1) show ?thesis unfolding mem by blast
  qed
  moreover have "db_tasks d' = db_tasks d" using d' by simp
  ultimately show ?thesis using tab' by blast
qed


lemma reconcile_orphan_cases:
  assumes tab: "table_inv d" and t: "t \<in> set (db_tasks d)" "orphan t"
    and step: "reconcile_legacy_orphan d (t_id t) nxt now d = Inr (res, d')"
  obtains l t' where "res = Some l" and "l_task l = t'" and "t_id t' = t_id t"
    and "\<not> ownership_complete t'" and "t_status t' \<in> {Retry, Failed}"
    and "t_status t' = Retry \<longleftrightarrow> max (max (t_retry_count t) (t_attempt_count t)) 1 \<le> t_max_retries t"
    and "set (db_tasks d') = insert t' (set (db_tasks d) - {t})"
    and "map t_id (db_tasks d') = map t_id (db_tasks d)"
    and "table_inv d'"
    and "\<forall>r \<in> set (db_runs d'). r_status r = RunRunning \<longrightarrow>
           r \<in> set (db_runs d) \<and> r_task_id r \<noteq> t_id t"
    and "\<forall>r \<in> set (db_runs d). r_task_id r \<noteq> t_id t \<longrightarrow> r \<in> set (db_runs d')"
    and "history_extends d d'"
proof -
  let ?rc = "max (max (t_retry_count t) (t_attempt_count t)) 1"
  let ?tg = "if ?rc \<le> t_max_retries t then Retry else Failed"
  let ?t' = "orphan_row ?tg ?rc nxt now t"
  let ?act = "sort_key (\<lambda>r. (r_run_number r, r_id r))
           (filter (\<lambda>r. r_task_id r = t_id t \<and> r_status r = RunRunning) (db_runs d))"
  let ?eqv = "select_one (\<lambda>r. (- r_run_number r, - r_id r))
           (\<lambda>r. r_task_id r = t_id t \<and> r_status r = RunLost \<and>
                r_error_code r = Some LEGACY_CUTOVER_ERROR_CODE) (db_runs d)"
  let ?p = "\<lambda>x. t_id x = t_id t \<and> t_status x = Running \<and> \<not> ownership_complete x"
  let ?d1 = "d\<lparr>db_tasks := put_row t ?t' (db_tasks d)\<rparr>"
  have run: "t_status t = Running" "\<not> ownership_complete t" using t(2) by (simp_all add: orphan_def)
  have chk: "task_check t" using tab t(1) by (simp add: table_inv_def)
  have upd: "sql_update_tasks ?p (orphan_row ?tg ?rc nxt now) d = Inr (Some (t_id t), ?d1)"
    by (rule sql_update_tasks_put [where p = ?p, OF tab t(1)])
      (use run orphan_row_check [OF chk] in \<open>auto simp: task_trigger_def\<close>)
  have req: "require_task d (t_id t) = Inr t" by (rule require_task_in [OF tab t(1)])
  have len: "length ?act \<le> 1"
    using step req run by (auto simp: reconcile_legacy_orphan_def Let_def split: if_splits)
  obtain rid a r where rr: "reconcile_run d t ?act ?eqv now ?d1 = Inr ((rid, a), d')"
    and tk: "require_task d' (t_id t) = Inr (l_task r)" and res: "res = Some r"
  proof -
    from step req run upd len obtain rid a x y where
      "reconcile_run d t ?act ?eqv now ?d1 = Inr ((rid, a), d')"
      "require_task d' (t_id t) = Inr x" "res = Some \<lparr>l_task = x, l_task_run = y, l_run_action = a\<rparr>"
      by (auto simp: reconcile_legacy_orphan_def Let_def split: if_splits option.splits)
    then show thesis by (intro that) auto
  qed
  have tab1: "table_inv ?d1"
    by (rule table_inv_put_task [OF tab t(1)]) (use orphan_row_check [OF chk] in simp_all)
  have rc: "db_tasks d' = db_tasks ?d1 \<and> table_inv d' \<and>
     (\<forall>r \<in> set (db_runs d'). r_status r = RunRunning \<longrightarrow> r \<in> set (db_runs ?d1) \<and> r_task_id r \<noteq> t_id t) \<and>
     (\<forall>r \<in> set (db_runs ?d1). r_task_id r \<noteq> t_id t \<longrightarrow> r \<in> set (db_runs d')) \<and>
     history_extends ?d1 d'"
    by (rule reconcile_run_cases [OF tab1 tab _ refl len rr]) simp
  have "require_task d' (t_id t) = Inr ?t'"
    using require_task_in [of d' ?t'] rc t(1) by simp
  with tk have lt: "l_task r = ?t'" by simp
  note rc1 = rc [THEN conjunct1] and rc2 = rc [THEN conjunct2, THEN conjunct1]
    and rc3 = rc [THEN conjunct2, THEN conjunct2, THEN conjunct1]
    and rc4 = rc [THEN conjunct2, THEN conjunct2, THEN conjunct2, THEN conjunct1]
    and rc5 = rc [THEN conjunct2, THEN conjunct2, THEN conjunct2, THEN conjunct2]
  show thesis
  proof (rule that [OF res lt])
    show "set (db_tasks d') = insert ?t' (set (db_tasks d) - {t})"
      using rc1 t(1) by simp
    show "map t_id (db_tasks d') = map t_id (db_tasks d)"
      using rc1 by (simp add: map_put_row)
    show "table_inv d'" by (rule rc2)
    show "\<forall>r \<in> set (db_runs d'). r_status r = RunRunning \<longrightarrow>
           r \<in> set (db_runs d) \<and> r_task_id r \<noteq> t_id t"
      using rc3 by simp
    show "\<forall>r \<in> set (db_runs d). r_task_id r \<noteq> t_id t \<longrightarrow> r \<in> set (db_runs d')"
      using rc4 by simp
    have "history_extends d ?d1" by (rule history_same_runs) simp
    then show "history_extends d d'" using rc5 by (rule history_trans)
  qed simp_all
qed


definition orphans :: "db \<Rightarrow> task set" where
  "orphans d = {t \<in> set (db_tasks d). orphan t}"

lemma reconcile_step_legacy:
  assumes inv: "legacy_inv d" and t: "t \<in> set (db_tasks d)" "orphan t"
    and step: "reconcile_legacy_orphan d (t_id t) nxt now d = Inr (res, d')"
  shows "legacy_inv d'" and "orphans d' = orphans d - {t}" and "history_extends d d'"
    and "\<exists>l. res = Some l"
proof -
  note old = legacy_invD [OF inv]
  obtain l t' where
    res: "res = Some l" and "l_task l = t'" and t'1: "t_id t' = t_id t"
    and t'2: "\<not> ownership_complete t'" and t'3: "t_status t' \<in> {Retry, Failed}"
    and "t_status t' = Retry \<longleftrightarrow> max (max (t_retry_count t) (t_attempt_count t)) 1 \<le> t_max_retries t"
    and tasks: "set (db_tasks d') = insert t' (set (db_tasks d) - {t})"
    and "map t_id (db_tasks d') = map t_id (db_tasks d)"
    and tab: "table_inv d'"
    and runs1: "\<forall>r \<in> set (db_runs d'). r_status r = RunRunning \<longrightarrow>
           r \<in> set (db_runs d) \<and> r_task_id r \<noteq> t_id t"
    and runs2: "\<forall>r \<in> set (db_runs d). r_task_id r \<noteq> t_id t \<longrightarrow> r \<in> set (db_runs d')"
    and hist: "history_extends d d'"
    by (rule reconcile_orphan_cases [OF old(1) t step])
  note t' = t'1 t'2 t'3
  have runs: "r \<in> set (db_runs d') \<Longrightarrow> r_status r = RunRunning \<Longrightarrow>
           r \<in> set (db_runs d) \<and> r_task_id r \<noteq> t_id t"
      "r \<in> set (db_runs d) \<Longrightarrow> r_task_id r \<noteq> t_id t \<Longrightarrow> r \<in> set (db_runs d')" for r
    using runs1 runs2 by blast+
  have no': "\<not> orphan t'" using t'(3) by (auto simp: orphan_def)
  have owned: "x \<in> set (db_tasks d) \<and> t_id x \<noteq> t_id t"
    if "x \<in> set (db_tasks d')" "ownership_complete x" for x
  proof -
    have "x \<noteq> t'" using that(2) t'(2) by blast
    with that(1) tasks have x: "x \<in> set (db_tasks d)" "x \<noteq> t" by blast+
    with table_inv_id_unique [OF old(1) x(1) t(1)] show ?thesis by blast
  qed
  have c1: "t_status x \<in> LEASED_TASK_STATUSES \<and> (\<exists>r \<in> set (db_runs d'). run_of x r)"
    if own: "x \<in> set (db_tasks d')" "ownership_complete x" for x
  proof -
    note x = owned [OF own]
    obtain r where r: "r \<in> set (db_runs d)" "run_of x r"
      using old(3) x own(2) by blast
    then have "r_task_id r \<noteq> t_id t" using x by (simp add: run_of_def)
    with runs(2) r old(2) x own(2) show ?thesis by blast
  qed
  have c2: "\<exists>x \<in> set (db_tasks d'). t_id x = r_task_id r \<and>
      (orphan x \<or> (ownership_complete x \<and> run_of x r))"
    if act: "r \<in> set (db_runs d')" "r_status r = RunRunning" for r
  proof -
    note r = runs(1) [OF act]
    obtain x where x: "x \<in> set (db_tasks d)" "t_id x = r_task_id r"
      "orphan x \<or> (ownership_complete x \<and> run_of x r)"
      using old(4) r act(2) by blast
    have "x \<noteq> t" using x(2) r by metis
    with x(1) tasks have "x \<in> set (db_tasks d')" by blast
    with x show ?thesis by blast
  qed
  have c3: "r = r'" if "x \<in> set (db_tasks d')" "ownership_complete x" "r \<in> set (db_runs d')"
    "r' \<in> set (db_runs d')" "r_status r = RunRunning" "r_status r' = RunRunning"
    "r_task_id r = t_id x" "r_task_id r' = t_id x" for x r r'
    by (rule old(5) [OF conjunct1 [OF owned [OF that(1,2)]] that(2) conjunct1 [OF runs(1) [OF that(3,5)]]
      conjunct1 [OF runs(1) [OF that(4,6)]] that(5-8)])
  show "legacy_inv d'"
    unfolding legacy_inv_def using tab c1 c2 c3 by blast
  show "orphans d' = orphans d - {t}"
    unfolding orphans_def tasks using no' by blast
  show "history_extends d d'" by (rule hist)
  show "\<exists>l. res = Some l" using res by blast
qed

lemma reconcile_tasks_store_inv:
  assumes "reconcile_tasks b now ts z d = Inr (z', d')" and "legacy_inv d" and "distinct ts"
    and "orphans d = {t \<in> set ts. orphan t}"
  shows "store_inv d' \<and> history_extends d d'"
  using assms
proof (induction ts arbitrary: z d)
  case Nil
  then have "store_inv d" by (intro legacy_store_inv) (auto simp: orphans_def)
  with Nil show ?case by simp
next
  case (Cons t ts)
  show ?case
  proof (cases "orphan t")
    case False
    then obtain z1 where "reconcile_tasks b now ts z1 d = Inr (z', d')"
      using Cons.prems(1) by (auto simp: orphan_def split: if_splits)
    moreover have "orphans d = {x \<in> set ts. orphan x}"
      using Cons.prems(4) False by auto
    ultimately show ?thesis using Cons.IH Cons.prems(2,3) by simp
  next
    case True
    then have t: "t \<in> set (db_tasks d)"
      using Cons.prems(4) by (auto simp: orphans_def)
    from True Cons.prems(1) obtain dl res z1 d1 where
      step: "reconcile_legacy_orphan d (t_id t) (now + dl) now d = Inr (res, d1)" and
      rest: "reconcile_tasks b now ts z1 d1 = Inr (z', d')"
      by (auto simp: orphan_def Let_def)
    note s = reconcile_step_legacy [OF Cons.prems(2) t True step]
    have "orphans d1 = {x \<in> set ts. orphan x}"
      unfolding s(2) Cons.prems(4) using Cons.prems(3) by auto
    then have "store_inv d' \<and> history_extends d1 d'"
      using Cons.IH [OF rest s(1)] Cons.prems(3) by simp
    with s(3) show ?thesis using history_trans by blast
  qed
qed

lemma reconcile_legacy_tasks_store_inv:
  assumes inv: "legacy_inv d" and run: "reconcile_legacy_tasks now b d = Inr (z, d')"
  shows "store_inv d' \<and> history_extends d d'"
proof -
  have "distinct (db_tasks d)"
    using legacy_invD(1) [OF inv] unfolding table_inv_def by (blast dest: distinct_map [THEN iffD1])
  then have "distinct (sort_key t_id (db_tasks d))" by simp
  moreover have "orphans d = {t \<in> set (sort_key t_id (db_tasks d)). orphan t}"
    by (simp add: orphans_def)
  ultimately show ?thesis
    using reconcile_tasks_store_inv [OF _ inv] run by (simp add: reconcile_legacy_tasks_def)
qed

end
