(* ===== verification/TaskProperties.thy ===== *)
theory TaskProperties
  imports WorkerProofs Scheduling LegacyCutover
begin

text \<open>
  The properties of the task engine: the store under any interleaving of its clients, leases and
  fencing, the transition policy, recovery, the worker's cycle, the scheduler and the cutover.
\<close>

section \<open>Sample stores\<close>

text \<open>The stores the witnesses evaluate on.\<close>

fun run_events :: "event list \<Rightarrow> db \<Rightarrow> db" where
  "run_events [] d = d"
| "run_events (e # es) d = run_events es (step_event e d)"

lemma run_events_trace: "\<forall>e \<in> set es. fair_event e \<Longrightarrow> task_trace es d (run_events es d)"
  by (induction es arbitrary: d) (auto simp: task_step_iff)

definition sample_task :: task where
  "sample_task = (default_task 100)\<lparr>t_type := ''scan'', t_subscription_id := Some 7\<rparr>"

definition sample_queue :: db where
  "sample_queue = run_events [CreateTask sample_task] empty_db"

definition sample_leased :: db where
  "sample_leased = run_events [ClaimNext ''w1'' 50 ''k1'' 200] sample_queue"

lemma sample_queue_inv: "store_inv sample_queue"
  unfolding sample_queue_def
  by (rule conjunct1 [OF task_trace_keeps [OF run_events_trace store_inv_empty]])
    (simp add: sample_task_def default_task_def ownership_clear_def)

lemma sample_leased_inv: "store_inv sample_leased"
  unfolding sample_leased_def
  by (rule conjunct1 [OF task_trace_keeps [OF run_events_trace sample_queue_inv]]) simp

lemma sample_queue_eq:
  "sample_queue = empty_db\<lparr>db_tasks := [sample_task\<lparr>t_id := 1\<rparr>]\<rparr>"
  by code_simp

lemma sample_leased_eq:
  "sample_leased = empty_db
     \<lparr>db_tasks := [claim_row ''w1'' ''k1'' 200 250 (sample_task\<lparr>t_id := 1\<rparr>)],
      db_runs := [claimed_run 1 ''w1'' ''k1'' 200 sample_queue]\<rparr>"
  by code_simp


section \<open>The store\<close>

text \<open>C1: Whatever the clients of the task repository do, in whatever order and however stale their
  reads are, every store they reach satisfies the SQL constraints, and the leases on the tasks
  correspond one to one to the running task runs.\<close>

theorem reachable_store_consistent:
  assumes "\<forall>e \<in> set es. fair_event e"
  shows "store_inv (run_events es empty_db)"
  by (rule conjunct1 [OF task_trace_keeps [OF run_events_trace [OF assms] store_inv_empty]])

theorem reachable_store_consistent_witness:
  "store_inv (run_events [CreateTask sample_task, ClaimNext ''w1'' 50 ''k1'' 200,
     Heartbeat 1 ''w1'' ''k1'' 50 220, ClaimNext ''w2'' 50 ''k2'' 230] empty_db)"
  by (rule reachable_store_consistent) (simp add: sample_task_def default_task_def ownership_clear_def)

text \<open>In a consistent store a leased task is running or being cancelled and has exactly one
  running task run, and that run carries the worker and the lock token of the lease; a task that
  nobody leases has no running run.\<close>

theorem one_run_per_lease:
  assumes "store_inv d" and "t \<in> set (db_tasks d)"
  shows "(ownership_complete t \<longrightarrow> t_status t \<in> LEASED_TASK_STATUSES \<and>
            (\<exists>!r. r \<in> set (db_runs d) \<and> r_task_id r = t_id t \<and> r_status r = RunRunning) \<and>
            (\<forall>r \<in> set (db_runs d). r_task_id r = t_id t \<and> r_status r = RunRunning \<longrightarrow>
               r_worker_id r = t_locked_by t \<and> r_lock_token r = t_lock_token t)) \<and>
         (\<not> ownership_complete t \<longrightarrow>
            (\<forall>r \<in> set (db_runs d). r_task_id r = t_id t \<longrightarrow> r_status r \<noteq> RunRunning))"
proof (cases "ownership_complete t")
  case True
  note tab = store_inv_parts(1) [OF assms(1)] and lea = store_inv_parts(2) [OF assms(1)]
  have own: "run_of t r" if "r \<in> set (db_runs d)" "r_task_id r = t_id t" "r_status r = RunRunning" for r
    by (rule active_run_of_owned [OF tab lea assms(2) True that(1,3,2)])
  obtain r where r: "r \<in> set (db_runs d)" "run_of t r"
    using lease_invD(3) [OF lea assms(2) True] by blast
  have "\<exists>!r. r \<in> set (db_runs d) \<and> r_task_id r = t_id t \<and> r_status r = RunRunning"
  proof (rule ex1I [of _ r])
    show "r \<in> set (db_runs d) \<and> r_task_id r = t_id t \<and> r_status r = RunRunning"
      using r by (simp add: run_of_def)
    show "x = r" if "x \<in> set (db_runs d) \<and> r_task_id x = t_id t \<and> r_status x = RunRunning" for x
      by (rule lease_invD(5) [OF lea]) (use that r in \<open>simp_all add: run_of_def\<close>)
  qed
  with True own lease_invD(1) [OF lea assms(2) True] show ?thesis
    by (simp add: run_of_def)
next
  case False
  with no_active_run_of_free [OF store_inv_parts(1,2) [OF assms(1)] assms(2) False]
  show ?thesis by blast
qed

theorem one_run_per_lease_witness:
  "\<exists>!r. r \<in> set (db_runs sample_leased) \<and> r_task_id r = 1 \<and> r_status r = RunRunning"
  using one_run_per_lease [OF sample_leased_inv, of "claim_row ''w1'' ''k1'' 200 250 (sample_task\<lparr>t_id := 1\<rparr>)"]
  by (simp add: sample_leased_eq empty_db_def)

text \<open>C2: A finished run of a task is never rewritten, no run ever disappears, and a task that
  reached a terminal status keeps it: along every sequence of repository operations the status
  of a task follows a path of the transition policy and its payload, type, priority, key and
  retry limit do not change.\<close>

theorem history_and_policy:
  assumes tr: "task_trace es d d'" and inv: "store_inv d" and t: "t \<in> set (db_tasks d)"
  shows "(\<forall>r \<in> set (db_runs d). r_status r \<noteq> RunRunning \<longrightarrow> r \<in> set (db_runs d')) \<and>
         (\<exists>t' \<in> set (db_tasks d'). task_static t' = task_static t \<and>
            (\<exists>us. status_path (t_status t) us \<and> last (t_status t # us) = t_status t') \<and>
            (t_status t \<in> TERMINAL_TASK_STATUSES \<longrightarrow> t_status t' = t_status t))"
proof -
  have "history_extends d d'"
    using task_trace_keeps [OF tr inv] by simp
  moreover obtain t' us where t': "t' \<in> set (db_tasks d')" "task_static t' = task_static t"
    "status_path (t_status t) us" "last (t_status t # us) = t_status t'"
    using trace_status_path [OF tr inv t] by blast
  moreover have "t_status t' = t_status t" if "t_status t \<in> TERMINAL_TASK_STATUSES"
  proof (cases us)
    case Nil
    with t'(4) show ?thesis by simp
  next
    case (Cons u vs)
    with t'(3) have "can_transition (t_status t) u" by simp
    with that terminal_stuck [of "t_status t"] show ?thesis by blast
  qed
  ultimately show ?thesis
    unfolding history_extends_def by blast
qed

theorem history_and_policy_witness:
  "\<exists>t' \<in> set (db_tasks sample_leased). task_static t' = task_static (sample_task\<lparr>t_id := 1\<rparr>)"
proof -
  have "task_trace [ClaimNext ''w1'' 50 ''k1'' 200] sample_queue sample_leased"
    unfolding sample_leased_def by (rule run_events_trace) simp
  moreover have "sample_task\<lparr>t_id := 1\<rparr> \<in> set (db_tasks sample_queue)"
    by (simp add: sample_queue_eq)
  ultimately show ?thesis
    using history_and_policy [OF _ sample_queue_inv] by blast
qed


section \<open>Claims, fencing, recovery\<close>

text \<open>C3: A claim by a worker with an identity and a positive lease never fails.  It finds a task
  exactly when one is claimable, it takes the first in the queue order, the task is leased to the
  worker with the new token and stops being claimable, a task whose cancellation is requested
  keeps that status, no other task changes, and a new run with the next number is opened.\<close>

theorem claim_takes_first:
  assumes inv: "store_inv d" and args: "w \<noteq> []" "0 < dur"
  shows "case claim_next w dur k now d of
     Inl _ \<Rightarrow> False
   | Inr (None, d') \<Rightarrow> d' = d \<and> (\<forall>t \<in> set (db_tasks d). \<not> is_claimable now t)
   | Inr (Some c, d') \<Rightarrow>
       (\<exists>t \<in> set (db_tasks d). is_claimable now t \<and>
          (\<forall>x \<in> set (db_tasks d). is_claimable now x \<longrightarrow> claim_order t \<le> claim_order x) \<and>
          t_id (c_task c) = t_id t \<and> set (db_tasks d') = insert (c_task c) (set (db_tasks d) - {t}) \<and>
          t_status (c_task c) = (if t_status t = CancelRequested then CancelRequested else Running) \<and>
          t_locked_by (c_task c) = Some w \<and> t_lock_token (c_task c) = Some k \<and>
          t_lease_until (c_task c) = Some (now + dur) \<and> \<not> is_claimable now (c_task c) \<and>
          db_runs d' = db_runs d @ [c_task_run c] \<and> run_of (c_task c) (c_task_run c) \<and>
          r_run_number (c_task_run c) = max_run_number (t_id t) d + 1)"
proof (cases "select_one claim_order (is_claimable now) (db_tasks d)")
  case None
  have "unique_column (map t_idempotency_key (db_tasks d))"
    using store_inv_parts(1) [OF inv] by (simp add: table_inv_def)
  from claim_next_eq_None [OF args None this] None show ?thesis
    by (simp add: select_one_None_iff)
next
  case (Some t)
  note sel = select_one_SomeD [OF Some]
  have "\<not> is_claimable now (claim_row w k now (now + dur) t)"
    by (auto simp: is_claimable_def dest: ownership_clear_not_complete)
  with claim_next_eq_Some [OF inv args Some] sel show ?thesis
    by (auto simp: run_of_def claimed_run_def intro!: bexI [of _ t])
qed

theorem claim_takes_first_witness:
  "case claim_next ''w1'' 50 ''k1'' 200 sample_queue of
     Inr (Some c, d') \<Rightarrow> \<not> is_claimable 200 (c_task c) | _ \<Rightarrow> False"
  using claim_takes_first [where d = sample_queue and w = "''w1''" and dur = 50 and k = "''k1''" and now = 200,
    OF sample_queue_inv]
  by (auto simp: sample_queue_eq empty_db_def is_claimable_def is_due_def sample_task_def
      default_task_def ownership_clear_def QUEUE_TASK_STATUSES_def split: sum.splits option.splits prod.splits)

text \<open>C4: A worker whose expired lease was recovered is fenced off for good: whatever happens
  afterwards, as long as nobody claims a task with that worker's old lock token again, the
  worker's \<open>finish_run\<close> and \<open>heartbeat\<close> for the task are refused.\<close>

theorem recovered_lease_is_fenced:
  assumes inv: "store_inv d"
    and rec: "recover_expired_lease seen l nxt now d = Inr (Some v, d1)"
    and tr: "task_trace es d1 d'"
    and fresh: "\<forall>e \<in> set es. \<not> claims_with (e_lock_token l) e"
  shows "(\<exists>err. finish_run (e_task_id l) rid (e_worker_id l) (e_lock_token l) ex ts rs fin ms sm ec em
            mt rsn nx b t1 d' = Inl err) \<and>
         (\<exists>err. heartbeat (e_task_id l) (e_worker_id l) (e_lock_token l) dur t2 d' = Inl err)"
proof -
  have inv1: "store_inv d1"
    using recover_store_inv [OF inv rec] by simp
  have "token_unused (e_task_id l) (e_lock_token l) d1"
    using inv rec
  proof (cases rule: recover_cases)
    case (some cur t r tg at)
    have "x = recover_row tg at (t_retry_count cur + 1) now t"
      if "x \<in> set (db_tasks d1)" "t_id x = e_task_id l" for x
    proof (rule table_inv_id_unique [OF store_inv_parts(1) [OF inv1] that(1)])
      show "recover_row tg at (t_retry_count cur + 1) now t \<in> set (db_tasks d1)"
        using some(4,10) by simp
      show "t_id x = t_id (recover_row tg at (t_retry_count cur + 1) now t)"
        using that(2) some(5) by (simp add: lease_matches_def)
    qed
    then have "t_lock_token x = None" if "x \<in> set (db_tasks d1)" "t_id x = e_task_id l" for x
      using that by fastforce
    then show ?thesis by (simp add: token_unused_def)
  qed simp
  then have "lacks_lease (e_task_id l, e_lock_token l) d1" by simp
  from leases.trace_refused [OF tr inv1 this] fresh
  have "owner_refused (e_task_id l, e_lock_token l) d'" by simp
  then show ?thesis unfolding owner_refused_def by simp
qed

definition sample_lease :: expired_lease where
  "sample_lease = \<lparr>e_task_id = 1, e_status = Running, e_worker_id = ''w1'', e_lock_token = ''k1'',
     e_lease_until = 250, e_retry_count = 0\<rparr>"

theorem recovered_lease_is_fenced_witness:
  "\<exists>err. heartbeat 1 ''w1'' ''k1'' 50 500
     (run_events [ClaimNext ''w2'' 50 ''k2'' 400]
        (step_event (RecoverLease sample_leased sample_lease (Some 350) 300) sample_leased)) = Inl err"
proof -
  let ?d1 = "step_event (RecoverLease sample_leased sample_lease (Some 350) 300) sample_leased"
  obtain v where "recover_expired_lease sample_leased sample_lease (Some 350) 300 sample_leased =
      Inr (Some v, ?d1)"
  proof -
    have "case recover_expired_lease sample_leased sample_lease (Some 350) 300 sample_leased of
        Inr (Some v, _) \<Rightarrow> True | _ \<Rightarrow> False"
      by code_simp
    with that show thesis
      by (auto simp: commit_def split: sum.splits option.splits prod.splits)
  qed
  from recovered_lease_is_fenced [OF sample_leased_inv this run_events_trace,
      of "[ClaimNext ''w2'' 50 ''k2'' 400]"]
  show ?thesis by (auto simp: sample_lease_def)
qed

text \<open>A plain status change is a compare-and-set on the database, however old the row is that
  the caller read: it succeeds only if the task still has the expected status, only along the
  transition policy, never into \<open>running\<close> and never out of a leased status but to
  \<open>cancel_requested\<close>; the lease columns and every other task stay as they are.\<close>

theorem transition_is_compare_and_set:
  assumes inv: "store_inv d"
    and step: "transition seen d i ex tg now rsn ec em nxt = Inr (t', d')"
  shows "\<exists>t \<in> set (db_tasks d). t_id t = i \<and> t_status t = ex \<and> can_transition ex tg \<and>
           tg \<noteq> Running \<and> (ex \<in> LEASED_TASK_STATUSES \<longrightarrow> tg = CancelRequested) \<and>
           t_id t' = i \<and> t_status t' = tg \<and>
           t_locked_by t' = t_locked_by t \<and> t_lock_token t' = t_lock_token t \<and>
           t_lease_until t' = t_lease_until t \<and>
           set (db_tasks d') = insert t' (set (db_tasks d) - {t}) \<and> db_runs d' = db_runs d"
  using store_inv_parts(1) [OF inv] step
proof (cases rule: transition_cases)
  case (1 t)
  then show ?thesis by (intro bexI [of _ t]) simp_all
qed

theorem transition_is_compare_and_set_witness:
  "\<exists>t' d'. transition sample_leased sample_leased 1 Running CancelRequested 220 None None None None
       = Inr (t', d') \<and> t_lock_token t' = Some ''k1''"
proof -
  let ?r = "transition sample_leased sample_leased 1 Running CancelRequested 220 None None None None"
  have "case ?r of Inr _ \<Rightarrow> True | Inl _ \<Rightarrow> False" by code_simp
  then obtain t' d' where r: "?r = Inr (t', d')"
    by (auto split: sum.splits)
  from transition_is_compare_and_set [OF sample_leased_inv r] have "t_lock_token t' = Some ''k1''"
    by (auto simp: sample_leased_eq empty_db_def)
  with r show ?thesis by blast
qed


text \<open>Recovering an expired lease never fails when a next attempt is given.  If the lease is
  still the task's, the task is released, its retry count grows by one, and it goes to
  \<open>cancel_requested\<close> if it was there, to \<open>failed\<close> when the retries are used up, else to \<open>retry\<close>
  at the given time; its run is finished as \<open>lost\<close>.  Otherwise nothing changes.\<close>

theorem recovery_is_total:
  assumes inv: "store_inv d"
  shows "case recover_expired_lease d l (Some nxt) now d of
     Inl _ \<Rightarrow> False
   | Inr (None, d') \<Rightarrow> d' = d \<and> (\<forall>t \<in> set (db_tasks d). \<not> lease_matches l now t)
   | Inr (Some v, d') \<Rightarrow>
       (\<exists>t \<in> set (db_tasks d). lease_matches l now t \<and> t_id (v_task v) = t_id t \<and>
          ownership_clear (v_task v) \<and> t_retry_count (v_task v) = t_retry_count t + 1 \<and>
          t_status (v_task v) =
            (if t_status t = CancelRequested then CancelRequested
             else if t_max_retries t < t_retry_count t + 1 then Failed else Retry) \<and>
          (t_status (v_task v) = Retry \<longrightarrow> t_next_attempt_at (v_task v) = Some nxt) \<and>
          set (db_tasks d') = insert (v_task v) (set (db_tasks d) - {t}) \<and>
          v_task_run v \<in> set (db_runs d') \<and> r_task_id (v_task_run v) = t_id t \<and>
          r_status (v_task_run v) = RunLost)"
proof (cases "\<exists>t \<in> set (db_tasks d). lease_matches l now t")
  case False
  then show ?thesis by (simp add: recover_eq_None)
next
  case True
  then obtain t where t: "t \<in> set (db_tasks d)" "lease_matches l now t" by blast
  obtain tg at where tg: "recovery_target (t_status t) (t_retry_count t + 1) (t_max_retries t) (Some nxt) =
      Inr (tg, at)"
    using recovery_target_total by blast
  from recover_eq_Some [OF inv t tg] obtain r where r: "r \<in> set (db_runs d)" "run_of t r" and
    eq: "recover_expired_lease d l (Some nxt) now d =
      Inr (Some \<lparr>v_task = recover_row tg at (t_retry_count t + 1) now t,
                 v_task_run = lost_run_row now r, v_previous_lock_token = e_lock_token l\<rparr>,
           d\<lparr>db_tasks := put_row t (recover_row tg at (t_retry_count t + 1) now t) (db_tasks d),
             db_runs := put_row r (lost_run_row now r) (db_runs d)\<rparr>)"
    by blast
  have tg': "tg = (if t_status t = CancelRequested then CancelRequested
             else if t_max_retries t < t_retry_count t + 1 then Failed else Retry)"
    and at: "tg = Retry \<Longrightarrow> at = Some nxt"
    using tg by (auto simp: recovery_target_def split: if_splits)
  have nx: "t_next_attempt_at (recover_row tg at (t_retry_count t + 1) now t) = Some nxt" if "tg = Retry"
    using at [OF that] that
    by (simp add: recover_row_def task_transition_values_def release_ownership_def Let_def)
  have rt: "r_task_id r = t_id t" using r(2) by (simp add: run_of_def)
  show ?thesis
    unfolding eq using t r(1) nx rt tg' by (auto intro!: bexI [of _ t])
qed

theorem recovery_is_total_witness:
  "case recover_expired_lease sample_leased sample_lease (Some 350) 300 sample_leased of
     Inr (Some v, d') \<Rightarrow> t_status (v_task v) = Retry | _ \<Rightarrow> False"
proof -
  have "case recover_expired_lease sample_leased sample_lease (Some 350) 300 sample_leased of
        Inr (None, _) \<Rightarrow> False | _ \<Rightarrow> True"
    by code_simp
  with recovery_is_total [OF sample_leased_inv, where l = sample_lease and nxt = 350 and now = 300] show ?thesis
    by (auto simp: sample_leased_eq empty_db_def sample_task_def default_task_def
        split: sum.splits option.splits prod.splits)
qed

section \<open>The worker\<close>

text \<open>C5: The owner of a live lease always settles its task when its outcome is one the task admits:
  the task ends in the status the table \<open>outcome_task_status\<close> gives for the outcome (a cancelled
  download is cancelled whatever its handler said), it is released, a retry or a failure uses
  one retry, a retry is due strictly later and at most the maximal delay later, the run ends in
  the status that belongs to the task's, and the store stays consistent.\<close>

theorem owner_settles:
  assumes inv: "store_inv d" and w: "runtime_valid w" and hold: "holds_lease w x cn d t r"
    and k: "x_lock_token x \<noteq> []" and oc: "outcome_valid oc" and dur: "0 \<le> dur"
    and ok: "acceptable t (effective_outcome t oc)"
  shows "\<exists>t' r' d'. finish w x oc dur now cn d = Inr (t_status t', d') \<and>
     t' \<in> set (db_tasks d') \<and> t_id t' = t_id t \<and> ownership_clear t' \<and>
     t_status t' = outcome_task_status t (o_status (effective_outcome t oc)) \<and>
     t_retry_count t' = t_retry_count t +
       (if o_status (effective_outcome t oc) \<in> {OutRetry, OutFailed} then 1 else 0) \<and>
     (t_status t' = Retry \<longrightarrow> (\<exists>at. t_next_attempt_at t' = Some at \<and> now < at \<and>
        at \<le> now + bo_max_delay (w_backoff w))) \<and>
     r' \<in> set (db_runs d') \<and> r_id r' = r_id r \<and>
     TASK_TO_RUN_TERMINAL_STATUS (t_status t') = Some (r_status r') \<and>
     store_inv d' \<and> history_extends d d'"
proof (rule finish_eq [OF inv w hold k oc dur ok, of now])
  fix t' r' d'
  assume a: "finish w x oc dur now cn d =
      Inr (outcome_task_status t (o_status (effective_outcome t oc)), d')"
    "t' \<in> set (db_tasks d')" "t_id t' = t_id t" "ownership_clear t'"
    "t_status t' = outcome_task_status t (o_status (effective_outcome t oc))"
    "t_retry_count t' = t_retry_count t +
       (if o_status (effective_outcome t oc) \<in> {OutRetry, OutFailed} then 1 else 0)"
    "t_status t' = Retry \<Longrightarrow> \<exists>at. t_next_attempt_at t' = Some at \<and> now < at \<and>
        at \<le> now + bo_max_delay (w_backoff w)"
    "r' \<in> set (db_runs d')" "r_id r' = r_id r"
    "TASK_TO_RUN_TERMINAL_STATUS (t_status t') = Some (r_status r')"
    "store_inv d'" "history_extends d d'"
  show ?thesis
    by (intro exI [of _ t'] exI [of _ r'] exI [of _ d'] conjI impI a a(1) [folded a(5)] a(7))
qed

definition sample_runtime :: worker_runtime where
  "sample_runtime = \<lparr>w_worker_id = ''w1'', w_lease_duration = 50, w_heartbeat_interval = 20,
     w_recovery_limit = 100,
     w_backoff = \<lparr>bo_base_delay = seconds 30, bo_max_delay = seconds 900\<rparr>\<rparr>"

definition sample_execution :: claimed_execution where
  "sample_execution = \<lparr>x_invocation =
     invocation_from_task (claim_row ''w1'' ''k1'' 200 250 (sample_task\<lparr>t_id := 1\<rparr>)) 1,
     x_lock_token = ''k1''\<rparr>"

definition sample_outcome :: "outcome_status \<Rightarrow> task_outcome" where
  "sample_outcome s = \<lparr>o_status = s, o_summary = None, o_error_code = Some ''E'',
     o_error_message = None, o_metrics = None, o_retry_after = None, o_blocked_reason = None\<rparr>"

lemma sample_runtime_valid: "runtime_valid sample_runtime"
  by (simp add: sample_runtime_def runtime_valid_def backoff_valid_def seconds_def)

lemma sample_holds_lease:
  "holds_lease sample_runtime sample_execution 220 sample_leased
     (claim_row ''w1'' ''k1'' 200 250 (sample_task\<lparr>t_id := 1\<rparr>)) (claimed_run 1 ''w1'' ''k1'' 200 sample_queue)"
  by (simp add: holds_lease_def owned_row_def lease_live_def run_of_def sample_leased_eq
      sample_execution_def sample_runtime_def invocation_from_task_def claimed_run_def
      sample_queue_eq empty_db_def next_id_def)

theorem owner_settles_witness:
  "\<exists>d'. finish sample_runtime sample_execution (sample_outcome OutRetry) 5 220 220 sample_leased =
     Inr (Retry, d')"
  using owner_settles [OF sample_leased_inv sample_runtime_valid sample_holds_lease,
      of "sample_outcome OutRetry" 5 220]
  by (auto simp: sample_execution_def sample_outcome_def outcome_valid_def acceptable_def
      effective_outcome_def sample_task_def default_task_def)




text \<open>C7: A whole cycle keeps the store consistent and its history, whatever the handler returns or
  raises, whether its heartbeats fail, and whatever else happens to the store between the
  cycle's transactions, as long as that keeps the store consistent too.\<close>

theorem cycle_keeps_store:
  assumes "store_inv d" and "\<forall>h \<in> ran handlers. \<forall>x. friendly_run (h x)"
  shows "store_inv (snd (run_once w gate handlers k now en d)) \<and>
         history_extends d (snd (run_once w gate handlers k now en d))"
  by (rule run_once_store_inv [OF assms, of w gate k now en "fst (run_once w gate handlers k now en d)"])
    simp

theorem cycle_keeps_store_witness:
  "store_inv (snd (run_once sample_runtime (\<lambda>_. False) Map.empty ''k1'' 200 210 sample_queue))"
  using cycle_keeps_store [OF sample_queue_inv, of Map.empty] by simp

lemma recover_cancelled:
  assumes inv: "store_inv d" and t: "t \<in> set (db_tasks d)" "lease_matches l n t"
    and st: "t_status t = CancelRequested"
  shows "\<exists>v d'. recover_expired_lease d l (Some nxt) n d = Inr (Some v, d') \<and>
     v_task v \<in> set (db_tasks d') \<and> t_id (v_task v) = t_id t \<and>
     t_status (v_task v) = CancelRequested \<and> is_claimable n (v_task v)"
proof -
  have "recovery_target (t_status t) (t_retry_count t + 1) (t_max_retries t) (Some nxt) =
      Inr (CancelRequested, None)"
    using st by (simp add: recovery_target_def)
  from recover_eq_Some [OF inv t this] obtain r where
    eq: "recover_expired_lease d l (Some nxt) n d =
      Inr (Some \<lparr>v_task = recover_row CancelRequested None (t_retry_count t + 1) n t,
                 v_task_run = lost_run_row n r, v_previous_lock_token = e_lock_token l\<rparr>,
           d\<lparr>db_tasks := put_row t (recover_row CancelRequested None (t_retry_count t + 1) n t) (db_tasks d),
             db_runs := put_row r (lost_run_row n r) (db_runs d)\<rparr>)"
    by blast
  have "is_claimable n (recover_row CancelRequested None (t_retry_count t + 1) n t)"
    by (simp add: is_claimable_def)
  with eq t(1) show ?thesis by simp
qed

text \<open>C8: A cancellation poisons a task whose handler cannot report success or cancellation.  When
  the next task in the queue is not a download, its cancellation is requested, and no handler is
  registered for it, the cycle ends with \<open>InvalidTaskOutcomeError\<close> instead of settling it: the
  task stays leased in \<open>cancel_requested\<close>, and recovering the lease after it expired makes it
  claimable again, still in \<open>cancel_requested\<close>, so that the next cycle meets it again.\<close>

theorem cancelled_task_poisons_worker:
  assumes inv: "store_inv d" and gate: "\<not> gate d" and w: "runtime_valid w"
    and quiet: "list_expired_leases (w_recovery_limit w) now d = Inr []"
    and sel: "select_one claim_order (is_claimable now) (db_tasks d) = Some t"
    and nohandler: "handlers (t_type t, t_payload_version t) = None"
    and st: "t_status t = CancelRequested" and ty: "t_type t \<noteq> ''download''"
  shows "\<exists>t' d'. run_once w gate handlers k now en d = (Inl InvalidTaskOutcomeError, d') \<and>
     t' \<in> set (db_tasks d') \<and> t_id t' = t_id t \<and> t_status t' = CancelRequested \<and>
     ownership_complete t' \<and>
     (\<forall>l n nxt. lease_matches l n t' \<longrightarrow>
        (\<exists>v d''. recover_expired_lease d' l (Some nxt) n d' = Inr (Some v, d'') \<and>
           v_task v \<in> set (db_tasks d'') \<and> t_id (v_task v) = t_id t \<and>
           t_status (v_task v) = CancelRequested \<and> is_claimable n (v_task v)))"
proof -
  let ?t' = "claim_row (w_worker_id w) k now (now + w_lease_duration w) t"
  obtain x r where h: "holds_lease w x now (d\<lparr>db_tasks := put_row t ?t' (db_tasks d),
      db_runs := db_runs d @ [r]\<rparr>) ?t' r"
    and inv': "store_inv (d\<lparr>db_tasks := put_row t ?t' (db_tasks d), db_runs := db_runs d @ [r]\<rparr>)"
    and run: "run_once w gate handlers k now en d =
      finalize w x (unsupported_outcome (x_invocation x)) 0 0 en en
        (d\<lparr>db_tasks := put_row t ?t' (db_tasks d), db_runs := db_runs d @ [r]\<rparr>)"
    using run_once_unsupported [where gate = gate and handlers = handlers and k = k and en = en,
        OF inv gate quiet w sel nohandler] by blast
  let ?d' = "d\<lparr>db_tasks := put_row t ?t' (db_tasks d), db_runs := db_runs d @ [r]\<rparr>"
  have t'st: "t_status ?t' = CancelRequested" "t_type ?t' \<noteq> ''download''"
    using st ty by (simp_all add: claim_row_def)
  have "finish w x (unsupported_outcome (x_invocation x)) 0 en en ?d' = Inl InvalidTaskOutcomeError"
    by (rule finish_refuses [OF inv' h t'st]) (simp add: unsupported_outcome_def)
  then have "run_once w gate handlers k now en d = (Inl InvalidTaskOutcomeError, ?d')"
    by (simp add: run finalize_def)
  moreover have mem: "?t' \<in> set (db_tasks ?d')"
    by (rule holds_leaseD(1) [OF inv' h])
  moreover have "\<exists>v d''. recover_expired_lease ?d' l (Some nxt) n ?d' = Inr (Some v, d'') \<and>
      v_task v \<in> set (db_tasks d'') \<and> t_id (v_task v) = t_id t \<and>
      t_status (v_task v) = CancelRequested \<and> is_claimable n (v_task v)"
    if m: "lease_matches l n ?t'" for l n nxt
  proof -
    have "t_id ?t' = t_id t" by simp
    with recover_cancelled [OF inv' mem m t'st(1), of nxt] show ?thesis by metis
  qed
  ultimately show ?thesis
    using st by (intro exI [of _ ?t'] exI [of _ ?d']) simp
qed

text \<open>A task whose cancellation was requested while a worker ran it, which then disappeared.\<close>

definition sample_cancelled :: db where
  "sample_cancelled =
     (let d1 = step_event (ClaimNext ''w0'' 50 ''k0'' 120) sample_queue;
          d2 = step_event (Transition d1 1 Running CancelRequested 130 None None None None) d1
      in step_event (RecoverLease d2 \<lparr>e_task_id = 1, e_status = CancelRequested,
           e_worker_id = ''w0'', e_lock_token = ''k0'', e_lease_until = 170, e_retry_count = 0\<rparr>
           (Some 190) 180) d2)"

lemma sample_cancelled_inv: "store_inv sample_cancelled"
  unfolding sample_cancelled_def Let_def
  using sample_queue_inv by (simp only: step_event_keeps fair_event.simps)

theorem cancelled_task_poisons_worker_witness:
  "\<exists>d'. run_once sample_runtime (\<lambda>_. False) Map.empty ''k1'' 200 200 sample_cancelled =
     (Inl InvalidTaskOutcomeError, d')"
proof -
  have "case select_one claim_order (is_claimable 200) (db_tasks sample_cancelled) of
      None \<Rightarrow> False | Some t \<Rightarrow> t_status t = CancelRequested \<and> t_type t \<noteq> ''download''"
    by code_simp
  then obtain t where t: "select_one claim_order (is_claimable 200) (db_tasks sample_cancelled) = Some t"
    "t_status t = CancelRequested" "t_type t \<noteq> ''download''"
    by (auto split: option.splits)
  have quiet: "list_expired_leases (w_recovery_limit sample_runtime) 200 sample_cancelled = Inr []"
    by code_simp
  show ?thesis
    using cancelled_task_poisons_worker [where gate = "\<lambda>_. False" and handlers = Map.empty,
        OF sample_cancelled_inv _ sample_runtime_valid quiet t(1) _ t(2,3)]
    by blast
qed

text \<open>The delay before retry \<open>n\<close> doubles from the base delay and is capped at the maximal
  delay.  This is exact when the maximal delay is an even number of microseconds; when it is
  odd, halving it rounds, and the delay may be one microsecond more than the doubled one, never
  more than the maximum.\<close>

theorem backoff_doubles:
  assumes "backoff_valid b" and "0 \<le> n"
  shows "case delay_for b n of
     Inl _ \<Rightarrow> False
   | Inr delay \<Rightarrow>
       min (bo_base_delay b * 2 ^ nat n) (bo_max_delay b) \<le> delay \<and>
       delay \<le> min (bo_base_delay b * 2 ^ nat n + 1) (bo_max_delay b) \<and>
       (even (bo_max_delay b) \<longrightarrow> delay = min (bo_base_delay b * 2 ^ nat n) (bo_max_delay b))"
  using assms delay_loop_bounds [of "bo_base_delay b" "bo_max_delay b" "nat n"]
    delay_loop_exact [of "bo_max_delay b" "bo_base_delay b" "nat n"]
  by (simp add: delay_for_def backoff_valid_def)

theorem backoff_doubles_witness:
  "delay_for (w_backoff sample_runtime) 4 = Inr (seconds 480)"
  using backoff_doubles [of "w_backoff sample_runtime" 4]
  by (auto simp: sample_runtime_def backoff_valid_def seconds_def split: sum.splits)


section \<open>The producers of tasks\<close>

text \<open>C9: A cycle of the scheduler keeps the store consistent and never gives a subscription two
  active scans.  When the update gate is closed it changes nothing; otherwise every subscription
  of its batch is enqueued or skipped, and none of them is due again for 15 minutes.\<close>

theorem scheduler_never_doubles_scans:
  assumes inv: "store_inv d" and one: "single_active ''scan'' t_subscription_id d"
    and run: "scheduler_run_once marker n clock c d = Inr (r, d')"
  shows "store_inv d' \<and> single_active ''scan'' t_subscription_id d' \<and>
     n_gated r = gate_blocked marker d \<and> (n_gated r \<longrightarrow> d' = d) \<and>
     (\<not> n_gated r \<longrightarrow>
        n_enqueued_count r + n_skipped_active_count r = n_inspected_count r \<and>
        (\<forall>s \<in> set (due_subscriptions n clock d). rests_until (clock + seconds 900) (s_id s) d'))"
proof (cases "gate_blocked marker d")
  case True
  with run inv one show ?thesis by (auto simp: scheduler_run_once_def)
next
  case False
  with run obtain tids sk where
    subs: "enqueue_scans clock c (due_subscriptions n clock d) d = Inr ((tids, sk), d')" and
    r: "r = \<lparr>n_inspected_count = int (length (due_subscriptions n clock d)),
       n_enqueued_count = int (length tids), n_skipped_active_count = sk, n_task_ids = tids,
       n_gated = False\<rparr>"
    by (auto simp: scheduler_run_once_def enqueue_due_scan_tasks_def Let_def split: if_splits)
  have due: "\<forall>s \<in> set (due_subscriptions n clock d). s_next_scan_at s \<noteq> None"
    using due_subscriptionsD by blast
  from enqueue_scans_keeps [OF subs inv one] enqueue_scans_counts [OF subs due] due False r
  show ?thesis by simp
qed

definition sample_subscription :: subscription where
  "sample_subscription = \<lparr>s_id = 7, s_cloud_account_id = 1, s_name = ''s'', s_provider = ''p'',
     s_share_url = ''u'', s_share_key = None, s_share_password = None, s_source_folder_id = None,
     s_target_path = ''/t'', s_target_drive_id = None, s_target_drive_type = None,
     s_target_folder_id = None, s_schedule = ''interval:30m'', s_enabled = True, s_status = ''active'',
     s_initial_sync_mode = ''all'', s_last_scanned_at = None, s_last_full_scanned_at = None,
     s_next_scan_at = Some 0, s_last_error = None\<rparr>"

definition sample_subscribed :: db where
  "sample_subscribed = empty_db\<lparr>db_subscriptions := [sample_subscription]\<rparr>"

lemma sample_subscribed_inv: "store_inv sample_subscribed"
  using store_inv_empty store_inv_cong [of sample_subscribed empty_db]
  by (simp add: sample_subscribed_def)

theorem scheduler_never_doubles_scans_witness:
  "case scheduler_run_once MarkerMissing 100 1000000 1000000 sample_subscribed of
     Inr (r, d') \<Rightarrow> single_active ''scan'' t_subscription_id d' \<and> length (db_tasks d') = 1
   | Inl _ \<Rightarrow> False"
proof -
  let ?r = "scheduler_run_once MarkerMissing 100 1000000 1000000 sample_subscribed"
  have "case ?r of Inr (r, d') \<Rightarrow> length (db_tasks d') = 1 | Inl _ \<Rightarrow> False"
    by code_simp
  moreover have "single_active ''scan'' t_subscription_id sample_subscribed"
    by (simp add: single_active_def sample_subscribed_def empty_db_def)
  ultimately show ?thesis
    using scheduler_never_doubles_scans [OF sample_subscribed_inv]
    by (auto split: sum.splits prod.splits)
qed

text \<open>One due subscription with a malformed schedule stops the scheduler: as long as it is in
  the batch and the gate is open, the whole cycle fails, so no scan of any subscription is
  enqueued.\<close>

theorem malformed_schedule_stops_batch:
  assumes "s \<in> set (due_subscriptions n clock d)" and "parse_schedule (s_schedule s) = Inl e"
    and "\<not> gate_blocked marker d"
  shows "\<exists>err. scheduler_run_once marker n clock c d = Inl err"
proof -
  have "s_next_scan_at s \<noteq> None"
    using due_subscriptionsD [OF assms(1)] by auto
  from enqueue_scans_poisoned [OF assms(1) this assms(2), of clock c d] assms(3)
  show ?thesis by (auto simp: scheduler_run_once_def enqueue_due_scan_tasks_def)
qed

theorem malformed_schedule_stops_batch_witness:
  "\<exists>err. scheduler_run_once MarkerMissing 100 1000000 1000000
     (sample_subscribed\<lparr>db_subscriptions :=
        [sample_subscription, sample_subscription\<lparr>s_id := 8, s_schedule := ''daily''\<rparr>]\<rparr>) = Inl err"
proof -
  let ?d = "sample_subscribed\<lparr>db_subscriptions :=
        [sample_subscription, sample_subscription\<lparr>s_id := 8, s_schedule := ''daily''\<rparr>]\<rparr>"
  let ?s = "sample_subscription\<lparr>s_id := 8, s_schedule := ''daily''\<rparr>"
  have "?s \<in> set (due_subscriptions 100 1000000 ?d)"
    by (simp add: due_subscriptions_def sample_subscription_def sample_subscribed_def empty_db_def)
  moreover have "parse_schedule (s_schedule ?s) = Inl ScheduleFormat" by code_simp
  moreover have "\<not> gate_blocked MarkerMissing ?d"
    by (simp add: gate_blocked_iff get_active_def first_row_def sample_subscribed_def empty_db_def)
  ultimately show ?thesis by (rule malformed_schedule_stops_batch)
qed

text \<open>A manual scan of a subscription never creates a second active scan: it returns the active
  one if there is one, unchanged store included, and otherwise a new pending task with the
  requested \<open>force_full\<close>.\<close>

theorem manual_scan_is_single:
  assumes inv: "store_inv d" and one: "single_active ''scan'' t_subscription_id d"
    and run: "enqueue_manual_scan s ff now d = Inr ((t, created), d')"
  shows "store_inv d' \<and> single_active ''scan'' t_subscription_id d' \<and> t \<in> set (db_tasks d') \<and>
     active_task_where ''scan'' (Some (s_id s)) None t \<and>
     (created \<longleftrightarrow> (\<forall>x \<in> set (db_tasks d). \<not> active_task_where ''scan'' (Some (s_id s)) None x)) \<and>
     (\<not> created \<longrightarrow> d' = d) \<and>
     (created \<longrightarrow> t_status t = Pending \<and> t_payload t = [(''force_full'', JBool ff)])"
proof (cases "active_task ''scan'' (Some (s_id s)) None d")
  case (Some x)
  note x = select_one_SomeD [OF Some [unfolded active_task_def]]
  from Some run have "t = x" "\<not> created" "d' = d"
    by (auto simp: enqueue_manual_scan_def)
  with x inv one show ?thesis by blast
next
  case None
  let ?t = "(default_task now)
     \<lparr>t_account_id := Some (s_cloud_account_id s), t_subscription_id := Some (s_id s),
      t_type := ''scan'', t_trigger_type := ''manual'', t_payload := [(''force_full'', JBool ff)]\<rparr>"
  from None run have cr: "create_task ?t d = Inr (t, d')" and "created"
    by (auto simp: enqueue_manual_scan_def)
  note c = create_task_cases [OF cr]
  have free: "\<forall>x \<in> set (db_tasks d). \<not> active_task_where ''scan'' (Some (s_id s)) None x"
    using None by (simp add: active_task_def select_one_None_iff)
  have "store_inv d'"
    using create_task_store_inv [OF inv cr]
    by (simp add: default_task_def ownership_clear_def)
  moreover have "single_active ''scan'' t_subscription_id d'"
    by (rule single_active_create [OF one cr]) (use free in \<open>auto simp: active_task_where_def\<close>)
  moreover have "active_task_where ''scan'' (Some (s_id s)) None t" "t_status t = Pending"
    "t_payload t = [(''force_full'', JBool ff)]"
    using c(2) by (simp_all add: active_task_where_def default_task_def)
  moreover have "t \<in> set (db_tasks d')" using c(3) by simp
  ultimately show ?thesis using free \<open>created\<close> by blast
qed

theorem manual_scan_is_single_witness:
  "case enqueue_manual_scan sample_subscription True 300 sample_queue of
     Inr ((t, created), d') \<Rightarrow> \<not> created \<and> single_active ''scan'' t_subscription_id d' | Inl _ \<Rightarrow> False"
proof -
  have "case enqueue_manual_scan sample_subscription True 300 sample_queue of
     Inr ((t, created), d') \<Rightarrow> \<not> created | Inl _ \<Rightarrow> False"
    by code_simp
  moreover have "single_active ''scan'' t_subscription_id sample_queue"
    by (simp add: single_active_def sample_queue_eq)
  ultimately show ?thesis
    using manual_scan_is_single [OF sample_queue_inv]
    by (auto split: sum.splits prod.splits)
qed


text \<open>Retrying a file's transfer never creates a second active transfer of the file.  A new
  retry inherits the provider operation of the file's last finished transfer, its identifier,
  its status and the time its write was intended, so that the write is not repeated blindly, and
  the file is pending again.\<close>

theorem transfer_retry_inherits_operation:
  assumes inv: "store_inv d" and one: "single_active ''transfer'' t_file_id d"
    and run: "enqueue_transfer_retry f now d = Inr (t, d')"
  shows "store_inv d' \<and> single_active ''transfer'' t_file_id d' \<and> t \<in> set (db_tasks d') \<and>
     active_task_where ''transfer'' None (Some (f_id f)) t \<and>
     (t \<in> set (db_tasks d) \<longrightarrow> d' = d) \<and>
     (t \<notin> set (db_tasks d) \<longrightarrow>
        (\<forall>x \<in> set (db_files d'). f_id x = f_id f \<longrightarrow> f_status x = ''pending'' \<and> f_last_error x = None) \<and>
        (\<forall>p. transfer_predecessor (f_id f) d = Some p \<longrightarrow>
           t_provider_operation_id t = t_provider_operation_id p \<and>
           t_provider_operation_status t = t_provider_operation_status p \<and>
           t_provider_write_intent_at t = t_provider_write_intent_at p))"
proof (cases "active_task ''transfer'' None (Some (f_id f)) d")
  case (Some x)
  note x = select_one_SomeD [OF Some [unfolded active_task_def]]
  from Some run have "t = x" "d' = d"
    by (auto simp: enqueue_transfer_retry_def)
  with x inv one show ?thesis by blast
next
  case None
  from None run obtain s d1 where
    cr: "create_task (transfer_retry_task f s (transfer_predecessor (f_id f) d) now) d = Inr (t, d1)"
    and d': "d' = d1\<lparr>db_files := update_rows (\<lambda>x. f_id x = f_id f)
                       (\<lambda>x. x\<lparr>f_status := ''pending'', f_last_error := None\<rparr>) (db_files d1)\<rparr>"
    by (auto simp: enqueue_transfer_retry_def split: option.splits sum.splits)
  note c = create_task_cases [OF cr]
  have tt: "t_type t = ''transfer''" "t_file_id t = Some (f_id f)" "t_status t = Pending"
    using c(2) by (simp_all add: transfer_retry_task_def default_task_def)
  have free: "\<forall>x \<in> set (db_tasks d). \<not> active_task_where ''transfer'' None (Some (f_id f)) x"
    using None by (simp add: active_task_def select_one_None_iff)
  have same: "db_tasks d' = db_tasks d1" "db_runs d' = db_runs d1" using d' by simp_all
  have "store_inv d1"
    using create_task_store_inv [OF inv cr]
    by (simp add: transfer_retry_task_def default_task_def ownership_clear_def)
  then have "store_inv d'" using store_inv_cong [OF same] by simp
  moreover have "single_active ''transfer'' t_file_id d1"
    by (rule single_active_create [OF one cr])
      (use free in \<open>auto simp: active_task_where_def transfer_retry_task_def default_task_def\<close>)
  then have "single_active ''transfer'' t_file_id d'" by (simp add: single_active_def same)
  moreover have act: "active_task_where ''transfer'' None (Some (f_id f)) t"
    using tt by (simp add: active_task_where_def)
  moreover have "t \<notin> set (db_tasks d)" using act free by blast
  moreover have "t \<in> set (db_tasks d')" using c(3) same by simp
  moreover have "f_status x = ''pending'' \<and> f_last_error x = None"
    if "x \<in> set (db_files d')" "f_id x = f_id f" for x
    using that d' by (auto simp: update_rows_def split: if_splits)
  moreover have "t_provider_operation_id t = t_provider_operation_id p \<and>
      t_provider_operation_status t = t_provider_operation_status p \<and>
      t_provider_write_intent_at t = t_provider_write_intent_at p"
    if "transfer_predecessor (f_id f) d = Some p" for p
    using c(2) that by (simp add: transfer_retry_task_def)
  ultimately show ?thesis by blast
qed

definition sample_file :: cloud_file where
  "sample_file = \<lparr>f_id = 3, f_subscription_id = 7, f_remote_file_id = ''r'',
     f_parent_remote_file_id = None, f_filename = ''f'', f_relative_path = ''f'', f_item_type = ''file'',
     f_size = None, f_content_hash = None, f_fingerprint = ''p'', f_status = ''failed'',
     f_target_file_id = None, f_target_path = None, f_first_seen_at = 0, f_last_seen_at = 0,
     f_saved_at = None, f_last_error = Some ''e''\<rparr>"

theorem transfer_retry_inherits_operation_witness:
  "case enqueue_transfer_retry sample_file 300 (sample_subscribed\<lparr>db_files := [sample_file]\<rparr>) of
     Inr (t, d') \<Rightarrow> t \<in> set (db_tasks d') \<and> single_active ''transfer'' t_file_id d' | Inl _ \<Rightarrow> False"
proof -
  let ?d = "sample_subscribed\<lparr>db_files := [sample_file]\<rparr>"
  have "case enqueue_transfer_retry sample_file 300 ?d of Inr _ \<Rightarrow> True | Inl _ \<Rightarrow> False"
    by code_simp
  then obtain t d' where run: "enqueue_transfer_retry sample_file 300 ?d = Inr (t, d')"
    by (auto split: sum.splits)
  have "store_inv ?d"
    using store_inv_empty store_inv_cong [of ?d empty_db] by (simp add: sample_subscribed_def)
  moreover have "single_active ''transfer'' t_file_id ?d"
    by (simp add: single_active_def sample_subscribed_def empty_db_def)
  ultimately have "t \<in> set (db_tasks d') \<and> single_active ''transfer'' t_file_id d'"
    using transfer_retry_inherits_operation [OF _ _ run] by blast
  with run show ?thesis by simp
qed

section \<open>The cutover\<close>

text \<open>C10: When the cutover from the v0.1 scheduler succeeds on a legacy store, where tasks may claim
  to run with no lease, the store satisfies the invariant of the task engine: every running task
  is leased, and leases and running runs correspond one to one.  Terminal runs survive it
  unchanged.\<close>

theorem cutover_establishes_invariant:
  assumes "legacy_inv d" and "reconcile_legacy_tasks now b d = Inr (z, d')"
  shows "store_inv d' \<and> history_extends d d' \<and>
     (\<forall>t \<in> set (db_tasks d'). t_status t = Running \<longrightarrow> ownership_complete t)"
proof -
  have "store_inv d' \<and> history_extends d d'"
    by (rule reconcile_legacy_tasks_store_inv [OF assms])
  with lease_invD(2) [OF store_inv_parts(2)] show ?thesis by blast
qed

definition sample_legacy :: db where
  "sample_legacy = empty_db\<lparr>db_tasks := [sample_task\<lparr>t_id := 1, t_status := Running, t_started_at := Some 150\<rparr>],
     db_runs := [(claimed_run 1 ''legacy'' ''none'' 150 empty_db)\<lparr>r_lock_token := None\<rparr>]\<rparr>"

theorem cutover_establishes_invariant_witness:
  "case reconcile_legacy_tasks 1000000 (w_backoff sample_runtime) sample_legacy of
     Inr (z, d') \<Rightarrow> store_inv d' \<and> z_run_finalized_count z = 1 | Inl _ \<Rightarrow> False"
proof -
  have "case reconcile_legacy_tasks 1000000 (w_backoff sample_runtime) sample_legacy of
     Inr (z, d') \<Rightarrow> z_run_finalized_count z = 1 | Inl _ \<Rightarrow> False"
    by code_simp
  then obtain z d' where run: "reconcile_legacy_tasks 1000000 (w_backoff sample_runtime) sample_legacy =
      Inr (z, d')" and z: "z_run_finalized_count z = 1"
    by (auto split: sum.splits)
  have "legacy_inv sample_legacy"
    by (simp add: legacy_inv_def table_inv_def sample_legacy_def empty_db_def sample_task_def
        default_task_def claimed_run_def task_check_def ownership_clear_def ownership_complete_def
        unique_column_def run_check_def orphan_def max_run_number_def)
  from cutover_establishes_invariant [OF this run] run z show ?thesis by simp
qed

end
