(* ===== verification/UpdateCheck.thy ===== *)
theory UpdateCheck
  imports Versions
begin

text \<open>
  The update check (\<open>app/services/update_check_service.py\<close>): reading the releases GitHub
  returned, choosing the newest one of the channel, and the cached status the service keeps.

  The HTTP request is a parameter: its result is the list of release objects, the
  \<open>UpdateCheckError\<close> it raised, or any other exception.  \<open>fromisoformat\<close>, the reader of the
  publication date, is an argument as well; nothing here depends on the date it returns.
\<close>

section \<open>Releases\<close>

datatype update_channel = Stable | Rc

definition channel_for_version :: "string \<Rightarrow> update_channel" where
  "channel_for_version value =
     (case parse_version value of
        Some v \<Rightarrow> if v_stability v = 0 then Rc else Stable
      | None \<Rightarrow> Stable)"

record release_info =
  i_version :: string
  i_tag_name :: string
  i_published_at :: datetime
  i_release_url :: string
  i_notes :: string
  i_prerelease :: bool

record parsed_release =
  p_version :: parsed_version
  p_info :: release_info

definition RELEASE_NOTES_LIMIT :: nat where
  "RELEASE_NOTES_LIMIT = 4000"

text \<open>\<open>bool(x)\<close> of a JSON value.\<close>

fun truthy :: "json \<Rightarrow> bool" where
  "truthy JNull = False"
| "truthy (JBool b) = b"
| "truthy (JInt n) = (n \<noteq> 0)"
| "truthy (JStr s) = (s \<noteq> [])"
| "truthy (JList xs) = (xs \<noteq> [])"
| "truthy (JObj m) = (m \<noteq> [])"

definition removeprefix :: "string \<Rightarrow> string \<Rightarrow> string" where
  "removeprefix p s = (case expect p s of None \<Rightarrow> s | Some r \<Rightarrow> r)"

fun replace_Z :: "string \<Rightarrow> string" where
  "replace_Z [] = []"
| "replace_Z (c # s) = (if c = CHR ''Z'' then ''+00:00'' else [c]) @ replace_Z s"

definition nonempty_str :: "json \<Rightarrow> string option" where
  "nonempty_str j = (case j of JStr s \<Rightarrow> if s = [] then None else Some s | _ \<Rightarrow> None)"

definition parse_release ::
    "(string \<Rightarrow> datetime option) \<Rightarrow> (string \<times> json) list \<Rightarrow> parsed_release option" where
  "parse_release fromisoformat release =
     (case (nonempty_str (jget release ''tag_name''), nonempty_str (jget release ''published_at''),
            nonempty_str (jget release ''html_url'')) of
        (Some tag_name, Some published_at, Some release_url) \<Rightarrow>
          (case parse_version tag_name of None \<Rightarrow> None
           | Some version \<Rightarrow>
          (case fromisoformat (replace_Z published_at) of None \<Rightarrow> None
           | Some published \<Rightarrow>
             let prerelease = truthy (jget release ''prerelease'') in
             if prerelease \<noteq> (v_stability version = 0) then None
             else Some \<lparr>p_version = version,
                        p_info = \<lparr>i_version = removeprefix ''v'' tag_name, i_tag_name = tag_name,
                                  i_published_at = published, i_release_url = release_url,
                                  i_notes = (case jget release ''body'' of
                                               JStr notes \<Rightarrow> take_chars RELEASE_NOTES_LIMIT notes
                                             | _ \<Rightarrow> []),
                                  i_prerelease = prerelease\<rparr>\<rparr>))
      | _ \<Rightarrow> None)"

text \<open>\<open>max(candidates, key=...)\<close> returns the first of the largest.\<close>

fun max_release :: "parsed_release \<Rightarrow> parsed_release list \<Rightarrow> parsed_release" where
  "max_release best [] = best"
| "max_release best (c # cs) = max_release (if p_version best < p_version c then c else best) cs"

definition candidates ::
    "(string \<Rightarrow> datetime option) \<Rightarrow> update_channel \<Rightarrow> (string \<times> json) list list \<Rightarrow> parsed_release list" where
  "candidates fromisoformat channel releases =
     List.map_filter (\<lambda>release.
       if jget release ''draft'' = JBool True then None
       else case parse_release fromisoformat release of
              None \<Rightarrow> None
            | Some parsed \<Rightarrow>
                if channel = Stable \<and> i_prerelease (p_info parsed) then None else Some parsed)
       releases"

definition select_latest ::
    "(string \<Rightarrow> datetime option) \<Rightarrow> update_channel \<Rightarrow> (string \<times> json) list list \<Rightarrow> parsed_release option" where
  "select_latest fromisoformat channel releases =
     (case candidates fromisoformat channel releases of
        [] \<Rightarrow> None
      | c # cs \<Rightarrow> Some (max_release c cs))"

section \<open>The service\<close>

datatype check_error = RequestFailed | RateLimited | ServiceUnavailable | Unparsable | InvalidPayload
  | NoRelease | UnknownError

record check_service =
  k_current_version :: string
  k_channel :: update_channel
  k_cache_seconds :: int
  k_failure_retry_seconds :: int
  k_latest_release :: "release_info option"
  k_last_checked_at :: "datetime option"
  k_last_success_at :: "datetime option"
  k_last_attempt_monotonic :: "timedelta option"
  k_last_attempt_succeeded :: bool
  k_last_error :: "check_error option"

definition new_check_service :: "string \<Rightarrow> int \<Rightarrow> int \<Rightarrow> check_service" where
  "new_check_service current_version cache_seconds failure_retry_seconds =
     \<lparr>k_current_version = current_version, k_channel = channel_for_version current_version,
      k_cache_seconds = cache_seconds, k_failure_retry_seconds = failure_retry_seconds,
      k_latest_release = None, k_last_checked_at = None, k_last_success_at = None,
      k_last_attempt_monotonic = None, k_last_attempt_succeeded = False, k_last_error = None\<rparr>"

datatype check_status = StatusError | NotChecked | UpdateAvailable | Current

record update_status_read =
  g_status :: check_status
  g_latest_release :: "release_info option"
  g_checked_at :: "datetime option"
  g_last_success_at :: "datetime option"
  g_stale :: bool
  g_cache_hit :: bool
  g_error_message :: "check_error option"
  g_manual_image :: string

definition OFFICIAL_DOCKER_IMAGE :: string where
  "OFFICIAL_DOCKER_IMAGE = ''josephyjq/mediasync''"

definition manual_image :: "check_service \<Rightarrow> string" where
  "manual_image s =
     (case k_latest_release s of
        None \<Rightarrow> OFFICIAL_DOCKER_IMAGE @ '':'' @ (if k_channel s = Rc then ''rc'' else ''latest'')
      | Some i \<Rightarrow> OFFICIAL_DOCKER_IMAGE @ '':'' @ i_tag_name i)"

text \<open>The constant texts of the status are left out.\<close>

definition get_status :: "check_service \<Rightarrow> bool \<Rightarrow> update_status_read" where
  "get_status s cache_hit =
     (let parsed_current = parse_version (k_current_version s);
          parsed_latest = (case k_latest_release s of None \<Rightarrow> None | Some i \<Rightarrow> parse_version (i_version i));
          status =
            (if k_last_error s \<noteq> None \<and> k_latest_release s = None then StatusError
             else if k_latest_release s = None then NotChecked
             else case (parsed_current, parsed_latest) of
                    (Some c, Some l) \<Rightarrow> if c < l then UpdateAvailable else Current
                  | _ \<Rightarrow> NotChecked)
      in \<lparr>g_status = status, g_latest_release = k_latest_release s,
          g_checked_at = k_last_checked_at s, g_last_success_at = k_last_success_at s,
          g_stale = (k_last_error s \<noteq> None \<and> k_latest_release s \<noteq> None), g_cache_hit = cache_hit,
          g_error_message = k_last_error s, g_manual_image = manual_image s\<rparr>)"

text \<open>The monotonic clock is read in microseconds here.\<close>

definition should_use_cached_result :: "check_service \<Rightarrow> timedelta \<Rightarrow> bool" where
  "should_use_cached_result s now_monotonic =
     (case k_last_attempt_monotonic s of
        None \<Rightarrow> False
      | Some at \<Rightarrow>
          now_monotonic - at <
            seconds (if k_last_attempt_succeeded s then k_cache_seconds s
                     else k_failure_retry_seconds s))"

datatype fetch_result = Fetched "(string \<times> json) list list" | FetchRaised check_error | FetchCrashed

definition check ::
    "(string \<Rightarrow> datetime option) \<Rightarrow> timedelta \<Rightarrow> datetime \<Rightarrow> fetch_result \<Rightarrow> check_service \<Rightarrow>
     update_status_read \<times> check_service" where
  "check fromisoformat now_monotonic clock fetched s =
     (if should_use_cached_result s now_monotonic then (get_status s True, s)
      else
        let s1 = s\<lparr>k_last_attempt_monotonic := Some now_monotonic, k_last_checked_at := Some clock\<rparr>;
            failed = (\<lambda>e. s1\<lparr>k_last_attempt_succeeded := False, k_last_error := Some e\<rparr>);
            s2 = (case fetched of
                    FetchRaised e \<Rightarrow> failed e
                  | FetchCrashed \<Rightarrow> failed UnknownError
                  | Fetched releases \<Rightarrow>
                      (case select_latest fromisoformat (k_channel s) releases of
                         None \<Rightarrow> failed NoRelease
                       | Some latest \<Rightarrow>
                           s1\<lparr>k_latest_release := Some (p_info latest),
                              k_last_success_at := k_last_checked_at s1,
                              k_last_attempt_succeeded := True, k_last_error := None\<rparr>))
        in (get_status s2 False, s2))"

section \<open>Lemmas\<close>

lemma max_release_ge:
  "c \<in> set (best # cs) \<Longrightarrow> p_version c \<le> p_version (max_release best cs)"
proof (induction cs arbitrary: best c)
  case Nil
  then show ?case by simp
next
  case (Cons a cs)
  let ?b = "if p_version best < p_version a then a else best"
  have b: "p_version best \<le> p_version ?b" "p_version a \<le> p_version ?b" by auto
  have "p_version ?b \<le> p_version (max_release ?b cs)"
    using Cons.IH [of ?b ?b] by simp
  with Cons.prems Cons.IH [of c ?b] b show ?case
    by (auto simp only: max_release.simps list.set dest: order_trans)
qed

lemma max_release_in: "max_release best cs \<in> set (best # cs)"
proof (induction cs arbitrary: best)
  case Nil
  then show ?case by simp
next
  case (Cons a cs)
  then show ?case
    using Cons.IH [of best] Cons.IH [of a] by auto
qed

lemma select_latest_cases:
  assumes "select_latest fi ch rs = Some l"
  shows "l \<in> set (candidates fi ch rs)"
    and "\<And>c. c \<in> set (candidates fi ch rs) \<Longrightarrow> p_version c \<le> p_version l"
proof -
  from assms obtain c cs where c: "candidates fi ch rs = c # cs" "l = max_release c cs"
    by (auto simp: select_latest_def split: list.splits)
  then show "l \<in> set (candidates fi ch rs)" using max_release_in by simp
  show "p_version x \<le> p_version l" if "x \<in> set (candidates fi ch rs)" for x
    using max_release_ge that c by simp
qed

lemma parse_release_version:
  assumes "parse_release fi r = Some p"
  shows "parse_version (i_tag_name (p_info p)) = Some (p_version p)"
    and "i_prerelease (p_info p) \<longleftrightarrow> v_stability (p_version p) = 0"
  using assms by (auto simp: parse_release_def Let_def split: option.splits if_splits)

lemma candidatesD:
  assumes "c \<in> set (candidates fi ch rs)"
  obtains r where "r \<in> set rs" and "jget r ''draft'' \<noteq> JBool True"
    and "parse_release fi r = Some c" and "ch = Stable \<longrightarrow> \<not> i_prerelease (p_info c)"
  using assms by (auto simp: candidates_def List.map_filter_def split: option.splits if_splits)

end
