(* ===== verification/UpdateProperties.thy ===== *)
theory UpdateProperties
  imports WorkerProofs Scheduling UpdateCheck
begin

text \<open>
  The properties of the update subsystem's gate, store of operations and version check, and the
  interface through which the worker and the scheduler depend on the gate.
\<close>

section \<open>The gate as the worker sees it\<close>

text \<open>
  What the worker relies on: the gate reads nothing but the update operations, so that nothing the
  worker's own transaction does can open or close it.
\<close>

locale execution_gate =
  fixes blocked :: "db \<Rightarrow> bool"
  assumes reads_updates_only: "db_updates d' = db_updates d \<Longrightarrow> blocked d' = blocked d"
begin

lemma recovery_keeps_gate:
  "recover_leases b now ls d = Inr (n, d') \<Longrightarrow> blocked d' = blocked d"
  using reads_updates_only recover_leases_updates by blast

lemma closed_gate_pauses:
  assumes "store_inv d" and "runtime_valid w" and "blocked d"
  shows "\<exists>n d'. run_once w blocked handlers k now en d =
      (Inr \<lparr>y_status = CyclePaused, y_recovered_count = n, y_task_id = None, y_task_status = None\<rparr>, d') \<and>
    leased_tasks d' \<subseteq> leased_tasks d"
proof -
  obtain x n gated d' where eq: "recover_and_claim w blocked k now d = Inr ((x, n, gated), d')"
    using recover_and_claim_total [OF assms(2,1), of blocked k now] by auto
  then obtain ls d1 where rec: "recover_leases (w_backoff w) now ls d = Inr (n, d1)"
    and g: "blocked d1 \<Longrightarrow> gated \<and> d' = d1"
    by (auto simp: recover_and_claim_def split: if_splits option.splits)
  have "blocked d1" using recovery_keeps_gate [OF rec] assms(3) by simp
  with g have gated: "gated" by simp
  have "leased_tasks d' \<subseteq> leased_tasks d"
    using recover_and_claim_gated(3) [OF assms(1), of w blocked k now x n d'] eq gated by simp
  with eq gated show ?thesis by (simp add: run_once_def)
qed

lemma open_gate_never_pauses:
  assumes "\<not> blocked d" and "recover_and_claim w blocked k now d = Inr ((x, n, gated), d')"
  shows "\<not> gated"
proof -
  from assms(2) obtain ls d1 where rec: "recover_leases (w_backoff w) now ls d = Inr (n, d1)"
    and g: "gated \<Longrightarrow> blocked d1"
    by (auto simp: recover_and_claim_def split: if_splits option.splits)
  with recovery_keeps_gate [OF rec] assms(1) show ?thesis by auto
qed

end

interpretation gate: execution_gate "gate_blocked marker" for marker
  by unfold_locales (rule gate_blocked_updates)

section \<open>Update operations\<close>

text \<open>C11: Whatever operations are created, moved and finished, through however stale handles, at
  most one update operation is active at any time; an operation is inactive exactly when its
  status is terminal; and creating one succeeds exactly when none is active and its identifier
  is new.\<close>

theorem single_active_update:
  assumes "trace update_step es empty_db d"
  shows "(\<forall>u \<in> set (db_updates d). \<forall>u' \<in> set (db_updates d).
            u_active_slot u \<noteq> None \<and> u_active_slot u' \<noteq> None \<longrightarrow> u = u') \<and>
         (\<forall>u \<in> set (db_updates d).
            u_active_slot u = None \<longleftrightarrow> u_status u \<in> TERMINAL_UPDATE_OPERATION_STATUSES) \<and>
         (\<forall>sv st tv td oid now. st \<notin> TERMINAL_UPDATE_OPERATION_STATUSES \<longrightarrow>
            (\<exists>u d'. create_update sv st tv td oid now d = Inr (u, d')) =
              (get_active d = None \<and> get_by_operation_id d oid = None))"
proof -
  have "update_inv empty_db"
    by (simp add: update_inv_def update_unique_def unique_column_def empty_db_def)
  then have inv: "update_inv d"
    using updates.trace_keeps [OF assms] by simp
  show ?thesis
  proof (intro conjI)
    show "\<forall>u \<in> set (db_updates d). \<forall>u' \<in> set (db_updates d).
        u_active_slot u \<noteq> None \<and> u_active_slot u' \<noteq> None \<longrightarrow> u = u'"
      using update_inv_single_active [OF inv] by blast
    show "\<forall>u \<in> set (db_updates d).
        u_active_slot u = None \<longleftrightarrow> u_status u \<in> TERMINAL_UPDATE_OPERATION_STATUSES"
      using inv by (simp add: update_inv_def)
  qed (use create_update_succeeds_iff [OF inv] in blast)
qed

definition sample_update :: update_operation where
  "sample_update = \<lparr>u_id = 1, u_operation_id = ''op1'', u_status = UpDraining,
     u_active_slot = Some ''global'', u_source_version = ''1.0.0'', u_target_version = None,
     u_target_digest = None, u_error_code = None, u_error_message = None, u_completed_at = None,
     u_created_at = 10, u_updated_at = 10\<rparr>"

definition sample_updating :: db where
  "sample_updating = empty_db\<lparr>db_updates := [sample_update]\<rparr>"

lemma sample_updating_trace:
  "trace update_step [CreateUpdate ''1.0.0'' UpDraining None None ''op1'' 10] empty_db sample_updating"
proof -
  have "create_update ''1.0.0'' UpDraining None None ''op1'' 10 empty_db = Inr (sample_update, sample_updating)"
    by code_simp
  then show ?thesis by (auto intro: update_returns)
qed

theorem single_active_update_witness:
  "\<nexists>u d'. create_update ''1.0.0'' UpChecking None None ''op2'' 20 sample_updating = Inr (u, d')"
proof -
  have "get_active sample_updating \<noteq> None"
    by (simp add: get_active_def first_row_def sample_updating_def sample_update_def)
  then show ?thesis
    using single_active_update [OF sample_updating_trace]
    by (auto simp: TERMINAL_UPDATE_OPERATION_STATUSES_def)
qed

text \<open>A finished update operation is never changed again and never disappears, and finishing the
  active one through a fresh handle follows \<open>ALLOWED_UPDATE_TRANSITIONS\<close>, frees the slot for the
  next operation, and records the completion time and the error.\<close>

theorem finished_update_is_final:
  assumes tr: "trace update_step es d d1" and inv: "update_inv d"
    and u: "u \<in> set (db_updates d1)" and fin: "finish_update u st ca ec em now d1 = Inr (u', d')"
  shows "(\<forall>x \<in> set (db_updates d). u_active_slot x = None \<longrightarrow> x \<in> set (db_updates d')) \<and>
     st \<in> ALLOWED_UPDATE_TRANSITIONS (u_status u) \<and> u' \<in> set (db_updates d') \<and> u_status u' = st \<and>
     u_id u' = u_id u \<and> u_completed_at u' = Some (coalesce ca now) \<and> u_error_code u' = ec \<and>
     u_error_message u' = em \<and> get_active d' = None"
proof -
  have inv1: "update_inv d1" and kept: "terminal_kept d d1"
    using updates.trace_keeps [OF tr inv] by simp_all
  have inv': "update_inv d'" and kept': "terminal_kept d1 d'"
    using finish_update_inv [OF inv1 fin] by simp_all
  let ?u = "u\<lparr>u_status := st, u_active_slot := None, u_completed_at := Some (coalesce ca now),
           u_error_code := ec, u_error_message := em\<rparr>"
  from fin have act: "u_active_slot u = Some ''global''"
    and can: "st \<in> ALLOWED_UPDATE_TRANSITIONS (u_status u)"
    and fl: "flush_update u ?u now d1 = Inr (u', d')"
    by (auto simp: finish_update_def split: if_splits)
  have ne: "?u \<noteq> u"
  proof
    assume "?u = u"
    then have "u_active_slot ?u = u_active_slot u" by (rule arg_cong)
    with act show False by simp
  qed
  have "distinct (map u_id (db_updates d1))" using inv1 by (simp add: update_inv_def)
  from first_row_unique [OF this u]
  have row: "first_row (\<lambda>row. u_id row = u_id u) (db_updates d1) = Some u" .
  have "u' = ?u\<lparr>u_updated_at := now\<rparr> \<and> db_updates d' = put_row u (?u\<lparr>u_updated_at := now\<rparr>) (db_updates d1)"
    using fl ne row
    by (auto simp: flush_update_def Let_def write_column_self split: if_splits)
  then have u': "u' = ?u\<lparr>u_updated_at := now\<rparr>" and rows: "db_updates d' = put_row u u' (db_updates d1)"
    by simp_all
  have mem: "u' \<in> set (db_updates d')" using rows u by simp
  have "u_active_slot x = None" if "x \<in> set (db_updates d')" for x
  proof (cases "x = u'")
    case True
    then show ?thesis by (simp add: u')
  next
    case False
    then have x: "x \<in> set (db_updates d1)" "x \<noteq> u" using that rows u by auto
    have "x = u" if "u_active_slot x \<noteq> None"
      by (rule update_inv_single_active [OF inv1 x(1) u that]) (simp add: act)
    with x(2) show ?thesis by blast
  qed
  then have "get_active d' = None" using get_active_None_iff [OF inv'] by simp
  moreover have "\<forall>x \<in> set (db_updates d). u_active_slot x = None \<longrightarrow> x \<in> set (db_updates d')"
    using terminal_kept_trans [OF kept kept'] by (simp add: terminal_kept_def)
  ultimately show ?thesis using can mem by (simp add: u')
qed

theorem finished_update_is_final_witness:
  "\<exists>u' d'. finish_update sample_update UpFailed None (Some ''E'') None 30 sample_updating = Inr (u', d') \<and>
     get_active d' = None"
proof -
  have "case finish_update sample_update UpFailed None (Some ''E'') None 30 sample_updating of
      Inr _ \<Rightarrow> True | Inl _ \<Rightarrow> False"
    by code_simp
  then obtain u' d' where fin: "finish_update sample_update UpFailed None (Some ''E'') None 30 sample_updating =
      Inr (u', d')"
    by (auto split: sum.splits)
  have "update_inv empty_db"
    by (simp add: update_inv_def update_unique_def unique_column_def empty_db_def)
  moreover have "sample_update \<in> set (db_updates sample_updating)"
    by (simp add: sample_updating_def)
  ultimately show ?thesis
    using finished_update_is_final [OF sample_updating_trace _ _ fin] fin by blast
qed

section \<open>The gate\<close>

text \<open>While the update gate is closed - a pending marker is there, or the active update
  operation is draining, handing off, snapshotting, switching, verifying or rolling back - a
  worker cycle pauses and leases nothing, and a scheduler cycle changes nothing at all; while it
  is open the worker is not paused.\<close>

theorem closed_gate_stops_execution:
  assumes inv: "store_inv d" and w: "runtime_valid w"
    and closed: "(marker \<noteq> MarkerMissing \<and> marker \<noteq> MarkerDanglingLink) \<or>
      (\<exists>u. get_active d = Some u \<and> u_status u \<in> GATED_UPDATE_STATUSES)"
  shows "(\<exists>n d'. run_once w (gate_blocked marker) handlers k now en d =
            (Inr \<lparr>y_status = CyclePaused, y_recovered_count = n, y_task_id = None,
                  y_task_status = None\<rparr>, d') \<and> leased_tasks d' \<subseteq> leased_tasks d) \<and>
         (\<exists>r. scheduler_run_once marker batch clock c d = Inr (r, d) \<and> n_gated r)"
proof -
  have blocked: "gate_blocked marker d"
    using closed by (simp add: gate_blocked_iff)
  show ?thesis
    using gate.closed_gate_pauses [OF inv w blocked] blocked
    by (simp add: scheduler_run_once_def)
qed

definition sample_worker :: worker_runtime where
  "sample_worker = \<lparr>w_worker_id = ''w1'', w_lease_duration = 50, w_heartbeat_interval = 20,
     w_recovery_limit = 100,
     w_backoff = \<lparr>bo_base_delay = seconds 30, bo_max_delay = seconds 900\<rparr>\<rparr>"

theorem closed_gate_stops_execution_witness:
  "\<exists>r. scheduler_run_once MarkerMissing 10 5 5 sample_updating = Inr (r, sample_updating) \<and> n_gated r"
proof -
  have "store_inv sample_updating"
    using store_inv_empty store_inv_cong [of sample_updating empty_db] by (simp add: sample_updating_def)
  moreover have "runtime_valid sample_worker"
    by (simp add: sample_worker_def runtime_valid_def backoff_valid_def seconds_def)
  moreover have "\<exists>u. get_active sample_updating = Some u \<and> u_status u \<in> GATED_UPDATE_STATUSES"
    by (simp add: get_active_def first_row_def sample_updating_def sample_update_def
        GATED_UPDATE_STATUSES_def)
  ultimately show ?thesis
    using closed_gate_stops_execution by blast
qed

text \<open>A pending marker that is a dangling symbolic link opens the gate: the gate decides exactly
  as if there were no marker, although \<open>pending_marker_present\<close> reports one, and although a link
  that leads somewhere is rejected as unsafe.\<close>

theorem dangling_marker_opens_gate:
  "evaluate MarkerDanglingLink d = evaluate MarkerMissing d \<and>
   pending_marker_present MarkerDanglingLink \<and> \<not> pending_marker_present MarkerMissing \<and>
   gd_mode (evaluate MarkerUnsafe d) = CandidateInvalid"
  by (simp add: evaluate_def read_pending_marker_def pending_marker_present_def)

section \<open>Versions and the update check\<close>

text \<open>A printed version reads back as itself, with or without the tag's leading \<open>v\<close>, and versions
  compare by major, minor and patch number first and a release candidate is older than its
  release.\<close>

theorem version_round_trip:
  assumes "version_valid v"
  shows "parse_version (render_version v) = Some v \<and>
     parse_version (CHR ''v'' # render_version v) = Some v \<and>
     (v_stability v = 0 \<longrightarrow> v < ParsedVersion (v_major v) (v_minor v) (v_patch v) 1 0)"
  using parse_render [OF assms] parse_render_v [OF assms]
  by (simp add: less_parsed_version_def version_key_def)

theorem version_round_trip_witness:
  "parse_version ''v1.12.0-rc.3'' = Some (ParsedVersion 1 12 0 0 3)"
proof -
  have "render_version (ParsedVersion 1 12 0 0 3) = ''1.12.0-rc.3''"
    by code_simp
  with version_round_trip [of "ParsedVersion 1 12 0 0 3"] show ?thesis
    by (simp add: version_valid_def)
qed

text \<open>The release the check offers is a published one of the channel, its tag parses to its
  version and its prerelease flag agrees with it, and no other admissible release is newer; on
  the stable channel it is never a release candidate.\<close>

theorem latest_release_is_newest:
  assumes "select_latest fi ch rs = Some l"
  shows "(\<exists>r \<in> set rs. jget r ''draft'' \<noteq> JBool True \<and> parse_release fi r = Some l) \<and>
     parse_version (i_tag_name (p_info l)) = Some (p_version l) \<and>
     (ch = Stable \<longrightarrow> v_stability (p_version l) \<noteq> 0) \<and>
     (\<forall>r \<in> set rs. \<forall>p. jget r ''draft'' \<noteq> JBool True \<longrightarrow> parse_release fi r = Some p \<longrightarrow>
        (ch = Stable \<longrightarrow> v_stability (p_version p) \<noteq> 0) \<longrightarrow> p_version p \<le> p_version l)"
proof -
  note l = select_latest_cases [OF assms]
  obtain r where r: "r \<in> set rs" "jget r ''draft'' \<noteq> JBool True" "parse_release fi r = Some l"
    "ch = Stable \<longrightarrow> \<not> i_prerelease (p_info l)"
    using candidatesD [OF l(1)] by blast
  have "p_version p \<le> p_version l"
    if "x \<in> set rs" "jget x ''draft'' \<noteq> JBool True" "parse_release fi x = Some p"
      "ch = Stable \<longrightarrow> v_stability (p_version p) \<noteq> 0" for x p
  proof (rule l(2))
    show "p \<in> set (candidates fi ch rs)"
      using that parse_release_version(2) [OF that(3)]
      by (force simp: candidates_def List.map_filter_def)
  qed
  with r parse_release_version [OF r(3)] show ?thesis by blast
qed

definition sample_release :: "string \<Rightarrow> bool \<Rightarrow> (string \<times> json) list" where
  "sample_release tag pre = [(''tag_name'', JStr tag), (''published_at'', JStr ''2025-01-01T00:00:00Z''),
     (''html_url'', JStr ''u''), (''draft'', JBool False), (''prerelease'', JBool pre)]"

theorem latest_release_is_newest_witness:
  "\<exists>l. select_latest (\<lambda>_. Some 0) Stable [sample_release ''v1.2.0'' False, sample_release ''v1.3.0-rc.1'' True]
     = Some l \<and> v_stability (p_version l) \<noteq> 0"
proof -
  have "case select_latest (\<lambda>_. Some 0) Stable
      [sample_release ''v1.2.0'' False, sample_release ''v1.3.0-rc.1'' True] of
      Some l \<Rightarrow> True | None \<Rightarrow> False"
    by code_simp
  then obtain l where "select_latest (\<lambda>_. Some 0) Stable
      [sample_release ''v1.2.0'' False, sample_release ''v1.3.0-rc.1'' True] = Some l"
    by (auto split: option.splits)
  with latest_release_is_newest [OF this] show ?thesis by simp
qed

text \<open>A check that fails, whatever the reason, keeps the release that an earlier check found
  and the time it was found, and reports it as stale; a check within the cache time does not
  change the service at all; a successful one clears the error and offers an update exactly when
  the release is newer than the running version.\<close>

theorem failed_check_keeps_release:
  "(should_use_cached_result s m \<longrightarrow> check fi m c f s = (get_status s True, s)) \<and>
   (\<not> should_use_cached_result s m \<and>
      (\<forall>rs. f = Fetched rs \<longrightarrow> select_latest fi (k_channel s) rs = None) \<longrightarrow>
      (let (g, s') = check fi m c f s
       in k_latest_release s' = k_latest_release s \<and> k_last_success_at s' = k_last_success_at s \<and>
          k_last_error s' \<noteq> None \<and> g_stale g = (k_latest_release s \<noteq> None))) \<and>
   (\<forall>rs l v. \<not> should_use_cached_result s m \<and> f = Fetched rs \<and>
      select_latest fi (k_channel s) rs = Some l \<and> parse_version (i_version (p_info l)) = Some (p_version l) \<and>
      parse_version (k_current_version s) = Some v \<longrightarrow>
      (let (g, s') = check fi m c f s
       in k_last_error s' = None \<and> k_last_success_at s' = Some c \<and>
          g_status g = (if v < p_version l then UpdateAvailable else Current)))"
  by (cases f) (auto simp: check_def Let_def get_status_def split: option.splits)

theorem failed_check_keeps_release_witness:
  "k_last_error (snd (check (\<lambda>_. None) 0 0 FetchCrashed (new_check_service ''1.0.0'' 60 10))) \<noteq> None"
  using failed_check_keeps_release [of "new_check_service ''1.0.0'' 60 10" 0 "\<lambda>_. None" 0 FetchCrashed]
  by (auto simp: new_check_service_def should_use_cached_result_def Let_def split: prod.splits)

end
