(* ===== verification/Actions.thy ===== *)
theory Actions
  imports Prelude
begin

text \<open>
  Exceptions and actions: functions of the state that raise or return.  The classes are those of
  \<open>app/core/exceptions.py\<close>, \<open>app/providers/aliyundrive/errors.py\<close>,
  \<open>app/providers/pikpak/errors.py\<close> and of the services of the updater that some \<open>except\<close> or
  \<open>isinstance\<close> tells apart; \<open>CNamed\<close> is any other class of the code, by its name.
\<close>

section \<open>Exceptions\<close>

text \<open>
  An exception has a class, its \<open>code\<close> attribute if any, its text, and the attribute
  \<open>transfer_stage\<close> that \<open>_provider_step\<close> sets.  The provider's own subclasses of
  \<open>ProviderRequestError\<close> that nothing tests for are \<open>CProviderRequest\<close> with their code.
\<close>

datatype exn_class =
    CTransferCancelled | CSourceNotFound | CProviderNotConfigured | CProviderCapability
  | CProviderPagination | CProviderOther | CProviderRequest | CWriteUncertain | COperationPending
  | CAliyunRequest bool | CPikPakRequest | CPikPakCredential | CValueError
  | CScanCancelled | CSubscriptionDisabled | COutOfFuel
  | CUpdaterStateMachine | CUpdateSnapshot | CUpdaterCandidate | CUpdaterHandoff | CObservation
  | CReconciliation | CDockerEngine | CProcessLock | COSError | CNamed string | COther

record exn =
  e_class :: exn_class
  e_code :: "string option"
  e_message :: string
  e_stage :: "string option"

fun is_request_error :: "exn_class \<Rightarrow> bool" where
  "is_request_error CProviderRequest = True"
| "is_request_error CWriteUncertain = True"
| "is_request_error COperationPending = True"
| "is_request_error (CAliyunRequest _) = True"
| "is_request_error CPikPakRequest = True"
| "is_request_error CPikPakCredential = True"
| "is_request_error _ = False"

fun is_provider_error :: "exn_class \<Rightarrow> bool" where
  "is_provider_error CProviderNotConfigured = True"
| "is_provider_error CProviderCapability = True"
| "is_provider_error CProviderPagination = True"
| "is_provider_error CProviderOther = True"
| "is_provider_error c = is_request_error c"

fun is_pikpak_error :: "exn_class \<Rightarrow> bool" where
  "is_pikpak_error CPikPakRequest = True"
| "is_pikpak_error CPikPakCredential = True"
| "is_pikpak_error _ = False"

fun is_aliyun_error :: "exn_class \<Rightarrow> bool" where
  "is_aliyun_error (CAliyunRequest _) = True"
| "is_aliyun_error _ = False"

definition raise_exn :: "exn_class \<Rightarrow> string option \<Rightarrow> string \<Rightarrow> exn" where
  "raise_exn c code msg = \<lparr>e_class = c, e_code = code, e_message = msg, e_stage = None\<rparr>"

section \<open>Actions\<close>

type_synonym ('s, 'a) act = "'s \<Rightarrow> (exn + 'a) \<times> 's"

definition retA :: "'a \<Rightarrow> ('s, 'a) act" where
  "retA x s = (Inr x, s)"

definition raiseA :: "exn \<Rightarrow> ('s, 'a) act" where
  "raiseA e s = (Inl e, s)"

definition bindA :: "('s, 'a) act \<Rightarrow> ('a \<Rightarrow> ('s, 'b) act) \<Rightarrow> ('s, 'b) act" where
  "bindA m f s = (case m s of (Inl e, s') \<Rightarrow> (Inl e, s') | (Inr x, s') \<Rightarrow> f x s')"

text \<open>\<open>try m except Exception\<close>: the exception, or the value, and no exception of its own.\<close>

definition tryA :: "('s, 'a) act \<Rightarrow> ('s, exn + 'a) act" where
  "tryA m s = (case m s of (r, s') \<Rightarrow> (Inr r, s'))"

text \<open>\<open>m\<close> and then \<open>n\<close>; \<open>if not b: raise e\<close>.\<close>

abbreviation thenA :: "('s, 'a) act \<Rightarrow> ('s, 'b) act \<Rightarrow> ('s, 'b) act" where
  "thenA m n \<equiv> bindA m (\<lambda>_. n)"

definition guardA :: "bool \<Rightarrow> exn \<Rightarrow> ('s, unit) act" where
  "guardA b e = (if b then retA () else raiseA e)"

text \<open>\<open>try m finally n\<close>: an exception of \<open>n\<close> takes the place of the one of \<open>m\<close>.\<close>

definition finallyA :: "('s, 'a) act \<Rightarrow> ('s, unit) act \<Rightarrow> ('s, 'a) act" where
  "finallyA m n =
     bindA (tryA m) (\<lambda>r. thenA n (case r of Inl e \<Rightarrow> raiseA e | Inr x \<Rightarrow> retA x))"

named_theorems act_simps \<open>running actions\<close>

lemma retA_run [act_simps]: "retA x s = (Inr x, s)"
  by (simp add: retA_def)

lemma raiseA_run [act_simps]: "raiseA e s = (Inl e, s)"
  by (simp add: raiseA_def)

lemma bindA_Inr [act_simps]: "m s = (Inr x, s') \<Longrightarrow> bindA m f s = f x s'"
  by (simp add: bindA_def)

lemma bindA_Inl [act_simps]: "m s = (Inl e, s') \<Longrightarrow> bindA m f s = (Inl e, s')"
  by (simp add: bindA_def)

lemma bindA_cases:
  assumes "bindA m f s = (r, s')"
  obtains (raised) e where "m s = (Inl e, s')" and "r = Inl e"
  | (returned) x s1 where "m s = (Inr x, s1)" and "f x s1 = (r, s')"
  using assms by (cases "m s"; cases "fst (m s)") (auto simp: bindA_def)

lemma bindA_eq_Inr:
  "bindA m f s = (Inr y, s') \<longleftrightarrow> (\<exists>x s1. m s = (Inr x, s1) \<and> f x s1 = (Inr y, s'))"
  by (auto simp: bindA_def split: prod.splits sum.splits)

lemma tryA_run: "m s = (r, s') \<Longrightarrow> tryA m s = (Inr r, s')"
  by (simp add: tryA_def)

section \<open>What actions keep\<close>

text \<open>
  Whatever an action does, returning or raising, relates the state before to the state after; the
  relation is one that sequences respect.
\<close>

definition keeps :: "('s \<Rightarrow> 's \<Rightarrow> bool) \<Rightarrow> ('s, 'a) act \<Rightarrow> bool" where
  "keeps R m \<longleftrightarrow> (\<forall>s. R s (snd (m s)))"

lemma keepsI: "(\<And>w. R w (snd (m w))) \<Longrightarrow> keeps R m"
  by (simp add: keeps_def)

lemma keepsD: "keeps R m \<Longrightarrow> R w (snd (m w))"
  by (simp add: keeps_def)

lemma keeps_mono: "keeps R m \<Longrightarrow> (\<And>w w'. R w w' \<Longrightarrow> S w w') \<Longrightarrow> keeps S m"
  by (simp add: keeps_def)

locale action_contract =
  fixes R :: "'s \<Rightarrow> 's \<Rightarrow> bool"
  assumes R_refl: "R s s" and R_trans: "R s s1 \<Longrightarrow> R s1 s2 \<Longrightarrow> R s s2"
begin

lemma keeps_ret [intro, simp]: "keeps R (retA x)"
  by (simp add: keeps_def retA_def R_refl)

lemma keeps_raise [intro, simp]: "keeps R (raiseA e)"
  by (simp add: keeps_def raiseA_def R_refl)

lemma keeps_bind_returned:
  assumes "keeps R m" and "\<And>s x. fst (m s) = Inr x \<Longrightarrow> keeps R (f x)"
  shows "keeps R (bindA m f)"
  unfolding keeps_def
proof
  fix s
  show "R s (snd (bindA m f s))"
  proof (cases "m s")
    case (Pair r s1)
    then have "R s s1" using assms(1) by (auto simp: keeps_def dest: spec [of _ s])
    then show ?thesis
      using assms(2) [of s] R_trans by (cases r) (auto simp: bindA_def keeps_def Pair)
  qed
qed

lemma keeps_bind [intro]: "keeps R m \<Longrightarrow> (\<And>x. keeps R (f x)) \<Longrightarrow> keeps R (bindA m f)"
  by (rule keeps_bind_returned)

lemma keeps_guard [intro, simp]: "keeps R (guardA b e)"
  by (simp add: guardA_def)

lemma keeps_try [intro]: "keeps R m \<Longrightarrow> keeps R (tryA m)"
  by (simp add: keeps_def tryA_def split_def)

lemma keeps_finally [intro]: "keeps R m \<Longrightarrow> keeps R n \<Longrightarrow> keeps R (finallyA m n)"
  unfolding finallyA_def by (intro keeps_bind keeps_try) (auto split: sum.splits)

end

end
