(* ===== verification/Providers.thy ===== *)
theory Providers
  imports Models Versions Actions
begin

text \<open>
  What the task handlers see of the cloud drives: the interface of a provider
  (\<open>app/providers/base.py\<close>), and the paths and texts the handlers work with.
\<close>

section \<open>Providers\<close>

record share_info =
  sh_key :: string
  sh_name :: string
  sh_root_folder_id :: string

record folder_ref =
  fr_folder_id :: string
  fr_path :: string

record remote_item =
  ri_remote_file_id :: string
  ri_parent_id :: "string option"
  ri_filename :: string
  ri_item_type :: string
  ri_size :: "int option"
  ri_content_hash :: "string option"
  ri_updated_at :: "string option"
  ri_phase :: json

record remote_page =
  rp_items :: "remote_item list"
  rp_next_marker :: "string option"

record save_result =
  sr_target_file_id :: string
  sr_target_path :: string

record save_operation =
  so_completed :: bool
  so_target_file_ids :: "string list"

text \<open>
  Of an item's \<open>updated_at\<close> the code only uses \<open>isoformat()\<close>, which is what is kept here, and of its
  \<open>metadata\<close> the entry \<open>phase\<close>.
  The operations of a provider.  \<open>isinstance(provider, VerifiedExistingSaveProvider)\<close> and
  \<open>isinstance(provider, ResumableSaveProvider)\<close> are whether the optional operations are there.
  They act on the whole state: while a request is awaited, anything else may happen to it.
\<close>

record 's provider =
  pr_resolve_share :: "string \<Rightarrow> string option \<Rightarrow> ('s, share_info) act"
  pr_list_share_items :: "share_info \<Rightarrow> string \<Rightarrow> string option \<Rightarrow> ('s, remote_page) act"
  pr_ensure_folder :: "folder_ref \<Rightarrow> string \<Rightarrow> ('s, folder_ref) act"
  pr_find_target_item :: "folder_ref \<Rightarrow> string \<Rightarrow> ('s, remote_item option) act"
  pr_validate_existing :: "(remote_item \<Rightarrow> remote_item \<Rightarrow> ('s, unit) act) option"
  pr_resumable :: "((share_info \<Rightarrow> remote_item \<Rightarrow> folder_ref \<Rightarrow> ('s, string) act) \<times>
                    (string \<Rightarrow> ('s, save_operation) act)) option"
  pr_save_shared_item :: "share_info \<Rightarrow> remote_item \<Rightarrow> folder_ref \<Rightarrow> ('s, save_result) act"
  pr_consume_token :: "'s \<Rightarrow> string option \<times> 's"
  pr_consume_open_token :: "('s \<Rightarrow> string option \<times> 's) option"
  pr_request_count :: "'s \<Rightarrow> int option"

section \<open>Posix paths\<close>

text \<open>
  \<open>PurePosixPath\<close>: an anchor and the parts.  Empty parts and dots disappear; two leading slashes,
  and only two, are kept.
\<close>

record posix_path =
  pp_root :: string
  pp_parts :: "string list"

definition parse_path :: "string \<Rightarrow> posix_path" where
  "parse_path s =
     \<lparr>pp_root = (if take 2 s = ''//'' \<and> take 3 s \<noteq> ''///'' then ''//''
                 else if take 1 s = ''/'' then ''/'' else []),
      pp_parts = filter (\<lambda>p. p \<noteq> [] \<and> p \<noteq> ''.'') (split_slash s)\<rparr>"

definition join_path :: "posix_path \<Rightarrow> posix_path \<Rightarrow> posix_path" where
  "join_path a b = (if pp_root b \<noteq> [] then b else a\<lparr>pp_parts := pp_parts a @ pp_parts b\<rparr>)"

definition parent_path :: "posix_path \<Rightarrow> posix_path" where
  "parent_path p = p\<lparr>pp_parts := butlast (pp_parts p)\<rparr>"

definition path_parts :: "posix_path \<Rightarrow> string list" where
  "path_parts p = (if pp_root p = [] then [] else [pp_root p]) @ pp_parts p"

fun intercalate :: "string \<Rightarrow> string list \<Rightarrow> string" where
  "intercalate sep [] = []"
| "intercalate sep [w] = w"
| "intercalate sep (w # ws) = w @ sep @ intercalate sep ws"

definition path_str :: "posix_path \<Rightarrow> string" where
  "path_str p =
     (if pp_root p = [] \<and> pp_parts p = [] then ''.'' else pp_root p @ intercalate ''/'' (pp_parts p))"

section \<open>Texts\<close>

text \<open>\<open>x in s\<close> and \<open>removesuffix\<close>.\<close>

fun contains :: "string \<Rightarrow> string \<Rightarrow> bool" where
  "contains p [] = (p = [])"
| "contains p (c # s) = (take (length p) (c # s) = p \<or> contains p s)"

definition removesuffix :: "string \<Rightarrow> string \<Rightarrow> string" where
  "removesuffix p s =
     (if p \<noteq> [] \<and> length p \<le> length s \<and> drop (length s - length p) s = p
      then take (length s - length p) s else s)"

end
