(* ===== verification/TransferOperation.thy ===== *)
theory TransferOperation
  imports Providers
begin

text \<open>
  The remote part of a transfer (\<open>app/services/transfer_operation.py\<close>): resolving the share,
  preparing the target folder, and saving the file through the provider, with the write intent and
  the provider's operation identifier recorded around the write.
\<close>

section \<open>Definitions\<close>

record transfer_spec =
  ts_share_url :: string
  ts_share_password :: "string option"
  ts_target_path :: string
  ts_remote_file_id :: string
  ts_parent_remote_file_id :: "string option"
  ts_filename :: string
  ts_relative_path :: string
  ts_item_type :: string
  ts_size :: "int option"
  ts_content_hash :: "string option"

record transfer_result =
  tr_target_file_id :: string
  tr_target_path :: string
  tr_already_existed :: bool

definition cancelled_exn :: "string \<Rightarrow> exn" where
  "cancelled_exn msg = raise_exn CTransferCancelled None msg"

definition write_uncertain_exn :: exn where
  "write_uncertain_exn = raise_exn CWriteUncertain (Some ''PROVIDER_WRITE_UNCERTAIN'')
     ''cloud-drive operation was accepted but its ID was not persisted''"

definition operation_pending_exn :: "string \<Rightarrow> exn" where
  "operation_pending_exn msg = raise_exn COperationPending (Some ''PROVIDER_OPERATION_PENDING'') msg"

text \<open>A \<open>ProviderRequestError\<close> that passes a step is marked with the step.\<close>

definition provider_step :: "string \<Rightarrow> ('s, 'a) act \<Rightarrow> ('s, 'a) act" where
  "provider_step stage request s =
     (case request s of
        (Inl e, s') \<Rightarrow>
          (Inl (if is_request_error (e_class e) then e\<lparr>e_stage := Some stage\<rparr> else e), s')
      | (Inr x, s') \<Rightarrow> (Inr x, s'))"

text \<open>Raise \<open>TransferCancelledError\<close> when the probe says so.\<close>

definition stop_if_cancelled :: "('s, bool) act \<Rightarrow> string \<Rightarrow> ('s, unit) act" where
  "stop_if_cancelled probe msg =
     bindA probe (\<lambda>c. if c then raiseA (cancelled_exn msg) else retA ())"

fun ensure_parts ::
    "'s provider \<Rightarrow> ('s, bool) act \<Rightarrow> string list \<Rightarrow> folder_ref \<Rightarrow> ('s, folder_ref) act" where
  "ensure_parts p probe [] target = retA target"
| "ensure_parts p probe (part # parts) target =
     (if part \<in> {[], ''.'', ''/''} then ensure_parts p probe parts target
      else
      bindA (stop_if_cancelled probe ''transfer cancelled before target folder preparation'') (\<lambda>_.
      bindA (pr_ensure_folder p target part) (\<lambda>target'.
      ensure_parts p probe parts target')))"

definition ensure_target_folder ::
    "'s provider \<Rightarrow> ('s, bool) act \<Rightarrow> string \<Rightarrow> string \<Rightarrow> ('s, folder_ref) act" where
  "ensure_target_folder p probe root_path relative_path =
     ensure_parts p probe
       (path_parts (join_path (parse_path root_path) (parent_path (parse_path relative_path))))
       \<lparr>fr_folder_id = ''root'', fr_path = ''/''\<rparr>"

definition source_item :: "transfer_spec \<Rightarrow> remote_item" where
  "source_item spec =
     \<lparr>ri_remote_file_id = ts_remote_file_id spec, ri_parent_id = ts_parent_remote_file_id spec,
      ri_filename = ts_filename spec, ri_item_type = ts_item_type spec, ri_size = ts_size spec,
      ri_content_hash = ts_content_hash spec, ri_updated_at = None, ri_phase = JNull\<rparr>"

definition target_file_path :: "folder_ref \<Rightarrow> transfer_spec \<Rightarrow> string" where
  "target_file_path target spec =
     path_str (join_path (parse_path (fr_path target)) (parse_path (ts_filename spec)))"

text \<open>Submitting the copy: intent first, then the write, then its identifier.\<close>

definition submit_save ::
    "(share_info \<Rightarrow> remote_item \<Rightarrow> folder_ref \<Rightarrow> ('s, string) act) \<Rightarrow> ('s, unit) act \<Rightarrow>
     (string \<Rightarrow> ('s, unit) act) \<Rightarrow> share_info \<Rightarrow> remote_item \<Rightarrow> folder_ref \<Rightarrow> ('s, string) act" where
  "submit_save start record_write_intent record_provider_operation share source target =
     bindA record_write_intent (\<lambda>_.
     bindA (provider_step ''submit shared file copy'' (start share source target)) (\<lambda>operation_id.
     bindA (tryA (record_provider_operation operation_id)) (\<lambda>recorded.
     case recorded of
       Inl _ \<Rightarrow> raiseA write_uncertain_exn
     | Inr _ \<Rightarrow> retA operation_id)))"

definition save_item ::
    "'s provider \<Rightarrow> string option \<Rightarrow> ('s, unit) act \<Rightarrow> (string \<Rightarrow> ('s, unit) act) \<Rightarrow>
     transfer_spec \<Rightarrow> share_info \<Rightarrow> remote_item \<Rightarrow> folder_ref \<Rightarrow> ('s, save_result) act" where
  "save_item p provider_operation_id record_write_intent record_provider_operation
     spec share source target =
     (case pr_resumable p of
        Some (start, query) \<Rightarrow>
          bindA (case provider_operation_id of
                   Some operation_id \<Rightarrow> retA operation_id
                 | None \<Rightarrow> submit_save start record_write_intent record_provider_operation
                             share source target) (\<lambda>operation_id.
          bindA (provider_step ''check copy result'' (query operation_id)) (\<lambda>operation.
          if \<not> so_completed operation
          then raiseA (operation_pending_exn ''cloud-drive save operation is still pending'')
          else case so_target_file_ids operation of
                 [fid] \<Rightarrow> retA \<lparr>sr_target_file_id = fid, sr_target_path = target_file_path target spec\<rparr>
               | _ \<Rightarrow> raiseA (operation_pending_exn
                        ''cloud-drive save result requires manual reconciliation'')))
      | None \<Rightarrow> provider_step ''copy shared file'' (pr_save_shared_item p share source target))"

definition execute_transfer ::
    "'s provider \<Rightarrow> transfer_spec \<Rightarrow> ('s, bool) act \<Rightarrow> string option \<Rightarrow> ('s, unit) act \<Rightarrow>
     (string \<Rightarrow> ('s, unit) act) \<Rightarrow> ('s, transfer_result) act" where
  "execute_transfer p spec probe provider_operation_id record_write_intent record_provider_operation =
     bindA (stop_if_cancelled probe ''transfer cancelled before provider access'') (\<lambda>_.
     bindA (provider_step ''resolve share''
              (pr_resolve_share p (ts_share_url spec) (ts_share_password spec))) (\<lambda>share.
     bindA (provider_step ''prepare target directory''
              (ensure_target_folder p probe (ts_target_path spec) (ts_relative_path spec))) (\<lambda>target.
     let source = source_item spec in
     bindA (if provider_operation_id = None
            then provider_step ''check existing target file''
                   (pr_find_target_item p target (ts_filename spec))
            else retA None) (\<lambda>existing.
     case existing of
       Some item \<Rightarrow>
         bindA (case pr_validate_existing p of None \<Rightarrow> retA () | Some v \<Rightarrow> v source item) (\<lambda>_.
         retA \<lparr>tr_target_file_id = ri_remote_file_id item,
               tr_target_path = target_file_path target spec, tr_already_existed = True\<rparr>)
     | None \<Rightarrow>
         bindA (stop_if_cancelled probe ''transfer cancelled before remote save'') (\<lambda>_.
         bindA (save_item p provider_operation_id record_write_intent record_provider_operation
                  spec share source target) (\<lambda>result.
         retA \<lparr>tr_target_file_id = sr_target_file_id result,
               tr_target_path = sr_target_path result, tr_already_existed = False\<rparr>))))))"

section \<open>Lemmas\<close>

lemma bindA_retA [simp]: "bindA (retA x) f = f x"
  by (rule ext) (simp add: bindA_def retA_def)

lemma provider_step_Inr [simp]: "provider_step st m s = (Inr x, s') \<longleftrightarrow> m s = (Inr x, s')"
  by (auto simp: provider_step_def split: prod.splits sum.splits)

lemma provider_step_Inl:
  assumes "provider_step st m s = (Inl e, s')"
  obtains e0 where "m s = (Inl e0, s')" and "e_class e = e_class e0"
    and "is_request_error (e_class e0) \<Longrightarrow> e_stage e = Some st"
  using assms by (auto simp: provider_step_def split: prod.splits sum.splits if_splits)

lemma stop_if_cancelled_Inr:
  "stop_if_cancelled probe msg s = (Inr u, s') \<longleftrightarrow> probe s = (Inr False, s')"
  by (auto simp: stop_if_cancelled_def bindA_def retA_def raiseA_def split: prod.splits sum.splits if_splits)

text \<open>Folders do not depend on how the provider saves.\<close>

lemma ensure_parts_cong:
  assumes "pr_ensure_folder p' = pr_ensure_folder p"
  shows "ensure_parts p' probe parts = ensure_parts p probe parts"
proof (induction parts)
  case Nil
  show ?case by (rule ext) simp
next
  case (Cons part parts)
  show ?case by (rule ext) (simp add: Cons assms)
qed

lemma ensure_target_folder_cong:
  "pr_ensure_folder p' = pr_ensure_folder p \<Longrightarrow>
     ensure_target_folder p' probe r rel = ensure_target_folder p probe r rel"
  unfolding ensure_target_folder_def by (rule fun_cong [OF ensure_parts_cong])

text \<open>
  A known operation is only asked about: neither the target nor the write operations of the
  provider are used.
\<close>

lemma execute_known_operation:
  "execute_transfer p spec probe (Some oid) intent rec =
     bindA (stop_if_cancelled probe ''transfer cancelled before provider access'') (\<lambda>_.
     bindA (provider_step ''resolve share''
              (pr_resolve_share p (ts_share_url spec) (ts_share_password spec))) (\<lambda>share.
     bindA (provider_step ''prepare target directory''
              (ensure_target_folder p probe (ts_target_path spec) (ts_relative_path spec))) (\<lambda>target.
     bindA (stop_if_cancelled probe ''transfer cancelled before remote save'') (\<lambda>_.
     bindA (save_item p (Some oid) intent rec spec share (source_item spec) target) (\<lambda>result.
     retA \<lparr>tr_target_file_id = sr_target_file_id result,
           tr_target_path = sr_target_path result, tr_already_existed = False\<rparr>)))))"
  by (simp add: execute_transfer_def Let_def)

lemma known_operation_only_queried:
  assumes "pr_resumable p = Some (start, query)"
  shows "execute_transfer p spec probe (Some oid) intent rec =
    execute_transfer (p\<lparr>pr_find_target_item := find', pr_validate_existing := v',
      pr_resumable := Some (start', query), pr_save_shared_item := save'\<rparr>)
      spec probe (Some oid) intent' rec'" (is "_ = execute_transfer ?q _ _ _ _ _")
proof -
  have folder: "ensure_target_folder ?q = ensure_target_folder p"
    by (intro ext ensure_target_folder_cong) simp
  have save: "save_item ?q (Some oid) intent' rec' = save_item p (Some oid) intent rec"
    by (intro ext) (simp add: save_item_def assms)
  show ?thesis
    unfolding execute_known_operation folder save by simp
qed

text \<open>The write is only started in a state in which the intent has just been recorded.\<close>

definition guarded_start ::
    "('s \<Rightarrow> bool) \<Rightarrow> exn \<Rightarrow> (share_info \<Rightarrow> remote_item \<Rightarrow> folder_ref \<Rightarrow> ('s, string) act) \<Rightarrow>
     share_info \<Rightarrow> remote_item \<Rightarrow> folder_ref \<Rightarrow> ('s, string) act" where
  "guarded_start ok e start share source target s =
     (if ok s then start share source target s else (Inl e, s))"

lemma submit_save_after_intent:
  assumes "\<And>s s'. intent s = (Inr (), s') \<Longrightarrow> ok s'"
  shows "submit_save (guarded_start ok e start) intent rec share source target =
    submit_save start intent rec share source target"
proof
  fix s
  show "submit_save (guarded_start ok e start) intent rec share source target s =
      submit_save start intent rec share source target s"
  proof (cases "intent s")
    case (Pair r s1)
    show ?thesis
    proof (cases r)
      case (Inl e1)
      with Pair show ?thesis by (simp add: submit_save_def bindA_def)
    next
      case (Inr u)
      with Pair assms [of s s1] have "ok s1" by simp
      then have "guarded_start ok e start share source target s1 = start share source target s1"
        by (simp add: guarded_start_def)
      with Pair Inr show ?thesis
        by (simp add: submit_save_def bindA_def provider_step_def)
    qed
  qed
qed

lemma write_follows_intent:
  assumes "pr_resumable p = Some (start, query)"
    and "\<And>s s'. intent s = (Inr (), s') \<Longrightarrow> ok s'"
  shows "execute_transfer (p\<lparr>pr_resumable := Some (guarded_start ok e start, query)\<rparr>)
      spec probe oid intent rec = execute_transfer p spec probe oid intent rec"
proof -
  let ?q = "p\<lparr>pr_resumable := Some (guarded_start ok e start, query)\<rparr>"
  have save: "save_item ?q oid intent rec = save_item p oid intent rec"
    by (intro ext, cases oid)
      (simp_all add: save_item_def assms(1) submit_save_after_intent [OF assms(2)])
  have folder: "ensure_target_folder ?q = ensure_target_folder p"
    by (intro ext ensure_target_folder_cong) simp
  have fields: "pr_resolve_share ?q = pr_resolve_share p"
      "pr_find_target_item ?q = pr_find_target_item p"
      "pr_validate_existing ?q = pr_validate_existing p"
    by simp_all
  show ?thesis
    unfolding execute_transfer_def save folder fields by (rule refl)
qed

text \<open>An accepted write whose identifier cannot be recorded is reported as uncertain.\<close>

lemma unrecorded_write_is_uncertain:
  assumes "intent s = (Inr (), s1)" and "start share source target s1 = (Inr oid, s2)"
    and "rec oid s2 = (Inl e, s3)"
  shows "submit_save start intent rec share source target s = (Inl write_uncertain_exn, s3)"
  using assms by (simp add: submit_save_def bindA_def provider_step_def tryA_def raiseA_def)

end
