(* ===== verification/World.thy ===== *)
theory World
  imports Providers TaskRepository
begin

text \<open>
  The state the task handlers act on: the database with the accounts and the folder checkpoints
  (\<open>app/models/cloud_account.py\<close>, \<open>app/models/folder_checkpoint.py\<close>), and the rest of the world,
  which holds the clock and the state of the providers; and the accesses to it that the handlers
  share.
\<close>

section \<open>Rows\<close>

record cloud_account =
  ca_id :: int
  ca_provider :: string
  ca_name :: string
  ca_refresh_token :: string
  ca_account_identity :: "string option"
  ca_provider_user_id :: "string option"
  ca_default_drive_id :: "string option"
  ca_status :: string
  ca_last_verified_at :: "datetime option"
  ca_last_error :: "string option"
  ca_open_auth_mode :: "string option"
  ca_open_refresh_token :: "string option"
  ca_open_client_id :: "string option"
  ca_open_client_secret :: "string option"
  ca_open_token_url :: "string option"
  ca_open_account_identity :: "string option"
  ca_open_status :: "string option"
  ca_open_last_verified_at :: "datetime option"
  ca_open_last_error :: "string option"

record folder_checkpoint =
  cp_id :: int
  cp_subscription_id :: int
  cp_remote_folder_id :: string
  cp_relative_path :: string
  cp_last_scanned_at :: "datetime option"
  cp_last_seen_at :: datetime

record 'p world =
  wo_db :: db
  wo_accounts :: "cloud_account list"
  wo_checkpoints :: "folder_checkpoint list"
  wo_rest :: 'p

definition integrity_exn :: exn where
  "integrity_exn = raise_exn COther None ''IntegrityError''"

section \<open>Files and subscriptions\<close>

definition get_file :: "db \<Rightarrow> int \<Rightarrow> cloud_file option" where
  "get_file d fid = first_row (\<lambda>f. f_id f = fid) (db_files d)"

definition put_file :: "int \<Rightarrow> (cloud_file \<Rightarrow> cloud_file) \<Rightarrow> 'p world \<Rightarrow> 'p world" where
  "put_file fid g w =
     w\<lparr>wo_db := (wo_db w)\<lparr>db_files :=
       update_rows (\<lambda>f. f_id f = fid) g (db_files (wo_db w))\<rparr>\<rparr>"

definition get_subscription :: "db \<Rightarrow> int \<Rightarrow> subscription option" where
  "get_subscription d sid = first_row (\<lambda>s. s_id s = sid) (db_subscriptions d)"

definition put_subscription :: "int \<Rightarrow> (subscription \<Rightarrow> subscription) \<Rightarrow> 'p world \<Rightarrow> 'p world" where
  "put_subscription sid g w =
     w\<lparr>wo_db := (wo_db w)\<lparr>db_subscriptions :=
       update_rows (\<lambda>s. s_id s = sid) g (db_subscriptions (wo_db w))\<rparr>\<rparr>"

section \<open>Accounts and passwords\<close>

definition decrypt_share_password :: "(string \<Rightarrow> exn + string) \<Rightarrow> subscription \<Rightarrow> exn + string option" where
  "decrypt_share_password decrypt s =
     (case s_share_password s of
        None \<Rightarrow> Inr None
      | Some c \<Rightarrow> if c = [] then Inr None else bindR (decrypt c) (\<lambda>p. Inr (Some p)))"

text \<open>What \<open>persist_provider_token\<close> does with one rotated token, and with the account.\<close>

definition encrypt_rotated :: "(string \<Rightarrow> exn + string) \<Rightarrow> string option \<Rightarrow> exn + string option" where
  "encrypt_rotated encrypt rotated =
     (case rotated of
        None \<Rightarrow> Inr None
      | Some tok \<Rightarrow> if tok = [] then Inr None else bindR (encrypt tok) (\<lambda>c. Inr (Some c)))"

definition rotate_token ::
    "(string \<Rightarrow> exn + string) \<Rightarrow> ('s \<Rightarrow> string option \<times> 's) \<Rightarrow> ('s, string option) act" where
  "rotate_token encrypt consume w = (let (rotated, w1) = consume w in (encrypt_rotated encrypt rotated, w1))"

definition store_tokens ::
    "string option \<Rightarrow> string option \<Rightarrow> cloud_account \<Rightarrow> cloud_account" where
  "store_tokens c oc a =
     a\<lparr>ca_refresh_token := coalesce c (ca_refresh_token a),
       ca_open_refresh_token := (case oc of None \<Rightarrow> ca_open_refresh_token a | Some x \<Rightarrow> Some x)\<rparr>"

definition rotate_tokens ::
    "(string \<Rightarrow> exn + string) \<Rightarrow> 's provider \<Rightarrow> ('s, string option \<times> string option) act" where
  "rotate_tokens encrypt p =
     bindA (rotate_token encrypt (pr_consume_token p)) (\<lambda>c.
     bindA (case pr_consume_open_token p of
              None \<Rightarrow> retA None | Some consume \<Rightarrow> rotate_token encrypt consume) (\<lambda>oc.
     retA (c, oc)))"

definition put_account :: "int \<Rightarrow> (cloud_account \<Rightarrow> cloud_account) \<Rightarrow> 'p world \<Rightarrow> 'p world" where
  "put_account aid g w = w\<lparr>wo_accounts := update_rows (\<lambda>a. ca_id a = aid) g (wo_accounts w)\<rparr>"

definition store_rotated_tokens ::
    "(string \<Rightarrow> exn + string) \<Rightarrow> int \<Rightarrow> 'p world provider \<Rightarrow> ('p world, unit) act" where
  "store_rotated_tokens encrypt account_id p =
     bindA (rotate_tokens encrypt p) (\<lambda>(c, oc) w.
       (Inr (), put_account account_id (store_tokens c oc) w))"

end
