(* ===== verification/TransferHandler.thy ===== *)
theory TransferHandler
  imports TransferOperation World WorkerRuntime
begin

text \<open>
  The handler of transfer tasks (\<open>app/task_engine/transfer_handler.py\<close>): its payload, the
  transactions it makes around the remote operation, the classification of failures, and the
  outcome it returns to the worker.
\<close>

section \<open>The environment of the handler\<close>

text \<open>
  What the handler is given: \<open>te_enter\<close> opens a session, before which the other processes may have
  done anything, and may be refused by the database; \<open>te_cancelled\<close> is the worker's cancellation
  probe; then the constructor's arguments.  \<open>te_runtime_provider\<close> is there when the provider factory
  is the default one.
\<close>

record 'p transfer_env =
  te_enter :: "('p world, unit) act"
  te_clock :: "'p world \<Rightarrow> datetime"
  te_cancelled :: "('p world, bool) act"
  te_factory :: "string \<Rightarrow> string \<Rightarrow> string option \<Rightarrow> exn + 'p world provider"
  te_runtime_provider :: "(cloud_account \<Rightarrow> string option \<Rightarrow> exn + 'p world provider) option"
  te_decrypt :: "string \<Rightarrow> exn + string"
  te_encrypt :: "string \<Rightarrow> exn + string"

definition transaction :: "'p transfer_env \<Rightarrow> ('p world, 'a) act \<Rightarrow> ('p world, 'a) act" where
  "transaction env body = bindA (te_enter env) (\<lambda>_. body)"

section \<open>Payload and source\<close>

definition parse_transfer_payload :: "task_invocation \<Rightarrow> string + int \<times> int" where
  "parse_transfer_payload i =
     (if i_task_type i \<noteq> ''transfer'' then Inl (''transfer handler requires task type '' @ py_repr ''transfer'')
      else if i_payload_version i \<noteq> 1
      then Inl (''unsupported transfer payload version '' @ int_str (i_payload_version i))
      else case (i_subscription_id i, i_file_id i) of
             (Some sid, Some fid) \<Rightarrow>
               if i_payload i \<noteq> [] then Inl ''transfer payload v1 does not accept extra fields''
               else Inr (sid, fid)
           | _ \<Rightarrow> Inl ''transfer payload v1 requires subscription_id and file_id'')"

record 'p transfer_source =
  src_file_id :: int
  src_account_id :: int
  src_provider_type :: string
  src_refresh_token :: string
  src_target_drive_id :: "string option"
  src_spec :: transfer_spec
  src_runtime_provider :: "'p world provider option"

definition source_not_found :: "string \<Rightarrow> exn" where
  "source_not_found msg = raise_exn CSourceNotFound None msg"

definition transfer_spec_of :: "subscription \<Rightarrow> string option \<Rightarrow> cloud_file \<Rightarrow> transfer_spec" where
  "transfer_spec_of s password f =
     \<lparr>ts_share_url = s_share_url s, ts_share_password = password,
      ts_target_path = s_target_path s, ts_remote_file_id = f_remote_file_id f,
      ts_parent_remote_file_id = f_parent_remote_file_id f, ts_filename = f_filename f,
      ts_relative_path = f_relative_path f, ts_item_type = f_item_type f, ts_size = f_size f,
      ts_content_hash = f_content_hash f\<rparr>"

text \<open>
  \<open>file.subscription\<close> and \<open>subscription.cloud_account\<close> follow foreign keys that SQLite enforces; a
  missing row is an \<open>AttributeError\<close>.
\<close>

definition read_source :: "'p transfer_env \<Rightarrow> int \<Rightarrow> int \<Rightarrow> 'p world \<Rightarrow> exn + 'p transfer_source" where
  "read_source env sid fid w =
     (case get_file (wo_db w) fid of
        None \<Rightarrow> Inl (source_not_found ''transfer source file or subscription was not found'')
      | Some f \<Rightarrow>
     if f_subscription_id f \<noteq> sid
     then Inl (source_not_found ''transfer source file or subscription was not found'')
     else case first_row (\<lambda>s. s_id s = sid) (db_subscriptions (wo_db w)) of
        None \<Rightarrow> Inl (raise_exn COther None ''AttributeError'')
      | Some s \<Rightarrow>
     case first_row (\<lambda>a. ca_id a = s_cloud_account_id s) (wo_accounts w) of
        None \<Rightarrow> Inl (raise_exn COther None ''AttributeError'')
      | Some a \<Rightarrow>
     bindR (te_decrypt env (ca_refresh_token a)) (\<lambda>token.
     bindR (case te_runtime_provider env of
              None \<Rightarrow> Inr None
            | Some runtime_for \<Rightarrow> bindR (runtime_for a (s_target_drive_id s)) (\<lambda>p. Inr (Some p))) (\<lambda>runtime.
     bindR (decrypt_share_password (te_decrypt env) s) (\<lambda>password.
     Inr \<lparr>src_file_id = f_id f, src_account_id = ca_id a, src_provider_type = ca_provider a,
          src_refresh_token = token, src_target_drive_id = s_target_drive_id s,
          src_spec = transfer_spec_of s password f, src_runtime_provider = runtime\<rparr>))))"

definition load_source ::
    "'p transfer_env \<Rightarrow> int \<Rightarrow> int \<Rightarrow> ('p world, 'p transfer_source) act" where
  "load_source env sid fid = transaction env (\<lambda>w. (read_source env sid fid w, w))"

section \<open>Transactions on the file and the task\<close>

text \<open>\<open>_require_file\<close>, then the assignments to the row.\<close>

definition update_file :: "int \<Rightarrow> (cloud_file \<Rightarrow> cloud_file) \<Rightarrow> ('p world, unit) act" where
  "update_file fid g w =
     (case get_file (wo_db w) fid of
        None \<Rightarrow> (Inl (source_not_found ''transfer source file was not found''), w)
      | Some _ \<Rightarrow> (Inr (), put_file fid g w))"

text \<open>
  The flush of a task the handler has changed: an \<open>UPDATE\<close> when something is different, with a
  new \<open>updated_at\<close>.
\<close>

definition flush_task :: "datetime \<Rightarrow> task \<Rightarrow> task \<Rightarrow> ('p world, unit) act" where
  "flush_task now t t' w =
     (if t' = t then (Inr (), w)
      else case sql_update_tasks (\<lambda>r. t_id r = t_id t) (\<lambda>_. t'\<lparr>t_updated_at := now\<rparr>) (wo_db w) of
        Inl _ \<Rightarrow> (Inl integrity_exn, w)
      | Inr (_, d') \<Rightarrow> (Inr (), w\<lparr>wo_db := d'\<rparr>))"

definition mark_saving :: "'p transfer_env \<Rightarrow> int \<Rightarrow> ('p world, unit) act" where
  "mark_saving env fid =
     transaction env (update_file fid (\<lambda>f. f\<lparr>f_status := ''saving'', f_last_error := None\<rparr>))"

definition task_not_found :: exn where
  "task_not_found = source_not_found ''transfer task was not found''"

definition record_write_intent :: "'p transfer_env \<Rightarrow> int \<Rightarrow> ('p world, unit) act" where
  "record_write_intent env task_id =
     transaction env (\<lambda>w.
       case get_task (wo_db w) task_id of
         None \<Rightarrow> (Inl task_not_found, w)
       | Some t \<Rightarrow>
           if t_provider_operation_id t \<noteq> None then (Inr (), w)
           else flush_task (te_clock env w) t
                  (t\<lparr>t_provider_write_intent_at :=
                       Some (coalesce (t_provider_write_intent_at t) (te_clock env w)),
                     t_provider_operation_status := Some OpIntent\<rparr>) w)"

definition record_provider_operation ::
    "'p transfer_env \<Rightarrow> int \<Rightarrow> string \<Rightarrow> ('p world, unit) act" where
  "record_provider_operation env task_id operation_id =
     transaction env (\<lambda>w.
       case get_task (wo_db w) task_id of
         None \<Rightarrow> (Inl task_not_found, w)
       | Some t \<Rightarrow>
           if t_provider_operation_id t \<notin> {None, Some operation_id}
           then (Inl (raise_exn COther None
                        ''transfer task already has another provider operation''), w)
           else flush_task (te_clock env w) t
                  (t\<lparr>t_provider_operation_id := Some operation_id,
                     t_provider_operation_status := Some OpPending\<rparr>) w)"

definition record_provider_success ::
    "'p transfer_env \<Rightarrow> int \<Rightarrow> transfer_result \<Rightarrow> ('p world, unit) act" where
  "record_provider_success env task_id result =
     transaction env (\<lambda>w.
       case get_task (wo_db w) task_id of
         None \<Rightarrow> (Inl task_not_found, w)
       | Some t \<Rightarrow>
           if t_provider_operation_id t = None then (Inr (), w)
           else flush_task (te_clock env w) t
                  (t\<lparr>t_provider_operation_status := Some OpSucceeded,
                     t_provider_result :=
                       Some [(''target_file_id'', JStr (tr_target_file_id result)),
                             (''target_path'', JStr (tr_target_path result))]\<rparr>) w)"

definition record_provider_uncertain :: "'p transfer_env \<Rightarrow> int \<Rightarrow> ('p world, unit) act" where
  "record_provider_uncertain env task_id =
     transaction env (\<lambda>w.
       case get_task (wo_db w) task_id of
         None \<Rightarrow> (Inr (), w)
       | Some t \<Rightarrow>
           if t_provider_operation_id t = None
           then flush_task (te_clock env w) t (t\<lparr>t_provider_operation_status := Some OpUncertain\<rparr>) w
           else (Inr (), w))"

definition mark_success :: "'p transfer_env \<Rightarrow> int \<Rightarrow> transfer_result \<Rightarrow> ('p world, unit) act" where
  "mark_success env fid result =
     transaction env (\<lambda>w. update_file fid (\<lambda>f. f\<lparr>f_status := ''saved'',
       f_target_file_id := Some (tr_target_file_id result),
       f_target_path := Some (tr_target_path result),
       f_saved_at := Some (te_clock env w), f_last_error := None\<rparr>) w)"

definition mark_cancelled :: "'p transfer_env \<Rightarrow> int \<Rightarrow> ('p world, unit) act" where
  "mark_cancelled env fid =
     transaction env (\<lambda>w.
       case get_file (wo_db w) fid of
         None \<Rightarrow> (Inr (), w)
       | Some _ \<Rightarrow> (Inr (), put_file fid (\<lambda>f. f\<lparr>f_status := ''pending'',
                      f_last_error := Some ''transfer cancelled''\<rparr>) w))"

section \<open>Failures\<close>

datatype failure_status = FailRetry | FailFailed | FailWaitingCredential

record failure_disposition =
  fd_status :: failure_status
  fd_error_code :: string
  fd_safe_message :: string
  fd_blocked_reason :: "string option"

definition credential_error_markers :: "string list" where
  "credential_error_markers =
     [''refresh token'', ''refreshtoken'', ''access token'', ''accesstoken'', ''invalid_grant'',
      ''token expired'', ''token is expired'', ''token invalid'', ''token is invalid'',
      ''unauthorized'']"

text \<open>Every \<open>ProviderError\<close> has a \<open>code\<close>; another exception may lack it.\<close>

definition exn_code :: "exn \<Rightarrow> string" where
  "exn_code e = coalesce (e_code e) ''TRANSFER_EXECUTION_FAILED''"

definition disposition :: "failure_status \<Rightarrow> string \<Rightarrow> string \<Rightarrow> failure_disposition" where
  "disposition st code msg =
     \<lparr>fd_status = st, fd_error_code = code, fd_safe_message = msg, fd_blocked_reason = None\<rparr>"

definition credential_failure :: "exn \<Rightarrow> bool" where
  "credential_failure e \<longleftrightarrow>
     (let message = lower (e_message e) in
      (e_class e = CValueError \<and> contains ''credential'' message) \<or>
      (is_request_error (e_class e) \<and> (\<exists>marker \<in> set credential_error_markers. contains marker message)) \<or>
      e_class e = CPikPakCredential \<or> e_class e = CAliyunRequest True)"

definition transfer_stages :: "string list" where
  "transfer_stages =
     [''resolve share'', ''prepare target directory'', ''check existing target file'',
      ''submit shared file copy'', ''check copy result'', ''copy shared file'']"

definition request_failure_message :: "exn \<Rightarrow> string" where
  "request_failure_message e =
     (let safe = (if is_aliyun_error (e_class e) \<or> is_pikpak_error (e_class e) \<or>
                     take 6 (exn_code e) = ''QUARK_'' \<or> take 7 (exn_code e) = ''PAN123_''
                  then e_message e else ''cloud-drive request failed and can be retried'')
      in case e_stage e of
           Some stage \<Rightarrow>
             if is_aliyun_error (e_class e) \<and> stage \<in> set transfer_stages
             then ''Transfer step: '' @ stage @ ''; '' @ safe else safe
         | None \<Rightarrow> safe)"

definition classify_failure :: "exn \<Rightarrow> failure_disposition" where
  "classify_failure e =
     (if e_class e = CSourceNotFound
      then disposition FailFailed ''TRANSFER_SOURCE_NOT_FOUND''
             ''transfer source file, subscription, or account was not found''
      else if e_class e = CProviderNotConfigured
      then disposition FailFailed (exn_code e) ''cloud-drive provider is not configured''
      else if e_class e = CProviderCapability
      then disposition FailFailed (exn_code e) ''cloud-drive provider does not support this transfer''
      else if credential_failure e
      then \<lparr>fd_status = FailWaitingCredential, fd_error_code = ''CREDENTIAL_INVALID'',
             fd_safe_message = (if is_aliyun_error (e_class e) \<or> is_pikpak_error (e_class e)
                                then e_message e
                                else ''cloud-drive credential is invalid or expired''),
             fd_blocked_reason = Some ''cloud-drive credential requires user action''\<rparr>
      else if is_request_error (e_class e)
      then if e_class e = CWriteUncertain
           then disposition FailFailed (exn_code e)
                  ''cloud-drive write result is uncertain and requires reconciliation''
           else disposition FailRetry (exn_code e) (request_failure_message e)
      else if is_provider_error (e_class e)
      then disposition FailFailed (exn_code e) ''cloud-drive provider configuration is invalid''
      else disposition FailRetry (exn_code e) ''cloud-drive transfer failed and can be retried'')"

definition retry_exhausted :: "task_invocation \<Rightarrow> failure_disposition \<Rightarrow> bool" where
  "retry_exhausted i fd \<longleftrightarrow> fd_status fd = FailRetry \<and> i_max_retries i \<le> i_retry_count i"

definition failure_for_context :: "exn \<Rightarrow> task_invocation \<Rightarrow> failure_disposition" where
  "failure_for_context e i =
     (let fd = classify_failure e in
      if retry_exhausted i fd
      then fd\<lparr>fd_safe_message :=
             removesuffix '' and can be retried'' (fd_safe_message fd) @
             ''; automatic retries exhausted''\<rparr>
      else fd)"

definition mark_failure ::
    "'p transfer_env \<Rightarrow> int \<Rightarrow> failure_disposition \<Rightarrow> bool \<Rightarrow> ('p world, unit) act" where
  "mark_failure env fid fd exhausted =
     transaction env (update_file fid (\<lambda>f. f\<lparr>
       f_status := (if fd_status fd = FailFailed \<or> exhausted then ''failed'' else ''pending''),
       f_last_error := Some (fd_safe_message fd)\<rparr>))"

definition plain_outcome ::
    "outcome_status \<Rightarrow> string \<Rightarrow> string option \<Rightarrow> string option \<Rightarrow> task_outcome" where
  "plain_outcome st summary code msg =
     \<lparr>o_status = st, o_summary = Some summary, o_error_code = code, o_error_message = msg,
      o_metrics = None, o_retry_after = None, o_blocked_reason = None\<rparr>"

fun failure_outcome_status :: "failure_status \<Rightarrow> outcome_status" where
  "failure_outcome_status FailRetry = OutRetry"
| "failure_outcome_status FailFailed = OutFailed"
| "failure_outcome_status FailWaitingCredential = OutWaitingCredential"

definition outcome_for_failure :: "failure_disposition \<Rightarrow> task_outcome" where
  "outcome_for_failure fd =
     (if fd_status fd = FailWaitingCredential
      then (plain_outcome OutWaitingCredential
              ''Transfer is waiting for a valid cloud-drive credential''
              (Some (fd_error_code fd)) (Some (fd_safe_message fd)))
             \<lparr>o_blocked_reason := fd_blocked_reason fd\<rparr>
      else plain_outcome (failure_outcome_status (fd_status fd)) (fd_safe_message fd)
             (Some (fd_error_code fd)) (Some (fd_safe_message fd)))"

section \<open>The handler\<close>

definition invalid_payload_outcome :: "string \<Rightarrow> task_outcome" where
  "invalid_payload_outcome msg =
     plain_outcome OutFailed ''Transfer payload validation failed''
       (Some ''INVALID_TRANSFER_PAYLOAD'') (Some msg)"

definition cancelled_outcome :: "string \<Rightarrow> task_outcome" where
  "cancelled_outcome summary = plain_outcome OutCancelled summary None None"

definition success_outcome :: "int option \<Rightarrow> transfer_result \<Rightarrow> task_outcome" where
  "success_outcome request_count result =
     (plain_outcome OutSuccess (''Transferred to '' @ tr_target_path result) None None)
       \<lparr>o_metrics := Some ((''already_existed'', JBool (tr_already_existed result)) #
          (case request_count of None \<Rightarrow> [] | Some n \<Rightarrow> [(''provider_request_count'', JInt n)]))\<rparr>"

definition state_not_persisted :: task_outcome where
  "state_not_persisted =
     plain_outcome OutRetry ''Remote transfer succeeded but local state was not persisted''
       (Some ''TRANSFER_STATE_PERSIST_FAILED'') (Some ''local transfer state persistence failed'')"

definition credential_not_persisted :: task_outcome where
  "credential_not_persisted =
     plain_outcome OutRetry ''Remote transfer succeeded but rotated credential was not persisted''
       (Some ''CREDENTIAL_PERSIST_FAILED'')
       (Some ''rotated provider credential persistence failed'')"

definition credential_persist_failure :: failure_disposition where
  "credential_persist_failure =
     disposition FailRetry ''CREDENTIAL_PERSIST_FAILED''
       ''rotated provider credential persistence failed''"

definition persist_provider_token ::
    "'p transfer_env \<Rightarrow> int \<Rightarrow> 'p world provider \<Rightarrow> ('p world, unit) act" where
  "persist_provider_token env account_id p =
     transaction env (\<lambda>w.
       case first_row (\<lambda>a. ca_id a = account_id) (wo_accounts w) of
         None \<Rightarrow> (Inl (source_not_found ''transfer cloud account was not found''), w)
       | Some _ \<Rightarrow> store_rotated_tokens (te_encrypt env) account_id p w)"

text \<open>The \<open>try\<close> block around the remote operation: the provider, if it could be made, and the result.\<close>

definition attempt_transfer ::
    "'p transfer_env \<Rightarrow> task_invocation \<Rightarrow> 'p transfer_source \<Rightarrow>
     ('p world, 'p world provider option \<times> (exn + transfer_result)) act" where
  "attempt_transfer env i src =
     (case (case src_runtime_provider src of
              Some p \<Rightarrow> Inr p
            | None \<Rightarrow> te_factory env (src_provider_type src) (src_refresh_token src)
                        (src_target_drive_id src)) of
        Inl e \<Rightarrow> retA (None, Inl e)
      | Inr p \<Rightarrow>
          bindA (tryA (execute_transfer p (src_spec src) (te_cancelled env)
                         (i_provider_operation_id i)
                         (record_write_intent env (i_task_id i))
                         (record_provider_operation env (i_task_id i)))) (\<lambda>r.
          retA (Some p, r)))"

definition try_persist_token ::
    "'p transfer_env \<Rightarrow> int \<Rightarrow> 'p world provider option \<Rightarrow> ('p world, bool) act" where
  "try_persist_token env account_id provider =
     (case provider of
        None \<Rightarrow> retA True
      | Some p \<Rightarrow>
          bindA (tryA (persist_provider_token env account_id p)) (\<lambda>r. retA (\<not> isl r)))"

definition after_success ::
    "'p transfer_env \<Rightarrow> task_invocation \<Rightarrow> int \<Rightarrow> ('p world \<Rightarrow> int option) \<Rightarrow> transfer_result \<Rightarrow>
     bool \<Rightarrow> ('p world, task_outcome) act" where
  "after_success env i fid request_count result token_persisted =
     bindA (tryA (bindA (record_provider_success env (i_task_id i) result) (\<lambda>_.
                  mark_success env fid result))) (\<lambda>stored.
     if isl stored then retA state_not_persisted
     else if \<not> token_persisted then retA credential_not_persisted
     else (\<lambda>w. (Inr (success_outcome (request_count w) result), w)))"

definition after_failure ::
    "'p transfer_env \<Rightarrow> task_invocation \<Rightarrow> int \<Rightarrow> exn \<Rightarrow> bool \<Rightarrow> ('p world, task_outcome) act" where
  "after_failure env i fid e token_persisted =
     (if e_class e = CTransferCancelled
      then bindA (mark_cancelled env fid) (\<lambda>_.
           retA (cancelled_outcome ''Transfer cancelled before remote save''))
      else
      bindA (if e_class e = CWriteUncertain then record_provider_uncertain env (i_task_id i)
             else retA ()) (\<lambda>_.
      let fd = (if token_persisted then failure_for_context e i else credential_persist_failure) in
      bindA (te_cancelled env) (\<lambda>c.
      if c
      then bindA (mark_cancelled env fid) (\<lambda>_.
           retA (cancelled_outcome ''Transfer cancelled after a failed provider operation''))
      else
      bindA (mark_failure env fid fd (retry_exhausted i fd)) (\<lambda>_.
      retA (outcome_for_failure fd)))))"

definition run_transfer_source ::
    "'p transfer_env \<Rightarrow> task_invocation \<Rightarrow> 'p transfer_source \<Rightarrow> ('p world, task_outcome) act" where
  "run_transfer_source env i src =
     bindA (mark_saving env (src_file_id src)) (\<lambda>_.
     bindA (attempt_transfer env i src) (\<lambda>(provider, r).
     bindA (try_persist_token env (src_account_id src) provider) (\<lambda>token_persisted.
     case r of
       Inr result \<Rightarrow>
         after_success env i (src_file_id src)
           (case provider of None \<Rightarrow> (\<lambda>_. None) | Some p \<Rightarrow> pr_request_count p) result token_persisted
     | Inl e \<Rightarrow> after_failure env i (src_file_id src) e token_persisted)))"

definition load_failed ::
    "'p transfer_env \<Rightarrow> task_invocation \<Rightarrow> int \<Rightarrow> exn \<Rightarrow> ('p world, task_outcome) act" where
  "load_failed env i fid e =
     (let fd = failure_for_context e i in
      bindA (if e_class e = CSourceNotFound then retA ()
             else mark_failure env fid fd (retry_exhausted i fd)) (\<lambda>_.
      retA (outcome_for_failure fd)))"

definition transfer_handler ::
    "'p transfer_env \<Rightarrow> task_invocation \<Rightarrow> ('p world, task_outcome) act" where
  "transfer_handler env i =
     (case parse_transfer_payload i of
        Inl msg \<Rightarrow> retA (invalid_payload_outcome msg)
      | Inr (sid, fid) \<Rightarrow>
          bindA (te_cancelled env) (\<lambda>c.
          if c
          then bindA (mark_cancelled env fid) (\<lambda>_.
               retA (cancelled_outcome ''Transfer cancelled before execution''))
          else
          bindA (tryA (load_source env sid fid)) (\<lambda>loaded.
          case loaded of
            Inl e \<Rightarrow> load_failed env i fid e
          | Inr src \<Rightarrow> run_transfer_source env i src)))"

end
