(* ===== verification/TransferProofs.thy ===== *)
theory TransferProofs
  imports TransferHandler TaskSystem
begin

text \<open>
  What a run of the transfer handler keeps of the store, and what it leaves in the file's row.  The
  first part is a contract on actions: a relation between the states before and after that every
  step keeps, proved once for the combinators and the remote operation, and interpreted on the
  invariant of the task store.
\<close>

section \<open>A contract on actions\<close>

definition provider_keeps :: "('s \<Rightarrow> 's \<Rightarrow> bool) \<Rightarrow> 's provider \<Rightarrow> bool" where
  "provider_keeps R p \<longleftrightarrow>
     (\<forall>u pw. keeps R (pr_resolve_share p u pw)) \<and>
     (\<forall>sh fid m. keeps R (pr_list_share_items p sh fid m)) \<and>
     (\<forall>t n. keeps R (pr_ensure_folder p t n)) \<and>
     (\<forall>t n. keeps R (pr_find_target_item p t n)) \<and>
     (case pr_validate_existing p of None \<Rightarrow> True | Some v \<Rightarrow> \<forall>a b. keeps R (v a b)) \<and>
     (case pr_resumable p of None \<Rightarrow> True
      | Some (start, query) \<Rightarrow> (\<forall>a b c. keeps R (start a b c)) \<and> (\<forall>oid. keeps R (query oid))) \<and>
     (\<forall>a b c. keeps R (pr_save_shared_item p a b c)) \<and>
     (\<forall>s. R s (snd (pr_consume_token p s))) \<and>
     (case pr_consume_open_token p of None \<Rightarrow> True | Some consume \<Rightarrow> \<forall>s. R s (snd (consume s)))"

lemma provider_step_state: "snd (provider_step st m s) = snd (m s)"
  by (simp add: provider_step_def split: prod.split sum.split)

context action_contract
begin

lemma keeps_provider_step [intro]: "keeps R m \<Longrightarrow> keeps R (provider_step st m)"
  by (simp add: keeps_def provider_step_state)

lemma keeps_stop [intro]: "keeps R probe \<Longrightarrow> keeps R (stop_if_cancelled probe msg)"
  by (auto simp: stop_if_cancelled_def)

lemma keeps_ensure_parts:
  assumes "provider_keeps R p" and "keeps R probe"
  shows "keeps R (ensure_parts p probe parts target)"
proof (induction parts arbitrary: target)
  case (Cons part parts)
  have "keeps R (pr_ensure_folder p target part)"
    using assms(1) by (simp add: provider_keeps_def)
  then show ?case
    by (simp add: Cons.IH) (intro impI keeps_bind keeps_stop assms(2) Cons.IH)
qed simp

lemma keeps_submit:
  assumes "\<And>a b c. keeps R (start a b c)" and "keeps R intent" and "\<And>oid. keeps R (rec oid)"
  shows "keeps R (submit_save start intent rec a b c)"
  unfolding submit_save_def
  by (intro keeps_bind keeps_provider_step keeps_try assms) (simp split: sum.split)

lemma keeps_save_item:
  assumes "provider_keeps R p" and "keeps R intent" and "\<And>oid. keeps R (rec oid)"
  shows "keeps R (save_item p oid intent rec spec a b c)"
proof (cases "pr_resumable p")
  case None
  with assms(1) show ?thesis
    by (auto simp: save_item_def provider_keeps_def)
next
  case (Some sq)
  obtain start query where sq: "sq = (start, query)" by (cases sq)
  have "keeps R (start a b c)" "keeps R (query oid)" for a b c oid
    using assms(1) Some sq by (simp_all add: provider_keeps_def)
  then show ?thesis
    unfolding save_item_def Some sq option.case prod.case
    by (intro keeps_bind keeps_provider_step)
      (auto split: option.split list.split intro!: keeps_submit assms)
qed

lemma keeps_execute:
  assumes "provider_keeps R p" and "keeps R probe" and "keeps R intent" and "\<And>oid. keeps R (rec oid)"
  shows "keeps R (execute_transfer p spec probe oid intent rec)"
proof -
  have ops: "keeps R (pr_resolve_share p u pw)" "keeps R (pr_find_target_item p t n)" for u pw t n
    using assms(1) by (simp_all add: provider_keeps_def)
  have valid: "keeps R (case pr_validate_existing p of None \<Rightarrow> retA () | Some v \<Rightarrow> v x y)" for x y
    using assms(1) by (auto simp: provider_keeps_def split: option.split)
  have found: "keeps R (case existing of None \<Rightarrow> m
      | Some item \<Rightarrow> bindA (case pr_validate_existing p of None \<Rightarrow> retA () | Some v \<Rightarrow> v x item) (f item))"
    if "keeps R m" "\<And>item u. keeps R (f item u)" for existing m x and f :: "_ \<Rightarrow> unit \<Rightarrow> _"
    using that valid by (cases existing) auto
  show ?thesis
    unfolding execute_transfer_def ensure_target_folder_def Let_def
    by (intro keeps_bind keeps_stop keeps_provider_step keeps_ensure_parts keeps_save_item
        keeps_ret found assms ops) (simp add: keeps_provider_step ops)
qed

end

section \<open>Transactions keep the store\<close>

definition store_step :: "'p world \<Rightarrow> 'p world \<Rightarrow> bool" where
  "store_step w w' \<longleftrightarrow>
     (store_inv (wo_db w) \<longrightarrow> store_inv (wo_db w') \<and> history_extends (wo_db w) (wo_db w'))"

interpretation stores: action_contract store_step
  by unfold_locales (auto simp: store_step_def intro: history_trans history_refl)

text \<open>What surrounds the handler keeps the store: the other processes, and the providers.\<close>

definition env_keeps :: "'p transfer_env \<Rightarrow> bool" where
  "env_keeps env \<longleftrightarrow> keeps store_step (te_enter env) \<and> keeps store_step (te_cancelled env) \<and>
     (\<forall>ty tok drive p. te_factory env ty tok drive = Inr p \<longrightarrow> provider_keeps store_step p) \<and>
     (\<forall>runtime_for a drive p. te_runtime_provider env = Some runtime_for \<longrightarrow>
        runtime_for a drive = Inr p \<longrightarrow> provider_keeps store_step p)"

lemma put_file_step: "store_step w (put_file fid g w)"
  by (simp add: store_step_def put_file_def store_inv_def table_inv_def lease_inv_def
      history_extends_def) blast


text \<open>A task written by the handler keeps its lease, its status and its payload.\<close>

definition provider_write :: "task \<Rightarrow> task \<Rightarrow> bool" where
  "provider_write t t' \<longleftrightarrow>
     t\<lparr>t_provider_write_intent_at := None, t_provider_operation_id := None,
       t_provider_operation_status := None, t_provider_result := None\<rparr> =
     t'\<lparr>t_provider_write_intent_at := None, t_provider_operation_id := None,
        t_provider_operation_status := None, t_provider_result := None\<rparr>"

lemma provider_writeD:
  assumes "provider_write t t'"
  shows "t_id t' = t_id t" and "t_status t' = t_status t" and "t_payload t' = t_payload t"
    and "t_payload_version t' = t_payload_version t"
    and "t_idempotency_key t' = t_idempotency_key t" and "task_check t' = task_check t"
    and "t_locked_by t' = t_locked_by t" and "t_lock_token t' = t_lock_token t"
    and "ownership_complete t' = ownership_complete t"
  using assms by (cases t, cases t', simp add: provider_write_def task_check_def
      ownership_clear_def ownership_complete_def)+

lemma flush_task_cases:
  assumes inv: "store_inv (wo_db w)" and t: "get_task (wo_db w) tid = Some t"
    and pw: "provider_write t t'"
  obtains (same) "t' = t" and "flush_task now t t' w = (Inr (), w)"
  | (written) "t \<in> set (db_tasks (wo_db w))" and "flush_task now t t' w =
      (Inr (), w\<lparr>wo_db := (wo_db w)\<lparr>db_tasks :=
         put_row t (t'\<lparr>t_updated_at := now\<rparr>) (db_tasks (wo_db w))\<rparr>\<rparr>)"
proof (cases "t' = t")
  case False
  note eqs = provider_writeD [OF pw]
  have mem: "t \<in> set (db_tasks (wo_db w))"
    using t first_row_SomeD by (fastforce simp: get_task_def)
  have tab: "table_inv (wo_db w)" using inv by (simp add: store_inv_def)
  then have "task_check t" using mem by (simp add: table_inv_def)
  then have "task_check (t'\<lparr>t_updated_at := now\<rparr>)"
    using eqs(6) by (simp add: task_check_def ownership_clear_def ownership_complete_def)
  then have "sql_update_tasks (\<lambda>r. t_id r = t_id t) (\<lambda>_. t'\<lparr>t_updated_at := now\<rparr>) (wo_db w) =
      Inr (Some (t_id t), (wo_db w)\<lparr>db_tasks :=
        put_row t (t'\<lparr>t_updated_at := now\<rparr>) (db_tasks (wo_db w))\<rparr>)"
    using eqs by (intro sql_update_tasks_put [OF tab mem]) (simp_all add: task_trigger_def)
  then show ?thesis
    using False mem by (intro written) (simp_all add: flush_task_def)
next
  case True
  then show ?thesis by (intro same) (simp_all add: flush_task_def)
qed

lemma put_task_step:
  assumes "t \<in> set (db_tasks (wo_db w))" and "provider_write t t'"
  shows "store_step w (w\<lparr>wo_db := (wo_db w)\<lparr>db_tasks :=
    put_row t (t'\<lparr>t_updated_at := now\<rparr>) (db_tasks (wo_db w))\<rparr>\<rparr>)"
proof -
  let ?t = "t'\<lparr>t_updated_at := now\<rparr>"
  let ?d = "(wo_db w)\<lparr>db_tasks := put_row t ?t (db_tasks (wo_db w))\<rparr>"
  note eqs = provider_writeD [OF assms(2)]
  have "store_inv ?d \<and> history_extends (wo_db w) ?d" if inv: "store_inv (wo_db w)"
  proof -
    have tab: "table_inv (wo_db w)" and leases: "lease_inv (wo_db w)"
      using inv by (simp_all add: store_inv_def)
    have "task_check t" using tab assms(1) by (simp add: table_inv_def)
    then have "task_check ?t"
      using eqs(6) by (simp add: task_check_def ownership_clear_def ownership_complete_def)
    then have "table_inv ?d"
      by (intro table_inv_put_task [OF tab assms(1)]) (simp_all add: eqs)
    moreover have "ownership_complete ?t = ownership_complete t"
      using eqs(9) by (simp add: ownership_complete_def)
    then have "lease_inv ?d"
      using lease_invD(1,2) [OF leases assms(1)]
      by (intro lease_inv_put_task [OF leases assms(1)]) (simp_all add: eqs)
    ultimately show ?thesis
      by (simp add: store_inv_def history_same_runs)
  qed
  then show ?thesis by (simp add: store_step_def)
qed

lemma flush_task_step:
  assumes "get_task (wo_db w) tid = Some t" and "provider_write t t'"
  shows "store_step w (snd (flush_task now t t' w))"
proof (cases "store_inv (wo_db w)")
  case True
  then show ?thesis
    using assms
    by (cases rule: flush_task_cases [where now = now]) (simp_all add: stores.R_refl put_task_step assms(2))
qed (simp add: store_step_def)

lemma transaction_keeps:
  "env_keeps env \<Longrightarrow> keeps store_step body \<Longrightarrow> keeps store_step (transaction env body)"
  by (auto simp: transaction_def env_keeps_def)

lemma update_file_step: "store_step w (snd (update_file fid g w))"
  by (simp add: update_file_def put_file_step stores.R_refl split: option.split)

lemma update_file_keeps: "keeps store_step (update_file fid g)"
  by (simp add: keeps_def update_file_step)

lemma guarded_row_keeps:
  "keeps store_step body \<Longrightarrow>
     keeps store_step (\<lambda>w. case sel w of None \<Rightarrow> (missing, w) | Some _ \<Rightarrow> body w)"
  by (simp add: keeps_def stores.R_refl split: option.split)

lemma provider_write_simps [simp]:
  "provider_write t (t\<lparr>t_provider_write_intent_at := a, t_provider_operation_status := b\<rparr>)"
  "provider_write t (t\<lparr>t_provider_operation_id := c, t_provider_operation_status := b\<rparr>)"
  "provider_write t (t\<lparr>t_provider_operation_status := b, t_provider_result := e\<rparr>)"
  "provider_write t (t\<lparr>t_provider_operation_status := b\<rparr>)"
  by (simp_all add: provider_write_def)

lemma task_body_keeps:
  assumes "\<And>t w. provider_write t (g t w)"
  shows "keeps store_step (\<lambda>w. case get_task (wo_db w) tid of
      None \<Rightarrow> (missing, w)
    | Some t \<Rightarrow> if skip t then (skipped, w) else flush_task (te_clock env w) t (g t w) w)"
  by (auto simp: keeps_def stores.R_refl intro: flush_task_step [OF _ assms] split: option.split)

lemma record_keeps:
  assumes "env_keeps env"
  shows "keeps store_step (record_write_intent env tid)"
    and "keeps store_step (record_provider_operation env tid oid)"
    and "keeps store_step (record_provider_success env tid result)"
    and "keeps store_step (record_provider_uncertain env tid)"
proof -
  show "keeps store_step (record_write_intent env tid)"
    unfolding record_write_intent_def by (intro transaction_keeps assms task_body_keeps) simp
  show "keeps store_step (record_provider_operation env tid oid)"
    unfolding record_provider_operation_def by (intro transaction_keeps assms task_body_keeps) simp
  show "keeps store_step (record_provider_success env tid result)"
    unfolding record_provider_success_def by (intro transaction_keeps assms task_body_keeps) simp
  have "keeps store_step (\<lambda>w. case get_task (wo_db w) tid of
      None \<Rightarrow> (Inr (), w)
    | Some t \<Rightarrow> if t_provider_operation_id t \<noteq> None then (Inr (), w)
        else flush_task (te_clock env w) t (t\<lparr>t_provider_operation_status := Some OpUncertain\<rparr>) w)"
    (is "keeps store_step ?m")
    by (rule task_body_keeps) simp
  moreover have "record_provider_uncertain env tid = transaction env ?m"
    unfolding record_provider_uncertain_def
    by (intro arg_cong [where f = "transaction env"] ext) (simp split: option.split)
  ultimately show "keeps store_step (record_provider_uncertain env tid)"
    by (simp add: transaction_keeps assms)
qed

lemma mark_keeps:
  assumes "env_keeps env"
  shows "keeps store_step (mark_saving env fid)"
    and "keeps store_step (mark_success env fid result)"
    and "keeps store_step (mark_failure env fid fd exhausted)"
    and "keeps store_step (mark_cancelled env fid)"
proof -
  show "keeps store_step (mark_saving env fid)"
    unfolding mark_saving_def by (intro transaction_keeps assms update_file_keeps)
  show "keeps store_step (mark_failure env fid fd exhausted)"
    unfolding mark_failure_def by (intro transaction_keeps assms update_file_keeps)
  show "keeps store_step (mark_success env fid result)"
    unfolding mark_success_def
    by (intro transaction_keeps assms) (simp add: keeps_def update_file_step)
  show "keeps store_step (mark_cancelled env fid)"
    unfolding mark_cancelled_def
    by (intro transaction_keeps assms)
      (simp add: keeps_def put_file_step stores.R_refl split: option.split)
qed

lemma load_source_keeps: "env_keeps env \<Longrightarrow> keeps store_step (load_source env sid fid)"
  unfolding load_source_def by (rule transaction_keeps) (simp_all add: keeps_def stores.R_refl)

lemma rotate_token_keeps:
  "(\<And>w. store_step w (snd (consume w))) \<Longrightarrow> keeps store_step (rotate_token encrypt consume)"
  by (simp add: keeps_def rotate_token_def split_def Let_def)

lemma rotate_tokens_keeps:
  assumes p: "provider_keeps store_step p"
  shows "keeps store_step (rotate_tokens encrypt p)"
proof -
  have "keeps store_step (rotate_token encrypt (pr_consume_token p))"
    using p by (intro rotate_token_keeps) (simp add: provider_keeps_def)
  moreover have "keeps store_step (case pr_consume_open_token p of
      None \<Rightarrow> retA None | Some consume \<Rightarrow> rotate_token encrypt consume)"
    using p by (auto simp: provider_keeps_def split: option.splits intro: rotate_token_keeps)
  ultimately show ?thesis
    unfolding rotate_tokens_def by (intro stores.keeps_bind stores.keeps_ret)
qed

lemma put_account_step: "store_step w (put_account aid g w)"
  by (simp add: store_step_def put_account_def)

lemma store_rotated_keeps:
  "provider_keeps store_step p \<Longrightarrow> keeps store_step (store_rotated_tokens encrypt aid p)"
  unfolding store_rotated_tokens_def
  by (intro stores.keeps_bind rotate_tokens_keeps) (simp_all add: split_def keeps_def put_account_step)

lemma persist_keeps:
  "env_keeps env \<Longrightarrow> provider_keeps store_step p \<Longrightarrow>
     keeps store_step (persist_provider_token env aid p)"
  unfolding persist_provider_token_def
  by (intro transaction_keeps guarded_row_keeps store_rotated_keeps)

lemma source_provider_keeps:
  assumes "env_keeps env" and "fst (load_source env sid fid w) = Inr src"
    and "src_runtime_provider src = Some p"
  shows "provider_keeps store_step p"
  using assms unfolding load_source_def transaction_def bindA_def read_source_def env_keeps_def
  by (auto split: prod.splits sum.splits option.splits if_splits)

lemma attempt_keeps:
  assumes env: "env_keeps env"
    and src: "\<And>p. src_runtime_provider src = Some p \<Longrightarrow> provider_keeps store_step p"
  shows "keeps store_step (attempt_transfer env i src)"
    and "fst (attempt_transfer env i src w) = Inr (Some p, r) \<Longrightarrow> provider_keeps store_step p"
proof -
  let ?made = "case src_runtime_provider src of
      Some p \<Rightarrow> Inr p
    | None \<Rightarrow> te_factory env (src_provider_type src) (src_refresh_token src) (src_target_drive_id src)"
  have made: "provider_keeps store_step q" if "?made = Inr q" for q
    using that env src by (auto simp: env_keeps_def split: option.splits)
  have "keeps store_step (te_cancelled env)" using env by (simp add: env_keeps_def)
  then have "keeps store_step (attempt_transfer env i src)"
    unfolding attempt_transfer_def using made
    by (cases ?made) (auto intro!: stores.keeps_execute record_keeps env)
  then show "keeps store_step (attempt_transfer env i src)" .
  show "provider_keeps store_step p" if "fst (attempt_transfer env i src w) = Inr (Some p, r)"
    using that made unfolding attempt_transfer_def
    by (cases ?made) (auto simp: bindA_def retA_def tryA_def split: prod.splits sum.splits)
qed

lemma after_keeps:
  assumes "env_keeps env"
  shows "keeps store_step (after_success env i fid count result persisted)"
    and "keeps store_step (after_failure env i fid e persisted)"
    and "keeps store_step (load_failed env i fid e)"
proof -
  have probe: "keeps store_step (te_cancelled env)" using assms by (simp add: env_keeps_def)
  have counted: "keeps store_step (\<lambda>w. (Inr (f w), w))" for f :: "'a world \<Rightarrow> task_outcome"
    by (simp add: keeps_def stores.R_refl)
  show "keeps store_step (after_success env i fid count result persisted)"
    unfolding after_success_def
    by (intro stores.keeps_bind stores.keeps_try mark_keeps record_keeps assms)
      (simp add: counted)
  show "keeps store_step (after_failure env i fid e persisted)"
    unfolding after_failure_def Let_def
    by (auto intro!: stores.keeps_bind mark_keeps record_keeps probe assms)
  show "keeps store_step (load_failed env i fid e)"
    unfolding load_failed_def Let_def
    by (auto intro!: stores.keeps_bind mark_keeps assms)
qed

lemma run_source_keeps:
  assumes env: "env_keeps env"
    and src: "\<And>p. src_runtime_provider src = Some p \<Longrightarrow> provider_keeps store_step p"
  shows "keeps store_step (run_transfer_source env i src)"
  unfolding run_transfer_source_def
proof (rule stores.keeps_bind [OF mark_keeps(1) [OF env]],
    rule stores.keeps_bind_returned [OF attempt_keeps(1) [OF env src]])
  fix w pr
  assume made: "fst (attempt_transfer env i src w) = Inr pr"
  obtain provider r where pr: "pr = (provider, r)" by (cases pr)
  have "keeps store_step (try_persist_token env (src_account_id src) provider)"
    using attempt_keeps(2) [OF env src] made pr
    by (auto simp: try_persist_token_def split: option.split intro!: stores.keeps_bind
        stores.keeps_try persist_keeps [OF env])
  then show "keeps store_step (case pr of (provider, r) \<Rightarrow>
      bindA (try_persist_token env (src_account_id src) provider) (\<lambda>token_persisted.
        case r of
          Inr result \<Rightarrow> after_success env i (src_file_id src)
            (case provider of None \<Rightarrow> (\<lambda>_. None) | Some p \<Rightarrow> pr_request_count p) result token_persisted
        | Inl e \<Rightarrow> after_failure env i (src_file_id src) e token_persisted))"
    unfolding pr prod.case
    by (intro stores.keeps_bind) (auto split: sum.split intro: after_keeps env)
qed

lemma handler_keeps:
  assumes env: "env_keeps env"
  shows "keeps store_step (transfer_handler env i)"
proof (cases "parse_transfer_payload i")
  case (Inr ids)
  obtain sid fid where ids: "ids = (sid, fid)" by (cases ids)
  have probe: "keeps store_step (te_cancelled env)" using env by (simp add: env_keeps_def)
  have loaded: "keeps store_step (case l of
      Inl e \<Rightarrow> load_failed env i fid e | Inr src \<Rightarrow> run_transfer_source env i src)"
    if "fst (tryA (load_source env sid fid) w) = Inr l" for l w
  proof (cases l)
    case (Inr src)
    with that have "fst (load_source env sid fid w) = Inr src"
      by (simp add: tryA_def split: prod.splits)
    with Inr show ?thesis
      using source_provider_keeps [OF env] by (simp add: run_source_keeps [OF env])
  qed (simp add: after_keeps env)
  have "keeps store_step (bindA (tryA (load_source env sid fid)) (\<lambda>loaded. case loaded of
      Inl e \<Rightarrow> load_failed env i fid e | Inr src \<Rightarrow> run_transfer_source env i src))"
    by (intro stores.keeps_bind_returned [OF stores.keeps_try [OF load_source_keeps [OF env]]] loaded)
  then show ?thesis
    unfolding transfer_handler_def Inr ids
    by (auto intro!: stores.keeps_bind probe mark_keeps env)
qed (simp add: transfer_handler_def)

section \<open>What the handler leaves in the file's row\<close>

definition file_settled :: "task_invocation \<Rightarrow> task_outcome \<Rightarrow> cloud_file \<Rightarrow> bool" where
  "file_settled i oc f \<longleftrightarrow>
     (case o_status oc of
        OutSuccess \<Rightarrow> f_status f = ''saved'' \<and>
          (\<exists>p. f_target_path f = Some p \<and> o_summary oc = Some (''Transferred to '' @ p))
      | OutRetry \<Rightarrow> f_status f = (if i_max_retries i \<le> i_retry_count i then ''failed'' else ''pending'')
      | OutFailed \<Rightarrow> f_status f = ''failed''
      | OutDeferred \<Rightarrow> False
      | _ \<Rightarrow> f_status f = ''pending'')"

definition file_rows :: "int \<Rightarrow> 'p world \<Rightarrow> cloud_file set" where
  "file_rows fid w = {f \<in> set (db_files (wo_db w)). f_id f = fid}"

lemma file_rows_put:
  assumes "f \<in> file_rows fid (put_file fid g w)" and "\<And>x. f_id (g x) = f_id x"
  obtains f0 where "f = g f0"
  using assms by (auto simp: file_rows_def put_file_def set_update_rows split: if_splits)

lemma transaction_Inr:
  assumes "transaction env body w = (Inr x, w')"
  obtains w1 where "te_enter env w = (Inr (), w1)" and "body w1 = (Inr x, w')"
  using assms by (auto simp: transaction_def bindA_eq_Inr)

lemma mark_failure_rows:
  assumes "mark_failure env fid fd exhausted w = (Inr u, w')" and "f \<in> file_rows fid w'"
  shows "f_status f = (if fd_status fd = FailFailed \<or> exhausted then ''failed'' else ''pending'')"
    and "f_last_error f = Some (fd_safe_message fd)"
  using assms unfolding mark_failure_def
  by (auto elim!: transaction_Inr file_rows_put simp: update_file_def split: option.splits)

lemma mark_cancelled_rows:
  assumes "mark_cancelled env fid w = (Inr u, w')" and "f \<in> file_rows fid w'"
  shows "f_status f = ''pending''"
proof -
  from assms(1) obtain w1 where w1: "(case get_file (wo_db w1) fid of
      None \<Rightarrow> (Inr (), w1)
    | Some _ \<Rightarrow> (Inr (), put_file fid (\<lambda>f. f\<lparr>f_status := ''pending'',
        f_last_error := Some ''transfer cancelled''\<rparr>) w1)) = (Inr u :: exn + unit, w')"
    unfolding mark_cancelled_def by (auto elim!: transaction_Inr)
  show ?thesis
  proof (cases "get_file (wo_db w1) fid")
    case None
    then have "f_id x \<noteq> fid" if "x \<in> set (db_files (wo_db w1))" for x
      using that by (simp add: get_file_def first_row_None_iff)
    with None w1 assms(2) show ?thesis by (auto simp: file_rows_def)
  next
    case (Some f0)
    with w1 assms(2) show ?thesis by (auto elim!: file_rows_put)
  qed
qed

lemma mark_success_rows:
  assumes "mark_success env fid result w = (Inr u, w')" and "f \<in> file_rows fid w'"
  shows "f_status f = ''saved''" and "f_target_path f = Some (tr_target_path result)"
    and "f_target_file_id f = Some (tr_target_file_id result)"
  using assms unfolding mark_success_def
  by (auto elim!: transaction_Inr file_rows_put simp: update_file_def split: option.splits)

lemma outcome_for_failure_settled:
  assumes "f_status f =
      (if fd_status fd = FailFailed \<or> retry_exhausted i fd then ''failed'' else ''pending'')"
  shows "file_settled i (outcome_for_failure fd) f"
  using assms
  by (cases "fd_status fd")
    (auto simp: file_settled_def outcome_for_failure_def plain_outcome_def retry_exhausted_def)

lemma classify_failure_blocked:
  "fd_status (failure_for_context e i) = FailWaitingCredential \<longleftrightarrow>
     fd_blocked_reason (failure_for_context e i) \<noteq> None"
  by (auto simp: failure_for_context_def Let_def classify_failure_def disposition_def)

lemma outcome_for_failure_valid:
  assumes "fd_status fd = FailWaitingCredential \<longleftrightarrow> fd_blocked_reason fd \<noteq> None"
  shows "outcome_valid (outcome_for_failure fd)"
  using assms
  by (cases "fd_status fd") (auto simp: outcome_valid_def outcome_for_failure_def plain_outcome_def)

lemma after_failure_settles:
  assumes "after_failure env i fid e persisted w = (Inr oc, w')"
  shows "outcome_valid oc" and "f \<in> file_rows fid w' \<Longrightarrow> file_settled i oc f"
proof -
  have cancelled: "outcome_valid (cancelled_outcome m)" for m
    by (simp add: cancelled_outcome_def plain_outcome_def outcome_valid_def)
  have pending: "file_settled i (cancelled_outcome m) f" if "f_status f = ''pending''" for m
    using that by (simp add: cancelled_outcome_def plain_outcome_def file_settled_def)
  have blocked: "fd_status fd = FailWaitingCredential \<longleftrightarrow> fd_blocked_reason fd \<noteq> None"
    if "fd = (if persisted then failure_for_context e i else credential_persist_failure)" for fd
    using that classify_failure_blocked [of e i]
    by (simp add: credential_persist_failure_def disposition_def)
  show "outcome_valid oc"
    using assms blocked
    by (auto simp: after_failure_def Let_def bindA_eq_Inr retA_run cancelled
        outcome_for_failure_valid split: if_splits)
  show "file_settled i oc f" if "f \<in> file_rows fid w'"
    using assms that
    by (auto simp: after_failure_def Let_def bindA_eq_Inr retA_run split: if_splits
        dest!: mark_cancelled_rows mark_failure_rows(1)
        intro!: pending outcome_for_failure_settled)
qed

lemma after_success_settles:
  assumes "after_success env i fid count result persisted w = (Inr oc, w')"
  shows "outcome_valid oc"
    and "f \<in> file_rows fid w' \<Longrightarrow>
      oc = state_not_persisted \<or> (oc = credential_not_persisted \<and> f_status f = ''saved'') \<or>
      file_settled i oc f"
proof -
  from assms obtain stored w1 where
    st: "tryA (bindA (record_provider_success env (i_task_id i) result) (\<lambda>_.
      mark_success env fid result)) w = (Inr stored, w1)"
    and rest: "(if isl stored then retA state_not_persisted
      else if \<not> persisted then retA credential_not_persisted
      else (\<lambda>w. (Inr (success_outcome (count w) result), w))) w1 = (Inr oc, w')"
    by (auto simp: after_success_def bindA_eq_Inr)
  then have oc: "oc = state_not_persisted \<or>
      (\<not> isl stored \<and> w' = w1 \<and> (oc = credential_not_persisted \<or>
         oc = success_outcome (count w1) result))"
    by (auto simp: retA_run split: if_splits)
  then show "outcome_valid oc"
    by (auto simp: state_not_persisted_def credential_not_persisted_def success_outcome_def
        plain_outcome_def outcome_valid_def)
  show "oc = state_not_persisted \<or> (oc = credential_not_persisted \<and> f_status f = ''saved'') \<or>
      file_settled i oc f" if f: "f \<in> file_rows fid w'"
  proof (cases "isl stored")
    case False
    then obtain u where "stored = Inr u" by (cases stored) auto
    with st have "bindA (record_provider_success env (i_task_id i) result) (\<lambda>_.
        mark_success env fid result) w = (Inr u, w1)"
      by (auto simp: tryA_def split: prod.splits)
    then obtain w2 where "mark_success env fid result w2 = (Inr u, w1)"
      by (auto simp: bindA_eq_Inr)
    from mark_success_rows [OF this] f oc show ?thesis
      by (auto simp: success_outcome_def plain_outcome_def file_settled_def)
  qed (use oc in auto)
qed

lemma run_source_cases:
  assumes "run_transfer_source env i src w = (Inr oc, w')"
  obtains (failed) e persisted w1 where
      "after_failure env i (src_file_id src) e persisted w1 = (Inr oc, w')"
  | (succeeded) count result persisted w1 where
      "after_success env i (src_file_id src) count result persisted w1 = (Inr oc, w')"
proof -
  from assms obtain count r persisted w1 where
    "(case r of
        Inr result \<Rightarrow> after_success env i (src_file_id src) count result persisted
      | Inl e \<Rightarrow> after_failure env i (src_file_id src) e persisted) w1 = (Inr oc, w')"
    by (auto simp: run_transfer_source_def bindA_eq_Inr)
  then show thesis
    by (cases r) (auto intro: failed succeeded)
qed

lemma run_source_settles:
  assumes "run_transfer_source env i src w = (Inr oc, w')"
  shows "outcome_valid oc"
    and "f \<in> file_rows (src_file_id src) w' \<Longrightarrow>
      oc = state_not_persisted \<or> (oc = credential_not_persisted \<and> f_status f = ''saved'') \<or>
      file_settled i oc f"
  using assms by (cases rule: run_source_cases; blast dest: after_success_settles after_failure_settles)+

lemma load_source_file:
  "load_source env sid fid w = (Inr src, w') \<Longrightarrow> src_file_id src = fid"
  unfolding load_source_def read_source_def
  by (auto elim!: transaction_Inr simp: get_file_def split: option.splits if_splits
      dest!: first_row_SomeD)

lemma load_failed_settles:
  assumes "load_failed env i fid e w = (Inr oc, w')"
  shows "outcome_valid oc"
    and "f \<in> file_rows fid w' \<Longrightarrow> e_class e \<noteq> CSourceNotFound \<Longrightarrow> file_settled i oc f"
    and "e_class e = CSourceNotFound \<Longrightarrow>
      o_status oc = OutFailed \<and> o_error_code oc = Some ''TRANSFER_SOURCE_NOT_FOUND''"
proof -
  from assms obtain w1 where oc: "oc = outcome_for_failure (failure_for_context e i)"
    and w1: "(if e_class e = CSourceNotFound then retA ()
      else mark_failure env fid (failure_for_context e i)
        (retry_exhausted i (failure_for_context e i))) w = (Inr (), w')"
    by (auto simp: load_failed_def Let_def bindA_eq_Inr retA_run split: if_splits)
  show "outcome_valid oc"
    unfolding oc by (rule outcome_for_failure_valid [OF classify_failure_blocked])
  show "file_settled i oc f" if "f \<in> file_rows fid w'" "e_class e \<noteq> CSourceNotFound"
    using w1 that unfolding oc
    by (intro outcome_for_failure_settled) (auto dest: mark_failure_rows(1))
  show "o_status oc = OutFailed \<and> o_error_code oc = Some ''TRANSFER_SOURCE_NOT_FOUND''"
    if "e_class e = CSourceNotFound"
    using that by (simp add: oc failure_for_context_def classify_failure_def disposition_def
        retry_exhausted_def outcome_for_failure_def plain_outcome_def)
qed

lemma handler_cases:
  assumes "transfer_handler env i w = (Inr oc, w')" and "parse_transfer_payload i = Inr (sid, fid)"
  obtains (cancelled) w1 where "mark_cancelled env fid w1 = (Inr (), w')"
    and "oc = cancelled_outcome ''Transfer cancelled before execution''"
  | (unloaded) e w1 where "load_failed env i fid e w1 = (Inr oc, w')"
  | (loaded) src w0 w1 where "load_source env sid fid w0 = (Inr src, w1)"
    and "run_transfer_source env i src w1 = (Inr oc, w')"
proof -
  from assms obtain c w0 where c: "te_cancelled env w = (Inr c, w0)"
    and rest: "(if c
        then bindA (mark_cancelled env fid) (\<lambda>_.
          retA (cancelled_outcome ''Transfer cancelled before execution''))
        else bindA (tryA (load_source env sid fid)) (\<lambda>loaded. case loaded of
          Inl e \<Rightarrow> load_failed env i fid e | Inr src \<Rightarrow> run_transfer_source env i src)) w0 = (Inr oc, w')"
    by (auto simp: transfer_handler_def bindA_eq_Inr)
  show thesis
  proof (cases c)
    case True
    with rest show ?thesis by (auto simp: bindA_eq_Inr retA_run intro: cancelled)
  next
    case False
    with rest obtain l w1 where l: "tryA (load_source env sid fid) w0 = (Inr l, w1)"
      and "(case l of Inl e \<Rightarrow> load_failed env i fid e
        | Inr src \<Rightarrow> run_transfer_source env i src) w1 = (Inr oc, w')"
      by (auto simp: bindA_eq_Inr)
    with l show ?thesis
      by (cases l) (auto simp: tryA_def split: prod.splits intro: unloaded loaded)
  qed
qed

lemma handler_settles:
  assumes run: "transfer_handler env i w = (Inr oc, w')"
    and ids: "parse_transfer_payload i = Inr (sid, fid)"
  shows "outcome_valid oc"
    and "f \<in> file_rows fid w' \<Longrightarrow> o_error_code oc \<noteq> Some ''TRANSFER_SOURCE_NOT_FOUND'' \<Longrightarrow>
      oc = state_not_persisted \<or> (oc = credential_not_persisted \<and> f_status f = ''saved'') \<or>
      file_settled i oc f"
proof -
  have "outcome_valid oc \<and> (f \<in> file_rows fid w' \<longrightarrow>
      o_error_code oc \<noteq> Some ''TRANSFER_SOURCE_NOT_FOUND'' \<longrightarrow>
      oc = state_not_persisted \<or> (oc = credential_not_persisted \<and> f_status f = ''saved'') \<or>
      file_settled i oc f)"
    using run ids
  proof (cases rule: handler_cases)
    case (cancelled w1)
    then show ?thesis
      by (auto simp: cancelled_outcome_def plain_outcome_def outcome_valid_def file_settled_def
          dest: mark_cancelled_rows)
  next
    case (unloaded e w1)
    then show ?thesis using load_failed_settles [OF unloaded] by blast
  next
    case (loaded src w0 w1)
    then show ?thesis using run_source_settles [OF loaded(2)] load_source_file [OF loaded(1)] by blast
  qed
  then show "outcome_valid oc"
    and "f \<in> file_rows fid w' \<Longrightarrow> o_error_code oc \<noteq> Some ''TRANSFER_SOURCE_NOT_FOUND'' \<Longrightarrow>
      oc = state_not_persisted \<or> (oc = credential_not_persisted \<and> f_status f = ''saved'') \<or>
      file_settled i oc f"
    by blast+
qed

text \<open>The worker settles the task as the handler has settled the file.\<close>

lemma settled_with_task:
  assumes "file_settled i oc f" and "settle b now t oc = Inr m"
    and "t_retry_count t = i_retry_count i" and "t_max_retries t = i_max_retries i"
  shows "m_task_status m = Failed \<longleftrightarrow> f_status f = ''failed''"
    and "m_task_status m = Success \<longleftrightarrow> f_status f = ''saved''"
    and "m_task_status m \<in> {Retry, WaitingCredential, Cancelled} \<longleftrightarrow> f_status f = ''pending''"
  using assms
  by (cases "o_status oc"; auto simp: file_settled_def settle_def split: if_splits)+

end
