(* ===== verification/TransferWrites.thy ===== *)
theory TransferWrites
  imports TransferProofs
begin

text \<open>
  When the transfer handler writes to the cloud drive.  The theorems exchange the providers of an
  environment for providers that misbehave, or refuse, outside a given protocol, and show that the
  handler cannot tell the difference.
\<close>

section \<open>Exchanging the providers\<close>

definition with_providers ::
    "('p world provider \<Rightarrow> 'p world provider) \<Rightarrow> 'p transfer_env \<Rightarrow> 'p transfer_env" where
  "with_providers F env =
     env\<lparr>te_factory := (\<lambda>ty tok drive. map_sum id F (te_factory env ty tok drive)),
         te_runtime_provider := map_option (\<lambda>runtime_for a drive. map_sum id F (runtime_for a drive))
                                  (te_runtime_provider env)\<rparr>"

lemma with_providers_fields [simp]:
  "te_enter (with_providers F env) = te_enter env"
  "te_clock (with_providers F env) = te_clock env"
  "te_cancelled (with_providers F env) = te_cancelled env"
  "te_decrypt (with_providers F env) = te_decrypt env"
  "te_encrypt (with_providers F env) = te_encrypt env"
  by (simp_all add: with_providers_def)

lemma with_providers_transactions [simp]:
  "transaction (with_providers F env) = transaction env"
  "mark_saving (with_providers F env) = mark_saving env"
  "mark_success (with_providers F env) = mark_success env"
  "mark_failure (with_providers F env) = mark_failure env"
  "mark_cancelled (with_providers F env) = mark_cancelled env"
  "record_write_intent (with_providers F env) = record_write_intent env"
  "record_provider_operation (with_providers F env) = record_provider_operation env"
  "record_provider_success (with_providers F env) = record_provider_success env"
  "record_provider_uncertain (with_providers F env) = record_provider_uncertain env"
  "after_success (with_providers F env) = after_success env"
  "after_failure (with_providers F env) = after_failure env"
  "load_failed (with_providers F env) = load_failed env"
proof -
  show tr: "transaction (with_providers F env) = transaction env" for F
    by (intro ext) (unfold transaction_def with_providers_fields, rule refl)
  show ms: "mark_saving (with_providers F env) = mark_saving env" for F
    by (intro ext) (unfold mark_saving_def tr with_providers_fields, rule refl)
  show mu: "mark_success (with_providers F env) = mark_success env" for F
    by (intro ext) (unfold mark_success_def tr with_providers_fields, rule refl)
  show mf: "mark_failure (with_providers F env) = mark_failure env" for F
    by (intro ext) (unfold mark_failure_def tr with_providers_fields, rule refl)
  show mc: "mark_cancelled (with_providers F env) = mark_cancelled env" for F
    by (intro ext) (unfold mark_cancelled_def tr with_providers_fields, rule refl)
  show "record_write_intent (with_providers F env) = record_write_intent env"
    by (intro ext) (unfold record_write_intent_def tr with_providers_fields, rule refl)
  show "record_provider_operation (with_providers F env) = record_provider_operation env"
    by (intro ext) (unfold record_provider_operation_def tr with_providers_fields, rule refl)
  show rs: "record_provider_success (with_providers F env) = record_provider_success env" for F
    by (intro ext) (unfold record_provider_success_def tr with_providers_fields, rule refl)
  show ru: "record_provider_uncertain (with_providers F env) = record_provider_uncertain env" for F
    by (intro ext) (unfold record_provider_uncertain_def tr with_providers_fields, rule refl)
  show "after_success (with_providers F env) = after_success env"
    by (intro ext) (unfold after_success_def rs mu with_providers_fields, rule refl)
  show "after_failure (with_providers F env) = after_failure env"
    by (intro ext) (unfold after_failure_def mc ru mf with_providers_fields, rule refl)
  show "load_failed (with_providers F env) = load_failed env"
    by (intro ext) (unfold load_failed_def mf with_providers_fields, rule refl)
qed

text \<open>A provider may only be exchanged for one with the same credentials and counters.\<close>

definition same_session :: "('s provider \<Rightarrow> 's provider) \<Rightarrow> bool" where
  "same_session F \<longleftrightarrow> (\<forall>p. pr_consume_token (F p) = pr_consume_token p \<and>
     pr_consume_open_token (F p) = pr_consume_open_token p \<and>
     pr_request_count (F p) = pr_request_count p)"

definition exchange_source ::
    "('p world provider \<Rightarrow> 'p world provider) \<Rightarrow> 'p transfer_source \<Rightarrow> 'p transfer_source" where
  "exchange_source F src =
     src\<lparr>src_runtime_provider := map_option F (src_runtime_provider src)\<rparr>"

lemma read_source_exchanged:
  "read_source (with_providers F env) sid fid w =
     map_sum id (exchange_source F) (read_source env sid fid w)"
proof -
  have rt: "(case te_runtime_provider (with_providers F env) of
        None \<Rightarrow> Inr None
      | Some runtime_for \<Rightarrow> bindR (runtime_for a drive) (\<lambda>p. Inr (Some p))) =
      map_sum id (map_option F) (case te_runtime_provider env of
        None \<Rightarrow> Inr None
      | Some runtime_for \<Rightarrow> bindR (runtime_for a drive) (\<lambda>p. Inr (Some p)))" for a drive
    by (cases "te_runtime_provider env"; cases "the (te_runtime_provider env) a drive")
      (auto simp: with_providers_def)
  have through: "bindR m (\<lambda>x. bindR (map_sum id G r) (\<lambda>y. bindR q (\<lambda>z. Inr (K x y z)))) =
      map_sum id H (bindR m (\<lambda>x. bindR r (\<lambda>y. bindR q (\<lambda>z. Inr (L x y z)))))"
    if "\<And>x y z. K x (G y) z = H (L x y z)" for m r q and G H K L
    by (cases m; cases r; cases q) (simp_all add: that)
  show ?thesis
  proof (cases "get_file (wo_db w) fid")
    case (Some f)
    note found = this
    show ?thesis
    proof (cases "first_row (\<lambda>s. s_id s = sid) (db_subscriptions (wo_db w))")
      case (Some s)
      note sub = this
      show ?thesis
        unfolding read_source_def rt with_providers_fields found sub
        by (cases "first_row (\<lambda>a. ca_id a = s_cloud_account_id s) (wo_accounts w)")
          (auto intro!: through simp: exchange_source_def)
    qed (simp add: read_source_def found)
  qed (simp add: read_source_def)
qed

lemma exchange_source_fields [simp]:
  "src_file_id (exchange_source F src) = src_file_id src"
  "src_account_id (exchange_source F src) = src_account_id src"
  "src_provider_type (exchange_source F src) = src_provider_type src"
  "src_refresh_token (exchange_source F src) = src_refresh_token src"
  "src_target_drive_id (exchange_source F src) = src_target_drive_id src"
  "src_spec (exchange_source F src) = src_spec src"
  "src_runtime_provider (exchange_source F src) = map_option F (src_runtime_provider src)"
  by (simp_all add: exchange_source_def)

lemma persist_exchanged:
  assumes "same_session F"
  shows "persist_provider_token (with_providers F env) aid (F p) = persist_provider_token env aid p"
proof -
  have same: "store_rotated_tokens encrypt aid (F p) = store_rotated_tokens encrypt aid p" for encrypt
    using assms by (simp add: same_session_def store_rotated_tokens_def rotate_tokens_def)
  show ?thesis
    unfolding persist_provider_token_def with_providers_transactions with_providers_fields same ..
qed

text \<open>
  If the exchanged provider performs the remote operation in the same way with this task's
  operation identifier and recorders, the handler does the same.
\<close>

lemma handler_exchanged:
  assumes same: "same_session F"
    and op: "\<And>p spec. execute_transfer (F p) spec (te_cancelled env) (i_provider_operation_id i)
        (record_write_intent env (i_task_id i)) (record_provider_operation env (i_task_id i)) =
      execute_transfer p spec (te_cancelled env) (i_provider_operation_id i)
        (record_write_intent env (i_task_id i)) (record_provider_operation env (i_task_id i))"
  shows "transfer_handler (with_providers F env) i = transfer_handler env i"
proof -
  have attempt: "attempt_transfer (with_providers F env) i (exchange_source F src) =
      bindA (attempt_transfer env i src) (\<lambda>(p, r). retA (map_option F p, r))" for src
  proof -
    have made: "(case src_runtime_provider (exchange_source F src) of
          Some p \<Rightarrow> Inr p
        | None \<Rightarrow> te_factory (with_providers F env) ty tok drive) =
        map_sum id F (case src_runtime_provider src of
          Some p \<Rightarrow> Inr p | None \<Rightarrow> te_factory env ty tok drive)" for ty tok drive
      by (cases "src_runtime_provider src") (simp_all add: with_providers_def)
    show ?thesis
      unfolding attempt_transfer_def exchange_source_fields made [unfolded exchange_source_fields]
        with_providers_fields with_providers_transactions
      by (cases "case src_runtime_provider src of Some p \<Rightarrow> Inr p | None \<Rightarrow>
            te_factory env (src_provider_type src) (src_refresh_token src) (src_target_drive_id src)")
        (auto simp: op bindA_def retA_def tryA_def fun_eq_iff split: prod.splits)
  qed
  have persist: "try_persist_token (with_providers F env) aid (map_option F p) =
      try_persist_token env aid p" for aid p
    by (cases p) (simp_all add: try_persist_token_def persist_exchanged [OF same])
  have count: "pr_request_count \<circ> F = pr_request_count"
    using same by (auto simp: same_session_def)
  have assoc: "bindA (bindA m f) g = bindA m (\<lambda>x. bindA (f x) g)" for m f g
    by (auto simp: bindA_def fun_eq_iff split: prod.splits sum.splits)
  have run: "run_transfer_source (with_providers F env) i (exchange_source F src) =
      run_transfer_source env i src" for src
    unfolding run_transfer_source_def attempt assoc exchange_source_fields
      with_providers_transactions
    by (intro arg_cong2 [where f = bindA] ext refl)
      (simp add: split_def persist count cong: sum.case_cong option.case_cong)
  have load: "load_source (with_providers F env) sid fid =
      bindA (load_source env sid fid) (\<lambda>src. retA (exchange_source F src))" for sid fid
    unfolding load_source_def with_providers_transactions read_source_exchanged transaction_def assoc
    by (intro arg_cong2 [where f = bindA] ext refl)
      (auto simp: bindA_def retA_def split: sum.splits)
  have tried: "bindA (tryA (load_source (with_providers F env) sid fid)) (\<lambda>l. case l of
        Inl e \<Rightarrow> load_failed env i fid e
      | Inr src \<Rightarrow> run_transfer_source (with_providers F env) i src) =
      bindA (tryA (load_source env sid fid)) (\<lambda>l. case l of
        Inl e \<Rightarrow> load_failed env i fid e | Inr src \<Rightarrow> run_transfer_source env i src)" for sid fid
    unfolding load
    by (auto simp: bindA_def retA_def tryA_def run fun_eq_iff split: prod.splits sum.splits)
  show ?thesis
    unfolding transfer_handler_def with_providers_fields with_providers_transactions tried ..
qed

section \<open>A known operation is only asked about\<close>

definition without_writes ::
    "(folder_ref \<Rightarrow> string \<Rightarrow> ('s, remote_item option) act) \<Rightarrow>
     (remote_item \<Rightarrow> remote_item \<Rightarrow> ('s, unit) act) option \<Rightarrow>
     (share_info \<Rightarrow> remote_item \<Rightarrow> folder_ref \<Rightarrow> ('s, string) act) \<Rightarrow>
     (share_info \<Rightarrow> remote_item \<Rightarrow> folder_ref \<Rightarrow> ('s, save_result) act) \<Rightarrow>
     's provider \<Rightarrow> 's provider" where
  "without_writes find' validate' start' save' p =
     (case pr_resumable p of
        None \<Rightarrow> p
      | Some (start, query) \<Rightarrow>
          p\<lparr>pr_find_target_item := find', pr_validate_existing := validate',
            pr_resumable := Some (start', query), pr_save_shared_item := save'\<rparr>)"

lemma without_writes_same: "same_session (without_writes find' validate' start' save')"
  by (simp add: same_session_def without_writes_def split: option.split)

lemma without_writes_executes:
  "execute_transfer (without_writes find' validate' start' save' p) spec probe (Some oid) intent rec =
     execute_transfer p spec probe (Some oid) intent rec"
proof (cases "pr_resumable p")
  case (Some sq)
  obtain start query where sq: "sq = (start, query)" by (cases sq)
  show ?thesis
    using known_operation_only_queried [OF Some [unfolded sq], where start' = start' and oid = oid
        and find' = find' and v' = validate' and save' = save' and spec = spec and probe = probe
        and intent = intent and rec = rec and intent' = intent and rec' = rec]
    by (simp add: without_writes_def Some sq)
qed (simp add: without_writes_def)

section \<open>A write follows its recorded intent\<close>

definition intent_recorded :: "int \<Rightarrow> 'p world \<Rightarrow> bool" where
  "intent_recorded task_id w \<longleftrightarrow>
     (case get_task (wo_db w) task_id of
        None \<Rightarrow> False
      | Some t \<Rightarrow> t_provider_operation_id t \<noteq> None \<or>
          (t_provider_write_intent_at t \<noteq> None \<and> t_provider_operation_status t = Some OpIntent))"

definition requiring_intent :: "int \<Rightarrow> exn \<Rightarrow> 'p world provider \<Rightarrow> 'p world provider" where
  "requiring_intent task_id e p =
     (case pr_resumable p of
        None \<Rightarrow> p
      | Some (start, query) \<Rightarrow>
          p\<lparr>pr_resumable := Some (guarded_start (intent_recorded task_id) e start, query)\<rparr>)"

lemma requiring_intent_same: "same_session (requiring_intent task_id e)"
  by (simp add: same_session_def requiring_intent_def split: option.split)

lemma first_row_update_rows:
  "first_row p rows = Some r \<Longrightarrow> p x \<Longrightarrow> first_row p (update_rows p (\<lambda>_. x) rows) = Some x"
  by (induction rows) (auto simp: first_row_def update_rows_def)

lemma flush_task_get:
  assumes "get_task (wo_db w) tid = Some t" and "t_id t' = t_id t"
    and "flush_task now t t' w = (Inr u, w')"
  shows "\<exists>x. get_task (wo_db w') tid = Some (x :: task) \<and> (x = t' \<or> x = t'\<lparr>t_updated_at := now\<rparr>)"
proof (cases "t' = t")
  case True
  with assms(1,3) show ?thesis by (auto simp: flush_task_def)
next
  case False
  have tid: "t_id t = tid" using assms(1) first_row_SomeD by (fastforce simp: get_task_def)
  let ?x = "t'\<lparr>t_updated_at := now\<rparr>"
  from assms(3) False obtain r d' where
    upd: "sql_update_tasks (\<lambda>r. t_id r = t_id t) (\<lambda>_. ?x) (wo_db w) = Inr (r, d')"
    and w': "w' = w\<lparr>wo_db := d'\<rparr>"
    by (auto simp: flush_task_def split: sum.splits prod.splits)
  have "db_tasks d' = update_rows (\<lambda>r. t_id r = tid) (\<lambda>_. ?x) (db_tasks (wo_db w))"
    using upd unfolding tid by (auto simp: sql_update_tasks_def Let_def split: if_splits)
  moreover have "first_row (\<lambda>r. t_id r = tid) (update_rows (\<lambda>r. t_id r = tid) (\<lambda>_. ?x)
      (db_tasks (wo_db w))) = Some ?x"
    by (rule first_row_update_rows [OF assms(1) [unfolded get_task_def]])
      (simp add: assms(2) tid)
  ultimately show ?thesis by (simp add: w' get_task_def)
qed

lemma record_write_intent_recorded:
  assumes "record_write_intent env tid w = (Inr u, w')"
  shows "intent_recorded tid w'"
proof -
  from assms obtain w1 t where t: "get_task (wo_db w1) tid = Some t"
    and run: "(if t_provider_operation_id t \<noteq> None then (Inr (), w1)
      else flush_task (te_clock env w1) t
        (t\<lparr>t_provider_write_intent_at :=
             Some (coalesce (t_provider_write_intent_at t) (te_clock env w1)),
           t_provider_operation_status := Some OpIntent\<rparr>) w1) = (Inr u, w')"
    unfolding record_write_intent_def
    by (auto elim!: transaction_Inr split: option.splits)
  show ?thesis
  proof (cases "t_provider_operation_id t = None")
    case True
    then obtain x where "get_task (wo_db w') tid = Some x"
      and "x = t\<lparr>t_provider_write_intent_at :=
             Some (coalesce (t_provider_write_intent_at t) (te_clock env w1)),
           t_provider_operation_status := Some OpIntent\<rparr> \<or>
         x = t\<lparr>t_provider_write_intent_at :=
             Some (coalesce (t_provider_write_intent_at t) (te_clock env w1)),
           t_provider_operation_status := Some OpIntent, t_updated_at := te_clock env w1\<rparr>"
      using run flush_task_get [OF t, of "t\<lparr>t_provider_write_intent_at :=
             Some (coalesce (t_provider_write_intent_at t) (te_clock env w1)),
           t_provider_operation_status := Some OpIntent\<rparr>" "te_clock env w1" u w']
      by auto
    then show ?thesis by (auto simp: intent_recorded_def)
  qed (use run t in \<open>auto simp: intent_recorded_def\<close>)
qed

lemma requiring_intent_executes:
  "execute_transfer (requiring_intent tid e p) spec probe oid (record_write_intent env tid) rec =
     execute_transfer p spec probe oid (record_write_intent env tid) rec"
proof (cases "pr_resumable p")
  case (Some sq)
  obtain start query where sq: "sq = (start, query)" by (cases sq)
  show ?thesis
    using write_follows_intent [OF Some [unfolded sq] record_write_intent_recorded [of env tid],
        where e = e]
    by (simp add: requiring_intent_def Some sq)
qed (simp add: requiring_intent_def)

end
