(* ===== verification/SampleWorld.thy ===== *)
theory SampleWorld
  imports World Scheduling WorkerProofs
begin

text \<open>The small worlds on which the witnesses of the handlers' properties are evaluated.\<close>

text \<open>
  One subscription with one file and a leased transfer task.  The rest of the world counts the
  sessions that were opened and the writes the provider accepted.
\<close>

definition transfer_task :: task where
  "transfer_task = (default_task 100)\<lparr>t_id := 1, t_type := ''transfer'', t_subscription_id := Some 7,
     t_file_id := Some 5, t_max_retries := 3\<rparr>"

definition transfer_run :: task_run where
  "transfer_run =
     \<lparr>r_id = 1, r_task_id = 1, r_run_number = 1, r_worker_id = Some ''w1'',
      r_lock_token = Some ''k1'', r_status = RunRunning, r_started_at = 100, r_finished_at = None,
      r_last_heartbeat_at = None, r_duration_ms = None, r_result_summary = None,
      r_error_code = None, r_error_message = None, r_metrics = [], r_created_at = 100,
      r_updated_at = 100\<rparr>"

definition transfer_sub :: subscription where
  "transfer_sub =
     \<lparr>s_id = 7, s_cloud_account_id = 2, s_name = ''n'', s_provider = ''quark'',
      s_share_url = ''u'', s_share_key = None, s_share_password = None, s_source_folder_id = None,
      s_target_path = ''/t'', s_target_drive_id = None, s_target_drive_type = None,
      s_target_folder_id = None, s_schedule = ''1h'', s_enabled = True, s_status = ''active'',
      s_initial_sync_mode = ''m'', s_last_scanned_at = None, s_last_full_scanned_at = None,
      s_next_scan_at = None, s_last_error = None\<rparr>"

definition transfer_account :: cloud_account where
  "transfer_account =
     \<lparr>ca_id = 2, ca_provider = ''quark'', ca_name = ''n'', ca_refresh_token = ''c'',
      ca_account_identity = None, ca_provider_user_id = None, ca_default_drive_id = None,
      ca_status = ''active'', ca_last_verified_at = None, ca_last_error = None,
      ca_open_auth_mode = None, ca_open_refresh_token = None, ca_open_client_id = None,
      ca_open_client_secret = None, ca_open_token_url = None, ca_open_account_identity = None,
      ca_open_status = None, ca_open_last_verified_at = None, ca_open_last_error = None\<rparr>"

definition transfer_file :: cloud_file where
  "transfer_file =
     \<lparr>f_id = 5, f_subscription_id = 7, f_remote_file_id = ''r'', f_parent_remote_file_id = None,
      f_filename = ''a'', f_relative_path = ''a'', f_item_type = ''f'', f_size = None,
      f_content_hash = None, f_fingerprint = ''p'', f_status = ''pending'',
      f_target_file_id = None, f_target_path = None, f_first_seen_at = 1, f_last_seen_at = 1,
      f_saved_at = None, f_last_error = None\<rparr>"

definition transfer_db :: db where
  "transfer_db = \<lparr>db_tasks = [claim_row ''w1'' ''k1'' 100 900 transfer_task], db_runs = [transfer_run],
     db_subscriptions = [transfer_sub], db_files = [transfer_file], db_updates = []\<rparr>"

definition transfer_world :: "(nat \<times> nat) world" where
  "transfer_world = \<lparr>wo_db = transfer_db,
     wo_accounts = [transfer_account], wo_checkpoints = [],
     wo_rest = (0, 0)\<rparr>"

definition sample_provider :: "(nat \<times> nat) world provider" where
  "sample_provider =
     \<lparr>pr_resolve_share = (\<lambda>u pw. retA \<lparr>sh_key = u, sh_name = u, sh_root_folder_id = ''root''\<rparr>),
      pr_list_share_items = (\<lambda>sh fid m. retA \<lparr>rp_items = [], rp_next_marker = None\<rparr>),
      pr_ensure_folder = (\<lambda>t n. retA \<lparr>fr_folder_id = n, fr_path = ''/'' @ n\<rparr>),
      pr_find_target_item = (\<lambda>t n. retA None), pr_validate_existing = None,
      pr_resumable = Some (\<lambda>a b c w. (Inr ''op'', w\<lparr>wo_rest := apsnd Suc (wo_rest w)\<rparr>),
                           \<lambda>oid. retA \<lparr>so_completed = True, so_target_file_ids = [''t'']\<rparr>),
      pr_save_shared_item = (\<lambda>a b c. retA \<lparr>sr_target_file_id = ''t'', sr_target_path = ''/t/a''\<rparr>),
      pr_consume_token = (\<lambda>w. (None, w)), pr_consume_open_token = None,
      pr_request_count = (\<lambda>_. None)\<rparr>"

definition transfer_invocation :: "(nat \<times> nat) world \<Rightarrow> task_invocation" where
  "transfer_invocation w = invocation_from_task (hd (db_tasks (wo_db w))) 1"

lemma transfer_db_inv: "store_inv transfer_db"
  by (simp add: store_inv_def table_inv_def lease_inv_def leases_agree_def transfer_db_def
      transfer_task_def default_task_def transfer_run_def claim_row_def task_check_def
      ownership_complete_def ownership_clear_def unique_column_def run_check_def run_of_def
      LEASED_TASK_STATUSES_def)

end
