(* ===== verification/TransferProperties.thy ===== *)
theory TransferProperties
  imports TransferWrites SampleWorld
begin

text \<open>
  The properties of the transfer handler: it keeps the task store, settles the file as the worker
  settles the task, writes to the cloud drive only after recording its intent, and never writes
  again once the operation is known; and the cases in which it does less than it means to.
\<close>

section \<open>A sample environment\<close>

text \<open>\<open>refuse\<close> lists the sessions that the database refuses.\<close>

definition sample_env :: "nat list \<Rightarrow> (nat \<times> nat) transfer_env" where
  "sample_env refuse =
     \<lparr>te_enter = (\<lambda>w. (if fst (wo_rest w) \<in> set refuse
                       then Inl (raise_exn COther None ''OperationalError'') else Inr (),
                     w\<lparr>wo_rest := apfst Suc (wo_rest w)\<rparr>)),
      te_clock = (\<lambda>w. 200), te_cancelled = retA False,
      te_factory = (\<lambda>ty tok drive. Inr sample_provider), te_runtime_provider = None,
      te_decrypt = Inr, te_encrypt = Inr\<rparr>"

lemma sample_env_keeps: "env_keeps (sample_env refuse)"
  by (auto simp: env_keeps_def sample_env_def keeps_def store_step_def retA_def
      provider_keeps_def sample_provider_def)

lemma sample_transfer_succeeds:
  "(case transfer_handler (sample_env []) (transfer_invocation transfer_world) transfer_world of
      (Inr oc, w') \<Rightarrow> o_status oc = OutSuccess \<and> map f_status (db_files (wo_db w')) = [''saved''] \<and>
        map t_provider_operation_status (db_tasks (wo_db w')) = [Some OpSucceeded] \<and>
        wo_rest w' = (7, 1)
    | _ \<Rightarrow> False)"
  by code_simp

section \<open>Properties\<close>

text \<open>C12: A run of the transfer handler keeps the task store consistent and its history of runs,
  whether it returns or raises, as long as the other processes and the providers do.\<close>

theorem transfer_keeps_store:
  assumes "env_keeps env" and "store_inv (wo_db w)"
  shows "store_inv (wo_db (snd (transfer_handler env i w))) \<and>
         history_extends (wo_db w) (wo_db (snd (transfer_handler env i w)))"
  using handler_keeps [OF assms(1), of i] assms(2) by (auto simp: keeps_def store_step_def)

theorem transfer_keeps_store_witness:
  "store_inv (wo_db (snd (transfer_handler (sample_env [2])
     (transfer_invocation transfer_world) transfer_world)))"
  using transfer_keeps_store [OF sample_env_keeps, of transfer_world] transfer_db_inv
  by (simp add: transfer_world_def)

text \<open>C13: The outcome that the transfer handler returns is one the worker accepts, and the file is
  left as the worker then leaves the task: failed exactly when the task fails, saved exactly when
  it succeeds, pending when it will be tried again, waits or is cancelled.  The exceptions are a
  missing source, where there is no file to mark, and the two outcomes that report that the remote
  side succeeded and the local side did not.\<close>

theorem transfer_settles_file_and_task:
  assumes "transfer_handler env i w = (Inr oc, w')"
    and "parse_transfer_payload i = Inr (sid, fid)"
    and "o_error_code oc \<noteq> Some ''TRANSFER_SOURCE_NOT_FOUND''"
    and "oc \<noteq> state_not_persisted" and "oc \<noteq> credential_not_persisted"
    and "f \<in> set (db_files (wo_db w'))" and "f_id f = fid"
    and "settle b now t oc = Inr m"
    and "t_retry_count t = i_retry_count i" and "t_max_retries t = i_max_retries i"
  shows "outcome_valid oc \<and>
         (m_task_status m = Failed \<longleftrightarrow> f_status f = ''failed'') \<and>
         (m_task_status m = Success \<longleftrightarrow> f_status f = ''saved'') \<and>
         (m_task_status m \<in> {Retry, WaitingCredential, Cancelled} \<longleftrightarrow> f_status f = ''pending'')"
proof -
  have "f \<in> file_rows fid w'" using assms(6,7) by (simp add: file_rows_def)
  with handler_settles [OF assms(1,2)] assms(3-5)
  have "outcome_valid oc" "file_settled i oc f" by blast+
  with settled_with_task [OF _ assms(8-10)] show ?thesis by blast
qed

theorem transfer_settles_file_and_task_witness:
  "case transfer_handler (sample_env []) (transfer_invocation transfer_world) transfer_world of
     (Inr oc, w') \<Rightarrow> outcome_valid oc | _ \<Rightarrow> False"
proof -
  let ?i = "transfer_invocation transfer_world"
  let ?res = "transfer_handler (sample_env []) ?i transfer_world"
  have res: "case ?res of (Inl _, _) \<Rightarrow> False
    | (Inr oc, w') \<Rightarrow> o_error_code oc = None \<and> o_status oc = OutSuccess \<and>
        map f_id (db_files (wo_db w')) = [5]"
    by code_simp
  then obtain oc w' where run: "?res = (Inr oc, w')" and oc: "o_error_code oc = None"
      "o_status oc = OutSuccess" and files: "map f_id (db_files (wo_db w')) = [5]"
    by (auto split: prod.splits sum.splits)
  have ids: "parse_transfer_payload ?i = Inr (7, 5)" by code_simp
  have t: "t_retry_count transfer_task = i_retry_count ?i" "t_max_retries transfer_task = i_max_retries ?i"
    by code_simp+
  obtain f where f: "f \<in> set (db_files (wo_db w'))" "f_id f = 5"
    using files by auto
  obtain m where m: "settle \<lparr>bo_base_delay = 1, bo_max_delay = 2\<rparr> 300 transfer_task oc = Inr m"
    using oc by (simp add: settle_def)
  have "oc \<noteq> state_not_persisted" "oc \<noteq> credential_not_persisted"
    using oc by (auto simp: state_not_persisted_def credential_not_persisted_def plain_outcome_def)
  with transfer_settles_file_and_task [OF run ids _ _ _ f m t] oc have "outcome_valid oc" by simp
  with run show ?thesis by simp
qed




text \<open>The handler does not look at what an earlier run recorded besides the operation's
  identifier: a recorded intent, or an operation recorded as uncertain, does not change what it
  does, so it writes again.\<close>

theorem recorded_intent_is_not_consulted:
  "transfer_handler env (i\<lparr>i_provider_write_intent_at := intent_at,
     i_provider_operation_status := status, i_provider_result := result\<rparr>) = transfer_handler env i"
proof -
  let ?i = "i\<lparr>i_provider_write_intent_at := intent_at, i_provider_operation_status := status,
      i_provider_result := result\<rparr>"
  have parse: "parse_transfer_payload ?i = parse_transfer_payload i"
    by (simp add: parse_transfer_payload_def cong: option.case_cong if_cong)
  have fields: "i_task_id ?i = i_task_id i" "i_provider_operation_id ?i = i_provider_operation_id i"
      "i_retry_count ?i = i_retry_count i" "i_max_retries ?i = i_max_retries i"
    by simp_all
  have exhausted: "retry_exhausted ?i = retry_exhausted i"
    by (intro ext) (simp add: retry_exhausted_def)
  have failures: "failure_for_context e ?i = failure_for_context e i" for e
    unfolding failure_for_context_def exhausted ..
  have attempt: "attempt_transfer env ?i src = attempt_transfer env i src" for src
    unfolding attempt_transfer_def fields ..
  have failed: "load_failed env ?i fid e = load_failed env i fid e" for fid e
    unfolding load_failed_def failures exhausted ..
  have after: "after_failure env ?i fid e p = after_failure env i fid e p"
      "after_success env ?i fid c r p = after_success env i fid c r p" for fid e c r p
    unfolding after_failure_def after_success_def failures exhausted fields by (rule refl)+
  have run: "run_transfer_source env ?i src = run_transfer_source env i src" for src
    unfolding run_transfer_source_def attempt after ..
  show ?thesis
    unfolding transfer_handler_def parse failed run ..
qed

lemma attempt_uses:
  assumes "src_runtime_provider src = Some p \<or> (src_runtime_provider src = None \<and>
    te_factory env (src_provider_type src) (src_refresh_token src) (src_target_drive_id src) = Inr p)"
  shows "attempt_transfer env i src w =
    (let (r, w') = execute_transfer p (src_spec src) (te_cancelled env) (i_provider_operation_id i)
           (record_write_intent env (i_task_id i)) (record_provider_operation env (i_task_id i)) w
     in (Inr (Some p, r), w'))"
  using assms by (auto simp: attempt_transfer_def bindA_def tryA_def retA_def split: prod.split)

lemma write_uncertain_is_failed:
  "fd_status (failure_for_context write_uncertain_exn i) = FailFailed"
proof -
  have "fd_status (classify_failure write_uncertain_exn) = FailFailed" by code_simp
  then show ?thesis by (simp add: failure_for_context_def retry_exhausted_def)
qed

text \<open>A write that was accepted but whose operation identifier was lost fails the task, so that
  nobody writes again, only if the provider's credential could be stored; if that failed as well,
  the outcome asks for a retry, and the retry starts from a task without an operation.\<close>

theorem uncertain_write_retried_without_credential:
  assumes "mark_saving env (src_file_id src) w = (Inr (), w1)"
    and "attempt_transfer env i src w1 = (Inr (p, Inl write_uncertain_exn), w2)"
    and "try_persist_token env (src_account_id src) p w2 = (Inr persisted, w3)"
    and "run_transfer_source env i src w = (Inr oc, w')"
  shows "o_status oc = OutCancelled \<or> o_status oc = (if persisted then OutFailed else OutRetry)"
proof -
  have "after_failure env i (src_file_id src) write_uncertain_exn persisted w3 = (Inr oc, w')"
    using assms(4) by (simp add: run_transfer_source_def bindA_def assms(1-3))
  moreover have "e_class write_uncertain_exn = CWriteUncertain"
    by (simp add: write_uncertain_exn_def raise_exn_def)
  ultimately show ?thesis
    using write_uncertain_is_failed [of i]
    by (auto simp: after_failure_def Let_def bindA_eq_Inr retA_run cancelled_outcome_def
        plain_outcome_def outcome_for_failure_def credential_persist_failure_def disposition_def
        split: if_splits)
qed

definition sample_source :: "(nat \<times> nat) transfer_source" where
  "sample_source =
     \<lparr>src_file_id = 5, src_account_id = 2, src_provider_type = ''quark'', src_refresh_token = ''c'',
      src_target_drive_id = None, src_spec = transfer_spec_of transfer_sub None transfer_file,
      src_runtime_provider = None\<rparr>"

text \<open>Sessions 2 and 3 are refused: the operation and then the credential cannot be stored.\<close>

theorem uncertain_write_retried_without_credential_witness:
  "case run_transfer_source (sample_env [2, 3]) (transfer_invocation transfer_world) sample_source
          transfer_world of
     (Inr oc, w') \<Rightarrow> o_status oc = OutRetry \<and>
       map t_provider_operation_status (db_tasks (wo_db w')) = [Some OpUncertain]
   | _ \<Rightarrow> False"
proof -
  let ?env = "sample_env [2, 3]" and ?i = "transfer_invocation transfer_world"
  let ?w1 = "snd (mark_saving ?env 5 transfer_world)"
  let ?x = "execute_transfer sample_provider (src_spec sample_source) (te_cancelled ?env)
      (i_provider_operation_id ?i) (record_write_intent ?env (i_task_id ?i))
      (record_provider_operation ?env (i_task_id ?i)) ?w1"
  let ?y = "try_persist_token ?env 2 (Some sample_provider) (snd ?x)"
  have facts: "fst (mark_saving ?env 5 transfer_world) = Inr ()" "fst ?x = Inl write_uncertain_exn"
    "fst ?y = Inr False" by code_simp+
  have saving: "mark_saving ?env (src_file_id sample_source) transfer_world = (Inr (), ?w1)"
    using facts(1) by (simp add: sample_source_def prod_eq_iff)
  have "attempt_transfer ?env ?i sample_source ?w1 = (Inr (Some sample_provider, fst ?x), snd ?x)"
    by (subst attempt_uses [where p = sample_provider])
      (simp_all add: sample_source_def sample_env_def split_def Let_def)
  then have attempt: "attempt_transfer ?env ?i sample_source ?w1 =
      (Inr (Some sample_provider, Inl write_uncertain_exn), snd ?x)"
    by (simp only: facts)
  have persist: "try_persist_token ?env (src_account_id sample_source) (Some sample_provider) (snd ?x) =
      (Inr False, snd ?y)"
    using facts(3) by (simp add: sample_source_def prod_eq_iff)
  have returned: "case run_transfer_source ?env ?i sample_source transfer_world of
      (Inr oc, w') \<Rightarrow> o_status oc \<noteq> OutCancelled \<and>
        map t_provider_operation_status (db_tasks (wo_db w')) = [Some OpUncertain]
    | _ \<Rightarrow> False" by code_simp
  then obtain oc w' where run: "run_transfer_source ?env ?i sample_source transfer_world = (Inr oc, w')"
    and rest: "o_status oc \<noteq> OutCancelled"
      "map t_provider_operation_status (db_tasks (wo_db w')) = [Some OpUncertain]"
    by (auto split: prod.splits sum.splits)
  from uncertain_write_retried_without_credential [OF saving attempt persist run] rest run
  show ?thesis by simp
qed

definition files_kept :: "'p world \<Rightarrow> 'p world \<Rightarrow> bool" where
  "files_kept w w' \<longleftrightarrow> db_files (wo_db w') = db_files (wo_db w)"

interpretation kept_files: action_contract files_kept
  by unfold_locales (simp_all add: files_kept_def)

lemma failed_success_keeps_files:
  assumes enter: "keeps files_kept (te_enter env)"
    and run: "bindA (record_provider_success env tid result) (\<lambda>_. mark_success env fid result) w =
      (Inl e, w')"
  shows "files_kept w w'"
proof -
  have flush: "files_kept v (snd (flush_task n x y v))" for n x y and v :: "'a world"
    by (auto simp: files_kept_def flush_task_def sql_update_tasks_def Let_def
        split: sum.splits if_splits)
  have recorded: "keeps files_kept (record_provider_success env tid result)"
    unfolding record_provider_success_def transaction_def
    by (intro kept_files.keeps_bind enter)
      (simp add: keeps_def flush kept_files.R_refl split: option.split)
  from run show ?thesis
  proof (cases rule: bindA_cases)
    case (raised e1)
    with recorded show ?thesis by (metis keeps_def snd_conv)
  next
    case (returned u w1)
    have w1: "files_kept w w1" using recorded returned(1) by (metis keeps_def snd_conv)
    from returned(2) have "files_kept w1 w'"
      unfolding mark_success_def transaction_def
    proof (cases rule: bindA_cases)
      case (raised e1)
      with enter show ?thesis by (metis keeps_def snd_conv)
    next
      case (returned u w2)
      then have "w' = w2" by (auto simp: update_file_def split: option.splits)
      with enter returned(1) show ?thesis by (metis keeps_def snd_conv)
    qed
    with w1 show ?thesis by (rule kept_files.R_trans)
  qed
qed

text \<open>When the remote side succeeded and the local state could not be stored, the file stays as
  it was, which is being saved; and when the retries are used up the worker fails the task, so
  that nothing leads the file out of that state.\<close>

theorem unstored_success_leaves_file:
  assumes "after_success env i fid count result persisted w = (Inr state_not_persisted, w')"
    and "\<forall>w. db_files (wo_db (snd (te_enter env w))) = db_files (wo_db w)"
    and "settle b now t state_not_persisted = Inr m"
    and "t_max_retries t \<le> t_retry_count t"
  shows "db_files (wo_db w') = db_files (wo_db w) \<and> m_task_status m = Failed"
proof
  have enter: "keeps files_kept (te_enter env)"
    using assms(2) by (simp add: keeps_def files_kept_def)
  obtain stored w1 where
    st: "tryA (bindA (record_provider_success env (i_task_id i) result) (\<lambda>_.
      mark_success env fid result)) w = (Inr stored, w1)"
    and rest: "(if isl stored then retA state_not_persisted
      else if \<not> persisted then retA credential_not_persisted
      else (\<lambda>w. (Inr (success_outcome (count w) result), w))) w1 = (Inr state_not_persisted, w')"
    using assms(1) by (auto simp: after_success_def bindA_eq_Inr)
  then have "isl stored" and w1: "w' = w1"
    by (auto simp: retA_run credential_not_persisted_def success_outcome_def state_not_persisted_def
        plain_outcome_def split: if_splits)
  then obtain e where "bindA (record_provider_success env (i_task_id i) result) (\<lambda>_.
      mark_success env fid result) w = (Inl e, w')"
    using st by (cases stored) (auto simp: tryA_def split: prod.splits)
  then have "files_kept w w'"
    by (rule failed_success_keeps_files [OF enter])
  then show "db_files (wo_db w') = db_files (wo_db w)" by (simp add: files_kept_def)
  show "m_task_status m = Failed"
    using assms(3,4) by (auto simp: settle_def state_not_persisted_def plain_outcome_def split: if_splits)
qed

text \<open>Session 5 is refused: recording the success, when every retry is used.\<close>

theorem unstored_success_leaves_file_witness:
  "(let w = snd (mark_saving (sample_env []) 5 transfer_world);
        r = \<lparr>tr_target_file_id = ''t'', tr_target_path = ''/t/a'', tr_already_existed = False\<rparr>
    in db_files (wo_db (snd (after_success (sample_env [1]) (transfer_invocation transfer_world) 5
         (\<lambda>_. None) r True w))) = db_files (wo_db w)) \<and>
   (case transfer_handler (sample_env [5]) (transfer_invocation transfer_world) transfer_world of
      (Inr oc, w') \<Rightarrow> oc = state_not_persisted \<and> map f_status (db_files (wo_db w')) = [''saving'']
    | _ \<Rightarrow> False)"
proof -
  let ?w = "snd (mark_saving (sample_env []) 5 transfer_world)"
  let ?r = "\<lparr>tr_target_file_id = ''t'', tr_target_path = ''/t/a'', tr_already_existed = False\<rparr>"
  let ?res = "after_success (sample_env [1]) (transfer_invocation transfer_world) 5 (\<lambda>_. None) ?r True ?w"
  have "fst ?res = Inr state_not_persisted" by code_simp
  then have res: "?res = (Inr state_not_persisted, snd ?res)" by (simp add: prod_eq_iff)
  have "db_files (wo_db (snd ?res)) = db_files (wo_db ?w)"
    using unstored_success_leaves_file [OF res, of "\<lparr>bo_base_delay = 1, bo_max_delay = 2\<rparr>" 300
        "transfer_task\<lparr>t_retry_count := 3\<rparr>"]
    by (simp add: sample_env_def settle_def state_not_persisted_def plain_outcome_def transfer_task_def
        default_task_def)
  moreover have "case transfer_handler (sample_env [5]) (transfer_invocation transfer_world) transfer_world of
     (Inr oc, w') \<Rightarrow> oc = state_not_persisted \<and> map f_status (db_files (wo_db w')) = [''saving'']
   | _ \<Rightarrow> False" by code_simp
  ultimately show ?thesis unfolding Let_def by (rule conjI)
qed

end
