(* ===== verification/ScanService.thy ===== *)
theory ScanService
  imports World Scheduling
begin

text \<open>
  The scan of a share (\<open>app/services/scan_service.py\<close>): recording the items of a page and queueing
  transfers, following the pages of a folder, the full scan, the batch of the folders scanned
  longest ago, and the bookkeeping around them.
\<close>

section \<open>The environment of a scan\<close>

text \<open>
  \<open>sc_refused\<close> is whether the database refuses a \<open>COMMIT\<close>, and \<open>sc_others\<close> what other processes
  do afterwards; \<open>sc_reloaded\<close> is whether a rollback had a transaction to undo, which makes the
  session load its objects again; \<open>sc_sha256\<close> is the hexadecimal SHA-256 digest; then the
  cipher, the provider factory and the settings.
\<close>

record 'p scan_env =
  sc_refused :: "'p world \<Rightarrow> bool"
  sc_others :: "'p world \<Rightarrow> 'p world"
  sc_reloaded :: "'p world \<Rightarrow> bool"
  sc_clock :: "'p world \<Rightarrow> datetime"
  sc_cancelled :: "('p world, bool) act"
  sc_sha256 :: "string \<Rightarrow> string"
  sc_decrypt :: "string \<Rightarrow> exn + string"
  sc_encrypt :: "string \<Rightarrow> exn + string"
  sc_factory :: "string \<Rightarrow> string \<Rightarrow> string option \<Rightarrow> exn + 'p world provider"
  sc_batch_size :: nat
  sc_full_interval_hours :: int
  sc_legacy :: bool

definition operational_exn :: exn where
  "operational_exn = raise_exn COther None ''OperationalError''"

definition stale_data_exn :: exn where
  "stale_data_exn = raise_exn COther None ''StaleDataError''"

text \<open>The changes of a session up to its \<open>commit\<close>: an exception, or a refusal, rolls them back.\<close>

definition committed ::
    "'p scan_env \<Rightarrow> ('p world \<Rightarrow> exn + 'a \<times> 'p world) \<Rightarrow> ('p world, 'a) act" where
  "committed env body w =
     (case body w of
        Inl e \<Rightarrow> (Inl e, w)
      | Inr (x, w') \<Rightarrow> if sc_refused env w' then (Inl operational_exn, w)
                       else (Inr x, sc_others env w'))"

definition raise_if_cancelled :: "'p scan_env \<Rightarrow> ('p world, unit) act" where
  "raise_if_cancelled env =
     bindA (sc_cancelled env) (\<lambda>c.
     if c then raiseA (raise_exn CScanCancelled None ''scan cancelled at a safe traversal boundary'')
     else retA ())"

text \<open>No exception of the program: the bound on the number of pages or of nested folders is used up.\<close>

definition out_of_fuel :: exn where
  "out_of_fuel = raise_exn COutOfFuel None []"

section \<open>Recording an item\<close>

record scan_result =
  res_discovered :: int
  res_folders_scanned :: int

definition add_result :: "scan_result \<Rightarrow> scan_result \<Rightarrow> scan_result" where
  "add_result a b =
     \<lparr>res_discovered = res_discovered a + res_discovered b,
      res_folders_scanned = res_folders_scanned a + res_folders_scanned b\<rparr>"

definition fingerprint_item :: "(string \<Rightarrow> string) \<Rightarrow> remote_item \<Rightarrow> string" where
  "fingerprint_item sha256 item =
     sha256 (intercalate [CHR 0x00]
       [ri_remote_file_id item, ri_item_type item,
        (case ri_size item of None \<Rightarrow> [] | Some n \<Rightarrow> if n = 0 then [] else int_str n),
        coalesce (ri_content_hash item) [], coalesce (ri_updated_at item) []])"

definition transfer_key :: "int \<Rightarrow> string \<Rightarrow> string \<Rightarrow> string" where
  "transfer_key sid remote_file_id fingerprint =
     ''transfer:'' @ int_str sid @ '':'' @ remote_file_id @ '':'' @ fingerprint"

definition transfer_task_for :: "datetime \<Rightarrow> int \<Rightarrow> int \<Rightarrow> string \<Rightarrow> task" where
  "transfer_task_for now sid fid key =
     (default_task now)\<lparr>t_subscription_id := Some sid, t_file_id := Some fid,
       t_type := ''transfer'', t_trigger_type := ''scheduled'', t_status := Pending,
       t_idempotency_key := Some key\<rparr>"

definition queue_transfer ::
    "'p scan_env \<Rightarrow> int \<Rightarrow> int \<Rightarrow> string \<Rightarrow> string \<Rightarrow> 'p world \<Rightarrow> exn + 'p world" where
  "queue_transfer env sid fid remote_file_id fingerprint w =
     (let key = transfer_key sid remote_file_id fingerprint in
      if \<exists>t \<in> set (db_tasks (wo_db w)). t_idempotency_key t = Some key then Inr w
      else
        let w1 = put_file fid (\<lambda>f. f\<lparr>f_status := ''pending''\<rparr>) w in
        case create_task (transfer_task_for (sc_clock env w) sid fid key) (wo_db w1) of
          Inl _ \<Rightarrow> Inl integrity_exn
        | Inr (_, d) \<Rightarrow> Inr (w1\<lparr>wo_db := d\<rparr>))"

definition get_remote_file :: "db \<Rightarrow> int \<Rightarrow> string \<Rightarrow> cloud_file option" where
  "get_remote_file d sid remote_file_id =
     first_row (\<lambda>f. f_subscription_id f = sid \<and> f_remote_file_id f = remote_file_id) (db_files d)"

definition new_file :: "datetime \<Rightarrow> int \<Rightarrow> remote_item \<Rightarrow> string \<Rightarrow> string \<Rightarrow> cloud_file" where
  "new_file now sid item relative_path fingerprint =
     \<lparr>f_id = 0, f_subscription_id = sid, f_remote_file_id = ri_remote_file_id item,
      f_parent_remote_file_id = ri_parent_id item, f_filename = ri_filename item,
      f_relative_path = relative_path, f_item_type = ri_item_type item, f_size = ri_size item,
      f_content_hash = ri_content_hash item, f_fingerprint = fingerprint,
      f_status = ''discovered'', f_target_file_id = None, f_target_path = None,
      f_first_seen_at = now, f_last_seen_at = now, f_saved_at = None, f_last_error = None\<rparr>"

definition seen_file ::
    "datetime \<Rightarrow> remote_item \<Rightarrow> string \<Rightarrow> string \<Rightarrow> cloud_file \<Rightarrow> cloud_file" where
  "seen_file now item relative_path fingerprint f =
     f\<lparr>f_parent_remote_file_id := ri_parent_id item, f_filename := ri_filename item,
       f_relative_path := relative_path, f_item_type := ri_item_type item,
       f_size := ri_size item, f_content_hash := ri_content_hash item,
       f_fingerprint := fingerprint, f_last_seen_at := now\<rparr>"

text \<open>\<open>INSERT INTO files\<close>: the row's id, and the foreign key to the subscription.\<close>

definition insert_file :: "cloud_file \<Rightarrow> 'p world \<Rightarrow> exn + int \<times> 'p world" where
  "insert_file f w =
     (if get_subscription (wo_db w) (f_subscription_id f) = None then Inl integrity_exn
      else let fid = next_id (map f_id (db_files (wo_db w)))
           in Inr (fid, w\<lparr>wo_db := (wo_db w)\<lparr>db_files := db_files (wo_db w) @ [f\<lparr>f_id := fid\<rparr>]\<rparr>\<rparr>))"

definition get_checkpoint :: "'p world \<Rightarrow> int \<Rightarrow> string \<Rightarrow> folder_checkpoint option" where
  "get_checkpoint w sid remote_folder_id =
     first_row (\<lambda>c. cp_subscription_id c = sid \<and> cp_remote_folder_id c = remote_folder_id)
       (wo_checkpoints w)"

definition put_checkpoint ::
    "int \<Rightarrow> (folder_checkpoint \<Rightarrow> folder_checkpoint) \<Rightarrow> 'p world \<Rightarrow> 'p world" where
  "put_checkpoint cid g w =
     w\<lparr>wo_checkpoints := update_rows (\<lambda>c. cp_id c = cid) g (wo_checkpoints w)\<rparr>"

definition record_checkpoint ::
    "datetime \<Rightarrow> int \<Rightarrow> string \<Rightarrow> string \<Rightarrow> 'p world \<Rightarrow> exn + folder_checkpoint \<times> 'p world" where
  "record_checkpoint now sid remote_folder_id relative_path w =
     (case get_checkpoint w sid remote_folder_id of
        Some c \<Rightarrow>
          let seen = (\<lambda>c. c\<lparr>cp_relative_path := relative_path, cp_last_seen_at := now\<rparr>)
          in Inr (seen c, put_checkpoint (cp_id c) seen w)
      | None \<Rightarrow>
          if get_subscription (wo_db w) sid = None then Inl integrity_exn
          else
            let c = \<lparr>cp_id = next_id (map cp_id (wo_checkpoints w)), cp_subscription_id = sid,
                     cp_remote_folder_id = remote_folder_id, cp_relative_path = relative_path,
                     cp_last_scanned_at = None, cp_last_seen_at = now\<rparr>
            in Inr (c, w\<lparr>wo_checkpoints := wo_checkpoints w @ [c]\<rparr>))"

text \<open>The result is whether the file is new, and the checkpoint of a folder.\<close>

definition record_item ::
    "'p scan_env \<Rightarrow> int \<Rightarrow> remote_item \<Rightarrow> string \<Rightarrow> bool \<Rightarrow> 'p world \<Rightarrow>
     exn + (int \<times> folder_checkpoint option) \<times> 'p world" where
  "record_item env sid item relative_path create_transfers w =
     (let now = sc_clock env w;
          fingerprint = fingerprint_item (sc_sha256 env) item;
          existing = get_remote_file (wo_db w) sid (ri_remote_file_id item);
          is_new = (existing = None);
          changed = (case existing of None \<Rightarrow> False | Some f \<Rightarrow> f_fingerprint f \<noteq> fingerprint) in
      bindR (case existing of
               None \<Rightarrow> insert_file (new_file now sid item relative_path fingerprint) w
             | Some f \<Rightarrow> Inr (f_id f, put_file (f_id f) (seen_file now item relative_path fingerprint) w))
        (\<lambda>(fid, w1).
      bindR (if ri_item_type item = ''folder''
             then bindR (record_checkpoint now sid (ri_remote_file_id item) relative_path w1)
                    (\<lambda>(c, w2). Inr (Some c, w2))
             else if create_transfers \<and> (is_new \<or> changed)
             then bindR (queue_transfer env sid fid (ri_remote_file_id item) fingerprint w1)
                    (\<lambda>w2. Inr (None, w2))
             else Inr (None, w1)) (\<lambda>(checkpoint, w2).
      Inr ((if is_new then 1 else 0, checkpoint), w2))))"

section \<open>The pages of a folder\<close>

text \<open>\<open>parent_path / item.filename\<close> and its text.\<close>

definition item_path :: "posix_path \<Rightarrow> remote_item \<Rightarrow> string" where
  "item_path folder_path item = path_str (join_path folder_path (parse_path (ri_filename item)))"

fun record_items ::
    "'p scan_env \<Rightarrow> int \<Rightarrow> remote_item list \<Rightarrow> posix_path \<Rightarrow> bool \<Rightarrow> 'p world \<Rightarrow>
     exn + (int \<times> folder_checkpoint list) \<times> 'p world" where
  "record_items env sid [] folder_path create_transfers w = Inr ((0, []), w)"
| "record_items env sid (item # items) folder_path create_transfers w =
     bindR (record_item env sid item (item_path folder_path item) create_transfers w)
       (\<lambda>((discovered, checkpoint), w1).
     bindR (record_items env sid items folder_path create_transfers w1) (\<lambda>((n, cps), w2).
     Inr ((discovered + n, (case checkpoint of None \<Rightarrow> cps | Some c \<Rightarrow> c # cps)), w2)))"

definition pagination_exn :: "string \<Rightarrow> exn" where
  "pagination_exn msg = raise_exn CProviderPagination (Some ''PROVIDER_PAGINATION_STALLED'') msg"

definition next_marker :: "remote_page \<Rightarrow> string option" where
  "next_marker page =
     (case rp_next_marker page of Some m \<Rightarrow> if m = [] then None else Some m | None \<Rightarrow> None)"

text \<open>
  The loop over the pages, with a bound on their number: what was recorded so far, the cursors
  and the items seen, and the cursor of the next page.
\<close>

fun scan_pages ::
    "nat \<Rightarrow> 'p scan_env \<Rightarrow> 'p world provider \<Rightarrow> share_info \<Rightarrow> int \<Rightarrow> string \<Rightarrow> posix_path \<Rightarrow> bool \<Rightarrow>
     string option \<Rightarrow> string list \<Rightarrow> string list \<Rightarrow> int \<times> folder_checkpoint list \<Rightarrow>
     ('p world, int \<times> folder_checkpoint list) act" where
  "scan_pages 0 env p share sid parent_id folder_path create_transfers marker markers ids acc =
     raiseA out_of_fuel"
| "scan_pages (Suc fuel) env p share sid parent_id folder_path create_transfers marker markers ids acc =
     bindA (raise_if_cancelled env) (\<lambda>_.
     bindA (pr_list_share_items p share parent_id marker) (\<lambda>page.
     if rp_items page = [] then retA acc
     else if set (map ri_remote_file_id (rp_items page)) \<subseteq> set ids
     then raiseA (pagination_exn ''Cloud-drive listing repeated items without progress'')
     else if (case next_marker page of None \<Rightarrow> False | Some m \<Rightarrow> m \<in> set markers)
     then raiseA (pagination_exn ''Cloud-drive listing repeated a pagination cursor'')
     else
     bindA (committed env (record_items env sid (rp_items page) folder_path create_transfers))
       (\<lambda>(n, cps).
     case next_marker page of
       None \<Rightarrow> retA (fst acc + n, snd acc @ cps)
     | Some m \<Rightarrow>
         scan_pages fuel env p share sid parent_id folder_path create_transfers (Some m)
           (m # markers) (map ri_remote_file_id (rp_items page) @ ids)
           (fst acc + n, snd acc @ cps))))"

definition scan_folder_contents ::
    "nat \<Rightarrow> 'p scan_env \<Rightarrow> 'p world provider \<Rightarrow> share_info \<Rightarrow> int \<Rightarrow> string \<Rightarrow> posix_path \<Rightarrow> bool \<Rightarrow>
     ('p world, scan_result \<times> folder_checkpoint list) act" where
  "scan_folder_contents fuel env p share sid parent_id folder_path create_transfers =
     bindA (scan_pages fuel env p share sid parent_id folder_path create_transfers None [] [] (0, []))
       (\<lambda>(n, cps). retA (\<lparr>res_discovered = n, res_folders_scanned = 1\<rparr>, cps))"

section \<open>Full and incremental scans\<close>

text \<open>
  The session holds the checkpoint's object: its path is the last one this scan recorded, and
  writing to a row that is gone is a \<open>StaleDataError\<close>.
\<close>

definition checkpoint_path :: "'p world \<Rightarrow> folder_checkpoint \<Rightarrow> posix_path" where
  "checkpoint_path w c =
     (case first_row (\<lambda>c'. cp_id c' = cp_id c) (wo_checkpoints w) of
        None \<Rightarrow> parse_path (cp_relative_path c)
      | Some c' \<Rightarrow> parse_path (cp_relative_path c'))"

definition mark_scanned :: "'p scan_env \<Rightarrow> folder_checkpoint \<Rightarrow> ('p world, unit) act" where
  "mark_scanned env c =
     committed env (\<lambda>w.
       case first_row (\<lambda>c'. cp_id c' = cp_id c) (wo_checkpoints w) of
         None \<Rightarrow> Inl stale_data_exn
       | Some _ \<Rightarrow>
           Inr ((), put_checkpoint (cp_id c)
                      (\<lambda>c'. c'\<lparr>cp_last_scanned_at := Some (sc_clock env w)\<rparr>) w))"

text \<open>The loop over the folders of a list, each scanned with \<open>scan_one\<close>.\<close>

fun scan_children ::
    "'p scan_env \<Rightarrow> (folder_checkpoint \<Rightarrow> ('p world, scan_result) act) \<Rightarrow> folder_checkpoint list \<Rightarrow>
     scan_result \<Rightarrow> ('p world, scan_result) act" where
  "scan_children env scan_one [] acc = retA acc"
| "scan_children env scan_one (c # cs) acc =
     bindA (raise_if_cancelled env) (\<lambda>_.
     bindA (scan_one c) (\<lambda>r.
     bindA (mark_scanned env c) (\<lambda>_.
     scan_children env scan_one cs (add_result acc r))))"

fun scan_folder_full ::
    "nat \<Rightarrow> nat \<Rightarrow> 'p scan_env \<Rightarrow> 'p world provider \<Rightarrow> share_info \<Rightarrow> int \<Rightarrow> string \<Rightarrow> posix_path \<Rightarrow>
     bool \<Rightarrow> ('p world, scan_result) act" where
  "scan_folder_full 0 pages env p share sid parent_id folder_path create_transfers =
     raiseA out_of_fuel"
| "scan_folder_full (Suc depth) pages env p share sid parent_id folder_path create_transfers =
     bindA (scan_folder_contents pages env p share sid parent_id folder_path create_transfers)
       (\<lambda>(result, children).
     scan_children env
       (\<lambda>c w. scan_folder_full depth pages env p share sid (cp_remote_folder_id c)
                (checkpoint_path w c) create_transfers w) children result)"

definition batch_checkpoints :: "nat \<Rightarrow> int \<Rightarrow> 'p world \<Rightarrow> folder_checkpoint list" where
  "batch_checkpoints limit sid w =
     take limit
       (sort_key (\<lambda>c. (cp_last_scanned_at c \<noteq> None, coalesce (cp_last_scanned_at c) 0, cp_id c))
         (filter (\<lambda>c. cp_subscription_id c = sid) (wo_checkpoints w)))"

definition scan_folder_batch ::
    "nat \<Rightarrow> 'p scan_env \<Rightarrow> 'p world provider \<Rightarrow> share_info \<Rightarrow> int \<Rightarrow> string \<Rightarrow> bool \<Rightarrow>
     ('p world, scan_result) act" where
  "scan_folder_batch pages env p share sid root_folder_id create_transfers =
     bindA (scan_folder_contents pages env p share sid root_folder_id (parse_path []) create_transfers)
       (\<lambda>(result, _) w.
     scan_children env
       (\<lambda>c w. bindA (scan_folder_contents pages env p share sid (cp_remote_folder_id c)
                       (checkpoint_path w c) create_transfers) (\<lambda>(r, _). retA r) w)
       (batch_checkpoints (sc_batch_size env) sid w) result w)"

definition full_scan_due :: "'p scan_env \<Rightarrow> subscription \<Rightarrow> bool \<Rightarrow> 'p world \<Rightarrow> bool" where
  "full_scan_due env s force_full w \<longleftrightarrow>
     force_full \<or>
     (case s_last_full_scanned_at s of
        None \<Rightarrow> True
      | Some last_full \<Rightarrow> seconds (3600 * sc_full_interval_hours env) \<le> sc_clock env w - last_full)"

record scan_domain_result =
  sd_scan :: scan_result
  sd_full_scan :: bool
  sd_checkpoint_count :: int

text \<open>
  An attribute of an object that the session holds since it was loaded: the \<open>UPDATE\<close> writes the
  column only if the new value differs from the loaded one.
\<close>

definition orm_set :: "'a \<Rightarrow> 'a \<Rightarrow> 'a \<Rightarrow> 'a" where
  "orm_set loaded new stored = (if new = loaded then stored else new)"

definition schedule_exn :: "schedule_error \<Rightarrow> exn" where
  "schedule_exn e =
     (case e of
        ScheduleFormat \<Rightarrow> raise_exn CValueError None
          ''Schedule must use interval:<number>m or interval:<number>h''
      | ScheduleNotPositive \<Rightarrow> raise_exn CValueError None ''Schedule interval must be positive''
      | ScheduleTooShort \<Rightarrow> raise_exn CValueError None
          ''Schedule interval must be at least 15 minutes''
      | _ \<Rightarrow> raise_exn COther None ''OverflowError'')"

definition delete_unseen_checkpoints ::
    "'p scan_env \<Rightarrow> int \<Rightarrow> datetime \<Rightarrow> ('p world, unit) act" where
  "delete_unseen_checkpoints env sid scan_started_at =
     committed env (\<lambda>w. Inr ((), w\<lparr>wo_checkpoints :=
       filter (\<lambda>c. \<not> (cp_subscription_id c = sid \<and> cp_last_seen_at c < scan_started_at))
         (wo_checkpoints w)\<rparr>))"

text \<open>The last transaction: \<open>s\<close> is the subscription as the session has loaded it.\<close>

definition finish_scan ::
    "'p scan_env \<Rightarrow> subscription \<Rightarrow> bool \<Rightarrow> scan_result \<Rightarrow> ('p world, scan_domain_result) act" where
  "finish_scan env s full_scan result =
     committed env (\<lambda>w.
       let now = sc_clock env w in
       bindR (if sc_legacy env
              then (case parse_schedule (s_schedule s) of
                      Inl e \<Rightarrow> Inl (schedule_exn e)
                    | Inr delta \<Rightarrow> if MAX_DATETIME < now + delta then Inl (schedule_exn DateOverflow)
                                   else Inr (Some (now + delta)))
              else Inr None) (\<lambda>next_scan_at.
       if get_subscription (wo_db w) (s_id s) = None then Inl stale_data_exn
       else
       Inr (\<lparr>sd_scan = result, sd_full_scan = full_scan,
             sd_checkpoint_count = int (length (filter (\<lambda>c. cp_subscription_id c = s_id s)
                                                  (wo_checkpoints w)))\<rparr>,
            put_subscription (s_id s) (\<lambda>s'. s'\<lparr>
              s_status := orm_set (s_status s) (if s_enabled s then ''active'' else ''disabled'')
                            (s_status s'),
              s_last_scanned_at := orm_set (s_last_scanned_at s) (Some now) (s_last_scanned_at s'),
              s_last_full_scanned_at := (if full_scan
                 then orm_set (s_last_full_scanned_at s) (Some now) (s_last_full_scanned_at s')
                 else s_last_full_scanned_at s'),
              s_next_scan_at := (case next_scan_at of
                 None \<Rightarrow> s_next_scan_at s'
               | Some at \<Rightarrow> orm_set (s_next_scan_at s) (Some at) (s_next_scan_at s')),
              s_last_error := orm_set (s_last_error s) None (s_last_error s')\<rparr>) w)))"

definition execute_scan_domain ::
    "nat \<Rightarrow> nat \<Rightarrow> 'p scan_env \<Rightarrow> 'p world provider \<Rightarrow> subscription \<Rightarrow> bool \<Rightarrow>
     ('p world, scan_domain_result) act" where
  "execute_scan_domain depth pages env p s force_full =
     bindA (raise_if_cancelled env) (\<lambda>_.
     bindA (\<lambda>w. (decrypt_share_password (sc_decrypt env) s, w)) (\<lambda>password.
     bindA (pr_resolve_share p (s_share_url s) password) (\<lambda>share w.
       let create_transfers = (\<not> (s_last_scanned_at s = None \<and> s_initial_sync_mode s = ''future_only''));
           full_scan = full_scan_due env s force_full w;
           scan_started_at = sc_clock env w;
           root_folder_id = (case s_source_folder_id s of
                               Some fid \<Rightarrow> if fid = [] then sh_root_folder_id share else fid
                             | None \<Rightarrow> sh_root_folder_id share)
       in bindA (if full_scan
                 then bindA (scan_folder_full depth pages env p share (s_id s) root_folder_id
                               (parse_path []) create_transfers) (\<lambda>result.
                      bindA (raise_if_cancelled env) (\<lambda>_.
                      bindA (delete_unseen_checkpoints env (s_id s) scan_started_at) (\<lambda>_.
                      retA result)))
                 else scan_folder_batch pages env p share (s_id s) root_folder_id create_transfers)
            (\<lambda>result.
          bindA (raise_if_cancelled env) (\<lambda>_.
          finish_scan env s full_scan result)) w)))"

end
