(* ===== verification/ScanHandler.thy ===== *)
theory ScanHandler
  imports ScanService TransferHandler
begin

text \<open>
  The handler of scan tasks (\<open>app/task_engine/scan_handler.py\<close>): its payload, the status of the
  subscription around the scan, the classification of failures and the outcome.
\<close>

section \<open>Payload\<close>

definition parse_scan_payload :: "task_invocation \<Rightarrow> string + int \<times> bool" where
  "parse_scan_payload i =
     (if i_task_type i \<noteq> ''scan''
      then Inl (''scan handler requires task type '' @ py_repr ''scan'')
      else if i_payload_version i \<noteq> 1
      then Inl (''unsupported scan payload version '' @ int_str (i_payload_version i))
      else case i_subscription_id i of
             None \<Rightarrow> Inl ''scan payload v1 requires subscription_id''
           | Some sid \<Rightarrow>
               if \<not> set (map fst (i_payload i)) \<subseteq> {''force_full''}
               then Inl ''scan payload v1 contains unknown fields''
               else case map_of (i_payload i) ''force_full'' of
                      None \<Rightarrow> Inr (sid, False)
                    | Some (JBool b) \<Rightarrow> Inr (sid, b)
                    | _ \<Rightarrow> Inl ''scan payload v1 force_full must be boolean'')"

section \<open>Failures\<close>

text \<open>The message for a stalled listing is the source's, in UTF-8.\<close>

definition pagination_message :: string where
  "pagination_message = map char_of
     [231, 189, 145, 231, 155, 152, 232, 191, 148, 229, 155, 158, 233, 135, 141, 229, 164,
      141, 229, 136, 134, 233, 161, 181, 230, 136, 150, 233, 135, 141, 229, 164, 141, 229,
      134, 133, 229, 174, 185, 239, 188, 140, 230, 137, 171, 230, 143, 143, 229, 183, 178,
      229, 129, 156, 230, 173, 162 :: nat]"

definition scan_classify_failure :: "exn \<Rightarrow> failure_disposition" where
  "scan_classify_failure e =
     (if e_class e = CProviderPagination
      then disposition FailFailed (exn_code e) pagination_message
      else if e_class e = CSourceNotFound
      then disposition FailFailed ''SCAN_SUBSCRIPTION_NOT_FOUND'' ''scan subscription was not found''
      else if e_class e = CSubscriptionDisabled
      then disposition FailFailed ''SCAN_SUBSCRIPTION_DISABLED'' ''scan subscription is disabled''
      else if e_class e = CProviderNotConfigured
      then disposition FailFailed (exn_code e) ''cloud-drive provider is not configured''
      else if e_class e = CProviderCapability
      then disposition FailFailed (exn_code e) ''cloud-drive provider does not support share scanning''
      else if credential_failure e
      then \<lparr>fd_status = FailWaitingCredential, fd_error_code = ''CREDENTIAL_INVALID'',
             fd_safe_message = (if is_aliyun_error (e_class e) \<or> is_pikpak_error (e_class e)
                                then e_message e
                                else ''cloud-drive credential is invalid or expired''),
             fd_blocked_reason = Some ''cloud-drive credential requires user action''\<rparr>
      else if is_request_error (e_class e)
      then disposition FailRetry (exn_code e)
             (if is_aliyun_error (e_class e) \<or> is_pikpak_error (e_class e) then e_message e
              else ''cloud-drive scan request failed and can be retried'')
      else if is_provider_error (e_class e)
      then disposition FailFailed (exn_code e) ''cloud-drive provider configuration is invalid''
      else disposition FailRetry (coalesce (e_code e) ''SCAN_EXECUTION_FAILED'')
             ''cloud-drive scan failed and can be retried'')"

definition scan_outcome_for_failure :: "failure_disposition \<Rightarrow> task_outcome" where
  "scan_outcome_for_failure fd =
     (if fd_status fd = FailWaitingCredential
      then (plain_outcome OutWaitingCredential
              ''Scan is waiting for a valid cloud-drive credential''
              (Some (fd_error_code fd)) (Some (fd_safe_message fd)))
             \<lparr>o_blocked_reason := fd_blocked_reason fd\<rparr>
      else plain_outcome (failure_outcome_status (fd_status fd)) (fd_safe_message fd)
             (Some (fd_error_code fd)) (Some (fd_safe_message fd)))"

section \<open>The subscription's status\<close>

definition object_deleted_exn :: exn where
  "object_deleted_exn = raise_exn COther None ''ObjectDeletedError''"

text \<open>
  The subscription as the session sees it after a rollback: loaded again, or still as it was.
\<close>

definition session_view :: "'p scan_env \<Rightarrow> subscription \<Rightarrow> ('p world, subscription) act" where
  "session_view env loaded w =
     (if sc_reloaded env w
      then case get_subscription (wo_db w) (s_id loaded) of
             None \<Rightarrow> (Inl object_deleted_exn, w)
           | Some s \<Rightarrow> (Inr s, w)
      else (Inr loaded, w))"

text \<open>Two assignments and a commit; the result is the object as the session then holds it.\<close>

definition store_status ::
    "'p scan_env \<Rightarrow> subscription \<Rightarrow> string \<Rightarrow> string option \<Rightarrow> ('p world, subscription) act" where
  "store_status env s status error =
     committed env (\<lambda>w.
       if s_status s = status \<and> s_last_error s = error then Inr (s, w)
       else if get_subscription (wo_db w) (s_id s) = None then Inl stale_data_exn
       else Inr (s\<lparr>s_status := status, s_last_error := error\<rparr>,
                 put_subscription (s_id s) (\<lambda>c. c\<lparr>
                   s_status := orm_set (s_status s) status (s_status c),
                   s_last_error := orm_set (s_last_error s) error (s_last_error c)\<rparr>) w))"

definition mark_recoverable ::
    "'p scan_env \<Rightarrow> subscription \<Rightarrow> string \<Rightarrow> ('p world, subscription) act" where
  "mark_recoverable env loaded msg =
     bindA (session_view env loaded) (\<lambda>s.
     store_status env s (if s_enabled s then ''active'' else ''disabled'') (Some msg))"

definition scan_mark_failure ::
    "'p scan_env \<Rightarrow> subscription \<Rightarrow> failure_disposition \<Rightarrow> ('p world, subscription) act" where
  "scan_mark_failure env loaded fd =
     bindA (session_view env loaded) (\<lambda>s. store_status env s ''error'' (Some (fd_safe_message fd)))"

definition persist_token_if_available ::
    "'p scan_env \<Rightarrow> subscription \<Rightarrow> 'p world provider option \<Rightarrow> ('p world, bool) act" where
  "persist_token_if_available env s provider =
     (case provider of
        None \<Rightarrow> retA True
      | Some p \<Rightarrow>
          bindA (tryA (\<lambda>w.
            if \<exists>a \<in> set (wo_accounts w). ca_id a = s_cloud_account_id s
            then bindA (rotate_tokens (sc_encrypt env) p) (\<lambda>(c, oc).
                   committed env (\<lambda>w. Inr ((), put_account (s_cloud_account_id s) (store_tokens c oc) w))) w
            else (Inl object_deleted_exn, w))) (\<lambda>r.
          retA (\<not> isl r)))"

section \<open>The handler\<close>

definition scan_credential_failure :: failure_disposition where
  "scan_credential_failure =
     disposition FailRetry ''CREDENTIAL_PERSIST_FAILED''
       ''rotated provider credential persistence failed''"

definition scan_success_outcome :: "int option \<Rightarrow> scan_domain_result \<Rightarrow> task_outcome" where
  "scan_success_outcome request_count result =
     (plain_outcome OutSuccess
        ((if sd_full_scan result then ''full'' else ''incremental'') @ '' scan completed: '' @
         int_str (res_folders_scanned (sd_scan result)) @ '' folders, '' @
         int_str (res_discovered (sd_scan result)) @ '' new items'') None None)
       \<lparr>o_metrics := Some (
          [(''full_scan'', JBool (sd_full_scan result)),
           (''folders_scanned'', JInt (res_folders_scanned (sd_scan result))),
           (''files_discovered'', JInt (res_discovered (sd_scan result))),
           (''checkpoint_count'', JInt (sd_checkpoint_count result))] @
          (case request_count of None \<Rightarrow> [] | Some n \<Rightarrow> [(''provider_request_count'', JInt n)]))\<rparr>"

text \<open>
  The \<open>try\<close> block: the provider, if it could be made, the subscription as the session then holds
  it, and the result.
\<close>

definition attempt_scan ::
    "nat \<Rightarrow> nat \<Rightarrow> 'p scan_env \<Rightarrow> subscription \<Rightarrow> bool \<Rightarrow>
     ('p world, 'p world provider option \<times> subscription \<times> (exn + scan_domain_result)) act" where
  "attempt_scan depth pages env s force_full w =
     (case first_row (\<lambda>a. ca_id a = s_cloud_account_id s) (wo_accounts w) of
        None \<Rightarrow> (Inr (None, s, Inl (raise_exn COther None ''AttributeError'')), w)
      | Some a \<Rightarrow>
     case bindR (sc_decrypt env (ca_refresh_token a)) (\<lambda>token.
            sc_factory env (ca_provider a) token None) of
        Inl e \<Rightarrow> (Inr (None, s, Inl e), w)
      | Inr p \<Rightarrow>
     bindA (tryA (store_status env s ''scanning'' None)) (\<lambda>started.
       case started of
         Inl e \<Rightarrow> retA (Some p, s, Inl e)
       | Inr s' \<Rightarrow>
           bindA (tryA (execute_scan_domain depth pages env p s' force_full)) (\<lambda>r.
           retA (Some p, s', r))) w)"

definition scan_failed ::
    "'p scan_env \<Rightarrow> subscription \<Rightarrow> 'p world provider option \<Rightarrow> exn \<Rightarrow> ('p world, task_outcome) act" where
  "scan_failed env s provider e =
     (if e_class e = CScanCancelled
      then bindA (mark_recoverable env s ''scan cancelled'') (\<lambda>s'.
           bindA (persist_token_if_available env s' provider) (\<lambda>_.
           retA (cancelled_outcome ''Scan cancelled at a safe traversal boundary'')))
      else
        let fd = scan_classify_failure e in
        bindA (scan_mark_failure env s fd) (\<lambda>s'.
        bindA (persist_token_if_available env s' provider) (\<lambda>persisted.
        if persisted then retA (scan_outcome_for_failure fd)
        else bindA (scan_mark_failure env s' scan_credential_failure) (\<lambda>_.
             retA (scan_outcome_for_failure scan_credential_failure)))))"

definition scan_succeeded ::
    "'p scan_env \<Rightarrow> subscription \<Rightarrow> 'p world provider option \<Rightarrow> scan_domain_result \<Rightarrow>
     ('p world, task_outcome) act" where
  "scan_succeeded env s provider result =
     bindA (persist_token_if_available env s provider) (\<lambda>persisted.
     if persisted
     then (\<lambda>w. (Inr (scan_success_outcome
                 (case provider of None \<Rightarrow> None | Some p \<Rightarrow> pr_request_count p w) result), w))
     else bindA (scan_mark_failure env s scan_credential_failure) (\<lambda>_.
          retA (plain_outcome OutRetry ''Scan completed but rotated credential was not persisted''
                  (Some (fd_error_code scan_credential_failure))
                  (Some (fd_safe_message scan_credential_failure)))))"

definition scan_handler ::
    "nat \<Rightarrow> nat \<Rightarrow> 'p scan_env \<Rightarrow> task_invocation \<Rightarrow> ('p world, task_outcome) act" where
  "scan_handler depth pages env i =
     (case parse_scan_payload i of
        Inl msg \<Rightarrow> retA (plain_outcome OutFailed ''Scan payload validation failed''
                          (Some ''INVALID_SCAN_PAYLOAD'') (Some msg))
      | Inr (sid, force_full) \<Rightarrow>
          bindA (sc_cancelled env) (\<lambda>c.
          if c then retA (cancelled_outcome ''Scan cancelled before execution'')
          else (\<lambda>w.
            case get_subscription (wo_db w) sid of
              None \<Rightarrow> (Inr (scan_outcome_for_failure (scan_classify_failure
                        (source_not_found ''scan subscription was not found''))), w)
            | Some s \<Rightarrow>
                if \<not> s_enabled s
                then (Inr (scan_outcome_for_failure (scan_classify_failure
                        (raise_exn CSubscriptionDisabled None ''scan subscription is disabled''))), w)
                else
                  bindA (attempt_scan depth pages env s force_full) (\<lambda>(provider, s', r).
                  case r of
                    Inl e \<Rightarrow> scan_failed env s' provider e
                  | Inr result \<Rightarrow> scan_succeeded env s' provider result) w)))"

end
