(* ===== verification/ScanProofs.thy ===== *)
theory ScanProofs
  imports ScanHandler TransferProofs
begin

text \<open>
  What a scan keeps: the invariants of the task store, and of the catalogue of files and folder
  checkpoints; that following the pages and the folders ends; and what a recorded page leaves in
  the catalogue and in the queue.
\<close>

section \<open>The catalogue's invariant\<close>

definition catalog_inv :: "'p world \<Rightarrow> bool" where
  "catalog_inv w \<longleftrightarrow>
     distinct (map f_id (db_files (wo_db w))) \<and>
     distinct (map (\<lambda>f. (f_subscription_id f, f_remote_file_id f)) (db_files (wo_db w))) \<and>
     distinct (map cp_id (wo_checkpoints w)) \<and>
     distinct (map (\<lambda>c. (cp_subscription_id c, cp_remote_folder_id c)) (wo_checkpoints w))"

definition world_step :: "'p world \<Rightarrow> 'p world \<Rightarrow> bool" where
  "world_step w w' \<longleftrightarrow> store_step w w' \<and> (catalog_inv w \<longrightarrow> catalog_inv w')"

interpretation worlds: action_contract world_step
  by unfold_locales (auto simp: world_step_def stores.R_refl intro: stores.R_trans)

lemma world_stepI:
  assumes "store_step w w'" and "catalog_inv w \<Longrightarrow> catalog_inv w'"
  shows "world_step w w'"
  using assms by (simp add: world_step_def)

lemma put_file_world:
  assumes "\<And>f. f_id (g f) = f_id f" and "\<And>f. f_subscription_id (g f) = f_subscription_id f"
    and "\<And>f. f_remote_file_id (g f) = f_remote_file_id f"
  shows "world_step w (put_file fid g w)"
  using assms
  by (intro world_stepI put_file_step) (simp add: catalog_inv_def put_file_def map_update_rows)

lemma put_checkpoint_world:
  assumes "\<And>c. cp_id (g c) = cp_id c" and "\<And>c. cp_subscription_id (g c) = cp_subscription_id c"
    and "\<And>c. cp_remote_folder_id (g c) = cp_remote_folder_id c"
  shows "world_step w (put_checkpoint cid g w)"
  using assms
  by (intro world_stepI) (simp_all add: catalog_inv_def put_checkpoint_def map_update_rows store_step_def)

lemma same_tables_store_step:
  assumes "db_tasks (wo_db w') = db_tasks (wo_db w)" and "db_runs (wo_db w') = db_runs (wo_db w)"
  shows "store_step w w'"
  using assms
  by (simp add: store_step_def store_inv_def table_inv_def lease_inv_def history_same_runs)

lemma put_subscription_world: "world_step w (put_subscription sid g w)"
  by (intro world_stepI same_tables_store_step) (simp_all add: put_subscription_def catalog_inv_def)

lemma put_account_world: "world_step w (put_account aid g w)"
  by (intro world_stepI put_account_step) (simp add: put_account_def catalog_inv_def)

lemma insert_file_world:
  assumes "insert_file f w = Inr (fid, w')"
    and "get_remote_file (wo_db w) (f_subscription_id f) (f_remote_file_id f) = None"
  shows "world_step w w'"
proof (rule world_stepI)
  have w': "w' = w\<lparr>wo_db := (wo_db w)\<lparr>db_files := db_files (wo_db w) @
      [f\<lparr>f_id := next_id (map f_id (db_files (wo_db w)))\<rparr>]\<rparr>\<rparr>"
    using assms(1) by (auto simp: insert_file_def Let_def split: if_splits)
  show "store_step w w'" unfolding w' by (rule same_tables_store_step) simp_all
  assume inv: "catalog_inv w"
  have "next_id (map f_id (db_files (wo_db w))) \<notin> f_id ` set (db_files (wo_db w))"
    using next_id_fresh [of "map f_id (db_files (wo_db w))"] by simp
  moreover have "(f_subscription_id f, f_remote_file_id f) \<notin>
      (\<lambda>f. (f_subscription_id f, f_remote_file_id f)) ` set (db_files (wo_db w))"
    using assms(2) by (auto simp: get_remote_file_def first_row_None_iff)
  ultimately show "catalog_inv w'"
    using inv by (simp add: catalog_inv_def w')
qed

lemma record_checkpoint_world:
  assumes "record_checkpoint now sid rid path w = Inr (c, w')"
  shows "world_step w w'" and "cp_remote_folder_id c = rid"
proof -
  have "world_step w w' \<and> cp_remote_folder_id c = rid"
  proof (cases "get_checkpoint w sid rid")
    case (Some c0)
    then have "cp_remote_folder_id c0 = rid"
      by (auto simp: get_checkpoint_def dest: first_row_SomeD)
    with assms Some show ?thesis
      by (auto simp: record_checkpoint_def Let_def intro: put_checkpoint_world)
  next
    case None
    let ?id = "next_id (map cp_id (wo_checkpoints w))"
    from assms None have w': "w' = w\<lparr>wo_checkpoints := wo_checkpoints w @ [c]\<rparr>" "cp_id c = ?id"
      "cp_subscription_id c = sid" "cp_remote_folder_id c = rid"
      by (auto simp: record_checkpoint_def Let_def split: if_splits)
    have "?id \<notin> cp_id ` set (wo_checkpoints w)"
      using next_id_fresh [of "map cp_id (wo_checkpoints w)"] by simp
    moreover have "(sid, rid) \<notin> (\<lambda>c. (cp_subscription_id c, cp_remote_folder_id c)) ` set (wo_checkpoints w)"
      using None by (auto simp: get_checkpoint_def first_row_None_iff)
    ultimately have "catalog_inv w'" if "catalog_inv w"
      using that w' by (simp add: catalog_inv_def)
    moreover have "store_step w w'" by (rule same_tables_store_step) (simp_all add: w')
    ultimately show ?thesis using w'(4) by (simp add: world_step_def)
  qed
  then show "world_step w w'" and "cp_remote_folder_id c = rid" by simp_all
qed

lemma queue_transfer_world:
  assumes "queue_transfer env sid fid rid fp w = Inr w'"
  shows "world_step w w'"
proof (cases "\<exists>t \<in> set (db_tasks (wo_db w)). t_idempotency_key t = Some (transfer_key sid rid fp)")
  case True
  with assms show ?thesis by (simp add: queue_transfer_def worlds.R_refl)
next
  case False
  let ?w1 = "put_file fid (\<lambda>f. f\<lparr>f_status := ''pending''\<rparr>) w"
  from assms False obtain row d where
    cr: "create_task (transfer_task_for (sc_clock env w) sid fid (transfer_key sid rid fp)) (wo_db ?w1) =
      Inr (row, d)" and w': "w' = ?w1\<lparr>wo_db := d\<rparr>"
    by (auto simp: queue_transfer_def Let_def split: sum.splits prod.splits)
  have free: "ownership_clear (transfer_task_for (sc_clock env w) sid fid (transfer_key sid rid fp))"
    by (simp add: transfer_task_for_def default_task_def ownership_clear_def)
  have "store_step ?w1 w'"
    using create_task_store_inv [OF _ cr free] by (simp add: store_step_def w')
  moreover have "catalog_inv ?w1 \<Longrightarrow> catalog_inv w'"
    using create_task_cases(3) [OF cr] by (simp add: catalog_inv_def w')
  ultimately have "world_step ?w1 w'" by (rule world_stepI)
  moreover have "world_step w ?w1" by (rule put_file_world) simp_all
  ultimately show ?thesis using worlds.R_trans by blast
qed

lemma record_item_cases:
  assumes "record_item env sid item path ct w = Inr ((n, cp), w')"
  obtains fid w1 where
      "(case get_remote_file (wo_db w) sid (ri_remote_file_id item) of
          None \<Rightarrow> insert_file (new_file (sc_clock env w) sid item path
                    (fingerprint_item (sc_sha256 env) item)) w
        | Some f \<Rightarrow> Inr (f_id f, put_file (f_id f) (seen_file (sc_clock env w) item path
                    (fingerprint_item (sc_sha256 env) item)) w)) = Inr (fid, w1)"
    and "ri_item_type item = ''folder'' \<Longrightarrow>
      \<exists>c. cp = Some c \<and> record_checkpoint (sc_clock env w) sid (ri_remote_file_id item) path w1 = Inr (c, w')"
    and "ri_item_type item \<noteq> ''folder'' \<Longrightarrow> cp = None \<and>
      (if ct \<and> (get_remote_file (wo_db w) sid (ri_remote_file_id item) = None \<or>
                 f_fingerprint (the (get_remote_file (wo_db w) sid (ri_remote_file_id item))) \<noteq>
                   fingerprint_item (sc_sha256 env) item)
       then queue_transfer env sid fid (ri_remote_file_id item)
              (fingerprint_item (sc_sha256 env) item) w1 = Inr w'
       else w' = w1)"
    and "n = (if get_remote_file (wo_db w) sid (ri_remote_file_id item) = None then 1 else 0)"
  using assms
  by (cases "get_remote_file (wo_db w) sid (ri_remote_file_id item)")
    (fastforce simp: record_item_def Let_def split: if_splits)+

lemma record_file_world:
  assumes "(case get_remote_file (wo_db w) sid (ri_remote_file_id item) of
      None \<Rightarrow> insert_file (new_file now sid item path fp) w
    | Some f \<Rightarrow> Inr (f_id f, put_file (f_id f) (seen_file now item path fp) w)) = Inr (fid, w1)"
  shows "world_step w w1"
proof (cases "get_remote_file (wo_db w) sid (ri_remote_file_id item)")
  case None
  with assms show ?thesis by (auto simp: new_file_def intro!: insert_file_world)
next
  case (Some f)
  with assms show ?thesis by (auto simp: seen_file_def intro!: put_file_world)
qed

lemma record_item_world:
  assumes "record_item env sid item path ct w = Inr ((n, cp), w')"
  shows "world_step w w'"
    and "cp = Some c \<Longrightarrow> ri_item_type item = ''folder'' \<and> cp_remote_folder_id c = ri_remote_file_id item"
proof -
  have "world_step w w' \<and> (\<forall>c. cp = Some c \<longrightarrow>
      ri_item_type item = ''folder'' \<and> cp_remote_folder_id c = ri_remote_file_id item)"
    using assms
  proof (cases rule: record_item_cases)
    case (1 fid w1)
    note first = record_file_world [OF 1(1)]
    show ?thesis
    proof (cases "ri_item_type item = ''folder''")
      case True
      with 1(2) record_checkpoint_world first worlds.R_trans show ?thesis by blast
    next
      case False
      then have "cp = None" "w1 = w' \<or> (\<exists>fp. queue_transfer env sid fid (ri_remote_file_id item) fp w1 = Inr w')"
        using 1(3) by (auto split: if_splits)
      with first show ?thesis
        using queue_transfer_world worlds.R_trans by blast
    qed
  qed
  then show "world_step w w'"
    and "cp = Some c \<Longrightarrow> ri_item_type item = ''folder'' \<and> cp_remote_folder_id c = ri_remote_file_id item"
    by simp_all
qed

definition folder_ids :: "remote_item list \<Rightarrow> string set" where
  "folder_ids items = ri_remote_file_id ` {item \<in> set items. ri_item_type item = ''folder''}"

lemma record_items_cases:
  assumes "record_items env sid (item # items) folder ct w = Inr ((n, cps), w')"
  obtains n1 cp w1 n2 cps2 where
      "record_item env sid item (item_path folder item) ct w = Inr ((n1, cp), w1)"
    and "record_items env sid items folder ct w1 = Inr ((n2, cps2), w')"
    and "n = n1 + n2" and "cps = (case cp of None \<Rightarrow> cps2 | Some c \<Rightarrow> c # cps2)"
  using assms by fastforce

lemma record_items_world:
  "record_items env sid items folder ct w = Inr ((n, cps), w') \<Longrightarrow>
     world_step w w' \<and> cp_remote_folder_id ` set cps \<subseteq> folder_ids items"
proof (induction items arbitrary: w n cps)
  case Nil
  then show ?case by (simp add: worlds.R_refl)
next
  case (Cons item items)
  from Cons.prems show ?case
  proof (cases rule: record_items_cases)
    case (1 n1 cp w1 n2 cps2)
    note head = record_item_world [OF 1(1)] and tail = Cons.IH [OF 1(2)]
    have "world_step w w'" using head(1) tail worlds.R_trans by blast
    moreover have "folder_ids items \<subseteq> folder_ids (item # items)" by (auto simp: folder_ids_def)
    moreover have "cp_remote_folder_id c \<in> folder_ids (item # items)" if "cp = Some c" for c
      using head(2) [OF that] by (auto simp: folder_ids_def)
    ultimately show ?thesis using tail 1(4) by (auto split: option.splits)
  qed
qed

section \<open>A scan keeps the world\<close>

definition scan_env_keeps :: "'p scan_env \<Rightarrow> bool" where
  "scan_env_keeps env \<longleftrightarrow> keeps world_step (sc_cancelled env) \<and>
     (\<forall>w. world_step w (sc_others env w)) \<and>
     (\<forall>ty tok drive p. sc_factory env ty tok drive = Inr p \<longrightarrow> provider_keeps world_step p)"

lemma committed_keeps:
  assumes "scan_env_keeps env" and "\<And>w x w'. body w = Inr (x, w') \<Longrightarrow> world_step w w'"
  shows "keeps world_step (committed env body)"
  unfolding keeps_def
proof
  fix w
  show "world_step w (snd (committed env body w))"
  proof (cases "body w")
    case (Inr r)
    then obtain x w1 where r: "body w = Inr (x, w1)" by (cases r) auto
    have "world_step w (sc_others env w1)"
      using assms(2) [OF r] assms(1) worlds.R_trans unfolding scan_env_keeps_def by blast
    then show ?thesis by (simp add: committed_def r worlds.R_refl)
  qed (simp add: committed_def worlds.R_refl)
qed

lemma cancelled_keeps: "scan_env_keeps env \<Longrightarrow> keeps world_step (raise_if_cancelled env)"
  unfolding raise_if_cancelled_def scan_env_keeps_def
  by (intro worlds.keeps_bind) (auto intro: worlds.keeps_raise worlds.keeps_ret)

lemma scan_pages_keeps:
  assumes env: "scan_env_keeps env" and p: "provider_keeps world_step p"
  shows "keeps world_step (scan_pages fuel env p share sid parent folder ct marker markers ids acc)"
proof (induction fuel arbitrary: marker markers ids acc)
  case (Suc fuel)
  have list: "keeps world_step (pr_list_share_items p share parent m)" for m
    using p by (simp add: provider_keeps_def)
  have rec: "keeps world_step (committed env (record_items env sid items folder ct))" for items
    by (rule committed_keeps [OF env]) (use record_items_world in fastforce)
  show ?case
    unfolding scan_pages.simps
    by (intro worlds.keeps_bind cancelled_keeps env list)
      (auto intro!: worlds.keeps_bind rec Suc.IH split: option.split)
qed simp

lemma scan_contents_keeps:
  "scan_env_keeps env \<Longrightarrow> provider_keeps world_step p \<Longrightarrow>
     keeps world_step (scan_folder_contents fuel env p share sid parent folder ct)"
  unfolding scan_folder_contents_def
  by (intro worlds.keeps_bind scan_pages_keeps) (auto split: prod.split)

lemma mark_scanned_keeps: "scan_env_keeps env \<Longrightarrow> keeps world_step (mark_scanned env c)"
  unfolding mark_scanned_def
  by (rule committed_keeps) (auto split: option.splits intro: put_checkpoint_world)

lemma scan_children_keeps:
  assumes env: "scan_env_keeps env" and one: "\<And>c. keeps world_step (scan_one c)"
  shows "keeps world_step (scan_children env scan_one cs acc)"
  by (induction cs arbitrary: acc)
    (auto intro!: worlds.keeps_bind cancelled_keeps env one mark_scanned_keeps)

lemma scan_full_keeps:
  assumes env: "scan_env_keeps env" and p: "provider_keeps world_step p"
  shows "keeps world_step (scan_folder_full depth pages env p share sid parent folder ct)"
proof (induction depth arbitrary: parent folder)
  case (Suc depth)
  have one: "keeps world_step (\<lambda>w. scan_folder_full depth pages env p share sid
      (cp_remote_folder_id c) (checkpoint_path w c) ct w)" for c
    using Suc.IH by (simp add: keeps_def)
  show ?case
    unfolding scan_folder_full.simps
    by (intro worlds.keeps_bind scan_contents_keeps env p)
      (auto split: prod.split intro!: scan_children_keeps env one)
qed simp

lemma scan_batch_keeps:
  assumes env: "scan_env_keeps env" and p: "provider_keeps world_step p"
  shows "keeps world_step (scan_folder_batch pages env p share sid root ct)"
proof -
  have one: "keeps world_step (\<lambda>w. bindA (scan_folder_contents pages env p share sid
      (cp_remote_folder_id c) (checkpoint_path w c) ct) (\<lambda>(r, _). retA r) w)" for c
  proof -
    have "keeps world_step (bindA (scan_folder_contents pages env p share sid
        (cp_remote_folder_id c) q ct) (\<lambda>(r, _). retA r))" for q
      by (intro worlds.keeps_bind scan_contents_keeps env p) (auto split: prod.split)
    then show ?thesis by (simp add: keeps_def)
  qed
  have rest: "keeps world_step (\<lambda>w. scan_children env (\<lambda>c w. bindA (scan_folder_contents pages env p
      share sid (cp_remote_folder_id c) (checkpoint_path w c) ct) (\<lambda>(r, _). retA r) w) (cs w) r w)"
    for r and cs :: "'a world \<Rightarrow> _"
    using scan_children_keeps [OF env one] by (simp add: keeps_def)
  show ?thesis
    unfolding scan_folder_batch_def
    by (intro worlds.keeps_bind scan_contents_keeps env p) (auto split: prod.split intro: rest)
qed

lemma finish_scan_keeps: "scan_env_keeps env \<Longrightarrow> keeps world_step (finish_scan env s full result)"
  unfolding finish_scan_def
  by (rule committed_keeps) (auto simp: Let_def split: if_splits intro: put_subscription_world)

lemma delete_unseen_keeps:
  "scan_env_keeps env \<Longrightarrow> keeps world_step (delete_unseen_checkpoints env sid at)"
  unfolding delete_unseen_checkpoints_def
  by (rule committed_keeps)
    (auto simp: world_step_def store_step_def catalog_inv_def distinct_map_filter)

lemma execute_scan_keeps:
  assumes env: "scan_env_keeps env" and p: "provider_keeps world_step p"
  shows "keeps world_step (execute_scan_domain depth pages env p s force_full)"
proof -
  have resolve: "keeps world_step (pr_resolve_share p u pw)" for u pw
    using p by (simp add: provider_keeps_def)
  have pure: "keeps world_step (\<lambda>w. (decrypt_share_password (sc_decrypt env) s, w))"
    by (simp add: keeps_def worlds.R_refl)
  have tail: "keeps world_step (bindA (raise_if_cancelled env) (\<lambda>_. finish_scan env s full result))"
    for full result
    by (intro worlds.keeps_bind cancelled_keeps finish_scan_keeps env)
  have main: "keeps world_step (bindA (if full
        then bindA (scan_folder_full depth pages env p share (s_id s) root (parse_path []) ct) (\<lambda>result.
             bindA (raise_if_cancelled env) (\<lambda>_.
             bindA (delete_unseen_checkpoints env (s_id s) at) (\<lambda>_. retA result)))
        else scan_folder_batch pages env p share (s_id s) root ct)
      (\<lambda>result. bindA (raise_if_cancelled env) (\<lambda>_. finish_scan env s full result)))"
    for full share root ct at
    by (intro worlds.keeps_bind tail)
      (auto intro!: worlds.keeps_bind scan_full_keeps scan_batch_keeps cancelled_keeps
        delete_unseen_keeps env p)
  show ?thesis
    unfolding execute_scan_domain_def
    by (intro worlds.keeps_bind cancelled_keeps env pure resolve)
      (use main in \<open>simp add: keeps_def Let_def\<close>)
qed

lemma store_status_keeps: "scan_env_keeps env \<Longrightarrow> keeps world_step (store_status env s status err)"
  unfolding store_status_def
  by (rule committed_keeps) (auto simp: worlds.R_refl split: if_splits intro: put_subscription_world)

lemma session_view_keeps: "keeps world_step (session_view env s)"
  by (simp add: keeps_def session_view_def worlds.R_refl split: option.split)

lemma mark_subscription_keeps:
  assumes "scan_env_keeps env"
  shows "keeps world_step (mark_recoverable env s msg)"
    and "keeps world_step (scan_mark_failure env s fd)"
  unfolding mark_recoverable_def scan_mark_failure_def
  by (intro worlds.keeps_bind session_view_keeps store_status_keeps assms)+

lemma rotate_tokens_world:
  assumes p: "provider_keeps world_step p"
  shows "keeps world_step (rotate_tokens encrypt p)"
proof -
  have rot: "keeps world_step (rotate_token encrypt consume)"
    if "\<And>w. world_step w (snd (consume w))" for consume :: "'a world \<Rightarrow> _"
    using that by (simp add: keeps_def rotate_token_def split_def Let_def)
  have "keeps world_step (rotate_token encrypt (pr_consume_token p))"
    using p by (intro rot) (simp add: provider_keeps_def)
  moreover have "keeps world_step (case pr_consume_open_token p of
      None \<Rightarrow> retA None | Some consume \<Rightarrow> rotate_token encrypt consume)"
    using p by (auto simp: provider_keeps_def split: option.splits intro: rot)
  ultimately show ?thesis
    unfolding rotate_tokens_def by (intro worlds.keeps_bind worlds.keeps_ret)
qed

lemma persist_available_keeps:
  assumes env: "scan_env_keeps env" and p: "\<And>p. provider = Some p \<Longrightarrow> provider_keeps world_step p"
  shows "keeps world_step (persist_token_if_available env s provider)"
proof (cases provider)
  case (Some p)
  have put: "keeps world_step (committed env (\<lambda>w. Inr ((), put_account aid g w)))" for aid g
    by (rule committed_keeps [OF env]) (auto intro: put_account_world)
  have "keeps world_step (bindA (rotate_tokens (sc_encrypt env) p) (\<lambda>(c, oc).
      committed env (\<lambda>w. Inr ((), put_account aid (store_tokens c oc) w))))" for aid
    by (intro worlds.keeps_bind rotate_tokens_world assms(2) Some) (auto split: prod.split intro: put)
  then have "keeps world_step (\<lambda>w.
      if \<exists>a \<in> set (wo_accounts w). ca_id a = s_cloud_account_id s
      then bindA (rotate_tokens (sc_encrypt env) p) (\<lambda>(c, oc). committed env (\<lambda>w.
             Inr ((), put_account (s_cloud_account_id s) (store_tokens c oc) w))) w
      else (Inl object_deleted_exn, w))"
    by (simp add: keeps_def worlds.R_refl)
  then show ?thesis
    unfolding persist_token_if_available_def Some option.case
    by (intro worlds.keeps_bind worlds.keeps_try worlds.keeps_ret)
qed (simp add: persist_token_if_available_def)

lemma attempt_scan_keeps:
  assumes env: "scan_env_keeps env"
  shows "keeps world_step (attempt_scan depth pages env s force_full)"
    and "fst (attempt_scan depth pages env s force_full w) = Inr (Some p, s', r) \<Longrightarrow>
      provider_keeps world_step p"
proof -
  have made: "provider_keeps world_step p"
    if "bindR (sc_decrypt env tok) (\<lambda>token. sc_factory env ty token None) = Inr p" for tok ty p
    using that env by (auto simp: scan_env_keeps_def)
  have run: "keeps world_step (bindA (tryA (store_status env s ''scanning'' None)) (\<lambda>started.
      case started of
        Inl e \<Rightarrow> retA (Some p, s, Inl e)
      | Inr s' \<Rightarrow> bindA (tryA (execute_scan_domain depth pages env p s' force_full)) (\<lambda>r.
          retA (Some p, s', r))))" if "provider_keeps world_step p" for p
    by (intro worlds.keeps_bind worlds.keeps_try store_status_keeps env)
      (auto split: sum.split intro!: worlds.keeps_bind worlds.keeps_try execute_scan_keeps env that)
  show "keeps world_step (attempt_scan depth pages env s force_full)"
    unfolding keeps_def attempt_scan_def
    using run made by (auto simp: keeps_def worlds.R_refl split: option.split sum.split)
  show "provider_keeps world_step p"
    if "fst (attempt_scan depth pages env s force_full w) = Inr (Some p, s', r)"
    using that made
    by (auto simp: attempt_scan_def bindA_def retA_def tryA_def split: option.splits sum.splits prod.splits)
qed

lemma scan_handler_keeps:
  assumes env: "scan_env_keeps env"
  shows "keeps world_step (scan_handler depth pages env i)"
proof (cases "parse_scan_payload i")
  case (Inr ids)
  obtain sid ff where ids: "ids = (sid, ff)" by (cases ids)
  have failed: "keeps world_step (scan_failed env s provider e)"
    if "\<And>p. provider = Some p \<Longrightarrow> provider_keeps world_step p" for s provider e
    unfolding scan_failed_def Let_def
    by (auto intro!: worlds.keeps_bind mark_subscription_keeps persist_available_keeps env that)
  have counted: "keeps world_step (\<lambda>w. (Inr (g w), w))" for g :: "'a world \<Rightarrow> task_outcome"
    by (simp add: keeps_def worlds.R_refl)
  have succeeded: "keeps world_step (scan_succeeded env s provider result)"
    if "\<And>p. provider = Some p \<Longrightarrow> provider_keeps world_step p" for s provider result
    unfolding scan_succeeded_def
    by (auto intro!: worlds.keeps_bind mark_subscription_keeps persist_available_keeps counted env that)
  have main: "keeps world_step (bindA (attempt_scan depth pages env s ff) (\<lambda>(provider, s', r).
      case r of Inl e \<Rightarrow> scan_failed env s' provider e
      | Inr result \<Rightarrow> scan_succeeded env s' provider result))" for s
    by (rule worlds.keeps_bind_returned [OF attempt_scan_keeps(1) [OF env]])
      (auto split: sum.split prod.split intro!: failed succeeded dest: attempt_scan_keeps(2) [OF env])
  have probe: "keeps world_step (sc_cancelled env)" using env by (simp add: scan_env_keeps_def)
  have body: "keeps world_step (\<lambda>w. case get_subscription (wo_db w) sid of
        None \<Rightarrow> (Inr oc1, w)
      | Some s \<Rightarrow> if \<not> s_enabled s then (Inr oc2, w)
          else bindA (attempt_scan depth pages env s ff) (\<lambda>(provider, s', r).
            case r of Inl e \<Rightarrow> scan_failed env s' provider e
            | Inr result \<Rightarrow> scan_succeeded env s' provider result) w)" for oc1 oc2
    using main by (simp add: keeps_def worlds.R_refl split: option.split)
  show ?thesis
    unfolding scan_handler_def Inr sum.case ids prod.case
    by (intro worlds.keeps_bind probe) (use body in \<open>auto intro: worlds.keeps_ret\<close>)
qed (simp add: scan_handler_def)

end
