(* ===== verification/ScanTermination.thy ===== *)
theory ScanTermination
  imports ScanProofs
begin

text \<open>
  When a scan ends.  The pages of a folder end because every page must bring an item that no page
  before it has: with finitely many items, at most one page more than there are items is read.
  The folders end when the listing has no cycle.
\<close>

section \<open>Actions within their bounds\<close>

definition within_fuel :: "('s, 'a) act \<Rightarrow> bool" where
  "within_fuel m \<longleftrightarrow> (\<forall>s e s'. m s = (Inl e, s') \<longrightarrow> e_class e \<noteq> COutOfFuel)"

lemma within_fuel_ret [intro, simp]: "within_fuel (retA x)"
  by (simp add: within_fuel_def retA_def)

lemma within_fuel_raise: "e_class e \<noteq> COutOfFuel \<Longrightarrow> within_fuel (raiseA e)"
  by (simp add: within_fuel_def raiseA_def)

lemma within_fuel_bind_returned:
  assumes "within_fuel m" and "\<And>s x s'. m s = (Inr x, s') \<Longrightarrow> within_fuel (f x)"
  shows "within_fuel (bindA m f)"
  unfolding within_fuel_def
proof (intro allI impI)
  fix s e s'
  assume "bindA m f s = (Inl e, s')"
  then show "e_class e \<noteq> COutOfFuel"
  proof (cases rule: bindA_cases)
    case (raised e1)
    with assms(1) show ?thesis by (auto simp: within_fuel_def)
  next
    case (returned x s1)
    from assms(2) [OF returned(1)] returned(2) show ?thesis
      unfolding within_fuel_def by blast
  qed
qed

lemma within_fuel_bind: "within_fuel m \<Longrightarrow> (\<And>x. within_fuel (f x)) \<Longrightarrow> within_fuel (bindA m f)"
  by (rule within_fuel_bind_returned)

lemma within_fuel_cancelled:
  "within_fuel (sc_cancelled env) \<Longrightarrow> within_fuel (raise_if_cancelled env)"
  unfolding raise_if_cancelled_def
  by (intro within_fuel_bind) (auto intro: within_fuel_raise simp: raise_exn_def)

lemma within_fuel_committed:
  assumes "\<And>w e. body w = Inl e \<Longrightarrow> e_class e \<noteq> COutOfFuel"
  shows "within_fuel (committed env body)"
  using assms
  by (auto simp: within_fuel_def committed_def operational_exn_def raise_exn_def
      split: sum.splits prod.splits if_splits)

lemma record_item_error:
  "record_item env sid item path ct w = Inl e \<Longrightarrow> e = integrity_exn"
  by (auto simp: record_item_def Let_def bindR_eq_Inl insert_file_def record_checkpoint_def
      queue_transfer_def split: if_splits option.splits sum.splits prod.splits)

lemma record_items_error:
  "record_items env sid items folder ct w = Inl e \<Longrightarrow> e = integrity_exn"
proof (induction items arbitrary: w)
  case (Cons item items)
  then show ?case
    using record_item_error by (auto simp: bindR_eq_Inl split: prod.splits)
qed simp

lemma within_fuel_record:
  "within_fuel (committed env (record_items env sid items folder ct))"
  by (rule within_fuel_committed)
    (auto dest: record_items_error simp: integrity_exn_def raise_exn_def)

section \<open>The pages of a folder\<close>

text \<open>
  The items of a share are among finitely many, and a folder is of smaller rank than the folder
  that lists it.
\<close>

definition finite_share :: "'s provider \<Rightarrow> string set \<Rightarrow> (string \<Rightarrow> nat) \<Rightarrow> bool" where
  "finite_share p I rank \<longleftrightarrow> finite I \<and>
     (\<forall>share parent m w page w'. pr_list_share_items p share parent m w = (Inr page, w') \<longrightarrow>
        set (map ri_remote_file_id (rp_items page)) \<subseteq> I \<and>
        (\<forall>fid \<in> folder_ids (rp_items page). rank fid < rank parent))"

lemma scan_pages_ends:
  assumes I: "finite I"
    and list: "\<And>m w page w'. pr_list_share_items p share parent m w = (Inr page, w') \<Longrightarrow>
      set (map ri_remote_file_id (rp_items page)) \<subseteq> I"
    and ok: "within_fuel (sc_cancelled env)" "\<And>m. within_fuel (pr_list_share_items p share parent m)"
  shows "card (I - set ids) < fuel \<Longrightarrow>
    within_fuel (scan_pages fuel env p share sid parent folder ct marker markers ids acc)"
proof (induction fuel arbitrary: marker markers ids acc)
  case (Suc fuel)
  have "within_fuel (if rp_items page = [] then retA acc
      else if set (map ri_remote_file_id (rp_items page)) \<subseteq> set ids
      then raiseA (pagination_exn ''Cloud-drive listing repeated items without progress'')
      else if (case next_marker page of None \<Rightarrow> False | Some m \<Rightarrow> m \<in> set markers)
      then raiseA (pagination_exn ''Cloud-drive listing repeated a pagination cursor'')
      else bindA (committed env (record_items env sid (rp_items page) folder ct)) (\<lambda>(n, cps).
        case next_marker page of
          None \<Rightarrow> retA (fst acc + n, snd acc @ cps)
        | Some m \<Rightarrow> scan_pages fuel env p share sid parent folder ct (Some m) (m # markers)
            (map ri_remote_file_id (rp_items page) @ ids) (fst acc + n, snd acc @ cps)))"
    if page: "pr_list_share_items p share parent marker w = (Inr page, w')" for w page w'
  proof -
    let ?new = "set (map ri_remote_file_id (rp_items page))"
    have "within_fuel (scan_pages fuel env p share sid parent folder ct (Some m) (m # markers)
        (map ri_remote_file_id (rp_items page) @ ids) acc')" if "\<not> ?new \<subseteq> set ids" for m acc'
    proof (rule Suc.IH)
      have "I - set (map ri_remote_file_id (rp_items page) @ ids) \<subset> I - set ids"
        using that list [OF page] by auto
      then have "card (I - set (map ri_remote_file_id (rp_items page) @ ids)) < card (I - set ids)"
        using I by (intro psubset_card_mono) simp_all
      with Suc.prems show "card (I - set (map ri_remote_file_id (rp_items page) @ ids)) < fuel"
        by linarith
    qed
    note next_page = this
    show ?thesis
    proof (cases "rp_items page = [] \<or> ?new \<subseteq> set ids \<or>
        (case next_marker page of None \<Rightarrow> False | Some m \<Rightarrow> m \<in> set markers)")
      case True
      then show ?thesis
        by (auto intro!: within_fuel_raise simp: pagination_exn_def raise_exn_def)
    next
      case False
      have "within_fuel (bindA (committed env (record_items env sid (rp_items page) folder ct)) (\<lambda>(n, cps).
        case next_marker page of
          None \<Rightarrow> retA (fst acc + n, snd acc @ cps)
        | Some m \<Rightarrow> scan_pages fuel env p share sid parent folder ct (Some m) (m # markers)
            (map ri_remote_file_id (rp_items page) @ ids) (fst acc + n, snd acc @ cps)))"
        using False next_page
        by (intro within_fuel_bind within_fuel_record) (simp split: prod.split option.split)
      moreover have "rp_items page \<noteq> []" "\<not> ?new \<subseteq> set ids"
          "\<not> (case next_marker page of None \<Rightarrow> False | Some m \<Rightarrow> m \<in> set markers)"
        using False by blast+
      ultimately show ?thesis by (simp only: if_False)
    qed
  qed
  then show ?case
    unfolding scan_pages.simps
    by (intro within_fuel_bind within_fuel_cancelled ok within_fuel_bind_returned [OF ok(2)])
qed simp

lemma scan_pages_children:
  assumes list: "\<And>m w page w'. pr_list_share_items p share parent m w = (Inr page, w') \<Longrightarrow>
      folder_ids (rp_items page) \<subseteq> F"
  shows "scan_pages fuel env p share sid parent folder ct marker markers ids acc w = (Inr (n, cps), w') \<Longrightarrow>
    cp_remote_folder_id ` set (snd acc) \<subseteq> F \<Longrightarrow> cp_remote_folder_id ` set cps \<subseteq> F"
proof (induction fuel arbitrary: marker markers ids acc w)
  case (Suc fuel)
  from Suc.prems(1) obtain page w1 w2 where
    page: "pr_list_share_items p share parent marker w1 = (Inr page, w2)"
    and rest: "(if rp_items page = [] then retA acc
      else if set (map ri_remote_file_id (rp_items page)) \<subseteq> set ids
      then raiseA (pagination_exn ''Cloud-drive listing repeated items without progress'')
      else if (case next_marker page of None \<Rightarrow> False | Some m \<Rightarrow> m \<in> set markers)
      then raiseA (pagination_exn ''Cloud-drive listing repeated a pagination cursor'')
      else bindA (committed env (record_items env sid (rp_items page) folder ct)) (\<lambda>(n, cps).
        case next_marker page of
          None \<Rightarrow> retA (fst acc + n, snd acc @ cps)
        | Some m \<Rightarrow> scan_pages fuel env p share sid parent folder ct (Some m) (m # markers)
            (map ri_remote_file_id (rp_items page) @ ids) (fst acc + n, snd acc @ cps))) w2 =
      (Inr (n, cps), w')"
    by (auto simp: bindA_eq_Inr simp del: set_map)
  show ?case
  proof (cases "rp_items page = []")
    case True
    with rest Suc.prems(2) show ?thesis by (auto simp: retA_run)
  next
    case False
    with rest obtain k more w3 where
      com: "committed env (record_items env sid (rp_items page) folder ct) w2 = (Inr (k, more), w3)"
      and next': "(case next_marker page of
          None \<Rightarrow> retA (fst acc + k, snd acc @ more)
        | Some m \<Rightarrow> scan_pages fuel env p share sid parent folder ct (Some m) (m # markers)
            (map ri_remote_file_id (rp_items page) @ ids) (fst acc + k, snd acc @ more)) w3 =
        (Inr (n, cps), w')"
      by (auto simp: bindA_eq_Inr raiseA_run split: if_splits)
    from com obtain w4 where "record_items env sid (rp_items page) folder ct w2 = Inr ((k, more), w4)"
      by (auto simp: committed_def split: sum.splits prod.splits if_splits)
    then have "cp_remote_folder_id ` set more \<subseteq> F"
      using record_items_world list [OF page] by blast
    with Suc.prems(2) have acc: "cp_remote_folder_id ` set (snd (fst acc + k, snd acc @ more)) \<subseteq> F"
      by (simp add: image_Un)
    show ?thesis
    proof (cases "next_marker page")
      case None
      with next' acc show ?thesis by (simp add: retA_run)
    next
      case (Some m)
      from next' [unfolded Some option.case] acc show ?thesis by (rule Suc.IH)
    qed
  qed
qed (simp add: raiseA_run)

lemma scan_contents_ends:
  assumes fin: "finite_share p I rank" and pages: "card I < pages"
    and ok: "within_fuel (sc_cancelled env)" "\<And>sh f m. within_fuel (pr_list_share_items p sh f m)"
  shows "within_fuel (scan_folder_contents pages env p share sid parent folder ct)"
    and "scan_folder_contents pages env p share sid parent folder ct w = (Inr (r, cps), w') \<Longrightarrow>
      c \<in> set cps \<Longrightarrow> rank (cp_remote_folder_id c) < rank parent"
proof -
  have I: "finite I" using fin by (simp add: finite_share_def)
  have all: "\<forall>share parent m w page w'. pr_list_share_items p share parent m w = (Inr page, w') \<longrightarrow>
      set (map ri_remote_file_id (rp_items page)) \<subseteq> I \<and>
      (\<forall>fid \<in> folder_ids (rp_items page). rank fid < rank parent)"
    using fin unfolding finite_share_def by (rule conjunct2)
  have items: "set (map ri_remote_file_id (rp_items page)) \<subseteq> I"
      and folders: "folder_ids (rp_items page) \<subseteq> {fid. rank fid < rank parent}"
    if "pr_list_share_items p share parent m v = (Inr page, v')" for m v page v'
  proof -
    have "set (map ri_remote_file_id (rp_items page)) \<subseteq> I \<and>
        (\<forall>fid \<in> folder_ids (rp_items page). rank fid < rank parent)"
      by (rule all [rule_format, OF that])
    then show "set (map ri_remote_file_id (rp_items page)) \<subseteq> I"
      and "folder_ids (rp_items page) \<subseteq> {fid. rank fid < rank parent}" by auto
  qed
  have "within_fuel (scan_pages pages env p share sid parent folder ct None [] [] (0, []))"
  proof (rule scan_pages_ends [OF I])
    show "card (I - set []) < pages" using pages by simp
  qed (use items ok in blast)+
  then show "within_fuel (scan_folder_contents pages env p share sid parent folder ct)"
    unfolding scan_folder_contents_def
    by (intro within_fuel_bind) (auto split: prod.split)
  assume run: "scan_folder_contents pages env p share sid parent folder ct w = (Inr (r, cps), w')"
    and c: "c \<in> set cps"
  from run obtain n where
    "scan_pages pages env p share sid parent folder ct None [] [] (0, []) w = (Inr (n, cps), w')"
    by (auto simp: scan_folder_contents_def bindA_eq_Inr retA_run)
  then have "cp_remote_folder_id ` set cps \<subseteq> {fid. rank fid < rank parent}"
    by (rule scan_pages_children [rotated]) (use folders in auto)
  with c show "rank (cp_remote_folder_id c) < rank parent" by auto
qed

section \<open>The folders of a share\<close>

lemma scan_children_ends:
  assumes ok: "within_fuel (sc_cancelled env)" and one: "\<And>c. c \<in> set cs \<Longrightarrow> within_fuel (scan_one c)"
  shows "within_fuel (scan_children env scan_one cs acc)"
  using one
proof (induction cs arbitrary: acc)
  case (Cons c cs)
  have "within_fuel (mark_scanned env c)"
    unfolding mark_scanned_def
    by (rule within_fuel_committed)
      (auto simp: stale_data_exn_def raise_exn_def split: option.splits)
  with Cons show ?case
    by (auto intro!: within_fuel_bind within_fuel_cancelled ok)
qed simp

lemma scan_full_ends:
  assumes fin: "finite_share p I rank" and pages: "card I < pages"
    and ok: "within_fuel (sc_cancelled env)" "\<And>sh f m. within_fuel (pr_list_share_items p sh f m)"
  shows "rank parent < depth \<Longrightarrow>
    within_fuel (scan_folder_full depth pages env p share sid parent folder ct)"
proof (induction depth arbitrary: parent folder)
  case (Suc depth)
  show ?case
    unfolding scan_folder_full.simps
  proof (rule within_fuel_bind_returned [OF scan_contents_ends(1) [OF fin pages ok]])
    fix w x w'
    assume run: "scan_folder_contents pages env p share sid parent folder ct w = (Inr x, w')"
    obtain result children where x: "x = (result, children)" by (cases x)
    have "within_fuel (\<lambda>w. scan_folder_full depth pages env p share sid
        (cp_remote_folder_id c) (checkpoint_path w c) ct w)" if "c \<in> set children" for c
    proof -
      have "rank (cp_remote_folder_id c) < rank parent"
        by (rule scan_contents_ends(2) [OF fin pages ok run [unfolded x] that])
      then have "within_fuel (scan_folder_full depth pages env p share sid
          (cp_remote_folder_id c) q ct)" for q
        using Suc.prems by (intro Suc.IH) linarith
      then show ?thesis by (simp add: within_fuel_def)
    qed
    then show "within_fuel (case x of (result, children) \<Rightarrow>
        scan_children env (\<lambda>c w. scan_folder_full depth pages env p share sid
          (cp_remote_folder_id c) (checkpoint_path w c) ct w) children result)"
      unfolding x prod.case by (intro scan_children_ends ok)
  qed
qed simp

lemma finish_scan_ends: "within_fuel (finish_scan env s full result)"
  unfolding finish_scan_def
  by (rule within_fuel_committed)
    (auto simp: Let_def bindR_eq_Inl schedule_exn_def stale_data_exn_def raise_exn_def
      split: if_splits sum.splits schedule_error.splits)

lemma delete_unseen_ends: "within_fuel (delete_unseen_checkpoints env sid at)"
  unfolding delete_unseen_checkpoints_def by (rule within_fuel_committed) simp

lemma execute_scan_ends:
  assumes fin: "finite_share p I rank" and pages: "card I < pages" and depth: "\<And>fid. rank fid < depth"
    and ok: "within_fuel (sc_cancelled env)" "\<And>sh f m. within_fuel (pr_list_share_items p sh f m)"
      "\<And>u pw. within_fuel (pr_resolve_share p u pw)"
    and dec: "\<And>c e. sc_decrypt env c = Inl e \<Longrightarrow> e_class e \<noteq> COutOfFuel"
  shows "within_fuel (execute_scan_domain depth pages env p s force_full)"
proof -
  have pw: "within_fuel (\<lambda>w. (decrypt_share_password (sc_decrypt env) s, w))"
    using dec by (auto simp: within_fuel_def decrypt_share_password_def bindR_eq_Inl
        split: option.splits if_splits)
  have batch: "within_fuel (scan_folder_batch pages env p share sid root ct)" for share sid root ct
  proof -
    have one: "within_fuel (\<lambda>w. bindA (scan_folder_contents pages env p share sid
        (cp_remote_folder_id c) (checkpoint_path w c) ct) (\<lambda>(r, _). retA r) w)" for c
    proof -
      have "within_fuel (bindA (scan_folder_contents pages env p share sid (cp_remote_folder_id c) q ct)
          (\<lambda>(r, _). retA r))" for q
        by (intro within_fuel_bind scan_contents_ends(1) [OF fin pages ok(1,2)]) (auto split: prod.split)
      then show ?thesis by (simp add: within_fuel_def)
    qed
    have "within_fuel (\<lambda>w. scan_children env (\<lambda>c w. bindA (scan_folder_contents pages env p share sid
        (cp_remote_folder_id c) (checkpoint_path w c) ct) (\<lambda>(r, _). retA r) w) (cs w) r w)"
      for r and cs :: "'a world \<Rightarrow> _"
      using scan_children_ends [OF ok(1) one] by (simp add: within_fuel_def)
    then show ?thesis
      unfolding scan_folder_batch_def
      by (intro within_fuel_bind scan_contents_ends(1) [OF fin pages ok(1,2)]) (auto split: prod.split)
  qed
  have tail: "within_fuel (bindA (raise_if_cancelled env) (\<lambda>_. finish_scan env s full result))"
    for full result
    by (intro within_fuel_bind within_fuel_cancelled finish_scan_ends ok)
  have main: "within_fuel (bindA (if full
        then bindA (scan_folder_full depth pages env p share (s_id s) root (parse_path []) ct) (\<lambda>result.
             bindA (raise_if_cancelled env) (\<lambda>_.
             bindA (delete_unseen_checkpoints env (s_id s) at) (\<lambda>_. retA result)))
        else scan_folder_batch pages env p share (s_id s) root ct)
      (\<lambda>result. bindA (raise_if_cancelled env) (\<lambda>_. finish_scan env s full result)))"
    for full share root ct at
    by (intro within_fuel_bind tail)
      (auto intro!: within_fuel_bind within_fuel_cancelled scan_full_ends [OF fin pages ok(1,2)]
        delete_unseen_ends batch depth ok)
  show ?thesis
    unfolding execute_scan_domain_def
    by (intro within_fuel_bind within_fuel_cancelled ok pw)
      (use main in \<open>simp add: within_fuel_def Let_def\<close>)
qed

section \<open>A listing with a cycle\<close>

text \<open>
  A folder that lists itself is scanned again at every depth: with nothing else in the way, no
  depth is enough.
\<close>

definition self_listing :: "string \<Rightarrow> 's provider \<Rightarrow> bool" where
  "self_listing fid p \<longleftrightarrow> (\<forall>share parent m w. pr_list_share_items p share parent m w =
     (Inr \<lparr>rp_items = [\<lparr>ri_remote_file_id = fid, ri_parent_id = Some fid, ri_filename = fid,
        ri_item_type = ''folder'', ri_size = None, ri_content_hash = None, ri_updated_at = None,
        ri_phase = JNull\<rparr>],
        rp_next_marker = None\<rparr>, w))"

lemma self_listing_step:
  assumes self: "self_listing fid p" and sub: "get_subscription (wo_db w) sid \<noteq> None"
    and env: "sc_cancelled env = retA False" "sc_others env = id" "\<And>w. \<not> sc_refused env w"
  obtains n c w' where "scan_folder_contents (Suc pages) env p share sid parent folder ct w =
      (Inr (\<lparr>res_discovered = n, res_folders_scanned = 1\<rparr>, [c]), w')"
    and "cp_remote_folder_id c = fid" and "get_subscription (wo_db w') sid \<noteq> None"
proof -
  let ?item = "\<lparr>ri_remote_file_id = fid, ri_parent_id = Some fid, ri_filename = fid,
        ri_item_type = ''folder'', ri_size = None, ri_content_hash = None, ri_updated_at = None,
        ri_phase = JNull\<rparr>"
  have "\<exists>n c w'. record_item env sid ?item (item_path folder ?item) ct w = Inr ((n, Some c), w') \<and>
      cp_remote_folder_id c = fid \<and> get_subscription (wo_db w') sid \<noteq> None"
  proof -
    have chk: "\<exists>c w'. record_checkpoint now sid fid path w1 = Inr (c, w') \<and>
        get_subscription (wo_db w') sid \<noteq> None"
      if "get_subscription (wo_db w1) sid \<noteq> None" for now path and w1 :: "'a world"
      using that by (cases "get_checkpoint w1 sid fid")
        (auto simp: record_checkpoint_def Let_def put_checkpoint_def)
    have "\<exists>fid' w1. (case get_remote_file (wo_db w) sid fid of
          None \<Rightarrow> insert_file (new_file now sid ?item path fp) w
        | Some f \<Rightarrow> Inr (f_id f, put_file (f_id f) (seen_file now ?item path fp) w)) = Inr (fid', w1) \<and>
        get_subscription (wo_db w1) sid \<noteq> None" for now path fp
      using sub by (cases "get_remote_file (wo_db w) sid fid")
        (auto simp: insert_file_def new_file_def Let_def put_file_def get_subscription_def)
    then obtain fid' w1 where file1: "(case get_remote_file (wo_db w) sid fid of
          None \<Rightarrow> insert_file (new_file (sc_clock env w) sid ?item (item_path folder ?item)
            (fingerprint_item (sc_sha256 env) ?item)) w
        | Some f \<Rightarrow> Inr (f_id f, put_file (f_id f) (seen_file (sc_clock env w) ?item
            (item_path folder ?item) (fingerprint_item (sc_sha256 env) ?item)) w)) = Inr (fid', w1)"
      and sub1: "get_subscription (wo_db w1) sid \<noteq> None"
      by blast
    obtain c w' where c: "record_checkpoint (sc_clock env w) sid fid (item_path folder ?item) w1 =
        Inr (c, w')" "get_subscription (wo_db w') sid \<noteq> None"
      using chk [OF sub1] by blast
    then have "cp_remote_folder_id c = fid" using record_checkpoint_world(2) by blast
    with c file1 show ?thesis by (simp add: record_item_def Let_def)
  qed
  then obtain n c w' where "record_item env sid ?item (item_path folder ?item) ct w =
      Inr ((n, Some c), w')" and c: "cp_remote_folder_id c = fid" "get_subscription (wo_db w') sid \<noteq> None"
    by blast
  then have "committed env (record_items env sid [?item] folder ct) w = (Inr (n, [c]), w')"
    using env by (simp add: committed_def)
  then have "scan_folder_contents (Suc pages) env p share sid parent folder ct w =
      (Inr (\<lparr>res_discovered = n, res_folders_scanned = 1\<rparr>, [c]), w')"
    using self env
    by (simp add: scan_folder_contents_def raise_if_cancelled_def self_listing_def bindA_def retA_def
        next_marker_def)
  with c show ?thesis by (intro that)
qed

lemma cyclic_listing_never_ends:
  assumes self: "self_listing fid p" and sub: "get_subscription (wo_db w) sid \<noteq> None"
    and env: "sc_cancelled env = retA False" "sc_others env = id" "\<And>w. \<not> sc_refused env w"
  shows "\<exists>w'. scan_folder_full depth (Suc pages) env p share sid parent folder ct w =
    (Inl out_of_fuel, w')"
  using sub
proof (induction depth arbitrary: parent folder w)
  case (Suc depth)
  obtain n c w1 where step: "scan_folder_contents (Suc pages) env p share sid parent folder ct w =
      (Inr (\<lparr>res_discovered = n, res_folders_scanned = 1\<rparr>, [c]), w1)"
    and c: "cp_remote_folder_id c = fid" "get_subscription (wo_db w1) sid \<noteq> None"
    using self_listing_step [OF self Suc.prems env] by blast
  obtain w2 where "scan_folder_full depth (Suc pages) env p share sid (cp_remote_folder_id c)
      (checkpoint_path w1 c) ct w1 = (Inl out_of_fuel, w2)"
    using Suc.IH [OF c(2)] by blast
  then show ?case
    using step env by (simp add: bindA_def raise_if_cancelled_def retA_def)
qed (simp add: raiseA_def)

end
