(* ===== verification/ScanRecords.thy ===== *)
theory ScanRecords
  imports ScanTermination
begin

text \<open>
  What a recorded page leaves: a row for every item, as the listing shows it, and a transfer in the
  queue for every item that is new or has changed.
\<close>

section \<open>Rows of the catalogue\<close>

lemma first_row_update:
  assumes "\<And>r. p (g r) = p r"
  shows "first_row p (update_rows q g rows) =
    map_option (\<lambda>r. if q r then g r else r) (first_row p rows)"
  using assms by (induction rows) (auto simp: first_row_def update_rows_def)

lemma first_row_append:
  "first_row p (rows @ [x]) =
     (case first_row p rows of Some r \<Rightarrow> Some r | None \<Rightarrow> if p x then Some x else None)"
  by (induction rows) (auto simp: first_row_def)

lemma get_remote_put_file:
  assumes "\<And>f. f_subscription_id (g f) = f_subscription_id f"
    and "\<And>f. f_remote_file_id (g f) = f_remote_file_id f"
  shows "get_remote_file (wo_db (put_file fid g w)) sid rid =
    map_option (\<lambda>f. if f_id f = fid then g f else f) (get_remote_file (wo_db w) sid rid)"
  unfolding get_remote_file_def using assms by (simp add: put_file_def first_row_update)

lemma get_remoteD:
  assumes "get_remote_file d sid rid = Some f"
  shows "f \<in> set (db_files d)" and "f_subscription_id f = sid" and "f_remote_file_id f = rid"
  using first_row_SomeD [OF assms [unfolded get_remote_file_def]] by auto

lemma other_file_id:
  assumes "catalog_inv w" and "get_remote_file (wo_db w) sid rid = Some f"
    and "get_remote_file (wo_db w) sid rid' = Some f'" and "rid' \<noteq> rid"
  shows "f_id f' \<noteq> f_id f"
proof
  assume "f_id f' = f_id f"
  then have "f' = f"
    using distinct_map_unique [of f_id] get_remoteD(1) [OF assms(2)] get_remoteD(1) [OF assms(3)] assms(1)
    by (auto simp: catalog_inv_def)
  with get_remoteD(3) [OF assms(2)] get_remoteD(3) [OF assms(3)] assms(4) show False by simp
qed

definition file_shows :: "remote_item \<Rightarrow> string \<Rightarrow> string \<Rightarrow> cloud_file \<Rightarrow> bool" where
  "file_shows item path fp f \<longleftrightarrow>
     f_parent_remote_file_id f = ri_parent_id item \<and> f_filename f = ri_filename item \<and>
     f_relative_path f = path \<and> f_item_type f = ri_item_type item \<and> f_size f = ri_size item \<and>
     f_content_hash f = ri_content_hash item \<and> f_fingerprint f = fp"

definition queued :: "string \<Rightarrow> 'p world \<Rightarrow> bool" where
  "queued key w \<longleftrightarrow> (\<exists>t \<in> set (db_tasks (wo_db w)). t_idempotency_key t = Some key)"

text \<open>Only the row of one remote file differs, and the queue only grows.\<close>

definition touches_only :: "int \<Rightarrow> string \<Rightarrow> 'p world \<Rightarrow> 'p world \<Rightarrow> bool" where
  "touches_only sid rid w w' \<longleftrightarrow>
     (\<forall>rid'. rid' \<noteq> rid \<longrightarrow> get_remote_file (wo_db w') sid rid' = get_remote_file (wo_db w) sid rid') \<and>
     (\<exists>ts. db_tasks (wo_db w') = db_tasks (wo_db w) @ ts)"

lemma touches_only_refl: "touches_only sid rid w w"
  by (simp add: touches_only_def)

lemma touches_only_trans:
  "touches_only sid rid w w1 \<Longrightarrow> touches_only sid rid w1 w2 \<Longrightarrow> touches_only sid rid w w2"
  by (auto simp: touches_only_def)

lemma touches_only_queued: "touches_only sid rid w w' \<Longrightarrow> queued key w \<Longrightarrow> queued key w'"
  by (auto simp: touches_only_def queued_def)

lemma put_own_file:
  assumes inv: "catalog_inv w" and f: "get_remote_file (wo_db w) sid rid = Some f" and fid: "fid = f_id f"
    and g: "\<And>f. f_subscription_id (g f) = f_subscription_id f" "\<And>f. f_remote_file_id (g f) = f_remote_file_id f"
  shows "touches_only sid rid w (put_file fid g w)"
    and "get_remote_file (wo_db (put_file fid g w)) sid rid = Some (g f)"
proof -
  note get = get_remote_put_file [of g fid w sid, OF g]
  show "get_remote_file (wo_db (put_file fid g w)) sid rid = Some (g f)"
    unfolding get by (simp add: f fid)
  have "get_remote_file (wo_db (put_file fid g w)) sid rid' = get_remote_file (wo_db w) sid rid'"
    if "rid' \<noteq> rid" for rid'
  proof (cases "get_remote_file (wo_db w) sid rid'")
    case (Some f')
    then have "f_id f' \<noteq> fid" using other_file_id [OF inv f Some that] fid by simp
    then show ?thesis by (simp add: get Some)
  qed (simp add: get)
  then show "touches_only sid rid w (put_file fid g w)"
    by (simp add: touches_only_def) (simp add: put_file_def)
qed

lemma record_file_row:
  assumes inv: "catalog_inv w"
    and step: "(case get_remote_file (wo_db w) sid (ri_remote_file_id item) of
        None \<Rightarrow> insert_file (new_file now sid item path fp) w
      | Some f \<Rightarrow> Inr (f_id f, put_file (f_id f) (seen_file now item path fp) w)) = Inr (fid, w1)"
  shows "touches_only sid (ri_remote_file_id item) w w1"
    and "\<exists>f. get_remote_file (wo_db w1) sid (ri_remote_file_id item) = Some f \<and> f_id f = fid \<and>
      file_shows item path fp f"
proof -
  have "touches_only sid (ri_remote_file_id item) w w1 \<and>
    (\<exists>f. get_remote_file (wo_db w1) sid (ri_remote_file_id item) = Some f \<and> f_id f = fid \<and>
      file_shows item path fp f)"
  proof (cases "get_remote_file (wo_db w) sid (ri_remote_file_id item)")
    case None
    then have none: "first_row (\<lambda>f. f_subscription_id f = sid \<and>
        f_remote_file_id f = ri_remote_file_id item) (db_files (wo_db w)) = None"
      by (simp add: get_remote_file_def)
    from step None have w1: "w1 = w\<lparr>wo_db := (wo_db w)\<lparr>db_files := db_files (wo_db w) @
        [(new_file now sid item path fp)\<lparr>f_id := fid\<rparr>]\<rparr>\<rparr>"
      by (auto simp: insert_file_def Let_def split: if_splits)
    have "get_remote_file (wo_db w1) sid rid' = (if rid' = ri_remote_file_id item
        then Some ((new_file now sid item path fp)\<lparr>f_id := fid\<rparr>) else get_remote_file (wo_db w) sid rid')"
      for rid'
      using none by (auto simp: w1 get_remote_file_def first_row_append new_file_def split: option.split)
    then show ?thesis
      by (simp add: touches_only_def file_shows_def w1 new_file_def)
  next
    case (Some f)
    with step have w1: "w1 = put_file (f_id f) (seen_file now item path fp) w" "fid = f_id f" by auto
    have "touches_only sid (ri_remote_file_id item) w w1"
      and "get_remote_file (wo_db w1) sid (ri_remote_file_id item) = Some (seen_file now item path fp f)"
      unfolding w1 by (rule put_own_file [OF inv Some refl]; simp add: seen_file_def)+
    then show ?thesis by (simp add: w1(2) file_shows_def seen_file_def)
  qed
  then show "touches_only sid (ri_remote_file_id item) w w1"
    and "\<exists>f. get_remote_file (wo_db w1) sid (ri_remote_file_id item) = Some f \<and> f_id f = fid \<and>
      file_shows item path fp f" by auto
qed

lemma queue_transfer_row:
  assumes inv: "catalog_inv w" and f: "get_remote_file (wo_db w) sid rid = Some f" "f_id f = fid"
    and step: "queue_transfer env sid fid rid fp w = Inr w'"
  shows "touches_only sid rid w w'" and "queued (transfer_key sid rid fp) w'"
    and "\<exists>f'. get_remote_file (wo_db w') sid rid = Some f' \<and> (f' = f \<or> f' = f\<lparr>f_status := ''pending''\<rparr>)"
proof -
  have "touches_only sid rid w w' \<and> queued (transfer_key sid rid fp) w' \<and>
    (\<exists>f'. get_remote_file (wo_db w') sid rid = Some f' \<and> (f' = f \<or> f' = f\<lparr>f_status := ''pending''\<rparr>))"
  proof (cases "\<exists>t \<in> set (db_tasks (wo_db w)). t_idempotency_key t = Some (transfer_key sid rid fp)")
    case True
    with step have "w' = w" by (simp add: queue_transfer_def)
    with True f show ?thesis by (simp add: touches_only_refl queued_def)
  next
    case False
    let ?w1 = "put_file fid (\<lambda>f. f\<lparr>f_status := ''pending''\<rparr>) w"
    from step False obtain row d where
      cr: "create_task (transfer_task_for (sc_clock env w) sid fid (transfer_key sid rid fp)) (wo_db ?w1) =
        Inr (row, d)" and w': "w' = ?w1\<lparr>wo_db := d\<rparr>"
      by (auto simp: queue_transfer_def Let_def split: sum.splits prod.splits)
    have d: "d = (wo_db ?w1)\<lparr>db_tasks := db_tasks (wo_db ?w1) @ [row]\<rparr>"
      and row: "t_idempotency_key row = Some (transfer_key sid rid fp)"
      using create_task_cases(2,3) [OF cr] by (simp_all add: transfer_task_for_def)
    have own: "touches_only sid rid w ?w1"
      "get_remote_file (wo_db ?w1) sid rid = Some (f\<lparr>f_status := ''pending''\<rparr>)"
      by (rule put_own_file [OF inv f(1)]; simp add: f(2))+
    have "get_remote_file (wo_db w') sid rid' = get_remote_file (wo_db ?w1) sid rid'" for rid'
      by (simp add: w' d get_remote_file_def)
    with own row show ?thesis
      by (auto simp: touches_only_def queued_def w' d)
  qed
  then show "touches_only sid rid w w'" and "queued (transfer_key sid rid fp) w'"
    and "\<exists>f'. get_remote_file (wo_db w') sid rid = Some f' \<and> (f' = f \<or> f' = f\<lparr>f_status := ''pending''\<rparr>)"
    by auto
qed

section \<open>A recorded page\<close>

definition wants_transfer :: "'p scan_env \<Rightarrow> int \<Rightarrow> bool \<Rightarrow> 'p world \<Rightarrow> remote_item \<Rightarrow> bool" where
  "wants_transfer env sid create_transfers w item \<longleftrightarrow>
     create_transfers \<and> ri_item_type item \<noteq> ''folder'' \<and>
     (case get_remote_file (wo_db w) sid (ri_remote_file_id item) of
        None \<Rightarrow> True
      | Some f \<Rightarrow> f_fingerprint f \<noteq> fingerprint_item (sc_sha256 env) item)"

definition item_key :: "'p scan_env \<Rightarrow> int \<Rightarrow> remote_item \<Rightarrow> string" where
  "item_key env sid item =
     transfer_key sid (ri_remote_file_id item) (fingerprint_item (sc_sha256 env) item)"

definition item_recorded :: "'p scan_env \<Rightarrow> int \<Rightarrow> posix_path \<Rightarrow> remote_item \<Rightarrow> 'p world \<Rightarrow> bool" where
  "item_recorded env sid folder item w \<longleftrightarrow>
     (\<exists>f. get_remote_file (wo_db w) sid (ri_remote_file_id item) = Some f \<and>
        file_shows item (item_path folder item) (fingerprint_item (sc_sha256 env) item) f)"

lemma record_item_row:
  assumes inv: "catalog_inv w"
    and step: "record_item env sid item (item_path folder item) ct w = Inr ((n, cp), w')"
  shows "touches_only sid (ri_remote_file_id item) w w'" and "item_recorded env sid folder item w'"
    and "wants_transfer env sid ct w item \<Longrightarrow> queued (item_key env sid item) w'"
proof -
  let ?rid = "ri_remote_file_id item" and ?fp = "fingerprint_item (sc_sha256 env) item"
  have "touches_only sid ?rid w w' \<and> item_recorded env sid folder item w' \<and>
    (wants_transfer env sid ct w item \<longrightarrow> queued (item_key env sid item) w')"
    using step
  proof (cases rule: record_item_cases)
    case (1 fid w1)
    have inv1: "catalog_inv w1"
      using record_file_world [OF 1(1)] inv by (simp add: world_step_def)
    note row = record_file_row [OF inv 1(1)]
    then obtain f where f: "get_remote_file (wo_db w1) sid ?rid = Some f" "f_id f = fid"
      "file_shows item (item_path folder item) ?fp f" by auto
    show ?thesis
    proof (cases "ri_item_type item = ''folder''")
      case True
      then obtain c where c: "record_checkpoint (sc_clock env w) sid ?rid (item_path folder item) w1 =
          Inr (c, w')" using 1(2) by auto
      then have "wo_db w' = wo_db w1"
        by (auto simp: record_checkpoint_def Let_def put_checkpoint_def split: option.splits if_splits)
      with row f True show ?thesis
        by (auto simp: touches_only_def item_recorded_def wants_transfer_def)
    next
      case False
      note rest = conjunct2 [OF 1(3) [OF False]]
      show ?thesis
      proof (cases "wants_transfer env sid ct w item")
        case True
        then have "queue_transfer env sid fid ?rid ?fp w1 = Inr w'"
          using rest by (auto simp: wants_transfer_def split: option.splits if_splits)
        note q = queue_transfer_row [OF inv1 f(1,2) this]
        have "touches_only sid ?rid w w'" by (rule touches_only_trans [OF row(1) q(1)])
        with q(2,3) f(3) show ?thesis
          by (auto simp: item_recorded_def item_key_def file_shows_def)
      next
        case no: False
        then have "w' = w1"
          using rest False by (auto simp: wants_transfer_def split: option.splits if_splits)
        with row f no show ?thesis by (auto simp: item_recorded_def)
      qed
    qed
  qed
  then show "touches_only sid ?rid w w'" and "item_recorded env sid folder item w'"
    and "wants_transfer env sid ct w item \<Longrightarrow> queued (item_key env sid item) w'" by auto
qed

lemma record_items_frame:
  assumes "record_items env sid items folder ct w = Inr ((n, cps), w')" and "catalog_inv w"
    and "rid \<notin> ri_remote_file_id ` set items"
  shows "get_remote_file (wo_db w') sid rid = get_remote_file (wo_db w) sid rid"
  using assms
proof (induction items arbitrary: w n cps)
  case (Cons item items)
  from Cons.prems(1) show ?case
  proof (cases rule: record_items_cases)
    case (1 n1 cp w1 n2 cps2)
    have "catalog_inv w1" using record_item_world(1) [OF 1(1)] Cons.prems(2) by (simp add: world_step_def)
    with Cons.IH [OF 1(2)] Cons.prems(3)
    have "get_remote_file (wo_db w') sid rid = get_remote_file (wo_db w1) sid rid" by simp
    with record_item_row(1) [OF Cons.prems(2) 1(1)] Cons.prems(3) show ?thesis
      by (simp add: touches_only_def)
  qed
qed simp

lemma record_items_queued:
  assumes "record_items env sid items folder ct w = Inr ((n, cps), w')" and "catalog_inv w"
    and "queued key w"
  shows "queued key w'"
  using assms
proof (induction items arbitrary: w n cps)
  case (Cons item items)
  from Cons.prems(1) show ?case
  proof (cases rule: record_items_cases)
    case (1 n1 cp w1 n2 cps2)
    have "catalog_inv w1" using record_item_world(1) [OF 1(1)] Cons.prems(2) by (simp add: world_step_def)
    then show ?thesis
      using Cons.IH [OF 1(2)] touches_only_queued [OF record_item_row(1) [OF Cons.prems(2) 1(1)] Cons.prems(3)]
      by simp
  qed
qed simp

lemma recorded_page:
  assumes "record_items env sid items folder ct w = Inr ((n, cps), w')" and "catalog_inv w"
    and "distinct (map ri_remote_file_id items)" and "item \<in> set items"
  shows "item_recorded env sid folder item w' \<and>
    (wants_transfer env sid ct w item \<longrightarrow> queued (item_key env sid item) w')"
  using assms
proof (induction items arbitrary: w n cps)
  case (Cons x items)
  from Cons.prems(1) show ?case
  proof (cases rule: record_items_cases)
    case (1 n1 cp w1 n2 cps2)
    have inv1: "catalog_inv w1" using record_item_world(1) [OF 1(1)] Cons.prems(2) by (simp add: world_step_def)
    note head = record_item_row [OF Cons.prems(2) 1(1)]
    show ?thesis
    proof (cases "item = x")
      case True
      have "get_remote_file (wo_db w') sid (ri_remote_file_id x) =
          get_remote_file (wo_db w1) sid (ri_remote_file_id x)"
        by (rule record_items_frame [OF 1(2) inv1]) (use Cons.prems(3) in auto)
      moreover have "wants_transfer env sid ct w x \<Longrightarrow> queued (item_key env sid x) w'"
        using head(3) record_items_queued [OF 1(2) inv1] by blast
      ultimately show ?thesis using head(2) True by (simp add: item_recorded_def)
    next
      case False
      with Cons.prems(4) have mem: "item \<in> set items" by simp
      then have "ri_remote_file_id item \<in> set (map ri_remote_file_id items)" by simp
      with mem Cons.prems(3) have item: "item \<in> set items" "ri_remote_file_id item \<noteq> ri_remote_file_id x"
        by (simp, force)
      have "wants_transfer env sid ct w1 item = wants_transfer env sid ct w item"
        using head(1) item(2) by (simp add: wants_transfer_def touches_only_def)
      with Cons.IH [OF 1(2) inv1 _ item(1)] Cons.prems(3) show ?thesis by simp
    qed
  qed
qed simp

section \<open>A file that returns to an earlier content\<close>

lemma known_content_not_queued:
  assumes "catalog_inv w" and "record_item env sid item path ct w = Inr ((n, cp), w')"
    and "queued (item_key env sid item) w"
  shows "db_tasks (wo_db w') = db_tasks (wo_db w)"
  using assms(2)
proof (cases rule: record_item_cases)
  case (1 fid w1)
  have "db_tasks (wo_db w1) = db_tasks (wo_db w)"
    using 1(1) by (auto simp: put_file_def insert_file_def Let_def split: option.splits if_splits)
  moreover have "w' = w1 \<or> (\<exists>c. record_checkpoint (sc_clock env w) sid (ri_remote_file_id item) path w1 =
      Inr (c, w')) \<or> queue_transfer env sid fid (ri_remote_file_id item)
        (fingerprint_item (sc_sha256 env) item) w1 = Inr w'"
    using 1(2,3) by (cases "ri_item_type item = ''folder''") (auto split: if_splits)
  ultimately show ?thesis
    using assms(3)
    by (auto simp: record_checkpoint_def queue_transfer_def queued_def item_key_def Let_def
        put_checkpoint_def split: option.splits if_splits)
qed

end
