(* ===== verification/ScanProperties.thy ===== *)
theory ScanProperties
  imports ScanRecords SampleWorld
begin

text \<open>
  The properties of scans: they keep the store and the catalogue, they end, they queue a transfer
  for what is new or has changed; and what they miss.
\<close>

section \<open>A sample scan\<close>

definition sample_item :: "string \<Rightarrow> string \<Rightarrow> remote_item" where
  "sample_item rid kind =
     \<lparr>ri_remote_file_id = rid, ri_parent_id = None, ri_filename = rid, ri_item_type = kind,
      ri_size = Some 3, ri_content_hash = None, ri_updated_at = None, ri_phase = JNull\<rparr>"

text \<open>A share whose root lists a folder \<open>d\<close> and a file \<open>r\<close>; the folder is empty.\<close>

definition scan_provider :: "(nat \<times> nat) world provider" where
  "scan_provider = sample_provider\<lparr>pr_list_share_items := (\<lambda>share parent m.
     retA \<lparr>rp_items = (if parent = ''root'' then [sample_item ''d'' ''folder'', sample_item ''r'' ''file'']
                       else []),
           rp_next_marker = None\<rparr>)\<rparr>"

definition sample_scan_env :: "(nat \<times> nat) scan_env" where
  "sample_scan_env =
     \<lparr>sc_refused = (\<lambda>_. False), sc_others = id, sc_reloaded = (\<lambda>_. False), sc_clock = (\<lambda>_. 500),
      sc_cancelled = retA False, sc_sha256 = id, sc_decrypt = Inr, sc_encrypt = Inr,
      sc_factory = (\<lambda>_ _ _. Inr scan_provider), sc_batch_size = 20,
      sc_full_interval_hours = 24, sc_legacy = False\<rparr>"

definition scan_invocation :: task_invocation where
  "scan_invocation = (transfer_invocation transfer_world)\<lparr>i_task_type := ''scan''\<rparr>"

lemma scan_env_ok: "scan_env_keeps sample_scan_env"
  by (auto simp: scan_env_keeps_def sample_scan_env_def keeps_def retA_def worlds.R_refl
      provider_keeps_def scan_provider_def sample_provider_def world_step_def store_step_def
      catalog_inv_def)

lemma transfer_world_catalog: "catalog_inv transfer_world"
  by (simp add: catalog_inv_def transfer_world_def transfer_db_def)

lemma sample_scan_succeeds:
  "(case scan_handler 3 3 sample_scan_env scan_invocation transfer_world of
      (Inr oc, w) \<Rightarrow> o_status oc = OutSuccess \<and>
        map f_remote_file_id (db_files (wo_db w)) = [''r'', ''d''] \<and>
        length (db_tasks (wo_db w)) = 2 \<and> length (wo_checkpoints w) = 1
    | _ \<Rightarrow> False)"
  by code_simp

section \<open>Properties\<close>

text \<open>C16: A run of the scan handler keeps the task store consistent with its history, and the
  catalogue without two rows for one remote file or one remote folder of a subscription, whether
  it returns or raises, as long as the other processes and the providers do.\<close>

theorem scan_keeps_world:
  assumes "scan_env_keeps env" and "store_inv (wo_db w)" and "catalog_inv w"
  shows "store_inv (wo_db (snd (scan_handler depth pages env i w))) \<and>
         history_extends (wo_db w) (wo_db (snd (scan_handler depth pages env i w))) \<and>
         catalog_inv (snd (scan_handler depth pages env i w))"
  using scan_handler_keeps [OF assms(1), of depth pages i] assms(2,3)
  by (auto simp: keeps_def world_step_def store_step_def)

theorem scan_keeps_world_witness:
  "catalog_inv (snd (scan_handler 3 3 sample_scan_env scan_invocation transfer_world))"
  using scan_keeps_world [OF scan_env_ok _ transfer_world_catalog, of 3 3 scan_invocation]
    transfer_db_inv
  by (simp add: transfer_world_def)

text \<open>C17: A scan ends: when the share has finitely many items and no folder lists one of its
  ancestors, the bounds on pages and on nested folders are never reached.  One page more than
  there are items is enough, since every page must bring a new one.\<close>

theorem scan_ends:
  assumes "finite_share p I rank" and "card I < pages" and "\<forall>fid. rank fid < depth"
    and "within_fuel (sc_cancelled env)" and "\<forall>sh f m. within_fuel (pr_list_share_items p sh f m)"
    and "\<forall>u pw. within_fuel (pr_resolve_share p u pw)"
    and "\<forall>c e. sc_decrypt env c = Inl e \<longrightarrow> e_class e \<noteq> COutOfFuel"
  shows "\<forall>e w'. execute_scan_domain depth pages env p s force_full w = (Inl e, w') \<longrightarrow>
    e_class e \<noteq> COutOfFuel"
proof -
  have "within_fuel (execute_scan_domain depth pages env p s force_full)"
    by (rule execute_scan_ends [OF assms(1,2) _ assms(4)]) (use assms in blast)+
  then show ?thesis unfolding within_fuel_def by blast
qed

theorem scan_ends_witness:
  "case fst (execute_scan_domain 3 3 sample_scan_env scan_provider transfer_sub False transfer_world) of
     Inl e \<Rightarrow> e_class e \<noteq> COutOfFuel | Inr _ \<Rightarrow> True"
proof -
  let ?run = "execute_scan_domain 3 3 sample_scan_env scan_provider transfer_sub False transfer_world"
  have "\<forall>e w'. ?run = (Inl e, w') \<longrightarrow> e_class e \<noteq> COutOfFuel"
  proof (rule scan_ends [where I = "{''d'', ''r''}" and rank = "\<lambda>fid. if fid = ''root'' then 1 else 0"])
    show "finite_share scan_provider {''d'', ''r''} (\<lambda>fid. if fid = ''root'' then 1 else 0)"
      by (auto simp: finite_share_def scan_provider_def retA_def folder_ids_def sample_item_def
          split: if_splits)
  qed (auto simp: within_fuel_def sample_scan_env_def scan_provider_def sample_provider_def retA_def)
  then show ?thesis by (cases ?run) (auto split: sum.splits)
qed



text \<open>A file whose content returns to one that was transferred before is recorded with that
  content, but gets no transfer: the key of the old task still occupies the queue, even though
  that task is finished and another content has been transferred since.\<close>

theorem returning_content_is_not_queued:
  assumes "record_item env sid item (item_path folder item) create_transfers w = Inr ((n, cp), w')"
    and "catalog_inv w" and "queued (item_key env sid item) w"
  shows "db_tasks (wo_db w') = db_tasks (wo_db w) \<and> item_recorded env sid folder item w'"
  using known_content_not_queued [OF assms(2,1,3)] record_item_row(2) [OF assms(2,1)] by simp

text \<open>The transfer of the first content is finished, and the file now shows another one.\<close>

definition returned_world :: "(nat \<times> nat) world" where
  "returned_world = transfer_world\<lparr>wo_db := transfer_db\<lparr>db_tasks :=
     [transfer_task\<lparr>t_status := Success,
        t_idempotency_key := Some (item_key sample_scan_env 7 (sample_item ''r'' ''file''))\<rparr>]\<rparr>\<rparr>"

theorem returning_content_is_not_queued_witness:
  "wants_transfer sample_scan_env 7 True returned_world (sample_item ''r'' ''file'') \<and>
   (case record_item sample_scan_env 7 (sample_item ''r'' ''file'')
           (item_path (parse_path []) (sample_item ''r'' ''file'')) True returned_world of
      Inr (_, w') \<Rightarrow> db_tasks (wo_db w') = db_tasks (wo_db returned_world)
    | Inl _ \<Rightarrow> False)"
proof -
  let ?run = "record_item sample_scan_env 7 (sample_item ''r'' ''file'')
      (item_path (parse_path []) (sample_item ''r'' ''file'')) True returned_world"
  have "case ?run of Inr (r, _) \<Rightarrow> r = (0, None) | Inl _ \<Rightarrow> False" by code_simp
  then obtain w' where run: "?run = Inr ((0, None), w')" by (auto split: sum.splits)
  have cat: "catalog_inv returned_world"
    by (simp add: returned_world_def catalog_inv_def transfer_world_def transfer_db_def)
  have "queued (item_key sample_scan_env 7 (sample_item ''r'' ''file'')) returned_world"
    by (simp add: queued_def returned_world_def)
  from returning_content_is_not_queued [OF run cat this] run
  have "case ?run of Inr (_, w') \<Rightarrow> db_tasks (wo_db w') = db_tasks (wo_db returned_world) | Inl _ \<Rightarrow> False"
    by simp
  moreover have "wants_transfer sample_scan_env 7 True returned_world (sample_item ''r'' ''file'')" by code_simp
  ultimately show ?thesis by blast
qed

text \<open>The end of a scan goes by the subscription as it was loaded at the start: a subscription
  that was disabled while it was scanned is left with the status of an active one.\<close>

theorem disabled_while_scanned_shows_active:
  assumes "finish_scan env s full result w = (Inr r, w')" and "sc_others env = id"
    and "s_enabled s" and "s_status s = ''scanning''"
    and "get_subscription (wo_db w) (s_id s) = Some row" and "\<not> s_enabled row"
  shows "\<exists>row'. get_subscription (wo_db w') (s_id s) = Some row' \<and>
    \<not> s_enabled row' \<and> s_status row' = ''active''"
proof -
  from assms(1,2) obtain g where w': "w' = put_subscription (s_id s) g w"
    and g: "\<And>x. s_id (g x) = s_id x" "\<And>x. s_enabled (g x) = s_enabled x"
      "\<And>x. s_status (g x) = orm_set (s_status s) (if s_enabled s then ''active'' else ''disabled'') (s_status x)"
    by (auto simp: finish_scan_def committed_def Let_def split: sum.splits prod.splits if_splits)
  have "get_subscription (wo_db w') (s_id s) = Some (g row)"
    using assms(5) first_row_SomeD [OF assms(5) [unfolded get_subscription_def]]
    unfolding get_subscription_def w'
    by (simp add: put_subscription_def first_row_update g)
  with g assms(3,4,6) show ?thesis by (simp add: orm_set_def)
qed

definition disabled_world :: "(nat \<times> nat) world" where
  "disabled_world = put_subscription 7 (\<lambda>s. s\<lparr>s_enabled := False, s_status := ''scanning''\<rparr>) transfer_world"

theorem disabled_while_scanned_shows_active_witness:
  "case finish_scan sample_scan_env (transfer_sub\<lparr>s_status := ''scanning''\<rparr>) True
          \<lparr>res_discovered = 0, res_folders_scanned = 1\<rparr> disabled_world of
     (Inr _, w') \<Rightarrow> (\<exists>row'. get_subscription (wo_db w') 7 = Some row' \<and>
        \<not> s_enabled row' \<and> s_status row' = ''active'')
   | _ \<Rightarrow> False"
proof -
  let ?s = "transfer_sub\<lparr>s_status := ''scanning''\<rparr>"
  let ?run = "finish_scan sample_scan_env ?s True \<lparr>res_discovered = 0, res_folders_scanned = 1\<rparr> disabled_world"
  have "\<not> isl (fst ?run)" by code_simp
  then obtain r w' where run: "?run = (Inr r, w')" by (cases ?run; cases "fst ?run") auto
  have row: "get_subscription (wo_db disabled_world) (s_id ?s) =
      Some (transfer_sub\<lparr>s_enabled := False, s_status := ''scanning''\<rparr>)" by code_simp
  have "\<exists>row'. get_subscription (wo_db w') (s_id ?s) = Some row' \<and>
      \<not> s_enabled row' \<and> s_status row' = ''active''"
    by (rule disabled_while_scanned_shows_active [OF run _ _ _ row])
      (simp_all add: sample_scan_env_def transfer_sub_def)
  moreover have "s_id ?s = 7" by (simp add: transfer_sub_def)
  ultimately show ?thesis using run by (simp only: prod.case sum.case)
qed

end
