(* ===== verification/UpdaterDocuments.thy ===== *)
theory UpdaterDocuments
  imports Actions ExecutionGate UpdateCheck
begin

text \<open>
  The documents of an update in progress: the handoff (\<open>HandoffDocument\<close> and \<open>read_handoff\<close> of
  \<open>app/services/update_snapshot_service.py\<close>), the evidence of the candidate
  (\<open>app/services/candidate_evidence_service.py\<close>), and the formats of their fields.

  A file is what its path shows: missing, a link or no regular file, a content that is no such
  document, or a document.  Size limits and the JSON syntax are part of \<open>no such document\<close>.
  The texts of the exceptions are Chinese and read by nobody; each site has a short tag instead.
\<close>

section \<open>Formats\<close>

definition tagged :: "exn_class \<Rightarrow> string \<Rightarrow> exn" where
  "tagged c tag = raise_exn c None tag"

definition snapshot_exn :: "string \<Rightarrow> exn" where
  "snapshot_exn tag = tagged CUpdateSnapshot tag"

text \<open>\<open>validate_operation_id\<close>: the text is what \<open>str\<close> prints of the UUID it denotes.\<close>

definition operation_id_ok :: "string \<Rightarrow> bool" where
  "operation_id_ok s \<longleftrightarrow> length s = 36 \<and>
     (\<forall>i < 36. if i \<in> {8, 13, 18, 23} then s ! i = CHR ''-'' else is_lower_hex (s ! i))"

definition container_id_ok :: "string \<Rightarrow> bool" where
  "container_id_ok s \<longleftrightarrow> 12 \<le> length s \<and> length s \<le> 64 \<and> list_all is_lower_hex s"

definition full_container_id :: "string \<Rightarrow> bool" where
  "full_container_id s \<longleftrightarrow> length s = 64 \<and> container_id_ok s"

definition is_alnum :: "char \<Rightarrow> bool" where
  "is_alnum c \<longleftrightarrow> is_alnum_dash c \<and> c \<noteq> CHR ''_'' \<and> c \<noteq> CHR ''-''"

definition container_name_ok :: "string \<Rightarrow> bool" where
  "container_name_ok s =
     (case s of [] \<Rightarrow> False
      | c # r \<Rightarrow> is_alnum c \<and> length r \<le> 127 \<and> list_all (\<lambda>c. is_alnum_dash c \<or> c = CHR ''.'') r)"

text \<open>\<open>VERSION_PATTERN\<close> of the image targets: the leading \<open>v\<close> is required, blanks are not read.\<close>

definition version_tag_ok :: "string \<Rightarrow> bool" where
  "version_tag_ok s =
     (case s of v # d # r \<Rightarrow> v = CHR ''v'' \<and> is_digit d \<and> is_digit (last s) \<and> parse_version s \<noteq> None
      | _ \<Rightarrow> False)"

definition OFFICIAL_REPOSITORIES :: "string list" where
  "OFFICIAL_REPOSITORIES = [''josephyjq/mediasync'', ''ghcr.io/josephyin/mediasync'']"

text \<open>\<open>rpartition('@')\<close>: what is before the last one, whether there is one, what is after it.\<close>

definition rpartition :: "char \<Rightarrow> string \<Rightarrow> string \<times> bool \<times> string" where
  "rpartition c s =
     (if c \<in> set s
      then (rev (tl (dropWhile (\<lambda>x. x \<noteq> c) (rev s))), True, rev (takeWhile (\<lambda>x. x \<noteq> c) (rev s)))
      else ([], False, s))"

text \<open>\<open>validate_public_error\<close>: error codes are ASCII, the message's length counts characters.\<close>

definition error_code_ok :: "string option \<Rightarrow> bool" where
  "error_code_ok code =
     (case code of None \<Rightarrow> True
      | Some s \<Rightarrow> s \<noteq> [] \<and> length s \<le> 100 \<and>
          (let r = filter (\<lambda>c. c \<noteq> CHR ''_'') s in r \<noteq> [] \<and> list_all is_alnum r))"

definition error_message_ok :: "string option \<Rightarrow> bool" where
  "error_message_ok msg =
     (case msg of None \<Rightarrow> True
      | Some s \<Rightarrow> length (filter (\<lambda>c. \<not> continuation_byte c) s) \<le> 1000)"

definition validate_public_error :: "string option \<Rightarrow> string option \<Rightarrow> exn + unit" where
  "validate_public_error code msg =
     bindR (require (error_code_ok code) (snapshot_exn ''error code'')) (\<lambda>_.
     require (error_message_ok msg) (snapshot_exn ''error message''))"

section \<open>The handoff\<close>

record handoff_mount =
  hm_type :: string
  hm_source :: string
  hm_target :: string
  hm_read_only :: bool

record handoff_device =
  hd_path_on_host :: string
  hd_path_in_container :: string
  hd_cgroup_permissions :: string

record handoff_candidate =
  hc_container_id :: string
  hc_name :: string
  hc_env :: "string list"
  hc_user :: string
  hc_labels :: "(string \<times> string) list"
  hc_mounts :: "handoff_mount list"
  hc_exposed_ports :: "string list"
  hc_port_bindings :: "(string \<times> json) list"
  hc_restart_policy :: "(string \<times> json) list"
  hc_network_mode :: string
  hc_networks :: "(string \<times> string list) list"
  hc_dns :: "string list"
  hc_group_add :: "string list"
  hc_readonly_rootfs :: bool
  hc_devices :: "handoff_device list"

record handoff_document =
  h_operation_id :: string
  h_current_container_id :: string
  h_source_image_id :: string
  h_source_image_reference :: string
  h_source_version :: string
  h_source_digest :: "string option"
  h_target_version :: string
  h_target_digest :: string
  h_target_revision :: string
  h_target_image :: string
  h_candidate :: handoff_candidate

text \<open>\<open>posixpath.normpath\<close> of an absolute path.\<close>

definition drop_dots :: "string list \<Rightarrow> string list" where
  "drop_dots comps =
     foldl (\<lambda>acc c. if c = [] \<or> c = ''.'' then acc
                    else if c = ''..'' then butlast acc
                    else acc @ [c]) [] comps"

definition normpath_absolute :: "string \<Rightarrow> string" where
  "normpath_absolute s =
     (if take 2 s = ''//'' \<and> take 3 s \<noteq> ''///'' then ''//'' else ''/'') @
     (case drop_dots (split_slash s) of
        [] \<Rightarrow> [] | c # cs \<Rightarrow> c @ concat (map (\<lambda>c. CHR ''/'' # c) cs))"

definition valid_handoff_device_path :: "string \<Rightarrow> bool" where
  "valid_handoff_device_path s \<longleftrightarrow>
     1 < length (filter (\<lambda>c. \<not> continuation_byte c) s) \<and>
     length (filter (\<lambda>c. \<not> continuation_byte c) s) \<le> 4096 \<and>
     take 1 s = ''/'' \<and> CHR 0x00 \<notin> set s \<and> normpath_absolute s = s"

fun handoff_devices_ok :: "string list \<Rightarrow> handoff_device list \<Rightarrow> bool" where
  "handoff_devices_ok targets [] = True"
| "handoff_devices_ok targets (dev # devs) =
     (valid_handoff_device_path (hd_path_on_host dev) \<and>
      valid_handoff_device_path (hd_path_in_container dev) \<and>
      hd_cgroup_permissions dev \<noteq> [] \<and> distinct (hd_cgroup_permissions dev) \<and>
      set (hd_cgroup_permissions dev) \<subseteq> set ''rwm'' \<and>
      hd_path_in_container dev \<notin> set targets \<and>
      handoff_devices_ok (hd_path_in_container dev # targets) devs)"

definition handoff_identity_ok :: "handoff_document \<Rightarrow> bool" where
  "handoff_identity_ok doc \<longleftrightarrow>
     container_id_ok (h_current_container_id doc) \<and>
     hc_container_id (h_candidate doc) = h_current_container_id doc \<and>
     container_name_ok (hc_name (h_candidate doc)) \<and>
     digest_ok (h_source_image_id doc) \<and> version_tag_ok (h_source_version doc) \<and>
     version_tag_ok (h_target_version doc) \<and> digest_ok (h_target_digest doc) \<and>
     revision_ok (h_target_revision doc) \<and>
     (case rpartition (CHR ''@'') (h_target_image doc) of
        (repository, found, _) \<Rightarrow>
          h_target_image doc =
            (if found then repository else h_target_image doc) @ ''@'' @ h_target_digest doc)"

definition validate_handoff_document :: "handoff_document \<Rightarrow> exn + unit" where
  "validate_handoff_document doc =
     bindR (require (handoff_identity_ok doc) (snapshot_exn ''handoff invariants'')) (\<lambda>_.
     bindR (require (h_target_image doc \<in>
                     set (map (\<lambda>r. r @ ''@'' @ h_target_digest doc) OFFICIAL_REPOSITORIES))
              (snapshot_exn ''handoff repository'')) (\<lambda>_.
     bindR (require (case h_source_digest doc of None \<Rightarrow> True | Some x \<Rightarrow> digest_ok x)
              (snapshot_exn ''handoff source digest'')) (\<lambda>_.
     bindR (require (handoff_devices_ok [] (hc_devices (h_candidate doc)))
              (snapshot_exn ''handoff devices'')) (\<lambda>_.
     require (case filter (\<lambda>m. hm_target m = ''/data'') (hc_mounts (h_candidate doc)) of
                [m] \<Rightarrow> \<not> hm_read_only m | _ \<Rightarrow> False) (snapshot_exn ''handoff data mount'')))))"

datatype handoff_file = HandoffMissing | HandoffInvalid | HandoffDoc handoff_document

definition read_handoff :: "string \<Rightarrow> handoff_file \<Rightarrow> exn + handoff_document" where
  "read_handoff operation_id h =
     (if \<not> operation_id_ok operation_id then Inl (tagged CUpdaterHandoff ''operation id'')
      else case h of
             HandoffMissing \<Rightarrow> Inl (snapshot_exn ''handoff file'')
           | HandoffInvalid \<Rightarrow> Inl (snapshot_exn ''handoff content'')
           | HandoffDoc doc \<Rightarrow>
               if h_operation_id doc \<noteq> operation_id then Inl (snapshot_exn ''handoff operation'')
               else bindR (validate_handoff_document doc) (\<lambda>_. Inr doc))"

definition data_mount :: "handoff_document \<Rightarrow> handoff_mount option" where
  "data_mount doc = first_row (\<lambda>m. hm_target m = ''/data'') (hc_mounts (h_candidate doc))"

section \<open>The evidence of the candidate\<close>

record candidate_evidence =
  ce_operation_id :: string
  ce_candidate_token :: string
  ce_version :: string
  ce_revision :: string
  ce_digest :: string
  ce_alembic_revision :: string
  ce_components :: "(string \<times> bool) list"
  ce_observed_at :: datetime

definition REQUIRED_COMPONENTS :: "string set" where
  "REQUIRED_COMPONENTS = {''launcher'', ''nginx'', ''api'', ''scheduler'', ''worker''}"

definition alembic_revision_ok :: "string \<Rightarrow> bool" where
  "alembic_revision_ok s \<longleftrightarrow>
     1 \<le> length s \<and> length s \<le> 128 \<and> list_all (\<lambda>c. is_alnum_dash c \<or> c = CHR ''.'') s"

definition evidence_valid :: "candidate_evidence \<Rightarrow> bool" where
  "evidence_valid e \<longleftrightarrow>
     uuid_ok (ce_operation_id e) \<and> candidate_token_ok (ce_candidate_token e) \<and>
     parse_version (ce_version e) \<noteq> None \<and> revision_ok (ce_revision e) \<and>
     digest_ok (ce_digest e) \<and> alembic_revision_ok (ce_alembic_revision e) \<and>
     set (map fst (ce_components e)) = REQUIRED_COMPONENTS \<and> list_all snd (ce_components e)"

datatype evidence_file = EvidenceMissing | EvidenceUnsafe | EvidenceInvalid
  | EvidenceDoc candidate_evidence

definition read_candidate_evidence ::
    "string \<Rightarrow> string \<Rightarrow> evidence_file \<Rightarrow> string + candidate_evidence" where
  "read_candidate_evidence operation_id token file =
     (case file of
        EvidenceDoc e \<Rightarrow>
          if \<not> evidence_valid e then Inl ''invalid''
          else if ce_operation_id e \<noteq> operation_id \<or> ce_candidate_token e \<noteq> token
          then Inl ''owner''
          else Inr e
      | EvidenceInvalid \<Rightarrow> Inl ''invalid''
      | _ \<Rightarrow> Inl ''missing'')"

end
