(* ===== verification/UpdaterJournal.thy ===== *)
theory UpdaterJournal
  imports UpdaterDocuments
begin

text \<open>
  The journal of an update (\<open>UpdaterResultV2\<close> and \<open>UpdaterResultJournal\<close> of
  \<open>app/services/update_snapshot_service.py\<close>): the record that survives a crash of the updater and
  tells the next process how far the last one came.
\<close>

section \<open>Statuses and checkpoints\<close>

datatype updater_status =
    UsSnapshotting | UsSwitching | UsVerifying | UsCommitRequested | UsRollingBack
  | UsSuccess | UsFailed | UsRolledBack | UsRollbackFailed

definition UPDATER_TERMINAL_STATUSES :: "updater_status set" where
  "UPDATER_TERMINAL_STATUSES = {UsSuccess, UsFailed, UsRolledBack, UsRollbackFailed}"

fun UPDATER_TRANSITIONS :: "updater_status \<Rightarrow> updater_status set" where
  "UPDATER_TRANSITIONS UsSnapshotting = {UsSwitching, UsRollingBack, UsFailed}"
| "UPDATER_TRANSITIONS UsSwitching = {UsVerifying, UsRollingBack}"
| "UPDATER_TRANSITIONS UsVerifying = {UsCommitRequested, UsRollingBack}"
| "UPDATER_TRANSITIONS UsCommitRequested = {UsSuccess}"
| "UPDATER_TRANSITIONS UsRollingBack = {UsRolledBack, UsRollbackFailed}"
| "UPDATER_TRANSITIONS _ = {}"

datatype updater_checkpoint =
    Initialized | OldRestartFenced | OldStopped | PendingReady | SnapshotVerified | OldRenamed
  | CandidateCreated | CandidateStarted | CandidateVerified | CommitRequested
  | RollbackStarted | CandidateStopped | CandidateRemoved | SnapshotRestored
  | CandidateEvidenceRemoved | OldNameRestored | OldPolicyRestored | OldStarted | OldVerified
  | RollbackPublished

definition FORWARD_CHECKPOINTS :: "updater_checkpoint list" where
  "FORWARD_CHECKPOINTS =
     [Initialized, OldRestartFenced, OldStopped, PendingReady, SnapshotVerified, OldRenamed,
      CandidateCreated, CandidateStarted, CandidateVerified, CommitRequested]"

definition ROLLBACK_CHECKPOINTS :: "updater_checkpoint list" where
  "ROLLBACK_CHECKPOINTS =
     [RollbackStarted, CandidateStopped, CandidateRemoved, SnapshotRestored,
      CandidateEvidenceRemoved, OldNameRestored, OldPolicyRestored, OldStarted, OldVerified,
      RollbackPublished]"

text \<open>\<open>xs.index(x)\<close> of an element of the tuple.\<close>

definition index_of :: "'a list \<Rightarrow> 'a \<Rightarrow> nat" where
  "index_of xs x = length (takeWhile (\<lambda>y. y \<noteq> x) xs)"

definition MAX_RECOVERY_GENERATION :: int where
  "MAX_RECOVERY_GENERATION = 3"

section \<open>The record\<close>

record updater_result =
  j1_operation_id :: string
  j1_sequence :: int
  j1_status :: updater_status
  j1_updated_at :: datetime
  j1_error_code :: "string option"
  j1_public_error_message :: "string option"

record updater_result_v2 =
  jr_operation_id :: string
  jr_sequence :: int
  jr_status :: updater_status
  jr_checkpoint :: updater_checkpoint
  jr_recovery_generation :: int
  jr_coordinator_container_id :: string
  jr_source_container_id :: string
  jr_source_image_id :: string
  jr_source_container_name :: string
  jr_target_image :: string
  jr_target_revision :: string
  jr_candidate_token_hash :: "string option"
  jr_candidate_container_id :: "string option"
  jr_rollback_started :: bool
  jr_updated_at :: datetime
  jr_error_code :: "string option"
  jr_public_error_message :: "string option"

definition is_forward :: "updater_checkpoint \<Rightarrow> bool" where
  "is_forward c \<longleftrightarrow> c \<in> set FORWARD_CHECKPOINTS"

definition allowed_checkpoints :: "bool \<Rightarrow> updater_status \<Rightarrow> updater_checkpoint set" where
  "allowed_checkpoints forward status =
     (if forward
      then (case status of
              UsSnapshotting \<Rightarrow> set (take 5 FORWARD_CHECKPOINTS)
            | UsSwitching \<Rightarrow> set (take 3 (drop 5 FORWARD_CHECKPOINTS))
            | UsVerifying \<Rightarrow> {CandidateStarted, CandidateVerified}
            | UsCommitRequested \<Rightarrow> {CommitRequested}
            | UsSuccess \<Rightarrow> {CommitRequested}
            | UsFailed \<Rightarrow> set FORWARD_CHECKPOINTS
            | _ \<Rightarrow> {})
      else (case status of
              UsRollingBack \<Rightarrow> set ROLLBACK_CHECKPOINTS
            | UsRolledBack \<Rightarrow> {RollbackPublished}
            | UsRollbackFailed \<Rightarrow> set ROLLBACK_CHECKPOINTS
            | _ \<Rightarrow> {}))"

definition validate_status_checkpoint :: "updater_result_v2 \<Rightarrow> bool" where
  "validate_status_checkpoint r \<longleftrightarrow>
     (let forward = is_forward (jr_checkpoint r);
          i = index_of FORWARD_CHECKPOINTS (jr_checkpoint r) in
      forward \<noteq> jr_rollback_started r \<and>
      jr_checkpoint r \<in> allowed_checkpoints forward (jr_status r) \<and>
      (if forward
       then (index_of FORWARD_CHECKPOINTS PendingReady \<le> i) = (jr_candidate_token_hash r \<noteq> None) \<and>
            (index_of FORWARD_CHECKPOINTS CandidateCreated \<le> i) = (jr_candidate_container_id r \<noteq> None)
       else jr_candidate_token_hash r \<noteq> None))"

text \<open>\<open>UpdaterResultV2.model_validate\<close>: the bounds of the fields and the validator.\<close>

definition validate_invariants :: "updater_result_v2 \<Rightarrow> bool" where
  "validate_invariants r \<longleftrightarrow>
     1 \<le> jr_sequence r \<and>
     0 \<le> jr_recovery_generation r \<and> jr_recovery_generation r \<le> MAX_RECOVERY_GENERATION \<and>
     operation_id_ok (jr_operation_id r) \<and>
     full_container_id (jr_coordinator_container_id r) \<and>
     full_container_id (jr_source_container_id r) \<and>
     (case jr_candidate_container_id r of None \<Rightarrow> True | Some c \<Rightarrow> full_container_id c) \<and>
     digest_ok (jr_source_image_id r) \<and>
     container_name_ok (jr_source_container_name r) \<and>
     revision_ok (jr_target_revision r) \<and>
     (case rpartition (CHR ''@'') (jr_target_image r) of
        (repository, found, digest) \<Rightarrow>
          found \<and> digest_ok digest \<and> repository \<in> set OFFICIAL_REPOSITORIES) \<and>
     (case jr_candidate_token_hash r of None \<Rightarrow> True | Some h \<Rightarrow> digest_ok h) \<and>
     error_code_ok (jr_error_code r) \<and> error_message_ok (jr_public_error_message r) \<and>
     validate_status_checkpoint r"

section \<open>The world of an update\<close>

text \<open>
  What the file system shows at the journal's path (a link to nothing is \<open>JournalDangling\<close>), the handoff, the marker and the evidence, the
  database, and the rest: Docker, the snapshots, the clock.
\<close>

datatype journal_file =
    JournalMissing | JournalDangling | JournalUnsafe | JournalInvalid | JournalV1 updater_result
  | JournalV2 updater_result_v2

record 'p update_world =
  uw_db :: db
  uw_journal :: "string \<Rightarrow> journal_file"
  uw_handoff :: "string \<Rightarrow> handoff_file"
  uw_evidence :: "string \<Rightarrow> evidence_file"
  uw_pending :: marker_file
  uw_rest :: 'p

text \<open>
  A write of the journal succeeds, fails before the new file is in place, or fails after it is,
  when the directory cannot be synced.
\<close>

datatype disk_outcome = DiskOk | DiskFailed exn | DiskUnsynced exn

record 'p journal_env =
  je_disk :: "'p update_world \<Rightarrow> disk_outcome"
  je_clock :: "'p update_world \<Rightarrow> datetime"

definition put_journal :: "string \<Rightarrow> journal_file \<Rightarrow> 'p update_world \<Rightarrow> 'p update_world" where
  "put_journal oid f w = w\<lparr>uw_journal := (uw_journal w)(oid := f)\<rparr>"

text \<open>\<open>exists()\<close> follows links, \<open>os.link\<close> does not.\<close>

definition journal_exists :: "string \<Rightarrow> 'p update_world \<Rightarrow> bool" where
  "journal_exists oid w \<longleftrightarrow> uw_journal w oid \<notin> {JournalMissing, JournalDangling}"

definition write_journal ::
    "'p journal_env \<Rightarrow> bool \<Rightarrow> string \<Rightarrow> journal_file \<Rightarrow> ('p update_world, unit) act" where
  "write_journal env replace oid f w =
     (case je_disk env w of
        DiskFailed e \<Rightarrow> (Inl e, w)
      | DiskUnsynced e \<Rightarrow>
          if \<not> replace \<and> uw_journal w oid \<noteq> JournalMissing then (Inl (snapshot_exn ''journal exists''), w)
          else (Inl e, put_journal oid f w)
      | DiskOk \<Rightarrow>
          if \<not> replace \<and> uw_journal w oid \<noteq> JournalMissing then (Inl (snapshot_exn ''journal exists''), w)
          else (Inr (), put_journal oid f w))"

section \<open>Reading\<close>

text \<open>\<open>UpdaterResultJournal.read\<close>.\<close>

definition read_journal :: "string \<Rightarrow> ('p update_world, updater_result + updater_result_v2) act" where
  "read_journal oid w =
     (if \<not> operation_id_ok oid then (Inl (tagged CUpdaterHandoff ''operation id''), w)
      else case uw_journal w oid of
             JournalMissing \<Rightarrow> (Inl (snapshot_exn ''journal missing''), w)
           | JournalDangling \<Rightarrow> (Inl (snapshot_exn ''journal missing''), w)
           | JournalUnsafe \<Rightarrow> (Inl (snapshot_exn ''journal missing''), w)
           | JournalInvalid \<Rightarrow> (Inl (snapshot_exn ''journal invalid''), w)
           | JournalV1 r \<Rightarrow>
               if j1_operation_id r \<noteq> oid then (Inl (snapshot_exn ''journal operation''), w)
               else (Inr (Inl r), w)
           | JournalV2 r \<Rightarrow>
               if \<not> validate_invariants r then (Inl (snapshot_exn ''journal invalid''), w)
               else if jr_operation_id r \<noteq> oid then (Inl (snapshot_exn ''journal operation''), w)
               else (Inr (Inr r), w))"

definition read_v2 :: "string \<Rightarrow> ('p update_world, updater_result_v2) act" where
  "read_v2 oid =
     bindA (read_journal oid) (\<lambda>r. case r of
       Inl _ \<Rightarrow> raiseA (snapshot_exn ''v1 result'') | Inr r \<Rightarrow> retA r)"

section \<open>Writing, version 1\<close>

definition journal_start :: "'p journal_env \<Rightarrow> string \<Rightarrow> ('p update_world, updater_result) act" where
  "journal_start env oid w =
     (if \<not> operation_id_ok oid then (Inl (tagged CUpdaterHandoff ''operation id''), w)
      else if journal_exists oid w then (Inl (snapshot_exn ''journal exists''), w)
      else
        let r = \<lparr>j1_operation_id = oid, j1_sequence = 1, j1_status = UsSnapshotting,
                 j1_updated_at = je_clock env w, j1_error_code = None,
                 j1_public_error_message = None\<rparr>
        in bindA (write_journal env False oid (JournalV1 r)) (\<lambda>_. retA r) w)"

definition journal_transition ::
    "'p journal_env \<Rightarrow> string \<Rightarrow> updater_status \<Rightarrow> string option \<Rightarrow> string option \<Rightarrow>
     ('p update_world, updater_result) act" where
  "journal_transition env oid status code msg =
     bindA (read_journal oid) (\<lambda>current w.
       case current of
         Inr _ \<Rightarrow> (Inl (snapshot_exn ''v2 result''), w)
       | Inl r \<Rightarrow>
           if j1_status r \<in> UPDATER_TERMINAL_STATUSES then (Inl (snapshot_exn ''terminal''), w)
           else if status \<notin> UPDATER_TRANSITIONS (j1_status r)
           then (Inl (snapshot_exn ''transition''), w)
           else case validate_public_error code msg of
                  Inl e \<Rightarrow> (Inl e, w)
                | Inr _ \<Rightarrow>
                    let r' = \<lparr>j1_operation_id = oid, j1_sequence = j1_sequence r + 1,
                              j1_status = status, j1_updated_at = je_clock env w,
                              j1_error_code = code, j1_public_error_message = msg\<rparr>
                    in bindA (write_journal env True oid (JournalV1 r')) (\<lambda>_. retA r') w)"

section \<open>Writing, version 2\<close>

definition initial_result :: "handoff_document \<Rightarrow> string \<Rightarrow> datetime \<Rightarrow> updater_result_v2" where
  "initial_result doc coordinator now =
     \<lparr>jr_operation_id = h_operation_id doc, jr_sequence = 1, jr_status = UsSnapshotting,
      jr_checkpoint = Initialized, jr_recovery_generation = 0,
      jr_coordinator_container_id = coordinator,
      jr_source_container_id = h_current_container_id doc,
      jr_source_image_id = h_source_image_id doc,
      jr_source_container_name = hc_name (h_candidate doc),
      jr_target_image = h_target_image doc, jr_target_revision = h_target_revision doc,
      jr_candidate_token_hash = None, jr_candidate_container_id = None,
      jr_rollback_started = False, jr_updated_at = now,
      jr_error_code = None, jr_public_error_message = None\<rparr>"

definition start_v2 ::
    "'p journal_env \<Rightarrow> handoff_document \<Rightarrow> string \<Rightarrow> ('p update_world, updater_result_v2) act" where
  "start_v2 env doc coordinator w =
     (case validate_handoff_document doc of
        Inl e \<Rightarrow> (Inl e, w)
      | Inr _ \<Rightarrow>
          if journal_exists (h_operation_id doc) w then (Inl (snapshot_exn ''journal exists''), w)
          else
            let r = initial_result doc coordinator (je_clock env w) in
            if \<not> validate_invariants r then (Inl (snapshot_exn ''initial result''), w)
            else bindA (write_journal env False (h_operation_id doc) (JournalV2 r)) (\<lambda>_. retA r) w)"

definition takeover_v2 ::
    "'p journal_env \<Rightarrow> string \<Rightarrow> string \<Rightarrow> ('p update_world, updater_result_v2) act" where
  "takeover_v2 env oid coordinator =
     bindA (read_v2 oid) (\<lambda>current w.
       if jr_status current \<in> UPDATER_TERMINAL_STATUSES then (Inl (snapshot_exn ''terminal''), w)
       else if MAX_RECOVERY_GENERATION \<le> jr_recovery_generation current
       then (Inl (snapshot_exn ''generation''), w)
       else
         let r = current\<lparr>jr_sequence := jr_sequence current + 1,
                         jr_recovery_generation := jr_recovery_generation current + 1,
                         jr_coordinator_container_id := coordinator,
                         jr_updated_at := je_clock env w\<rparr> in
         if \<not> validate_invariants r then (Inl (snapshot_exn ''takeover identity''), w)
         else bindA (write_journal env True (jr_operation_id r) (JournalV2 r)) (\<lambda>_. retA r) w)"

definition validate_checkpoint_progress ::
    "updater_result_v2 \<Rightarrow> updater_status \<Rightarrow> updater_checkpoint \<Rightarrow> bool \<Rightarrow> exn + unit" where
  "validate_checkpoint_progress current status checkpoint rollback_started =
     (let current_rollback = jr_checkpoint current \<in> set ROLLBACK_CHECKPOINTS;
          target_rollback = checkpoint \<in> set ROLLBACK_CHECKPOINTS in
      if rollback_started \<noteq> target_rollback then Inl (snapshot_exn ''rollback checkpoint'')
      else if \<not> current_rollback \<and> target_rollback
      then require (status = UsRollingBack \<and> checkpoint = RollbackStarted)
             (snapshot_exn ''rollback start'')
      else if current_rollback \<noteq> target_rollback then Inl (snapshot_exn ''direction'')
      else
        let checkpoints = (if target_rollback then ROLLBACK_CHECKPOINTS else FORWARD_CHECKPOINTS);
            current_index = index_of checkpoints (jr_checkpoint current);
            target_index = index_of checkpoints checkpoint in
        if target_index = current_index
        then require (status \<noteq> jr_status current) (snapshot_exn ''no progress'')
        else require (target_index = current_index + 1) (snapshot_exn ''skipped''))"

definition checkpoint_record ::
    "updater_result_v2 \<Rightarrow> updater_status \<Rightarrow> updater_checkpoint \<Rightarrow> string option \<Rightarrow> string option \<Rightarrow>
     bool \<Rightarrow> string option \<Rightarrow> string option \<Rightarrow> datetime \<Rightarrow> updater_result_v2" where
  "checkpoint_record current status checkpoint token_hash candidate rollback_started code msg now =
     current\<lparr>jr_sequence := jr_sequence current + 1, jr_status := status,
             jr_checkpoint := checkpoint,
             jr_candidate_token_hash :=
               (if token_hash \<noteq> None then token_hash else jr_candidate_token_hash current),
             jr_candidate_container_id :=
               (if candidate \<noteq> None then candidate else jr_candidate_container_id current),
             jr_rollback_started := rollback_started, jr_updated_at := now,
             jr_error_code := code, jr_public_error_message := msg\<rparr>"

definition fixed_once :: "string option \<Rightarrow> string option \<Rightarrow> bool" where
  "fixed_once current new \<longleftrightarrow> \<not> (current \<noteq> None \<and> new \<noteq> None \<and> new \<noteq> current)"

definition checkpoint_v2 ::
    "'p journal_env \<Rightarrow> string \<Rightarrow> updater_status \<Rightarrow> updater_checkpoint \<Rightarrow> string option \<Rightarrow>
     string option \<Rightarrow> bool option \<Rightarrow> string option \<Rightarrow> string option \<Rightarrow>
     ('p update_world, updater_result_v2) act" where
  "checkpoint_v2 env oid status checkpoint token_hash candidate rollback_started code msg =
     bindA (read_v2 oid) (\<lambda>current w.
       if jr_status current \<in> UPDATER_TERMINAL_STATUSES then (Inl (snapshot_exn ''terminal''), w)
       else if status \<noteq> jr_status current \<and> status \<notin> UPDATER_TRANSITIONS (jr_status current)
       then (Inl (snapshot_exn ''transition''), w)
       else
         let next_rollback = coalesce rollback_started (jr_rollback_started current) in
         if \<not> fixed_once (jr_candidate_token_hash current) token_hash
         then (Inl (snapshot_exn ''token hash''), w)
         else if \<not> fixed_once (jr_candidate_container_id current) candidate
         then (Inl (snapshot_exn ''candidate id''), w)
         else case validate_checkpoint_progress current status checkpoint next_rollback of
                Inl e \<Rightarrow> (Inl e, w)
              | Inr _ \<Rightarrow>
         case validate_public_error code msg of
           Inl e \<Rightarrow> (Inl e, w)
         | Inr _ \<Rightarrow>
             let r = checkpoint_record current status checkpoint token_hash candidate next_rollback
                       code msg (je_clock env w) in
             if \<not> validate_invariants r then (Inl (snapshot_exn ''checkpoint''), w)
             else bindA (write_journal env True (jr_operation_id r) (JournalV2 r)) (\<lambda>_. retA r) w)"

end
