(* ===== verification/ContainerIdentity.thy ===== *)
theory ContainerIdentity
  imports UpdaterJournal "HOL-Library.Char_ord" "HOL-Library.List_Lexorder"
begin

text \<open>
  Which containers belong to an update, and what a restarted updater decides
  (\<open>app/services/updater_recovery_decision_service.py\<close>).  A container is the JSON object that
  Docker's inspection returns; its security options are strings, as Docker documents them.
\<close>

section \<open>Reading a container\<close>

type_synonym container = "(string \<times> json) list"

definition mapping :: "json \<Rightarrow> (string \<times> json) list" where
  "mapping j = (case j of JObj m \<Rightarrow> m | _ \<Rightarrow> [])"

definition container_config :: "container \<Rightarrow> (string \<times> json) list" where
  "container_config c = mapping (jget c ''Config'')"

definition container_labels :: "container \<Rightarrow> (string \<times> json) list" where
  "container_labels c = mapping (jget (container_config c) ''Labels'')"

definition container_name :: "container \<Rightarrow> string" where
  "container_name c = (case jget c ''Name'' of JStr s \<Rightarrow> removeprefix ''/'' s | _ \<Rightarrow> [])"

definition objects :: "json \<Rightarrow> (string \<times> json) list list" where
  "objects j =
     (case j of JList js \<Rightarrow> concat (map (\<lambda>x. case x of JObj m \<Rightarrow> [m] | _ \<Rightarrow> []) js) | _ \<Rightarrow> [])"

text \<open>\<open>item.partition('=')\<close> on the strings of the list; the first value of a key counts.\<close>

fun env_pairs :: "json list \<Rightarrow> (string \<times> string) list" where
  "env_pairs [] = []"
| "env_pairs (JStr s # js) =
     (if CHR ''='' \<in> set s
      then (takeWhile (\<lambda>c. c \<noteq> CHR ''='') s, tl (dropWhile (\<lambda>c. c \<noteq> CHR ''='') s)) # env_pairs js
      else env_pairs js)"
| "env_pairs (_ # js) = env_pairs js"

definition container_environment :: "container \<Rightarrow> string \<Rightarrow> string option" where
  "container_environment c =
     map_of (case jget (container_config c) ''Env'' of JList js \<Rightarrow> env_pairs js | _ \<Rightarrow> [])"

definition mount_source :: "(string \<times> json) list \<Rightarrow> string \<Rightarrow> json" where
  "mount_source m mount_type = (if mount_type = ''volume'' then jget m ''Name'' else jget m ''Source'')"

definition mount_as_expected :: "handoff_mount \<Rightarrow> (string \<times> json) list \<Rightarrow> bool" where
  "mount_as_expected expected m \<longleftrightarrow>
     jget m ''Type'' = JStr (hm_type expected) \<and>
     mount_source m (hm_type expected) = JStr (hm_source expected) \<and>
     jget m ''RW'' = JBool (\<not> hm_read_only expected)"

definition mount_matches :: "handoff_document \<Rightarrow> container \<Rightarrow> bool" where
  "mount_matches doc c =
     (case data_mount doc of
        None \<Rightarrow> False
      | Some expected \<Rightarrow>
          (case filter (\<lambda>m. jget m ''Destination'' = JStr ''/data'') (objects (jget c ''Mounts'')) of
             [m] \<Rightarrow> mount_as_expected expected m
           | _ \<Rightarrow> False))"

definition UPDATE_ROLE_LABEL :: string where
  "UPDATE_ROLE_LABEL = ''io.mediasync.update.role''"

definition UPDATE_OPERATION_LABEL :: string where
  "UPDATE_OPERATION_LABEL = ''io.mediasync.update.operation''"

definition APPLIANCE_COMMAND :: json where
  "APPLIANCE_COMMAND = JList [JStr ''python'', JStr ''-m'', JStr ''app.appliance'']"

definition UPDATER_COMMAND :: json where
  "UPDATER_COMMAND = JList [JStr ''python'', JStr ''-m'', JStr ''app.updater'']"

section \<open>The isolation of an updater\<close>

definition normalize_capability :: "string \<Rightarrow> string" where
  "normalize_capability s = removeprefix ''CAP_'' (upper s)"

definition capability_list_matches :: "json \<Rightarrow> string list \<Rightarrow> bool" where
  "capability_list_matches actual expected =
     (case actual of
        JList js \<Rightarrow> length js = length expected \<and>
          list_all (\<lambda>j. case j of JStr _ \<Rightarrow> True | _ \<Rightarrow> False) js \<and>
          map (\<lambda>j. case j of JStr s \<Rightarrow> normalize_capability s | _ \<Rightarrow> []) js =
            map normalize_capability expected
      | _ \<Rightarrow> False)"

definition security_options_match :: "json \<Rightarrow> bool" where
  "security_options_match actual =
     (case actual of
        JList [j] \<Rightarrow> j \<in> {JStr ''no-new-privileges:true'', JStr ''no-new-privileges'',
                        JStr ''no-new-privileges=true''}
      | _ \<Rightarrow> False)"

definition updater_isolation_matches :: "(string \<times> json) list \<Rightarrow> bool" where
  "updater_isolation_matches host \<longleftrightarrow>
     capability_list_matches (jget host ''CapDrop'') [''ALL''] \<and>
     capability_list_matches (jget host ''CapAdd'') [''CAP_DAC_OVERRIDE''] \<and>
     security_options_match (jget host ''SecurityOpt'')"

definition mount_targets :: "json \<Rightarrow> string set" where
  "mount_targets mounts =
     set (concat (map (\<lambda>m. case jget m ''Destination'' of JStr s \<Rightarrow> [s] | _ \<Rightarrow> []) (objects mounts)))"

section \<open>Identities\<close>

definition previous_container_name :: "string \<Rightarrow> string" where
  "previous_container_name operation_id =
     ''mediasync-previous-'' @ takeWhile (\<lambda>c. c \<noteq> CHR ''-'') operation_id"

definition expected_source_names :: "updater_result_v2 \<Rightarrow> string set" where
  "expected_source_names r =
     (let previous = previous_container_name (jr_operation_id r) in
      if jr_checkpoint r \<in> {OldRenamed, CandidateCreated, CandidateStarted, CandidateVerified,
                            CommitRequested}
      then {previous}
      else if jr_checkpoint r \<in> set ROLLBACK_CHECKPOINTS \<and>
              index_of ROLLBACK_CHECKPOINTS (jr_checkpoint r) < index_of ROLLBACK_CHECKPOINTS OldNameRestored
      then {jr_source_container_name r, previous}
      else {jr_source_container_name r})"

definition source_identity_matches ::
    "container \<Rightarrow> handoff_document \<Rightarrow> updater_result_v2 \<Rightarrow> bool" where
  "source_identity_matches c doc r \<longleftrightarrow>
     jget c ''Id'' = JStr (h_current_container_id doc) \<and>
     h_current_container_id doc = jr_source_container_id r \<and>
     jget c ''Image'' = JStr (h_source_image_id doc) \<and> h_source_image_id doc = jr_source_image_id r \<and>
     hc_name (h_candidate doc) = jr_source_container_name r \<and>
     container_name c \<in> expected_source_names r \<and>
     mount_matches doc c"

text \<open>\<open>sha256\<close> is the hexadecimal digest of a text.\<close>

definition token_hash :: "(string \<Rightarrow> string) \<Rightarrow> string \<Rightarrow> string" where
  "token_hash sha256 token = ''sha256:'' @ sha256 token"

definition valid_candidate ::
    "(string \<Rightarrow> string) \<Rightarrow> container \<Rightarrow> handoff_document \<Rightarrow> updater_result_v2 \<Rightarrow>
     pending_update_marker option \<Rightarrow> bool" where
  "valid_candidate sha256 c doc r marker =
     (case container_environment c ''MEDIASYNC_CANDIDATE_TOKEN'' of
        None \<Rightarrow> False
      | Some token \<Rightarrow>
          (case marker of None \<Rightarrow> True
           | Some m \<Rightarrow> q_operation_id m = jr_operation_id r \<and> q_candidate_token m = token) \<and>
          jr_candidate_token_hash r = Some (token_hash sha256 token) \<and>
          container_name c = jr_source_container_name r \<and>
          jget (container_config c) ''Image'' = JStr (jr_target_image r) \<and>
          jr_target_image r = h_target_image doc \<and>
          jget (container_config c) ''Cmd'' = APPLIANCE_COMMAND \<and>
          mount_matches doc c)"

definition valid_coordinator ::
    "container \<Rightarrow> handoff_document \<Rightarrow> updater_result_v2 \<Rightarrow> string \<Rightarrow> bool" where
  "valid_coordinator c doc r socket_path \<longleftrightarrow>
     (let host = mapping (jget c ''HostConfig'') in
      jget (container_config c) ''Cmd'' = UPDATER_COMMAND \<and>
      jget (container_config c) ''Image'' = JStr (jr_target_image r) \<and>
      jr_target_image r = h_target_image doc \<and>
      jget host ''NetworkMode'' = JStr ''none'' \<and> jget host ''ReadonlyRootfs'' = JBool True \<and>
      updater_isolation_matches host \<and>
      mount_targets (jget c ''Mounts'') = {''/data'', socket_path} \<and>
      mount_matches doc c)"

section \<open>Observations\<close>

datatype identity_status = Missing | Matched | Conflict

record identity_observation =
  io_status :: identity_status
  io_container_id :: "string option"
  io_running :: "bool option"
  io_reason_code :: "string option"

record docker_observation =
  ob_source :: identity_observation
  ob_candidate :: identity_observation
  ob_coordinator :: identity_observation

definition unidentified :: "identity_status \<Rightarrow> string \<Rightarrow> identity_observation" where
  "unidentified status reason =
     \<lparr>io_status = status, io_container_id = None, io_running = None, io_reason_code = Some reason\<rparr>"

definition matched :: "container \<Rightarrow> identity_observation" where
  "matched c =
     \<lparr>io_status = Matched, io_container_id = (case jget c ''Id'' of JStr s \<Rightarrow> Some s | _ \<Rightarrow> None),
      io_running = Some (jget (mapping (jget c ''State'')) ''Running'' = JBool True),
      io_reason_code = None\<rparr>"

definition observe_source ::
    "container list \<Rightarrow> handoff_document \<Rightarrow> updater_result_v2 \<Rightarrow> identity_observation" where
  "observe_source cs doc r =
     (case filter (\<lambda>c. jget c ''Id'' = JStr (jr_source_container_id r)) cs of
        [] \<Rightarrow> unidentified Missing ''source_missing''
      | [c] \<Rightarrow> if source_identity_matches c doc r then matched c
               else unidentified Conflict ''source_identity_conflict''
      | _ \<Rightarrow> unidentified Conflict ''source_identity_conflict'')"

definition has_operation :: "string \<Rightarrow> container \<Rightarrow> bool" where
  "has_operation oid c \<longleftrightarrow> jget (container_labels c) UPDATE_OPERATION_LABEL = JStr oid"

definition observe_candidate ::
    "(string \<Rightarrow> string) \<Rightarrow> container list \<Rightarrow> handoff_document \<Rightarrow> updater_result_v2 \<Rightarrow>
     pending_update_marker option \<Rightarrow> identity_observation" where
  "observe_candidate sha256 cs doc r marker =
     (let labeled = filter (\<lambda>c. has_operation (jr_operation_id r) c \<and>
            jget (container_labels c) UPDATE_ROLE_LABEL = JStr ''candidate'') cs;
          pick = (\<lambda>selected.
            if selected = [] then unidentified Missing ''candidate_not_created''
            else if length selected \<noteq> 1 \<or> length labeled \<noteq> 1
            then unidentified Conflict ''candidate_not_unique''
            else if \<not> valid_candidate sha256 (hd selected) doc r marker
            then unidentified Conflict ''candidate_identity_conflict''
            else matched (hd selected)) in
      case jr_candidate_container_id r of
        None \<Rightarrow> pick labeled
      | Some cid \<Rightarrow>
          let identified = filter (\<lambda>c. jget c ''Id'' = JStr cid) cs in
          if identified = [] \<and> labeled = [] then unidentified Missing ''candidate_missing''
          else if length identified \<noteq> 1 \<or> hd identified \<notin> set labeled
          then unidentified Conflict ''candidate_identity_conflict''
          else pick identified)"

definition observe_coordinator ::
    "container list \<Rightarrow> handoff_document \<Rightarrow> updater_result_v2 \<Rightarrow> string \<Rightarrow> string \<Rightarrow>
     identity_observation" where
  "observe_coordinator cs doc r hostname socket_path =
     (let name = lower (strip hostname) in
      if \<not> container_id_ok name then unidentified Conflict ''coordinator_hostname_invalid''
      else
        let own = filter (has_operation (jr_operation_id r)) cs;
            prefixed = filter (\<lambda>c. case jget c ''Id'' of JStr s \<Rightarrow> take (length name) s = name | _ \<Rightarrow> False) own
        in case prefixed of
             [c] \<Rightarrow> if jget (container_labels c) UPDATE_ROLE_LABEL \<noteq> JStr ''updater'' \<or>
                       \<not> valid_coordinator c doc r socket_path
                    then unidentified Conflict ''coordinator_identity_conflict''
                    else matched c
           | _ \<Rightarrow> unidentified (if prefixed \<noteq> [] \<or> own \<noteq> [] then Conflict else Missing)
                    ''coordinator_not_unique'')"

definition summary_ids :: "container list \<Rightarrow> string list" where
  "summary_ids summaries =
     concat (map (\<lambda>s. case jget s ''Id'' of
                        JStr cid \<Rightarrow> if full_container_id cid then [cid] else []
                      | _ \<Rightarrow> []) summaries)"

definition summary_has_operation :: "container list \<Rightarrow> string \<Rightarrow> string \<Rightarrow> bool" where
  "summary_has_operation summaries cid oid =
     (case first_row (\<lambda>s. jget s ''Id'' = JStr cid) summaries of
        None \<Rightarrow> False
      | Some s \<Rightarrow> jget (mapping (jget s ''Labels'')) UPDATE_OPERATION_LABEL = JStr oid)"

definition relevant_ids :: "updater_result_v2 \<Rightarrow> container list \<Rightarrow> string list" where
  "relevant_ids r summaries =
     sort (remdups (filter (\<lambda>cid. cid = jr_source_container_id r \<or>
         Some cid = jr_candidate_container_id r \<or>
         summary_has_operation summaries cid (jr_operation_id r)) (summary_ids summaries)))"

text \<open>Docker's operations, as actions; each may change anything else meanwhile, or fail.\<close>

record 's docker_engine =
  de_list_containers :: "('s, container list) act"
  de_inspect_container :: "string \<Rightarrow> ('s, container) act"
  de_inspect_image :: "string \<Rightarrow> ('s, container option) act"
  de_update_restart_policy :: "string \<Rightarrow> (string \<times> json) list \<Rightarrow> ('s, unit) act"
  de_stop_container :: "string \<Rightarrow> int \<Rightarrow> ('s, unit) act"
  de_wait_container :: "string \<Rightarrow> ('s, int) act"
  de_rename_container :: "string \<Rightarrow> string \<Rightarrow> ('s, unit) act"
  de_create_container :: "string \<Rightarrow> (string \<times> json) list \<Rightarrow> ('s, string) act"
  de_start_container :: "string \<Rightarrow> ('s, unit) act"
  de_remove_container :: "string \<Rightarrow> ('s, unit) act"

definition observation_exn :: "string \<Rightarrow> exn" where
  "observation_exn tag = tagged CObservation tag"

text \<open>\<open>except Exception as exc: raise UpdaterRecoveryObservationError\<close>.\<close>

definition observing :: "string \<Rightarrow> ('s, 'a) act \<Rightarrow> ('s, 'a) act" where
  "observing tag m =
     bindA (tryA m) (\<lambda>r. case r of Inl _ \<Rightarrow> raiseA (observation_exn tag) | Inr x \<Rightarrow> retA x)"

fun inspect_all :: "'s docker_engine \<Rightarrow> string list \<Rightarrow> ('s, container list) act" where
  "inspect_all engine [] = retA []"
| "inspect_all engine (cid # cids) =
     bindA (observing ''inspect'' (de_inspect_container engine cid)) (\<lambda>c.
     bindA (inspect_all engine cids) (\<lambda>cs. retA (c # cs)))"

definition observe ::
    "(string \<Rightarrow> string) \<Rightarrow> 's docker_engine \<Rightarrow> string \<Rightarrow> handoff_document \<Rightarrow> updater_result_v2 \<Rightarrow>
     pending_update_marker option \<Rightarrow> string \<Rightarrow> ('s, docker_observation) act" where
  "observe sha256 engine socket_path doc r marker hostname =
     (if h_operation_id doc \<noteq> jr_operation_id r then raiseA (observation_exn ''operation'')
      else
        bindA (observing ''list'' (de_list_containers engine)) (\<lambda>summaries.
        bindA (inspect_all engine (relevant_ids r summaries)) (\<lambda>cs.
        retA \<lparr>ob_source = observe_source cs doc r,
              ob_candidate = observe_candidate sha256 cs doc r marker,
              ob_coordinator = observe_coordinator cs doc r hostname socket_path\<rparr>)))"

section \<open>The decision\<close>

datatype recovery_action =
    StartNew | ContinueForward | BeginRollback | ContinueRollback | ReconcileCommit
  | CleanupSuccess | AwaitRollbackReconciliation | ManualRecovery

record recovery_decision =
  rd_action :: recovery_action
  rd_automatic :: bool
  rd_reason_code :: string

definition automatic_decision :: "recovery_action \<Rightarrow> string \<Rightarrow> recovery_decision" where
  "automatic_decision a reason = \<lparr>rd_action = a, rd_automatic = True, rd_reason_code = reason\<rparr>"

definition manual_decision :: "string \<Rightarrow> recovery_decision" where
  "manual_decision reason =
     \<lparr>rd_action = ManualRecovery, rd_automatic = False, rd_reason_code = reason\<rparr>"

definition decide_v1 :: "updater_result \<Rightarrow> docker_observation \<Rightarrow> recovery_decision" where
  "decide_v1 r ob =
     (if j1_status r = UsSuccess then automatic_decision CleanupSuccess ''v1_success_cleanup''
      else if j1_status r = UsRolledBack
      then automatic_decision AwaitRollbackReconciliation ''v1_rolled_back_waiting_for_appliance''
      else if j1_status r = UsCommitRequested \<and> io_status (ob_candidate ob) = Matched
      then automatic_decision ReconcileCommit ''v1_commit_compatibility''
      else manual_decision ''v1_state_requires_manual_recovery'')"

definition decide_v2 :: "updater_result_v2 \<Rightarrow> docker_observation \<Rightarrow> recovery_decision" where
  "decide_v2 r ob =
     (if jr_status r = UsFailed then manual_decision ''terminal_failed''
      else if jr_status r = UsRollbackFailed then manual_decision ''terminal_rollback_failed''
      else if jr_status r = UsSuccess then automatic_decision CleanupSuccess ''success_cleanup''
      else if jr_status r = UsRolledBack
      then automatic_decision AwaitRollbackReconciliation ''rolled_back_waiting_for_appliance''
      else if jr_status r = UsCommitRequested
      then (if io_status (ob_candidate ob) \<noteq> Matched
            then manual_decision ''commit_candidate_unresolved''
            else automatic_decision ReconcileCommit ''commit_requires_database_reconciliation'')
      else if io_status (ob_source ob) \<noteq> Matched
      then manual_decision ''source_container_unresolved''
      else if jr_status r = UsRollingBack
      then automatic_decision ContinueRollback ''rollback_checkpoint_recovery''
      else if jr_status r = UsSwitching \<or> jr_status r = UsVerifying
      then automatic_decision BeginRollback ''forward_switch_interrupted''
      else if io_running (ob_source ob) = Some True
      then automatic_decision ContinueForward ''source_still_running''
      else automatic_decision BeginRollback ''source_stopped_before_commit'')"

definition decide_recovery ::
    "(updater_result + updater_result_v2) option \<Rightarrow> docker_observation \<Rightarrow> recovery_decision" where
  "decide_recovery result ob =
     (if io_status (ob_coordinator ob) \<noteq> Matched
      then manual_decision (coalesce (io_reason_code (ob_coordinator ob)) ''coordinator_unresolved'')
      else if io_status (ob_source ob) = Conflict
      then manual_decision (coalesce (io_reason_code (ob_source ob)) ''container_identity_conflict'')
      else if io_status (ob_candidate ob) = Conflict
      then manual_decision (coalesce (io_reason_code (ob_candidate ob)) ''container_identity_conflict'')
      else case result of
             None \<Rightarrow>
               if io_status (ob_source ob) = Matched \<and> io_running (ob_source ob) = Some True
               then automatic_decision StartNew ''new_operation_safe''
               else manual_decision ''source_not_ready_for_new_operation''
           | Some (Inl r) \<Rightarrow> decide_v1 r ob
           | Some (Inr r) \<Rightarrow> decide_v2 r ob)"

end
