(* ===== verification/UpdaterCandidate.thy ===== *)
theory UpdaterCandidate
  imports ContainerIdentity
begin

text \<open>
  The candidate's token and its container (\<open>app/services/updater_candidate_service.py\<close>): the marker
  that both the updater and the candidate read, and the configuration that Docker is asked for.
\<close>

section \<open>Environment\<close>

text \<open>What the token factory gives, and what writing the marker meets.\<close>

record 'p candidate_env =
  ca_token :: "'p update_world \<Rightarrow> string"
  ca_disk :: "'p update_world \<Rightarrow> disk_outcome"

record candidate_preparation =
  cp_marker :: pending_update_marker
  cp_create_config :: "(string \<times> json) list"

definition candidate_exn :: "string \<Rightarrow> exn" where
  "candidate_exn tag = tagged CUpdaterCandidate tag"

section \<open>The marker\<close>

definition marker_for :: "handoff_document \<Rightarrow> string \<Rightarrow> pending_update_marker" where
  "marker_for doc token =
     \<lparr>q_operation_id = h_operation_id doc, q_target_version = h_target_version doc,
      q_target_digest = h_target_digest doc, q_target_revision = h_target_revision doc,
      q_candidate_token = token\<rparr>"

definition marker_of_handoff :: "handoff_document \<Rightarrow> pending_update_marker \<Rightarrow> bool" where
  "marker_of_handoff doc m \<longleftrightarrow> m = marker_for doc (q_candidate_token m)"

text \<open>
  The text that \<open>json.dumps\<close> gives for the marker: its strings hold no character that JSON escapes.
\<close>

definition marker_object :: "pending_update_marker \<Rightarrow> (string \<times> string) list" where
  "marker_object m =
     [(''operation_id'', q_operation_id m), (''target_version'', q_target_version m),
      (''target_digest'', q_target_digest m), (''target_revision'', q_target_revision m),
      (''candidate_token'', q_candidate_token m), (''mode'', ''candidate_validation'')]"

definition quoted :: "string \<Rightarrow> string" where
  "quoted s = CHR 0x22 # s @ [CHR 0x22]"

definition object_text :: "(string \<times> string) list \<Rightarrow> string" where
  "object_text members =
     CHR 0x7B # tl (concat (map (\<lambda>(k, v). CHR '','' # quoted k @ CHR '':'' # quoted v) members)) @ [CHR 0x7D]"

definition marker_content :: "pending_update_marker \<Rightarrow> marker_file" where
  "marker_content m =
     MarkerFile (int (length (object_text (marker_object m))))
       (Some (JObj (map (\<lambda>(k, v). (k, JStr v)) (marker_object m))))"

definition existing_marker ::
    "handoff_document \<Rightarrow> marker_file \<Rightarrow> exn + pending_update_marker option" where
  "existing_marker doc f =
     (case read_pending_marker f of
        None \<Rightarrow> Inr None
      | Some (Inl _) \<Rightarrow> Inl (candidate_exn ''marker'')
      | Some (Inr m) \<Rightarrow>
          if marker_of_handoff doc m then Inr (Some m) else Inl (candidate_exn ''marker mismatch''))"

definition marker_write_exn :: "exn \<Rightarrow> exn" where
  "marker_write_exn e = (if e_class e = COSError then candidate_exn ''marker write'' else e)"

definition write_marker ::
    "'p candidate_env \<Rightarrow> pending_update_marker \<Rightarrow> ('p update_world, unit) act" where
  "write_marker env m w =
     (case uw_pending w of
        MarkerMissing \<Rightarrow>
          (case ca_disk env w of
             DiskFailed e \<Rightarrow> (Inl (marker_write_exn e), w)
           | DiskUnsynced e \<Rightarrow> (Inl (marker_write_exn e), w\<lparr>uw_pending := marker_content m\<rparr>)
           | DiskOk \<Rightarrow> (Inr (), w\<lparr>uw_pending := marker_content m\<rparr>))
      | _ \<Rightarrow> (Inl (candidate_exn ''marker path''), w))"

section \<open>The candidate's configuration\<close>

definition INTERNAL_CANDIDATE_ENVIRONMENT :: "string set" where
  "INTERNAL_CANDIDATE_ENVIRONMENT =
     {''MEDIASYNC_CANDIDATE_TOKEN'', ''MEDIASYNC_IMAGE_REVISION'', ''MEDIASYNC_IMAGE_DIGEST''}"

definition candidate_environment ::
    "handoff_document \<Rightarrow> pending_update_marker \<Rightarrow> string list" where
  "candidate_environment doc m =
     filter (\<lambda>item. takeWhile (\<lambda>c. c \<noteq> CHR ''='') item \<notin> INTERNAL_CANDIDATE_ENVIRONMENT)
       (hc_env (h_candidate doc)) @
     [''MEDIASYNC_CANDIDATE_TOKEN='' @ q_candidate_token m,
      ''MEDIASYNC_IMAGE_REVISION='' @ q_target_revision m,
      ''MEDIASYNC_IMAGE_DIGEST='' @ q_target_digest m]"

definition candidate_labels :: "handoff_document \<Rightarrow> (string \<times> json) list" where
  "candidate_labels doc =
     (UPDATE_OPERATION_LABEL, JStr (h_operation_id doc)) #
     (UPDATE_ROLE_LABEL, JStr ''candidate'') #
     filter (\<lambda>(k, _). k \<notin> {UPDATE_ROLE_LABEL, UPDATE_OPERATION_LABEL})
       (map (\<lambda>(k, v). (k, JStr v)) (hc_labels (h_candidate doc)))"

definition candidate_host_config :: "handoff_candidate \<Rightarrow> (string \<times> json) list" where
  "candidate_host_config c =
     [(''Mounts'', JList (map (\<lambda>m. JObj [(''Type'', JStr (hm_type m)), (''Source'', JStr (hm_source m)),
         (''Target'', JStr (hm_target m)), (''ReadOnly'', JBool (hm_read_only m))]) (hc_mounts c))),
      (''PortBindings'', JObj (hc_port_bindings c)),
      (''RestartPolicy'', JObj (hc_restart_policy c)),
      (''NetworkMode'', JStr (hc_network_mode c)),
      (''Dns'', JList (map JStr (hc_dns c))),
      (''GroupAdd'', JList (map JStr (hc_group_add c))),
      (''ReadonlyRootfs'', JBool (hc_readonly_rootfs c)),
      (''Devices'', JList (map (\<lambda>d. JObj [(''PathOnHost'', JStr (hd_path_on_host d)),
         (''PathInContainer'', JStr (hd_path_in_container d)),
         (''CgroupPermissions'', JStr (hd_cgroup_permissions d))]) (hc_devices c)))]"

definition build_candidate_create_config ::
    "handoff_document \<Rightarrow> pending_update_marker \<Rightarrow> exn + (string \<times> json) list" where
  "build_candidate_create_config doc m =
     (if \<not> marker_of_handoff doc m \<or> \<not> candidate_token_ok (q_candidate_token m)
      then Inl (candidate_exn ''create config'')
      else
        let c = h_candidate doc in
        Inr [(''Image'', JStr (h_target_image doc)),
             (''Env'', JList (map JStr (candidate_environment doc m))),
             (''User'', JStr (hc_user c)),
             (''Labels'', JObj (candidate_labels doc)),
             (''ExposedPorts'', JObj (map (\<lambda>p. (p, JObj [])) (hc_exposed_ports c))),
             (''HostConfig'', JObj (candidate_host_config c)),
             (''NetworkingConfig'', JObj [(''EndpointsConfig'',
                JObj (map (\<lambda>(n, aliases). (n, JObj [(''Aliases'', JList (map JStr aliases))]))
                  (hc_networks c)))])])"

section \<open>Preparing\<close>

definition prepared ::
    "handoff_document \<Rightarrow> pending_update_marker \<Rightarrow> ('p update_world, candidate_preparation) act" where
  "prepared doc m =
     (case build_candidate_create_config doc m of
        Inl e \<Rightarrow> raiseA e
      | Inr config \<Rightarrow> retA \<lparr>cp_marker = m, cp_create_config = config\<rparr>)"

definition prepare ::
    "'p candidate_env \<Rightarrow> handoff_document \<Rightarrow> ('p update_world, candidate_preparation) act" where
  "prepare env doc w =
     (case existing_marker doc (uw_pending w) of
        Inl e \<Rightarrow> (Inl e, w)
      | Inr (Some m) \<Rightarrow> prepared doc m w
      | Inr None \<Rightarrow>
          if \<not> candidate_token_ok (ca_token env w) then (Inl (candidate_exn ''token''), w)
          else
            let m = marker_for doc (ca_token env w) in
            bindA (write_marker env m) (\<lambda>_. prepared doc m) w)"

section \<open>Round trips\<close>

lemma marker_for_of_handoff [simp]: "marker_of_handoff doc (marker_for doc token)"
  by (simp add: marker_of_handoff_def marker_for_def)

lemma marker_fields_of:
  "(\<lambda>x. fst (case x of (k, v) \<Rightarrow> (k, JStr v))) ` set (marker_object m) = marker_fields"
  by (auto simp: marker_object_def marker_fields_def)

lemma marker_object_get:
  "jget (map (\<lambda>(k, v). (k, JStr v)) (marker_object m)) ''operation_id'' = JStr (q_operation_id m)"
  "jget (map (\<lambda>(k, v). (k, JStr v)) (marker_object m)) ''target_version'' = JStr (q_target_version m)"
  "jget (map (\<lambda>(k, v). (k, JStr v)) (marker_object m)) ''target_digest'' = JStr (q_target_digest m)"
  "jget (map (\<lambda>(k, v). (k, JStr v)) (marker_object m)) ''target_revision'' = JStr (q_target_revision m)"
  "jget (map (\<lambda>(k, v). (k, JStr v)) (marker_object m)) ''candidate_token'' = JStr (q_candidate_token m)"
  "jget (map (\<lambda>(k, v). (k, JStr v)) (marker_object m)) ''mode'' = JStr ''candidate_validation''"
  by (simp_all add: marker_object_def jget_def)

definition readable_marker :: "pending_update_marker \<Rightarrow> bool" where
  "readable_marker m \<longleftrightarrow>
     uuid_ok (q_operation_id m) \<and> parse_version (q_target_version m) \<noteq> None \<and>
     digest_ok (q_target_digest m) \<and> revision_ok (q_target_revision m) \<and>
     candidate_token_ok (q_candidate_token m) \<and>
     int (length (object_text (marker_object m))) \<le> MAX_PENDING_MARKER_BYTES"

lemma read_marker_content:
  "readable_marker m \<Longrightarrow> read_pending_marker (marker_content m) = Some (Inr m)"
  by (simp add: readable_marker_def read_pending_marker_def marker_content_def read_marker_fields_def
      marker_fields_of marker_object_get str_if_def)

lemma read_marker_token:
  assumes "read_pending_marker f = Some (Inr m)"
  shows "candidate_token_ok (q_candidate_token m)"
  using assms
  by (auto simp: read_pending_marker_def read_marker_fields_def str_if_def
      split: marker_file.splits if_splits option.splits json.splits)

lemma prepared_existing:
  assumes "marker_of_handoff doc m" and "candidate_token_ok (q_candidate_token m)"
  obtains config where "\<And>w. prepared doc m w = (Inr \<lparr>cp_marker = m, cp_create_config = config\<rparr>, w)"
    and "build_candidate_create_config doc m = Inr config"
  using assms that by (auto simp: prepared_def build_candidate_create_config_def Let_def retA_def)

lemma prepare_existing:
  assumes "read_pending_marker (uw_pending w) = Some (Inr m)" and "marker_of_handoff doc m"
  shows "prepare env doc w = prepared doc m w"
  using assms by (simp add: prepare_def existing_marker_def)

text \<open>What preparing changes: the marker, and that only where there was none.\<close>

lemma prepare_world:
  "snd (prepare env doc w) = w \<or>
   (uw_pending w = MarkerMissing \<and>
    snd (prepare env doc w) = w\<lparr>uw_pending := marker_content (marker_for doc (ca_token env w))\<rparr>)"
  by (auto simp: prepare_def prepared_def write_marker_def bindA_def retA_def raiseA_def Let_def
      split: sum.splits option.splits marker_file.splits disk_outcome.splits)

end
