(* ===== verification/UpdaterForward.thy ===== *)
theory UpdaterForward
  imports UpdaterCandidate
begin

text \<open>
  The forward executor of the updater (\<open>app/services/updater_forward_v2.py\<close>): from the checkpoint
  that the journal shows to the success of the update, one checkpoint at a time.  What the
  constructor is given is a parameter: Docker, the snapshot service, the verifiers, the waiter for
  the commit, and the hook that tests inject faults with.
\<close>

section \<open>Environment\<close>

text \<open>What the hook is told, \<open>before:\<phi>\<close>, \<open>after_effect:\<phi>\<close> and so on.\<close>

datatype fault_event =
    FaultBefore string | FaultAfterEffect string | FaultInitialized
  | FaultBeforeCheckpoint updater_status updater_checkpoint
  | FaultAfterCheckpoint updater_status updater_checkpoint

record 'p updater_env =
  ue_journal :: "'p journal_env"
  ue_candidate :: "'p candidate_env"
  ue_engine :: "'p update_world docker_engine"
  ue_sha256 :: "string \<Rightarrow> string"
  ue_socket_path :: string
  ue_stop_timeout :: int
  ue_hook :: "fault_event \<Rightarrow> ('p update_world, unit) act"
  ue_snapshot_exists :: "string \<Rightarrow> 'p update_world \<Rightarrow> bool"
  ue_snapshot_link :: "string \<Rightarrow> 'p update_world \<Rightarrow> bool"
  ue_snapshot_create :: "string \<Rightarrow> ('p update_world, unit) act"
  ue_snapshot_verify :: "string \<Rightarrow> ('p update_world, unit) act"
  ue_snapshot_restore :: "string \<Rightarrow> ('p update_world, unit) act"
  ue_verify :: "handoff_document \<Rightarrow> candidate_preparation \<Rightarrow> string \<Rightarrow> ('p update_world, unit) act"
  ue_verify_previous :: "handoff_document \<Rightarrow> string \<Rightarrow> ('p update_world, unit) act"
  ue_commit_wait :: "string \<Rightarrow> ('p update_world, unit) act"
  ue_operations_safe :: "'p update_world \<Rightarrow> bool"
  ue_evidence_link :: "string \<Rightarrow> 'p update_world \<Rightarrow> bool"
  ue_unlink :: "'p update_world \<Rightarrow> disk_outcome"

definition machine_exn :: "string \<Rightarrow> exn" where
  "machine_exn tag = tagged CUpdaterStateMachine tag"

definition around ::
    "'p updater_env \<Rightarrow> string \<Rightarrow> ('p update_world, 'a) act \<Rightarrow> ('p update_world, 'a) act" where
  "around env phase m =
     thenA (ue_hook env (FaultBefore phase))
       (bindA m (\<lambda>x. thenA (ue_hook env (FaultAfterEffect phase)) (retA x)))"

text \<open>Reading a file or a directory, as an action that changes nothing.\<close>

definition inspectA :: "('s \<Rightarrow> exn + 'a) \<Rightarrow> ('s, 'a) act" where
  "inspectA f s = (f s, s)"

section \<open>The old container\<close>

definition source_identity ::
    "handoff_document \<Rightarrow> bool \<Rightarrow> container \<Rightarrow> bool" where
  "source_identity doc expected_previous c \<longleftrightarrow>
     mount_matches doc c \<and>
     jget c ''Id'' = JStr (h_current_container_id doc) \<and>
     jget c ''Image'' = JStr (h_source_image_id doc) \<and>
     container_name c =
       (if expected_previous then previous_container_name (h_operation_id doc)
        else hc_name (h_candidate doc))"

definition require_source_identity ::
    "handoff_document \<Rightarrow> bool \<Rightarrow> container \<Rightarrow> ('s, unit) act" where
  "require_source_identity doc expected_previous c =
     guardA (source_identity doc expected_previous c) (machine_exn ''source identity'')"

definition restart_policy :: "container \<Rightarrow> json" where
  "restart_policy c = jget (mapping (jget c ''HostConfig'')) ''RestartPolicy''"

definition restart_fenced :: "container \<Rightarrow> bool" where
  "restart_fenced c \<longleftrightarrow> jget (mapping (restart_policy c)) ''Name'' = JStr ''no''"

definition no_restart :: "(string \<times> json) list" where
  "no_restart = [(''Name'', JStr ''no''), (''MaximumRetryCount'', JInt 0)]"

definition has_state :: "container \<Rightarrow> bool" where
  "has_state c = (case jget c ''State'' of JObj _ \<Rightarrow> True | _ \<Rightarrow> False)"

definition is_running :: "container \<Rightarrow> bool" where
  "is_running c \<longleftrightarrow> jget (mapping (jget c ''State'')) ''Running'' = JBool True"

definition fence_old_restart ::
    "'p updater_env \<Rightarrow> handoff_document \<Rightarrow> ('p update_world, unit) act" where
  "fence_old_restart env doc =
     (let engine = ue_engine env; cid = h_current_container_id doc in
      around env ''old_restart_fenced''
        (bindA (de_inspect_container engine cid) (\<lambda>c.
         thenA (require_source_identity doc False c)
        (thenA (if restart_fenced c then retA () else de_update_restart_policy engine cid no_restart)
        (bindA (de_inspect_container engine cid) (\<lambda>confirmed.
         thenA (require_source_identity doc False confirmed)
           (guardA (restart_fenced confirmed) (machine_exn ''not fenced'')))))))) "

definition stop_old ::
    "'p updater_env \<Rightarrow> handoff_document \<Rightarrow> ('p update_world, unit) act" where
  "stop_old env doc =
     (let engine = ue_engine env; cid = h_current_container_id doc in
      around env ''old_stopped''
        (bindA (de_inspect_container engine cid) (\<lambda>c.
         thenA (require_source_identity doc False c)
        (thenA (guardA (has_state c) (machine_exn ''old state''))
        (thenA (if is_running c
                then thenA (de_stop_container engine cid (ue_stop_timeout env))
                       (thenA (de_wait_container engine cid) (retA ()))
                else retA ())
        (bindA (de_inspect_container engine cid) (\<lambda>confirmed.
         thenA (require_source_identity doc False confirmed)
           (guardA (has_state confirmed \<and> \<not> is_running confirmed)
              (machine_exn ''not stopped'')))))))))"

definition ensure_snapshot ::
    "'p updater_env \<Rightarrow> string \<Rightarrow> ('p update_world, unit) act" where
  "ensure_snapshot env oid =
     around env ''snapshot_verified''
       (bindA (inspectA (\<lambda>w. Inr (ue_snapshot_exists env oid w))) (\<lambda>present.
        thenA (if present then retA () else ue_snapshot_create env oid)
          (ue_snapshot_verify env oid)))"

definition rename_old ::
    "'p updater_env \<Rightarrow> handoff_document \<Rightarrow> ('p update_world, unit) act" where
  "rename_old env doc =
     (let engine = ue_engine env; cid = h_current_container_id doc;
          previous = previous_container_name (h_operation_id doc) in
      around env ''old_renamed''
        (bindA (de_inspect_container engine cid) (\<lambda>c.
         thenA (if container_name c = hc_name (h_candidate doc)
                then thenA (require_source_identity doc False c)
                       (de_rename_container engine cid previous)
                else if container_name c \<noteq> previous then raiseA (machine_exn ''old name'')
                else require_source_identity doc True c)
        (bindA (de_inspect_container engine cid) (\<lambda>confirmed.
         require_source_identity doc True confirmed)))))"

section \<open>The candidate\<close>

definition observe_for ::
    "'p updater_env \<Rightarrow> string \<Rightarrow> handoff_document \<Rightarrow> updater_result_v2 \<Rightarrow> candidate_preparation \<Rightarrow>
     ('p update_world, docker_observation) act" where
  "observe_for env coordinator doc r p =
     observe (ue_sha256 env) (ue_engine env) (ue_socket_path env) doc r (Some (cp_marker p))
       (take 12 coordinator)"

definition all_matched :: "docker_observation \<Rightarrow> bool" where
  "all_matched ob \<longleftrightarrow> io_status (ob_source ob) = Matched \<and>
     io_status (ob_coordinator ob) = Matched \<and> io_status (ob_candidate ob) = Matched"

definition ensure_candidate ::
    "'p updater_env \<Rightarrow> string \<Rightarrow> handoff_document \<Rightarrow> updater_result_v2 \<Rightarrow> candidate_preparation \<Rightarrow>
     ('p update_world, string) act" where
  "ensure_candidate env coordinator doc r p =
     around env ''candidate_created''
       (bindA (observe_for env coordinator doc r p) (\<lambda>first.
        bindA (if io_status (ob_candidate first) = Missing
               then thenA (de_create_container (ue_engine env) (hc_name (h_candidate doc))
                             (cp_create_config p))
                      (observe_for env coordinator doc r p)
               else retA first) (\<lambda>ob.
        case io_container_id (ob_candidate ob) of
          Some cid \<Rightarrow> if all_matched ob then retA cid else raiseA (machine_exn ''created identity'')
        | None \<Rightarrow> raiseA (machine_exn ''created identity''))))"

definition require_candidate_id :: "updater_result_v2 \<Rightarrow> ('s, string) act" where
  "require_candidate_id r =
     (case jr_candidate_container_id r of
        None \<Rightarrow> raiseA (machine_exn ''no candidate id'') | Some cid \<Rightarrow> retA cid)"

definition require_candidate_identity ::
    "'p updater_env \<Rightarrow> string \<Rightarrow> handoff_document \<Rightarrow> updater_result_v2 \<Rightarrow> candidate_preparation \<Rightarrow>
     ('p update_world, string) act" where
  "require_candidate_identity env coordinator doc r p =
     bindA (observe_for env coordinator doc r p) (\<lambda>ob.
     bindA (require_candidate_id r) (\<lambda>expected.
     thenA (guardA (all_matched ob \<and> io_container_id (ob_candidate ob) = Some expected)
              (machine_exn ''candidate identity''))
       (retA expected)))"

definition start_candidate :: "'p updater_env \<Rightarrow> string \<Rightarrow> ('p update_world, unit) act" where
  "start_candidate env cid =
     (let engine = ue_engine env in
      around env ''candidate_started''
        (bindA (de_inspect_container engine cid) (\<lambda>c.
         thenA (guardA (has_state c) (machine_exn ''candidate state''))
        (thenA (if is_running c then retA () else de_start_container engine cid)
        (bindA (de_inspect_container engine cid) (\<lambda>confirmed.
         guardA (is_running confirmed) (machine_exn ''not started'')))))))"

section \<open>The steps\<close>

definition token_hash_of :: "'p updater_env \<Rightarrow> candidate_preparation \<Rightarrow> string" where
  "token_hash_of env p = token_hash (ue_sha256 env) (q_candidate_token (cp_marker p))"

definition forward_checkpoint ::
    "'p updater_env \<Rightarrow> string \<Rightarrow> updater_status \<Rightarrow> updater_checkpoint \<Rightarrow> string option \<Rightarrow>
     string option \<Rightarrow> ('p update_world, updater_result_v2) act" where
  "forward_checkpoint env oid status checkpoint hash candidate =
     thenA (ue_hook env (FaultBeforeCheckpoint status checkpoint))
    (bindA (checkpoint_v2 (ue_journal env) oid status checkpoint hash candidate None None None) (\<lambda>r.
     thenA (ue_hook env (FaultAfterCheckpoint status checkpoint)) (retA r)))"

definition forward_step ::
    "'p updater_env \<Rightarrow> string \<Rightarrow> handoff_document \<Rightarrow> string \<Rightarrow> updater_result_v2 \<Rightarrow>
     ('p update_world, updater_result_v2) act" where
  "forward_step env coordinator doc oid r =
     (let prepared_now = prepare (ue_candidate env) doc;
          record_step = (\<lambda>status checkpoint. forward_checkpoint env oid status checkpoint None None) in
      case jr_checkpoint r of
        Initialized \<Rightarrow>
          thenA (fence_old_restart env doc) (record_step UsSnapshotting OldRestartFenced)
      | OldRestartFenced \<Rightarrow> thenA (stop_old env doc) (record_step UsSnapshotting OldStopped)
      | OldStopped \<Rightarrow>
          bindA (around env ''pending_ready'' prepared_now) (\<lambda>p.
          forward_checkpoint env oid UsSnapshotting PendingReady (Some (token_hash_of env p)) None)
      | PendingReady \<Rightarrow> thenA (ensure_snapshot env oid) (record_step UsSnapshotting SnapshotVerified)
      | SnapshotVerified \<Rightarrow> thenA (rename_old env doc) (record_step UsSwitching OldRenamed)
      | OldRenamed \<Rightarrow>
          bindA prepared_now (\<lambda>p.
          bindA (ensure_candidate env coordinator doc r p) (\<lambda>cid.
          forward_checkpoint env oid UsSwitching CandidateCreated None (Some cid)))
      | CandidateCreated \<Rightarrow>
          bindA prepared_now (\<lambda>p.
          bindA (require_candidate_identity env coordinator doc r p) (\<lambda>cid.
          thenA (start_candidate env cid) (record_step UsSwitching CandidateStarted)))
      | CandidateStarted \<Rightarrow>
          if jr_status r = UsSwitching then record_step UsVerifying CandidateStarted
          else
            bindA prepared_now (\<lambda>p.
            bindA (require_candidate_identity env coordinator doc r p) (\<lambda>cid.
            thenA (around env ''candidate_verified'' (ue_verify env doc p cid))
              (record_step UsVerifying CandidateVerified)))
      | CandidateVerified \<Rightarrow> record_step UsCommitRequested CommitRequested
      | CommitRequested \<Rightarrow>
          thenA (around env ''commit_confirmed'' (ue_commit_wait env oid))
            (record_step UsSuccess CommitRequested)
      | _ \<Rightarrow> raiseA (machine_exn ''forward checkpoint''))"

section \<open>The loop\<close>

text \<open>
  How many steps a result is away from success, at most.  A step that returns, returns the result
  that it has recorded, whatever the services did meanwhile; so the loop ends.
\<close>

definition forward_rank :: "updater_result_v2 \<Rightarrow> nat" where
  "forward_rank r =
     (if is_forward (jr_checkpoint r)
      then 4 * (length FORWARD_CHECKPOINTS - index_of FORWARD_CHECKPOINTS (jr_checkpoint r)) +
           (if jr_status r = UsSwitching then 1 else 0) + (if jr_status r = UsSuccess then 0 else 1)
      else 0)"

lemma checkpoint_returns:
  assumes "checkpoint_v2 env oid status checkpoint hash candidate rb code msg w = (Inr r, w')"
  shows "jr_status r = status" and "jr_checkpoint r = checkpoint"
  using assms
  by (auto simp: checkpoint_v2_def bindA_def retA_def checkpoint_record_def Let_def
      split: prod.splits sum.splits if_splits)

lemma forward_checkpoint_returns:
  assumes "forward_checkpoint env oid status checkpoint hash candidate w = (Inr r, w')"
  shows "jr_status r = status" and "jr_checkpoint r = checkpoint"
proof -
  obtain w1 w2 where
    "checkpoint_v2 (ue_journal env) oid status checkpoint hash candidate None None None w1 = (Inr r, w2)"
    using assms unfolding forward_checkpoint_def bindA_eq_Inr retA_run by blast
  then show "jr_status r = status" and "jr_checkpoint r = checkpoint"
    by (fact checkpoint_returns)+
qed

lemma forward_checkpoint_shows:
  "forward_checkpoint env oid status checkpoint hash candidate w = (Inr r, w') \<Longrightarrow>
   jr_status r = status \<and> jr_checkpoint r = checkpoint"
  using forward_checkpoint_returns by blast

lemmas forward_ranks =
  forward_rank_def FORWARD_CHECKPOINTS_def is_forward_def index_of_def

lemma forward_step_rank:
  assumes "forward_step env coordinator doc oid r w = (Inr r', w')" and "jr_status r \<noteq> UsSuccess"
  shows "forward_rank r' < forward_rank r"
  using assms
  by (cases "jr_checkpoint r")
    (auto simp: forward_step_def bindA_eq_Inr raiseA_run Let_def forward_ranks
      dest!: forward_checkpoint_shows split: if_splits)

lemma bindA_cong [fundef_cong]:
  assumes "m s = m' s'" and "s = s'"
    and "\<And>x s1. m' s' = (Inr x, s1) \<Longrightarrow> f x s1 = f' x s1"
  shows "bindA m f s = bindA m' f' s'"
  using assms by (auto simp: bindA_def split: prod.splits sum.splits)

function forward_loop ::
    "'p updater_env \<Rightarrow> string \<Rightarrow> handoff_document \<Rightarrow> string \<Rightarrow> updater_result_v2 \<Rightarrow>
     ('p update_world, updater_result_v2) act" where
  "forward_loop env coordinator doc oid r w =
     (if jr_status r = UsSuccess then (Inr r, w)
      else bindA (forward_step env coordinator doc oid r)
             (forward_loop env coordinator doc oid) w)"
  by pat_completeness auto

termination forward_loop
  by (relation "measure (\<lambda>(env, coordinator, doc, oid, r, w). forward_rank r)")
    (auto dest: forward_step_rank)

declare forward_loop.simps [simp del]

section \<open>Executing\<close>

definition updater_constructed :: "'p updater_env \<Rightarrow> string \<Rightarrow> bool" where
  "updater_constructed env coordinator \<longleftrightarrow>
     full_container_id coordinator \<and> 1 \<le> ue_stop_timeout env \<and> ue_stop_timeout env \<le> 600"

definition handoff_of :: "string \<Rightarrow> ('p update_world, handoff_document) act" where
  "handoff_of oid = inspectA (\<lambda>w. read_handoff oid (uw_handoff w oid))"

definition load_or_start ::
    "'p updater_env \<Rightarrow> string \<Rightarrow> handoff_document \<Rightarrow> ('p update_world, updater_result_v2) act" where
  "load_or_start env coordinator doc w =
     (if uw_journal w (h_operation_id doc) = JournalMissing
      then thenA (ue_hook env (FaultBefore ''initialized''))
             (bindA (start_v2 (ue_journal env) doc coordinator) (\<lambda>r.
              thenA (ue_hook env FaultInitialized) (retA r))) w
      else bindA (read_journal (h_operation_id doc)) (\<lambda>result.
             case result of Inl _ \<Rightarrow> raiseA (machine_exn ''v1 result'') | Inr r \<Rightarrow> retA r) w)"

definition resumable :: "string \<Rightarrow> updater_result_v2 \<Rightarrow> bool" where
  "resumable coordinator r \<longleftrightarrow>
     jr_coordinator_container_id r = coordinator \<and> \<not> jr_rollback_started r \<and>
     jr_status r \<notin> {UsRollingBack, UsRolledBack, UsFailed, UsRollbackFailed}"

definition cleanup_old ::
    "'p updater_env \<Rightarrow> handoff_document \<Rightarrow> updater_result_v2 \<Rightarrow> ('p update_world, unit) act" where
  "cleanup_old env doc r =
     (let engine = ue_engine env; cid = h_current_container_id doc in
      around env ''old_removed''
        (bindA (de_list_containers engine) (\<lambda>summaries.
         if list_ex (\<lambda>s. jget s ''Id'' = JStr cid) summaries
         then bindA (de_inspect_container engine cid) (\<lambda>c.
              thenA (guardA (source_identity_matches c doc r) (machine_exn ''cleanup identity''))
                (de_remove_container engine cid))
         else retA ())))"

definition forward_execute ::
    "'p updater_env \<Rightarrow> string \<Rightarrow> string \<Rightarrow> ('p update_world, string) act" where
  "forward_execute env coordinator oid =
     thenA (guardA (updater_constructed env coordinator) (tagged CValueError ''updater''))
    (bindA (handoff_of oid) (\<lambda>doc.
     bindA (load_or_start env coordinator doc) (\<lambda>r0.
     thenA (guardA (resumable coordinator r0) (machine_exn ''not resumable''))
    (bindA (forward_loop env coordinator doc oid r0) (\<lambda>r.
     bindA (require_candidate_id r) (\<lambda>cid.
     thenA (cleanup_old env doc r) (retA cid)))))))"

end
