(* ===== verification/UpdaterRollback.thy ===== *)
theory UpdaterRollback
  imports UpdaterForward
begin

text \<open>
  The rollback executor of the updater (\<open>app/services/updater_rollback_v2.py\<close>): from the rollback
  checkpoint that the journal shows back to the old container, running and healthy.
\<close>

section \<open>Entering\<close>

text \<open>\<open>FORWARD_FAILURE_PHASES\<close>: a tag for the phase that the public message names.\<close>

fun FORWARD_FAILURE_PHASES :: "updater_checkpoint \<Rightarrow> string option" where
  "FORWARD_FAILURE_PHASES Initialized = Some ''fencing the old container''"
| "FORWARD_FAILURE_PHASES OldRestartFenced = Some ''stopping the old container''"
| "FORWARD_FAILURE_PHASES OldStopped = Some ''preparing the candidate''"
| "FORWARD_FAILURE_PHASES PendingReady = Some ''creating the snapshot''"
| "FORWARD_FAILURE_PHASES SnapshotVerified = Some ''renaming the old container''"
| "FORWARD_FAILURE_PHASES OldRenamed = Some ''creating the new container''"
| "FORWARD_FAILURE_PHASES CandidateCreated = Some ''starting the new container''"
| "FORWARD_FAILURE_PHASES CandidateStarted = Some ''verifying the new container''"
| "FORWARD_FAILURE_PHASES CandidateVerified = Some ''committing the update''"
| "FORWARD_FAILURE_PHASES CommitRequested = Some ''waiting for the commit''"
| "FORWARD_FAILURE_PHASES _ = None"

definition rollback_message :: "string \<Rightarrow> string" where
  "rollback_message phase = ''Update not completed while '' @ phase @ ''; restored''"

text \<open>\<open>_checkpoint\<close>: a rollback that has begun keeps the error that it began with.\<close>

definition inherited_error ::
    "updater_result + updater_result_v2 \<Rightarrow> string option \<times> string option \<Rightarrow>
     string option \<times> string option" where
  "inherited_error current error =
     (case current of
        Inr r \<Rightarrow> if jr_rollback_started r \<and> error = (None, None)
                 then (jr_error_code r, jr_public_error_message r) else error
      | Inl _ \<Rightarrow> error)"

definition rollback_checkpoint ::
    "'p updater_env \<Rightarrow> string \<Rightarrow> updater_status \<Rightarrow> updater_checkpoint \<Rightarrow> string option \<Rightarrow>
     string option \<Rightarrow> bool option \<Rightarrow> string option \<times> string option \<Rightarrow>
     ('p update_world, updater_result_v2) act" where
  "rollback_checkpoint env oid status checkpoint hash candidate rollback_started error =
     thenA (ue_hook env (FaultBeforeCheckpoint status checkpoint))
    (bindA (read_journal oid) (\<lambda>current.
     bindA (checkpoint_v2 (ue_journal env) oid status checkpoint hash candidate rollback_started
              (fst (inherited_error current error)) (snd (inherited_error current error))) (\<lambda>r.
     thenA (ue_hook env (FaultAfterCheckpoint status checkpoint)) (retA r))))"

definition readable_result ::
    "string \<Rightarrow> string \<Rightarrow> ('p update_world, updater_result_v2) act" where
  "readable_result coordinator oid =
     bindA (read_journal oid) (\<lambda>result. case result of
       Inl _ \<Rightarrow> raiseA (machine_exn ''v1 result'')
     | Inr r \<Rightarrow>
         if jr_coordinator_container_id r \<noteq> coordinator then raiseA (machine_exn ''takeover'')
         else if jr_status r \<in> {UsCommitRequested, UsSuccess} then raiseA (machine_exn ''committed'')
         else if jr_status r \<in> {UsFailed, UsRollbackFailed} then raiseA (machine_exn ''ended'')
         else retA r)"

text \<open>The identities that a rollback may start from.\<close>

definition rollback_may_start :: "docker_observation \<Rightarrow> updater_result_v2 \<Rightarrow> bool" where
  "rollback_may_start ob r \<longleftrightarrow>
     io_status (ob_source ob) = Matched \<and> io_running (ob_source ob) = Some False \<and>
     io_status (ob_coordinator ob) = Matched \<and>
     \<not> (io_status (ob_candidate ob) = Conflict \<and> jr_candidate_container_id r = None)"

definition enter_or_resume ::
    "'p updater_env \<Rightarrow> string \<Rightarrow> handoff_document \<Rightarrow> updater_result_v2 \<Rightarrow>
     ('p update_world, updater_result_v2 \<times> candidate_preparation) act" where
  "enter_or_resume env coordinator doc r =
     thenA (if jr_status r \<noteq> UsRollingBack then ue_hook env (FaultBefore ''rollback_started'')
            else retA ())
    (bindA (prepare (ue_candidate env) doc) (\<lambda>p.
     thenA (guardA (jr_candidate_token_hash r \<in> {None, Some (token_hash_of env p)})
              (machine_exn ''rollback token''))
    (if jr_status r = UsRollingBack then retA (r, p)
     else
       thenA (guardA (jr_status r \<in> {UsSnapshotting, UsSwitching, UsVerifying})
                (machine_exn ''rollback status''))
      (bindA (observe_for env coordinator doc r p) (\<lambda>ob.
       thenA (guardA (rollback_may_start ob r) (machine_exn ''rollback identities''))
      (case FORWARD_FAILURE_PHASES (jr_checkpoint r) of
         None \<Rightarrow> raiseA (tagged COther ''KeyError'')
       | Some phase \<Rightarrow>
           thenA (ue_hook env (FaultAfterEffect ''rollback_started''))
          (bindA (rollback_checkpoint env (h_operation_id doc) UsRollingBack RollbackStarted
                    (Some (token_hash_of env p))
                    (if jr_candidate_container_id r \<noteq> None then jr_candidate_container_id r
                     else io_container_id (ob_candidate ob))
                    (Some True)
                    (Some ''update_forward_incomplete'', Some (rollback_message phase))) (\<lambda>r'.
           retA (r', p)))))))))"

section \<open>The effects\<close>

definition safe_observation :: "docker_observation \<Rightarrow> bool" where
  "safe_observation ob \<longleftrightarrow> io_status (ob_source ob) = Matched \<and>
     io_status (ob_coordinator ob) = Matched \<and> io_status (ob_candidate ob) \<noteq> Conflict"

definition candidate_runs :: "docker_observation \<Rightarrow> bool" where
  "candidate_runs ob \<longleftrightarrow>
     io_status (ob_candidate ob) = Matched \<and> io_running (ob_candidate ob) = Some True"

definition observe_safe ::
    "'p updater_env \<Rightarrow> string \<Rightarrow> handoff_document \<Rightarrow> updater_result_v2 \<Rightarrow> candidate_preparation \<Rightarrow>
     ('p update_world, docker_observation) act" where
  "observe_safe env coordinator doc r p =
     bindA (observe_for env coordinator doc r p) (\<lambda>ob.
     thenA (guardA (safe_observation ob) (machine_exn ''rollback observation'')) (retA ob))"

definition observed_candidate_id :: "docker_observation \<Rightarrow> ('s, string) act" where
  "observed_candidate_id ob =
     (case io_container_id (ob_candidate ob) of
        None \<Rightarrow> raiseA (machine_exn ''no candidate id'') | Some cid \<Rightarrow> retA cid)"

definition stop_candidate ::
    "'p updater_env \<Rightarrow> string \<Rightarrow> handoff_document \<Rightarrow> updater_result_v2 \<Rightarrow> candidate_preparation \<Rightarrow>
     ('p update_world, unit) act" where
  "stop_candidate env coordinator doc r p =
     around env ''candidate_stopped''
       (bindA (observe_safe env coordinator doc r p) (\<lambda>ob.
        thenA (if candidate_runs ob
               then bindA (observed_candidate_id ob) (\<lambda>cid.
                    thenA (de_stop_container (ue_engine env) cid (ue_stop_timeout env))
                      (thenA (de_wait_container (ue_engine env) cid) (retA ())))
               else retA ())
       (bindA (observe_safe env coordinator doc r p) (\<lambda>confirmed.
        guardA (\<not> candidate_runs confirmed) (machine_exn ''candidate not stopped'')))))"

definition remove_candidate ::
    "'p updater_env \<Rightarrow> string \<Rightarrow> handoff_document \<Rightarrow> updater_result_v2 \<Rightarrow> candidate_preparation \<Rightarrow>
     ('p update_world, unit) act" where
  "remove_candidate env coordinator doc r p =
     around env ''candidate_removed''
       (bindA (observe_safe env coordinator doc r p) (\<lambda>ob.
        thenA (if io_status (ob_candidate ob) = Matched
               then thenA (guardA (\<not> candidate_runs ob) (machine_exn ''candidate runs''))
                     (bindA (observed_candidate_id ob) (de_remove_container (ue_engine env)))
               else retA ())
       (bindA (observe_safe env coordinator doc r p) (\<lambda>confirmed.
        guardA (io_status (ob_candidate confirmed) = Missing)
          (machine_exn ''candidate not removed'')))))"

definition restore_snapshot ::
    "'p updater_env \<Rightarrow> string \<Rightarrow> ('p update_world, unit) act" where
  "restore_snapshot env oid =
     around env ''snapshot_restored''
       (bindA (inspectA (\<lambda>w. Inr (ue_snapshot_exists env oid w \<or> ue_snapshot_link env oid w))) (\<lambda>present.
        if present
        then thenA (ue_snapshot_verify env oid)
               (thenA (ue_snapshot_restore env oid) (ue_snapshot_verify env oid))
        else retA ()))"

definition unlink_evidence :: "'p updater_env \<Rightarrow> string \<Rightarrow> ('p update_world, unit) act" where
  "unlink_evidence env oid w =
     (let w' = w\<lparr>uw_evidence := (uw_evidence w)(oid := EvidenceMissing)\<rparr> in
      case ue_unlink env w of
        DiskOk \<Rightarrow> (Inr (), w') | DiskFailed e \<Rightarrow> (Inl e, w) | DiskUnsynced e \<Rightarrow> (Inl e, w'))"

definition remove_candidate_evidence ::
    "'p updater_env \<Rightarrow> string \<Rightarrow> ('p update_world, unit) act" where
  "remove_candidate_evidence env oid =
     around env ''candidate_evidence_removed''
       (thenA (inspectA (\<lambda>w. require (ue_operations_safe env w) (machine_exn ''operations'')))
       (thenA (inspectA (\<lambda>w. require (\<not> ue_evidence_link env oid w) (machine_exn ''evidence link'')))
          (unlink_evidence env oid)))"

definition require_source_matches ::
    "handoff_document \<Rightarrow> updater_result_v2 \<Rightarrow> container \<Rightarrow> ('s, unit) act" where
  "require_source_matches doc r c =
     guardA (source_identity_matches c doc r) (machine_exn ''rollback source'')"

definition restore_old_name ::
    "'p updater_env \<Rightarrow> handoff_document \<Rightarrow> updater_result_v2 \<Rightarrow> ('p update_world, unit) act" where
  "restore_old_name env doc r =
     (let engine = ue_engine env; cid = h_current_container_id doc; name = hc_name (h_candidate doc) in
      around env ''old_name_restored''
        (bindA (de_inspect_container engine cid) (\<lambda>c.
         thenA (require_source_matches doc r c)
        (thenA (if container_name c = previous_container_name (h_operation_id doc)
                then de_rename_container engine cid name
                else guardA (container_name c = name) (machine_exn ''old name''))
        (bindA (de_inspect_container engine cid) (\<lambda>confirmed.
         guardA (container_name confirmed = name) (machine_exn ''name not restored'')))))))"

text \<open>Equality of a policy of plain values: the same members, in any order.\<close>

definition policy_is :: "(string \<times> json) list \<Rightarrow> container \<Rightarrow> bool" where
  "policy_is policy c = (case restart_policy c of JObj m \<Rightarrow> set m = set policy | _ \<Rightarrow> False)"

definition restore_old_policy ::
    "'p updater_env \<Rightarrow> handoff_document \<Rightarrow> updater_result_v2 \<Rightarrow> ('p update_world, unit) act" where
  "restore_old_policy env doc r =
     (let engine = ue_engine env; cid = h_current_container_id doc;
          policy = hc_restart_policy (h_candidate doc) in
      around env ''old_policy_restored''
        (bindA (de_inspect_container engine cid) (\<lambda>c.
         thenA (require_source_matches doc r c)
        (thenA (if policy_is policy c then retA ()
                else de_update_restart_policy engine cid policy)
        (bindA (de_inspect_container engine cid) (\<lambda>confirmed.
         guardA (policy_is policy confirmed) (machine_exn ''policy not restored'')))))))"

definition start_old ::
    "'p updater_env \<Rightarrow> handoff_document \<Rightarrow> updater_result_v2 \<Rightarrow> ('p update_world, unit) act" where
  "start_old env doc r =
     (let engine = ue_engine env; cid = h_current_container_id doc in
      around env ''old_started''
        (bindA (de_inspect_container engine cid) (\<lambda>c.
         thenA (require_source_matches doc r c)
        (thenA (guardA (has_state c) (machine_exn ''old state''))
        (thenA (if is_running c then retA () else de_start_container engine cid)
        (bindA (de_inspect_container engine cid) (\<lambda>confirmed.
         guardA (is_running confirmed) (machine_exn ''old not started''))))))))"

section \<open>The steps\<close>

definition rollback_step ::
    "'p updater_env \<Rightarrow> string \<Rightarrow> handoff_document \<Rightarrow> string \<Rightarrow> candidate_preparation \<Rightarrow>
     updater_result_v2 \<Rightarrow> ('p update_world, updater_result_v2) act" where
  "rollback_step env coordinator doc oid p r =
     (let record_step = (\<lambda>checkpoint.
            rollback_checkpoint env oid UsRollingBack checkpoint None None None (None, None)) in
      case jr_checkpoint r of
        RollbackStarted \<Rightarrow>
          thenA (stop_candidate env coordinator doc r p) (record_step CandidateStopped)
      | CandidateStopped \<Rightarrow>
          thenA (remove_candidate env coordinator doc r p) (record_step CandidateRemoved)
      | CandidateRemoved \<Rightarrow> thenA (restore_snapshot env oid) (record_step SnapshotRestored)
      | SnapshotRestored \<Rightarrow>
          thenA (remove_candidate_evidence env oid) (record_step CandidateEvidenceRemoved)
      | CandidateEvidenceRemoved \<Rightarrow> thenA (restore_old_name env doc r) (record_step OldNameRestored)
      | OldNameRestored \<Rightarrow> thenA (restore_old_policy env doc r) (record_step OldPolicyRestored)
      | OldPolicyRestored \<Rightarrow> thenA (start_old env doc r) (record_step OldStarted)
      | OldStarted \<Rightarrow>
          thenA (around env ''old_verified''
                   (ue_verify_previous env doc (h_current_container_id doc)))
            (record_step OldVerified)
      | OldVerified \<Rightarrow>
          thenA (around env ''rollback_published'' (retA ())) (record_step RollbackPublished)
      | RollbackPublished \<Rightarrow>
          rollback_checkpoint env oid UsRolledBack RollbackPublished None None None (None, None)
      | _ \<Rightarrow> raiseA (machine_exn ''rollback checkpoint''))"

section \<open>The loop\<close>

definition rollback_rank :: "updater_result_v2 \<Rightarrow> nat" where
  "rollback_rank r =
     (if jr_checkpoint r \<in> set ROLLBACK_CHECKPOINTS
      then 2 * (length ROLLBACK_CHECKPOINTS - index_of ROLLBACK_CHECKPOINTS (jr_checkpoint r)) +
           (if jr_status r = UsRolledBack then 0 else 1)
      else 0)"

lemmas rollback_ranks = rollback_rank_def ROLLBACK_CHECKPOINTS_def index_of_def

lemma rollback_checkpoint_shows:
  assumes "rollback_checkpoint env oid status checkpoint hash candidate rb error w = (Inr r, w')"
  shows "jr_status r = status \<and> jr_checkpoint r = checkpoint"
proof -
  obtain current w1 w2 where
    "checkpoint_v2 (ue_journal env) oid status checkpoint hash candidate rb
       (fst (inherited_error current error)) (snd (inherited_error current error)) w1 = (Inr r, w2)"
    using assms unfolding rollback_checkpoint_def bindA_eq_Inr retA_run by blast
  then show ?thesis by (auto dest: checkpoint_returns)
qed

lemma rollback_step_rank:
  assumes "rollback_step env coordinator doc oid p r w = (Inr r', w')"
    and "jr_status r \<noteq> UsRolledBack"
  shows "rollback_rank r' < rollback_rank r"
  using assms
  by (cases "jr_checkpoint r")
    (auto simp: rollback_step_def bindA_eq_Inr raiseA_run Let_def rollback_ranks
      dest!: rollback_checkpoint_shows split: if_splits)

function rollback_loop ::
    "'p updater_env \<Rightarrow> string \<Rightarrow> handoff_document \<Rightarrow> string \<Rightarrow> candidate_preparation \<Rightarrow>
     updater_result_v2 \<Rightarrow> ('p update_world, updater_result_v2) act" where
  "rollback_loop env coordinator doc oid p r w =
     (if jr_status r = UsRolledBack then (Inr r, w)
      else bindA (rollback_step env coordinator doc oid p r)
             (rollback_loop env coordinator doc oid p) w)"
  by pat_completeness auto

termination rollback_loop
  by (relation "measure (\<lambda>(env, coordinator, doc, oid, p, r, w). rollback_rank r)")
    (auto dest: rollback_step_rank)

declare rollback_loop.simps [simp del]

section \<open>Executing\<close>

definition record_rollback_failed ::
    "'p updater_env \<Rightarrow> string \<Rightarrow> ('p update_world, unit) act" where
  "record_rollback_failed env oid =
     thenA (tryA (bindA (read_journal oid) (\<lambda>current.
       case current of
         Inl _ \<Rightarrow> retA ()
       | Inr r \<Rightarrow>
           if jr_status r \<noteq> UsRollingBack then retA ()
           else thenA (checkpoint_v2 (ue_journal env) oid UsRollbackFailed (jr_checkpoint r) None None
                         None (Some ''automatic_rollback_failed'') (Some ''manual recovery''))
                  (retA ()))))
       (retA ())"

definition roll_back ::
    "'p updater_env \<Rightarrow> string \<Rightarrow> handoff_document \<Rightarrow> string \<Rightarrow> updater_result_v2 \<Rightarrow>
     ('p update_world, unit) act" where
  "roll_back env coordinator doc oid r0 =
     bindA (tryA (bindA (enter_or_resume env coordinator doc r0) (\<lambda>(r, p).
                  rollback_loop env coordinator doc oid p r))) (\<lambda>outcome.
     case outcome of
       Inr _ \<Rightarrow> retA ()
     | Inl e \<Rightarrow>
         if e_class e = CUpdaterStateMachine
         then thenA (record_rollback_failed env oid) (raiseA e)
         else raiseA (machine_exn ''rollback interrupted''))"

definition rollback_execute ::
    "'p updater_env \<Rightarrow> string \<Rightarrow> string \<Rightarrow> ('p update_world, unit) act" where
  "rollback_execute env coordinator oid =
     thenA (guardA (updater_constructed env coordinator) (tagged CValueError ''updater''))
    (bindA (handoff_of oid) (\<lambda>doc.
     bindA (readable_result coordinator oid) (\<lambda>r.
     if jr_status r = UsRolledBack then retA () else roll_back env coordinator doc oid r)))"

end
