(* ===== verification/UpdaterCoordinator.thy ===== *)
theory UpdaterCoordinator
  imports UpdaterRollback
begin

text \<open>
  The coordinator of the updater (\<open>app/services/updater_coordinator_service.py\<close>) and the main loop of
  its process (\<open>app/updater/__main__.py\<close>): under a lock, it finds its own container, reads the
  journal, and continues the update, rolls it back, ends, or leaves it to a person.
\<close>

section \<open>Environment\<close>

record 'p coordinator_env =
  co_updater :: "'p updater_env"
  co_hostname :: string
  co_operation_id :: string
  co_acquire :: "('p update_world, unit) act"
  co_release :: "('p update_world, unit) act"
  co_sleep :: "'p update_world \<Rightarrow> 'p update_world"

datatype coordinator_outcome = Completed | WaitingForLock | WaitingForDisarm | NeedsManualRecovery

section \<open>Its own container\<close>

definition coordinator_identity_matches ::
    "container \<Rightarrow> handoff_document \<Rightarrow> string \<Rightarrow> bool" where
  "coordinator_identity_matches c doc socket_path \<longleftrightarrow>
     (let host = mapping (jget c ''HostConfig'') in
      jget (container_labels c) UPDATE_ROLE_LABEL = JStr ''updater'' \<and>
      jget (container_labels c) UPDATE_OPERATION_LABEL = JStr (h_operation_id doc) \<and>
      container_environment c ''MEDIASYNC_UPDATE_OPERATION_ID'' = Some (h_operation_id doc) \<and>
      jget (container_config c) ''Cmd'' = UPDATER_COMMAND \<and>
      jget (container_config c) ''Image'' = JStr (h_target_image doc) \<and>
      jget host ''NetworkMode'' = JStr ''none'' \<and> jget host ''ReadonlyRootfs'' = JBool True \<and>
      updater_isolation_matches host \<and>
      mount_targets (jget c ''Mounts'') = {''/data'', socket_path} \<and>
      (case (data_mount doc,
             first_row (\<lambda>m. jget m ''Destination'' = JStr ''/data'') (objects (jget c ''Mounts''))) of
         (Some expected, Some m) \<Rightarrow>
           jget m ''Type'' = JStr (hm_type expected) \<and>
           mount_source m (hm_type expected) = JStr (hm_source expected) \<and>
           jget m ''RW'' = JBool True
       | _ \<Rightarrow> False))"

text \<open>The identifiers of the updater containers of an operation, in the order of the summaries.\<close>

definition updater_ids :: "string \<Rightarrow> container list \<Rightarrow> string list" where
  "updater_ids oid summaries =
     concat (map (\<lambda>s. case jget s ''Id'' of
         JStr cid \<Rightarrow>
           if full_container_id cid \<and>
              jget (mapping (jget s ''Labels'')) UPDATE_ROLE_LABEL = JStr ''updater'' \<and>
              jget (mapping (jget s ''Labels'')) UPDATE_OPERATION_LABEL = JStr oid
           then [cid] else []
       | _ \<Rightarrow> []) summaries)"

definition identify_current_coordinator ::
    "'p coordinator_env \<Rightarrow> handoff_document \<Rightarrow> string \<Rightarrow> ('p update_world, string) act" where
  "identify_current_coordinator env doc hostname =
     (let engine = ue_engine (co_updater env) in
      bindA (de_list_containers engine) (\<lambda>summaries.
      case filter (\<lambda>cid. take (length hostname) cid = hostname)
             (updater_ids (h_operation_id doc) summaries) of
        [cid] \<Rightarrow>
          bindA (de_inspect_container engine cid) (\<lambda>c.
          thenA (guardA (coordinator_identity_matches c doc (ue_socket_path (co_updater env)))
                   (machine_exn ''updater identity''))
            (retA cid))
      | _ \<Rightarrow> raiseA (machine_exn ''updater not unique'')))"

section \<open>Ending\<close>

text \<open>The restart policy is off and stays off: \<open>policy.get('MaximumRetryCount', 0) == 0\<close>.\<close>

definition restart_disarmed :: "container \<Rightarrow> bool" where
  "restart_disarmed c \<longleftrightarrow>
     (let policy = mapping (restart_policy c) in
      jget policy ''Name'' = JStr ''no'' \<and>
      (case map_of policy ''MaximumRetryCount'' of
         None \<Rightarrow> True | Some v \<Rightarrow> v \<in> {JInt 0, JBool False}))"

definition disarm :: "'p coordinator_env \<Rightarrow> string \<Rightarrow> ('p update_world, bool) act" where
  "disarm env coordinator =
     (let engine = ue_engine (co_updater env) in
      bindA (tryA (thenA (de_update_restart_policy engine coordinator no_restart)
                     (de_inspect_container engine coordinator))) (\<lambda>r.
      case r of Inl _ \<Rightarrow> retA False | Inr c \<Rightarrow> retA (restart_disarmed c)))"

definition finish_coordination ::
    "'p coordinator_env \<Rightarrow> string \<Rightarrow> ('p update_world, coordinator_outcome) act" where
  "finish_coordination env coordinator =
     bindA (disarm env coordinator) (\<lambda>ok. retA (if ok then Completed else WaitingForDisarm))"

definition manual :: "'p coordinator_env \<Rightarrow> string \<Rightarrow> ('p update_world, coordinator_outcome) act" where
  "manual env coordinator =
     bindA (disarm env coordinator) (\<lambda>ok. retA (if ok then NeedsManualRecovery else WaitingForDisarm))"

section \<open>Recovering\<close>

definition mark_recovery_exhausted ::
    "'p coordinator_env \<Rightarrow> handoff_document \<Rightarrow> updater_result_v2 \<Rightarrow> ('p update_world, unit) act" where
  "mark_recovery_exhausted env doc r =
     (let up = co_updater env; journal = ue_journal up; oid = co_operation_id env in
      if jr_status r = UsCommitRequested then retA ()
      else thenA (tryA
        (bindA (if jr_status r = UsRollingBack then retA r
                else bindA (prepare (ue_candidate up) doc) (\<lambda>p.
                     checkpoint_v2 journal oid UsRollingBack RollbackStarted
                       (Some (token_hash_of up p)) (jr_candidate_container_id r) (Some True)
                       None None)) (\<lambda>r'.
         checkpoint_v2 journal oid UsRollbackFailed (jr_checkpoint r') None None None
           (Some ''recovery_generation_exhausted'') (Some ''recoveries exhausted''))))
        (retA ()))"

definition read_optional_result ::
    "string \<Rightarrow> ('p update_world, (updater_result + updater_result_v2) option) act" where
  "read_optional_result oid w =
     (if uw_journal w oid = JournalMissing then (Inr None, w)
      else bindA (read_journal oid) (\<lambda>r. retA (Some r)) w)"

text \<open>Taking the update over: the result to go on with, or \<open>None\<close> when no recovery is left.\<close>

definition take_over ::
    "'p coordinator_env \<Rightarrow> string \<Rightarrow> handoff_document \<Rightarrow> updater_result_v2 \<Rightarrow>
     ('p update_world, updater_result_v2 option) act" where
  "take_over env coordinator doc r =
     (if jr_coordinator_container_id r = coordinator then retA (Some r)
      else
        bindA (tryA (takeover_v2 (ue_journal (co_updater env)) (co_operation_id env) coordinator))
          (\<lambda>taken.
        case taken of
          Inr r' \<Rightarrow> retA (Some r')
        | Inl e \<Rightarrow>
            if e_class e \<noteq> CUpdateSnapshot \<or> jr_recovery_generation r < MAX_RECOVERY_GENERATION
            then raiseA e
            else thenA (mark_recovery_exhausted env doc r) (retA None)))"

definition observe_recovery ::
    "'p coordinator_env \<Rightarrow> handoff_document \<Rightarrow> updater_result_v2 \<Rightarrow> pending_update_marker option \<Rightarrow>
     string \<Rightarrow> ('p update_world, docker_observation) act" where
  "observe_recovery env doc r marker hostname =
     (let up = co_updater env in
      observe (ue_sha256 up) (ue_engine up) (ue_socket_path up) doc r marker hostname)"

definition run_forward ::
    "'p coordinator_env \<Rightarrow> string \<Rightarrow> ('p update_world, coordinator_outcome) act" where
  "run_forward env coordinator =
     thenA (forward_execute (co_updater env) coordinator (co_operation_id env))
       (finish_coordination env coordinator)"

definition run_rollback ::
    "'p coordinator_env \<Rightarrow> string \<Rightarrow> ('p update_world, coordinator_outcome) act" where
  "run_rollback env coordinator =
     thenA (rollback_execute (co_updater env) coordinator (co_operation_id env))
       (finish_coordination env coordinator)"

definition reconcile_commit ::
    "'p coordinator_env \<Rightarrow> string \<Rightarrow> handoff_document \<Rightarrow> updater_result_v2 \<Rightarrow>
     pending_update_marker option \<Rightarrow> string \<Rightarrow> docker_observation \<Rightarrow>
     ('p update_world, coordinator_outcome) act" where
  "reconcile_commit env coordinator doc r marker hostname ob =
     (case io_container_id (ob_candidate ob) of
        None \<Rightarrow> manual env coordinator
      | Some cid \<Rightarrow>
          if io_running (ob_candidate ob) = Some True then run_forward env coordinator
          else
            thenA (de_start_container (ue_engine (co_updater env)) cid)
           (bindA (observe_recovery env doc r marker hostname) (\<lambda>ob'.
            if io_status (ob_candidate ob') \<noteq> Matched \<or>
               io_container_id (ob_candidate ob') \<noteq> jr_candidate_container_id r \<or>
               io_running (ob_candidate ob') \<noteq> Some True
            then manual env coordinator
            else run_forward env coordinator)))"

definition act_on ::
    "'p coordinator_env \<Rightarrow> string \<Rightarrow> handoff_document \<Rightarrow> updater_result_v2 \<Rightarrow>
     pending_update_marker option \<Rightarrow> string \<Rightarrow> docker_observation \<Rightarrow>
     ('p update_world, coordinator_outcome) act" where
  "act_on env coordinator doc r marker hostname ob =
     (let action = rd_action (decide_recovery (Some (Inr r)) ob) in
      if action \<in> {ContinueForward, CleanupSuccess} then run_forward env coordinator
      else if action \<in> {BeginRollback, ContinueRollback} then run_rollback env coordinator
      else if action = ReconcileCommit then reconcile_commit env coordinator doc r marker hostname ob
      else if action = AwaitRollbackReconciliation then finish_coordination env coordinator
      else manual env coordinator)"

definition recover_v2 ::
    "'p coordinator_env \<Rightarrow> string \<Rightarrow> string \<Rightarrow> handoff_document \<Rightarrow> updater_result_v2 \<Rightarrow>
     ('p update_world, coordinator_outcome) act" where
  "recover_v2 env hostname coordinator doc r w =
     (case read_pending_marker (uw_pending w) of
        Some (Inl _) \<Rightarrow> manual env coordinator w
      | found \<Rightarrow>
          let marker = (case found of Some (Inr m) \<Rightarrow> Some m | _ \<Rightarrow> None) in
          bindA (observe_recovery env doc r marker hostname) (\<lambda>ob.
          if io_status (ob_coordinator ob) \<noteq> Matched then manual env coordinator
          else bindA (take_over env coordinator doc r) (\<lambda>taken.
               case taken of
                 None \<Rightarrow> manual env coordinator
               | Some r' \<Rightarrow> act_on env coordinator doc r' marker hostname ob)) w)"

definition run_locked :: "'p coordinator_env \<Rightarrow> ('p update_world, coordinator_outcome) act" where
  "run_locked env =
     (let oid = co_operation_id env; hostname = lower (strip (co_hostname env)) in
      bindA (handoff_of oid) (\<lambda>doc.
      bindA (identify_current_coordinator env doc hostname) (\<lambda>coordinator.
      bindA (read_optional_result oid) (\<lambda>result.
      case result of
        None \<Rightarrow> run_forward env coordinator
      | Some (Inl _) \<Rightarrow> manual env coordinator
      | Some (Inr r) \<Rightarrow>
          if jr_status r = UsSuccess then run_forward env coordinator
          else if jr_status r \<in> UPDATER_TERMINAL_STATUSES then finish_coordination env coordinator
          else recover_v2 env hostname coordinator doc r))))"

definition coordinate_once :: "'p coordinator_env \<Rightarrow> ('p update_world, coordinator_outcome) act" where
  "coordinate_once env =
     bindA (tryA (co_acquire env)) (\<lambda>r. case r of
       Inl e \<Rightarrow> if e_class e = CProcessLock then retA WaitingForLock else raiseA e
     | Inr _ \<Rightarrow> finallyA (run_locked env) (co_release env))"

section \<open>The process\<close>

definition coordinator_constructed :: "'p coordinator_env \<Rightarrow> bool" where
  "coordinator_constructed env \<longleftrightarrow>
     operation_id_ok (co_operation_id env) \<and> container_id_ok (lower (strip (co_hostname env)))"

text \<open>The exit code of the process; it waits as long as there is something to wait for.\<close>

partial_function (option) run_until_done ::
    "'p coordinator_env \<Rightarrow> 'p update_world \<Rightarrow> (nat \<times> 'p update_world) option" where
  "run_until_done env w =
     (case coordinate_once env w of
        (Inl _, w') \<Rightarrow> Some (1, w')
      | (Inr outcome, w') \<Rightarrow>
          (case outcome of
             Completed \<Rightarrow> Some (0, w')
           | NeedsManualRecovery \<Rightarrow> Some (2, w')
           | _ \<Rightarrow> run_until_done env (co_sleep env w')))"

definition updater_main ::
    "'p coordinator_env \<Rightarrow> 'p update_world \<Rightarrow> (nat \<times> 'p update_world) option" where
  "updater_main env w =
     (if coordinator_constructed env then run_until_done env w else Some (1, w))"

section \<open>Removing updaters that have exited\<close>

definition updater_exited :: "container \<Rightarrow> handoff_document \<Rightarrow> string \<Rightarrow> bool" where
  "updater_exited c doc socket_path \<longleftrightarrow>
     coordinator_identity_matches c doc socket_path \<and>
     jget (mapping (jget c ''State'')) ''Running'' = JBool False \<and>
     jget (mapping (restart_policy c)) ''Name'' = JStr ''no''"

fun remove_exited ::
    "'s docker_engine \<Rightarrow> handoff_document \<Rightarrow> string \<Rightarrow> string list \<Rightarrow> ('s, string list) act" where
  "remove_exited engine doc socket_path [] = retA []"
| "remove_exited engine doc socket_path (cid # cids) =
     bindA (de_inspect_container engine cid) (\<lambda>c.
     if updater_exited c doc socket_path
     then thenA (de_remove_container engine cid)
            (bindA (remove_exited engine doc socket_path cids) (\<lambda>removed. retA (cid # removed)))
     else remove_exited engine doc socket_path cids)"

definition cleanup_updaters ::
    "'s docker_engine \<Rightarrow> handoff_document \<Rightarrow> string \<Rightarrow> ('s, string list) act" where
  "cleanup_updaters engine doc socket_path =
     bindA (de_list_containers engine) (\<lambda>summaries.
     remove_exited engine doc socket_path (updater_ids (h_operation_id doc) summaries))"

text \<open>
  \<open>ExitedUpdaterCleanupObserver.observe\<close>: what it removed or raised, and the handoff that it
  remembers.
\<close>

definition remembered_handoff ::
    "handoff_document option \<Rightarrow> 'p update_world \<Rightarrow> exn + handoff_document option" where
  "remembered_handoff remembered w =
     (case remembered of
        Some doc \<Rightarrow> Inr (Some doc)
      | None \<Rightarrow>
          (case read_pending_marker (uw_pending w) of
             Some (Inr m) \<Rightarrow>
               bindR (read_handoff (q_operation_id m) (uw_handoff w (q_operation_id m)))
                 (\<lambda>doc. Inr (Some doc))
           | _ \<Rightarrow> Inr None))"

definition observe_exited ::
    "'p update_world docker_engine \<Rightarrow> string \<Rightarrow> handoff_document option \<Rightarrow> 'p update_world \<Rightarrow>
     (exn + string list) \<times> handoff_document option \<times> 'p update_world" where
  "observe_exited engine socket_path remembered w =
     (case remembered_handoff remembered w of
        Inl e \<Rightarrow> (Inl e, None, w)
      | Inr None \<Rightarrow> (Inr [], None, w)
      | Inr (Some doc) \<Rightarrow>
          (case cleanup_updaters engine doc socket_path w of
             (Inl e, w') \<Rightarrow> (Inl e, Some doc, w')
           | (Inr removed, w') \<Rightarrow>
               (Inr removed, if removed = [] then Some doc else None, w')))"

end
