(* ===== verification/JournalProofs.thy ===== *)
theory JournalProofs
  imports UpdaterJournal
begin

text \<open>
  What the operations of the journal do to it: each write is one step of \<open>journal_step\<close>, every
  step moves forward in a finite order, and what a step fixes stays fixed.
\<close>

section \<open>Steps\<close>

inductive journal_step :: "updater_result_v2 \<Rightarrow> updater_result_v2 \<Rightarrow> bool" where
  takeover:
    "jr_status r \<notin> UPDATER_TERMINAL_STATUSES \<Longrightarrow> jr_recovery_generation r < MAX_RECOVERY_GENERATION \<Longrightarrow>
     r' = r\<lparr>jr_sequence := jr_sequence r + 1, jr_recovery_generation := jr_recovery_generation r + 1,
             jr_coordinator_container_id := coordinator, jr_updated_at := now\<rparr> \<Longrightarrow>
     validate_invariants r \<Longrightarrow> validate_invariants r' \<Longrightarrow> journal_step r r'"
| checkpoint:
    "jr_status r \<notin> UPDATER_TERMINAL_STATUSES \<Longrightarrow>
     status = jr_status r \<or> status \<in> UPDATER_TRANSITIONS (jr_status r) \<Longrightarrow>
     fixed_once (jr_candidate_token_hash r) token_hash \<Longrightarrow>
     fixed_once (jr_candidate_container_id r) candidate \<Longrightarrow>
     validate_checkpoint_progress r status c rollback = Inr () \<Longrightarrow>
     r' = checkpoint_record r status c token_hash candidate rollback code msg now \<Longrightarrow>
     validate_invariants r \<Longrightarrow> validate_invariants r' \<Longrightarrow> journal_step r r'"

inductive_cases journal_stepE: "journal_step r r'"

lemma write_journal_file:
  "uw_journal (snd (write_journal env replace oid f w)) =
     (uw_journal w)(oid := f) \<or> snd (write_journal env replace oid f w) = w"
  by (auto simp: write_journal_def put_journal_def split: disk_outcome.splits)

lemma write_journal_returned:
  "write_journal env replace oid f w = (Inr u, w') \<Longrightarrow> w' = put_journal oid f w"
  by (auto simp: write_journal_def split: disk_outcome.splits if_splits)

lemma write_journal_new:
  "uw_journal w oid \<noteq> JournalMissing \<Longrightarrow> snd (write_journal env False oid f w) = w"
  by (auto simp: write_journal_def split: disk_outcome.splits)

lemma write_journal_world:
  "snd (write_journal env replace oid f w) = put_journal oid f w \<or>
   snd (write_journal env replace oid f w) = w"
  by (auto simp: write_journal_def split: disk_outcome.splits)

lemma read_v2_Inr:
  "read_v2 oid w = (Inr r, w') \<longleftrightarrow>
     w' = w \<and> operation_id_ok oid \<and> uw_journal w oid = JournalV2 r \<and> validate_invariants r \<and>
     jr_operation_id r = oid"
  by (auto simp: read_v2_def read_journal_def bindA_def retA_def raiseA_def
      split: if_splits journal_file.splits sum.splits)

lemma read_journal_world: "snd (read_journal oid w) = w"
  by (auto simp: read_journal_def split: journal_file.splits)

lemma read_v2_world: "snd (read_v2 oid w) = w"
  by (auto simp: read_v2_def read_journal_def bindA_def retA_def raiseA_def
      split: journal_file.splits sum.splits)

lemma write_then_return:
  "snd (bindA (write_journal env replace oid f) (\<lambda>_. retA x) w) = snd (write_journal env replace oid f w)"
  by (auto simp: bindA_def retA_def split: prod.splits sum.splits)

text \<open>A version 2 operation on a journal leaves the world alone or rewrites one valid record.\<close>

definition journal_change :: "string \<Rightarrow> 'p update_world \<Rightarrow> 'p update_world \<Rightarrow> bool" where
  "journal_change oid w w' \<longleftrightarrow> w' = w \<or>
     (\<exists>r r'. uw_journal w oid = JournalV2 r \<and> journal_step r r' \<and> jr_operation_id r = oid \<and>
        w' = put_journal oid (JournalV2 r') w)"

lemma takeover_change: "journal_change oid w (snd (takeover_v2 env oid coordinator w))"
proof -
  have "snd (takeover_v2 env oid coordinator w) = w \<or>
      (\<exists>r. uw_journal w oid = JournalV2 r \<and> jr_operation_id r = oid \<and>
        (\<exists>r'. journal_step r r' \<and> snd (takeover_v2 env oid coordinator w) = put_journal oid (JournalV2 r') w))"
  proof (cases "read_v2 oid w")
    case (Pair x w0)
    show ?thesis
    proof (cases x)
      case (Inl e)
      with Pair read_v2_world [of oid w] show ?thesis
        by (simp add: takeover_v2_def bindA_def)
    next
      case (Inr r)
      with Pair have r: "uw_journal w oid = JournalV2 r" "validate_invariants r"
        "jr_operation_id r = oid" and w0: "w0 = w"
        using read_v2_Inr [of oid w r w0] by auto
      let ?r' = "r\<lparr>jr_sequence := jr_sequence r + 1,
                 jr_recovery_generation := jr_recovery_generation r + 1,
                 jr_coordinator_container_id := coordinator, jr_updated_at := je_clock env w\<rparr>"
      have step: "journal_step r ?r'"
        if "jr_status r \<notin> UPDATER_TERMINAL_STATUSES"
          "\<not> MAX_RECOVERY_GENERATION \<le> jr_recovery_generation r" "validate_invariants ?r'"
        by (rule journal_step.takeover [OF that(1) _ refl r(2) that(3)]) (use that(2) in simp)
      have run: "takeover_v2 env oid coordinator w =
          (if jr_status r \<in> UPDATER_TERMINAL_STATUSES then (Inl (snapshot_exn ''terminal''), w)
           else if MAX_RECOVERY_GENERATION \<le> jr_recovery_generation r
           then (Inl (snapshot_exn ''generation''), w)
           else if \<not> validate_invariants ?r' then (Inl (snapshot_exn ''takeover identity''), w)
           else bindA (write_journal env True oid (JournalV2 ?r')) (\<lambda>_. retA ?r') w)"
        using Pair Inr w0 r(3) by (simp add: takeover_v2_def bindA_def Let_def)
      show ?thesis
        using run write_then_return [of env True oid "JournalV2 ?r'" ?r' w]
          write_journal_world [of env True oid "JournalV2 ?r'" w] step r
        by (auto split: if_splits)
    qed
  qed
  then show ?thesis by (auto simp: journal_change_def)
qed

lemma checkpoint_change:
  "journal_change oid w (snd (checkpoint_v2 env oid status c token_hash candidate rollback code msg w))"
proof (cases "read_v2 oid w")
  case (Pair x w0)
  show ?thesis
  proof (cases x)
    case (Inl e)
    with Pair read_v2_world [of oid w] show ?thesis
      by (simp add: checkpoint_v2_def bindA_def journal_change_def)
  next
    case (Inr r)
    with Pair have r: "uw_journal w oid = JournalV2 r" "validate_invariants r"
      "jr_operation_id r = oid" and w0: "w0 = w"
      using read_v2_Inr [of oid w r w0] by auto
    let ?rb = "coalesce rollback (jr_rollback_started r)"
    let ?r' = "checkpoint_record r status c token_hash candidate ?rb code msg (je_clock env w)"
    let ?run = "checkpoint_v2 env oid status c token_hash candidate rollback code msg w"
    have same: "jr_operation_id ?r' = oid" using r(3) by (simp add: checkpoint_record_def)
    show ?thesis
    proof (cases "snd ?run = w")
      case False
      have guards: "jr_status r \<notin> UPDATER_TERMINAL_STATUSES"
          "status = jr_status r \<or> status \<in> UPDATER_TRANSITIONS (jr_status r)"
          "fixed_once (jr_candidate_token_hash r) token_hash"
          "fixed_once (jr_candidate_container_id r) candidate"
          "validate_checkpoint_progress r status c ?rb = Inr ()"
          "validate_invariants ?r'"
        and run: "snd ?run = snd (write_journal env True oid (JournalV2 ?r') w)"
        using False Pair Inr w0 same
        by (auto simp: checkpoint_v2_def bindA_def Let_def write_then_return [unfolded bindA_def]
            split: if_splits sum.splits)
      have "journal_step r ?r'"
        by (rule journal_step.checkpoint [OF guards(1-5) refl r(2) guards(6)])
      with run write_journal_world [of env True oid "JournalV2 ?r'" w] r show ?thesis
        by (auto simp: journal_change_def)
    qed (simp add: journal_change_def)
  qed
qed

lemma start_change:
  assumes "snd (start_v2 env doc coordinator w) \<noteq> w"
  shows "uw_journal w (h_operation_id doc) = JournalMissing \<and>
    validate_invariants (initial_result doc coordinator (je_clock env w)) \<and>
    snd (start_v2 env doc coordinator w) =
      put_journal (h_operation_id doc) (JournalV2 (initial_result doc coordinator (je_clock env w))) w"
  using assms write_journal_world [of env False "h_operation_id doc"
      "JournalV2 (initial_result doc coordinator (je_clock env w))" w]
    write_journal_new [of w "h_operation_id doc" env
      "JournalV2 (initial_result doc coordinator (je_clock env w))"]
  by (auto simp: start_v2_def Let_def write_then_return split: sum.splits if_splits)

section \<open>Progress\<close>

fun status_rank :: "updater_status \<Rightarrow> nat" where
  "status_rank UsSnapshotting = 0"
| "status_rank UsSwitching = 1"
| "status_rank UsVerifying = 2"
| "status_rank UsCommitRequested = 3"
| "status_rank UsRollingBack = 4"
| "status_rank _ = 5"

definition checkpoint_rank :: "updater_checkpoint \<Rightarrow> nat" where
  "checkpoint_rank c =
     (if is_forward c then index_of FORWARD_CHECKPOINTS c
      else length FORWARD_CHECKPOINTS + index_of ROLLBACK_CHECKPOINTS c)"

definition progress :: "updater_result_v2 \<Rightarrow> nat" where
  "progress r = status_rank (jr_status r) + checkpoint_rank (jr_checkpoint r) +
     nat (jr_recovery_generation r)"

lemmas checkpoint_lists = FORWARD_CHECKPOINTS_def ROLLBACK_CHECKPOINTS_def

lemma transition_rank: "t \<in> UPDATER_TRANSITIONS s \<Longrightarrow> status_rank s < status_rank t"
  by (cases s) auto

lemma checkpoint_rank_bound: "checkpoint_rank c \<le> 19"
  by (cases c) (simp_all add: checkpoint_rank_def is_forward_def checkpoint_lists index_of_def)

lemma not_forward: "\<not> is_forward c \<longleftrightarrow> c \<in> set ROLLBACK_CHECKPOINTS"
  by (cases c) (simp_all add: is_forward_def checkpoint_lists)

lemma checkpoint_progress:
  assumes "validate_checkpoint_progress r status c rollback = Inr ()"
    and "status = jr_status r \<or> status \<in> UPDATER_TRANSITIONS (jr_status r)"
  shows "status_rank (jr_status r) + checkpoint_rank (jr_checkpoint r) < status_rank status + checkpoint_rank c"
    and "is_forward c \<Longrightarrow> is_forward (jr_checkpoint r)"
proof -
  have rank: "status_rank (jr_status r) \<le> status_rank status"
    and strict: "status \<noteq> jr_status r \<Longrightarrow> status_rank (jr_status r) < status_rank status"
    using assms(2) transition_rank by force+
  show "is_forward (jr_checkpoint r)" if "is_forward c"
    using assms(1) that not_forward [of c] not_forward [of "jr_checkpoint r"]
    by (auto simp: validate_checkpoint_progress_def Let_def split: if_splits)
  show "status_rank (jr_status r) + checkpoint_rank (jr_checkpoint r) < status_rank status + checkpoint_rank c"
  proof (cases "is_forward (jr_checkpoint r) = is_forward c")
    case True
    have "checkpoint_rank c = checkpoint_rank (jr_checkpoint r) \<and> status \<noteq> jr_status r \<or>
        checkpoint_rank c = checkpoint_rank (jr_checkpoint r) + 1"
      using assms(1) True not_forward [of c] not_forward [of "jr_checkpoint r"]
      by (auto simp: validate_checkpoint_progress_def checkpoint_rank_def Let_def split: if_splits)
    with rank strict show ?thesis by auto
  next
    case False
    then have "is_forward (jr_checkpoint r)" "\<not> is_forward c"
      using \<open>is_forward c \<Longrightarrow> is_forward (jr_checkpoint r)\<close> by auto
    then have "checkpoint_rank (jr_checkpoint r) < checkpoint_rank c"
      by (cases "jr_checkpoint r")
        (auto simp: checkpoint_rank_def is_forward_def checkpoint_lists index_of_def)
    with rank show ?thesis by simp
  qed
qed

text \<open>What no step changes, and what a step never takes back.\<close>

definition same_update :: "updater_result_v2 \<Rightarrow> updater_result_v2 \<Rightarrow> bool" where
  "same_update r r' \<longleftrightarrow>
     jr_operation_id r' = jr_operation_id r \<and> jr_source_container_id r' = jr_source_container_id r \<and>
     jr_source_image_id r' = jr_source_image_id r \<and>
     jr_source_container_name r' = jr_source_container_name r \<and>
     jr_target_image r' = jr_target_image r \<and> jr_target_revision r' = jr_target_revision r \<and>
     (jr_candidate_token_hash r \<noteq> None \<longrightarrow> jr_candidate_token_hash r' = jr_candidate_token_hash r) \<and>
     (jr_candidate_container_id r \<noteq> None \<longrightarrow> jr_candidate_container_id r' = jr_candidate_container_id r)"

definition committed_result :: "updater_result_v2 \<Rightarrow> bool" where
  "committed_result r \<longleftrightarrow> jr_status r \<in> {UsCommitRequested, UsSuccess}"

lemma same_update_refl: "same_update r r"
  by (simp add: same_update_def)

lemma same_update_trans: "same_update r r1 \<Longrightarrow> same_update r1 r' \<Longrightarrow> same_update r r'"
  by (auto simp: same_update_def)

lemma journal_step_valid: "journal_step r r' \<Longrightarrow> validate_invariants r \<and> validate_invariants r'"
  by (auto elim: journal_stepE)

lemma journal_step_sequence: "journal_step r r' \<Longrightarrow> jr_sequence r' = jr_sequence r + 1"
  by (auto elim!: journal_stepE simp: checkpoint_record_def)

lemma journal_step_same: "journal_step r r' \<Longrightarrow> same_update r r'"
  by (auto elim!: journal_stepE simp: checkpoint_record_def same_update_def fixed_once_def)

lemma journal_step_live: "journal_step r r' \<Longrightarrow> jr_status r \<notin> UPDATER_TERMINAL_STATUSES"
  by (auto elim: journal_stepE)

lemma journal_step_progress: "journal_step r r' \<Longrightarrow> progress r < progress r'"
proof (induction rule: journal_step.induct)
  case (takeover r r' coordinator now)
  then show ?case by (auto simp: progress_def validate_invariants_def)
next
  case (checkpoint r status token_hash candidate c rollback r' code msg now)
  with checkpoint_progress(1) [OF checkpoint(5,2)] show ?case
    by (simp add: progress_def checkpoint_record_def)
qed

lemma valid_rollback_iff:
  "validate_invariants r \<Longrightarrow> jr_rollback_started r \<longleftrightarrow> \<not> is_forward (jr_checkpoint r)"
  by (auto simp: validate_invariants_def validate_status_checkpoint_def Let_def)

lemma journal_step_rollback:
  assumes "journal_step r r'" and "jr_rollback_started r"
  shows "jr_rollback_started r'"
proof -
  have "is_forward (jr_checkpoint r') \<Longrightarrow> is_forward (jr_checkpoint r)"
    using assms(1)
    by (induction rule: journal_step.induct)
      (auto simp: checkpoint_record_def dest: checkpoint_progress(2))
  with valid_rollback_iff journal_step_valid [OF assms(1)] assms(2) show ?thesis by blast
qed

lemma valid_committed:
  "validate_invariants r \<Longrightarrow> committed_result r \<Longrightarrow>
     \<not> jr_rollback_started r \<and> jr_checkpoint r = CommitRequested \<and> jr_candidate_container_id r \<noteq> None"
  by (auto simp: validate_invariants_def validate_status_checkpoint_def committed_result_def Let_def
      allowed_checkpoints_def is_forward_def checkpoint_lists index_of_def split: if_splits)

lemma journal_step_committed: "journal_step r r' \<Longrightarrow> committed_result r \<Longrightarrow> committed_result r'"
  by (induction rule: journal_step.induct)
    (auto simp: committed_result_def checkpoint_record_def UPDATER_TERMINAL_STATUSES_def)

lemma progress_bound:
  assumes "validate_invariants r"
  shows "progress r \<le> 27"
proof -
  have "status_rank (jr_status r) \<le> 5" by (cases "jr_status r") simp_all
  moreover have "jr_recovery_generation r \<le> 3"
    using assms by (simp add: validate_invariants_def MAX_RECOVERY_GENERATION_def)
  ultimately show ?thesis
    using checkpoint_rank_bound [of "jr_checkpoint r"] by (simp add: progress_def)
qed

section \<open>The journal as an evolving system\<close>

definition result_evolves :: "updater_result_v2 \<Rightarrow> updater_result_v2 \<Rightarrow> bool" where
  "result_evolves = journal_step\<^sup>*\<^sup>*"

lemma result_evolves_facts:
  assumes "result_evolves r r'"
  shows "same_update r r'" and "jr_sequence r \<le> jr_sequence r'"
    and "jr_sequence r' + int (progress r) \<le> jr_sequence r + int (progress r')"
    and "jr_status r \<in> UPDATER_TERMINAL_STATUSES \<Longrightarrow> r' = r"
    and "jr_rollback_started r \<Longrightarrow> jr_rollback_started r'"
    and "committed_result r \<Longrightarrow> committed_result r'"
    and "validate_invariants r \<Longrightarrow> validate_invariants r'"
proof -
  have "same_update r r' \<and> jr_sequence r \<le> jr_sequence r' \<and>
      jr_sequence r' + int (progress r) \<le> jr_sequence r + int (progress r') \<and>
      (jr_status r \<in> UPDATER_TERMINAL_STATUSES \<longrightarrow> r' = r) \<and>
      (jr_rollback_started r \<longrightarrow> jr_rollback_started r') \<and>
      (committed_result r \<longrightarrow> committed_result r') \<and>
      (validate_invariants r \<longrightarrow> validate_invariants r')"
    using assms unfolding result_evolves_def
  proof (induction rule: rtranclp_induct)
    case base
    show ?case by (simp add: same_update_refl)
  next
    case (step r1 r2)
    have "same_update r r2" using step journal_step_same same_update_trans by blast
    moreover have "jr_status r \<in> UPDATER_TERMINAL_STATUSES \<longrightarrow> r2 = r"
      using step journal_step_live by blast
    moreover have "jr_rollback_started r \<longrightarrow> jr_rollback_started r2"
      using step journal_step_rollback by blast
    moreover have "committed_result r \<longrightarrow> committed_result r2"
      using step journal_step_committed by blast
    moreover have "validate_invariants r \<longrightarrow> validate_invariants r2"
      using step journal_step_valid by blast
    ultimately show ?case
      using step.IH journal_step_sequence [OF step(2)] journal_step_progress [OF step(2)] by simp
  qed
  then show "same_update r r'" "jr_sequence r \<le> jr_sequence r'"
      "jr_sequence r' + int (progress r) \<le> jr_sequence r + int (progress r')"
      "jr_status r \<in> UPDATER_TERMINAL_STATUSES \<Longrightarrow> r' = r"
      "jr_rollback_started r \<Longrightarrow> jr_rollback_started r'"
      "committed_result r \<Longrightarrow> committed_result r'"
      "validate_invariants r \<Longrightarrow> validate_invariants r'"
    by simp_all
qed

definition status_follows :: "updater_status \<Rightarrow> updater_status \<Rightarrow> bool" where
  "status_follows = (\<lambda>s t. t \<in> UPDATER_TRANSITIONS s)\<^sup>*\<^sup>*"

lemma status_follows_trans: "status_follows s t \<Longrightarrow> status_follows t u \<Longrightarrow> status_follows s u"
  unfolding status_follows_def by (rule rtranclp_trans)

lemma status_follows_step: "t \<in> UPDATER_TRANSITIONS s \<Longrightarrow> status_follows s t"
  unfolding status_follows_def by (rule r_into_rtranclp)

lemma status_follows_closed:
  assumes "status_follows s t" and "s \<in> S" and "\<And>s. s \<in> S \<Longrightarrow> UPDATER_TRANSITIONS s \<subseteq> S"
  shows "t \<in> S"
  using assms unfolding status_follows_def by (induction rule: rtranclp_induct) blast+

lemma result_evolves_status: "result_evolves r r' \<Longrightarrow> status_follows (jr_status r) (jr_status r')"
  unfolding result_evolves_def
proof (induction rule: rtranclp_induct)
  case base
  show ?case by (simp add: status_follows_def)
next
  case (step r1 r2)
  from step(2) have "status_follows (jr_status r1) (jr_status r2)"
    by (induction rule: journal_step.induct)
      (auto simp: checkpoint_record_def intro: status_follows_step, simp_all add: status_follows_def)
  with step.IH show ?case by (rule status_follows_trans)
qed

text \<open>
  The journal's file of an operation only ever appears, or evolves.  A record this updater wrote
  counts its writes.
\<close>

definition file_evolves :: "string \<Rightarrow> journal_file \<Rightarrow> journal_file \<Rightarrow> bool" where
  "file_evolves oid f f' \<longleftrightarrow> f' = f \<or>
     (\<exists>r r'. f = JournalV2 r \<and> jr_operation_id r = oid \<and> f' = JournalV2 r' \<and> result_evolves r r') \<or>
     (\<exists>doc c now r'. f = JournalMissing \<and> f' = JournalV2 r' \<and> h_operation_id doc = oid \<and>
        validate_invariants (initial_result doc c now) \<and>
        result_evolves (initial_result doc c now) r') \<or>
     (\<exists>r'. f = JournalMissing \<and> f' = JournalV1 r') \<or>
     (\<exists>r r'. f = JournalV1 r \<and> f' = JournalV1 r' \<and> status_follows (j1_status r) (j1_status r'))"

definition journal_evolves :: "'p update_world \<Rightarrow> 'p update_world \<Rightarrow> bool" where
  "journal_evolves w w' \<longleftrightarrow> (\<forall>oid. file_evolves oid (uw_journal w oid) (uw_journal w' oid))"

lemma file_evolves_refl: "file_evolves oid f f"
  by (simp add: file_evolves_def)

lemma result_evolves_trans: "result_evolves r r1 \<Longrightarrow> result_evolves r1 r' \<Longrightarrow> result_evolves r r'"
  unfolding result_evolves_def by (rule rtranclp_trans)

lemma file_evolves_trans:
  assumes "file_evolves oid f f1" and "file_evolves oid f1 f'"
  shows "file_evolves oid f f'"
proof (cases "f1 = f \<or> f' = f1")
  case False
  with assms(1) show ?thesis
  proof (cases f1)
    case (JournalV2 r1)
    with assms(2) False obtain r' where r': "f' = JournalV2 r'" "result_evolves r1 r'"
      by (auto simp: file_evolves_def)
    with assms(1) False JournalV2 show ?thesis
      unfolding file_evolves_def by (elim disjE exE conjE) (auto intro: result_evolves_trans)
  next
    case (JournalV1 r1)
    with assms False show ?thesis
      unfolding file_evolves_def by (elim disjE exE conjE) (auto intro: status_follows_trans)
  qed (use assms(2) False in \<open>auto simp: file_evolves_def\<close>)
qed (use assms in auto)

lemma journal_evolves_refl: "journal_evolves w w"
  by (simp add: journal_evolves_def file_evolves_refl)

lemma journal_evolves_trans: "journal_evolves w w1 \<Longrightarrow> journal_evolves w1 w' \<Longrightarrow> journal_evolves w w'"
  unfolding journal_evolves_def using file_evolves_trans by blast

lemma put_journal_evolves:
  "file_evolves oid (uw_journal w oid) f \<Longrightarrow> journal_evolves w (put_journal oid f w)"
  by (simp add: journal_evolves_def put_journal_def file_evolves_refl)

lemma journal_change_evolves:
  assumes "journal_change oid w w'"
  shows "journal_evolves w w'"
proof (cases "w' = w")
  case False
  with assms obtain r r' where r: "uw_journal w oid = JournalV2 r" "journal_step r r'"
    "jr_operation_id r = oid" and w': "w' = put_journal oid (JournalV2 r') w"
    by (auto simp: journal_change_def)
  have "result_evolves r r'" unfolding result_evolves_def using r(2) by (rule r_into_rtranclp)
  with r(1,3) have "file_evolves oid (uw_journal w oid) (JournalV2 r')"
    unfolding file_evolves_def by blast
  then show ?thesis unfolding w' by (rule put_journal_evolves)
qed (simp add: journal_evolves_refl)

lemma start_evolves: "journal_evolves w (snd (start_v2 env doc c w))"
proof (cases "snd (start_v2 env doc c w) = w")
  case False
  let ?r = "initial_result doc c (je_clock env w)"
  from start_change [OF False] have new: "uw_journal w (h_operation_id doc) = JournalMissing"
    "validate_invariants ?r"
    and w': "snd (start_v2 env doc c w) = put_journal (h_operation_id doc) (JournalV2 ?r) w"
    by blast+
  have "result_evolves ?r ?r" by (simp add: result_evolves_def)
  with new have "file_evolves (h_operation_id doc) (uw_journal w (h_operation_id doc)) (JournalV2 ?r)"
    unfolding file_evolves_def by blast
  then show ?thesis unfolding w' by (rule put_journal_evolves)
qed (simp add: journal_evolves_refl)

lemma takeover_evolves: "journal_evolves w (snd (takeover_v2 env oid c w))"
  by (rule journal_change_evolves [OF takeover_change])

lemma checkpoint_evolves:
  "journal_evolves w (snd (checkpoint_v2 env oid status c h cid rb code msg w))"
  by (rule journal_change_evolves [OF checkpoint_change])

lemma start_v1_evolves: "journal_evolves w (snd (journal_start env oid w))"
proof (cases "snd (journal_start env oid w) = w")
  case False
  then obtain r where run: "snd (journal_start env oid w) = snd (write_journal env False oid (JournalV1 r) w)"
    by (fastforce simp: journal_start_def Let_def write_then_return split: if_splits)
  with False write_journal_world [of env False oid "JournalV1 r" w]
    write_journal_new [of w oid env "JournalV1 r"]
  have "snd (journal_start env oid w) = put_journal oid (JournalV1 r) w"
    and "uw_journal w oid = JournalMissing"
    by auto
  then show ?thesis by (simp add: put_journal_evolves file_evolves_def)
qed (simp add: journal_evolves_refl)

lemma read_journal_Inl:
  "read_journal oid w = (Inr (Inl r), w') \<longleftrightarrow>
     w' = w \<and> operation_id_ok oid \<and> uw_journal w oid = JournalV1 r \<and> j1_operation_id r = oid"
  by (auto simp: read_journal_def split: if_splits journal_file.splits)

lemma transition_v1_evolves: "journal_evolves w (snd (journal_transition env oid status code msg w))"
proof (cases "snd (journal_transition env oid status code msg w) = w")
  case False
  let ?run = "journal_transition env oid status code msg w"
  obtain x w0 where read: "read_journal oid w = (x, w0)" by (cases "read_journal oid w")
  with read_journal_world [of oid w] have w0: "w0 = w" by simp
  from False read w0 obtain r where x: "x = Inr (Inl r)"
    by (auto simp: journal_transition_def bindA_def split: sum.splits)
  with read have r: "uw_journal w oid = JournalV1 r" using read_journal_Inl [of oid w r w0] by simp
  let ?r' = "\<lparr>j1_operation_id = oid, j1_sequence = j1_sequence r + 1, j1_status = status,
      j1_updated_at = je_clock env w, j1_error_code = code, j1_public_error_message = msg\<rparr>"
  from False read w0 x have live: "j1_status ?r' \<in> UPDATER_TRANSITIONS (j1_status r)"
    and "snd ?run = snd (write_journal env True oid (JournalV1 ?r') w)"
    by (auto simp: journal_transition_def bindA_def Let_def
        write_then_return [unfolded bindA_def] split: if_splits sum.splits)
  with False write_journal_world [of env True oid "JournalV1 ?r'" w]
  have "snd ?run = put_journal oid (JournalV1 ?r') w" by auto
  with r status_follows_step [OF live] show ?thesis
    by (simp add: put_journal_evolves file_evolves_def)
qed (simp add: journal_evolves_refl)

text \<open>Whoever writes, and whatever else happens to the world in between.\<close>

datatype 'p journal_event =
    JStart "'p journal_env" handoff_document string
  | JTakeover "'p journal_env" string string
  | JCheckpoint "'p journal_env" string updater_status updater_checkpoint "string option"
      "string option" "bool option" "string option" "string option"
  | JStartV1 "'p journal_env" string
  | JTransitionV1 "'p journal_env" string updater_status "string option" "string option"
  | JElsewhere

inductive journal_moves :: "'p journal_event \<Rightarrow> 'p update_world \<Rightarrow> 'p update_world \<Rightarrow> bool" where
  start: "journal_moves (JStart env doc c) w (snd (start_v2 env doc c w))"
| takeover: "journal_moves (JTakeover env oid c) w (snd (takeover_v2 env oid c w))"
| checkpoint: "journal_moves (JCheckpoint env oid status cp h cid rb code msg) w
    (snd (checkpoint_v2 env oid status cp h cid rb code msg w))"
| start_v1: "journal_moves (JStartV1 env oid) w (snd (journal_start env oid w))"
| transition_v1: "journal_moves (JTransitionV1 env oid status code msg) w
    (snd (journal_transition env oid status code msg w))"
| elsewhere: "uw_journal w' = uw_journal w \<Longrightarrow> journal_moves JElsewhere w w'"

lemma journal_moves_evolves: "journal_moves e w w' \<Longrightarrow> journal_evolves w w'"
proof (induction rule: journal_moves.induct)
  case (elsewhere w' w)
  then show ?case by (simp add: journal_evolves_def file_evolves_refl)
qed (fact start_evolves takeover_evolves checkpoint_evolves start_v1_evolves transition_v1_evolves)+

interpretation journal: evolving_system journal_moves "\<lambda>_. True" journal_evolves
  by unfold_locales (blast intro: journal_moves_evolves journal_evolves_refl journal_evolves_trans)+

interpretation journals: action_contract journal_evolves
  by unfold_locales (fact journal_evolves_refl, fact journal_evolves_trans)

text \<open>What the relation means for a record.\<close>

lemma evolved_record:
  assumes "journal_evolves w w'" and "uw_journal w oid = JournalV2 r"
  obtains r' where "uw_journal w' oid = JournalV2 r'" and "result_evolves r r'"
proof -
  have "file_evolves oid (JournalV2 r) (uw_journal w' oid)"
    using assms by (metis journal_evolves_def)
  then show ?thesis
    using that by (auto simp: file_evolves_def result_evolves_def)
qed

lemma initial_counts:
  assumes "result_evolves (initial_result doc c now) r"
    and "validate_invariants (initial_result doc c now)"
  shows "validate_invariants r" and "jr_sequence r \<le> 28"
proof -
  show valid: "validate_invariants r" using result_evolves_facts(7) assms by blast
  have "progress (initial_result doc c now) = 0"
    by (simp add: progress_def initial_result_def checkpoint_rank_def is_forward_def
        checkpoint_lists index_of_def)
  with result_evolves_facts(3) [OF assms(1)] progress_bound [OF valid]
  show "jr_sequence r \<le> 28" by (simp add: initial_result_def)
qed

end
