(* ===== verification/UpdaterEffects.thy ===== *)
theory UpdaterEffects
  imports UpdaterCoordinator JournalProofs
begin

text \<open>
  What the executors and the coordinator of the updater keep, whatever the services that they are
  given do, as long as these keep it.
\<close>

named_theorems effects \<open>actions that keep a relation\<close>

section \<open>Services\<close>

definition engine_keeps :: "('s \<Rightarrow> 's \<Rightarrow> bool) \<Rightarrow> 's docker_engine \<Rightarrow> bool" where
  "engine_keeps R engine \<longleftrightarrow>
     keeps R (de_list_containers engine) \<and>
     (\<forall>c. keeps R (de_inspect_container engine c)) \<and>
     (\<forall>c p. keeps R (de_update_restart_policy engine c p)) \<and>
     (\<forall>c t. keeps R (de_stop_container engine c t)) \<and>
     (\<forall>c. keeps R (de_wait_container engine c)) \<and>
     (\<forall>c n. keeps R (de_rename_container engine c n)) \<and>
     (\<forall>n config. keeps R (de_create_container engine n config)) \<and>
     (\<forall>c. keeps R (de_start_container engine c)) \<and>
     (\<forall>c. keeps R (de_remove_container engine c))"

definition services_keep ::
    "('p update_world \<Rightarrow> 'p update_world \<Rightarrow> bool) \<Rightarrow> 'p updater_env \<Rightarrow> bool" where
  "services_keep R env \<longleftrightarrow>
     engine_keeps R (ue_engine env) \<and>
     (\<forall>e. keeps R (ue_hook env e)) \<and>
     (\<forall>oid. keeps R (ue_snapshot_create env oid)) \<and>
     (\<forall>oid. keeps R (ue_snapshot_verify env oid)) \<and>
     (\<forall>oid. keeps R (ue_snapshot_restore env oid)) \<and>
     (\<forall>doc p cid. keeps R (ue_verify env doc p cid)) \<and>
     (\<forall>doc cid. keeps R (ue_verify_previous env doc cid)) \<and>
     (\<forall>oid. keeps R (ue_commit_wait env oid))"

lemma engine_keeps [effects]:
  assumes "engine_keeps R engine"
  shows "keeps R (de_list_containers engine)"
    and "keeps R (de_inspect_container engine cid)"
    and "keeps R (de_update_restart_policy engine cid policy)"
    and "keeps R (de_stop_container engine cid timeout)"
    and "keeps R (de_wait_container engine cid)"
    and "keeps R (de_rename_container engine cid name)"
    and "keeps R (de_create_container engine name config)"
    and "keeps R (de_start_container engine cid)"
    and "keeps R (de_remove_container engine cid)"
  using assms by (simp_all add: engine_keeps_def)

lemma services_keep [effects]:
  assumes "services_keep R env"
  shows "engine_keeps R (ue_engine env)"
    and "keeps R (ue_hook env e)"
    and "keeps R (ue_snapshot_create env oid)"
    and "keeps R (ue_snapshot_verify env oid)"
    and "keeps R (ue_snapshot_restore env oid)"
    and "keeps R (ue_verify env doc p cid)"
    and "keeps R (ue_verify_previous env doc cid)"
    and "keeps R (ue_commit_wait env oid)"
  using assms by (simp_all add: services_keep_def)

lemma engine_weaken:
  assumes "engine_keeps R engine" and "\<And>w w'. R w w' \<Longrightarrow> S w w'"
  shows "engine_keeps S engine"
  using assms by (simp add: engine_keeps_def keeps_def)

lemma services_weaken:
  assumes "services_keep R env" and "\<And>w w'. R w w' \<Longrightarrow> S w w'"
  shows "services_keep S env"
  using assms engine_weaken [of R "ue_engine env" S] by (simp add: services_keep_def keeps_def)

section \<open>Effects\<close>

text \<open>
  A relation that what the updater does besides the journal respects: it may write the marker and
  remove the evidence.
\<close>

locale updater_effects = action_contract R
  for R :: "'p update_world \<Rightarrow> 'p update_world \<Rightarrow> bool" +
  assumes pending_kept: "R w (w\<lparr>uw_pending := f\<rparr>)"
    and evidence_kept: "R w (w\<lparr>uw_evidence := g\<rparr>)"
begin

lemma keeps_if [effects]: "keeps R m \<Longrightarrow> keeps R n \<Longrightarrow> keeps R (if b then m else n)"
  by simp

lemma keeps_option [effects]:
  "keeps R m \<Longrightarrow> (\<And>y. keeps R (n y)) \<Longrightarrow> keeps R (case x of None \<Rightarrow> m | Some y \<Rightarrow> n y)"
  by (cases x) simp_all

lemma keeps_sum [effects]:
  "(\<And>y. keeps R (m y)) \<Longrightarrow> (\<And>y. keeps R (n y)) \<Longrightarrow> keeps R (case x of Inl y \<Rightarrow> m y | Inr y \<Rightarrow> n y)"
  by (cases x) simp_all

lemma keeps_prod [effects]: "(\<And>a b. keeps R (m a b)) \<Longrightarrow> keeps R (case x of (a, b) \<Rightarrow> m a b)"
  by (cases x) simp

lemma keeps_inspectA [effects]: "keeps R (inspectA f)"
  by (simp add: keeps_def inspectA_def R_refl)

lemmas [effects] = keeps_ret keeps_raise keeps_guard keeps_bind keeps_try

lemma keeps_around [effects]:
  "services_keep R env \<Longrightarrow> keeps R m \<Longrightarrow> keeps R (around env phase m)"
  unfolding around_def by (intro effects)

lemma keeps_prepare [effects]: "keeps R (prepare env doc)"
  unfolding keeps_def using prepare_world [of env doc] pending_kept R_refl by metis

lemma keeps_unlink [effects]: "keeps R (unlink_evidence env oid)"
  by (auto simp: keeps_def unlink_evidence_def R_refl evidence_kept Let_def split: disk_outcome.splits)

lemma keeps_read [effects]: "keeps R (read_journal oid)"
  by (simp add: keeps_def read_journal_world R_refl)

lemma keeps_inspect_all [effects]: "engine_keeps R engine \<Longrightarrow> keeps R (inspect_all engine cids)"
  by (induction cids) (auto simp: observing_def intro!: effects)

lemma keeps_observe [effects]:
  "engine_keeps R engine \<Longrightarrow> keeps R (observe sha256 engine socket doc r marker hostname)"
  unfolding observe_def observing_def by (intro effects)

lemma keeps_candidate_id [effects]: "keeps R (require_candidate_id r)"
  unfolding require_candidate_id_def by (intro effects)

lemma keeps_observe_for [effects]:
  assumes "services_keep R env"
  shows "keeps R (observe_for env coordinator doc r p)"
    and "keeps R (observe_safe env coordinator doc r p)"
  unfolding observe_safe_def observe_for_def by (intro effects assms)+

lemma keeps_forward_effects [effects]:
  assumes "services_keep R env"
  shows "keeps R (fence_old_restart env doc)"
    and "keeps R (stop_old env doc)"
    and "keeps R (ensure_snapshot env oid)"
    and "keeps R (rename_old env doc)"
    and "keeps R (ensure_candidate env coordinator doc r p)"
    and "keeps R (require_candidate_identity env coordinator doc r p)"
    and "keeps R (start_candidate env cid)"
    and "keeps R (cleanup_old env doc r)"
  unfolding fence_old_restart_def stop_old_def ensure_snapshot_def rename_old_def
    ensure_candidate_def require_candidate_identity_def start_candidate_def cleanup_old_def
    observe_for_def require_source_identity_def require_candidate_id_def Let_def
  by (intro effects assms)+

lemma keeps_rollback_effects [effects]:
  assumes "services_keep R env"
  shows "keeps R (stop_candidate env coordinator doc r p)"
    and "keeps R (remove_candidate env coordinator doc r p)"
    and "keeps R (restore_snapshot env oid)"
    and "keeps R (remove_candidate_evidence env oid)"
    and "keeps R (restore_old_name env doc r)"
    and "keeps R (restore_old_policy env doc r)"
    and "keeps R (start_old env doc r)"
  unfolding stop_candidate_def remove_candidate_def restore_snapshot_def
    remove_candidate_evidence_def restore_old_name_def restore_old_policy_def start_old_def
    observe_safe_def observe_for_def observed_candidate_id_def require_source_matches_def Let_def
  by (intro effects assms)+

lemma keeps_coordinator_effects [effects]:
  assumes "services_keep R (co_updater env)"
  shows "keeps R (identify_current_coordinator env doc hostname)"
    and "keeps R (disarm env coordinator)"
    and "keeps R (observe_recovery env doc r marker hostname)"
proof -
  show "keeps R (identify_current_coordinator env doc hostname)"
    unfolding identify_current_coordinator_def Let_def
    by (intro effects assms; simp split: list.split; intro conjI allI impI; intro effects assms)
  show "keeps R (disarm env coordinator)" and "keeps R (observe_recovery env doc r marker hostname)"
    unfolding disarm_def observe_recovery_def Let_def by (intro effects assms)+
qed

end

section \<open>The journal does not go back\<close>

interpretation evolving_effects: updater_effects journal_evolves
  by unfold_locales (simp_all add: journal_evolves_def file_evolves_refl)

lemma keeps_journal [effects]:
  "keeps journal_evolves (checkpoint_v2 env oid status cp h cid rb code msg)"
  "keeps journal_evolves (takeover_v2 env oid coordinator)"
  "keeps journal_evolves (start_v2 env doc coordinator)"
  by (simp_all add: keeps_def checkpoint_evolves takeover_evolves start_evolves)

lemma keeps_record [effects]:
  assumes "services_keep journal_evolves env"
  shows "keeps journal_evolves (forward_checkpoint env oid status cp h cid)"
    and "keeps journal_evolves (rollback_checkpoint env oid status cp h cid rb error)"
  unfolding forward_checkpoint_def rollback_checkpoint_def by (intro effects assms)+

lemma forward_step_evolves [effects]:
  assumes "services_keep journal_evolves env"
  shows "keeps journal_evolves (forward_step env coordinator doc oid r)"
  unfolding forward_step_def Let_def
  by (cases "jr_checkpoint r"; simp; (intro conjI impI)?; intro effects assms)

lemma rollback_step_evolves [effects]:
  assumes "services_keep journal_evolves env"
  shows "keeps journal_evolves (rollback_step env coordinator doc oid p r)"
  unfolding rollback_step_def Let_def
  by (cases "jr_checkpoint r"; simp; intro effects assms)

text \<open>A loop keeps what its step keeps.\<close>

lemma bind_evolves:
  assumes "keeps journal_evolves m" and "\<And>x s1. m w = (Inr x, s1) \<Longrightarrow> journal_evolves s1 (snd (f x s1))"
  shows "journal_evolves w (snd (bindA m f w))"
proof (cases "m w")
  case (Pair r s1)
  then have "journal_evolves w s1" using assms(1) by (auto simp: keeps_def dest: spec [of _ w])
  then show ?thesis
    using assms(2) Pair by (cases r) (auto simp: bindA_def intro: journal_evolves_trans)
qed

lemma forward_loop_evolves [effects]:
  assumes "services_keep journal_evolves env"
  shows "keeps journal_evolves (forward_loop env coordinator doc oid r)"
proof -
  have "journal_evolves w (snd (forward_loop env coordinator doc oid r w))" for w
    using assms
  proof (induction env coordinator doc oid r w rule: forward_loop.induct)
    case (1 env coordinator doc oid r w)
    show ?case
      by (subst forward_loop.simps)
        (auto intro: bind_evolves forward_step_evolves 1 simp: journal_evolves_refl)
  qed
  then show ?thesis by (simp add: keeps_def)
qed

lemma rollback_loop_evolves [effects]:
  assumes "services_keep journal_evolves env"
  shows "keeps journal_evolves (rollback_loop env coordinator doc oid p r)"
proof -
  have "journal_evolves w (snd (rollback_loop env coordinator doc oid p r w))" for w
    using assms
  proof (induction env coordinator doc oid p r w rule: rollback_loop.induct)
    case (1 env coordinator doc oid p r w)
    show ?case
      by (subst rollback_loop.simps)
        (auto intro: bind_evolves rollback_step_evolves 1 simp: journal_evolves_refl)
  qed
  then show ?thesis by (simp add: keeps_def)
qed

lemma load_or_start_evolves [effects]:
  fixes env :: "'p updater_env"
  assumes "services_keep journal_evolves env"
  shows "keeps journal_evolves (load_or_start env coordinator doc)"
proof -
  let ?new = "thenA (ue_hook env (FaultBefore ''initialized''))
             (bindA (start_v2 (ue_journal env) doc coordinator) (\<lambda>r.
              thenA (ue_hook env FaultInitialized) (retA r)))"
  let ?old = "bindA (read_journal (h_operation_id doc)) (\<lambda>result.
             case result of Inl _ \<Rightarrow> raiseA (machine_exn ''v1 result'') | Inr r \<Rightarrow> retA r)
             :: ('p update_world, updater_result_v2) act"
  have "keeps journal_evolves ?new" and "keeps journal_evolves ?old"
    by (intro effects assms)+
  then show ?thesis by (simp add: keeps_def load_or_start_def)
qed

lemma execute_evolves [effects]:
  assumes "services_keep journal_evolves env"
  shows "keeps journal_evolves (forward_execute env coordinator oid)"
    and "keeps journal_evolves (rollback_execute env coordinator oid)"
  unfolding forward_execute_def rollback_execute_def roll_back_def enter_or_resume_def
    record_rollback_failed_def readable_result_def handoff_of_def require_candidate_id_def
    observe_for_def Let_def
  by (intro effects assms)+

lemma take_over_evolves [effects]:
  assumes "services_keep journal_evolves (co_updater env)"
  shows "keeps journal_evolves (take_over env coordinator doc r)"
  unfolding take_over_def mark_recovery_exhausted_def Let_def by (intro effects assms)

lemma coordinator_evolves [effects]:
  assumes "services_keep journal_evolves (co_updater env)"
  shows "keeps journal_evolves (run_forward env coordinator)"
    and "keeps journal_evolves (run_rollback env coordinator)"
    and "keeps journal_evolves (finish_coordination env coordinator)"
    and "keeps journal_evolves (manual env coordinator)"
  unfolding run_forward_def run_rollback_def finish_coordination_def manual_def by (intro effects assms)+

lemma act_on_evolves [effects]:
  assumes "services_keep journal_evolves (co_updater env)"
  shows "keeps journal_evolves (act_on env coordinator doc r marker hostname ob)"
  unfolding act_on_def reconcile_commit_def Let_def by (intro effects assms)

lemma recover_v2_evolves [effects]:
  assumes "services_keep journal_evolves (co_updater env)"
  shows "keeps journal_evolves (recover_v2 env hostname coordinator doc r)"
proof -
  have "keeps journal_evolves
      (bindA (observe_recovery env doc r marker hostname) (\<lambda>ob.
          if io_status (ob_coordinator ob) \<noteq> Matched then manual env coordinator
          else bindA (take_over env coordinator doc r) (\<lambda>taken.
               case taken of
                 None \<Rightarrow> manual env coordinator
               | Some r' \<Rightarrow> act_on env coordinator doc r' marker hostname ob)))" for marker
    by (intro effects assms)
  moreover have "keeps journal_evolves (manual env coordinator)" by (intro effects assms)
  ultimately show ?thesis
    by (auto simp: keeps_def recover_v2_def Let_def split: option.splits sum.splits)
qed

lemma run_locked_evolves [effects]:
  assumes "services_keep journal_evolves (co_updater env)"
  shows "keeps journal_evolves (run_locked env)"
proof -
  have "keeps journal_evolves (read_optional_result oid)" for oid
    by (auto simp: keeps_def read_optional_result_def journal_evolves_refl bindA_def retA_def
        read_journal_world split: prod.splits sum.splits)
      (metis read_journal_world snd_conv journal_evolves_refl)+
  then show ?thesis
    unfolding run_locked_def handoff_of_def Let_def by (intro effects assms)
qed

lemma coordinate_once_evolves:
  assumes "services_keep journal_evolves (co_updater env)"
    and "keeps journal_evolves (co_acquire env)" and "keeps journal_evolves (co_release env)"
  shows "keeps journal_evolves (coordinate_once env)"
  unfolding coordinate_once_def finallyA_def by (intro effects assms)

end
