(* ===== verification/UpdaterGuard.thy ===== *)
theory UpdaterGuard
  imports UpdaterEffects
begin

text \<open>
  The journal is written ahead: what the updater does to containers and snapshots, it does only
  while the journal shows the checkpoint that announces it.  Stated as an equality: a Docker engine
  and a snapshot service that refuse whatever the journal does not permit change nothing.
\<close>

section \<open>What the journal permits\<close>

datatype effect =
    StopContainer | RenameContainer | CreateContainer | StartContainer | RemoveContainer
  | TakeSnapshot | RestoreSnapshot

fun permitted :: "updater_result_v2 \<Rightarrow> effect \<Rightarrow> bool" where
  "permitted r StopContainer \<longleftrightarrow> jr_checkpoint r \<in> {OldRestartFenced, RollbackStarted}"
| "permitted r RenameContainer \<longleftrightarrow> jr_checkpoint r \<in> {SnapshotVerified, CandidateEvidenceRemoved}"
| "permitted r CreateContainer \<longleftrightarrow> jr_checkpoint r = OldRenamed"
| "permitted r StartContainer \<longleftrightarrow>
     jr_checkpoint r \<in> {CandidateCreated, OldPolicyRestored} \<or> jr_status r = UsCommitRequested"
| "permitted r RemoveContainer \<longleftrightarrow> jr_status r = UsSuccess \<or> jr_checkpoint r = CandidateStopped"
| "permitted r TakeSnapshot \<longleftrightarrow> jr_checkpoint r = PendingReady"
| "permitted r RestoreSnapshot \<longleftrightarrow> jr_checkpoint r = CandidateRemoved"

definition journal_permits :: "string \<Rightarrow> effect \<Rightarrow> 'p update_world \<Rightarrow> bool" where
  "journal_permits oid e w =
     (case uw_journal w oid of JournalV2 r \<Rightarrow> permitted r e | _ \<Rightarrow> False)"

definition guarded ::
    "string \<Rightarrow> effect \<Rightarrow> ('p update_world, 'a) act \<Rightarrow> ('p update_world, 'a) act" where
  "guarded oid e m w =
     (if journal_permits oid e w then m w else (Inl (tagged COther ''not permitted''), w))"

definition guarded_engine ::
    "string \<Rightarrow> 'p update_world docker_engine \<Rightarrow> 'p update_world docker_engine" where
  "guarded_engine oid engine = engine
     \<lparr>de_stop_container := \<lambda>c t. guarded oid StopContainer (de_stop_container engine c t),
      de_rename_container := \<lambda>c n. guarded oid RenameContainer (de_rename_container engine c n),
      de_create_container := \<lambda>n conf. guarded oid CreateContainer (de_create_container engine n conf),
      de_start_container := \<lambda>c. guarded oid StartContainer (de_start_container engine c),
      de_remove_container := \<lambda>c. guarded oid RemoveContainer (de_remove_container engine c)\<rparr>"

definition guarded_updater :: "string \<Rightarrow> 'p updater_env \<Rightarrow> 'p updater_env" where
  "guarded_updater oid env = env
     \<lparr>ue_engine := guarded_engine oid (ue_engine env),
      ue_snapshot_create := \<lambda>o'. guarded oid TakeSnapshot (ue_snapshot_create env o'),
      ue_snapshot_restore := \<lambda>o'. guarded oid RestoreSnapshot (ue_snapshot_restore env o')\<rparr>"

definition guarded_coordinator :: "'p coordinator_env \<Rightarrow> 'p coordinator_env" where
  "guarded_coordinator env = env
     \<lparr>co_updater := guarded_updater (co_operation_id env) (co_updater env)\<rparr>"

section \<open>Nobody else writes the journal\<close>

definition same_journal :: "'p update_world \<Rightarrow> 'p update_world \<Rightarrow> bool" where
  "same_journal w w' \<longleftrightarrow> uw_journal w' = uw_journal w"

definition journal_at :: "string \<Rightarrow> updater_result_v2 \<Rightarrow> 'p update_world \<Rightarrow> bool" where
  "journal_at oid r w \<longleftrightarrow> uw_journal w oid = JournalV2 r"

interpretation journal_kept: updater_effects same_journal
  by unfold_locales (simp_all add: same_journal_def)

lemma same_journal_at:
  "keeps same_journal m \<Longrightarrow> journal_at oid r w \<Longrightarrow> journal_at oid r (snd (m w))"
  by (simp add: keeps_def same_journal_def journal_at_def)

section \<open>Actions that agree while the journal stays\<close>

definition agree_on :: "('s \<Rightarrow> bool) \<Rightarrow> ('s, 'a) act \<Rightarrow> ('s, 'a) act \<Rightarrow> bool" where
  "agree_on P m m' \<longleftrightarrow> (\<forall>w. P w \<longrightarrow> m w = m' w)"

named_theorems agree \<open>actions that agree\<close>

lemma agree_refl [agree]: "agree_on P m m"
  by (simp add: agree_on_def)

lemma agree_bind [agree]:
  fixes m :: "('p update_world, 'a) act"
  assumes "agree_on (journal_at oid r) m m'" and "keeps same_journal m'"
    and "\<And>x. agree_on (journal_at oid r) (f x) (f' x)"
  shows "agree_on (journal_at oid r) (bindA m f) (bindA m' f')"
  unfolding agree_on_def
proof (intro allI impI)
  fix w :: "'p update_world"
  assume "journal_at oid r w"
  then have "m w = m' w" and "journal_at oid r (snd (m' w))"
    using assms(1) same_journal_at [OF assms(2)] by (simp_all add: agree_on_def)
  then show "bindA m f w = bindA m' f' w"
    using assms(3) by (cases "m' w"; cases "fst (m' w)") (auto simp: agree_on_def bindA_def)
qed

lemma agree_if [agree]:
  "(b \<Longrightarrow> agree_on P m m') \<Longrightarrow> (\<not> b \<Longrightarrow> agree_on P n n') \<Longrightarrow>
   agree_on P (if b then m else n) (if b then m' else n')"
  by simp

lemma agree_option [agree]:
  "agree_on P m m' \<Longrightarrow> (\<And>y. agree_on P (n y) (n' y)) \<Longrightarrow>
   agree_on P (case x of None \<Rightarrow> m | Some y \<Rightarrow> n y) (case x of None \<Rightarrow> m' | Some y \<Rightarrow> n' y)"
  by (cases x) simp_all

lemma agree_guarded [agree]:
  "permitted r e \<Longrightarrow> agree_on (journal_at oid r) (guarded oid e m) m"
  by (simp add: agree_on_def guarded_def journal_permits_def journal_at_def)

lemma guarded_engine_simps [simp]:
  "de_list_containers (guarded_engine oid engine) = de_list_containers engine"
  "de_inspect_container (guarded_engine oid engine) = de_inspect_container engine"
  "de_inspect_image (guarded_engine oid engine) = de_inspect_image engine"
  "de_update_restart_policy (guarded_engine oid engine) = de_update_restart_policy engine"
  "de_wait_container (guarded_engine oid engine) = de_wait_container engine"
  "de_stop_container (guarded_engine oid engine) c t = guarded oid StopContainer (de_stop_container engine c t)"
  "de_rename_container (guarded_engine oid engine) c n =
     guarded oid RenameContainer (de_rename_container engine c n)"
  "de_create_container (guarded_engine oid engine) n config =
     guarded oid CreateContainer (de_create_container engine n config)"
  "de_start_container (guarded_engine oid engine) c = guarded oid StartContainer (de_start_container engine c)"
  "de_remove_container (guarded_engine oid engine) c = guarded oid RemoveContainer (de_remove_container engine c)"
  by (simp_all add: guarded_engine_def)

lemma guarded_updater_simps [simp]:
  "ue_engine (guarded_updater oid env) = guarded_engine oid (ue_engine env)"
  "ue_journal (guarded_updater oid env) = ue_journal env"
  "ue_candidate (guarded_updater oid env) = ue_candidate env"
  "ue_sha256 (guarded_updater oid env) = ue_sha256 env"
  "ue_socket_path (guarded_updater oid env) = ue_socket_path env"
  "ue_stop_timeout (guarded_updater oid env) = ue_stop_timeout env"
  "ue_hook (guarded_updater oid env) = ue_hook env"
  "ue_snapshot_exists (guarded_updater oid env) = ue_snapshot_exists env"
  "ue_snapshot_link (guarded_updater oid env) = ue_snapshot_link env"
  "ue_snapshot_verify (guarded_updater oid env) = ue_snapshot_verify env"
  "ue_verify (guarded_updater oid env) = ue_verify env"
  "ue_verify_previous (guarded_updater oid env) = ue_verify_previous env"
  "ue_commit_wait (guarded_updater oid env) = ue_commit_wait env"
  "ue_operations_safe (guarded_updater oid env) = ue_operations_safe env"
  "ue_evidence_link (guarded_updater oid env) = ue_evidence_link env"
  "ue_unlink (guarded_updater oid env) = ue_unlink env"
  "ue_snapshot_create (guarded_updater oid env) o' = guarded oid TakeSnapshot (ue_snapshot_create env o')"
  "ue_snapshot_restore (guarded_updater oid env) o' = guarded oid RestoreSnapshot (ue_snapshot_restore env o')"
  by (simp_all add: guarded_updater_def)

lemma guarded_inspect_all [simp]: "inspect_all (guarded_engine oid engine) cids = inspect_all engine cids"
  by (induction cids) simp_all

lemma guarded_observe [simp]:
  "observe sha256 (guarded_engine oid engine) = observe sha256 engine"
  by (intro ext) (simp add: observe_def)

lemma guarded_observe_for [simp]: "observe_for (guarded_updater oid env) = observe_for env"
  by (intro ext) (simp add: observe_for_def)

lemma guarded_observe_safe [simp]: "observe_safe (guarded_updater oid env) = observe_safe env"
  by (intro ext) (simp add: observe_safe_def)

lemma guarded_token [simp]: "token_hash_of (guarded_updater oid env) = token_hash_of env"
  by (intro ext) (simp add: token_hash_of_def)

lemma guarded_unlink [simp]: "unlink_evidence (guarded_updater oid env) = unlink_evidence env"
  by (intro ext) (simp add: unlink_evidence_def)

lemma agree_around [agree]:
  assumes "services_keep same_journal env"
    and "agree_on (journal_at oid r) m m'" and "keeps same_journal m'"
  shows "agree_on (journal_at oid r) (around (guarded_updater oid env) phase m) (around env phase m')"
  unfolding around_def by (simp, intro agree effects assms)

section \<open>The executors\<close>

lemma agree_forward_effects:
  assumes "services_keep same_journal env"
  shows "fence_old_restart (guarded_updater oid env) = fence_old_restart env"
    and "permitted r StopContainer \<Longrightarrow>
      agree_on (journal_at oid r) (stop_old (guarded_updater oid env) doc) (stop_old env doc)"
    and "permitted r TakeSnapshot \<Longrightarrow>
      agree_on (journal_at oid r) (ensure_snapshot (guarded_updater oid env) o') (ensure_snapshot env o')"
    and "permitted r RenameContainer \<Longrightarrow>
      agree_on (journal_at oid r) (rename_old (guarded_updater oid env) doc) (rename_old env doc)"
    and "permitted r CreateContainer \<Longrightarrow>
      agree_on (journal_at oid r) (ensure_candidate (guarded_updater oid env) c doc r' p)
        (ensure_candidate env c doc r' p)"
    and "permitted r StartContainer \<Longrightarrow>
      agree_on (journal_at oid r) (start_candidate (guarded_updater oid env) cid)
        (start_candidate env cid)"
    and "permitted r RemoveContainer \<Longrightarrow>
      agree_on (journal_at oid r) (cleanup_old (guarded_updater oid env) doc r')
        (cleanup_old env doc r')"
  unfolding stop_old_def ensure_snapshot_def rename_old_def ensure_candidate_def start_candidate_def
    cleanup_old_def Let_def
  subgoal by (intro ext; unfold fence_old_restart_def around_def Let_def guarded_updater_simps guarded_engine_simps; rule refl)
  unfolding require_source_identity_def observe_for_def
  by (unfold guarded_updater_simps guarded_engine_simps guarded_observe; intro agree effects assms; assumption)+

lemma agree_rollback_effects:
  assumes "services_keep same_journal env"
  shows "remove_candidate_evidence (guarded_updater oid env) = remove_candidate_evidence env"
    and "restore_old_policy (guarded_updater oid env) = restore_old_policy env"
    and "permitted r StopContainer \<Longrightarrow>
      agree_on (journal_at oid r) (stop_candidate (guarded_updater oid env) c doc r' p)
        (stop_candidate env c doc r' p)"
    and "permitted r RemoveContainer \<Longrightarrow>
      agree_on (journal_at oid r) (remove_candidate (guarded_updater oid env) c doc r' p)
        (remove_candidate env c doc r' p)"
    and "permitted r RestoreSnapshot \<Longrightarrow>
      agree_on (journal_at oid r) (restore_snapshot (guarded_updater oid env) o') (restore_snapshot env o')"
    and "permitted r RenameContainer \<Longrightarrow>
      agree_on (journal_at oid r) (restore_old_name (guarded_updater oid env) doc r')
        (restore_old_name env doc r')"
    and "permitted r StartContainer \<Longrightarrow>
      agree_on (journal_at oid r) (start_old (guarded_updater oid env) doc r') (start_old env doc r')"
  unfolding stop_candidate_def remove_candidate_def restore_snapshot_def restore_old_name_def
    start_old_def Let_def
  subgoal by (intro ext) (simp add: remove_candidate_evidence_def around_def)
  subgoal by (intro ext; unfold restore_old_policy_def around_def Let_def guarded_updater_simps guarded_engine_simps; rule refl)
  unfolding observed_candidate_id_def require_source_matches_def
  by (unfold guarded_updater_simps guarded_engine_simps guarded_observe_safe; intro agree effects assms; assumption)+

section \<open>The steps\<close>

lemma written_journal:
  "write_journal env b oid (JournalV2 r) w = (Inr u, w') \<Longrightarrow> journal_at oid r w'"
  by (auto simp: write_journal_def put_journal_def journal_at_def
      split: disk_outcome.splits if_splits)

lemma checkpoint_journal:
  assumes "checkpoint_v2 env oid status cp h cid rb code msg w = (Inr r, w')"
  shows "journal_at oid r w'"
  using assms read_v2_Inr [of oid w]
  by (auto simp: checkpoint_v2_def bindA_eq_Inr checkpoint_record_def Let_def retA_run
      dest: written_journal split: if_splits sum.splits)

lemma takeover_journal:
  assumes "takeover_v2 env oid coordinator w = (Inr r, w')"
  shows "journal_at oid r w'" and "jr_status r \<notin> UPDATER_TERMINAL_STATUSES"
  using assms read_v2_Inr [of oid w]
  by (auto simp: takeover_v2_def bindA_eq_Inr Let_def retA_run dest: written_journal
      split: if_splits)

lemma start_journal:
  assumes "start_v2 env doc coordinator w = (Inr r, w')"
  shows "journal_at (h_operation_id doc) r w'"
  using assms
  by (auto simp: start_v2_def Let_def bindA_eq_Inr retA_run dest: written_journal
      split: if_splits sum.splits)

lemma after_hook:
  assumes "thenA m (retA r) w = (Inr r', w')" and "keeps same_journal m" and "journal_at oid r w"
  shows "journal_at oid r' w'"
  using assms same_journal_at [OF assms(2,3)] by (auto simp: bindA_eq_Inr retA_run)

lemma forward_checkpoint_journal:
  assumes "forward_checkpoint env oid status cp h cid w = (Inr r, w')"
    and "services_keep same_journal env"
  shows "journal_at oid r w'"
proof -
  obtain r0 w1 w2 where
    "checkpoint_v2 (ue_journal env) oid status cp h cid None None None w1 = (Inr r0, w2)"
    and "thenA (ue_hook env (FaultAfterCheckpoint status cp)) (retA r0) w2 = (Inr r, w')"
    using assms(1) unfolding forward_checkpoint_def by (blast elim: bindA_eq_Inr [THEN iffD1, elim_format])
  then show ?thesis by (blast intro: after_hook checkpoint_journal services_keep assms(2))
qed

lemma rollback_checkpoint_journal:
  assumes "rollback_checkpoint env oid status cp h cid rb error w = (Inr r, w')"
    and "services_keep same_journal env"
  shows "journal_at oid r w'"
proof -
  obtain current r0 w1 w2 where
    "checkpoint_v2 (ue_journal env) oid status cp h cid rb (fst (inherited_error current error))
       (snd (inherited_error current error)) w1 = (Inr r0, w2)"
    and "thenA (ue_hook env (FaultAfterCheckpoint status cp)) (retA r0) w2 = (Inr r, w')"
    using assms(1) unfolding rollback_checkpoint_def by (blast elim: bindA_eq_Inr [THEN iffD1, elim_format])
  then show ?thesis by (blast intro: after_hook checkpoint_journal services_keep assms(2))
qed

lemma forward_step_journal:
  assumes "forward_step env coordinator doc oid r w = (Inr r', w')"
    and "services_keep same_journal env"
  shows "journal_at oid r' w'"
  using assms(1)
  by (cases "jr_checkpoint r")
    (auto simp: forward_step_def bindA_eq_Inr raiseA_run Let_def split: if_splits
      intro: forward_checkpoint_journal [OF _ assms(2)])

lemma rollback_step_journal:
  assumes "rollback_step env coordinator doc oid p r w = (Inr r', w')"
    and "services_keep same_journal env"
  shows "journal_at oid r' w'"
  using assms(1)
  by (cases "jr_checkpoint r")
    (auto simp: rollback_step_def bindA_eq_Inr raiseA_run Let_def split: if_splits
      intro: rollback_checkpoint_journal [OF _ assms(2)])

lemma guarded_checkpoints [simp]:
  "forward_checkpoint (guarded_updater oid env) = forward_checkpoint env"
  "rollback_checkpoint (guarded_updater oid env) = rollback_checkpoint env"
  by (intro ext; simp add: forward_checkpoint_def rollback_checkpoint_def)+

lemma agree_forward_step:
  assumes "services_keep same_journal env"
  shows "agree_on (journal_at oid r) (forward_step (guarded_updater oid env) c doc oid r)
    (forward_step env c doc oid r)"
  unfolding forward_step_def Let_def guarded_checkpoints guarded_updater_simps guarded_token
    require_candidate_identity_def guarded_observe_for agree_forward_effects(1) [OF assms]
  by (cases "jr_checkpoint r"; simp; (intro conjI impI)?;
      intro agree effects agree_forward_effects assms; simp)

lemma agree_rollback_step:
  assumes "services_keep same_journal env"
  shows "agree_on (journal_at oid r) (rollback_step (guarded_updater oid env) c doc oid p r)
    (rollback_step env c doc oid p r)"
  unfolding rollback_step_def Let_def guarded_checkpoints guarded_updater_simps
    agree_rollback_effects(1,2) [OF assms]
  by (cases "jr_checkpoint r"; simp;
      intro agree effects agree_rollback_effects assms; simp)

section \<open>The loops\<close>

lemma forward_loop_journal:
  assumes "journal_at oid r w" and "services_keep same_journal env"
    and "forward_loop env c doc oid r w = (Inr r', w')"
  shows "journal_at oid r' w' \<and> jr_status r' = UsSuccess"
  using assms
proof (induction env c doc oid r w rule: forward_loop.induct)
  case (1 env c doc oid r w)
  show ?case
  proof (cases "jr_status r = UsSuccess")
    case True
    with 1 show ?thesis by (simp add: forward_loop.simps)
  next
    case False
    with 1(4) obtain r1 w1 where step: "forward_step env c doc oid r w = (Inr r1, w1)"
      and rest: "forward_loop env c doc oid r1 w1 = (Inr r', w')"
      by (subst (asm) forward_loop.simps) (auto simp: bindA_eq_Inr)
    show ?thesis
      by (rule 1(1) [OF False step forward_step_journal [OF step 1(3)] 1(3) rest])
  qed
qed

lemma forward_loop_guarded:
  assumes "journal_at oid r w" and "services_keep same_journal env"
  shows "forward_loop (guarded_updater oid env) c doc oid r w = forward_loop env c doc oid r w"
  using assms
proof (induction env c doc oid r w rule: forward_loop.induct)
  case (1 env c doc oid r w)
  have "forward_step (guarded_updater oid env) c doc oid r w = forward_step env c doc oid r w"
    using agree_forward_step [OF 1(3), of oid r c doc] 1(2) by (simp add: agree_on_def)
  then show ?case
    by (subst (1 2) forward_loop.simps)
      (auto intro!: bindA_cong 1(1) 1(3) dest: forward_step_journal [OF _ 1(3)])
qed

lemma rollback_loop_journal:
  assumes "journal_at oid r w" and "services_keep same_journal env"
    and "rollback_loop env c doc oid p r w = (Inr r', w')"
  shows "journal_at oid r' w' \<and> jr_status r' = UsRolledBack"
  using assms
proof (induction env c doc oid p r w rule: rollback_loop.induct)
  case (1 env c doc oid p r w)
  show ?case
  proof (cases "jr_status r = UsRolledBack")
    case True
    with 1 show ?thesis by (simp add: rollback_loop.simps)
  next
    case False
    with 1(4) obtain r1 w1 where step: "rollback_step env c doc oid p r w = (Inr r1, w1)"
      and rest: "rollback_loop env c doc oid p r1 w1 = (Inr r', w')"
      by (subst (asm) rollback_loop.simps) (auto simp: bindA_eq_Inr)
    show ?thesis
      by (rule 1(1) [OF False step rollback_step_journal [OF step 1(3)] 1(3) rest])
  qed
qed

lemma rollback_loop_guarded:
  assumes "journal_at oid r w" and "services_keep same_journal env"
  shows "rollback_loop (guarded_updater oid env) c doc oid p r w = rollback_loop env c doc oid p r w"
  using assms
proof (induction env c doc oid p r w rule: rollback_loop.induct)
  case (1 env c doc oid p r w)
  have "rollback_step (guarded_updater oid env) c doc oid p r w = rollback_step env c doc oid p r w"
    using agree_rollback_step [OF 1(3), of oid r c doc p] 1(2) by (simp add: agree_on_def)
  then show ?case
    by (subst (1 2) rollback_loop.simps)
      (auto intro!: bindA_cong 1(1) 1(3) dest: rollback_step_journal [OF _ 1(3)])
qed

section \<open>Executing\<close>

lemma read_result_journal:
  assumes "read_journal oid w = (Inr (Inr r), w')"
  shows "journal_at oid r w'" and "jr_operation_id r = oid" and "validate_invariants r"
  using assms by (auto simp: read_journal_def journal_at_def split: journal_file.splits if_splits)

lemma load_or_start_journal:
  assumes "load_or_start env c doc w = (Inr r, w')" and "services_keep same_journal env"
  shows "journal_at (h_operation_id doc) r w'"
proof (cases "uw_journal w (h_operation_id doc) = JournalMissing")
  case True
  then obtain r0 w1 w2 where "start_v2 (ue_journal env) doc c w1 = (Inr r0, w2)"
    and "thenA (ue_hook env FaultInitialized) (retA r0) w2 = (Inr r, w')"
    using assms(1) unfolding load_or_start_def
    by (simp, blast elim: bindA_eq_Inr [THEN iffD1, elim_format])
  then show ?thesis by (blast intro: after_hook start_journal services_keep assms(2))
next
  case False
  then obtain result w1 where read: "read_journal (h_operation_id doc) w = (Inr result, w1)"
    and "(case result of Inl _ \<Rightarrow> raiseA (machine_exn ''v1 result'') | Inr r \<Rightarrow> retA r) w1 = (Inr r, w')"
    using assms(1) by (auto simp: load_or_start_def bindA_eq_Inr)
  then show ?thesis
    by (cases result) (auto simp: retA_run raiseA_run dest: read_result_journal)
qed

lemma handoff_operation:
  "handoff_of oid w = (Inr doc, w') \<Longrightarrow> h_operation_id doc = oid \<and> w' = w"
  by (auto simp: handoff_of_def inspectA_def read_handoff_def split: if_splits handoff_file.splits)

lemma forward_execute_guarded:
  assumes "services_keep same_journal env"
  shows "forward_execute (guarded_updater oid env) c oid w = forward_execute env c oid w"
proof -
  have start: "load_or_start (guarded_updater oid env) = load_or_start env"
    by (intro ext) (simp add: load_or_start_def)
  have clean: "cleanup_old (guarded_updater (h_operation_id doc) env) doc r w2 = cleanup_old env doc r w2"
    if "load_or_start env c doc w = (Inr r0, w1)"
      and "forward_loop env c doc (h_operation_id doc) r0 w1 = (Inr r, w2)" for doc r0 r w w1 w2
    using forward_loop_journal [OF load_or_start_journal [OF that(1) assms] assms that(2)]
      agree_forward_effects(7) [OF assms, of r "h_operation_id doc" doc r] by (simp add: agree_on_def)
  have id: "require_candidate_id r w = (Inr x, w') \<Longrightarrow> w' = w" for r x and w w' :: "'a update_world"
    by (auto simp: require_candidate_id_def retA_run raiseA_run split: option.splits)
  have guard: "guardA b e w = (Inr x, w') \<Longrightarrow> w' = w" for b e x and w w' :: "'a update_world"
    by (auto simp: guardA_def retA_run raiseA_run split: if_splits)
  have built: "updater_constructed (guarded_updater oid env) c = updater_constructed env c"
    by (simp add: updater_constructed_def)
  show ?thesis
    unfolding forward_execute_def start built
    by (intro bindA_cong refl)
      (auto dest!: handoff_operation guard id
        dest: load_or_start_journal [OF _ assms]
        simp: forward_loop_guarded [OF _ assms] intro!: bindA_cong intro: clean)
qed

lemma journal_still:
  "m w = (x, w') \<Longrightarrow> keeps same_journal m \<Longrightarrow> journal_at oid r w \<Longrightarrow> journal_at oid r w'"
  using same_journal_at [of m oid r w] by simp

lemma enter_journal:
  assumes "enter_or_resume env c doc r0 w = (Inr (r, p), w')" and "services_keep same_journal env"
    and "journal_at (h_operation_id doc) r0 w"
  shows "journal_at (h_operation_id doc) r w'"
proof (cases "jr_status r0 = UsRollingBack")
  case True
  let ?m = "thenA (if jr_status r0 \<noteq> UsRollingBack then ue_hook env (FaultBefore ''rollback_started'')
              else retA ())
      (bindA (prepare (ue_candidate env) doc) (\<lambda>p.
       thenA (guardA (jr_candidate_token_hash r0 \<in> {None, Some (token_hash_of env p)})
                (machine_exn ''rollback token'')) (retA (r0, p))))"
  have "?m w = (Inr (r, p), w')" using assms(1) True by (simp add: enter_or_resume_def)
  moreover have "r = r0" using calculation by (auto simp: bindA_eq_Inr retA_run)
  moreover have "keeps same_journal ?m" by (intro effects assms)
  ultimately show ?thesis using journal_still assms(3) by blast
next
  case False
  then show ?thesis
    using assms(1)
    by (auto simp: enter_or_resume_def bindA_eq_Inr retA_run raiseA_run split: option.splits
        dest!: rollback_checkpoint_journal [OF _ assms(2)])
qed

lemma guarded_enter [simp]:
  "enter_or_resume (guarded_updater oid env) = enter_or_resume env"
  "record_rollback_failed (guarded_updater oid env) = record_rollback_failed env"
  by (intro ext; unfold enter_or_resume_def record_rollback_failed_def guarded_updater_simps
      guarded_checkpoints guarded_token guarded_observe_for; rule refl)+

lemma tryA_cong: "m w = m' w \<Longrightarrow> tryA m w = tryA m' w"
  by (simp add: tryA_def)

lemma roll_back_guarded:
  assumes "services_keep same_journal env" and "journal_at (h_operation_id doc) r w"
  shows "roll_back (guarded_updater (h_operation_id doc) env) c doc (h_operation_id doc) r w =
    roll_back env c doc (h_operation_id doc) r w"
  unfolding roll_back_def guarded_enter
  by (intro bindA_cong tryA_cong refl)
    (auto intro: rollback_loop_guarded enter_journal assms)

lemma readable_journal:
  "readable_result c oid w = (Inr r, w') \<Longrightarrow> journal_at oid r w'"
  unfolding readable_result_def bindA_eq_Inr
  by (elim exE conjE; case_tac x; auto simp: raiseA_run retA_run dest: read_result_journal split: if_splits)

lemma rollback_execute_guarded:
  assumes "services_keep same_journal env"
  shows "rollback_execute (guarded_updater oid env) c oid w = rollback_execute env c oid w"
proof -
  have built: "updater_constructed (guarded_updater oid env) c = updater_constructed env c"
    by (simp add: updater_constructed_def)
  show ?thesis
    unfolding rollback_execute_def built
    by (intro bindA_cong refl)
      (auto dest!: handoff_operation readable_journal intro!: bindA_cong roll_back_guarded assms)
qed

section \<open>What a return means\<close>

lemma forward_execute_returns:
  assumes "services_keep same_journal env" and "forward_execute env c oid w = (Inr cid, w')"
  shows "\<exists>r. journal_at oid r w' \<and> jr_status r = UsSuccess \<and> jr_candidate_container_id r = Some cid"
proof -
  obtain doc w1 r0 w2 w3 r w4 w5 w6 where doc: "handoff_of oid w1 = (Inr doc, w2)"
    and load: "load_or_start env c doc w2 = (Inr r0, w3)"
    and loop: "forward_loop env c doc oid r0 w3 = (Inr r, w4)"
    and cid: "require_candidate_id r w4 = (Inr cid, w5)"
    and clean: "cleanup_old env doc r w5 = (Inr (), w6)" and "w' = w6"
    using assms(2) unfolding forward_execute_def bindA_eq_Inr
    by (auto simp: retA_run guardA_def raiseA_run split: if_splits)
  then have "journal_at oid r w4 \<and> jr_status r = UsSuccess"
    using forward_loop_journal [OF load_or_start_journal [OF load assms(1)] assms(1)]
      handoff_operation [OF doc] by simp
  moreover have "w5 = w4" and "jr_candidate_container_id r = Some cid"
    using cid by (auto simp: require_candidate_id_def retA_run raiseA_run split: option.splits)
  moreover have "keeps same_journal (cleanup_old env doc r)" by (intro effects assms)
  ultimately show ?thesis
    using same_journal_at [of "cleanup_old env doc r" oid r w5] clean \<open>w' = w6\<close> by auto
qed

lemma rollback_execute_returns:
  assumes "services_keep same_journal env" and "rollback_execute env c oid w = (Inr u, w')"
  shows "\<exists>r. journal_at oid r w' \<and> jr_status r = UsRolledBack"
proof -
  obtain doc w0 w1 r w2 where doc: "handoff_of oid w0 = (Inr doc, w1)"
    and read: "readable_result c oid w1 = (Inr r, w2)"
    and run: "(if jr_status r = UsRolledBack then retA () else roll_back env c doc oid r) w2 = (Inr u, w')"
    using assms(2) unfolding rollback_execute_def bindA_eq_Inr by blast
  note here = readable_journal [OF read]
  show ?thesis
  proof (cases "jr_status r = UsRolledBack")
    case True
    with run here show ?thesis by (auto simp: retA_run)
  next
    case False
    with run obtain r1 p w3 r2 where "enter_or_resume env c doc r w2 = (Inr (r1, p), w3)"
      and "rollback_loop env c doc oid p r1 w3 = (Inr r2, w')"
      by (auto simp: roll_back_def bindA_eq_Inr tryA_def retA_run raiseA_run
          split: prod.splits sum.splits if_splits)
    then show ?thesis
      using rollback_loop_journal enter_journal here handoff_operation [OF doc] assms(1) by blast
  qed
qed

section \<open>The coordinator\<close>

lemma guarded_coordinator_simps [simp]:
  "co_updater (guarded_coordinator env) = guarded_updater (co_operation_id env) (co_updater env)"
  "co_operation_id (guarded_coordinator env) = co_operation_id env"
  "co_hostname (guarded_coordinator env) = co_hostname env"
  "co_acquire (guarded_coordinator env) = co_acquire env"
  "co_release (guarded_coordinator env) = co_release env"
  by (simp_all add: guarded_coordinator_def)

lemma guarded_coordinator_same:
  "identify_current_coordinator (guarded_coordinator env) = identify_current_coordinator env"
  "disarm (guarded_coordinator env) = disarm env"
  "mark_recovery_exhausted (guarded_coordinator env) = mark_recovery_exhausted env"
  "observe_recovery (guarded_coordinator env) = observe_recovery env"
  by (intro ext; unfold identify_current_coordinator_def disarm_def mark_recovery_exhausted_def
      observe_recovery_def Let_def guarded_coordinator_simps guarded_updater_simps guarded_engine_simps
      guarded_observe guarded_token; rule refl)+

lemma guarded_coordinator_ends:
  "finish_coordination (guarded_coordinator env) = finish_coordination env"
  "manual (guarded_coordinator env) = manual env"
  "take_over (guarded_coordinator env) = take_over env"
  by (intro ext; unfold finish_coordination_def manual_def take_over_def guarded_coordinator_same
      guarded_coordinator_simps guarded_updater_simps; rule refl)+

lemma guarded_runs:
  assumes "services_keep same_journal (co_updater env)"
  shows "run_forward (guarded_coordinator env) c = run_forward env c"
    and "run_rollback (guarded_coordinator env) c = run_rollback env c"
  by (intro ext; simp add: run_forward_def run_rollback_def guarded_coordinator_ends bindA_def
      forward_execute_guarded [OF assms] rollback_execute_guarded [OF assms])+

lemma take_over_journal:
  assumes "take_over env c doc r w = (Inr (Some r'), w')"
    and "journal_at (co_operation_id env) r w" and "jr_status r \<notin> UPDATER_TERMINAL_STATUSES"
  shows "journal_at (co_operation_id env) r' w'"
proof (cases "jr_coordinator_container_id r = c")
  case True
  with assms show ?thesis by (simp add: take_over_def retA_run)
next
  case False
  obtain taken w1 where
    t: "takeover_v2 (ue_journal (co_updater env)) (co_operation_id env) c w = (taken, w1)"
    by fastforce
  with False assms show ?thesis
    by (cases taken)
      (auto simp: take_over_def bindA_def tryA_def retA_run raiseA_run takeover_journal
        split: if_splits sum.splits prod.splits)
qed

lemma decided_commit:
  "rd_action (decide_recovery (Some (Inr r)) ob) = ReconcileCommit \<Longrightarrow> jr_status r = UsCommitRequested"
  by (simp add: decide_recovery_def decide_v2_def manual_decision_def automatic_decision_def
      split: if_splits)

lemma act_on_guarded:
  assumes "services_keep same_journal (co_updater env)"
  shows "agree_on (journal_at (co_operation_id env) r)
    (act_on (guarded_coordinator env) c doc r marker hostname ob)
    (act_on env c doc r marker hostname ob)"
  unfolding act_on_def reconcile_commit_def guarded_runs [OF assms] guarded_coordinator_ends
    guarded_coordinator_same guarded_coordinator_simps guarded_updater_simps guarded_engine_simps Let_def
  by (intro agree effects assms) (simp add: decided_commit)

lemma recover_v2_guarded:
  assumes "services_keep same_journal (co_updater env)" and "journal_at (co_operation_id env) r w"
    and "jr_status r \<notin> UPDATER_TERMINAL_STATUSES"
  shows "recover_v2 (guarded_coordinator env) hostname c doc r w = recover_v2 env hostname c doc r w"
proof -
  have body: "bindA (observe_recovery env doc r marker hostname) (\<lambda>ob.
          if io_status (ob_coordinator ob) \<noteq> Matched then manual env c
          else bindA (take_over env c doc r) (\<lambda>taken.
               case taken of
                 None \<Rightarrow> manual env c
               | Some r' \<Rightarrow> act_on (guarded_coordinator env) c doc r' marker hostname ob)) w =
      bindA (observe_recovery env doc r marker hostname) (\<lambda>ob.
          if io_status (ob_coordinator ob) \<noteq> Matched then manual env c
          else bindA (take_over env c doc r) (\<lambda>taken.
               case taken of
                 None \<Rightarrow> manual env c
               | Some r' \<Rightarrow> act_on env c doc r' marker hostname ob)) w" for marker
  proof (intro bindA_cong refl)
    fix ob w1
    assume "observe_recovery env doc r marker hostname w = (Inr ob, w1)"
    then have here: "journal_at (co_operation_id env) r w1"
      by (rule journal_still) (intro effects assms)+
    have act: "act_on (guarded_coordinator env) c doc r' marker hostname ob w2 =
        act_on env c doc r' marker hostname ob w2" if "journal_at (co_operation_id env) r' w2" for r' w2
      using act_on_guarded [OF assms(1)] that by (simp add: agree_on_def)
    show "(if io_status (ob_coordinator ob) \<noteq> Matched then manual env c
          else bindA (take_over env c doc r) (\<lambda>taken.
               case taken of
                 None \<Rightarrow> manual env c
               | Some r' \<Rightarrow> act_on (guarded_coordinator env) c doc r' marker hostname ob)) w1 =
        (if io_status (ob_coordinator ob) \<noteq> Matched then manual env c
          else bindA (take_over env c doc r) (\<lambda>taken.
               case taken of
                 None \<Rightarrow> manual env c
               | Some r' \<Rightarrow> act_on env c doc r' marker hostname ob)) w1"
      by (auto intro!: bindA_cong act take_over_journal [OF _ here assms(3)] split: option.splits)
  qed
  show ?thesis
    unfolding recover_v2_def guarded_coordinator_same guarded_coordinator_ends
    by (simp add: body Let_def split: option.split sum.split)
qed

lemma optional_result_journal:
  "read_optional_result oid w = (Inr (Some (Inr r)), w') \<Longrightarrow> journal_at oid r w'"
  by (auto simp: read_optional_result_def bindA_eq_Inr retA_run dest: read_result_journal split: if_splits)

lemma run_locked_guarded:
  assumes "services_keep same_journal (co_updater env)"
  shows "run_locked (guarded_coordinator env) w = run_locked env w"
  unfolding run_locked_def Let_def guarded_coordinator_simps guarded_coordinator_same
    guarded_coordinator_ends guarded_runs [OF assms]
  by (intro bindA_cong refl)
    (auto split: option.splits sum.splits intro!: recover_v2_guarded assms dest: optional_result_journal)

lemma coordinate_once_guarded:
  assumes "services_keep same_journal (co_updater env)"
  shows "coordinate_once (guarded_coordinator env) w = coordinate_once env w"
  unfolding coordinate_once_def finallyA_def guarded_coordinator_simps
  by (intro bindA_cong refl)
    (auto split: sum.splits intro!: bindA_cong tryA_cong run_locked_guarded assms)

end
