(* ===== verification/UpdaterReconcile.thy ===== *)
theory UpdaterReconcile
  imports UpdaterJournal
begin

text \<open>
  The reconciler of the appliance (\<open>app/update_reconcile.py\<close>): it takes the progress of the updater
  from the journal into the database, commits or ends the update operation there, and removes the
  documents of an update that has ended.
\<close>

section \<open>Environment\<close>

text \<open>
  Whether the directories are what they should be, whether the database refuses a commit, the
  revision that the database shows, and which of the last file operations raises \<open>OSError\<close>.
\<close>

datatype cleanup_step = UnlinkEvidence | UnlinkHandoff | SyncOperations | UnlinkPending | SyncUpdate

record 'p reconcile_env =
  rc_directories_ok :: "'p update_world \<Rightarrow> bool"
  rc_refused :: "'p update_world \<Rightarrow> bool"
  rc_clock :: "'p update_world \<Rightarrow> datetime"
  rc_alembic :: "'p update_world \<Rightarrow> exn + string"
  rc_os_error :: "cleanup_step \<Rightarrow> 'p update_world \<Rightarrow> bool"
  rc_allow_active_commit :: bool

definition reconciliation_exn :: "string \<Rightarrow> exn" where
  "reconciliation_exn tag = tagged CReconciliation tag"

definition repository_exn :: exn where
  "repository_exn = tagged COther ''UpdateOperationStateError''"

section \<open>Progress\<close>

fun transition_all ::
    "datetime \<Rightarrow> update_status list \<Rightarrow> update_operation \<Rightarrow> db \<Rightarrow> exn + update_operation \<times> db" where
  "transition_all now [] u d = Inr (u, d)"
| "transition_all now (s # ss) u d =
     (case transition_active u s now d of
        Inl _ \<Rightarrow> Inl repository_exn
      | Inr (u', d') \<Rightarrow> transition_all now ss u' d')"

definition forward_order :: "update_status list" where
  "forward_order = [UpHandoff, UpSnapshotting, UpSwitching, UpVerifying]"

fun progress_target :: "updater_status \<Rightarrow> update_status option" where
  "progress_target UsSnapshotting = Some UpSnapshotting"
| "progress_target UsSwitching = Some UpSwitching"
| "progress_target UsVerifying = Some UpVerifying"
| "progress_target UsCommitRequested = Some UpVerifying"
| "progress_target UsRollingBack = Some UpRollingBack"
| "progress_target _ = None"

definition same_target :: "update_operation \<Rightarrow> pending_update_marker \<Rightarrow> bool" where
  "same_target u m \<longleftrightarrow>
     u_target_version u = Some (q_target_version m) \<and> u_target_digest u = Some (q_target_digest m)"

text \<open>\<open>_synchronize_active_progress\<close>: whether it moved, with the operation and the database.\<close>

definition synchronize_active_progress ::
    "datetime \<Rightarrow> update_operation \<Rightarrow> pending_update_marker \<Rightarrow> updater_result + updater_result_v2 \<Rightarrow> db \<Rightarrow>
     exn + bool \<times> update_operation \<times> db" where
  "synchronize_active_progress now u m result d =
     (case result of
        Inl _ \<Rightarrow> Inr (False, u, d)
      | Inr r \<Rightarrow>
          if \<not> same_target u m then Inl (reconciliation_exn ''progress target'')
          else case progress_target (jr_status r) of
                 None \<Rightarrow> Inr (False, u, d)
               | Some target \<Rightarrow>
          if u_status u = target then Inr (False, u, d)
          else if target = UpRollingBack
          then (if u_status u \<notin> set forward_order
                then Inl (reconciliation_exn ''rollback progress'')
                else bindR (transition_all now
                              ((if u_status u = UpHandoff then [UpSnapshotting] else []) @ [UpRollingBack])
                              u d) (\<lambda>(u', d'). Inr (True, u', d')))
          else if u_status u \<notin> set forward_order
          then Inl (reconciliation_exn ''forward progress'')
          else
            let current_index = index_of forward_order (u_status u);
                target_index = index_of forward_order target in
            if target_index < current_index then Inl (reconciliation_exn ''backward'')
            else bindR (transition_all now
                          (drop (current_index + 1) (take (target_index + 1) forward_order)) u d)
                   (\<lambda>(u', d'). Inr (current_index < target_index, u', d')))"

definition rollback_path :: "update_status \<Rightarrow> update_status list option" where
  "rollback_path s =
     (case s of
        UpHandoff \<Rightarrow> Some [UpSnapshotting, UpRollingBack]
      | UpSnapshotting \<Rightarrow> Some [UpRollingBack]
      | UpSwitching \<Rightarrow> Some [UpRollingBack]
      | UpVerifying \<Rightarrow> Some [UpRollingBack]
      | UpRollingBack \<Rightarrow> Some []
      | _ \<Rightarrow> None)"

definition advance_rollback_state ::
    "datetime \<Rightarrow> update_operation \<Rightarrow> pending_update_marker \<Rightarrow> db \<Rightarrow> exn + update_operation \<times> db" where
  "advance_rollback_state now u m d =
     (if \<not> same_target u m then Inl (reconciliation_exn ''rollback target'')
      else case rollback_path (u_status u) of
             None \<Rightarrow> Inl (reconciliation_exn ''rollback state'')
           | Some path \<Rightarrow> transition_all now path u d)"

section \<open>Evidence\<close>

definition validate_success_evidence ::
    "'p reconcile_env \<Rightarrow> pending_update_marker \<Rightarrow> string option \<Rightarrow> string option \<Rightarrow>
     'p update_world \<Rightarrow> exn + unit" where
  "validate_success_evidence env m target_version target_digest w =
     (case read_candidate_evidence (q_operation_id m) (q_candidate_token m)
             (uw_evidence w (q_operation_id m)) of
        Inl tag \<Rightarrow> Inl (reconciliation_exn tag)
      | Inr e \<Rightarrow>
          if ce_version e \<noteq> removeprefix ''v'' (q_target_version m) \<or>
             ce_revision e \<noteq> q_target_revision m \<or> ce_digest e \<noteq> q_target_digest m \<or>
             target_version \<noteq> Some (q_target_version m) \<or> target_digest \<noteq> Some (q_target_digest m)
          then Inl (reconciliation_exn ''evidence mismatch'')
          else case rc_alembic env w of
                 Inl _ \<Rightarrow> Inl (reconciliation_exn ''alembic'')
               | Inr revision \<Rightarrow>
                   require (ce_alembic_revision e = revision)
                     (reconciliation_exn ''evidence mismatch''))"

section \<open>Clean-up\<close>

text \<open>Unlinking a path that a link or a directory occupies is one of the operations that can fail.\<close>

definition cleanup_effect :: "string \<Rightarrow> cleanup_step \<Rightarrow> 'p update_world \<Rightarrow> 'p update_world" where
  "cleanup_effect oid step w =
     (case step of
        UnlinkEvidence \<Rightarrow> w\<lparr>uw_evidence := (uw_evidence w)(oid := EvidenceMissing)\<rparr>
      | UnlinkHandoff \<Rightarrow> w\<lparr>uw_handoff := (uw_handoff w)(oid := HandoffMissing)\<rparr>
      | UnlinkPending \<Rightarrow> w\<lparr>uw_pending := MarkerMissing\<rparr>
      | _ \<Rightarrow> w)"

fun cleanup_steps ::
    "'p reconcile_env \<Rightarrow> string \<Rightarrow> cleanup_step list \<Rightarrow> ('p update_world, unit) act" where
  "cleanup_steps env oid [] w = (Inr (), w)"
| "cleanup_steps env oid (step # steps) w =
     (if rc_os_error env step w then (Inl (reconciliation_exn ''cleanup''), w)
      else cleanup_steps env oid steps (cleanup_effect oid step w))"

definition cleanup :: "'p reconcile_env \<Rightarrow> string \<Rightarrow> ('p update_world, unit) act" where
  "cleanup env oid =
     cleanup_steps env oid [UnlinkEvidence, UnlinkHandoff, SyncOperations, UnlinkPending, SyncUpdate]"

section \<open>The reconciliation\<close>

definition result_status :: "updater_result + updater_result_v2 \<Rightarrow> updater_status" where
  "result_status result = (case result of Inl r \<Rightarrow> j1_status r | Inr r \<Rightarrow> jr_status r)"

definition result_updated_at :: "updater_result + updater_result_v2 \<Rightarrow> datetime" where
  "result_updated_at result = (case result of Inl r \<Rightarrow> j1_updated_at r | Inr r \<Rightarrow> jr_updated_at r)"

definition result_errors ::
    "updater_result + updater_result_v2 \<Rightarrow> string option \<times> string option" where
  "result_errors result =
     (case result of
        Inl r \<Rightarrow> (j1_error_code r, j1_public_error_message r)
      | Inr r \<Rightarrow> (jr_error_code r, jr_public_error_message r))"

text \<open>\<open>session.commit()\<close>: the database of the session becomes the database, or stays.\<close>

definition commit_db :: "'p reconcile_env \<Rightarrow> db \<Rightarrow> ('p update_world, unit) act" where
  "commit_db env d w =
     (if rc_refused env w then (Inl (tagged COther ''OperationalError''), w)
      else (Inr (), w\<lparr>uw_db := d\<rparr>))"

text \<open>
  An active operation whose result asks for an end: \<open>None\<close> when it has to wait for the candidate to
  commit.
\<close>

definition finish_reconciled ::
    "'p reconcile_env \<Rightarrow> pending_update_marker \<Rightarrow> updater_result + updater_result_v2 \<Rightarrow>
     update_operation \<Rightarrow> ('p update_world, bool) act" where
  "finish_reconciled env m result u w =
     (let status = result_status result; now = rc_clock env w; d = uw_db w in
      if status = UsSuccess then (Inl (reconciliation_exn ''active success''), w)
      else if status = UsCommitRequested \<and> \<not> rc_allow_active_commit env then (Inr False, w)
      else
        case (if status = UsCommitRequested
              then if u_status u \<noteq> UpVerifying then Inl (reconciliation_exn ''commit state'')
                   else bindR (validate_success_evidence env m (u_target_version u) (u_target_digest u) w)
                          (\<lambda>_. Inr (u, d))
              else advance_rollback_state now u m d) of
          Inl e \<Rightarrow> (Inl e, w)
        | Inr (u1, d1) \<Rightarrow>
            case finish_update u1 (if status = UsCommitRequested then UpSuccess else UpRolledBack)
                   (Some (result_updated_at result)) (fst (result_errors result))
                   (snd (result_errors result)) now d1 of
              Inl _ \<Rightarrow> (Inl repository_exn, w)
            | Inr (_, d2) \<Rightarrow>
                bindA (commit_db env d2) (\<lambda>_.
                bindA (cleanup env (q_operation_id m)) (\<lambda>_. retA True)) w)"

definition reconcile_active ::
    "'p reconcile_env \<Rightarrow> pending_update_marker \<Rightarrow> updater_result + updater_result_v2 \<Rightarrow>
     update_operation \<Rightarrow> ('p update_world, bool) act" where
  "reconcile_active env m result u w =
     (case synchronize_active_progress (rc_clock env w) u m result (uw_db w) of
        Inl e \<Rightarrow> (Inl e, w)
      | Inr (progressed, u', d') \<Rightarrow>
          bindA (if progressed then commit_db env d' else retA ()) (\<lambda>_.
          if result_status result = UsRollbackFailed then retA False
          else if result_status result \<in> {UsCommitRequested, UsSuccess, UsRolledBack}
          then finish_reconciled env m result u'
          else retA progressed) w)"

definition reconcile_ended ::
    "'p reconcile_env \<Rightarrow> pending_update_marker \<Rightarrow> updater_result + updater_result_v2 \<Rightarrow>
     update_operation \<Rightarrow> ('p update_world, bool) act" where
  "reconcile_ended env m result u =
     (if u_status u \<notin> {UpSuccess, UpRolledBack} then raiseA (reconciliation_exn ''other end'')
      else if result_status result \<notin>
                (if u_status u = UpSuccess then {UsCommitRequested, UsSuccess} else {UsRolledBack})
      then raiseA (reconciliation_exn ''inconsistent end'')
      else bindA (cleanup env (q_operation_id m)) (\<lambda>_. retA True))"

definition reconcile :: "'p reconcile_env \<Rightarrow> ('p update_world, bool) act" where
  "reconcile env w =
     (if \<not> rc_directories_ok env w then (Inl (reconciliation_exn ''directories''), w)
      else case read_pending_marker (uw_pending w) of
             None \<Rightarrow> (Inr False, w)
           | Some (Inl _) \<Rightarrow> (Inl (reconciliation_exn ''marker''), w)
           | Some (Inr m) \<Rightarrow>
      if \<not> journal_exists (q_operation_id m) w then (Inr False, w)
      else case fst (read_journal (q_operation_id m) w) of
             Inl e \<Rightarrow> (Inl (if e_class e = CUpdateSnapshot then reconciliation_exn (e_message e) else e), w)
           | Inr result \<Rightarrow>
      case get_by_operation_id (uw_db w) (q_operation_id m) of
        None \<Rightarrow> (Inl (reconciliation_exn ''no operation''), w)
      | Some u \<Rightarrow>
          if u_active_slot u = None then reconcile_ended env m result u w
          else reconcile_active env m result u w)"

end
