(* ===== verification/ReconcileProofs.thy ===== *)
theory ReconcileProofs
  imports UpdaterReconcile JournalProofs
begin

text \<open>
  The database and the journal agree about the end of an update: what a run of the reconciler does
  to the rows of the update operations, and the two of them as one system.
\<close>

section \<open>Rows\<close>

text \<open>
  A row read in the session and written back: the other rows stay, and the handle is the new row.
\<close>

definition row_moves ::
    "update_operation \<Rightarrow> db \<Rightarrow> update_operation \<Rightarrow> db \<Rightarrow> bool" where
  "row_moves u d u' d' \<longleftrightarrow>
     u' \<in> set (db_updates d') \<and> u_id u' = u_id u \<and> u_operation_id u' = u_operation_id u \<and>
     (\<forall>x \<in> set (db_updates d'). x \<in> set (db_updates d) \<or> x = u') \<and>
     update_inv d' \<and> terminal_kept d d'"

lemma update_row_unique:
  "update_inv d \<Longrightarrow> x \<in> set (db_updates d) \<Longrightarrow> y \<in> set (db_updates d) \<Longrightarrow> u_id x = u_id y \<Longrightarrow> x = y"
  unfolding update_inv_def by (metis distinct_map_unique)

lemma row_moves_refl: "update_inv d \<Longrightarrow> u \<in> set (db_updates d) \<Longrightarrow> row_moves u d u d"
  by (simp add: row_moves_def)

lemma row_moves_trans:
  assumes "row_moves u d u1 d1" and "row_moves u1 d1 u2 d2"
  shows "row_moves u d u2 d2"
proof -
  have "x = u2" if "x \<in> set (db_updates d2)" and "x = u1" for x
    using assms(2) that update_row_unique [of d2 x u2] by (simp add: row_moves_def)
  with assms show ?thesis unfolding row_moves_def by (metis terminal_kept_trans)
qed

lemma flush_row_moves:
  assumes inv: "update_inv d" and u: "u \<in> set (db_updates d)"
    and fl: "flush_update u u' now d = Inr (x, d')" and ne: "u' \<noteq> u"
    and u': "u' = u\<lparr>u_status := st, u_active_slot := slot, u_completed_at := at,
      u_error_code := ec, u_error_message := em\<rparr>"
    and keeps: "update_inv d' \<and> terminal_kept d d'"
  shows "row_moves u d x d' \<and> u_status x = st \<and> u_active_slot x = slot"
proof -
  have first: "first_row (\<lambda>row. u_id row = u_id u) (db_updates d) = Some u"
    using first_row_unique [OF _ u, of u_id] inv by (simp add: update_inv_def)
  let ?row = "u'\<lparr>u_updated_at := now\<rparr>"
  have "x = ?row \<and> db_updates d' = put_row u ?row (db_updates d)"
    using fl ne first by (auto simp: flush_update_def Let_def write_column_self u' split: if_splits)
  with u keeps show ?thesis by (auto simp: row_moves_def u')
qed

lemma transition_row_moves:
  assumes inv: "update_inv d" and u: "u \<in> set (db_updates d)"
    and tr: "transition_active u st now d = Inr (x, d')"
  shows "row_moves u d x d' \<and> u_status x = st \<and> u_active_slot x = u_active_slot u"
proof -
  from tr have can: "st \<in> ALLOWED_UPDATE_TRANSITIONS (u_status u)"
    and fl: "flush_update u (u\<lparr>u_status := st\<rparr>) now d = Inr (x, d')"
    by (auto simp: transition_active_def split: if_splits)
  show ?thesis
  proof (rule flush_row_moves [OF inv u fl])
    show "u\<lparr>u_status := st\<rparr> \<noteq> u"
      using allowed_update_irrefl [OF can] by (metis update_operation.select_convs(3)
        update_operation.surjective update_operation.update_convs(3))
    show "u\<lparr>u_status := st\<rparr> = u\<lparr>u_status := st, u_active_slot := u_active_slot u,
        u_completed_at := u_completed_at u, u_error_code := u_error_code u,
        u_error_message := u_error_message u\<rparr>" by simp
  qed (rule transition_active_inv [OF inv tr])
qed

lemma finish_row_moves:
  assumes inv: "update_inv d" and u: "u \<in> set (db_updates d)"
    and fin: "finish_update u st ca ec em now d = Inr (x, d')"
  shows "row_moves u d x d' \<and> u_status x = st \<and> u_active_slot x = None"
proof -
  let ?u = "u\<lparr>u_status := st, u_active_slot := None, u_completed_at := Some (coalesce ca now),
      u_error_code := ec, u_error_message := em\<rparr>"
  from fin have can: "st \<in> ALLOWED_UPDATE_TRANSITIONS (u_status u)"
    and fl: "flush_update u ?u now d = Inr (x, d')"
    by (auto simp: finish_update_def split: if_splits)
  have "u_status ?u \<noteq> u_status u" using allowed_update_irrefl [OF can] by simp
  then have "?u \<noteq> u" by metis
  from flush_row_moves [OF inv u fl this refl finish_update_inv [OF inv fin]] show ?thesis .
qed

lemma transition_all_moves:
  assumes "update_inv d" and "u \<in> set (db_updates d)" and "transition_all now ss u d = Inr (u', d')"
  shows "row_moves u d u' d' \<and> u_active_slot u' = u_active_slot u"
  using assms
proof (induction ss arbitrary: u d)
  case Nil
  then show ?case by (simp add: row_moves_refl)
next
  case (Cons s ss)
  from Cons.prems(3) obtain u1 d1 where tr: "transition_active u s now d = Inr (u1, d1)"
    and rest: "transition_all now ss u1 d1 = Inr (u', d')"
    by (auto split: sum.splits)
  have step: "row_moves u d u1 d1" and slot: "u_active_slot u1 = u_active_slot u"
    using transition_row_moves [OF Cons.prems(1,2) tr] by simp_all
  have "row_moves u1 d1 u' d' \<and> u_active_slot u' = u_active_slot u1"
    using Cons.IH [OF _ _ rest] step by (simp add: row_moves_def)
  with step slot row_moves_trans show ?case by metis
qed

lemma synchronize_moves:
  assumes "update_inv d" and "u \<in> set (db_updates d)"
    and "synchronize_active_progress now u m result d = Inr (p, u', d')"
  shows "row_moves u d u' d' \<and> u_active_slot u' = u_active_slot u" and "\<not> p \<Longrightarrow> d' = d \<and> u' = u"
proof -
  have "(d' = d \<and> u' = u) \<or> (\<exists>ss. transition_all now ss u d = Inr (u', d'))"
    using assms(3) unfolding synchronize_active_progress_def
    by (auto simp: Let_def simp del: transition_all.simps split: sum.splits option.splits if_splits)
  then show "row_moves u d u' d' \<and> u_active_slot u' = u_active_slot u"
    using transition_all_moves [OF assms(1,2)] row_moves_refl [OF assms(1,2)] by blast
  show "d' = d \<and> u' = u" if "\<not> p"
  proof (cases result)
    case (Inr r)
    show ?thesis
    proof (cases "progress_target (jr_status r)")
      case (Some t)
      have "index_of forward_order t \<noteq> index_of forward_order (u_status u)"
        if "u_status u \<noteq> t" "u_status u \<in> set forward_order" "t \<noteq> UpRollingBack"
        using that Some by (cases "jr_status r") (auto simp: forward_order_def index_of_def)
      with assms(3) that Inr Some show ?thesis
        by (auto simp: synchronize_active_progress_def Let_def split: if_splits)
    qed (use assms(3) that Inr in \<open>auto simp: synchronize_active_progress_def split: if_splits\<close>)
  qed (use assms(3) in \<open>auto simp: synchronize_active_progress_def\<close>)
qed

section \<open>A run of the reconciler\<close>

fun ended_agrees :: "update_status \<Rightarrow> updater_status \<Rightarrow> bool" where
  "ended_agrees UpSuccess s \<longleftrightarrow> s \<in> {UsCommitRequested, UsSuccess}"
| "ended_agrees UpRolledBack s \<longleftrightarrow> s = UsRolledBack"
| "ended_agrees _ s \<longleftrightarrow> True"

text \<open>
  What a run changes: the journal never, the rows of operations that have ended never, and a row
  that it ends agrees with the result it read.
\<close>

definition reconciles ::
    "string \<Rightarrow> updater_status \<Rightarrow> 'p update_world \<Rightarrow> 'p update_world \<Rightarrow> bool" where
  "reconciles oid s w w' \<longleftrightarrow>
     uw_journal w' = uw_journal w \<and>
     (update_inv (uw_db w) \<longrightarrow> update_inv (uw_db w') \<and> terminal_kept (uw_db w) (uw_db w') \<and>
        (\<forall>x \<in> set (db_updates (uw_db w')). x \<in> set (db_updates (uw_db w)) \<or>
           u_operation_id x = oid \<and> (u_active_slot x = None \<longrightarrow> ended_agrees (u_status x) s)))"

lemma reconciles_refl: "reconciles oid s w w"
  by (simp add: reconciles_def)

lemma reconciles_trans: "reconciles oid s w w1 \<Longrightarrow> reconciles oid s w1 w' \<Longrightarrow> reconciles oid s w w'"
  unfolding reconciles_def by (metis terminal_kept_trans)

interpretation reconciled: action_contract "reconciles oid s"
  by unfold_locales (fact reconciles_refl, fact reconciles_trans)

lemma cleanup_reconciles: "keeps (reconciles oid s) (cleanup env oid')"
proof -
  have "reconciles oid s w (snd (cleanup_steps env oid' steps w))" for steps w
  proof (induction steps arbitrary: w)
    case (Cons step steps)
    have "reconciles oid s w (cleanup_effect oid' step w)"
      by (cases step) (simp_all add: cleanup_effect_def reconciles_def)
    with reconciles_trans [OF this Cons.IH] show ?case by (simp add: reconciles_refl)
  qed (simp add: reconciles_refl)
  then show ?thesis unfolding keeps_def cleanup_def by blast
qed

lemma commit_reconciles:
  assumes "row_moves u (uw_db w) x d" and "u_operation_id u = oid"
    and "u_active_slot x = None \<Longrightarrow> ended_agrees (u_status x) s"
  shows "reconciles oid s w (snd (commit_db env d w))"
  using assms by (auto simp: commit_db_def reconciles_def row_moves_def)

lemma reconciles_bind:
  assumes "reconciles oid s w (snd (m w))" and "\<And>x w1. m w = (Inr x, w1) \<Longrightarrow> reconciles oid s w1 (snd (f x w1))"
  shows "reconciles oid s w (snd (bindA m f w))"
proof (cases "m w")
  case (Pair r w1)
  with assms reconciles_trans show ?thesis by (cases r) (auto simp: bindA_def)
qed

lemma finish_reconciles:
  assumes inv: "update_inv (uw_db w)"
    and u: "u \<in> set (db_updates (uw_db w))" "u_operation_id u = q_operation_id m"
    and s: "result_status result \<in> {UsCommitRequested, UsSuccess, UsRolledBack}"
  shows "reconciles (q_operation_id m) (result_status result) w (snd (finish_reconciled env m result u w))"
proof -
  let ?s = "result_status result" and ?oid = "q_operation_id m"
  let ?st = "if ?s = UsCommitRequested then UpSuccess else UpRolledBack"
  let ?run = "snd (finish_reconciled env m result u w)"
  show ?thesis
  proof (cases "?run = w")
    case False
    then obtain u1 d1 x d2 where s': "?s \<noteq> UsSuccess"
      and pre: "(?s = UsCommitRequested \<and> u1 = u \<and> d1 = uw_db w) \<or>
        advance_rollback_state (rc_clock env w) u m (uw_db w) = Inr (u1, d1)"
      and fin: "finish_update u1 ?st (Some (result_updated_at result)) (fst (result_errors result))
        (snd (result_errors result)) (rc_clock env w) d1 = Inr (x, d2)"
      and run: "?run = snd (bindA (commit_db env d2) (\<lambda>_. bindA (cleanup env ?oid) (\<lambda>_. retA True)) w)"
      by (auto simp: finish_reconciled_def Let_def split: if_splits sum.splits prod.splits)
    have "row_moves u (uw_db w) u1 d1"
      using pre row_moves_refl [OF inv u(1)] transition_all_moves [OF inv u(1)]
      by (auto simp: advance_rollback_state_def split: if_splits option.splits)
    moreover from this have "row_moves u1 d1 x d2 \<and> u_status x = ?st"
      using finish_row_moves [OF _ _ fin] by (simp add: row_moves_def)
    ultimately have moves: "row_moves u (uw_db w) x d2" and st: "u_status x = ?st"
      using row_moves_trans by blast+
    have "reconciles ?oid ?s w (snd (commit_db env d2 w))"
      by (rule commit_reconciles [OF moves u(2)]) (use st s s' in auto)
    moreover have "keeps (reconciles ?oid ?s) (bindA (cleanup env ?oid) (\<lambda>_. retA True))"
      by (intro reconciled.keeps_bind cleanup_reconciles reconciled.keeps_ret)
    then have "reconciles ?oid ?s w1 (snd (bindA (cleanup env ?oid) (\<lambda>_. retA True) w1))" for w1
      by (simp add: keeps_def)
    ultimately show ?thesis unfolding run by (rule reconciles_bind)
  qed (simp add: reconciles_refl)
qed

lemma read_result:
  assumes "fst (read_journal oid w) = Inr result"
  shows "(\<exists>r. uw_journal w oid = JournalV1 r \<and> result = Inl r) \<or>
         (\<exists>r. uw_journal w oid = JournalV2 r \<and> result = Inr r \<and> validate_invariants r \<and>
            jr_operation_id r = oid)"
  using assms by (auto simp: read_journal_def split: if_splits journal_file.splits)

lemma active_reconciles:
  assumes inv: "update_inv (uw_db w)" and u: "u \<in> set (db_updates (uw_db w))"
    and oid: "u_operation_id u = q_operation_id m" and act: "u_active_slot u \<noteq> None"
  shows "reconciles (q_operation_id m) (result_status result) w (snd (reconcile_active env m result u w))"
proof (cases "synchronize_active_progress (rc_clock env w) u m result (uw_db w)")
  case (Inl e)
  then show ?thesis by (simp add: reconcile_active_def reconciles_refl)
next
  case (Inr t)
  obtain p u' d' where t: "t = (p, u', d')" by (cases t)
  note sync = synchronize_moves [OF inv u Inr [unfolded t]]
  let ?oid = "q_operation_id m" and ?s = "result_status result"
  let ?m = "if p then commit_db env d' else retA ()"
  have first: "reconciles ?oid ?s w (snd (?m w))"
    using commit_reconciles [OF conjunct1 [OF sync(1)] oid, of ?s env] sync(1) act
    by (auto simp: retA_def reconciles_refl)
  have rest: "reconciles ?oid ?s w1 (snd ((if ?s = UsRollbackFailed then retA False
        else if ?s \<in> {UsCommitRequested, UsSuccess, UsRolledBack} then finish_reconciled env m result u'
        else retA p) w1))" if "?m w = (Inr x, w1)" for x w1
  proof -
    have "uw_db w1 = d'"
      using that sync(2) by (auto simp: commit_db_def retA_def split: if_splits)
    with sync(1) oid have "update_inv (uw_db w1)" "u' \<in> set (db_updates (uw_db w1))" "u_operation_id u' = ?oid"
      by (auto simp: row_moves_def)
    from finish_reconciles [OF this, of result env] show ?thesis
      by (auto simp: retA_def reconciles_refl)
  qed
  show ?thesis
    unfolding reconcile_active_def Inr t sum.case prod.case
    by (rule reconciles_bind, rule first, rule rest)
qed

lemma reconcile_effect:
  assumes inv: "update_inv (uw_db w)"
  shows "uw_journal (snd (reconcile env w)) = uw_journal w \<and>
    (snd (reconcile env w) = w \<or> (\<exists>oid result. fst (read_journal oid w) = Inr result \<and>
       reconciles oid (result_status result) w (snd (reconcile env w))))"
proof (cases "snd (reconcile env w) = w")
  case False
  then obtain m result u where read: "fst (read_journal (q_operation_id m) w) = Inr result"
    and u: "get_by_operation_id (uw_db w) (q_operation_id m) = Some u"
    and run: "snd (reconcile env w) = snd ((if u_active_slot u = None then reconcile_ended env m result u
      else reconcile_active env m result u) w)"
    unfolding reconcile_def by (auto split: if_splits option.splits sum.splits)
  from u have mem: "u \<in> set (db_updates (uw_db w))" "u_operation_id u = q_operation_id m"
    using first_row_SomeD [of _ "db_updates (uw_db w)" u] by (auto simp: get_by_operation_id_def)
  have "keeps (reconciles (q_operation_id m) (result_status result)) (reconcile_ended env m result u)"
    unfolding reconcile_ended_def
    by (auto intro!: reconciled.keeps_bind cleanup_reconciles)
  then have "reconciles (q_operation_id m) (result_status result) w (snd (reconcile env w))"
    using active_reconciles [OF inv mem, of result env] run by (auto simp: keeps_def)
  with read show ?thesis by (auto simp: reconciles_def)
qed simp

section \<open>Database and journal together\<close>

fun file_status :: "journal_file \<Rightarrow> updater_status option" where
  "file_status (JournalV1 r) = Some (j1_status r)"
| "file_status (JournalV2 r) = Some (jr_status r)"
| "file_status _ = None"

definition ends_agree :: "'p update_world \<Rightarrow> bool" where
  "ends_agree w \<longleftrightarrow>
     (\<forall>u \<in> set (db_updates (uw_db w)). u_status u \<in> {UpSuccess, UpRolledBack} \<longrightarrow>
        (\<exists>s. file_status (uw_journal w (u_operation_id u)) = Some s \<and> ended_agrees (u_status u) s))"

text \<open>
  Who acts on the two: the updater writes the journal, the appliance reconciles, other services
  move update operations but do not report a success or a rollback, a restored snapshot brings back
  rows that were there before, and anything else leaves both alone.
\<close>

fun reports_end :: "update_event \<Rightarrow> bool" where
  "reports_end (FinishUpdate u st ca ec em now) \<longleftrightarrow> st \<in> {UpSuccess, UpRolledBack}"
| "reports_end _ \<longleftrightarrow> False"

datatype 'p appliance_event =
    AJournal "'p journal_event" | AReconcile "'p reconcile_env" | AUpdate update_event
  | ARestore db | AElsewhere

inductive appliance_step ::
    "'p appliance_event \<Rightarrow> 'p update_world \<Rightarrow> 'p update_world \<Rightarrow> bool" where
  journal: "journal_moves e w w' \<Longrightarrow> uw_db w' = uw_db w \<Longrightarrow> appliance_step (AJournal e) w w'"
| reconcile: "appliance_step (AReconcile env) w (snd (reconcile env w))"
| update: "update_step e (uw_db w) d \<Longrightarrow> \<not> reports_end e \<Longrightarrow> appliance_step (AUpdate e) w (w\<lparr>uw_db := d\<rparr>)"
| restore: "update_inv d \<Longrightarrow> ends_agree (w\<lparr>uw_db := d\<rparr>) \<Longrightarrow> appliance_step (ARestore d) w (w\<lparr>uw_db := d\<rparr>)"
| elsewhere: "uw_journal w' = uw_journal w \<Longrightarrow> uw_db w' = uw_db w \<Longrightarrow> appliance_step AElsewhere w w'"

lemma file_evolves_status:
  "file_evolves oid f f' \<Longrightarrow> file_status f = Some s \<Longrightarrow> \<exists>s'. file_status f' = Some s' \<and> status_follows s s'"
  unfolding file_evolves_def
  by (elim disjE exE conjE) (auto simp: result_evolves_status, simp add: status_follows_def)

lemma ended_agrees_follows:
  assumes "ended_agrees u s" and "status_follows s s'" and "u \<in> {UpSuccess, UpRolledBack}"
  shows "ended_agrees u s'"
proof (cases "u = UpSuccess")
  case True
  with assms have "s' \<in> {UsCommitRequested, UsSuccess}"
    by (intro status_follows_closed [OF assms(2)]) auto
  with True show ?thesis by simp
next
  case False
  with assms have "s' \<in> {UsRolledBack}"
    by (intro status_follows_closed [OF assms(2)]) auto
  with False assms(3) show ?thesis by simp
qed

lemma agree_evolves:
  assumes "ends_agree w" and "journal_evolves w w'" and "uw_db w' = uw_db w"
  shows "ends_agree w'"
  unfolding ends_agree_def assms(3)
proof (intro ballI impI)
  fix u
  assume "u \<in> set (db_updates (uw_db w))" and u: "u_status u \<in> {UpSuccess, UpRolledBack}"
  with assms(1) obtain s where s: "file_status (uw_journal w (u_operation_id u)) = Some s"
    "ended_agrees (u_status u) s" unfolding ends_agree_def by blast
  have "file_evolves (u_operation_id u) (uw_journal w (u_operation_id u)) (uw_journal w' (u_operation_id u))"
    using assms(2) by (simp add: journal_evolves_def)
  from file_evolves_status [OF this s(1)] ended_agrees_follows [OF s(2) _ u]
  show "\<exists>s. file_status (uw_journal w' (u_operation_id u)) = Some s \<and> ended_agrees (u_status u) s"
    by blast
qed

lemma flush_new_row:
  assumes "flush_update u u' now d = Inr (x, d')" and "y \<in> set (db_updates d')" and "y \<notin> set (db_updates d)"
  shows "\<exists>row \<in> set (db_updates d). u_active_slot row \<noteq> None \<and> u_status y = write_column u_status u u' row"
  using assms(1)
proof (cases rule: flush_update_cases)
  case (changed row row')
  with assms(2,3) have "y = row'" by auto
  with changed show ?thesis by blast
qed (use assms(2,3) in simp)

lemma update_keeps_ends:
  assumes inv: "update_inv d" and call: "update_call e d = Inr (x, d')" and e: "\<not> reports_end e"
    and u: "u \<in> set (db_updates d')" and st: "u_status u \<in> {UpSuccess, UpRolledBack}"
  shows "u \<in> set (db_updates d)"
proof (rule ccontr)
  assume new: "u \<notin> set (db_updates d)"
  have ter: "u_status u \<in> TERMINAL_UPDATE_OPERATION_STATUSES"
    using st by (auto simp: TERMINAL_UPDATE_OPERATION_STATUSES_def)
  show False
  proof (cases e)
    case (CreateUpdate sv s tv td oid now)
    with call new u ter create_update_cases [of sv s tv td oid now d x d'] show False by auto
  next
    case (FinishUpdate v s ca ec em now)
    with call have can: "s \<in> ALLOWED_UPDATE_TRANSITIONS (u_status v)"
      and fl: "flush_update v (v\<lparr>u_status := s, u_active_slot := None,
        u_completed_at := Some (coalesce ca now), u_error_code := ec, u_error_message := em\<rparr>) now d = Inr (x, d')"
      by (auto simp: finish_update_def split: if_splits)
    from flush_new_row [OF fl u new] allowed_update_irrefl [OF can] have "u_status u = s"
      by (auto simp: write_column_def)
    with e FinishUpdate st show False by simp
  next
    case (TransitionActive v s now)
    with call have can: "s \<in> ALLOWED_UPDATE_TRANSITIONS (u_status v)"
      and live: "s \<notin> TERMINAL_UPDATE_OPERATION_STATUSES"
      and fl: "flush_update v (v\<lparr>u_status := s\<rparr>) now d = Inr (x, d')"
      by (auto simp: transition_active_def split: if_splits)
    from flush_new_row [OF fl u new] allowed_update_irrefl [OF can] have "u_status u = s"
      by (auto simp: write_column_def)
    with ter live show False by simp
  next
    case (SetVerifiedTarget v tv td now)
    with call have fl: "flush_update v (v\<lparr>u_target_version := Some tv,
        u_target_digest := Some td\<rparr>) now d = Inr (x, d')"
      by (auto simp: set_verified_target_def split: if_splits)
    from flush_new_row [OF fl u new] obtain row where "row \<in> set (db_updates d)"
      "u_active_slot row \<noteq> None" "u_status u = u_status row"
      by (auto simp: write_column_def)
    with inv ter show False by (auto simp: update_inv_def)
  qed
qed

definition appliance_inv :: "'p update_world \<Rightarrow> bool" where
  "appliance_inv w \<longleftrightarrow> update_inv (uw_db w) \<and> ends_agree w"

lemma reconcile_keeps_agreement:
  assumes "appliance_inv w"
  shows "appliance_inv (snd (reconcile env w)) \<and> journal_evolves w (snd (reconcile env w))"
proof -
  let ?w' = "snd (reconcile env w)"
  have inv: "update_inv (uw_db w)" and agree: "ends_agree w"
    using assms by (simp_all add: appliance_inv_def)
  have same: "uw_journal ?w' = uw_journal w" and effect: "?w' = w \<or> (\<exists>oid result.
      fst (read_journal oid w) = Inr result \<and> reconciles oid (result_status result) w ?w')"
    using reconcile_effect [OF inv, of env] by blast+
  have "journal_evolves w ?w'" using same by (simp add: journal_evolves_def file_evolves_refl)
  moreover have "appliance_inv ?w'"
  proof (cases "?w' = w")
    case False
    with effect obtain oid result where read: "fst (read_journal oid w) = Inr result"
      and r: "reconciles oid (result_status result) w ?w'" by blast
    have status: "file_status (uw_journal w oid) = Some (result_status result)"
      using read_result [OF read] by (auto simp: result_status_def)
    have inv': "update_inv (uw_db ?w')" using r inv by (simp add: reconciles_def)
    have "ends_agree ?w'"
      unfolding ends_agree_def same
    proof (intro ballI impI)
      fix x
      assume x: "x \<in> set (db_updates (uw_db ?w'))" and st: "u_status x \<in> {UpSuccess, UpRolledBack}"
      have "u_active_slot x = None"
        using inv' x st by (auto simp: update_inv_def TERMINAL_UPDATE_OPERATION_STATUSES_def)
      with r inv x have "x \<in> set (db_updates (uw_db w)) \<or>
          u_operation_id x = oid \<and> ended_agrees (u_status x) (result_status result)"
        by (auto simp: reconciles_def)
      then show "\<exists>s. file_status (uw_journal w (u_operation_id x)) = Some s \<and> ended_agrees (u_status x) s"
        using agree status st by (auto simp: ends_agree_def)
    qed
    with inv' show ?thesis by (simp add: appliance_inv_def)
  qed (use assms in simp)
  ultimately show ?thesis by blast
qed

lemma appliance_step_keeps:
  "appliance_step e w w' \<Longrightarrow> appliance_inv w \<Longrightarrow> appliance_inv w' \<and> journal_evolves w w'"
proof (induction rule: appliance_step.induct)
  case (journal e w w')
  have evolves: "journal_evolves w w'" by (rule journal_moves_evolves [OF journal(1)])
  with agree_evolves [OF _ evolves journal(2)] journal show ?case by (simp add: appliance_inv_def)
next
  case (reconcile env w)
  then show ?case by (rule reconcile_keeps_agreement)
next
  case (update e w d)
  have inv: "update_inv (uw_db w)" and agree: "ends_agree w"
    using update.prems by (simp_all add: appliance_inv_def)
  have "update_inv d" using updates.step_keeps [OF update(1) inv] by simp
  moreover have "u \<in> set (db_updates (uw_db w))"
    if "u \<in> set (db_updates d)" "u_status u \<in> {UpSuccess, UpRolledBack}" for u
    using update(1) update_keeps_ends [OF inv _ update(2) that] that(1) by (auto elim!: update_stepE)
  ultimately show ?case
    using agree by (auto simp: appliance_inv_def ends_agree_def journal_evolves_def file_evolves_refl)
next
  case (restore d w)
  then show ?case by (simp add: appliance_inv_def journal_evolves_def file_evolves_refl)
next
  case (elsewhere w' w)
  then show ?case
    by (simp add: appliance_inv_def ends_agree_def journal_evolves_def file_evolves_refl)
qed

interpretation appliance: evolving_system appliance_step appliance_inv journal_evolves
  by unfold_locales (fact appliance_step_keeps, fact journal_evolves_refl, fact journal_evolves_trans)

end
