(* ===== verification/UpdaterProperties.thy ===== *)
theory UpdaterProperties
  imports UpdaterGuard ReconcileProofs TaskSystem
begin

text \<open>
  The properties of the updater: its journal, the agreement of the journal with the database, what
  the executors and the coordinator do, and what recovery makes of an interrupted update.
\<close>

section \<open>A sample update\<close>

definition sample_oid :: string where
  "sample_oid = ''01234567-89ab-cdef-0123-456789abcdef''"

definition sample_digest :: string where
  "sample_digest = ''sha256:'' @ replicate 64 (CHR ''d'')"

definition sample_handoff :: handoff_document where
  "sample_handoff =
     \<lparr>h_operation_id = sample_oid, h_current_container_id = replicate 64 (CHR ''a''),
      h_source_image_id = sample_digest, h_source_image_reference = ''josephyjq/mediasync:latest'',
      h_source_version = ''v1.0.0'', h_source_digest = None,
      h_target_version = ''v1.1.0'', h_target_digest = sample_digest,
      h_target_revision = replicate 40 (CHR ''e''),
      h_target_image = ''josephyjq/mediasync@'' @ sample_digest,
      h_candidate =
        \<lparr>hc_container_id = replicate 64 (CHR ''a''), hc_name = ''mediasync'', hc_env = [''TZ=UTC''],
         hc_user = [], hc_labels = [],
         hc_mounts = [\<lparr>hm_type = ''volume'', hm_source = ''data'', hm_target = ''/data'', hm_read_only = False\<rparr>],
         hc_exposed_ports = [], hc_port_bindings = [], hc_restart_policy = [(''Name'', JStr ''always'')],
         hc_network_mode = ''bridge'', hc_networks = [], hc_dns = [], hc_group_add = [],
         hc_readonly_rootfs = False, hc_devices = []\<rparr>\<rparr>"

definition sample_coordinator :: string where
  "sample_coordinator = replicate 64 (CHR ''b'')"

definition sample_journal :: "'p journal_env" where
  "sample_journal = \<lparr>je_disk = \<lambda>_. DiskOk, je_clock = \<lambda>_. 0\<rparr>"

definition sample_result :: updater_result_v2 where
  "sample_result = initial_result sample_handoff sample_coordinator 0"

definition sample_update_world :: "journal_file \<Rightarrow> unit update_world" where
  "sample_update_world f =
     \<lparr>uw_db = empty_db, uw_journal = (\<lambda>_. JournalMissing)(sample_oid := f),
      uw_handoff = (\<lambda>_. HandoffMissing)(sample_oid := HandoffDoc sample_handoff),
      uw_evidence = \<lambda>_. EvidenceMissing, uw_pending = MarkerMissing, uw_rest = ()\<rparr>"

text \<open>A Docker in which every call fails.\<close>

definition docker_down :: "('s, 'a) act" where
  "docker_down = raiseA (tagged CDockerEngine ''down'')"

definition sample_engine :: "'s docker_engine" where
  "sample_engine =
     \<lparr>de_list_containers = retA [], de_inspect_container = \<lambda>_. docker_down,
      de_inspect_image = \<lambda>_. docker_down, de_update_restart_policy = \<lambda>_ _. docker_down,
      de_stop_container = \<lambda>_ _. docker_down, de_wait_container = \<lambda>_. docker_down,
      de_rename_container = \<lambda>_ _. docker_down, de_create_container = \<lambda>_ _. docker_down,
      de_start_container = \<lambda>_. docker_down, de_remove_container = \<lambda>_. docker_down\<rparr>"

definition sample_updater :: "'p updater_env" where
  "sample_updater =
     \<lparr>ue_journal = sample_journal,
      ue_candidate = \<lparr>ca_token = \<lambda>_. replicate 43 (CHR ''t''), ca_disk = \<lambda>_. DiskOk\<rparr>,
      ue_engine = sample_engine, ue_sha256 = \<lambda>_. replicate 64 (CHR ''c''),
      ue_socket_path = ''/var/run/docker.sock'', ue_stop_timeout = 90, ue_hook = \<lambda>_. retA (),
      ue_snapshot_exists = \<lambda>_ _. False, ue_snapshot_link = \<lambda>_ _. False,
      ue_snapshot_create = \<lambda>_. retA (), ue_snapshot_verify = \<lambda>_. retA (),
      ue_snapshot_restore = \<lambda>_. retA (), ue_verify = \<lambda>_ _ _. retA (),
      ue_verify_previous = \<lambda>_ _. retA (), ue_commit_wait = \<lambda>_. retA (),
      ue_operations_safe = \<lambda>_. True, ue_evidence_link = \<lambda>_ _. False, ue_unlink = \<lambda>_. DiskOk\<rparr>"

definition sample_coordinator_env :: "'p coordinator_env" where
  "sample_coordinator_env =
     \<lparr>co_updater = sample_updater, co_hostname = take 12 sample_coordinator,
      co_operation_id = sample_oid, co_acquire = retA (), co_release = retA (), co_sleep = id\<rparr>"

lemma sample_services: "services_keep same_journal sample_updater"
  by (simp add: services_keep_def engine_keeps_def sample_updater_def sample_engine_def docker_down_def)

lemma sample_result_valid: "validate_invariants sample_result"
  by code_simp

section \<open>The journal\<close>

text \<open>C30: Whoever writes the journal of an update, through its operations and in whatever order, and
  whatever happens in between: a record stays a record of the same update, its sequence number does
  not go back, a terminal record is final, a rollback that has started is never left, and a committed
  update stays committed.\<close>

theorem journal_never_goes_back:
  assumes "trace journal_moves es w w'" and "uw_journal w oid = JournalV2 r"
  shows "\<exists>r'. uw_journal w' oid = JournalV2 r' \<and> same_update r r' \<and> jr_sequence r \<le> jr_sequence r' \<and>
    (jr_status r \<in> UPDATER_TERMINAL_STATUSES \<longrightarrow> r' = r) \<and>
    (jr_rollback_started r \<longrightarrow> jr_rollback_started r') \<and>
    (committed_result r \<longrightarrow> committed_result r')"
proof -
  have "journal_evolves w w'" using journal.trace_keeps [OF assms(1)] by blast
  then obtain r' where "uw_journal w' oid = JournalV2 r'" and "result_evolves r r'"
    using evolved_record assms(2) by blast
  with result_evolves_facts [of r r'] show ?thesis by blast
qed

theorem journal_never_goes_back_witness:
  "\<exists>r'. uw_journal (snd (checkpoint_v2 sample_journal sample_oid UsSnapshotting OldRestartFenced
        None None None None None (sample_update_world (JournalV2 sample_result)))) sample_oid =
      JournalV2 r' \<and> same_update sample_result r'"
proof -
  let ?w = "sample_update_world (JournalV2 sample_result)"
  have "trace journal_moves [JCheckpoint sample_journal sample_oid UsSnapshotting OldRestartFenced
      None None None None None] ?w (snd (checkpoint_v2 sample_journal sample_oid UsSnapshotting
        OldRestartFenced None None None None None ?w))"
    by (simp add: journal_moves.checkpoint)
  from journal_never_goes_back [OF this, of sample_oid sample_result]
  show ?thesis by (auto simp: sample_update_world_def)
qed

text \<open>The journal of an update that starts without one never holds an invalid record, and is
  written at most 28 times, recoveries included.\<close>

theorem journal_is_bounded:
  assumes "trace journal_moves es w w'" and "uw_journal w oid = JournalMissing"
    and "uw_journal w' oid = JournalV2 r"
  shows "validate_invariants r \<and> jr_operation_id r = oid \<and> jr_sequence r \<le> 28"
proof -
  have "journal_evolves w w'" using journal.trace_keeps [OF assms(1)] by blast
  then have "file_evolves oid JournalMissing (JournalV2 r)"
    using assms(2,3) by (metis journal_evolves_def)
  then obtain doc c now where "h_operation_id doc = oid"
      "validate_invariants (initial_result doc c now)" "result_evolves (initial_result doc c now) r"
    by (auto simp: file_evolves_def)
  with initial_counts [of doc c now r] result_evolves_facts(1) [of "initial_result doc c now" r]
  show ?thesis by (simp add: same_update_def initial_result_def)
qed

theorem journal_is_bounded_witness:
  "jr_sequence sample_result \<le> 28 \<and>
   uw_journal (snd (start_v2 sample_journal sample_handoff sample_coordinator
     (sample_update_world JournalMissing))) sample_oid = JournalV2 sample_result"
proof -
  let ?w = "sample_update_world JournalMissing"
  let ?w' = "snd (start_v2 sample_journal sample_handoff sample_coordinator ?w)"
  have "trace journal_moves [JStart sample_journal sample_handoff sample_coordinator] ?w ?w'"
    by (simp add: journal_moves.start)
  moreover have "uw_journal ?w' sample_oid = JournalV2 sample_result"
  proof -
    have "validate_handoff_document sample_handoff = Inr ()" by code_simp
    then show ?thesis
      using sample_result_valid
      by (simp add: start_v2_def journal_exists_def write_journal_def put_journal_def bindA_def retA_def
          sample_update_world_def sample_journal_def sample_result_def Let_def)
        (simp add: sample_handoff_def)
  qed
  moreover have "uw_journal ?w sample_oid = JournalMissing" by (simp add: sample_update_world_def)
  ultimately show ?thesis using journal_is_bounded by blast
qed

section \<open>The database\<close>

text \<open>C31: However the updater, the reconciler of the appliance and the other services interleave: an
  update operation that the database shows as a success has a journal that asks for the commit or
  records the success, and one that it shows as rolled back has a journal that records the rollback.\<close>

theorem database_and_journal_agree:
  assumes "trace appliance_step es w w'" and "appliance_inv w"
    and "u \<in> set (db_updates (uw_db w'))" and "u_status u \<in> {UpSuccess, UpRolledBack}"
  shows "\<exists>s. file_status (uw_journal w' (u_operation_id u)) = Some s \<and>
    (if u_status u = UpSuccess then s \<in> {UsCommitRequested, UsSuccess} else s = UsRolledBack)"
proof -
  have "ends_agree w'" using appliance.trace_keeps [OF assms(1,2)] by (simp add: appliance_inv_def)
  with assms(3,4) show ?thesis by (fastforce simp: ends_agree_def)
qed

definition sample_marker :: pending_update_marker where
  "sample_marker = marker_for sample_handoff (replicate 43 (CHR ''t''))"

definition sample_committing :: "unit update_world" where
  "sample_committing = (sample_update_world (JournalV2 (sample_result
       \<lparr>jr_sequence := 12, jr_status := UsCommitRequested, jr_checkpoint := CommitRequested,
        jr_candidate_token_hash := Some sample_digest,
        jr_candidate_container_id := Some (replicate 64 (CHR ''f''))\<rparr>)))
     \<lparr>uw_db := empty_db\<lparr>db_updates := [\<lparr>u_id = 1, u_operation_id = sample_oid,
        u_status = UpVerifying, u_active_slot = Some ''global'', u_source_version = ''1.0.0'',
        u_target_version = Some ''v1.1.0'', u_target_digest = Some sample_digest,
        u_error_code = None, u_error_message = None, u_completed_at = None,
        u_created_at = 0, u_updated_at = 0\<rparr>]\<rparr>,
      uw_pending := marker_content sample_marker,
      uw_evidence := (\<lambda>_. EvidenceMissing)(sample_oid := EvidenceDoc
        \<lparr>ce_operation_id = sample_oid, ce_candidate_token = replicate 43 (CHR ''t''),
         ce_version = ''1.1.0'', ce_revision = replicate 40 (CHR ''e''), ce_digest = sample_digest,
         ce_alembic_revision = ''abc123'',
         ce_components = map (\<lambda>c. (c, True)) [''launcher'', ''nginx'', ''api'', ''scheduler'', ''worker''],
         ce_observed_at = 40\<rparr>)\<rparr>"

definition sample_reconciler :: "unit reconcile_env" where
  "sample_reconciler =
     \<lparr>rc_directories_ok = \<lambda>_. True, rc_refused = \<lambda>_. False, rc_clock = \<lambda>_. 50,
      rc_alembic = \<lambda>_. Inr ''abc123'', rc_os_error = \<lambda>_ _. False, rc_allow_active_commit = True\<rparr>"

lemma sample_committing_inv: "appliance_inv sample_committing"
  by (simp add: appliance_inv_def ends_agree_def sample_committing_def update_inv_def update_unique_def
      unique_column_def update_check_def TERMINAL_UPDATE_OPERATION_STATUSES_def empty_db_def)

theorem database_and_journal_agree_witness:
  "\<exists>u. db_updates (uw_db (snd (reconcile sample_reconciler sample_committing))) = [u] \<and>
     u_status u = UpSuccess \<and>
     (\<exists>s. file_status (uw_journal (snd (reconcile sample_reconciler sample_committing)) sample_oid) = Some s \<and>
        s \<in> {UsCommitRequested, UsSuccess})"
proof -
  let ?w' = "snd (reconcile sample_reconciler sample_committing)"
  have "case db_updates (uw_db ?w') of [u] \<Rightarrow> u_status u = UpSuccess \<and> u_operation_id u = sample_oid
      | _ \<Rightarrow> False"
    by code_simp
  then obtain u where u: "db_updates (uw_db ?w') = [u]" "u_status u = UpSuccess"
    "u_operation_id u = sample_oid"
    by (auto split: list.splits)
  have "trace appliance_step [AReconcile sample_reconciler] sample_committing ?w'"
    by (simp add: appliance_step.reconcile)
  from database_and_journal_agree [OF this sample_committing_inv, of u] u show ?thesis by auto
qed

section \<open>The executors and the coordinator\<close>



text \<open>An update that the forward executor reports as done is recorded as a success, with the
  candidate that it reports; one that the rollback executor reports as done is recorded as rolled
  back.\<close>

theorem executors_return_what_is_recorded:
  assumes "services_keep same_journal env"
  shows "(\<forall>cid w'. forward_execute env c oid w = (Inr cid, w') \<longrightarrow>
      (\<exists>r. journal_at oid r w' \<and> jr_status r = UsSuccess \<and> jr_candidate_container_id r = Some cid)) \<and>
    (\<forall>w'. rollback_execute env c oid w = (Inr (), w') \<longrightarrow>
      (\<exists>r. journal_at oid r w' \<and> jr_status r = UsRolledBack))"
  using forward_execute_returns [OF assms] rollback_execute_returns [OF assms] by blast

definition sample_success :: updater_result_v2 where
  "sample_success = sample_result
     \<lparr>jr_sequence := 13, jr_status := UsSuccess, jr_checkpoint := CommitRequested,
      jr_candidate_token_hash := Some sample_digest,
      jr_candidate_container_id := Some (replicate 64 (CHR ''f''))\<rparr>"

theorem executors_return_what_is_recorded_witness:
  "\<exists>r. journal_at sample_oid r (snd (forward_execute sample_updater sample_coordinator sample_oid
        (sample_update_world (JournalV2 sample_success)))) \<and>
      jr_candidate_container_id r = Some (replicate 64 (CHR ''f''))"
proof -
  let ?run = "forward_execute sample_updater sample_coordinator sample_oid
    (sample_update_world (JournalV2 sample_success))"
  have "case fst ?run of Inr cid \<Rightarrow> cid = replicate 64 (CHR ''f'') | Inl _ \<Rightarrow> False"
    by code_simp
  then have "?run = (Inr (replicate 64 (CHR ''f'')), snd ?run)"
    by (cases ?run) (auto split: sum.splits)
  with executors_return_what_is_recorded [OF sample_services, of sample_coordinator sample_oid
      "sample_update_world (JournalV2 sample_success)"]
  show ?thesis by blast
qed

text \<open>Preparing the candidate a second time, as a restarted updater does, finds the marker of the
  first time: the token and the configuration are the same, whatever token would be drawn now, and
  nothing is written.\<close>

theorem preparing_again_changes_nothing:
  fixes w w' :: "'p update_world"
  assumes "prepare env doc w = (Inr p, w')" and "readable_marker (cp_marker p)"
  shows "prepare env' doc w' = (Inr p, w')"
proof -
  obtain m where m: "cp_marker p = m" "marker_of_handoff doc m"
    and p: "\<And>w :: 'p update_world. prepared doc m w = (Inr p, w)"
    and content: "read_pending_marker (uw_pending w') = Some (Inr m)"
  proof (cases "existing_marker doc (uw_pending w)")
    case (Inr found)
    show ?thesis
    proof (cases found)
      case (Some m)
      with Inr have "read_pending_marker (uw_pending w) = Some (Inr m)" "marker_of_handoff doc m"
        by (auto simp: existing_marker_def split: option.splits sum.splits if_splits)
      with assms(1) that [of m] show ?thesis
        by (auto simp: prepare_existing prepared_def retA_def raiseA_def split: sum.splits)
    next
      case None
      let ?m = "marker_for doc (ca_token env w)"
      have "prepared doc ?m w' = (Inr p, w')" and "uw_pending w' = marker_content ?m"
        using assms(1) Inr None
        by (auto simp: prepare_def prepared_def Let_def bindA_eq_Inr write_marker_def retA_run raiseA_run
            split: if_splits marker_file.splits disk_outcome.splits sum.splits)
      then have "cp_marker p = ?m" and "\<And>w :: 'p update_world. prepared doc ?m w = (Inr p, w)"
        by (auto simp: prepared_def retA_def raiseA_def split: sum.splits)
      moreover have "read_pending_marker (uw_pending w') = Some (Inr ?m)"
        using read_marker_content [of ?m] assms(2) calculation(1) \<open>uw_pending w' = marker_content ?m\<close>
        by simp
      ultimately show ?thesis using that [of ?m] by simp
    qed
  qed (use assms(1) in \<open>simp add: prepare_def\<close>)
  then show ?thesis by (simp add: prepare_existing)
qed

theorem preparing_again_changes_nothing_witness:
  "\<exists>p w'. prepare (ue_candidate sample_updater) sample_handoff (sample_update_world JournalMissing) =
       (Inr p, w') \<and>
     prepare (ue_candidate sample_updater\<lparr>ca_token := \<lambda>_. replicate 43 (CHR ''u'')\<rparr>) sample_handoff w' =
       (Inr p, w')"
proof -
  let ?run = "prepare (ue_candidate sample_updater) sample_handoff (sample_update_world JournalMissing)"
  have "case fst ?run of Inr p \<Rightarrow> readable_marker (cp_marker p) | Inl _ \<Rightarrow> False" by code_simp
  then obtain p where "?run = (Inr p, snd ?run)" and "readable_marker (cp_marker p)"
    by (cases ?run) (auto split: sum.splits)
  then show ?thesis using preparing_again_changes_nothing by blast
qed

section \<open>Recovery\<close>

text \<open>C40: A coordinator that stopped after the old container was renamed and before that was
  recorded does not go on when it is restarted: the forward executor takes the renamed container
  for its own at this checkpoint, but the recovery decision takes it for a conflict and asks for a
  person, while the old container is stopped and has lost its name.\<close>

theorem rename_crash_needs_manual_recovery:
  assumes "jr_checkpoint r = SnapshotVerified" and "source_identity doc True c"
    and "h_operation_id doc = jr_operation_id r"
    and "filter (\<lambda>c. jget c ''Id'' = JStr (jr_source_container_id r)) cs = [c]"
    and "jr_source_container_name r \<noteq> previous_container_name (jr_operation_id r)"
    and "io_status coordinator = Matched"
  shows "decide_recovery (Some (Inr r))
      \<lparr>ob_source = observe_source cs doc r, ob_candidate = candidate, ob_coordinator = coordinator\<rparr> =
    manual_decision ''source_identity_conflict''"
proof -
  have "container_name c = previous_container_name (jr_operation_id r)"
    using assms(2,3) by (simp add: source_identity_def)
  then have "\<not> source_identity_matches c doc r"
    using assms(1,5) by (simp add: source_identity_matches_def expected_source_names_def Let_def
        ROLLBACK_CHECKPOINTS_def)
  then have "observe_source cs doc r = unidentified Conflict ''source_identity_conflict''"
    using assms(4) by (simp add: observe_source_def)
  with assms(6) show ?thesis by (simp add: decide_recovery_def unidentified_def coalesce_def)
qed

definition sample_renamed :: container where
  "sample_renamed =
     [(''Id'', JStr (replicate 64 (CHR ''a''))), (''Image'', JStr sample_digest),
      (''Name'', JStr ''/mediasync-previous-01234567''),
      (''State'', JObj [(''Running'', JBool False)]),
      (''Mounts'', JList [JObj [(''Type'', JStr ''volume''), (''Name'', JStr ''data''),
         (''Destination'', JStr ''/data''), (''RW'', JBool True)]])]"

definition sample_snapshotted :: updater_result_v2 where
  "sample_snapshotted = sample_result
     \<lparr>jr_sequence := 5, jr_checkpoint := SnapshotVerified, jr_candidate_token_hash := Some sample_digest\<rparr>"

theorem rename_crash_needs_manual_recovery_witness:
  "validate_invariants sample_snapshotted \<and>
   decide_recovery (Some (Inr sample_snapshotted))
      \<lparr>ob_source = observe_source [sample_renamed] sample_handoff sample_snapshotted,
       ob_candidate = unidentified Missing ''candidate_not_created'', ob_coordinator = matched []\<rparr> =
    manual_decision ''source_identity_conflict''"
proof
  show "validate_invariants sample_snapshotted" by code_simp
  show "decide_recovery (Some (Inr sample_snapshotted))
      \<lparr>ob_source = observe_source [sample_renamed] sample_handoff sample_snapshotted,
       ob_candidate = unidentified Missing ''candidate_not_created'', ob_coordinator = matched []\<rparr> =
    manual_decision ''source_identity_conflict''"
  proof (rule rename_crash_needs_manual_recovery)
    show "source_identity sample_handoff True sample_renamed" by code_simp
    show "filter (\<lambda>c. jget c ''Id'' = JStr (jr_source_container_id sample_snapshotted)) [sample_renamed] =
        [sample_renamed]" by code_simp
    show "jr_source_container_name sample_snapshotted \<noteq>
        previous_container_name (jr_operation_id sample_snapshotted)" by code_simp
  qed (simp_all add: sample_snapshotted_def sample_result_def initial_result_def matched_def)
qed

text \<open>Once the appliance has committed an update and removed its documents, a coordinator that
  is started again, or that has to try again to switch off its restart policy, ends with an error
  before it looks at anything: the old container and the coordinator's own are not cleaned up.\<close>

theorem lost_handoff_stops_the_updater:
  assumes "cleanup renv (co_operation_id env) w0 = (Inr (), w)"
    and "coordinator_constructed env" and "co_acquire env = retA ()" and "co_release env = retA ()"
  shows "updater_main env w = Some (1, w)"
proof -
  have "uw_handoff w (co_operation_id env) = HandoffMissing"
    using assms(1) by (auto simp: cleanup_def cleanup_effect_def split: if_splits)
  moreover have "operation_id_ok (co_operation_id env)"
    using assms(2) by (simp add: coordinator_constructed_def)
  ultimately have "handoff_of (co_operation_id env) w = (Inl (snapshot_exn ''handoff file''), w)"
    by (simp add: handoff_of_def inspectA_def read_handoff_def)
  then have "coordinate_once env w = (Inl (snapshot_exn ''handoff file''), w)"
    using assms(3,4) by (simp add: coordinate_once_def finallyA_def run_locked_def bindA_def tryA_def retA_def
        raiseA_def Let_def)
  then show ?thesis
    using assms(2) by (simp add: updater_main_def run_until_done.simps)
qed

theorem lost_handoff_stops_the_updater_witness:
  "updater_main sample_coordinator_env (snd (cleanup sample_reconciler sample_oid sample_committing)) =
   Some (1, snd (cleanup sample_reconciler sample_oid sample_committing))"
proof (rule lost_handoff_stops_the_updater)
  show "cleanup sample_reconciler (co_operation_id sample_coordinator_env) sample_committing =
      (Inr (), snd (cleanup sample_reconciler sample_oid sample_committing))"
    by (simp add: cleanup_def sample_reconciler_def sample_coordinator_env_def)
  show "coordinator_constructed (sample_coordinator_env :: unit coordinator_env)" by code_simp
qed (simp_all add: sample_coordinator_env_def)

end
