(* ===== verification/UpdateSnapshot.thy ===== *)
theory UpdateSnapshot
  imports UpdaterJournal
begin

text \<open>
  The snapshot of the data directory (\<open>UpdateSnapshotService\<close> of
  \<open>app/services/update_snapshot_service.py\<close>): its creation beside the data, its verification, and the
  restoration of the database and the secrets from it.  The state is what the file system shows in
  the data directory and in the directories of the snapshots; it is the rest of the update world.
\<close>

section \<open>Files\<close>

datatype fs_node = NoFile | DanglingLink | OtherNode | RegularFile string

record snapshot_file =
  sf_source_path :: string
  sf_snapshot_name :: string
  sf_size :: int
  sf_sha256 :: string

record snapshot_manifest =
  sm_operation_id :: string
  sm_created_at :: datetime
  sm_alembic_revision :: string
  sm_source_image_id :: string
  sm_source_image_reference :: string
  sm_source_version :: string
  sm_source_digest :: "string option"
  sm_files :: "snapshot_file list"

datatype manifest_file = NoManifest | InvalidManifest | Manifest snapshot_manifest

datatype snapshot_state =
    NoSnapshot | DanglingSnapshot | UnsafeSnapshot
  | SnapshotDirectory "string \<Rightarrow> fs_node" manifest_file

text \<open>
  The files of the data directory by their path in it, the copies that a restoration makes beside
  them (\<open>.<name>.<operation>.restore\<close>), and the snapshots by operation.
\<close>

record snapshot_store =
  ss_files :: "string \<Rightarrow> fs_node"
  ss_copies :: "string \<Rightarrow> string \<Rightarrow> string option"
  ss_snapshots :: "string \<Rightarrow> snapshot_state"

type_synonym snapshot_world = "snapshot_store update_world"

text \<open>
  Which operation of the file system fails and how, whether a source changes while it is copied, where
  a path leads once its links are followed, the bytes of the handoff, and the revision that SQLite
  reads in a database with its log and index.
\<close>

datatype io_site =
    IoDirectories | IoCopy string | IoManifest | IoPublish | IoSync | IoRead string
  | IoUnlink string | IoReplace string | IoReplaced string

record snapshot_env =
  sn_io :: "io_site \<Rightarrow> snapshot_world \<Rightarrow> exn option"
  sn_changed :: "string \<Rightarrow> snapshot_world \<Rightarrow> bool"
  sn_relative :: "string \<Rightarrow> string option"
  sn_handoff_node :: "handoff_file \<Rightarrow> fs_node"
  sn_revision :: "fs_node \<Rightarrow> fs_node \<Rightarrow> fs_node \<Rightarrow> string option"
  sn_sha256 :: "string \<Rightarrow> string"
  sn_clock :: "snapshot_world \<Rightarrow> datetime"

definition io :: "snapshot_env \<Rightarrow> io_site \<Rightarrow> (snapshot_world, unit) act" where
  "io env site w = (case sn_io env site w of None \<Rightarrow> (Inr (), w) | Some e \<Rightarrow> (Inl e, w))"

definition files_of :: "snapshot_world \<Rightarrow> string \<Rightarrow> fs_node" where
  "files_of w = ss_files (uw_rest w)"

definition snapshot_of :: "string \<Rightarrow> snapshot_world \<Rightarrow> snapshot_state" where
  "snapshot_of oid w = ss_snapshots (uw_rest w) oid"

text \<open>\<open>exists()\<close> follows links; \<open>is_symlink()\<close> is asked after it.\<close>

definition node_exists :: "fs_node \<Rightarrow> bool" where
  "node_exists n \<longleftrightarrow> n \<notin> {NoFile, DanglingLink}"

definition snapshot_exists :: "string \<Rightarrow> snapshot_world \<Rightarrow> bool" where
  "snapshot_exists oid w \<longleftrightarrow>
     (case snapshot_of oid w of NoSnapshot \<Rightarrow> False | DanglingSnapshot \<Rightarrow> False | _ \<Rightarrow> True)"

definition snapshot_link :: "string \<Rightarrow> snapshot_world \<Rightarrow> bool" where
  "snapshot_link oid w \<longleftrightarrow> (case snapshot_of oid w of DanglingSnapshot \<Rightarrow> True | _ \<Rightarrow> False)"

section \<open>Creating\<close>

definition validate_source_file :: "fs_node \<Rightarrow> exn + unit" where
  "validate_source_file n =
     (case n of RegularFile _ \<Rightarrow> Inr () | _ \<Rightarrow> Inl (snapshot_exn ''source file''))"

text \<open>\<open>_source_paths\<close>: path, name in the snapshot, and what the path shows.\<close>

definition optional_sources ::
    "snapshot_world \<Rightarrow> (string \<times> string) list" where
  "optional_sources w =
     filter (\<lambda>(path, _). node_exists (files_of w path))
       [(''mediasync.db-wal'', ''database.sqlite-wal''), (''mediasync.db-shm'', ''database.sqlite-shm'')]"

definition source_paths ::
    "snapshot_env \<Rightarrow> string \<Rightarrow> snapshot_world \<Rightarrow> exn + (string \<times> string \<times> fs_node) list" where
  "source_paths env oid w =
     (let handoff = sn_handoff_node env (uw_handoff w oid);
          source = (\<lambda>(path, name). (path, name, files_of w path));
          required = [(''mediasync.db'', ''database.sqlite''),
                      (''config/runtime-secrets.json'', ''runtime-secrets.json'')];
          optional = optional_sources w in
      bindR (validate_source_file (files_of w ''mediasync.db'')) (\<lambda>_.
      bindR (validate_source_file (files_of w ''config/runtime-secrets.json'')) (\<lambda>_.
      bindR (validate_source_file handoff) (\<lambda>_.
      if list_all (\<lambda>(path, _). validate_source_file (files_of w path) = Inr ()) optional
      then Inr (map source (required @ optional) @ [(''update/handoff.json'', ''handoff.json'', handoff)])
      else Inl (snapshot_exn ''source file'')))))"

definition relative_source_path :: "snapshot_env \<Rightarrow> string \<Rightarrow> string" where
  "relative_source_path env path =
     (case sn_relative env path of None \<Rightarrow> ''update/handoff.json'' | Some p \<Rightarrow> p)"

definition copy_snapshot_file ::
    "snapshot_env \<Rightarrow> string \<times> string \<times> fs_node \<Rightarrow>
     (snapshot_world, (string \<times> string) \<times> snapshot_file) act" where
  "copy_snapshot_file env source =
     (case source of (path, name, node) \<Rightarrow>
        thenA (io env (IoCopy path))
          (case node of
             RegularFile content \<Rightarrow>
               (\<lambda>w. if sn_changed env path w then (Inl (snapshot_exn ''source changed''), w)
                    else (Inr ((name, content),
                      \<lparr>sf_source_path = (if name = ''handoff.json'' then ''update/handoff.json''
                                         else relative_source_path env path),
                       sf_snapshot_name = name, sf_size = int (length content),
                       sf_sha256 = sn_sha256 env content\<rparr>), w))
           | _ \<Rightarrow> raiseA (tagged COSError ''open'')))"

fun copy_all ::
    "snapshot_env \<Rightarrow> (string \<times> string \<times> fs_node) list \<Rightarrow>
     (snapshot_world, ((string \<times> string) \<times> snapshot_file) list) act" where
  "copy_all env [] = retA []"
| "copy_all env (source # sources) =
     bindA (copy_snapshot_file env source) (\<lambda>f.
     bindA (copy_all env sources) (\<lambda>fs. retA (f # fs)))"

definition snapshot_nodes :: "(string \<times> string) list \<Rightarrow> string \<Rightarrow> fs_node" where
  "snapshot_nodes contents name =
     (case map_of contents name of None \<Rightarrow> NoFile | Some c \<Rightarrow> RegularFile c)"

text \<open>\<open>read_alembic_revision\<close> of a database beside its log and index.\<close>

definition read_alembic_revision ::
    "snapshot_env \<Rightarrow> (string \<Rightarrow> fs_node) \<Rightarrow> string \<Rightarrow> exn + string" where
  "read_alembic_revision env nodes database =
     (case sn_revision env (nodes database) (nodes (database @ ''-wal'')) (nodes (database @ ''-shm'')) of
        None \<Rightarrow> Inl (snapshot_exn ''revision'')
      | Some revision \<Rightarrow>
          if revision = [] then Inl (snapshot_exn ''revision'') else Inr revision)"

definition manifest_of ::
    "snapshot_env \<Rightarrow> handoff_document \<Rightarrow> string \<Rightarrow> snapshot_file list \<Rightarrow> datetime \<Rightarrow> snapshot_manifest" where
  "manifest_of env doc revision entries now =
     \<lparr>sm_operation_id = h_operation_id doc, sm_created_at = now, sm_alembic_revision = revision,
      sm_source_image_id = h_source_image_id doc,
      sm_source_image_reference = h_source_image_reference doc,
      sm_source_version = h_source_version doc, sm_source_digest = h_source_digest doc,
      sm_files = entries\<rparr>"

definition put_snapshot :: "string \<Rightarrow> snapshot_state \<Rightarrow> snapshot_world \<Rightarrow> snapshot_world" where
  "put_snapshot oid s w =
     w\<lparr>uw_rest := (uw_rest w)\<lparr>ss_snapshots := (ss_snapshots (uw_rest w))(oid := s)\<rparr>\<rparr>"

text \<open>The finished temporary directory takes the place of the snapshot; a link there is in its way.\<close>

definition publish_snapshot ::
    "snapshot_env \<Rightarrow> string \<Rightarrow> snapshot_state \<Rightarrow> (snapshot_world, unit) act" where
  "publish_snapshot env oid s =
     thenA (io env IoPublish)
    (thenA (\<lambda>w. case snapshot_of oid w of
                NoSnapshot \<Rightarrow> (Inr (), put_snapshot oid s w)
              | _ \<Rightarrow> (Inl (tagged COSError ''replace''), w))
       (io env IoSync))"

definition snapshot_create :: "snapshot_env \<Rightarrow> string \<Rightarrow> (snapshot_world, unit) act" where
  "snapshot_create env oid w =
     (case read_handoff oid (uw_handoff w oid) of
        Inl e \<Rightarrow> (Inl e, w)
      | Inr doc \<Rightarrow>
          if snapshot_exists oid w then (Inl (snapshot_exn ''snapshot exists''), w)
          else
            thenA (io env IoDirectories)
              (case source_paths env oid w of
                 Inl e \<Rightarrow> raiseA e
               | Inr sources \<Rightarrow>
                   bindA (copy_all env sources) (\<lambda>copies.
                   case read_alembic_revision env (files_of w) ''mediasync.db'' of
                     Inl e \<Rightarrow> raiseA e
                   | Inr revision \<Rightarrow>
                       thenA (io env IoManifest)
                         (publish_snapshot env oid
                            (SnapshotDirectory (snapshot_nodes (map fst copies))
                               (Manifest (manifest_of env doc revision (map snd copies)
                                  (sn_clock env w))))))) w)"

section \<open>Verifying\<close>

definition allowed_files :: "(string \<times> string) list" where
  "allowed_files =
     [(''mediasync.db'', ''database.sqlite''), (''mediasync.db-wal'', ''database.sqlite-wal''),
      (''mediasync.db-shm'', ''database.sqlite-shm''),
      (''config/runtime-secrets.json'', ''runtime-secrets.json''),
      (''update/handoff.json'', ''handoff.json'')]"

definition manifest_files_ok :: "snapshot_manifest \<Rightarrow> bool" where
  "manifest_files_ok m \<longleftrightarrow>
     {''mediasync.db'', ''config/runtime-secrets.json'', ''update/handoff.json''} \<subseteq>
       set (map sf_source_path (sm_files m)) \<and>
     distinct (map sf_source_path (sm_files m))"

definition snapshot_file_ok ::
    "snapshot_env \<Rightarrow> (string \<Rightarrow> fs_node) \<Rightarrow> snapshot_file \<Rightarrow> exn + unit" where
  "snapshot_file_ok env nodes f =
     (if map_of allowed_files (sf_source_path f) \<noteq> Some (sf_snapshot_name f)
      then Inl (snapshot_exn ''file mapping'')
      else case nodes (sf_snapshot_name f) of
             RegularFile c \<Rightarrow>
               require (int (length c) = sf_size f \<and> sn_sha256 env c = sf_sha256 f)
                 (snapshot_exn ''file content'')
           | _ \<Rightarrow> Inl (snapshot_exn ''file content''))"

fun check_files ::
    "snapshot_env \<Rightarrow> (string \<Rightarrow> fs_node) \<Rightarrow> snapshot_file list \<Rightarrow> (snapshot_world, unit) act" where
  "check_files env nodes [] = retA ()"
| "check_files env nodes (f # fs) =
     (case snapshot_file_ok env nodes f of
        Inl e \<Rightarrow> raiseA e
      | Inr _ \<Rightarrow> thenA (io env (IoRead (sf_snapshot_name f))) (check_files env nodes fs))"

definition snapshot_verify ::
    "snapshot_env \<Rightarrow> string \<Rightarrow> (snapshot_world, (string \<Rightarrow> fs_node) \<times> snapshot_manifest) act" where
  "snapshot_verify env oid w =
     (if \<not> operation_id_ok oid then (Inl (tagged CUpdaterHandoff ''operation id''), w)
      else case snapshot_of oid w of
             SnapshotDirectory nodes (Manifest m) \<Rightarrow>
               (if sm_operation_id m \<noteq> oid then raiseA (snapshot_exn ''snapshot operation'')
                else if \<not> manifest_files_ok m then raiseA (snapshot_exn ''snapshot files'')
                else thenA (check_files env nodes (sm_files m))
                       (case read_alembic_revision env nodes ''database.sqlite'' of
                          Inl e \<Rightarrow> raiseA e
                        | Inr revision \<Rightarrow>
                            if revision \<noteq> sm_alembic_revision m
                            then raiseA (snapshot_exn ''snapshot revision'')
                            else retA (nodes, m))) w
           | SnapshotDirectory nodes InvalidManifest \<Rightarrow> (Inl (snapshot_exn ''manifest''), w)
           | _ \<Rightarrow> (Inl (snapshot_exn ''snapshot incomplete''), w))"

section \<open>Restoring\<close>

text \<open>
  What a restoration does to the file system, one operation at a time: a copy beside the file, a log
  or an index that the snapshot does not have removed, a copy put in place of the file.
\<close>

datatype restore_op =
    CopyBeside string string | RemoveOptional string | PutInPlace string

definition set_copy :: "string \<Rightarrow> string \<Rightarrow> string option \<Rightarrow> snapshot_store \<Rightarrow> snapshot_store" where
  "set_copy oid path c s = s\<lparr>ss_copies := (ss_copies s)(oid := (ss_copies s oid)(path := c))\<rparr>"

definition set_node :: "string \<Rightarrow> fs_node \<Rightarrow> snapshot_store \<Rightarrow> snapshot_store" where
  "set_node path n s = s\<lparr>ss_files := (ss_files s)(path := n)\<rparr>"

definition restore_effect :: "string \<Rightarrow> restore_op \<Rightarrow> snapshot_store \<Rightarrow> snapshot_store" where
  "restore_effect oid step s =
     (case step of
        CopyBeside path content \<Rightarrow> set_copy oid path (Some content) s
      | RemoveOptional path \<Rightarrow> set_node path NoFile s
      | PutInPlace path \<Rightarrow>
          (case ss_copies s oid path of
             None \<Rightarrow> s
           | Some content \<Rightarrow> set_copy oid path None (set_node path (RegularFile content) s)))"

definition restore_site :: "restore_op \<Rightarrow> io_site" where
  "restore_site step =
     (case step of CopyBeside path _ \<Rightarrow> IoCopy path | RemoveOptional path \<Rightarrow> IoUnlink path
      | PutInPlace path \<Rightarrow> IoReplace path)"

text \<open>Mode and directory of a file are seen to after it is in place.\<close>

definition restore_after :: "restore_op \<Rightarrow> io_site option" where
  "restore_after step = (case step of PutInPlace path \<Rightarrow> Some (IoReplaced path) | _ \<Rightarrow> None)"

definition restored_files :: "snapshot_manifest \<Rightarrow> snapshot_file list" where
  "restored_files m = filter (\<lambda>f. sf_source_path f \<noteq> ''update/handoff.json'') (sm_files m)"

definition node_content :: "fs_node \<Rightarrow> string" where
  "node_content n = (case n of RegularFile c \<Rightarrow> c | _ \<Rightarrow> [])"

definition restore_ops :: "(string \<Rightarrow> fs_node) \<Rightarrow> snapshot_manifest \<Rightarrow> restore_op list" where
  "restore_ops nodes m =
     (let restored = restored_files m; paths = map sf_source_path restored in
      map (\<lambda>f. CopyBeside (sf_source_path f) (node_content (nodes (sf_snapshot_name f)))) restored @
      map RemoveOptional (filter (\<lambda>p. p \<notin> set paths) [''mediasync.db-wal'', ''mediasync.db-shm'']) @
      map PutInPlace paths)"

definition restore_step :: "snapshot_env \<Rightarrow> string \<Rightarrow> restore_op \<Rightarrow> (snapshot_world, unit) act" where
  "restore_step env oid step =
     thenA (io env (restore_site step))
    (thenA (\<lambda>w. (Inr (), w\<lparr>uw_rest := restore_effect oid step (uw_rest w)\<rparr>))
       (case restore_after step of None \<Rightarrow> retA () | Some site \<Rightarrow> io env site))"

text \<open>\<open>except BaseException\<close>: the copies that this restoration has made are removed.\<close>

definition drop_copies :: "string \<Rightarrow> string list \<Rightarrow> (snapshot_world, unit) act" where
  "drop_copies oid paths w =
     (Inr (), w\<lparr>uw_rest := fold (\<lambda>path. set_copy oid path None) paths (uw_rest w)\<rparr>)"

fun restore_steps ::
    "snapshot_env \<Rightarrow> string \<Rightarrow> string list \<Rightarrow> restore_op list \<Rightarrow> (snapshot_world, unit) act" where
  "restore_steps env oid copied [] = retA ()"
| "restore_steps env oid copied (step # steps) =
     bindA (tryA (restore_step env oid step)) (\<lambda>r. case r of
       Inl e \<Rightarrow> thenA (drop_copies oid copied) (raiseA e)
     | Inr _ \<Rightarrow>
         restore_steps env oid (case step of CopyBeside path _ \<Rightarrow> path # copied | _ \<Rightarrow> copied) steps)"

definition snapshot_restore ::
    "snapshot_env \<Rightarrow> string \<Rightarrow> (snapshot_world, snapshot_manifest) act" where
  "snapshot_restore env oid =
     bindA (snapshot_verify env oid) (\<lambda>(nodes, m).
     thenA (restore_steps env oid [] (restore_ops nodes m)) (retA m))"

end
