(* ===== verification/SnapshotProofs.thy ===== *)
theory SnapshotProofs
  imports UpdateSnapshot
begin

text \<open>
  What a snapshot holds, and what a restoration makes of the data directory, whatever happened to it
  in between and however often the restoration was interrupted.
\<close>

section \<open>What restoring does\<close>

lemma io_returns: "io env site w = (Inr u, w') \<longleftrightarrow> sn_io env site w = None \<and> w' = w"
  by (auto simp: io_def split: option.splits)

definition after_ops :: "string \<Rightarrow> restore_op list \<Rightarrow> snapshot_world \<Rightarrow> snapshot_world" where
  "after_ops oid steps w = w\<lparr>uw_rest := fold (restore_effect oid) steps (uw_rest w)\<rparr>"

lemma restore_step_returns:
  "restore_step env oid step w = (Inr u, w') \<Longrightarrow> w' = after_ops oid [step] w"
  by (auto simp: restore_step_def bindA_eq_Inr io_returns retA_run after_ops_def split: option.splits)

lemma restore_steps_returns:
  "restore_steps env oid copied steps w = (Inr u, w') \<Longrightarrow> w' = after_ops oid steps w"
proof (induction steps arbitrary: copied w)
  case Nil
  then show ?case by (simp add: retA_run after_ops_def)
next
  case (Cons step steps)
  obtain r w1 where step: "restore_step env oid step w = (r, w1)" by fastforce
  with Cons.prems have "r = Inr ()"
    by (cases r) (auto simp: bindA_def tryA_def raiseA_def split: prod.splits sum.splits)
  with step have w1: "w1 = after_ops oid [step] w" by (auto dest: restore_step_returns)
  obtain copied' where "restore_steps env oid copied' steps w1 = (Inr u, w')"
    using Cons.prems step \<open>r = Inr ()\<close> by (simp add: bindA_def tryA_def)
  from Cons.IH [OF this] w1 show ?case by (simp add: after_ops_def)
qed

lemma restore_steps_complete:
  assumes "\<And>site w. sn_io env site w = None"
  shows "restore_steps env oid copied steps w = (Inr (), after_ops oid steps w)"
proof (induction steps arbitrary: copied w)
  case Nil
  then show ?case by (simp add: retA_run after_ops_def)
next
  case (Cons step steps)
  have "restore_step env oid step w = (Inr (), after_ops oid [step] w)"
    using assms
    by (auto simp: restore_step_def bindA_def io_def retA_def after_ops_def split: option.splits)
  with Cons show ?case by (simp add: bindA_def tryA_def after_ops_def)
qed

section \<open>The files after the operations\<close>

lemma restore_effect_snapshots [simp]: "ss_snapshots (restore_effect oid step s) = ss_snapshots s"
  by (auto simp: restore_effect_def set_copy_def set_node_def split: restore_op.splits option.splits)

lemma fold_effect_snapshots [simp]:
  "ss_snapshots (fold (restore_effect oid) steps s) = ss_snapshots s"
  by (induction steps arbitrary: s) simp_all

lemma after_ops_snapshot [simp]: "snapshot_of oid' (after_ops oid steps w) = snapshot_of oid' w"
  by (simp add: snapshot_of_def after_ops_def)

lemma restore_effect_simps [simp]:
  "ss_files (restore_effect oid (CopyBeside p c) s) = ss_files s"
  "ss_copies (restore_effect oid (CopyBeside p c) s) oid = (ss_copies s oid)(p := Some c)"
  "ss_files (restore_effect oid (RemoveOptional p) s) = (ss_files s)(p := NoFile)"
  "ss_copies (restore_effect oid (RemoveOptional p) s) = ss_copies s"
  "ss_copies s oid p = Some c \<Longrightarrow>
     ss_files (restore_effect oid (PutInPlace p) s) = (ss_files s)(p := RegularFile c)"
  "ss_copies s oid p = Some c \<Longrightarrow>
     ss_copies (restore_effect oid (PutInPlace p) s) oid = (ss_copies s oid)(p := None)"
  by (simp_all add: restore_effect_def set_copy_def set_node_def)

lemma fold_copies_files:
  "ss_files (fold (restore_effect oid) (map (\<lambda>f. CopyBeside (path f) (content f)) fs) s) = ss_files s"
  by (induction fs arbitrary: s) simp_all

lemma fold_copies:
  "ss_copies (fold (restore_effect oid) (map (\<lambda>f. CopyBeside (path f) (content f)) fs) s) oid =
     ss_copies s oid ++ map_of (rev (map (\<lambda>f. (path f, content f)) fs))"
  by (induction fs arbitrary: s) (simp_all add: map_add_upd_left fun_upd_def map_add_def fun_eq_iff split: option.split)

lemma fold_copies_at:
  assumes "distinct (map path fs)" and "f \<in> set fs"
  shows "ss_copies (fold (restore_effect oid) (map (\<lambda>f. CopyBeside (path f) (content f)) fs) s) oid (path f) =
    Some (content f)"
proof -
  have "map_of (rev (map (\<lambda>f. (path f, content f)) fs)) (path f) = Some (content f)"
    using assms by (intro map_of_is_SomeI) (auto simp: rev_map [symmetric] o_def distinct_rev)
  then show ?thesis by (simp add: fold_copies)
qed

lemma fold_removals:
  "ss_copies (fold (restore_effect oid) (map RemoveOptional ps) s) = ss_copies s"
  "ss_files (fold (restore_effect oid) (map RemoveOptional ps) s) p =
     (if p \<in> set ps then NoFile else ss_files s p)"
  by (induction ps arbitrary: s) auto

lemma fold_in_place:
  assumes "distinct ps" and "\<And>p. p \<in> set ps \<Longrightarrow> ss_copies s oid p = Some (content p)"
  shows "ss_files (fold (restore_effect oid) (map PutInPlace ps) s) p =
    (if p \<in> set ps then RegularFile (content p) else ss_files s p)"
  using assms
proof (induction ps arbitrary: s)
  case (Cons q ps)
  let ?s = "restore_effect oid (PutInPlace q) s"
  have "ss_copies s oid q = Some (content q)" using Cons.prems(2) by simp
  note q = restore_effect_simps(5,6) [OF this]
  have "ss_files (fold (restore_effect oid) (map PutInPlace ps) ?s) p =
      (if p \<in> set ps then RegularFile (content p) else ss_files ?s p)"
  proof (rule Cons.IH)
    show "ss_copies ?s oid p = Some (content p)" if "p \<in> set ps" for p
      using Cons.prems that unfolding q by auto
  qed (use Cons.prems in simp)
  then show ?case using Cons.prems(1) unfolding q by auto
qed simp

text \<open>What a restoration leaves at a path of the data directory.\<close>

definition restored_node ::
    "(string \<Rightarrow> fs_node) \<Rightarrow> snapshot_manifest \<Rightarrow> string \<Rightarrow> fs_node \<Rightarrow> fs_node" where
  "restored_node nodes m path before =
     (case first_row (\<lambda>f. sf_source_path f = path) (restored_files m) of
        Some f \<Rightarrow> RegularFile (node_content (nodes (sf_snapshot_name f)))
      | None \<Rightarrow> if path \<in> {''mediasync.db-wal'', ''mediasync.db-shm''} then NoFile else before)"

lemma files_after_ops:
  "files_of (after_ops oid steps w) = ss_files (fold (restore_effect oid) steps (uw_rest w))"
  by (simp add: files_of_def after_ops_def fun_eq_iff)

lemma files_after_restore:
  assumes "distinct (map sf_source_path (sm_files m))"
  shows "files_of (after_ops oid (restore_ops nodes m) w) path = restored_node nodes m path (files_of w path)"
proof -
  let ?fs = "restored_files m" and ?content = "\<lambda>f. node_content (nodes (sf_snapshot_name f))"
  let ?removed = "filter (\<lambda>p. p \<notin> set (map sf_source_path ?fs)) [''mediasync.db-wal'', ''mediasync.db-shm'']"
  let ?at = "\<lambda>p. ?content (the (first_row (\<lambda>f. sf_source_path f = p) ?fs))"
  have dist: "distinct (map sf_source_path ?fs)"
    using assms by (simp add: restored_files_def distinct_map_filter)
  let ?s1 = "fold (restore_effect oid) (map (\<lambda>f. CopyBeside (sf_source_path f) (?content f)) ?fs) (uw_rest w)"
  let ?s2 = "fold (restore_effect oid) (map RemoveOptional ?removed) ?s1"
  have copies: "ss_copies ?s2 oid p = Some (?at p)" if "p \<in> set (map sf_source_path ?fs)" for p
    using that fold_copies_at [OF dist] first_row_unique [OF dist] by (auto simp: fold_removals)
  have "files_of (after_ops oid (restore_ops nodes m) w) path =
      (if path \<in> set (map sf_source_path ?fs) then RegularFile (?at path) else ss_files ?s2 path)"
  proof -
    have "fold (restore_effect oid) (restore_ops nodes m) (uw_rest w) =
        fold (restore_effect oid) (map PutInPlace (map sf_source_path ?fs)) ?s2"
      by (simp only: restore_ops_def Let_def fold_append comp_apply)
    then have "files_of (after_ops oid (restore_ops nodes m) w) path =
        ss_files (fold (restore_effect oid) (map PutInPlace (map sf_source_path ?fs)) ?s2) path"
      by (simp only: files_after_ops)
    then show ?thesis using fold_in_place [OF dist copies, of path] by (simp only:)
  qed
  also have "\<dots> = restored_node nodes m path (files_of w path)"
  proof (cases "path \<in> set (map sf_source_path ?fs)")
    case True
    then obtain f where "f \<in> set ?fs" and "sf_source_path f = path" by auto
    then have "first_row (\<lambda>f. sf_source_path f = path) ?fs = Some f"
      using first_row_unique [OF dist, of f] by simp
    with True show ?thesis by (simp add: restored_node_def)
  next
    case False
    then have "first_row (\<lambda>f. sf_source_path f = path) ?fs = None"
      by (auto simp: first_row_None_iff)
    then show ?thesis
      using False by (auto simp: restored_node_def fold_removals fold_copies_files files_of_def)
  qed
  finally show ?thesis .
qed

section \<open>What verifying and creating show\<close>

lemma check_files_returns:
  "check_files env nodes fs w = (Inr u, w') \<Longrightarrow>
     w' = w \<and> (\<forall>f \<in> set fs. snapshot_file_ok env nodes f = Inr ())"
  by (induction fs arbitrary: w)
    (auto simp: retA_run raiseA_run bindA_eq_Inr io_returns split: sum.splits)

lemma verify_returns:
  assumes "snapshot_verify env oid w = (Inr (nodes, m), w')"
  shows "w' = w" and "snapshot_of oid w = SnapshotDirectory nodes (Manifest m)"
    and "distinct (map sf_source_path (sm_files m))"
    and "\<forall>f \<in> set (sm_files m). map_of allowed_files (sf_source_path f) = Some (sf_snapshot_name f)"
    and "manifest_files_ok m"
  using assms
  by (auto simp: snapshot_verify_def raiseA_run retA_run bindA_eq_Inr manifest_files_ok_def
      snapshot_file_ok_def dest!: check_files_returns
      split: if_splits snapshot_state.splits manifest_file.splits sum.splits)

definition copied :: "string \<times> string \<times> fs_node \<Rightarrow> (string \<times> string) \<times> snapshot_file \<Rightarrow> bool" where
  "copied source copy \<longleftrightarrow>
     (case source of (path, name, node) \<Rightarrow>
        fst (fst copy) = name \<and> node = RegularFile (snd (fst copy)) \<and>
        sf_snapshot_name (snd copy) = name)"

lemma copy_all_returns:
  "copy_all env sources w = (Inr copies, w') \<Longrightarrow> w' = w \<and> list_all2 copied sources copies"
  by (induction sources arbitrary: copies w)
    (auto simp: retA_run raiseA_run bindA_eq_Inr io_returns copy_snapshot_file_def copied_def
      split: fs_node.splits if_splits)

lemma publish_returns:
  "publish_snapshot env oid s w = (Inr u, w') \<Longrightarrow> w' = put_snapshot oid s w"
  by (cases "snapshot_of oid w") (auto simp: publish_snapshot_def bindA_eq_Inr io_returns)

lemma create_returns:
  assumes "snapshot_create env oid w = (Inr u, w')"
  obtains sources copies m where "source_paths env oid w = Inr sources"
    and "list_all2 copied sources copies" and "sm_files m = map snd copies"
    and "snapshot_of oid w' = SnapshotDirectory (snapshot_nodes (map fst copies)) (Manifest m)"
  using assms
  by (cases "read_alembic_revision env (files_of w) ''mediasync.db''")
    (auto simp: snapshot_create_def put_snapshot_def snapshot_of_def manifest_of_def
      retA_run raiseA_run bindA_eq_Inr io_returns dest!: copy_all_returns publish_returns
      split: sum.splits if_splits)

definition data_paths :: "string list" where
  "data_paths = [''mediasync.db'', ''mediasync.db-wal'', ''mediasync.db-shm'', ''config/runtime-secrets.json'']"

definition saved_node :: "fs_node \<Rightarrow> fs_node" where
  "saved_node n = (case n of RegularFile c \<Rightarrow> RegularFile c | _ \<Rightarrow> NoFile)"

lemma allowed_inverse:
  "map_of allowed_files p = Some ''database.sqlite'' \<Longrightarrow> p = ''mediasync.db''"
  "map_of allowed_files p = Some ''database.sqlite-wal'' \<Longrightarrow> p = ''mediasync.db-wal''"
  "map_of allowed_files p = Some ''database.sqlite-shm'' \<Longrightarrow> p = ''mediasync.db-shm''"
  "map_of allowed_files p = Some ''runtime-secrets.json'' \<Longrightarrow> p = ''config/runtime-secrets.json''"
  "map_of allowed_files p = Some ''handoff.json'' \<Longrightarrow> p = ''update/handoff.json''"
  by (auto simp: allowed_files_def split: if_splits)

lemma source_paths_of:
  assumes "source_paths env oid w = Inr sources" and "path \<in> set data_paths"
    and "map_of allowed_files path = Some name"
  shows "distinct (map (\<lambda>s. fst (snd s)) sources)"
    and "node_exists (files_of w path) \<Longrightarrow> (path, name, files_of w path) \<in> set sources"
    and "\<not> node_exists (files_of w path) \<Longrightarrow>
      name \<notin> (\<lambda>s. fst (snd s)) ` set sources \<and> path \<in> {''mediasync.db-wal'', ''mediasync.db-shm''}"
proof -
  obtain handoff where "sources = map (\<lambda>(path, name). (path, name, files_of w path))
        ([(''mediasync.db'', ''database.sqlite''),
          (''config/runtime-secrets.json'', ''runtime-secrets.json'')] @ optional_sources w) @
      [(''update/handoff.json'', ''handoff.json'', handoff)]"
    and "node_exists (files_of w ''mediasync.db'')"
    and "node_exists (files_of w ''config/runtime-secrets.json'')"
    using assms(1)
    by (auto simp: source_paths_def Let_def validate_source_file_def node_exists_def
        split: fs_node.splits if_splits)
  moreover have "(path, name) \<in> set allowed_files" and "path \<noteq> ''update/handoff.json''"
    using assms(2,3) by (auto simp: data_paths_def dest: map_of_SomeD)
  ultimately show "distinct (map (\<lambda>s. fst (snd s)) sources)"
    and "node_exists (files_of w path) \<Longrightarrow> (path, name, files_of w path) \<in> set sources"
    and "\<not> node_exists (files_of w path) \<Longrightarrow>
      name \<notin> (\<lambda>s. fst (snd s)) ` set sources \<and> path \<in> {''mediasync.db-wal'', ''mediasync.db-shm''}"
    by (auto simp: optional_sources_def allowed_files_def)
qed

lemma copied_names:
  assumes "list_all2 copied sources copies"
  shows "map (\<lambda>c. fst (fst c)) copies = map (\<lambda>s. fst (snd s)) sources"
    and "map (\<lambda>c. sf_snapshot_name (snd c)) copies = map (\<lambda>s. fst (snd s)) sources"
  using assms by (induction rule: list_all2_induct) (auto simp: copied_def)

lemma copied_member:
  assumes "list_all2 copied sources copies" and "s \<in> set sources"
  shows "\<exists>c \<in> set copies. copied s c"
  using assms by (induction rule: list_all2_induct) auto

lemma allowed_injective:
  "map_of allowed_files p = Some n \<Longrightarrow> map_of allowed_files q = Some n \<Longrightarrow> p = q"
  by (auto simp: allowed_files_def split: if_splits)

lemma data_path_allowed:
  "path \<in> set data_paths \<Longrightarrow> \<exists>name. map_of allowed_files path = Some name \<and> path \<noteq> ''update/handoff.json''"
  by (auto simp: data_paths_def allowed_files_def)

lemma created_snapshot:
  assumes "snapshot_create env oid w0 = (Inr (), w1)"
    and snapshot: "snapshot_of oid w1 = SnapshotDirectory nodes (Manifest m)"
    and dist: "distinct (map sf_source_path (sm_files m))"
    and mapped: "\<forall>f \<in> set (sm_files m). map_of allowed_files (sf_source_path f) = Some (sf_snapshot_name f)"
    and path: "path \<in> set data_paths"
  shows "restored_node nodes m path before = saved_node (files_of w0 path)"
proof -
  obtain name where name: "map_of allowed_files path = Some name" and "path \<noteq> ''update/handoff.json''"
    using data_path_allowed [OF path] by blast
  obtain sources copies where sources: "source_paths env oid w0 = Inr sources"
    and copies: "list_all2 copied sources copies" and m: "sm_files m = map snd copies"
    and nodes: "nodes = snapshot_nodes (map fst copies)"
    using create_returns [OF assms(1)] snapshot by auto
  note facts = source_paths_of [OF sources path name]
  have restored: "restored_files m = filter (\<lambda>f. sf_source_path f \<noteq> ''update/handoff.json'') (map snd copies)"
    by (simp add: restored_files_def m)
  show ?thesis
  proof (cases "node_exists (files_of w0 path)")
    case True
    obtain c where c: "c \<in> set copies" "copied (path, name, files_of w0 path) c"
      using copied_member [OF copies facts(2) [OF True]] by blast
    then have "sf_snapshot_name (snd c) = name" and content: "files_of w0 path = RegularFile (snd (fst c))"
      and "fst (fst c) = name"
      by (auto simp: copied_def)
    then have p: "sf_source_path (snd c) = path"
      using mapped m c(1) name allowed_injective by fastforce
    then have "snd c \<in> set (restored_files m)" using c(1) \<open>path \<noteq> _\<close> by (auto simp: restored)
    moreover have "distinct (map sf_source_path (restored_files m))"
      using dist by (simp add: restored_files_def distinct_map_filter)
    ultimately have "first_row (\<lambda>f. sf_source_path f = path) (restored_files m) = Some (snd c)"
      using first_row_unique p by metis
    moreover have "map_of (map fst copies) name = Some (snd (fst c))"
    proof (rule map_of_is_SomeI)
      show "distinct (map fst (map fst copies))"
        using copied_names(1) [OF copies] facts(1) by (simp add: o_def)
      show "(name, snd (fst c)) \<in> set (map fst copies)"
        using c(1) \<open>fst (fst c) = name\<close> by force
    qed
    ultimately show ?thesis
      using \<open>sf_snapshot_name (snd c) = name\<close> content
      by (simp add: restored_node_def nodes snapshot_nodes_def node_content_def saved_node_def)
  next
    case False
    have "sf_source_path f \<noteq> path" if "f \<in> set (map snd copies)" for f
    proof
      assume "sf_source_path f = path"
      then have "sf_snapshot_name f = name" using mapped m that name by auto
      then have "name \<in> set (map (\<lambda>c. sf_snapshot_name (snd c)) copies)" using that by auto
      with facts(3) [OF False] show False unfolding copied_names(2) [OF copies] by auto
    qed
    then have "first_row (\<lambda>f. sf_source_path f = path) (restored_files m) = None"
      by (auto simp: restored first_row_None_iff)
    with facts(3) [OF False] False show ?thesis
      by (auto simp: restored_node_def saved_node_def node_exists_def)
  qed
qed

section \<open>Restorations\<close>

lemma restore_returns:
  assumes "snapshot_restore env oid w = (Inr m, w')"
  obtains nodes where "snapshot_verify env oid w = (Inr (nodes, m), w)"
    and "w' = after_ops oid (restore_ops nodes m) w"
proof -
  obtain nodes w1 where v: "snapshot_verify env oid w = (Inr (nodes, m), w1)"
    and "restore_steps env oid [] (restore_ops nodes m) w1 = (Inr (), w')"
    using assms by (auto simp: snapshot_restore_def bindA_eq_Inr retA_run)
  moreover have "w1 = w" using verify_returns(1) [OF v] .
  ultimately show ?thesis using that restore_steps_returns by blast
qed

lemma restored_is_saved:
  assumes "snapshot_create env oid w0 = (Inr (), w1)"
    and "snapshot_of oid w2 = snapshot_of oid w1"
    and "snapshot_restore env' oid w2 = (Inr m, w3)" and "path \<in> set data_paths"
  shows "files_of w3 path = saved_node (files_of w0 path)"
proof -
  obtain nodes where v: "snapshot_verify env' oid w2 = (Inr (nodes, m), w2)"
    and w3: "w3 = after_ops oid (restore_ops nodes m) w2"
    using restore_returns [OF assms(3)] by blast
  have "snapshot_of oid w1 = SnapshotDirectory nodes (Manifest m)"
    using verify_returns(2) [OF v] assms(2) by simp
  with created_snapshot [OF assms(1) _ verify_returns(3,4) [OF v] assms(4)] show ?thesis
    by (simp add: w3 files_after_restore [OF verify_returns(3) [OF v]])
qed

lemma check_files_elsewhere:
  assumes "\<And>site w. sn_io env site w = None"
  shows "check_files env nodes fs w = (Inr (), w) \<Longrightarrow> check_files env nodes fs w' = (Inr (), w')"
  using assms
  by (induction fs) (auto simp: retA_run raiseA_run bindA_def io_def split: sum.splits)

lemma verify_elsewhere:
  assumes "\<And>site w. sn_io env site w = None" and "snapshot_of oid w' = snapshot_of oid w"
    and "snapshot_verify env oid w = (Inr (nodes, m), w)"
  shows "snapshot_verify env oid w' = (Inr (nodes, m), w')"
proof -
  have snapshot: "snapshot_of oid w = SnapshotDirectory nodes (Manifest m)"
    using verify_returns(2) [OF assms(3)] .
  have checked: "check_files env nodes (sm_files m) w = (Inr (), w)"
    and rest: "operation_id_ok oid" "sm_operation_id m = oid" "manifest_files_ok m"
      "read_alembic_revision env nodes ''database.sqlite'' = Inr (sm_alembic_revision m)"
    using assms(3) snapshot
    by (auto simp: snapshot_verify_def bindA_eq_Inr raiseA_run retA_run dest: check_files_returns
        split: if_splits sum.splits)
  then show ?thesis
    using check_files_elsewhere [OF assms(1) checked, of w'] assms(2) snapshot
    by (simp add: snapshot_verify_def bindA_def retA_def)
qed

text \<open>
  A restoration that is cut off after any of its operations, and started again when the file system
  works, ends and leaves what an uninterrupted one leaves.
\<close>

lemma interrupted_restore:
  assumes "\<And>site w. sn_io env site w = None"
    and "snapshot_verify env oid w = (Inr (nodes, m), w)" and "path \<in> set data_paths"
  shows "\<exists>w'. snapshot_restore env oid (after_ops oid (take k (restore_ops nodes m)) w) = (Inr m, w') \<and>
    files_of w' path = restored_node nodes m path NoFile"
proof -
  let ?cut = "after_ops oid (take k (restore_ops nodes m)) w"
  have v: "snapshot_verify env oid ?cut = (Inr (nodes, m), ?cut)"
    by (rule verify_elsewhere [OF assms(1) _ assms(2)]) simp
  then have "snapshot_restore env oid ?cut = (Inr m, after_ops oid (restore_ops nodes m) ?cut)"
    using restore_steps_complete [OF assms(1)] by (simp add: snapshot_restore_def bindA_def retA_def)
  moreover have "restored_node nodes m path (files_of ?cut path) = restored_node nodes m path NoFile"
  proof (cases "first_row (\<lambda>f. sf_source_path f = path) (restored_files m)")
    case None
    then have "path \<notin> set (map sf_source_path (restored_files m))" by (auto simp: first_row_None_iff)
    moreover have "{''mediasync.db'', ''config/runtime-secrets.json''} \<subseteq>
        set (map sf_source_path (restored_files m))"
    proof -
      have "set (map sf_source_path (restored_files m)) =
          set (map sf_source_path (sm_files m)) - {''update/handoff.json''}"
        by (auto simp: restored_files_def)
      with verify_returns(5) [OF assms(2)] show ?thesis by (simp add: manifest_files_ok_def)
    qed
    ultimately have "path \<in> {''mediasync.db-wal'', ''mediasync.db-shm''}"
      using assms(3) unfolding data_paths_def list.set by blast
    with None show ?thesis by (simp add: restored_node_def)
  qed (simp add: restored_node_def)
  ultimately show ?thesis
    using files_after_restore [OF verify_returns(3) [OF assms(2)]] by metis
qed

section \<open>As a service of the updater\<close>

lemma keeps_io: "action_contract R \<Longrightarrow> keeps R (io env site)"
  by (auto simp: keeps_def io_def action_contract_def split: option.splits)

lemma verify_world: "snd (snapshot_verify env oid w) = w"
proof -
  have "snd (check_files env nodes fs w) = w" for nodes fs
    by (induction fs) (auto simp: retA_def raiseA_def bindA_def io_def split: sum.splits option.splits)
  then show ?thesis
    by (auto simp: snapshot_verify_def bindA_def retA_def raiseA_def
        split: snapshot_state.splits manifest_file.splits sum.splits prod.splits)
      (metis snd_conv)+
qed

end
