(* ===== verification/SnapshotProperties.thy ===== *)
theory SnapshotProperties
  imports SnapshotProofs UpdaterProperties
begin

text \<open>
  The snapshot service as the updater uses it: what the forward executor saves is what the rollback
  executor brings back.
\<close>

section \<open>The snapshot service of the updater\<close>

definition with_snapshots :: "snapshot_env \<Rightarrow> snapshot_store updater_env \<Rightarrow> snapshot_store updater_env" where
  "with_snapshots senv env = env
     \<lparr>ue_snapshot_exists := snapshot_exists,
      ue_snapshot_link := snapshot_link,
      ue_snapshot_create := snapshot_create senv,
      ue_snapshot_verify := \<lambda>oid. thenA (snapshot_verify senv oid) (retA ()),
      ue_snapshot_restore := \<lambda>oid. thenA (snapshot_restore senv oid) (retA ())\<rparr>"

lemma with_snapshots_fields [simp]:
  "ue_snapshot_exists (with_snapshots senv env) = snapshot_exists"
  "ue_snapshot_link (with_snapshots senv env) = snapshot_link"
  "ue_snapshot_create (with_snapshots senv env) = snapshot_create senv"
  "ue_snapshot_verify (with_snapshots senv env) oid = thenA (snapshot_verify senv oid) (retA ())"
  "ue_snapshot_restore (with_snapshots senv env) oid = thenA (snapshot_restore senv oid) (retA ())"
  by (simp_all add: with_snapshots_def)













section \<open>Keeping the snapshot\<close>





text \<open>The snapshot service is one of those that leave the journal alone.\<close>

lemma keeps_journal_io: "keeps same_journal (io senv site)"
  by (rule keeps_io) unfold_locales

lemma keeps_journal_state: "(\<And>w. uw_journal (snd (m w)) = uw_journal w) \<Longrightarrow> keeps same_journal m"
  by (simp add: keeps_def same_journal_def)

lemma keeps_verify: "keeps same_journal (snapshot_verify senv oid)"
  by (rule keeps_journal_state) (simp add: verify_world)

lemma keeps_restore: "keeps same_journal (snapshot_restore senv oid)"
proof -
  have step: "keeps same_journal (restore_step senv oid step)" for step
    unfolding restore_step_def by (intro effects keeps_journal_io) (simp add: keeps_journal_state)
  have drop: "keeps same_journal (drop_copies oid paths)" for paths
    by (rule keeps_journal_state) (simp add: drop_copies_def)
  have "keeps same_journal (restore_steps senv oid paths steps)" for paths steps
    by (induction steps arbitrary: paths) (auto intro!: effects step drop)
  then show ?thesis
    unfolding snapshot_restore_def by (auto intro!: effects keeps_verify)
qed

lemma keeps_copy_all: "keeps same_journal (copy_all senv sources)"
proof (induction sources)
  case (Cons source sources)
  have "keeps same_journal (copy_snapshot_file senv source)"
    by (auto simp: copy_snapshot_file_def intro!: effects keeps_journal_io
        split: prod.split fs_node.split) (auto intro: keeps_journal_state)
  with Cons show ?case by (auto intro!: effects)
qed (simp add: effects)

lemma keeps_create: "keeps same_journal (snapshot_create senv oid)"
proof -
  have publish: "keeps same_journal (publish_snapshot senv oid s)" for s
    unfolding publish_snapshot_def
    by (intro effects keeps_journal_io keeps_journal_state)
      (simp add: put_snapshot_def split: snapshot_state.split)
  show ?thesis
  proof (rule keeps_journal_state)
    fix w
    have "keeps same_journal (thenA (io senv IoDirectories)
        (case source_paths senv oid w of Inl e \<Rightarrow> raiseA e | Inr sources \<Rightarrow>
           bindA (copy_all senv sources) (\<lambda>copies.
           case read_alembic_revision senv (files_of w) ''mediasync.db'' of Inl e \<Rightarrow> raiseA e
           | Inr revision \<Rightarrow> thenA (io senv IoManifest)
               (publish_snapshot senv oid (content copies revision)))))" for content
      by (intro effects keeps_journal_io keeps_copy_all publish)
    then show "uw_journal (snd (snapshot_create senv oid w)) = uw_journal w"
      by (auto simp: snapshot_create_def keeps_def same_journal_def split: sum.split)
  qed
qed

lemma keeps_snapshots:
  assumes "services_keep same_journal env"
  shows "services_keep same_journal (with_snapshots senv env)"
proof -
  have "keeps same_journal (thenA (snapshot_verify senv oid) (retA ()))" for oid
    by (intro effects keeps_verify)
  moreover have "keeps same_journal (thenA (snapshot_restore senv oid) (retA ()))" for oid
    by (intro effects keeps_restore)
  moreover note keeps_create
  ultimately show ?thesis using assms by (simp add: services_keep_def with_snapshots_def)
qed

section \<open>A sample data directory\<close>








section \<open>Saving and restoring\<close>





end
