(* ===== verification/UpdaterImages.thy ===== *)
theory UpdaterImages
  imports UpdaterForward
begin

text \<open>
  The images that an update may install (\<open>app/services/image_target_service.py\<close>): the official
  registries, the resolution of a version to a digest over HTTP, the download, and what a downloaded
  image has to show.  The HTTP client and Docker are parameters.
\<close>

section \<open>Registries and targets\<close>

record official_registry =
  or_key :: string
  or_repository :: string
  or_host :: string
  or_registry_repository :: string
  or_auth_hosts :: "string list"

definition OFFICIAL_REGISTRIES :: "official_registry list" where
  "OFFICIAL_REGISTRIES =
     [\<lparr>or_key = ''dockerhub'', or_repository = ''josephyjq/mediasync'',
       or_host = ''registry-1.docker.io'', or_registry_repository = ''josephyjq/mediasync'',
       or_auth_hosts = [''auth.docker.io'']\<rparr>,
      \<lparr>or_key = ''ghcr'', or_repository = ''ghcr.io/josephyin/mediasync'', or_host = ''ghcr.io'',
       or_registry_repository = ''josephyin/mediasync'', or_auth_hosts = [''ghcr.io'']\<rparr>]"

definition manifest_base_url :: "official_registry \<Rightarrow> string" where
  "manifest_base_url r =
     ''https://'' @ or_host r @ ''/v2/'' @ or_registry_repository r @ ''/manifests''"

record image_target =
  it_registry :: string
  it_repository :: string
  it_version :: string
  it_digest :: string

record verified_target = image_target +
  it_revision :: string

definition immutable_reference :: "'a image_target_scheme \<Rightarrow> string" where
  "immutable_reference t = it_repository t @ ''@'' @ it_digest t"

definition image_exn :: "string \<Rightarrow> exn" where
  "image_exn tag = tagged (CNamed ''ImageTargetError'') tag"

definition get_official_registry :: "string \<Rightarrow> exn + official_registry" where
  "get_official_registry key =
     (case first_row (\<lambda>r. or_key r = key) OFFICIAL_REGISTRIES of
        None \<Rightarrow> Inl (image_exn ''registry'')
      | Some r \<Rightarrow> Inr r)"

definition validate_exact_version :: "string \<Rightarrow> exn + string" where
  "validate_exact_version version =
     (if version_tag_ok (strip version) then Inr (strip version) else Inl (image_exn ''version''))"

definition normalize_digest :: "string \<Rightarrow> exn + string" where
  "normalize_digest digest =
     (let normalized = lower (strip digest) in
      if digest_ok normalized then Inr normalized else Inl (image_exn ''digest''))"

definition validate_resolved_target ::
    "'a image_target_scheme \<Rightarrow> string \<Rightarrow> string \<Rightarrow> exn + unit" where
  "validate_resolved_target t registry_key version =
     bindR (get_official_registry registry_key) (\<lambda>r.
     bindR (validate_exact_version version) (\<lambda>expected.
     bindR (require (it_registry t = or_key r \<and> it_repository t = or_repository r \<and>
                     it_version t = expected) (image_exn ''target'')) (\<lambda>_.
     bindR (normalize_digest (it_digest t)) (\<lambda>_. Inr ()))))"

section \<open>What an image shows\<close>

definition OFFICIAL_SOURCE :: string where
  "OFFICIAL_SOURCE = ''https://github.com/josephyin/MediaSync''"

definition image_labels :: "container \<Rightarrow> (string \<times> json) list" where
  "image_labels img = mapping (jget (mapping (jget img ''Config'')) ''Labels'')"

definition normalize_label_version :: "json \<Rightarrow> string option" where
  "normalize_label_version j = (case j of JStr s \<Rightarrow> Some (removeprefix ''v'' s) | _ \<Rightarrow> None)"

definition expected_digests :: "'a image_target_scheme \<Rightarrow> string list" where
  "expected_digests t =
     map (\<lambda>repository. repository @ ''@'' @ it_digest t)
       (it_repository t #
        (if it_registry t = ''dockerhub'' then [''docker.io/'' @ it_repository t] else []))"

definition repo_digests_contain_target :: "json list \<Rightarrow> 'a image_target_scheme \<Rightarrow> bool" where
  "repo_digests_contain_target repo_digests t \<longleftrightarrow>
     list_ex (\<lambda>j. case j of JStr s \<Rightarrow> s \<in> set (expected_digests t) | _ \<Rightarrow> False) repo_digests"

definition reject_same_version_digest_drift ::
    "container \<Rightarrow> 'a image_target_scheme \<Rightarrow> exn + unit" where
  "reject_same_version_digest_drift img t =
     (if normalize_label_version (jget (image_labels img) ''org.opencontainers.image.version'') \<noteq>
         Some (removeprefix ''v'' (it_version t)) then Inr ()
      else case jget img ''RepoDigests'' of
             JList repo_digests \<Rightarrow>
               require (repo_digests_contain_target repo_digests t) (image_exn ''digest drift'')
           | _ \<Rightarrow> Inl (image_exn ''no digest''))"

definition validate_pulled_image :: "container \<Rightarrow> 'a image_target_scheme \<Rightarrow> exn + string" where
  "validate_pulled_image img t =
     (let labels = image_labels img in
      bindR (require (case jget img ''RepoDigests'' of
                        JList repo_digests \<Rightarrow> repo_digests_contain_target repo_digests t
                      | _ \<Rightarrow> False) (image_exn ''image digest'')) (\<lambda>_.
      bindR (require (case jget img ''Config'' of JObj _ \<Rightarrow> True | _ \<Rightarrow> False)
               (image_exn ''image config'')) (\<lambda>_.
      bindR (require (jget (mapping (jget img ''Config'')) ''Cmd'' = APPLIANCE_COMMAND)
               (image_exn ''image command'')) (\<lambda>_.
      bindR (require (jget labels ''org.opencontainers.image.source'' = JStr OFFICIAL_SOURCE \<and>
                      jget labels ''org.opencontainers.image.title'' = JStr ''MediaSync'')
               (image_exn ''image source'')) (\<lambda>_.
      bindR (require (normalize_label_version (jget labels ''org.opencontainers.image.version'') =
                      Some (removeprefix ''v'' (it_version t))) (image_exn ''image version'')) (\<lambda>_.
      case jget labels ''org.opencontainers.image.revision'' of
        JStr revision \<Rightarrow> if revision_ok revision then Inr revision else Inl (image_exn ''image revision'')
      | _ \<Rightarrow> Inl (image_exn ''image revision'')))))))"

section \<open>Resolving a version\<close>

text \<open>
  \<open>AUTH_PARAMETER_PATTERN.findall\<close>: a run of letters before \<open>="\<close> and a closing quote; the scan
  goes on behind a match, or behind the run of letters that begins none.
\<close>

definition is_letter :: "char \<Rightarrow> bool" where
  "is_letter c = (let n = of_char c :: nat in (65 \<le> n \<and> n \<le> 90) \<or> (97 \<le> n \<and> n \<le> 122))"

definition quote :: char where
  "quote = char_of (34 :: nat)"

definition quoted_value :: "string \<Rightarrow> (string \<times> string) option" where
  "quoted_value s =
     (case s of
        e # q # r \<Rightarrow>
          if e = CHR ''='' \<and> q = quote \<and> quote \<in> set r
          then Some (takeWhile (\<lambda>c. c \<noteq> quote) r, tl (dropWhile (\<lambda>c. c \<noteq> quote) r))
          else None
      | _ \<Rightarrow> None)"

lemma quoted_value_shorter: "quoted_value s = Some (v, r) \<Longrightarrow> length r < length s"
  by (auto simp: quoted_value_def split: list.splits if_splits)
    (metis (no_types) diff_le_self le_imp_less_Suc length_dropWhile_le less_SucI order_trans)

lemma rest_of_word_shorter:
  assumes "takeWhile p (dropWhile q s) \<noteq> []"
  shows "length (dropWhile p (dropWhile q s)) < length s"
proof -
  let ?t = "dropWhile q s"
  have "length (takeWhile p ?t) + length (dropWhile p ?t) = length ?t"
    by (metis length_append takeWhile_dropWhile_id)
  moreover have "0 < length (takeWhile p ?t)" using assms by simp
  ultimately show ?thesis using length_dropWhile_le [of q s] by linarith
qed

function auth_parameters :: "string \<Rightarrow> (string \<times> string) list" where
  "auth_parameters s =
     (let word = takeWhile is_letter (dropWhile (\<lambda>c. \<not> is_letter c) s);
          rest = dropWhile is_letter (dropWhile (\<lambda>c. \<not> is_letter c) s) in
      if word = [] then []
      else case quoted_value rest of
             None \<Rightarrow> auth_parameters rest
           | Some (v, r) \<Rightarrow> (word, v) # auth_parameters r)"
  by pat_completeness auto

termination
  by (relation "measure length")
    (auto simp: rest_of_word_shorter dest!: quoted_value_shorter intro: less_trans [OF _ rest_of_word_shorter])

declare auth_parameters.simps [simp del]

text \<open>\<open>dict\<close> of the matches: the value of a key that comes again is the last.\<close>

definition auth_parameter :: "string \<Rightarrow> string \<Rightarrow> string option" where
  "auth_parameter parameters key = map_of (rev (auth_parameters parameters)) key"

text \<open>
  \<open>urlparse\<close>: scheme and network location of a URL and its parts.  \<open>netloc_ok\<close> is the check of
  brackets and of characters that change under normalisation, on which it raises \<open>ValueError\<close>.
\<close>

record parsed_url =
  pu_scheme :: string
  pu_hostname :: "string option"
  pu_username :: "string option"
  pu_password :: "string option"

definition partition_char :: "char \<Rightarrow> string \<Rightarrow> string \<times> string option" where
  "partition_char c s =
     (takeWhile (\<lambda>x. x \<noteq> c) s, if c \<in> set s then Some (tl (dropWhile (\<lambda>x. x \<noteq> c) s)) else None)"

definition clean_url :: "string \<Rightarrow> string" where
  "clean_url s =
     filter (\<lambda>c. c \<notin> {char_of (9 :: nat), char_of (10 :: nat), char_of (13 :: nat)})
       (dropWhile (\<lambda>c. (of_char c :: nat) \<le> 32) s)"

definition is_scheme_char :: "char \<Rightarrow> bool" where
  "is_scheme_char c \<longleftrightarrow> is_letter c \<or> is_digit c \<or> c \<in> {CHR ''+'', CHR ''-'', CHR ''.''}"

definition split_scheme :: "string \<Rightarrow> string \<times> string" where
  "split_scheme s =
     (case partition_char (CHR '':'') s of
        (scheme, Some rest) \<Rightarrow>
          if scheme \<noteq> [] \<and> is_letter (hd scheme) \<and> list_all is_scheme_char scheme
          then (lower scheme, rest) else ([], s)
      | _ \<Rightarrow> ([], s))"

definition split_netloc :: "string \<Rightarrow> string" where
  "split_netloc s =
     (case expect ''//'' s of
        None \<Rightarrow> []
      | Some r \<Rightarrow> takeWhile (\<lambda>c. c \<notin> {CHR ''/'', CHR ''?'', CHR ''#''}) r)"

definition url_hostname :: "string \<Rightarrow> string option" where
  "url_hostname hostinfo =
     (let host = (case partition_char (CHR ''['') hostinfo of
                    (_, Some bracketed) \<Rightarrow> fst (partition_char (CHR '']'') bracketed)
                  | _ \<Rightarrow> fst (partition_char (CHR '':'') hostinfo)) in
      if host = [] then None
      else Some (case partition_char (CHR ''%'') host of
                   (h, Some zone) \<Rightarrow> lower h @ ''%'' @ zone
                 | (h, None) \<Rightarrow> lower h))"

definition urlparse :: "(string \<Rightarrow> bool) \<Rightarrow> string \<Rightarrow> exn + parsed_url" where
  "urlparse netloc_ok s =
     (case split_scheme (clean_url s) of (scheme, rest) \<Rightarrow>
        let netloc = split_netloc rest in
        if \<not> netloc_ok netloc then Inl (tagged CValueError ''url'')
        else case rpartition (CHR ''@'') netloc of (userinfo, found, hostinfo) \<Rightarrow>
          Inr \<lparr>pu_scheme = scheme, pu_hostname = url_hostname hostinfo,
               pu_username = (if found then Some (fst (partition_char (CHR '':'') userinfo)) else None),
               pu_password = (if found then snd (partition_char (CHR '':'') userinfo) else None)\<rparr>)"

text \<open>
  An answer has a status, its headers, and its JSON value unless \<open>json()\<close> raises \<open>ValueError\<close>.  A
  request has a URL, parameters and headers.
\<close>

record http_response =
  hr_status :: int
  hr_headers :: "(string \<times> string) list"
  hr_json :: "json option"

record http_request =
  hq_url :: string
  hq_params :: "(string \<times> string) list"
  hq_headers :: "(string \<times> string) list"

type_synonym 's http_client = "http_request \<Rightarrow> ('s, http_response) act"

fun join_comma :: "string list \<Rightarrow> string" where
  "join_comma [] = []"
| "join_comma [s] = s"
| "join_comma (s # ss) = s @ '', '' @ join_comma ss"

definition response_header :: "http_response \<Rightarrow> string \<Rightarrow> string" where
  "response_header r name =
     join_comma (map snd (filter (\<lambda>(k, _). lower k = lower name) (hr_headers r)))"

definition MANIFEST_ACCEPT :: string where
  "MANIFEST_ACCEPT = join_comma
     [''application/vnd.oci.image.index.v1+json'',
      ''application/vnd.docker.distribution.manifest.list.v2+json'',
      ''application/vnd.oci.image.manifest.v1+json'',
      ''application/vnd.docker.distribution.manifest.v2+json'']"

text \<open>The realm, the service and the scope of a challenge that may be followed.\<close>

definition accept_challenge ::
    "(string \<Rightarrow> bool) \<Rightarrow> official_registry \<Rightarrow> string \<Rightarrow> exn + (string \<times> string \<times> string)" where
  "accept_challenge netloc_ok registry challenge =
     (let (scheme, parameters) = partition_char (CHR '' '') challenge;
          params = coalesce parameters [];
          realm = coalesce (auth_parameter params ''realm'') [];
          wanted = ''repository:'' @ or_registry_repository registry @ '':pull'' in
      bindR (require (parameters \<noteq> None \<and> lower scheme = ''bearer'') (image_exn ''challenge'')) (\<lambda>_.
      bindR (urlparse netloc_ok realm) (\<lambda>url.
      bindR (require (pu_scheme url = ''https'' \<and>
                      (case pu_hostname url of None \<Rightarrow> False
                       | Some h \<Rightarrow> h \<in> set (or_auth_hosts registry)) \<and>
                      pu_username url = None \<and> pu_password url = None) (image_exn ''realm'')) (\<lambda>_.
      case (auth_parameter params ''service'', auth_parameter params ''scope'') of
        (Some service, Some scope) \<Rightarrow>
          if service \<noteq> [] \<and> scope = wanted then Inr (realm, service, scope)
          else Inl (image_exn ''scope'')
      | _ \<Rightarrow> Inl (image_exn ''scope'')))))"

definition token_of :: "http_response \<Rightarrow> exn + string" where
  "token_of r =
     (if hr_status r \<noteq> 200 then Inl (image_exn ''authentication'')
      else case hr_json r of
             Some (JObj payload) \<Rightarrow>
               (case (if truthy (jget payload ''token'') then jget payload ''token''
                      else jget payload ''access_token'') of
                  JStr token \<Rightarrow> if token = [] then Inl (image_exn ''token'') else Inr token
                | _ \<Rightarrow> Inl (image_exn ''token''))
           | _ \<Rightarrow> Inl (image_exn ''token''))"

definition request_token ::
    "(string \<Rightarrow> bool) \<Rightarrow> 's http_client \<Rightarrow> official_registry \<Rightarrow> string \<Rightarrow> ('s, string) act" where
  "request_token netloc_ok client registry challenge =
     (case accept_challenge netloc_ok registry challenge of
        Inl e \<Rightarrow> raiseA e
      | Inr (realm, service, scope) \<Rightarrow>
          bindA (client \<lparr>hq_url = realm, hq_params = [(''service'', service), (''scope'', scope)],
                         hq_headers = []\<rparr>) (\<lambda>r.
          inspectA (\<lambda>_. token_of r)))"

text \<open>\<open>except\<close> a class \<open>as exc: raise\<close> another exception.\<close>

definition rethrow :: "(exn_class \<Rightarrow> bool) \<Rightarrow> exn \<Rightarrow> ('s, 'a) act \<Rightarrow> ('s, 'a) act" where
  "rethrow caught e m =
     bindA (tryA m) (\<lambda>r. case r of
       Inl x \<Rightarrow> raiseA (if caught (e_class x) then e else x)
     | Inr y \<Rightarrow> retA y)"

definition manifest_request :: "official_registry \<Rightarrow> string \<Rightarrow> string option \<Rightarrow> http_request" where
  "manifest_request registry version token =
     \<lparr>hq_url = manifest_base_url registry @ ''/'' @ version, hq_params = [],
      hq_headers = (''Accept'', MANIFEST_ACCEPT) #
        (case token of None \<Rightarrow> [] | Some t \<Rightarrow> [(''Authorization'', ''Bearer '' @ t)])\<rparr>"

definition fetch_manifest ::
    "(string \<Rightarrow> bool) \<Rightarrow> 's http_client \<Rightarrow> official_registry \<Rightarrow> string \<Rightarrow> ('s, http_response) act" where
  "fetch_manifest netloc_ok client registry version =
     rethrow (\<lambda>c. c = CNamed ''HTTPError'') (image_exn ''unreachable'')
       (bindA (client (manifest_request registry version None)) (\<lambda>r.
        if hr_status r = 401
        then bindA (request_token netloc_ok client registry (response_header r ''WWW-Authenticate''))
               (\<lambda>token. client (manifest_request registry version (Some token)))
        else retA r))"

definition resolve_target ::
    "(string \<Rightarrow> bool) \<Rightarrow> 's http_client \<Rightarrow> string \<Rightarrow> string \<Rightarrow> ('s, image_target) act" where
  "resolve_target netloc_ok client registry_key version =
     (case bindR (validate_exact_version version) (\<lambda>v.
           bindR (get_official_registry registry_key) (\<lambda>registry. Inr (v, registry))) of
        Inl e \<Rightarrow> raiseA e
      | Inr (v, registry) \<Rightarrow>
          bindA (fetch_manifest netloc_ok client registry v) (\<lambda>r.
          thenA (guardA (hr_status r = 200) (image_exn ''manifest''))
            (inspectA (\<lambda>_. bindR (normalize_digest (response_header r ''Docker-Content-Digest'')) (\<lambda>digest.
               Inr \<lparr>it_registry = or_key registry, it_repository = or_repository registry,
                    it_version = v, it_digest = digest\<rparr>)))))"

section \<open>Downloading\<close>

record 's image_engine =
  ie_inspect_image :: "string \<Rightarrow> ('s, container option) act"
  ie_pull_image :: "string \<Rightarrow> ('s, unit) act"

definition is_docker_error :: "exn_class \<Rightarrow> bool" where
  "is_docker_error c \<longleftrightarrow> c \<in> {CDockerEngine, CNamed ''DockerContainerResolutionError''}"

definition verified :: "image_target \<Rightarrow> string \<Rightarrow> verified_target" where
  "verified t revision =
     \<lparr>it_registry = it_registry t, it_repository = it_repository t, it_version = it_version t,
      it_digest = it_digest t, it_revision = revision\<rparr>"

definition pull_and_verify ::
    "(string \<Rightarrow> string \<Rightarrow> ('s, image_target) act) \<Rightarrow> 's image_engine \<Rightarrow> string \<Rightarrow> string \<Rightarrow>
     ('s, verified_target) act" where
  "pull_and_verify resolver engine registry_key version =
     bindA (resolver registry_key version) (\<lambda>t.
     thenA (inspectA (\<lambda>_. validate_resolved_target t registry_key version))
    (bindA (rethrow is_docker_error (image_exn ''local image'')
              (ie_inspect_image engine (it_repository t @ '':'' @ it_version t))) (\<lambda>existing.
     thenA (case existing of None \<Rightarrow> retA ()
            | Some img \<Rightarrow> inspectA (\<lambda>_. reject_same_version_digest_drift img t))
    (bindA (rethrow is_docker_error (image_exn ''pull'')
              (thenA (ie_pull_image engine (immutable_reference t))
                 (ie_inspect_image engine (immutable_reference t)))) (\<lambda>pulled.
     case pulled of
       None \<Rightarrow> raiseA (image_exn ''not pulled'')
     | Some img \<Rightarrow> inspectA (\<lambda>_. bindR (validate_pulled_image img t) (\<lambda>revision.
                     Inr (verified t revision))))))))"

section \<open>The target of a handoff\<close>

definition target_from_handoff :: "handoff_document \<Rightarrow> exn + verified_target" where
  "target_from_handoff doc =
     (case first_row (\<lambda>r. h_target_image doc = or_repository r @ ''@'' @ h_target_digest doc)
             OFFICIAL_REGISTRIES of
        None \<Rightarrow> Inl (machine_exn ''target image'')
      | Some r \<Rightarrow>
          Inr \<lparr>it_registry = or_key r, it_repository = or_repository r,
               it_version = h_target_version doc, it_digest = h_target_digest doc,
               it_revision = h_target_revision doc\<rparr>)"

end
