(* ===== verification/UpdaterHealth.thy ===== *)
theory UpdaterHealth
  imports UpdaterImages
begin

text \<open>
  How the updater waits (\<open>app/services/updater_state_machine.py\<close>): for a candidate, or for the old
  container after a rollback, to stay healthy over a window of time, and for the appliance to commit.
  Times are integers, in any unit; what happens while the updater sleeps is what \<open>he_sleep\<close> makes of
  the world.  A loop that never ends has the value \<open>None\<close>.
\<close>

section \<open>Waiting\<close>

datatype iso_datetime = NotIso | NaiveDatetime | AwareDatetime datetime

record 'p health_env =
  he_engine :: "'p update_world docker_engine"
  he_stable :: int
  he_timeout :: int
  he_poll :: int
  he_clock :: "'p update_world \<Rightarrow> int"
  he_sleep :: "int \<Rightarrow> 'p update_world \<Rightarrow> 'p update_world"
  he_fromisoformat :: "string \<Rightarrow> iso_datetime"
  he_json_loads :: "string \<Rightarrow> json option"
  he_readable :: "'p update_world \<Rightarrow> bool"

definition watch_times_ok :: "'p health_env \<Rightarrow> bool" where
  "watch_times_ok env \<longleftrightarrow> 0 < he_stable env \<and> he_stable env \<le> he_timeout env \<and> 0 < he_poll env"

definition pause :: "'p health_env \<Rightarrow> 'p update_world \<Rightarrow> 'p update_world" where
  "pause env w = he_sleep env (he_poll env) w"

text \<open>
  The loop of both \<open>verify\<close>: \<open>seen\<close> is since when which fingerprint has been observed without a
  break.
\<close>

partial_function (option) watch ::
    "'p health_env \<Rightarrow> ('p update_world, 'f option) act \<Rightarrow> int \<Rightarrow> (int \<times> 'f) option \<Rightarrow>
     'p update_world \<Rightarrow> ((exn + unit) \<times> 'p update_world) option" where
  "watch env observation deadline seen w =
     (if deadline < he_clock env w then Some (Inl (machine_exn ''timeout''), w)
      else case observation w of
        (Inl e, w1) \<Rightarrow> Some (Inl e, w1)
      | (Inr None, w1) \<Rightarrow> watch env observation deadline None (pause env w1)
      | (Inr (Some f), w1) \<Rightarrow>
          (case seen of
             None \<Rightarrow> watch env observation deadline (Some (he_clock env w1, f)) (pause env w1)
           | Some (since, g) \<Rightarrow>
               if f \<noteq> g then Some (Inl (machine_exn ''restarted''), w1)
               else if he_stable env \<le> he_clock env w1 - since then Some (Inr (), w1)
               else watch env observation deadline seen (pause env w1)))"

section \<open>What is observed\<close>

definition parse_docker_datetime :: "'p health_env \<Rightarrow> string \<Rightarrow> exn + datetime" where
  "parse_docker_datetime env value =
     (case he_fromisoformat env (replace_Z value) of
        AwareDatetime t \<Rightarrow> Inr t
      | _ \<Rightarrow> Inl (machine_exn ''started at''))"

definition health_status :: "(string \<times> json) list \<Rightarrow> json" where
  "health_status state = jget (mapping (jget state ''Health'')) ''Status''"

text \<open>\<open>RestartCount\<close> and \<open>StartedAt\<close>, the fields that a restart changes.\<close>

definition stability_fields :: "container \<Rightarrow> (int \<times> string) option" where
  "stability_fields c =
     (case (jget c ''RestartCount'', jget (mapping (jget c ''State'')) ''StartedAt'') of
        (JInt n, JStr s) \<Rightarrow> if 0 \<le> n \<and> s \<noteq> [] then Some (n, s) else None
      | _ \<Rightarrow> None)"

definition candidate_image_id :: "handoff_document \<Rightarrow> string \<Rightarrow> container \<Rightarrow> exn + string" where
  "candidate_image_id doc cid c =
     bindR (require (jget c ''Id'' = JStr cid) (machine_exn ''candidate id'')) (\<lambda>_.
     bindR (require ((case jget c ''Config'' of JObj _ \<Rightarrow> True | _ \<Rightarrow> False) \<and>
                     jget (container_config c) ''Image'' = JStr (h_target_image doc))
              (machine_exn ''candidate image reference'')) (\<lambda>_.
     case jget c ''Image'' of
       JStr s \<Rightarrow> if digest_ok s then Inr s else Inl (machine_exn ''candidate image id'')
     | _ \<Rightarrow> Inl (machine_exn ''candidate image id'')))"

definition candidate_image_ok ::
    "handoff_document \<Rightarrow> string \<Rightarrow> container option \<Rightarrow> exn + unit" where
  "candidate_image_ok doc image_id img =
     (case img of
        None \<Rightarrow> Inl (machine_exn ''candidate image'')
      | Some i \<Rightarrow>
          if jget i ''Id'' \<noteq> JStr image_id then Inl (machine_exn ''candidate image'')
          else bindR (target_from_handoff doc) (\<lambda>t.
               case validate_pulled_image i t of
                 Inl e \<Rightarrow> Inl (machine_exn ''candidate target'')
               | Inr revision \<Rightarrow>
                   require (revision = h_target_revision doc) (machine_exn ''candidate revision'')))"

text \<open>\<open>None\<close> while the candidate is not healthy yet.\<close>

definition candidate_running ::
    "'p health_env \<Rightarrow> container \<Rightarrow> exn + (int \<times> string \<times> datetime) option" where
  "candidate_running env c =
     (case jget c ''State'' of
        JObj state \<Rightarrow>
          if jget state ''Running'' \<noteq> JBool True then Inl (machine_exn ''candidate exited'')
          else if health_status state = JStr ''unhealthy'' then Inl (machine_exn ''candidate unhealthy'')
          else if health_status state \<noteq> JStr ''healthy'' then Inr None
          else (case stability_fields c of
                  None \<Rightarrow> Inl (machine_exn ''stability fields'')
                | Some (restarts, started) \<Rightarrow>
                    bindR (parse_docker_datetime env started) (\<lambda>t. Inr (Some (restarts, started, t))))
      | _ \<Rightarrow> Inl (machine_exn ''candidate state''))"

definition evidence_observed ::
    "handoff_document \<Rightarrow> pending_update_marker \<Rightarrow> datetime \<Rightarrow> evidence_file \<Rightarrow> exn + datetime option" where
  "evidence_observed doc m started file =
     (case file of
        EvidenceUnsafe \<Rightarrow> Inl (machine_exn ''evidence path'')
      | EvidenceMissing \<Rightarrow> Inr None
      | _ \<Rightarrow>
          (case read_candidate_evidence (h_operation_id doc) (q_candidate_token m) file of
             Inl e \<Rightarrow> Inl (machine_exn ''evidence'')
           | Inr e \<Rightarrow>
               if ce_version e = removeprefix ''v'' (h_target_version doc) \<and>
                  ce_revision e = h_target_revision doc \<and> ce_digest e = h_target_digest doc \<and>
                  started \<le> ce_observed_at e
               then Inr (Some (ce_observed_at e))
               else Inl (machine_exn ''evidence mismatch'')))"

type_synonym candidate_fingerprint = "string \<times> int \<times> string \<times> datetime"

definition marker_unchanged :: "pending_update_marker \<Rightarrow> marker_file \<Rightarrow> exn + unit" where
  "marker_unchanged m file =
     (case read_pending_marker file of
        Some (Inl problem) \<Rightarrow> Inl (tagged CValueError ''marker'')
      | found \<Rightarrow> require (found = Some (Inr m)) (machine_exn ''marker changed''))"

definition candidate_observation ::
    "'p health_env \<Rightarrow> handoff_document \<Rightarrow> pending_update_marker \<Rightarrow> string \<Rightarrow>
     ('p update_world, candidate_fingerprint option) act" where
  "candidate_observation env doc m cid =
     thenA (inspectA (\<lambda>w. marker_unchanged m (uw_pending w)))
    (bindA (de_inspect_container (he_engine env) cid) (\<lambda>c.
     bindA (inspectA (\<lambda>_. candidate_image_id doc cid c)) (\<lambda>image_id.
     bindA (de_inspect_image (he_engine env) (h_target_image doc)) (\<lambda>img.
     thenA (inspectA (\<lambda>_. candidate_image_ok doc image_id img))
    (bindA (inspectA (\<lambda>_. candidate_running env c)) (\<lambda>running.
     case running of
       None \<Rightarrow> retA None
     | Some (restarts, started, t) \<Rightarrow>
         bindA (inspectA (\<lambda>w. evidence_observed doc m t (uw_evidence w (h_operation_id doc)))) (\<lambda>observed.
         retA (case observed of None \<Rightarrow> None
               | Some at_time \<Rightarrow> Some (cid, restarts, started, at_time)))))))))"

definition health_output_ok :: "'p health_env \<Rightarrow> json \<Rightarrow> exn + unit" where
  "health_output_ok env log =
     (case log of
        JList entries \<Rightarrow>
          if entries = [] then Inl (machine_exn ''no health output'')
          else (case jget (mapping (last entries)) ''Output'' of
                  JStr output \<Rightarrow>
                    if 16 * 1024 < length output then Inl (machine_exn ''health output'')
                    else (case he_json_loads env (strip output) of
                            None \<Rightarrow> Inl (machine_exn ''health output'')
                          | Some (JObj payload) \<Rightarrow>
                              require (\<forall>c \<in> REQUIRED_COMPONENTS. jget payload c = JBool True)
                                (machine_exn ''component unhealthy'')
                          | Some _ \<Rightarrow> Inl (machine_exn ''component unhealthy''))
                | _ \<Rightarrow> Inl (machine_exn ''health output''))
      | _ \<Rightarrow> Inl (machine_exn ''no health output''))"

definition previous_identity_ok :: "handoff_document \<Rightarrow> string \<Rightarrow> container \<Rightarrow> bool" where
  "previous_identity_ok doc cid c \<longleftrightarrow>
     jget c ''Id'' = JStr cid \<and> jget c ''Image'' = JStr (h_source_image_id doc) \<and>
     (case jget c ''Name'' of
        JStr s \<Rightarrow> removeprefix ''/'' s = hc_name (h_candidate doc) | _ \<Rightarrow> False)"

definition previous_running ::
    "'p health_env \<Rightarrow> container \<Rightarrow> exn + (int \<times> string) option" where
  "previous_running env c =
     (case jget c ''State'' of
        JObj state \<Rightarrow>
          if jget state ''Running'' \<noteq> JBool True then Inr None
          else (case jget state ''Health'' of
                  JObj health \<Rightarrow>
                    if jget health ''Status'' = JStr ''unhealthy''
                    then Inl (machine_exn ''previous unhealthy'')
                    else if jget health ''Status'' \<noteq> JStr ''healthy'' then Inr None
                    else (case stability_fields c of
                            None \<Rightarrow> Inl (machine_exn ''stability fields'')
                          | Some (restarts, started) \<Rightarrow>
                              bindR (parse_docker_datetime env started) (\<lambda>_.
                              bindR (health_output_ok env (jget health ''Log'')) (\<lambda>_.
                              Inr (Some (restarts, started)))))
                | _ \<Rightarrow> Inl (machine_exn ''previous health''))
      | _ \<Rightarrow> Inl (machine_exn ''previous state''))"

type_synonym previous_fingerprint = "string \<times> string \<times> int \<times> string"

definition previous_observation ::
    "'p health_env \<Rightarrow> handoff_document \<Rightarrow> string \<Rightarrow>
     ('p update_world, previous_fingerprint option) act" where
  "previous_observation env doc cid =
     bindA (de_inspect_container (he_engine env) cid) (\<lambda>c.
     thenA (guardA (previous_identity_ok doc cid c) (machine_exn ''previous identity''))
    (bindA (inspectA (\<lambda>_. previous_running env c)) (\<lambda>running.
     retA (case running of None \<Rightarrow> None
           | Some (restarts, started) \<Rightarrow> Some (cid, h_source_image_id doc, restarts, started)))))"

section \<open>The verifiers and the waiter\<close>

definition verify_candidate ::
    "'p health_env \<Rightarrow> handoff_document \<Rightarrow> pending_update_marker \<Rightarrow> string \<Rightarrow> 'p update_world \<Rightarrow>
     ((exn + unit) \<times> 'p update_world) option" where
  "verify_candidate env doc m cid w =
     watch env (candidate_observation env doc m cid) (he_clock env w + he_timeout env) None w"

definition verify_previous ::
    "'p health_env \<Rightarrow> handoff_document \<Rightarrow> string \<Rightarrow> 'p update_world \<Rightarrow>
     ((exn + unit) \<times> 'p update_world) option" where
  "verify_previous env doc cid w =
     (if cid \<noteq> h_current_container_id doc then Some (Inl (machine_exn ''previous id''), w)
      else watch env (previous_observation env doc cid) (he_clock env w + he_timeout env) None w)"

definition database_committed :: "'p health_env \<Rightarrow> string \<Rightarrow> 'p update_world \<Rightarrow> bool" where
  "database_committed env oid w \<longleftrightarrow> he_readable env w \<and>
     (case get_by_operation_id (uw_db w) oid of
        None \<Rightarrow> False
      | Some u \<Rightarrow> u_status u = UpSuccess \<and> u_active_slot u = None)"

definition runtime_markers_removed :: "string \<Rightarrow> 'p update_world \<Rightarrow> bool" where
  "runtime_markers_removed oid w \<longleftrightarrow>
     \<not> pending_marker_present (uw_pending w) \<and> uw_evidence w oid = EvidenceMissing \<and>
     uw_handoff w oid = HandoffMissing"

partial_function (option) await_commit ::
    "'p health_env \<Rightarrow> string \<Rightarrow> int \<Rightarrow> 'p update_world \<Rightarrow> ((exn + unit) \<times> 'p update_world) option" where
  "await_commit env oid deadline w =
     (if deadline < he_clock env w then Some (Inl (machine_exn ''commit timeout''), w)
      else if runtime_markers_removed oid w \<and> database_committed env oid w then Some (Inr (), w)
      else await_commit env oid deadline (pause env w))"

definition wait_for_commit ::
    "'p health_env \<Rightarrow> string \<Rightarrow> 'p update_world \<Rightarrow> ((exn + unit) \<times> 'p update_world) option" where
  "wait_for_commit env oid w =
     (if \<not> operation_id_ok oid then Some (Inl (tagged CUpdaterHandoff ''operation id''), w)
      else await_commit env oid (he_clock env w + he_timeout env) w)"

end
