(* ===== verification/HealthProofs.thy ===== *)
theory HealthProofs
  imports UpdaterHealth ReconcileProofs
begin

text \<open>
  What the end of a wait shows, and that waits end: an unbroken series of observations, the passing
  of time, and the commit of the appliance.
\<close>

section \<open>An unbroken series of observations\<close>

text \<open>
  From the state after one observation to the state after a later one, with the same fingerprint at
  every observation of the loop.
\<close>

inductive steady ::
    "'p health_env \<Rightarrow> ('p update_world, 'f option) act \<Rightarrow> 'f \<Rightarrow> 'p update_world \<Rightarrow> 'p update_world \<Rightarrow> bool"
  for env :: "'p health_env" and observation :: "('p update_world, 'f option) act" and f :: 'f where
  steady_start: "observation w = (Inr (Some f), w1) \<Longrightarrow> steady env observation f w1 w1"
| steady_more:
    "steady env observation f a b \<Longrightarrow> observation (pause env b) = (Inr (Some f), c) \<Longrightarrow>
     steady env observation f a c"

text \<open>The state behind any observation of the series.\<close>

lemma steady_observed: "steady env observation f a b \<Longrightarrow> \<exists>w. observation w = (Inr (Some f), b)"
  by (induction rule: steady.induct) blast+

definition series_so_far ::
    "'p health_env \<Rightarrow> ('p update_world, 'f option) act \<Rightarrow> (int \<times> 'f) option \<Rightarrow> 'p update_world \<Rightarrow> bool" where
  "series_so_far env observation seen w \<longleftrightarrow>
     (case seen of None \<Rightarrow> True
      | Some (since, f) \<Rightarrow>
          \<exists>a b. steady env observation f a b \<and> since = he_clock env a \<and> w = pause env b)"

lemma watch_success:
  assumes "watch env observation deadline seen w = Some (Inr u, w')"
    and "series_so_far env observation seen w"
  shows "\<exists>f a. steady env observation f a w' \<and> he_stable env \<le> he_clock env w' - he_clock env a"
proof -
  have "series_so_far env observation seen w \<longrightarrow> fst y = Inr u \<longrightarrow>
      (\<exists>f a. steady env observation f a (snd y) \<and> he_stable env \<le> he_clock env (snd y) - he_clock env a)"
    if "watch env observation deadline seen w = Some y" for env observation deadline seen w y
  proof (rule watch.raw_induct [OF _ that], goal_cases)
    case (1 watch env observation deadline seen w y)
    show ?case
    proof (intro impI)
      assume so_far: "series_so_far env observation seen w" and "fst y = Inr u"
      with 1(2) obtain r w1 where obs: "observation w = (Inr r, w1)"
        by (auto split: if_splits prod.splits sum.splits)
      show "\<exists>f a. steady env observation f a (snd y) \<and>
          he_stable env \<le> he_clock env (snd y) - he_clock env a"
      proof (cases r)
        case None
        with 1(2) obs \<open>fst y = Inr u\<close> have "watch env observation deadline None (pause env w1) = Some y"
          by (auto split: if_splits)
        from 1(1) [OF this] \<open>fst y = Inr u\<close> show ?thesis by (simp add: series_so_far_def)
      next
        case (Some f)
        show ?thesis
        proof (cases seen)
          case None
          with 1(2) obs Some \<open>fst y = Inr u\<close>
          have "watch env observation deadline (Some (he_clock env w1, f)) (pause env w1) = Some y"
            by (auto split: if_splits)
          moreover have "series_so_far env observation (Some (he_clock env w1, f)) (pause env w1)"
            using steady_start [of observation w f w1 env] obs Some by (auto simp: series_so_far_def)
          ultimately show ?thesis using 1(1) \<open>fst y = Inr u\<close> by blast
        next
          case (Some seen')
          obtain since g where seen: "seen = Some (since, g)" using Some by (cases seen') auto
          then obtain a b where ab: "steady env observation g a b" "since = he_clock env a" "w = pause env b"
            using so_far by (auto simp: series_so_far_def)
          have fg: "f = g" using 1(2) obs \<open>r = Some f\<close> seen \<open>fst y = Inr u\<close> by (auto split: if_splits)
          have more: "steady env observation g a w1"
            using steady_more [OF ab(1), of w1] obs \<open>r = Some f\<close> ab(3) fg by simp
          show ?thesis
          proof (cases "he_stable env \<le> he_clock env w1 - since")
            case True
            then have "y = (Inr (), w1)"
              using 1(2) obs \<open>r = Some f\<close> seen fg \<open>fst y = Inr u\<close> by (auto split: if_splits)
            with more True ab(2) show ?thesis by auto
          next
            case False
            then have "watch env observation deadline seen (pause env w1) = Some y"
              using 1(2) obs \<open>r = Some f\<close> seen fg \<open>fst y = Inr u\<close> by (auto split: if_splits)
            moreover have "series_so_far env observation seen (pause env w1)"
              using more ab(2) seen by (auto simp: series_so_far_def)
            ultimately show ?thesis using 1(1) \<open>fst y = Inr u\<close> by blast
          qed
        qed
      qed
    qed
  qed
  from this [OF assms(1)] assms(2) show ?thesis by simp
qed

section \<open>Waits end\<close>

definition time_passes :: "'p health_env \<Rightarrow> bool" where
  "time_passes env \<longleftrightarrow> (\<forall>w. he_clock env w < he_clock env (pause env w))"

definition not_earlier :: "'p health_env \<Rightarrow> 'p update_world \<Rightarrow> 'p update_world \<Rightarrow> bool" where
  "not_earlier env w w' \<longleftrightarrow> he_clock env w \<le> he_clock env w'"

lemma not_earlier_contract: "action_contract (not_earlier env)"
  by unfold_locales (simp_all add: not_earlier_def)

lemma watch_ends:
  assumes "time_passes env" and "keeps (not_earlier env) observation"
  shows "\<exists>r. watch env observation deadline seen w = Some r"
proof (induction "nat (deadline + 1 - he_clock env w)" arbitrary: seen w rule: less_induct)
  case less
  show ?case
  proof (cases "deadline < he_clock env w")
    case True
    then show ?thesis by (simp add: watch.simps)
  next
    case False
    obtain r w1 where obs: "observation w = (r, w1)" by fastforce
    then have "he_clock env w \<le> he_clock env w1"
      using assms(2) by (auto simp: keeps_def not_earlier_def dest: spec [of _ w])
    then have "he_clock env w < he_clock env (pause env w1)"
      using assms(1) by (meson le_less_trans time_passes_def)
    then have next_round: "\<exists>r. watch env observation deadline seen' (pause env w1) = Some r" for seen'
      using less [of "pause env w1" seen'] False by simp
    show ?thesis
      using next_round by (auto simp: watch.simps [of env observation deadline seen w] obs
          split: sum.split option.split)
  qed
qed

lemma await_commit_ends:
  assumes "time_passes env"
  shows "\<exists>r. await_commit env oid deadline w = Some r"
proof (induction "nat (deadline + 1 - he_clock env w)" arbitrary: w rule: less_induct)
  case less
  have "he_clock env w < he_clock env (pause env w)" using assms by (simp add: time_passes_def)
  then have "\<exists>r. await_commit env oid deadline (pause env w) = Some r"
    if "\<not> deadline < he_clock env w" using less [of "pause env w"] that by simp
  then show ?case by (auto simp: await_commit.simps [of env oid deadline w])
qed

lemma await_commit_success:
  assumes "await_commit env oid deadline w = Some (Inr u, w')"
  shows "runtime_markers_removed oid w' \<and> database_committed env oid w' \<and> he_clock env w' \<le> deadline"
proof -
  have "fst y = Inr u \<longrightarrow> runtime_markers_removed oid (snd y) \<and> database_committed env oid (snd y) \<and>
      he_clock env (snd y) \<le> deadline"
    if "await_commit env oid deadline w = Some y" for env oid deadline w y
  proof (rule await_commit.raw_induct [OF _ that], goal_cases)
    case (1 await env oid deadline w y)
    then show ?case
      by (cases "deadline < he_clock env w";
          cases "runtime_markers_removed oid w \<and> database_committed env oid w") auto
  qed
  from this [OF assms] show ?thesis by simp
qed

end
