(* ===== verification/WaitProperties.thy ===== *)
theory WaitProperties
  imports HealthProofs UpdaterProperties
begin

text \<open>
  The properties of what the updater waits for and of the images that it may install.
\<close>

section \<open>Samples\<close>

definition sample_target_image :: container where
  "sample_target_image =
     [(''Id'', JStr sample_digest), (''RepoDigests'', JList [JStr (h_target_image sample_handoff)]),
      (''Config'', JObj [(''Cmd'', APPLIANCE_COMMAND),
         (''Labels'', JObj [(''org.opencontainers.image.source'', JStr OFFICIAL_SOURCE),
            (''org.opencontainers.image.title'', JStr ''MediaSync''),
            (''org.opencontainers.image.version'', JStr ''1.1.0''),
            (''org.opencontainers.image.revision'', JStr (replicate 40 (CHR ''e'')))])])]"

definition sample_candidate_id :: string where
  "sample_candidate_id = replicate 64 (CHR ''f'')"

definition sample_running_candidate :: container where
  "sample_running_candidate =
     [(''Id'', JStr sample_candidate_id), (''Image'', JStr sample_digest), (''RestartCount'', JInt 0),
      (''Config'', JObj [(''Image'', JStr (h_target_image sample_handoff))]),
      (''State'', JObj [(''Running'', JBool True), (''StartedAt'', JStr ''2026-01-01T00:00:00Z''),
         (''Health'', JObj [(''Status'', JStr ''healthy'')])])]"

definition sample_docker :: "'s docker_engine" where
  "sample_docker = sample_engine
     \<lparr>de_inspect_container := \<lambda>_. retA sample_running_candidate,
      de_inspect_image := \<lambda>_. retA (Some sample_target_image)\<rparr>"

definition sample_health :: "('p \<Rightarrow> int) \<Rightarrow> (int \<Rightarrow> 'p \<Rightarrow> 'p) \<Rightarrow> 'p health_env" where
  "sample_health clock later =
     \<lparr>he_engine = sample_docker, he_stable = 4, he_timeout = 20, he_poll = 2,
      he_clock = \<lambda>w. clock (uw_rest w), he_sleep = \<lambda>n w. w\<lparr>uw_rest := later n (uw_rest w)\<rparr>,
      he_fromisoformat = \<lambda>_. AwareDatetime 30, he_json_loads = \<lambda>_. None, he_readable = \<lambda>_. True\<rparr>"

text \<open>The rest of the world is the time.\<close>

definition sample_timed :: "int health_env" where
  "sample_timed = sample_health id (\<lambda>n t. t + n)"

definition sample_waiting :: "int \<Rightarrow> int update_world" where
  "sample_waiting t =
     \<lparr>uw_db = empty_db, uw_journal = \<lambda>_. JournalMissing, uw_handoff = \<lambda>_. HandoffMissing,
      uw_evidence = uw_evidence sample_committing, uw_pending = uw_pending sample_committing, uw_rest = t\<rparr>"

lemma sample_timed_fields [simp]:
  "he_clock sample_timed w = uw_rest w" "he_engine sample_timed = sample_docker"
  "he_stable sample_timed = 4" "he_timeout sample_timed = 20"
  "pause sample_timed w = w\<lparr>uw_rest := uw_rest w + 2\<rparr>"
  by (simp_all add: sample_timed_def sample_health_def pause_def)

lemma sample_time_passes: "time_passes sample_timed"
  by (simp add: time_passes_def)

lemma sample_docker_on_time:
  "engine_keeps (not_earlier sample_timed) sample_docker"
  "keeps (not_earlier sample_timed) (de_inspect_image sample_docker ref)"
  by (simp_all add: engine_keeps_def sample_docker_def sample_engine_def docker_down_def keeps_def
      retA_def raiseA_def not_earlier_def)



section \<open>Waiting for health\<close>

lemma inspectA_eq_Inr: "inspectA f w = (Inr x, w') \<longleftrightarrow> f w = Inr x \<and> w' = w"
  by (auto simp: inspectA_def)





text \<open>C37: However the containers behave, the verifiers and the wait for the commit end: all that is
  needed is that time passes while the updater sleeps and that Docker's calls do not turn it back.\<close>

theorem waits_end:
  assumes "time_passes env" and "engine_keeps (not_earlier env) (he_engine env)"
    and "\<And>ref. keeps (not_earlier env) (de_inspect_image (he_engine env) ref)"
  shows "(\<exists>r. verify_candidate env doc m cid w = Some r) \<and> (\<exists>r. verify_previous env doc cid w = Some r) \<and>
    (\<exists>r. wait_for_commit env oid w = Some r)"
proof (intro conjI)
  note keeps = action_contract.keeps_bind [OF not_earlier_contract]
    action_contract.keeps_ret [OF not_earlier_contract]
    action_contract.keeps_guard [OF not_earlier_contract] engine_keeps [OF assms(2)] assms(3)
  have inspect: "keeps (not_earlier env) (inspectA f)" for f :: "'a update_world \<Rightarrow> exn + 'b"
    by (simp add: keeps_def inspectA_def not_earlier_def)
  have "keeps (not_earlier env) (candidate_observation env doc m cid)"
    unfolding candidate_observation_def
    by (intro keeps inspect) (auto split: option.split intro!: keeps inspect)
  then show "\<exists>r. verify_candidate env doc m cid w = Some r"
    using watch_ends [OF assms(1)] by (simp add: verify_candidate_def)
  have "keeps (not_earlier env) (previous_observation env doc cid)"
    unfolding previous_observation_def by (intro keeps inspect)
  then show "\<exists>r. verify_previous env doc cid w = Some r"
    using watch_ends [OF assms(1)] unfolding verify_previous_def by (cases "cid = h_current_container_id doc") auto
  show "\<exists>r. wait_for_commit env oid w = Some r"
    using await_commit_ends [OF assms(1)] by (simp add: wait_for_commit_def)
qed

theorem waits_end_witness:
  "\<exists>r. verify_candidate sample_timed sample_handoff sample_marker sample_candidate_id (sample_waiting 100) = Some r"
  using waits_end [OF sample_time_passes] sample_docker_on_time by simp

section \<open>Waiting for the commit\<close>

lemma cleanup_removes:
  "cleanup renv oid w = (Inr u, w') \<Longrightarrow> runtime_markers_removed oid w' \<and> uw_db w' = uw_db w"
  by (auto simp: cleanup_def cleanup_effect_def runtime_markers_removed_def pending_marker_present_def
      split: if_splits)

lemma ended_row_found:
  assumes "update_inv d" and "x \<in> set (db_updates d)"
  shows "get_by_operation_id d (u_operation_id x) = Some x"
  using assms first_row_unique [of u_operation_id "db_updates d" x]
  by (simp add: get_by_operation_id_def update_inv_def update_unique_def)

lemma finished_commit:
  assumes inv: "update_inv (uw_db w)" and u: "u \<in> set (db_updates (uw_db w))"
    and "u_operation_id u = q_operation_id m" and "result_status result = UsCommitRequested"
    and run: "finish_reconciled renv m result u w = (Inr True, w')"
  shows "runtime_markers_removed (q_operation_id m) w'"
    and "\<exists>x. get_by_operation_id (uw_db w') (q_operation_id m) = Some x \<and> u_status x = UpSuccess \<and>
      u_active_slot x = None"
proof -
  obtain x d2 w1 where fin: "finish_update u UpSuccess (Some (result_updated_at result))
      (fst (result_errors result)) (snd (result_errors result)) (rc_clock renv w) (uw_db w) = Inr (x, d2)"
    and commit: "commit_db renv d2 w = (Inr (), w1)"
    and clean: "cleanup renv (q_operation_id m) w1 = (Inr (), w')"
    using run assms(4) by (auto simp: finish_reconciled_def Let_def bindA_eq_Inr retA_run split: if_splits sum.splits)
  have moves: "row_moves u (uw_db w) x d2" "u_status x = UpSuccess" "u_active_slot x = None"
    using finish_row_moves [OF inv u fin] by simp_all
  have "uw_db w' = d2"
    using cleanup_removes [OF clean] commit by (auto simp: commit_db_def split: if_splits)
  with moves ended_row_found [of d2 x] assms(3)
  show "\<exists>x. get_by_operation_id (uw_db w') (q_operation_id m) = Some x \<and> u_status x = UpSuccess \<and>
      u_active_slot x = None"
    by (auto simp: row_moves_def)
  show "runtime_markers_removed (q_operation_id m) w'" using cleanup_removes [OF clean] by simp
qed

lemma sync_keeps_row:
  assumes "update_inv d" and "u \<in> set (db_updates d)"
    and "synchronize_active_progress now u m result d = Inr (p, u', d')"
  shows "update_inv d' \<and> u' \<in> set (db_updates d') \<and> u_operation_id u' = u_operation_id u"
  using synchronize_moves(1) [OF assms] by (simp add: row_moves_def)

lemma active_commit:
  assumes inv: "update_inv (uw_db w)" and u: "u \<in> set (db_updates (uw_db w))"
    and oid: "u_operation_id u = q_operation_id m"
    and status: "result_status result \<in> {UsCommitRequested, UsSuccess}"
    and run: "reconcile_active renv m result u w = (Inr True, w')"
  shows "runtime_markers_removed (q_operation_id m) w' \<and>
    (\<exists>x. get_by_operation_id (uw_db w') (q_operation_id m) = Some x \<and> u_status x = UpSuccess \<and>
      u_active_slot x = None)"
proof -
  obtain p u' d' w1 where sync: "synchronize_active_progress (rc_clock renv w) u m result (uw_db w) =
      Inr (p, u', d')"
    and first: "(if p then commit_db renv d' else retA ()) w = (Inr (), w1)"
    and rest: "finish_reconciled renv m result u' w1 = (Inr True, w')"
    using run status by (auto simp: reconcile_active_def bindA_eq_Inr split: sum.splits)
  have "uw_db w1 = d'"
    using first synchronize_moves(2) [OF inv u sync] by (auto simp: commit_db_def retA_def split: if_splits)
  moreover have "result_status result = UsCommitRequested"
    using status rest by (auto simp: finish_reconciled_def Let_def)
  ultimately show ?thesis
    using finished_commit [OF _ _ _ _ rest] sync_keeps_row [OF inv u sync] oid by simp
qed

lemma ended_commit:
  assumes "get_by_operation_id (uw_db w) (q_operation_id m) = Some u" and "u_active_slot u = None"
    and "result_status result \<in> {UsCommitRequested, UsSuccess}"
    and "reconcile_ended renv m result u w = (Inr True, w')"
  shows "runtime_markers_removed (q_operation_id m) w' \<and>
    (\<exists>x. get_by_operation_id (uw_db w') (q_operation_id m) = Some x \<and> u_status x = UpSuccess \<and>
      u_active_slot x = None)"
  using assms cleanup_removes
  by (fastforce simp: reconcile_ended_def raiseA_run bindA_eq_Inr retA_run split: if_splits)

text \<open>C38: The two sides of the commit meet: when the appliance has reconciled an update whose journal
  asks for the commit, or records the success, the updater that waits for it sees the commit at once.\<close>

theorem commit_is_seen:
  assumes "update_inv (uw_db w)" and "read_pending_marker (uw_pending w) = Some (Inr m)"
    and "file_status (uw_journal w (q_operation_id m)) \<in> {Some UsCommitRequested, Some UsSuccess}"
    and "reconcile renv w = (Inr True, w')"
    and "operation_id_ok (q_operation_id m)" and "he_readable env w'" and "0 \<le> he_timeout env"
  shows "wait_for_commit env (q_operation_id m) w' = Some (Inr (), w')"
proof -
  have reads: "rc_directories_ok renv w" "journal_exists (q_operation_id m) w"
    using assms(2,4) unfolding reconcile_def by (simp_all split: if_splits)
  obtain result where "fst (read_journal (q_operation_id m) w) = Inr result"
    using assms(2,4) reads unfolding reconcile_def
    by (cases "fst (read_journal (q_operation_id m) w)") simp_all
  moreover obtain u where u: "get_by_operation_id (uw_db w) (q_operation_id m) = Some u"
    using assms(2,4) reads calculation unfolding reconcile_def
    by (cases "get_by_operation_id (uw_db w) (q_operation_id m)") simp_all
  moreover have run: "(if u_active_slot u = None then reconcile_ended renv m result u w
        else reconcile_active renv m result u w) = (Inr True, w')"
    using assms(2,4) reads calculation unfolding reconcile_def by simp
  moreover have "result_status result \<in> {UsCommitRequested, UsSuccess}"
    using assms(3) read_result [OF calculation(1)] by (auto simp: result_status_def)
  moreover have "u \<in> set (db_updates (uw_db w))" "u_operation_id u = q_operation_id m"
    using u first_row_SomeD [of _ "db_updates (uw_db w)" u] by (auto simp: get_by_operation_id_def)
  ultimately have "runtime_markers_removed (q_operation_id m) w' \<and>
      (\<exists>x. get_by_operation_id (uw_db w') (q_operation_id m) = Some x \<and> u_status x = UpSuccess \<and>
        u_active_slot x = None)"
    using active_commit [OF assms(1)] ended_commit [OF u] by (cases "u_active_slot u = None") auto
  with assms(5-7) show ?thesis
    by (auto simp: wait_for_commit_def database_committed_def
        await_commit.simps [of env "q_operation_id m" "he_clock env w' + he_timeout env" w'])
qed

theorem commit_is_seen_witness:
  "wait_for_commit (sample_health (\<lambda>_. 0) (\<lambda>_ t. t)) sample_oid
      (snd (reconcile sample_reconciler sample_committing)) =
    Some (Inr (), snd (reconcile sample_reconciler sample_committing))"
proof -
  let ?run = "reconcile sample_reconciler sample_committing"
  have "case fst ?run of Inr b \<Rightarrow> b | Inl _ \<Rightarrow> False" by code_simp
  then have run: "?run = (Inr True, snd ?run)" by (cases ?run) (auto split: sum.splits)
  have "read_pending_marker (uw_pending sample_committing) = Some (Inr sample_marker)" by code_simp
  moreover have "q_operation_id sample_marker = sample_oid" by code_simp
  moreover have "file_status (uw_journal sample_committing sample_oid) = Some UsCommitRequested"
    by (simp add: sample_committing_def sample_update_world_def)
  moreover have "operation_id_ok sample_oid" by code_simp
  moreover have "update_inv (uw_db sample_committing)"
    using sample_committing_inv by (simp add: appliance_inv_def)
  ultimately show ?thesis
    using commit_is_seen [OF _ _ _ run, of sample_marker "sample_health (\<lambda>_. 0) (\<lambda>_ t. t)"]
    by (simp add: sample_health_def)
qed

section \<open>Images\<close>

text \<open>
  What the resolver may ask: a manifest of the registry, or, without any header of its own, a host
  of the registry's authentication, over https and without credentials in the URL.
\<close>

definition official_request :: "(string \<Rightarrow> bool) \<Rightarrow> string \<Rightarrow> http_request \<Rightarrow> bool" where
  "official_request netloc_ok key q \<longleftrightarrow>
     (case get_official_registry key of
        Inl _ \<Rightarrow> False
      | Inr registry \<Rightarrow>
          expect (manifest_base_url registry @ ''/'') (hq_url q) \<noteq> None \<or>
          hq_headers q = [] \<and>
          (case urlparse netloc_ok (hq_url q) of
             Inl _ \<Rightarrow> False
           | Inr url \<Rightarrow>
               pu_scheme url = ''https'' \<and> pu_username url = None \<and> pu_password url = None \<and>
               (case pu_hostname url of None \<Rightarrow> False | Some h \<Rightarrow> h \<in> set (or_auth_hosts registry))))"

definition official_client :: "(string \<Rightarrow> bool) \<Rightarrow> string \<Rightarrow> 's http_client \<Rightarrow> 's http_client" where
  "official_client netloc_ok key client q =
     (if official_request netloc_ok key q then client q else raiseA (tagged COther ''refused''))"

lemma expect_append: "expect p (p @ s) = Some s"
  by (induction p) auto

lemma manifest_request_official:
  assumes "get_official_registry key = Inr registry"
  shows "official_client netloc_ok key client (manifest_request registry version token) =
    client (manifest_request registry version token)"
  using assms expect_append [of "manifest_base_url registry @ ''/''" version]
  by (simp add: official_client_def official_request_def manifest_request_def)

lemma accepted_challenge_official:
  assumes "get_official_registry key = Inr registry"
    and "accept_challenge netloc_ok registry challenge = Inr (realm, service, scope)"
  shows "official_client netloc_ok key client \<lparr>hq_url = realm, hq_params = ps, hq_headers = []\<rparr> =
    client \<lparr>hq_url = realm, hq_params = ps, hq_headers = []\<rparr>"
  using assms
  by (auto simp: official_client_def official_request_def accept_challenge_def Let_def
      split: prod.splits option.splits if_splits)

text \<open>The resolver asks for nothing else than manifests of the chosen official registry and
  tokens of its own authentication hosts, over https, and sends a token to the registry only: with a
  client that refuses everything else, whatever the servers answer, it does the same.\<close>

theorem resolver_asks_official_hosts:
  "resolve_target netloc_ok (official_client netloc_ok key client) key version =
   resolve_target netloc_ok client key version"
proof (cases "get_official_registry key")
  case (Inr registry)
  have token: "request_token netloc_ok (official_client netloc_ok key client) registry challenge =
      request_token netloc_ok client registry challenge" for challenge
    by (cases "accept_challenge netloc_ok registry challenge")
      (auto simp: request_token_def accepted_challenge_official [OF Inr])
  have "fetch_manifest netloc_ok (official_client netloc_ok key client) registry v =
      fetch_manifest netloc_ok client registry v" for v
    unfolding fetch_manifest_def manifest_request_official [OF Inr] token ..
  then show ?thesis using Inr by (simp add: resolve_target_def split: sum.split)
qed (cases "validate_exact_version version"; simp add: resolve_target_def)

lemma rethrow_eq_Inr: "rethrow caught e m w = (Inr x, w') \<longleftrightarrow> m w = (Inr x, w')"
  by (auto simp: rethrow_def bindA_def tryA_def retA_def raiseA_def split: prod.splits sum.splits)

lemma normalized_digest: "normalize_digest s = Inr d \<Longrightarrow> digest_ok d"
  by (auto simp: normalize_digest_def Let_def split: if_splits)

lemma verified_digests: "expected_digests (verified t revision) = expected_digests t"
  by (simp add: verified_def expected_digests_def)

lemma verified_fields:
  "it_version (verified t revision) = it_version t"
  "repo_digests_contain_target ds (verified t revision) = repo_digests_contain_target ds t"
  unfolding repo_digests_contain_target_def verified_digests by (simp_all add: verified_def)

lemma validate_verified: "validate_pulled_image img (verified t revision) = validate_pulled_image img t"
  unfolding validate_pulled_image_def verified_fields ..

text \<open>What the download of an update returns is an official image: the registry and the exact
  version that were asked for, the digest under which it was pulled, and the revision of an image
  that Docker shows under this digest and that carries the labels and the command of the product.\<close>

theorem pulled_image_is_official:
  assumes "pull_and_verify (resolve_target netloc_ok client) engine key version w = (Inr t, w')"
  shows "\<exists>r img w1. r \<in> set OFFICIAL_REGISTRIES \<and> key = or_key r \<and> it_registry t = or_key r \<and>
    it_repository t = or_repository r \<and> it_version t = strip version \<and> version_tag_ok (it_version t) \<and>
    digest_ok (it_digest t) \<and> revision_ok (it_revision t) \<and>
    ie_inspect_image engine (immutable_reference t) w1 = (Inr (Some img), w') \<and>
    validate_pulled_image img t = Inr (it_revision t)"
proof -
  obtain target w2 w3 img revision
    where resolved: "resolve_target netloc_ok client key version w = (Inr target, w2)"
    and pulled: "ie_inspect_image engine (immutable_reference target) w3 = (Inr (Some img), w')"
    and valid: "validate_pulled_image img target = Inr revision"
    and t: "t = verified target revision"
    using assms
    by (auto simp: pull_and_verify_def bindA_eq_Inr rethrow_eq_Inr inspectA_eq_Inr raiseA_run
        split: option.splits)
  obtain r digest where r: "get_official_registry key = Inr r" and "version_tag_ok (strip version)"
    and "digest_ok digest"
    and target: "target = \<lparr>it_registry = or_key r, it_repository = or_repository r,
      it_version = strip version, it_digest = digest\<rparr>"
    using resolved
    by (cases "get_official_registry key")
      (auto simp: resolve_target_def bindA_eq_Inr inspectA_eq_Inr raiseA_run validate_exact_version_def
        intro: normalized_digest split: if_splits)
  moreover have "r \<in> set OFFICIAL_REGISTRIES \<and> or_key r = key"
    using r first_row_SomeD [of _ OFFICIAL_REGISTRIES r]
    by (auto simp: get_official_registry_def split: option.splits)
  moreover have "validate_pulled_image img t = Inr revision" and "immutable_reference t = immutable_reference target"
    using valid by (simp_all add: t validate_verified) (simp add: verified_def immutable_reference_def)
  moreover have "revision_ok revision"
    using valid by (auto simp: validate_pulled_image_def Let_def split: json.splits if_splits)
  ultimately show ?thesis using pulled by (auto simp: t verified_def)
qed

theorem pulled_image_is_official_witness:
  "\<exists>t r. pull_and_verify (resolve_target (\<lambda>_. True)
        (\<lambda>_. retA \<lparr>hr_status = 200, hr_headers = [(''docker-content-digest'', sample_digest)], hr_json = None\<rparr>))
      \<lparr>ie_inspect_image = \<lambda>ref. retA (if CHR '':'' \<in> set (take 24 ref) then None else Some sample_target_image),
       ie_pull_image = \<lambda>_. retA ()\<rparr> ''dockerhub'' '' v1.1.0 '' () = (Inr t, ()) \<and>
     r \<in> set OFFICIAL_REGISTRIES \<and> it_repository t = or_repository r \<and> it_version t = ''v1.1.0''"
proof -
  let ?run = "pull_and_verify (resolve_target (\<lambda>_. True)
        (\<lambda>_. retA \<lparr>hr_status = 200, hr_headers = [(''docker-content-digest'', sample_digest)], hr_json = None\<rparr>))
      \<lparr>ie_inspect_image = \<lambda>ref. retA (if CHR '':'' \<in> set (take 24 ref) then None else Some sample_target_image),
       ie_pull_image = \<lambda>_. retA ()\<rparr> ''dockerhub'' '' v1.1.0 '' ()"
  have "case fst ?run of Inr _ \<Rightarrow> True | Inl _ \<Rightarrow> False" by code_simp
  then obtain t where run: "?run = (Inr t, ())" by (cases ?run) (auto split: sum.splits)
  moreover have "strip '' v1.1.0 '' = ''v1.1.0''" by code_simp
  ultimately show ?thesis using pulled_image_is_official [OF run] by metis
qed

end
