(* ===== verification/DockerClient.thy ===== *)
theory DockerClient
  imports UpdaterImages
begin

text \<open>
  The client of the Docker Engine and the recognition of the own container
  (\<open>app/services/docker_capability_service.py\<close>).  What is behind the socket is a parameter: it
  answers a request, or raises an error of the HTTP library.
\<close>

section \<open>Requests\<close>

datatype http_method = GET | POST | DELETE

text \<open>A request for a path on \<open>http://docker\<close>; a time-out of \<open>None\<close> is the client's own.\<close>

record docker_request =
  dq_method :: http_method
  dq_path :: string
  dq_params :: "(string \<times> string) list"
  dq_json :: "(string \<times> json) list option"
  dq_timeout :: "int option"

text \<open>
  Status, body, the JSON value of the body unless \<open>json()\<close> raises \<open>ValueError\<close>, and the same for
  each line of the body that is not blank.
\<close>

record docker_response =
  dr_status :: int
  dr_text :: string
  dr_json :: "json option"
  dr_events :: "json option list"

type_synonym 's docker_socket = "docker_request \<Rightarrow> ('s, docker_response) act"

definition docker_exn :: "string \<Rightarrow> exn" where
  "docker_exn tag = tagged CDockerEngine tag"

definition docker_request_op :: "'s docker_socket \<Rightarrow> docker_request \<Rightarrow> ('s, docker_response) act" where
  "docker_request_op socket q = rethrow (\<lambda>c. c = CNamed ''HTTPError'') (docker_exn ''unreachable'') (socket q)"

definition docker_get :: "'s docker_socket \<Rightarrow> string \<Rightarrow> ('s, docker_response) act" where
  "docker_get socket path =
     docker_request_op socket
       \<lparr>dq_method = GET, dq_path = path, dq_params = [], dq_json = None, dq_timeout = None\<rparr>"

definition docker_post ::
    "'s docker_socket \<Rightarrow> string \<Rightarrow> (string \<times> string) list \<Rightarrow> (string \<times> json) list option \<Rightarrow>
     int option \<Rightarrow> ('s, docker_response) act" where
  "docker_post socket path params body timeout =
     docker_request_op socket
       \<lparr>dq_method = POST, dq_path = path, dq_params = params, dq_json = body, dq_timeout = timeout\<rparr>"

text \<open>\<open>urllib.parse.quote(s, safe='')\<close>: letters, digits and \<open>_.-~\<close> stay.\<close>

definition quote_char :: "char \<Rightarrow> string" where
  "quote_char c =
     (if is_alnum_dash c \<or> c = CHR ''.'' \<or> c = CHR ''~'' then [c]
      else let n = of_char c :: nat in
        [CHR ''%'', upper_char (hex_char (n div 16)), upper_char (hex_char (n mod 16))])"

definition quote_all :: "string \<Rightarrow> string" where
  "quote_all s = concat (map quote_char s)"

section \<open>The answers\<close>

definition status_in :: "int list \<Rightarrow> string \<Rightarrow> docker_response \<Rightarrow> exn + unit" where
  "status_in expected tag r = require (dr_status r \<in> set expected) (docker_exn tag)"

definition json_object :: "string \<Rightarrow> docker_response \<Rightarrow> exn + (string \<times> json) list" where
  "json_object tag r = (case dr_json r of Some (JObj m) \<Rightarrow> Inr m | _ \<Rightarrow> Inl (docker_exn tag))"

definition docker_ping :: "'s docker_socket \<Rightarrow> ('s, unit) act" where
  "docker_ping socket =
     bindA (docker_get socket ''/_ping'') (\<lambda>r.
     guardA (dr_status r = 200 \<and> strip (dr_text r) = ''OK'') (docker_exn ''ping''))"

definition inspect_container :: "'s docker_socket \<Rightarrow> string \<Rightarrow> ('s, container) act" where
  "inspect_container socket cid =
     thenA (guardA (container_id_ok cid) (docker_exn ''container id''))
    (bindA (docker_get socket (''/containers/'' @ cid @ ''/json'')) (\<lambda>r.
     inspectA (\<lambda>_. bindR (status_in [200] ''inspect'' r) (\<lambda>_. json_object ''inspect'' r))))"

definition list_containers :: "'s docker_socket \<Rightarrow> ('s, container list) act" where
  "list_containers socket =
     bindA (docker_get socket ''/containers/json?all=1'') (\<lambda>r.
     inspectA (\<lambda>_. bindR (status_in [200] ''list'' r) (\<lambda>_.
       case dr_json r of
         Some (JList items) \<Rightarrow> Inr (objects (JList items))
       | _ \<Rightarrow> Inl (docker_exn ''list''))))"

definition inspect_image :: "'s docker_socket \<Rightarrow> string \<Rightarrow> ('s, container option) act" where
  "inspect_image socket reference =
     bindA (docker_get socket (''/images/'' @ quote_all reference @ ''/json'')) (\<lambda>r.
     inspectA (\<lambda>_.
       if dr_status r = 404 then Inr None
       else bindR (status_in [200] ''inspect image'' r) (\<lambda>_.
            bindR (json_object ''inspect image'' r) (\<lambda>m. Inr (Some m)))))"

definition pull_event_ok :: "json option \<Rightarrow> exn + unit" where
  "pull_event_ok event =
     (case event of
        Some (JObj m) \<Rightarrow>
          require (\<not> truthy (jget m ''error'') \<and> \<not> truthy (jget m ''errorDetail''))
            (docker_exn ''pull failed'')
      | _ \<Rightarrow> Inl (docker_exn ''pull result''))"

fun pull_events :: "json option list \<Rightarrow> exn + unit" where
  "pull_events [] = Inr ()"
| "pull_events (event # events) = bindR (pull_event_ok event) (\<lambda>_. pull_events events)"

definition pull_image :: "'s docker_socket \<Rightarrow> int \<Rightarrow> string \<Rightarrow> ('s, unit) act" where
  "pull_image socket timeout reference =
     bindA (docker_post socket ''/images/create'' [(''fromImage'', reference)] None (Some timeout)) (\<lambda>r.
     inspectA (\<lambda>_. bindR (status_in [200] ''pull'' r) (\<lambda>_. pull_events (dr_events r))))"

definition create_container ::
    "'s docker_socket \<Rightarrow> string \<Rightarrow> (string \<times> json) list \<Rightarrow> ('s, string) act" where
  "create_container socket name config =
     thenA (guardA (container_name_ok name) (docker_exn ''name''))
    (bindA (docker_post socket ''/containers/create'' [(''name'', name)] (Some config) None) (\<lambda>r.
     inspectA (\<lambda>_. bindR (status_in [201] ''create'' r) (\<lambda>_.
       case dr_json r of
         None \<Rightarrow> Inl (docker_exn ''create result'')
       | Some j \<Rightarrow>
           (case jget (mapping j) ''Id'' of
              JStr cid \<Rightarrow> if container_id_ok cid then Inr cid else Inl (docker_exn ''created id'')
            | _ \<Rightarrow> Inl (docker_exn ''created id''))))))"

text \<open>Requests for a container whose answer is only a status.\<close>

definition container_command ::
    "'s docker_socket \<Rightarrow> string \<Rightarrow> docker_request \<Rightarrow> int list \<Rightarrow> string \<Rightarrow> ('s, unit) act" where
  "container_command socket cid q expected tag =
     thenA (guardA (container_id_ok cid) (docker_exn ''container id''))
    (bindA (docker_request_op socket q) (\<lambda>r. inspectA (\<lambda>_. status_in expected tag r)))"

definition container_request :: "http_method \<Rightarrow> string \<Rightarrow> string \<Rightarrow> docker_request" where
  "container_request verb cid action =
     \<lparr>dq_method = verb, dq_path = ''/containers/'' @ cid @ action, dq_params = [], dq_json = None,
      dq_timeout = None\<rparr>"

definition start_container :: "'s docker_socket \<Rightarrow> string \<Rightarrow> ('s, unit) act" where
  "start_container socket cid =
     container_command socket cid (container_request POST cid ''/start'') [204, 304] ''start''"

definition stop_container :: "'s docker_socket \<Rightarrow> int \<Rightarrow> string \<Rightarrow> int \<Rightarrow> ('s, unit) act" where
  "stop_container socket own_timeout cid timeout =
     thenA (guardA (container_id_ok cid) (docker_exn ''container id''))
    (thenA (guardA (1 \<le> timeout \<and> timeout \<le> 600) (docker_exn ''stop timeout''))
       (container_command socket cid
          ((container_request POST cid ''/stop'')
             \<lparr>dq_params := [(''t'', int_str timeout)], dq_timeout := Some (timeout + own_timeout)\<rparr>)
          [204, 304] ''stop''))"

definition ALLOWED_RESTART_POLICIES :: "string list" where
  "ALLOWED_RESTART_POLICIES = ['''', ''no'', ''always'', ''unless-stopped'', ''on-failure'']"

definition docker_policy :: "(string \<times> json) list \<Rightarrow> (string \<times> json) list option" where
  "docker_policy policy =
     (if set (map fst policy) \<noteq> {''Name'', ''MaximumRetryCount''} then None
      else case (jget policy ''Name'', jget policy ''MaximumRetryCount'') of
             (JStr name, JInt n) \<Rightarrow>
               if name \<in> set ALLOWED_RESTART_POLICIES \<and> 0 \<le> n
               then Some [(''Name'', JStr name), (''MaximumRetryCount'', JInt n)] else None
           | _ \<Rightarrow> None)"

definition update_restart_policy ::
    "'s docker_socket \<Rightarrow> string \<Rightarrow> (string \<times> json) list \<Rightarrow> ('s, unit) act" where
  "update_restart_policy socket cid policy =
     thenA (guardA (container_id_ok cid) (docker_exn ''container id''))
       (case docker_policy policy of
          None \<Rightarrow> raiseA (docker_exn ''restart policy'')
        | Some p \<Rightarrow>
            container_command socket cid
              ((container_request POST cid ''/update'')\<lparr>dq_json := Some [(''RestartPolicy'', JObj p)]\<rparr>)
              [200] ''update'')"

definition exit_status :: "docker_response \<Rightarrow> exn + int" where
  "exit_status r =
     (case dr_json r of
        Some (JObj m) \<Rightarrow>
          (case jget m ''StatusCode'' of
             JInt n \<Rightarrow>
               if n < 0 then Inl (docker_exn ''exit status'')
               else if jget m ''Error'' \<notin> {JNull, JObj []} then Inl (docker_exn ''exit error'')
               else Inr n
           | _ \<Rightarrow> Inl (docker_exn ''exit status''))
      | _ \<Rightarrow> Inl (docker_exn ''exit status''))"

definition wait_container :: "'s docker_socket \<Rightarrow> string \<Rightarrow> ('s, int) act" where
  "wait_container socket cid =
     thenA (guardA (container_id_ok cid) (docker_exn ''container id''))
    (bindA (docker_post socket (''/containers/'' @ cid @ ''/wait'') [(''condition'', ''not-running'')] None
              (Some 600)) (\<lambda>r.
     inspectA (\<lambda>_. bindR (status_in [200] ''wait'' r) (\<lambda>_. exit_status r))))"

definition rename_container :: "'s docker_socket \<Rightarrow> string \<Rightarrow> string \<Rightarrow> ('s, unit) act" where
  "rename_container socket cid name =
     thenA (guardA (container_id_ok cid) (docker_exn ''container id''))
    (thenA (guardA (container_name_ok name) (docker_exn ''name''))
       (container_command socket cid
          ((container_request POST cid ''/rename'')\<lparr>dq_params := [(''name'', name)]\<rparr>) [204] ''rename''))"

definition remove_container :: "'s docker_socket \<Rightarrow> string \<Rightarrow> ('s, unit) act" where
  "remove_container socket cid =
     container_command socket cid
       ((container_request DELETE cid '''')\<lparr>dq_params := [(''v'', ''0'')]\<rparr>) [204, 404] ''remove''"

definition connect_network ::
    "'s docker_socket \<Rightarrow> string \<Rightarrow> string \<Rightarrow> string list \<Rightarrow> ('s, unit) act" where
  "connect_network socket network cid aliases =
     thenA (guardA (container_id_ok cid) (docker_exn ''container id''))
    (thenA (guardA (container_name_ok network \<and> list_all container_name_ok aliases) (docker_exn ''name''))
    (bindA (docker_post socket (''/networks/'' @ quote_all network @ ''/connect'') []
              (Some [(''Container'', JStr cid),
                     (''EndpointConfig'', JObj [(''Aliases'', JList (map JStr aliases))])]) None) (\<lambda>r.
     inspectA (\<lambda>_. status_in [200] ''connect'' r))))"

definition disconnect_network :: "'s docker_socket \<Rightarrow> string \<Rightarrow> string \<Rightarrow> ('s, unit) act" where
  "disconnect_network socket network cid =
     thenA (guardA (container_id_ok cid) (docker_exn ''container id''))
    (thenA (guardA (container_name_ok network) (docker_exn ''name''))
    (bindA (docker_post socket (''/networks/'' @ quote_all network @ ''/disconnect'') []
              (Some [(''Container'', JStr cid), (''Force'', JBool False)]) None) (\<lambda>r.
     inspectA (\<lambda>_. status_in [200, 404] ''disconnect'' r))))"

text \<open>The operations that the updater uses.\<close>

definition engine_client :: "'s docker_socket \<Rightarrow> int \<Rightarrow> 's docker_engine" where
  "engine_client socket own_timeout =
     \<lparr>de_list_containers = list_containers socket, de_inspect_container = inspect_container socket,
      de_inspect_image = inspect_image socket,
      de_update_restart_policy = update_restart_policy socket,
      de_stop_container = stop_container socket own_timeout,
      de_wait_container = wait_container socket, de_rename_container = rename_container socket,
      de_create_container = create_container socket, de_start_container = start_container socket,
      de_remove_container = remove_container socket\<rparr>"

section \<open>The own container\<close>

definition COMPOSE_PROJECT_LABEL :: string where
  "COMPOSE_PROJECT_LABEL = ''com.docker.compose.project''"

definition has_official_source :: "json \<Rightarrow> bool" where
  "has_official_source labels \<longleftrightarrow>
     jget (mapping labels) ''org.opencontainers.image.source'' = JStr OFFICIAL_SOURCE \<and>
     jget (mapping labels) ''org.opencontainers.image.title'' = JStr ''MediaSync''"

definition summary_has_data_mount :: "container \<Rightarrow> bool" where
  "summary_has_data_mount c \<longleftrightarrow>
     list_ex (\<lambda>m. jget m ''Destination'' = JStr ''/data'' \<and>
                  jget m ''Type'' \<in> {JStr ''bind'', JStr ''volume''}) (objects (jget c ''Mounts''))"

text \<open>The reason why a container is refused.\<close>

definition validate_current_container :: "container \<Rightarrow> string option" where
  "validate_current_container c =
     (case jget c ''Config'' of
        JObj config \<Rightarrow>
          if \<not> has_official_source (jget config ''Labels'') then Some ''container_unofficial''
          else if map_of (mapping (jget config ''Labels'')) COMPOSE_PROJECT_LABEL \<noteq> None
          then Some ''compose_managed''
          else if jget config ''Cmd'' \<noteq> APPLIANCE_COMMAND then Some ''not_appliance''
          else if \<not> summary_has_data_mount c then Some ''data_mount_missing''
          else None
      | _ \<Rightarrow> Some ''container_invalid'')"

record 's capability_env =
  cp_engine :: "'s docker_engine"
  cp_ping :: "('s, unit) act"
  cp_explicit_id :: string
  cp_hostname :: string
  cp_cache_seconds :: int
  cp_socket_probe :: "'s \<Rightarrow> string"
  cp_monotonic :: "'s \<Rightarrow> int"

text \<open>What the service keeps of the environment variables.\<close>

definition normalized_id :: "string \<Rightarrow> string" where
  "normalized_id s = lower (strip s)"

definition is_current_candidate :: "container \<Rightarrow> bool" where
  "is_current_candidate summary \<longleftrightarrow>
     jget summary ''State'' = JStr ''running'' \<and> has_official_source (jget summary ''Labels'') \<and>
     summary_has_data_mount summary \<and> jget summary ''Command'' = JStr ''python -m app.appliance''"

definition identify_from_list :: "'s docker_engine \<Rightarrow> ('s, container) act" where
  "identify_from_list engine =
     bindA (de_list_containers engine) (\<lambda>summaries.
     case filter is_current_candidate summaries of
       [summary] \<Rightarrow>
         (case jget summary ''Id'' of
            JStr cid \<Rightarrow>
              if container_id_ok cid then de_inspect_container engine cid
              else raiseA (docker_exn ''candidate id'')
          | _ \<Rightarrow> raiseA (docker_exn ''candidate id''))
     | _ \<Rightarrow> raiseA (docker_exn ''not unique''))"

definition identify_container :: "'s capability_env \<Rightarrow> ('s, container) act" where
  "identify_container env =
     (let engine = cp_engine env; explicit = normalized_id (cp_explicit_id env);
          host = normalized_id (cp_hostname env) in
      if explicit \<noteq> [] then de_inspect_container engine explicit
      else if container_id_ok host
      then bindA (tryA (de_inspect_container engine host)) (\<lambda>r. case r of
             Inr c \<Rightarrow> retA c
           | Inl e \<Rightarrow> if is_docker_error (e_class e) then identify_from_list engine else raiseA e)
      else identify_from_list engine)"

definition resolution_exn :: "string \<Rightarrow> exn" where
  "resolution_exn reason =
     raise_exn (CNamed ''DockerContainerResolutionError'') (Some reason) reason"

definition resolve_current_container :: "'s capability_env \<Rightarrow> ('s, container) act" where
  "resolve_current_container env =
     bindA (identify_container env) (\<lambda>c.
     case validate_current_container c of
       None \<Rightarrow> retA c
     | Some reason \<Rightarrow> raiseA (resolution_exn reason))"

record docker_capability =
  dc_socket_available :: bool
  dc_engine_available :: bool
  dc_container_identified :: bool
  dc_reason_code :: string

definition capability :: "bool \<Rightarrow> bool \<Rightarrow> bool \<Rightarrow> string \<Rightarrow> docker_capability" where
  "capability socket engine identified reason =
     \<lparr>dc_socket_available = socket, dc_engine_available = engine,
      dc_container_identified = identified, dc_reason_code = reason\<rparr>"

definition probe_uncached :: "'s capability_env \<Rightarrow> ('s, docker_capability) act" where
  "probe_uncached env w =
     (let state = cp_socket_probe env w in
      if state = ''missing'' then (Inr (capability False False False ''socket_missing''), w)
      else if state = ''invalid_type'' then (Inr (capability False False False ''socket_invalid''), w)
      else if state \<noteq> ''socket'' then (Inr (capability False False False ''socket_inaccessible''), w)
      else
        bindA (tryA (cp_ping env)) (\<lambda>pinged. case pinged of
          Inl e \<Rightarrow>
            if is_docker_error (e_class e) then retA (capability True False False ''engine_unavailable'')
            else raiseA e
        | Inr _ \<Rightarrow>
            bindA (tryA (resolve_current_container env)) (\<lambda>resolved. case resolved of
              Inr _ \<Rightarrow> retA (capability True True True ''ready'')
            | Inl e \<Rightarrow>
                if e_class e = CNamed ''DockerContainerResolutionError''
                then retA (capability True True False (coalesce (e_code e) []))
                else if is_docker_error (e_class e)
                then retA (capability True True False ''container_not_identified'')
                else raiseA e)) w)"

text \<open>What the service remembers: the last result, and since when.\<close>

definition probe_cached ::
    "'s capability_env \<Rightarrow> (docker_capability \<times> int) option \<Rightarrow>
     ('s, docker_capability \<times> (docker_capability \<times> int) option) act" where
  "probe_cached env cache w =
     (let now = cp_monotonic env w in
      case cache of
        Some (known, since) \<Rightarrow>
          if now - since < cp_cache_seconds env then (Inr (known, cache), w)
          else bindA (probe_uncached env) (\<lambda>c. retA (c, Some (c, now))) w
      | None \<Rightarrow> bindA (probe_uncached env) (\<lambda>c. retA (c, Some (c, now))) w)"

end
