(* ===== verification/UpdaterHandoff.thy ===== *)
theory UpdaterHandoff
  imports DockerClient
begin

text \<open>
  The preparation of an update (\<open>app/services/updater_handoff_service.py\<close>): what is taken over
  from the running container, the handoff document, and the container of the updater.
\<close>

section \<open>Values of a container\<close>

definition handoff_exn :: "string \<Rightarrow> exn" where
  "handoff_exn tag = tagged CUpdaterHandoff tag"

definition require_mapping :: "json \<Rightarrow> string \<Rightarrow> exn + (string \<times> json) list" where
  "require_mapping j tag = (case j of JObj m \<Rightarrow> Inr m | _ \<Rightarrow> Inl (handoff_exn tag))"

definition string_value :: "json \<Rightarrow> string \<Rightarrow> exn + string" where
  "string_value j fallback =
     (case j of JNull \<Rightarrow> Inr fallback | JStr s \<Rightarrow> Inr s | _ \<Rightarrow> Inl (handoff_exn ''field type''))"

text \<open>The strings of a list in which there is nothing else.\<close>

fun strings :: "json list \<Rightarrow> string list option" where
  "strings [] = Some []"
| "strings (JStr s # js) = map_option ((#) s) (strings js)"
| "strings (_ # js) = None"

definition string_tuple :: "json \<Rightarrow> exn + string list" where
  "string_tuple j =
     (case j of
        JNull \<Rightarrow> Inr []
      | JList js \<Rightarrow> (case strings js of Some ss \<Rightarrow> Inr ss | None \<Rightarrow> Inl (handoff_exn ''list''))
      | _ \<Rightarrow> Inl (handoff_exn ''list''))"

definition nonempty_list :: "json \<Rightarrow> bool" where
  "nonempty_list j = (case j of JList js \<Rightarrow> js \<noteq> [] | _ \<Rightarrow> False)"

text \<open>Applying a reader to every entry, until one raises.\<close>

fun read_all :: "('a \<Rightarrow> exn + 'b) \<Rightarrow> 'a list \<Rightarrow> exn + 'b list" where
  "read_all f [] = Inr []"
| "read_all f (x # xs) = bindR (f x) (\<lambda>y. bindR (read_all f xs) (\<lambda>ys. Inr (y # ys)))"

section \<open>Mounts, labels, devices\<close>

definition place_mount :: "string list \<Rightarrow> string \<Rightarrow> bool \<Rightarrow> json \<times> json \<Rightarrow> exn + handoff_mount" where
  "place_mount targets mount_type read_only places =
     (case places of
        (JStr source, JStr target) \<Rightarrow>
          if source = [] \<or> target = [] then Inl (handoff_exn ''mount'')
          else if target \<in> set targets then Inl (handoff_exn ''mount target'')
          else Inr \<lparr>hm_type = mount_type, hm_source = source, hm_target = target,
                    hm_read_only = read_only\<rparr>
      | _ \<Rightarrow> Inl (handoff_exn ''mount''))"

text \<open>A type that is a list or an object cannot be looked up in the set of the allowed types.\<close>

definition extract_mount :: "string list \<Rightarrow> json \<Rightarrow> exn + handoff_mount" where
  "extract_mount targets j =
     bindR (require_mapping j ''mount'') (\<lambda>m.
     let source = (if jget m ''Type'' = JStr ''volume'' then jget m ''Name'' else jget m ''Source'') in
     case jget m ''Type'' of
       JList _ \<Rightarrow> Inl (tagged COther ''TypeError'')
     | JObj _ \<Rightarrow> Inl (tagged COther ''TypeError'')
     | JStr mount_type \<Rightarrow>
         if mount_type \<notin> {''bind'', ''volume''} then Inl (handoff_exn ''mount type'')
         else place_mount targets mount_type (jget m ''RW'' \<noteq> JBool True)
                (source, jget m ''Destination'')
     | _ \<Rightarrow> Inl (handoff_exn ''mount type''))"

fun extract_mounts_from :: "string list \<Rightarrow> json list \<Rightarrow> exn + handoff_mount list" where
  "extract_mounts_from targets [] = Inr []"
| "extract_mounts_from targets (j # js) =
     bindR (extract_mount targets j) (\<lambda>m.
     bindR (extract_mounts_from (hm_target m # targets) js) (\<lambda>ms. Inr (m # ms)))"

definition extract_mounts :: "json \<Rightarrow> exn + handoff_mount list" where
  "extract_mounts j =
     (case j of JList js \<Rightarrow> extract_mounts_from [] js | _ \<Rightarrow> Inl (handoff_exn ''mounts''))"

definition require_mount ::
    "handoff_mount list \<Rightarrow> string \<Rightarrow> bool \<Rightarrow> string option \<Rightarrow> exn + unit" where
  "require_mount mounts target writable mount_type =
     (case filter (\<lambda>m. hm_target m = target) mounts of
        [m] \<Rightarrow>
          bindR (require (\<not> (writable \<and> hm_read_only m)) (handoff_exn ''mount read only'')) (\<lambda>_.
          require (case mount_type of None \<Rightarrow> True | Some t \<Rightarrow> hm_type m = t)
            (handoff_exn ''required mount type''))
      | _ \<Rightarrow> Inl (handoff_exn ''required mount''))"

definition label_of :: "string \<times> json \<Rightarrow> exn + string \<times> string" where
  "label_of entry =
     (case snd entry of JStr s \<Rightarrow> Inr (fst entry, s) | _ \<Rightarrow> Inl (handoff_exn ''labels''))"

definition extract_labels :: "json \<Rightarrow> exn + (string \<times> string) list" where
  "extract_labels j =
     (case j of JObj m \<Rightarrow> read_all label_of m | _ \<Rightarrow> Inl (handoff_exn ''labels''))"

definition device_path :: "json \<Rightarrow> string option" where
  "device_path j =
     (case j of JStr s \<Rightarrow> if valid_handoff_device_path s then Some s else None | _ \<Rightarrow> None)"

definition device_permissions :: "json \<Rightarrow> string option" where
  "device_permissions j =
     (case j of
        JStr s \<Rightarrow> if s \<noteq> [] \<and> distinct s \<and> set s \<subseteq> set ''rwm'' then Some s else None
      | _ \<Rightarrow> None)"

definition extract_device :: "string list \<Rightarrow> json \<Rightarrow> exn + handoff_device" where
  "extract_device targets j =
     bindR (require_mapping j ''device'') (\<lambda>m.
     case (device_path (jget m ''PathOnHost''), device_path (jget m ''PathInContainer'')) of
       (Some host_path, Some container_path) \<Rightarrow>
         (case device_permissions (jget m ''CgroupPermissions'') of
            None \<Rightarrow> Inl (handoff_exn ''device permissions'')
          | Some permissions \<Rightarrow>
              if container_path \<in> set targets then Inl (handoff_exn ''device target'')
              else Inr \<lparr>hd_path_on_host = host_path, hd_path_in_container = container_path,
                        hd_cgroup_permissions = permissions\<rparr>)
     | _ \<Rightarrow> Inl (handoff_exn ''device''))"

fun extract_devices_from :: "string list \<Rightarrow> json list \<Rightarrow> exn + handoff_device list" where
  "extract_devices_from targets [] = Inr []"
| "extract_devices_from targets (j # js) =
     bindR (extract_device targets j) (\<lambda>d.
     bindR (extract_devices_from (hd_path_in_container d # targets) js) (\<lambda>ds. Inr (d # ds)))"

definition extract_devices :: "json \<Rightarrow> exn + handoff_device list" where
  "extract_devices j =
     (case j of
        JNull \<Rightarrow> Inr []
      | JList js \<Rightarrow> extract_devices_from [] js
      | _ \<Rightarrow> Inl (handoff_exn ''devices''))"

section \<open>Ports, restart policy, networks\<close>

definition clean_binding :: "json \<Rightarrow> exn + json" where
  "clean_binding j =
     bindR (require_mapping j ''port binding'') (\<lambda>m.
     bindR (string_value (jget m ''HostIp'') []) (\<lambda>host_ip.
     bindR (string_value (jget m ''HostPort'') []) (\<lambda>host_port.
     if host_port \<noteq> [] \<and> \<not> list_all is_digit host_port then Inl (handoff_exn ''port binding'')
     else Inr (JObj [(''HostIp'', JStr host_ip), (''HostPort'', JStr host_port)]))))"

definition port_binding :: "string \<times> json \<Rightarrow> exn + string \<times> json" where
  "port_binding entry =
     (case snd entry of
        JList bindings \<Rightarrow> bindR (read_all clean_binding bindings) (\<lambda>bs. Inr (fst entry, JList bs))
      | _ \<Rightarrow> Inl (handoff_exn ''port binding''))"

definition extract_port_bindings :: "json \<Rightarrow> exn + (string \<times> json) list" where
  "extract_port_bindings j =
     (case j of
        JNull \<Rightarrow> Inr []
      | _ \<Rightarrow> bindR (require_mapping j ''port bindings'') (read_all port_binding))"

definition exposed_port :: "string \<times> json \<Rightarrow> exn + string" where
  "exposed_port entry =
     (case snd entry of JObj _ \<Rightarrow> Inr (fst entry) | _ \<Rightarrow> Inl (handoff_exn ''exposed ports''))"

definition extract_exposed_ports :: "json \<Rightarrow> exn + string list" where
  "extract_exposed_ports j =
     (case j of
        JNull \<Rightarrow> Inr []
      | _ \<Rightarrow> bindR (require_mapping j ''exposed ports'') (read_all exposed_port))"

text \<open>A bool is an \<open>int\<close> to \<open>isinstance\<close>.\<close>

definition retry_count_ok :: "json \<Rightarrow> bool" where
  "retry_count_ok j = (case j of JInt n \<Rightarrow> 0 \<le> n | JBool _ \<Rightarrow> True | _ \<Rightarrow> False)"

definition extract_restart_policy :: "json \<Rightarrow> exn + (string \<times> json) list" where
  "extract_restart_policy j =
     bindR (require_mapping (if truthy j then j else JObj []) ''restart policy'') (\<lambda>m.
     bindR (string_value (jget m ''Name'') ''no'') (\<lambda>name.
     let retries = coalesce (map_of m ''MaximumRetryCount'') (JInt 0) in
     if name \<notin> set ALLOWED_RESTART_POLICIES \<or> \<not> retry_count_ok retries
     then Inl (handoff_exn ''restart policy'')
     else Inr [(''Name'', JStr name), (''MaximumRetryCount'', retries)]))"

definition network_aliases :: "string \<times> json \<Rightarrow> exn + string \<times> string list" where
  "network_aliases entry =
     bindR (require_mapping (snd entry) ''network'') (\<lambda>m.
     bindR (string_tuple (jget m ''Aliases'')) (\<lambda>aliases. Inr (fst entry, aliases)))"

definition extract_networks :: "container \<Rightarrow> exn + (string \<times> string list) list" where
  "extract_networks c =
     bindR (require_mapping (jget c ''NetworkSettings'') ''network settings'') (\<lambda>settings.
     bindR (require_mapping (jget settings ''Networks'') ''networks'') (read_all network_aliases))"

section \<open>The template of the candidate\<close>

definition starts_with :: "string \<Rightarrow> string \<Rightarrow> bool" where
  "starts_with p s \<longleftrightarrow> expect p s \<noteq> None"

definition kept_labels :: "(string \<times> string) list \<Rightarrow> (string \<times> string) list" where
  "kept_labels =
     filter (\<lambda>(k, _). \<not> starts_with ''com.docker.'' k \<and> \<not> starts_with ''org.opencontainers.image.'' k)"

text \<open>What cannot be taken over: privileges, devices by request, the network of somebody else.\<close>

definition supported_host :: "(string \<times> json) list \<Rightarrow> exn + string" where
  "supported_host host =
     bindR (require (jget host ''Privileged'' \<noteq> JBool True \<and> \<not> nonempty_list (jget host ''CapAdd''))
              (handoff_exn ''privileged'')) (\<lambda>_.
     bindR (require (jget host ''DeviceRequests'' \<in> {JNull, JList []}) (handoff_exn ''device requests'')) (\<lambda>_.
     bindR (string_value (jget host ''NetworkMode'') ''default'') (\<lambda>mode.
     if mode \<in> {''host'', ''none''} \<or> starts_with ''container:'' mode
     then Inl (handoff_exn ''network mode'') else Inr mode)))"

definition container_identity :: "container \<Rightarrow> exn + string \<times> string" where
  "container_identity c =
     (let name = container_name c in
      case jget c ''Id'' of
        JStr cid \<Rightarrow>
          if \<not> container_id_ok cid then Inl (handoff_exn ''container id'')
          else if \<not> container_name_ok name then Inl (handoff_exn ''container name'')
          else Inr (cid, name)
      | _ \<Rightarrow> Inl (handoff_exn ''container id''))"

definition template_of ::
    "container \<Rightarrow> (string \<times> json) list \<Rightarrow> (string \<times> json) list \<Rightarrow> string \<times> string \<Rightarrow> string \<Rightarrow>
     handoff_mount list \<Rightarrow> (string \<times> string) list \<Rightarrow> exn + handoff_candidate" where
  "template_of c config host identity network_mode mounts labels =
     bindR (string_tuple (jget config ''Env'')) (\<lambda>env.
     bindR (string_value (jget config ''User'') []) (\<lambda>user.
     bindR (extract_exposed_ports (jget config ''ExposedPorts'')) (\<lambda>ports.
     bindR (extract_port_bindings (jget host ''PortBindings'')) (\<lambda>bindings.
     bindR (extract_restart_policy (jget host ''RestartPolicy'')) (\<lambda>policy.
     bindR (extract_networks c) (\<lambda>networks.
     bindR (string_tuple (jget host ''Dns'')) (\<lambda>dns.
     bindR (string_tuple (jget host ''GroupAdd'')) (\<lambda>groups.
     bindR (extract_devices (jget host ''Devices'')) (\<lambda>devices.
     Inr \<lparr>hc_container_id = fst identity, hc_name = snd identity, hc_env = env, hc_user = user,
          hc_labels = kept_labels labels, hc_mounts = mounts, hc_exposed_ports = ports,
          hc_port_bindings = bindings, hc_restart_policy = policy, hc_network_mode = network_mode,
          hc_networks = networks, hc_dns = dns, hc_group_add = groups,
          hc_readonly_rootfs = (jget host ''ReadonlyRootfs'' = JBool True),
          hc_devices = devices\<rparr>)))))))))"

definition extract_candidate_template :: "container \<Rightarrow> string \<Rightarrow> exn + handoff_candidate" where
  "extract_candidate_template c socket_path =
     (case validate_current_container c of
        Some reason \<Rightarrow> Inl (handoff_exn reason)
      | None \<Rightarrow>
          bindR (container_identity c) (\<lambda>identity.
          bindR (require_mapping (jget c ''Config'') ''config'') (\<lambda>config.
          bindR (require_mapping (jget c ''HostConfig'') ''host config'') (\<lambda>host.
          bindR (supported_host host) (\<lambda>network_mode.
          bindR (extract_mounts (jget c ''Mounts'')) (\<lambda>mounts.
          bindR (require_mount mounts ''/data'' True None) (\<lambda>_.
          bindR (require_mount mounts socket_path False (Some ''bind'')) (\<lambda>_.
          bindR (extract_labels (jget config ''Labels'')) (\<lambda>labels.
          bindR (require (map_of labels COMPOSE_PROJECT_LABEL = None) (handoff_exn ''compose'')) (\<lambda>_.
          template_of c config host identity network_mode mounts labels))))))))))"

text \<open>Identifier, reference, version and digest of the image that runs.\<close>

definition extract_source_image :: "container \<Rightarrow> exn + (string \<times> string \<times> string \<times> string option)" where
  "extract_source_image c =
     bindR (require_mapping (jget c ''Config'') ''config'') (\<lambda>config.
     bindR (extract_labels (jget config ''Labels'')) (\<lambda>labels.
     case (jget c ''Image'', jget config ''Image'', map_of labels ''org.opencontainers.image.version'') of
       (JStr image_id, JStr reference, Some version) \<Rightarrow>
         if \<not> digest_ok image_id \<or> reference = [] \<or> version = []
         then Inl (handoff_exn ''image metadata'')
         else (case rpartition (CHR ''@'') reference of (_, found, digest) \<Rightarrow>
                 Inr (image_id, reference, version,
                      if found \<and> digest_ok digest then Some digest else None))
     | _ \<Rightarrow> Inl (handoff_exn ''image metadata'')))"

section \<open>The container of the updater\<close>

definition docker_mount :: "handoff_mount \<Rightarrow> json" where
  "docker_mount m =
     JObj [(''Type'', JStr (hm_type m)), (''Source'', JStr (hm_source m)),
           (''Target'', JStr (hm_target m)), (''ReadOnly'', JBool (hm_read_only m))]"

definition mount_at :: "string \<Rightarrow> handoff_candidate \<Rightarrow> handoff_mount option" where
  "mount_at target c = first_row (\<lambda>m. hm_target m = target) (hc_mounts c)"

text \<open>\<open>next\<close> of an empty generator raises \<open>StopIteration\<close>.\<close>

definition build_updater_create_config ::
    "string \<Rightarrow> verified_target \<Rightarrow> handoff_candidate \<Rightarrow> string \<Rightarrow> exn + (string \<times> json) list" where
  "build_updater_create_config oid t template socket_path =
     (case (mount_at ''/data'' template, mount_at socket_path template) of
        (Some data, Some docker_socket) \<Rightarrow>
          Inr [(''Image'', JStr (immutable_reference t)), (''Cmd'', UPDATER_COMMAND),
               (''Env'', JList [JStr (''MEDIASYNC_UPDATE_OPERATION_ID='' @ oid)]),
               (''Labels'', JObj [(''io.mediasync.updater'', JStr ''true''),
                  (UPDATE_ROLE_LABEL, JStr ''updater''), (UPDATE_OPERATION_LABEL, JStr oid),
                  (''org.opencontainers.image.source'', JStr OFFICIAL_SOURCE)]),
               (''HostConfig'', JObj [(''AutoRemove'', JBool False),
                  (''RestartPolicy'', JObj [(''Name'', JStr ''unless-stopped''), (''MaximumRetryCount'', JInt 0)]),
                  (''NetworkMode'', JStr ''none''), (''ReadonlyRootfs'', JBool True),
                  (''CapDrop'', JList [JStr ''ALL'']), (''CapAdd'', JList [JStr ''CAP_DAC_OVERRIDE'']),
                  (''SecurityOpt'', JList [JStr ''no-new-privileges:true'']),
                  (''Mounts'', JList
                     [docker_mount \<lparr>hm_type = hm_type data, hm_source = hm_source data,
                        hm_target = ''/data'', hm_read_only = False\<rparr>,
                      docker_mount \<lparr>hm_type = ''bind'', hm_source = hm_source docker_socket,
                        hm_target = socket_path, hm_read_only = False\<rparr>])])]
      | _ \<Rightarrow> Inl (tagged COther ''StopIteration''))"

definition updater_creation_matches :: "container \<Rightarrow> bool" where
  "updater_creation_matches c =
     (case jget c ''HostConfig'' of
        JObj host \<Rightarrow>
          jget host ''NetworkMode'' = JStr ''none'' \<and> jget host ''ReadonlyRootfs'' = JBool True \<and>
          updater_isolation_matches host
      | _ \<Rightarrow> False)"

section \<open>The handoff\<close>

text \<open>
  The nonce of the name, what writing and unlinking the file meets, and whether the document is
  small enough to be read.
\<close>

record 'p handoff_env =
  ha_engine :: "'p update_world docker_engine"
  ha_socket_path :: string
  ha_nonce :: "'p update_world \<Rightarrow> string"
  ha_disk :: "'p update_world \<Rightarrow> disk_outcome"
  ha_unlink :: "'p update_world \<Rightarrow> disk_outcome"
  ha_fits :: "handoff_document \<Rightarrow> bool"

definition intent_of ::
    "string \<Rightarrow> verified_target \<Rightarrow> handoff_candidate \<Rightarrow> string \<times> string \<times> string \<times> string option \<Rightarrow>
     handoff_document" where
  "intent_of oid t template source =
     (case source of (image_id, reference, version, digest) \<Rightarrow>
        \<lparr>h_operation_id = oid, h_current_container_id = hc_container_id template,
         h_source_image_id = image_id, h_source_image_reference = reference,
         h_source_version = version, h_source_digest = digest,
         h_target_version = it_version t, h_target_digest = it_digest t,
         h_target_revision = it_revision t, h_target_image = immutable_reference t,
         h_candidate = template\<rparr>)"

definition put_handoff :: "string \<Rightarrow> handoff_file \<Rightarrow> 'p update_world \<Rightarrow> 'p update_world" where
  "put_handoff oid f w = w\<lparr>uw_handoff := (uw_handoff w)(oid := f)\<rparr>"

definition write_handoff :: "'p handoff_env \<Rightarrow> handoff_document \<Rightarrow> ('p update_world, unit) act" where
  "write_handoff env doc w =
     (let oid = h_operation_id doc;
          written = put_handoff oid (if ha_fits env doc then HandoffDoc doc else HandoffInvalid) w in
      if \<not> operation_id_ok oid then (Inl (handoff_exn ''operation id''), w)
      else case uw_handoff w oid of
             HandoffMissing \<Rightarrow>
               (case ha_disk env w of
                  DiskOk \<Rightarrow> (Inr (), written)
                | DiskFailed e \<Rightarrow> (Inl e, w)
                | DiskUnsynced e \<Rightarrow> (Inl e, written))
           | _ \<Rightarrow> (Inl (handoff_exn ''handoff exists''), w))"

definition unlink_handoff :: "'p handoff_env \<Rightarrow> string \<Rightarrow> ('p update_world, unit) act" where
  "unlink_handoff env oid w =
     (case ha_unlink env w of
        DiskFailed e \<Rightarrow> (Inl e, w) | _ \<Rightarrow> (Inr (), put_handoff oid HandoffMissing w))"

text \<open>Removing the container of the updater; that Docker refuses is passed over.\<close>

definition discard_container :: "'p handoff_env \<Rightarrow> string option \<Rightarrow> ('p update_world, unit) act" where
  "discard_container env created =
     (case created of
        None \<Rightarrow> retA ()
      | Some cid \<Rightarrow>
          bindA (tryA (de_remove_container (ha_engine env) cid)) (\<lambda>r. case r of
            Inl e \<Rightarrow> if is_docker_error (e_class e) then retA () else raiseA e
          | Inr _ \<Rightarrow> retA ()))"

definition abandon_handoff ::
    "'p handoff_env \<Rightarrow> string \<Rightarrow> string option \<Rightarrow> exn \<Rightarrow> ('p update_world, 'a) act" where
  "abandon_handoff env oid created e =
     (if is_docker_error (e_class e) \<or> e_class e = CUpdaterHandoff
      then thenA (discard_container env created)
          (thenA (unlink_handoff env oid)
             (raiseA (if is_docker_error (e_class e) then handoff_exn ''helper container'' else e)))
      else raiseA e)"

definition create_updater ::
    "'p handoff_env \<Rightarrow> string \<Rightarrow> string \<Rightarrow> (string \<times> json) list \<Rightarrow> ('p update_world, string) act" where
  "create_updater env oid name config =
     bindA (tryA (de_create_container (ha_engine env) name config)) (\<lambda>created. case created of
       Inl e \<Rightarrow> abandon_handoff env oid None e
     | Inr cid \<Rightarrow>
         bindA (tryA (de_inspect_container (ha_engine env) cid)) (\<lambda>inspected. case inspected of
           Inl e \<Rightarrow> abandon_handoff env oid (Some cid) e
         | Inr c \<Rightarrow>
             if updater_creation_matches c then retA cid
             else abandon_handoff env oid (Some cid) (handoff_exn ''updater isolation'')))"

definition prepare_handoff ::
    "'p handoff_env \<Rightarrow> string \<Rightarrow> container \<Rightarrow> verified_target \<Rightarrow> ('p update_world, string) act" where
  "prepare_handoff env oid current t w =
     (case bindR (require (operation_id_ok oid) (handoff_exn ''operation id'')) (\<lambda>_.
           bindR (validate_resolved_target t (it_registry t) (it_version t)) (\<lambda>_.
           bindR (extract_candidate_template current (ha_socket_path env)) (\<lambda>template.
           bindR (extract_source_image current) (\<lambda>source.
           bindR (require (container_name_ok (''mediasync-updater-'' @ ha_nonce env w))
                    (handoff_exn ''updater name'')) (\<lambda>_.
           bindR (build_updater_create_config oid t template (ha_socket_path env)) (\<lambda>config.
           Inr (intent_of oid t template source, config))))))) of
        Inl e \<Rightarrow> (Inl e, w)
      | Inr (doc, config) \<Rightarrow>
          thenA (write_handoff env doc)
            (create_updater env oid (''mediasync-updater-'' @ ha_nonce env w) config) w)"

text \<open>What the template itself would ask Docker for.\<close>

definition to_candidate_create_config :: "handoff_candidate \<Rightarrow> string \<Rightarrow> (string \<times> json) list" where
  "to_candidate_create_config c img =
     [(''Image'', JStr img), (''Env'', JList (map JStr (hc_env c))), (''User'', JStr (hc_user c)),
      (''Labels'', JObj (map (\<lambda>(k, v). (k, JStr v)) (hc_labels c))),
      (''ExposedPorts'', JObj (map (\<lambda>p. (p, JObj [])) (hc_exposed_ports c))),
      (''HostConfig'', JObj
         [(''Mounts'', JList (map docker_mount (hc_mounts c))),
          (''PortBindings'', JObj (hc_port_bindings c)), (''RestartPolicy'', JObj (hc_restart_policy c)),
          (''NetworkMode'', JStr (hc_network_mode c)), (''Dns'', JList (map JStr (hc_dns c))),
          (''GroupAdd'', JList (map JStr (hc_group_add c))),
          (''ReadonlyRootfs'', JBool (hc_readonly_rootfs c)),
          (''Devices'', JList (map (\<lambda>d. JObj [(''PathOnHost'', JStr (hd_path_on_host d)),
             (''PathInContainer'', JStr (hd_path_in_container d)),
             (''CgroupPermissions'', JStr (hd_cgroup_permissions d))]) (hc_devices c)))]),
      (''NetworkingConfig'', JObj [(''EndpointsConfig'',
         JObj (map (\<lambda>(n, aliases). (n, JObj [(''Aliases'', JList (map JStr aliases))])) (hc_networks c)))])]"

end
