(* ===== verification/UpdateInstall.thy ===== *)
theory UpdateInstall
  imports UpdaterHandoff UpdaterReconcile
begin

text \<open>
  The installation of an update, up to the start of the updater
  (\<open>app/services/update_install_service.py\<close> and the update routes of \<open>app/api/v1/system.py\<close>).  The
  download, the search for the own container and the clock are parameters; other processes act while
  the service waits.
\<close>

section \<open>Environment\<close>

record 'p install_env =
  in_pull :: "string \<Rightarrow> string \<Rightarrow> ('p update_world, verified_target) act"
  in_resolve :: "('p update_world, container) act"
  in_handoff :: "'p handoff_env"
  in_registry_key :: string
  in_drain_timeout :: int
  in_drain_poll :: int
  in_clock :: "'p update_world \<Rightarrow> int"
  in_sleep :: "int \<Rightarrow> 'p update_world \<Rightarrow> 'p update_world"
  in_now :: "'p update_world \<Rightarrow> datetime"
  in_refused :: "'p update_world \<Rightarrow> bool"

definition install_exn :: "string \<Rightarrow> exn" where
  "install_exn tag = tagged (CNamed ''UpdateInstallError'') tag"

fun update_exn :: "update_error \<Rightarrow> exn" where
  "update_exn ActiveUpdateOperationConflictError =
     tagged (CNamed ''ActiveUpdateOperationConflictError'') ''conflict''"
| "update_exn (UpdateOperationStateError e) = tagged (CNamed ''UpdateOperationStateError'') ''state''"
| "update_exn NotAnActiveStatus = tagged CValueError ''status''"
| "update_exn FinishRequiresTerminal = tagged CValueError ''status''"
| "update_exn TerminalMustUseFinish = tagged CValueError ''status''"
| "update_exn UpdateIntegrityError = tagged (CNamed ''IntegrityError'') ''integrity''"
| "update_exn StaleDataError = tagged (CNamed ''StaleDataError'') ''stale''"

definition repository :: "update_error + 'a \<Rightarrow> exn + 'a" where
  "repository r = (case r of Inl e \<Rightarrow> Inl (update_exn e) | Inr x \<Rightarrow> Inr x)"

text \<open>\<open>with session_factory() as session, session.begin()\<close>: all of it, or nothing.\<close>

definition install_transaction ::
    "'p install_env \<Rightarrow> (datetime \<Rightarrow> db \<Rightarrow> exn + db) \<Rightarrow> ('p update_world, unit) act" where
  "install_transaction env f w =
     (case f (in_now env w) (uw_db w) of
        Inl e \<Rightarrow> (Inl e, w)
      | Inr d \<Rightarrow>
          if in_refused env w then (Inl (tagged (CNamed ''OperationalError'') ''commit''), w)
          else (Inr (), w\<lparr>uw_db := d\<rparr>))"

section \<open>Beginning\<close>

definition install_begin ::
    "'p install_env \<Rightarrow> string \<Rightarrow> string \<Rightarrow> string \<Rightarrow> ('p update_world, unit) act" where
  "install_begin env oid source_version target_version =
     install_transaction env (\<lambda>now d.
       bindR (repository (create_update source_version UpPulling (Some target_version) None oid now d))
         (\<lambda>(_, d'). Inr d'))"

section \<open>Executing\<close>

definition require_active :: "db \<Rightarrow> string \<Rightarrow> update_status \<Rightarrow> exn + update_operation" where
  "require_active d oid expected =
     (case get_by_operation_id d oid of
        None \<Rightarrow> Inl (install_exn ''state changed'')
      | Some u \<Rightarrow>
          if u_active_slot u \<noteq> Some ''global'' \<or> u_status u \<noteq> expected
          then Inl (install_exn ''state changed'') else Inr u)"

definition record_target :: "string \<Rightarrow> verified_target \<Rightarrow> datetime \<Rightarrow> db \<Rightarrow> exn + db" where
  "record_target oid t now d =
     bindR (require_active d oid UpPulling) (\<lambda>u.
     bindR (repository (set_verified_target u (it_version t) (it_digest t) now d)) (\<lambda>(u1, d1).
     bindR (repository (transition_active u1 UpDraining now d1)) (\<lambda>(_, d2). Inr d2)))"

definition record_handoff :: "string \<Rightarrow> datetime \<Rightarrow> db \<Rightarrow> exn + db" where
  "record_handoff oid now d =
     bindR (require_active d oid UpDraining) (\<lambda>u.
     bindR (repository (transition_active u UpHandoff now d)) (\<lambda>(_, d'). Inr d'))"

text \<open>Tasks that a worker may be working on.\<close>

definition unfinished_work :: "db \<Rightarrow> bool" where
  "unfinished_work d \<longleftrightarrow>
     (\<exists>t \<in> set (db_tasks d). t_lock_token t \<noteq> None \<or> t_status t \<in> {Running, CancelRequested})"

partial_function (option) drain ::
    "'p install_env \<Rightarrow> int \<Rightarrow> 'p update_world \<Rightarrow> ((exn + unit) \<times> 'p update_world) option" where
  "drain env deadline w =
     (if \<not> unfinished_work (uw_db w) then Some (Inr (), w)
      else if deadline \<le> in_clock env w then Some (Inl (install_exn ''drain timeout''), w)
      else drain env deadline (in_sleep env (in_drain_poll env) w))"

definition wait_until_drained ::
    "'p install_env \<Rightarrow> 'p update_world \<Rightarrow> ((exn + unit) \<times> 'p update_world) option" where
  "wait_until_drained env w = drain env (in_clock env w + in_drain_timeout env) w"

definition fail_operation :: "string \<Rightarrow> exn \<Rightarrow> datetime \<Rightarrow> db \<Rightarrow> exn + db" where
  "fail_operation oid e now d =
     (case get_by_operation_id d oid of
        None \<Rightarrow> Inr d
      | Some u \<Rightarrow>
          if u_active_slot u \<noteq> Some ''global'' then Inr d
          else
            bindR (repository (finish_update u UpFailed None (Some ''update_install_failed'')
                     (Some (if e_message e = [] then ''not started'' else take_chars 1000 (e_message e)))
                     now d))
              (\<lambda>(_, d'). Inr d'))"

definition finish_failed :: "'p install_env \<Rightarrow> string \<Rightarrow> exn \<Rightarrow> ('p update_world, unit) act" where
  "finish_failed env oid e =
     bindA (tryA (install_transaction env (fail_operation oid e))) (\<lambda>_. retA ())"

text \<open>The updater's container and the handoff are given up; that Docker refuses is passed over.\<close>

definition withdraw :: "'p install_env \<Rightarrow> string \<Rightarrow> string \<Rightarrow> exn \<Rightarrow> ('p update_world, unit) act" where
  "withdraw env oid helper e =
     thenA (tryA (de_remove_container (ha_engine (in_handoff env)) helper))
    (thenA (unlink_handoff (in_handoff env) oid) (finish_failed env oid e))"

definition start_helper :: "'p install_env \<Rightarrow> string \<Rightarrow> string \<Rightarrow> ('p update_world, unit) act" where
  "start_helper env oid helper =
     thenA (install_transaction env (record_handoff oid))
       (de_start_container (ha_engine (in_handoff env)) helper)"

definition hand_over :: "'p install_env \<Rightarrow> string \<Rightarrow> verified_target \<Rightarrow> ('p update_world, unit) act" where
  "hand_over env oid t =
     bindA (tryA (bindA (in_resolve env) (\<lambda>current.
                  prepare_handoff (in_handoff env) oid current t))) (\<lambda>prepared. case prepared of
       Inl e \<Rightarrow> finish_failed env oid e
     | Inr helper \<Rightarrow>
         bindA (tryA (start_helper env oid helper)) (\<lambda>started. case started of
           Inl e \<Rightarrow> withdraw env oid helper e
         | Inr _ \<Rightarrow> retA ()))"

definition pull_target :: "'p install_env \<Rightarrow> string \<Rightarrow> string \<Rightarrow> ('p update_world, verified_target) act" where
  "pull_target env oid target_version =
     bindA (in_pull env (in_registry_key env) target_version) (\<lambda>t.
     thenA (install_transaction env (record_target oid t)) (retA t))"

definition install_execute ::
    "'p install_env \<Rightarrow> string \<Rightarrow> string \<Rightarrow> 'p update_world \<Rightarrow> ((exn + unit) \<times> 'p update_world) option" where
  "install_execute env oid target_version w =
     (case pull_target env oid target_version w of
        (Inl e, w1) \<Rightarrow> Some (finish_failed env oid e w1)
      | (Inr t, w1) \<Rightarrow>
          (case wait_until_drained env w1 of
             None \<Rightarrow> None
           | Some (Inl e, w2) \<Rightarrow> Some (finish_failed env oid e w2)
           | Some (Inr _, w2) \<Rightarrow> Some (hand_over env oid t w2)))"

section \<open>The routes\<close>

text \<open>What \<open>POST /system/update/install\<close> answers: the reason of a 409, or the operation that begins.\<close>

datatype install_refusal = DockerNotReady | NoUpdateAvailable | TargetChanged | UpdateRunning

definition api_install ::
    "'p install_env \<Rightarrow> update_status_read \<Rightarrow> docker_capability \<Rightarrow> string \<Rightarrow> string \<Rightarrow> string \<Rightarrow>
     ('p update_world, install_refusal option) act" where
  "api_install env checked cap current_version oid payload_target =
     (if dc_reason_code cap \<noteq> ''ready'' then retA (Some DockerNotReady)
      else case (g_status checked, g_latest_release checked) of
             (UpdateAvailable, Some latest) \<Rightarrow>
               if payload_target \<noteq> i_tag_name latest then retA (Some TargetChanged)
               else bindA (tryA (install_begin env oid current_version (i_tag_name latest))) (\<lambda>r. case r of
                      Inr _ \<Rightarrow> retA None
                    | Inl e \<Rightarrow>
                        if e_class e = CNamed ''ActiveUpdateOperationConflictError''
                        then retA (Some UpdateRunning) else raiseA e)
           | _ \<Rightarrow> retA (Some NoUpdateAvailable))"

definition terminal_matches_current ::
    "update_status \<Rightarrow> string \<Rightarrow> string option \<Rightarrow> string \<Rightarrow> bool" where
  "terminal_matches_current status source_version target_version current_version =
     (case parse_version current_version of
        None \<Rightarrow> False
      | Some current \<Rightarrow>
          let source = parse_version source_version;
              target = (case target_version of None \<Rightarrow> None | Some v \<Rightarrow> parse_version v) in
          if status = UpSuccess then target = Some current
          else if status \<in> {UpFailed, UpCancelled, UpRolledBack} then source = Some current
          else if status = UpRollbackFailed then source = Some current \<or> target = Some current
          else False)"

text \<open>What the status shows: whether an installation is offered, and which operation.\<close>

definition install_supported ::
    "update_status_read \<Rightarrow> docker_capability \<Rightarrow> db \<Rightarrow> bool" where
  "install_supported checked cap d \<longleftrightarrow>
     dc_reason_code cap = ''ready'' \<and> get_active d = None \<and> g_status checked = UpdateAvailable \<and>
     g_latest_release checked \<noteq> None"

definition shown_operation :: "string \<Rightarrow> db \<Rightarrow> update_operation option" where
  "shown_operation current_version d =
     (case get_active d of
        Some u \<Rightarrow> Some u
      | None \<Rightarrow>
          (case get_latest d of
             None \<Rightarrow> None
           | Some u \<Rightarrow>
               if terminal_matches_current (u_status u) (u_source_version u) (u_target_version u)
                    current_version
               then Some u else None))"

end
