(* ===== verification/InstallProofs.thy ===== *)
theory InstallProofs
  imports UpdateInstall UpdaterProperties
begin

text \<open>
  Lemmas on the client of Docker, on the handoff and on the installation.
\<close>

section \<open>Paths that the client asks for\<close>

definition url_quoted :: "string \<Rightarrow> bool" where
  "url_quoted s \<longleftrightarrow> list_all (\<lambda>c. is_alnum_dash c \<or> c \<in> {CHR ''.'', CHR ''~'', CHR ''%''}) s"

definition docker_path_ok :: "string \<Rightarrow> bool" where
  "docker_path_ok path =
     (case split_slash path of
        [root, a] \<Rightarrow> root = [] \<and> a = ''_ping''
      | [root, a, b] \<Rightarrow>
          root = [] \<and> (a = ''containers'' \<and> (b \<in> {''create'', ''json?all=1''} \<or> container_id_ok b) \<or>
                      a = ''images'' \<and> b = ''create'')
      | [root, a, b, c] \<Rightarrow>
          root = [] \<and>
          (a = ''containers'' \<and> container_id_ok b \<and>
             c \<in> {''json'', ''start'', ''stop'', ''update'', ''wait'', ''rename''} \<or>
           a = ''images'' \<and> url_quoted b \<and> c = ''json'' \<or>
           a = ''networks'' \<and> url_quoted b \<and> c \<in> {''connect'', ''disconnect''})
      | _ \<Rightarrow> False)"

lemma split_slash_plain: "CHR ''/'' \<notin> set s \<Longrightarrow> split_slash s = [s]"
  by (induction s) auto

lemma split_slash_append:
  "CHR ''/'' \<notin> set s \<Longrightarrow> split_slash (s @ CHR ''/'' # r) = s # split_slash r"
  by (induction s) auto

lemma container_id_no_slash: "container_id_ok s \<Longrightarrow> CHR ''/'' \<notin> set s"
  by (auto simp: container_id_ok_def list_all_iff is_lower_hex_def is_digit_def)

lemma quoted_no_slash: "url_quoted s \<Longrightarrow> CHR ''/'' \<notin> set s"
  by (auto simp: url_quoted_def list_all_iff is_alnum_dash_def)

lemma quote_all_quoted: "url_quoted (quote_all s)"
proof -
  have hex: "is_alnum_dash (upper_char (hex_char n))" if "n < 16" for n
    using that by (simp add: is_alnum_dash_def upper_char_def hex_char_def Let_def)
  have "url_quoted (quote_char c)" for c
  proof -
    have "(of_char c :: nat) div 16 < 16"
      using nat_of_char_less_256 [of c] by (simp add: div_less_iff_less_mult)
    moreover have "(of_char c :: nat) mod 16 < 16" by simp
    ultimately show ?thesis using hex by (auto simp: url_quoted_def quote_char_def Let_def)
  qed
  then show ?thesis by (induction s) (auto simp: quote_all_def url_quoted_def)
qed

text \<open>A socket that refuses every other path.\<close>

definition safe_socket :: "'s docker_socket \<Rightarrow> 's docker_socket" where
  "safe_socket socket q =
     (if docker_path_ok (dq_path q) then socket q else raiseA (tagged COther ''refused''))"

named_theorems docker_paths \<open>requests that the client may send\<close>

lemma safe_request [docker_paths]:
  "docker_path_ok (dq_path q) \<Longrightarrow> docker_request_op (safe_socket socket) q = docker_request_op socket q"
  by (simp add: docker_request_op_def safe_socket_def)

lemma safe_get [docker_paths]:
  "docker_path_ok path \<Longrightarrow> docker_get (safe_socket socket) path = docker_get socket path"
  by (simp add: docker_get_def safe_request)

lemma safe_post [docker_paths]:
  "docker_path_ok path \<Longrightarrow>
     docker_post (safe_socket socket) path params body timeout = docker_post socket path params body timeout"
  by (simp add: docker_post_def safe_request)

lemma container_path [docker_paths]:
  assumes "container_id_ok cid"
  shows "docker_path_ok (''/containers/'' @ cid @ ''/json'')"
    and "docker_path_ok (''/containers/'' @ cid @ ''/wait'')"
    and "docker_path_ok (''/containers/'' @ cid @ ''/start'')"
    and "docker_path_ok (''/containers/'' @ cid @ ''/stop'')"
    and "docker_path_ok (''/containers/'' @ cid @ ''/update'')"
    and "docker_path_ok (''/containers/'' @ cid @ ''/rename'')"
    and "docker_path_ok (''/containers/'' @ cid)"
  using assms split_slash_plain [OF container_id_no_slash [OF assms]]
    split_slash_append [OF container_id_no_slash [OF assms]]
  by (simp_all add: docker_path_ok_def)

lemma fixed_path [docker_paths]:
  "docker_path_ok ''/_ping''" "docker_path_ok ''/containers/json?all=1''"
  "docker_path_ok ''/images/create''" "docker_path_ok ''/containers/create''"
  by (simp_all add: docker_path_ok_def)

lemma quoted_path [docker_paths]:
  "docker_path_ok (''/images/'' @ quote_all s @ ''/json'')"
  "docker_path_ok (''/networks/'' @ quote_all s @ ''/connect'')"
  "docker_path_ok (''/networks/'' @ quote_all s @ ''/disconnect'')"
  using split_slash_append [OF quoted_no_slash [OF quote_all_quoted]] quote_all_quoted
  by (simp_all add: docker_path_ok_def)

lemma guard_then: "thenA (guardA b e) m = (if b then m else raiseA e)"
  by (auto simp: guardA_def bindA_def retA_def raiseA_def fun_eq_iff)

lemma command_request [docker_paths]:
  "docker_path_ok (''/containers/'' @ cid @ action) \<Longrightarrow>
     docker_path_ok (dq_path (container_request verb cid action))"
  "dq_path (q\<lparr>dq_params := ps\<rparr>) = dq_path q" "dq_path (q\<lparr>dq_json := body\<rparr>) = dq_path q"
  "dq_path (q\<lparr>dq_timeout := t\<rparr>) = dq_path q"
  by (simp_all add: container_request_def)

lemma delete_path [docker_paths]: "container_id_ok cid \<Longrightarrow> docker_path_ok (''/containers/'' @ cid @ [])"
  using container_path(7) [of cid] by simp

lemma safe_client: "engine_client (safe_socket socket) timeout = engine_client socket timeout"
proof -
  note only = guard_then if_True if_False docker_paths container_command_def
  have "inspect_container (safe_socket socket) cid = inspect_container socket cid" for cid
    by (cases "container_id_ok cid") (simp_all only: inspect_container_def only)
  moreover have "list_containers (safe_socket socket) = list_containers socket"
    by (simp only: list_containers_def only)
  moreover have "inspect_image (safe_socket socket) reference = inspect_image socket reference" for reference
    by (simp only: inspect_image_def only)
  moreover have "update_restart_policy (safe_socket socket) cid policy = update_restart_policy socket cid policy"
    for cid policy
    by (cases "container_id_ok cid"; cases "docker_policy policy")
      (simp_all only: update_restart_policy_def only option.case)
  moreover have "stop_container (safe_socket socket) timeout cid t = stop_container socket timeout cid t" for cid t
    by (cases "container_id_ok cid") (simp_all only: stop_container_def only)
  moreover have "wait_container (safe_socket socket) cid = wait_container socket cid" for cid
    by (cases "container_id_ok cid") (simp_all only: wait_container_def only)
  moreover have "rename_container (safe_socket socket) cid name = rename_container socket cid name" for cid name
    by (cases "container_id_ok cid") (simp_all only: rename_container_def only)
  moreover have "create_container (safe_socket socket) name config = create_container socket name config"
    for name config
    by (simp only: create_container_def only)
  moreover have "start_container (safe_socket socket) cid = start_container socket cid" for cid
    by (cases "container_id_ok cid") (simp_all only: start_container_def only)
  moreover have "remove_container (safe_socket socket) cid = remove_container socket cid" for cid
    by (cases "container_id_ok cid") (simp_all only: remove_container_def only)
  ultimately show ?thesis by (simp add: engine_client_def fun_eq_iff)
qed

section \<open>What the handoff takes over\<close>

lemma placed_mount: "place_mount targets t ro places = Inr m \<Longrightarrow> hm_target m \<notin> set targets"
  by (auto simp: place_mount_def split: prod.splits json.splits if_splits)

lemma extracted_mount: "extract_mount targets j = Inr m \<Longrightarrow> hm_target m \<notin> set targets"
proof -
  assume m: "extract_mount targets j = Inr m"
  then obtain r where r: "require_mapping j ''mount'' = Inr r" by (auto simp: extract_mount_def)
  with m obtain t where t: "jget r ''Type'' = JStr t"
    by (cases "jget r ''Type''") (simp_all add: extract_mount_def)
  from m r have "place_mount targets t (jget r ''RW'' \<noteq> JBool True)
      (if t = ''volume'' then jget r ''Name'' else jget r ''Source'', jget r ''Destination'') = Inr m"
    unfolding extract_mount_def by (simp add: t split: if_splits)
  then show ?thesis by (rule placed_mount)
qed

lemma extracted_mounts:
  "extract_mounts_from targets js = Inr ms \<Longrightarrow> distinct (map hm_target ms)"
proof -
  have "extract_mounts_from targets js = Inr ms \<Longrightarrow>
      distinct (map hm_target ms) \<and> set targets \<inter> set (map hm_target ms) = {}" for targets ms
  proof (induction js arbitrary: targets ms)
    case (Cons j js)
    from Cons.prems obtain m ms' where m: "extract_mount targets j = Inr m"
      and ms': "extract_mounts_from (hm_target m # targets) js = Inr ms'" "ms = m # ms'"
      by auto
    have "hm_target m \<notin> set targets"
      using m by (rule extracted_mount)
    with Cons.IH [OF ms'(1)] ms'(2) show ?case by auto
  qed simp
  then show "extract_mounts_from targets js = Inr ms \<Longrightarrow> distinct (map hm_target ms)" by blast
qed

lemma device_path_valid: "device_path j = Some p \<Longrightarrow> valid_handoff_device_path p"
  unfolding device_path_def by (cases j) (simp_all split: if_splits)

lemma device_permissions_valid:
  "device_permissions j = Some p \<Longrightarrow> p \<noteq> [] \<and> distinct p \<and> set p \<subseteq> set ''rwm''"
  unfolding device_permissions_def by (cases j) (simp_all split: if_splits)

lemma extracted_device:
  assumes "extract_device targets j = Inr d"
  shows "valid_handoff_device_path (hd_path_on_host d)"
    and "valid_handoff_device_path (hd_path_in_container d)"
    and "hd_cgroup_permissions d \<noteq> []" and "distinct (hd_cgroup_permissions d)"
    and "set (hd_cgroup_permissions d) \<subseteq> set ''rwm''" and "hd_path_in_container d \<notin> set targets"
proof -
  from assms obtain m where m: "require_mapping j ''device'' = Inr m" by (auto simp: extract_device_def)
  with assms obtain h p where p: "device_path (jget m ''PathOnHost'') = Some h"
      "device_path (jget m ''PathInContainer'') = Some p"
    unfolding extract_device_def
    by (cases "device_path (jget m ''PathOnHost'')"; cases "device_path (jget m ''PathInContainer'')") simp_all
  with assms m obtain q where q: "device_permissions (jget m ''CgroupPermissions'') = Some q"
    unfolding extract_device_def by (cases "device_permissions (jget m ''CgroupPermissions'')") simp_all
  from assms m p q have d: "p \<notin> set targets"
      "d = \<lparr>hd_path_on_host = h, hd_path_in_container = p, hd_cgroup_permissions = q\<rparr>"
    by (simp_all add: extract_device_def split: if_splits)
  show "valid_handoff_device_path (hd_path_on_host d)" "valid_handoff_device_path (hd_path_in_container d)"
      "hd_cgroup_permissions d \<noteq> []" "distinct (hd_cgroup_permissions d)"
      "set (hd_cgroup_permissions d) \<subseteq> set ''rwm''" "hd_path_in_container d \<notin> set targets"
    using device_path_valid [OF p(1)] device_path_valid [OF p(2)] device_permissions_valid [OF q] d(1)
    by (simp_all add: d(2))
qed

lemma extracted_devices:
  "extract_devices_from targets js = Inr ds \<Longrightarrow> handoff_devices_ok targets ds"
proof (induction js arbitrary: targets ds)
  case (Cons j js)
  from Cons.prems obtain d ds' where d: "extract_device targets j = Inr d"
    and ds': "extract_devices_from (hd_path_in_container d # targets) js = Inr ds'" "ds = d # ds'"
    by auto
  show ?case
    unfolding ds'(2) handoff_devices_ok.simps
    using extracted_device [OF d] Cons.IH [OF ds'(1)] by simp
qed simp

lemma required_mount:
  "require_mount mounts target True kind = Inr () \<Longrightarrow>
     \<exists>m. filter (\<lambda>m. hm_target m = target) mounts = [m] \<and> \<not> hm_read_only m"
  by (auto simp: require_mount_def split: list.splits)

lemma extracted_template:
  assumes "extract_candidate_template c socket_path = Inr template"
  shows "container_id_ok (hc_container_id template)" and "container_name_ok (hc_name template)"
    and "handoff_devices_ok [] (hc_devices template)"
    and "\<exists>m. filter (\<lambda>m. hm_target m = ''/data'') (hc_mounts template) = [m] \<and> \<not> hm_read_only m"
    and "distinct (map hm_target (hc_mounts template))"
    and "jget c ''Id'' = JStr (hc_container_id template)"
proof -
  obtain config host identity mode mounts labels where
    identity: "container_identity c = Inr identity"
    and mounts: "extract_mounts (jget c ''Mounts'') = Inr mounts"
    and data: "require_mount mounts ''/data'' True None = Inr ()"
    and t: "template_of c config host identity mode mounts labels = Inr template"
    using assms by (auto simp: extract_candidate_template_def split: option.splits)
  from t have fields: "hc_container_id template = fst identity" "hc_name template = snd identity"
      "hc_mounts template = mounts" and devices: "extract_devices (jget host ''Devices'') = Inr (hc_devices template)"
    by (auto simp: template_of_def)
  show "container_id_ok (hc_container_id template)" and "container_name_ok (hc_name template)"
    using identity unfolding fields
    by (auto simp: container_identity_def Let_def split: json.splits if_splits)
  show "handoff_devices_ok [] (hc_devices template)"
    using devices by (auto simp: extract_devices_def dest: extracted_devices split: json.splits)
  show "\<exists>m. filter (\<lambda>m. hm_target m = ''/data'') (hc_mounts template) = [m] \<and> \<not> hm_read_only m"
    using required_mount [OF data] by (simp add: fields)
  show "jget c ''Id'' = JStr (hc_container_id template)"
    using identity unfolding fields by (auto simp: container_identity_def Let_def split: json.splits if_splits)
  show "distinct (map hm_target (hc_mounts template))"
    using mounts by (auto simp: extract_mounts_def fields dest: extracted_mounts split: json.splits)
qed

lemma extracted_source:
  "extract_source_image c = Inr (image_id, reference, version, digest) \<Longrightarrow>
     digest_ok image_id \<and> (case digest of None \<Rightarrow> True | Some d \<Rightarrow> digest_ok d)"
proof -
  assume e: "extract_source_image c = Inr (image_id, reference, version, digest)"
  then obtain config labels where config: "require_mapping (jget c ''Config'') ''config'' = Inr config"
    and labels: "extract_labels (jget config ''Labels'') = Inr labels"
    by (auto simp: extract_source_image_def)
  from e config labels obtain i r v where v: "jget c ''Image'' = JStr i" "jget config ''Image'' = JStr r"
      "map_of labels ''org.opencontainers.image.version'' = Some v"
    unfolding extract_source_image_def
    by (cases "jget c ''Image''"; cases "jget config ''Image''";
        cases "map_of labels ''org.opencontainers.image.version''") auto
  obtain p f d where p: "rpartition (CHR ''@'') r = (p, f, d)" by (metis prod_cases3)
  from e config labels v p show ?thesis
    by (auto simp: extract_source_image_def split: if_splits)
qed

lemma expect_eq_Some: "expect p s = Some r \<longleftrightarrow> s = p @ r"
  by (induction p s rule: expect.induct) auto

lemma digest_no_at: "digest_ok s \<Longrightarrow> CHR ''@'' \<notin> set s"
  by (auto simp: digest_ok_def list_all_iff is_lower_hex_def is_digit_def Let_def expect_eq_Some
      split: option.splits)

lemma rpartition_at:
  "CHR ''@'' \<notin> set d \<Longrightarrow> rpartition (CHR ''@'') (r @ CHR ''@'' # d) = (r, True, d)"
  by (simp add: rpartition_def dropWhile_append takeWhile_append)

section \<open>Rows of the operation\<close>

definition same_rows :: "'p update_world \<Rightarrow> 'p update_world \<Rightarrow> bool" where
  "same_rows w w' \<longleftrightarrow> db_updates (uw_db w') = db_updates (uw_db w)"

text \<open>At most one value is left in a column when the row that has it gives it up.\<close>

lemma unique_column_free:
  assumes "unique_column (map f rows)" and "f r' = None"
  shows "unique_column (map f (put_row r r' rows))"
  using assms(1)
proof (induction rows)
  case (Cons a rows)
  have "set (map f (put_row r r' rows)) \<subseteq> insert None (f ` set rows)"
    using assms(2) by (auto simp: put_row_def)
  with Cons assms(2) show ?case
    by (cases "a = r"; cases "f a") (auto simp: unique_column_def put_row_def)
qed (simp add: put_row_def)

text \<open>A row that was read in the same transaction can be written.\<close>

lemma flush_fresh:
  assumes inv: "update_inv d" and u: "u \<in> set (db_updates d)" and act: "u_active_slot u = Some ''global''"
    and u': "u' = u\<lparr>u_status := st, u_active_slot := slot, u_target_version := tv, u_target_digest := td,
      u_completed_at := at, u_error_code := ec, u_error_message := em\<rparr>"
    and ok: "(slot = Some ''global'' \<and> at = None) \<or> (slot = None \<and> at \<noteq> None)"
  shows "\<exists>x d'. flush_update u u' now d = Inr (x, d')"
proof (cases "u' = u")
  case False
  let ?row = "u'\<lparr>u_updated_at := now\<rparr>"
  have first: "first_row (\<lambda>row. u_id row = u_id u) (db_updates d) = Some u"
    using first_row_unique [OF _ u, of u_id] inv by (simp add: update_inv_def)
  have "update_unique (put_row u ?row (db_updates d))"
  proof (cases "slot = None")
    case True
    then show ?thesis
      using inv unique_column_free [of u_active_slot "db_updates d" ?row u]
      by (simp add: update_unique_def update_inv_def map_put_row u')
  next
    case False
    with ok act have "u_active_slot ?row = u_active_slot u" by (simp add: u')
    with inv show ?thesis by (simp add: update_unique_def update_inv_def map_put_row u')
  qed
  moreover have "update_check ?row" using ok by (auto simp: update_check_def u')
  ultimately show ?thesis
    using False first act by (simp add: flush_update_def Let_def write_column_self u' update_trigger_def)
qed (simp add: flush_update_def)

text \<open>An installation that can still fail.\<close>

definition installing :: "string \<Rightarrow> update_status set \<Rightarrow> 'p update_world \<Rightarrow> bool" where
  "installing oid sts w \<longleftrightarrow>
     update_inv (uw_db w) \<and>
     (\<exists>u. get_by_operation_id (uw_db w) oid = Some u \<and> u_active_slot u = Some ''global'' \<and> u_status u \<in> sts)"

definition install_failed :: "string \<Rightarrow> 'p update_world \<Rightarrow> bool" where
  "install_failed oid w \<longleftrightarrow>
     get_active (uw_db w) = None \<and>
     (\<exists>u. get_by_operation_id (uw_db w) oid = Some u \<and> u_status u = UpFailed \<and>
        u_error_code u = Some ''update_install_failed'')"

lemma installing_same_rows: "same_rows w w' \<Longrightarrow> installing oid sts w \<Longrightarrow> installing oid sts w'"
  by (simp add: same_rows_def installing_def update_inv_def get_by_operation_id_def)

lemma installing_mono: "installing oid sts w \<Longrightarrow> sts \<subseteq> sts' \<Longrightarrow> installing oid sts' w"
  by (auto simp: installing_def)

lemma operation_row:
  "get_by_operation_id d oid = Some u \<Longrightarrow> u \<in> set (db_updates d) \<and> u_operation_id u = oid"
  unfolding get_by_operation_id_def by (rule first_row_SomeD)

lemma row_operation:
  "update_inv d \<Longrightarrow> u \<in> set (db_updates d) \<Longrightarrow> get_by_operation_id d (u_operation_id u) = Some u"
  using first_row_unique [of u_operation_id "db_updates d" u]
  by (simp add: get_by_operation_id_def update_inv_def update_unique_def)

lemma finish_active:
  assumes inv: "update_inv d" and u: "u \<in> set (db_updates d)" and act: "u_active_slot u = Some ''global''"
    and can: "st \<in> ALLOWED_UPDATE_TRANSITIONS (u_status u)" and "st \<in> TERMINAL_UPDATE_OPERATION_STATUSES"
  obtains x d' where "finish_update u st None ec em now d = Inr (x, d')" and "update_inv d'"
    and "get_by_operation_id d' (u_operation_id u) = Some x" and "u_status x = st" and "u_error_code x = ec"
    and "get_active d' = None"
proof -
  let ?u = "u\<lparr>u_status := st, u_active_slot := None, u_completed_at := Some now,
           u_error_code := ec, u_error_message := em\<rparr>"
  obtain x d' where fl: "flush_update u ?u now d = Inr (x, d')"
    using flush_fresh [OF inv u act, where u' = ?u and slot = None and at = "Some now" and st = st and ec = ec and em = em
        and tv = "u_target_version u" and td = "u_target_digest u" and now = now]
    by auto
  then have fin: "finish_update u st None ec em now d = Inr (x, d')"
    using act can assms(5) by (simp add: finish_update_def coalesce_def validate_update_transition_def)
  have moved: "row_moves u d x d'" "u_status x = st" "u_active_slot x = None"
    using finish_row_moves [OF inv u fin] by simp_all
  have "?u \<noteq> u"
  proof
    assume "?u = u"
    then have "u_active_slot ?u = u_active_slot u" by (rule arg_cong)
    with act show False by simp
  qed
  moreover have "first_row (\<lambda>row. u_id row = u_id u) (db_updates d) = Some u"
    using first_row_unique [OF _ u, of u_id] inv by (simp add: update_inv_def)
  ultimately have x: "x = ?u\<lparr>u_updated_at := now\<rparr>"
    and rows: "db_updates d' = put_row u x (db_updates d)"
    using fl by (auto simp: flush_update_def Let_def write_column_self split: if_splits)
  have inv': "update_inv d'" using moved(1) by (simp add: row_moves_def)
  have "u_active_slot y = None" if y: "y \<in> set (db_updates d')" for y
  proof (cases "y = x")
    case False
    then have "y \<in> set (db_updates d)" "y \<noteq> u" using y rows u by auto
    then show ?thesis using update_inv_single_active [OF inv _ u, of y] act by fastforce
  qed (simp add: moved(3))
  then have "get_active d' = None" using get_active_None_iff [OF inv'] by blast
  moreover have "get_by_operation_id d' (u_operation_id u) = Some x"
    using row_operation [OF inv', of x] moved(1) by (simp add: row_moves_def)
  moreover have "u_error_code x = ec" by (simp add: x)
  ultimately show ?thesis using that fin inv' moved(2) by blast
qed

definition CAN_FAIL :: "update_status set" where
  "CAN_FAIL = {UpPulling, UpDraining, UpHandoff}"

lemma finish_failed_ends:
  assumes "installing oid CAN_FAIL w" and "\<And>w. \<not> in_refused env w"
  shows "\<exists>w'. finish_failed env oid e w = (Inr (), w') \<and> install_failed oid w'"
proof -
  obtain u where inv: "update_inv (uw_db w)" and get: "get_by_operation_id (uw_db w) oid = Some u"
    and act: "u_active_slot u = Some ''global''" and st: "u_status u \<in> CAN_FAIL"
    using assms(1) by (auto simp: installing_def)
  note row = operation_row [OF get]
  have can: "UpFailed \<in> ALLOWED_UPDATE_TRANSITIONS (u_status u)" using st by (auto simp: CAN_FAIL_def)
  obtain x d' where fin: "finish_update u UpFailed None (Some ''update_install_failed'')
      (Some (if e_message e = [] then ''not started'' else take_chars 1000 (e_message e)))
      (in_now env w) (uw_db w) = Inr (x, d')"
    and ended: "get_by_operation_id d' (u_operation_id u) = Some x" "u_status x = UpFailed"
      "u_error_code x = Some ''update_install_failed''" "get_active d' = None"
    by (rule finish_active [OF inv conjunct1 [OF row] act can, of "Some ''update_install_failed''"])
      (simp_all add: TERMINAL_UPDATE_OPERATION_STATUSES_def)
  have "install_transaction env (fail_operation oid e) w = (Inr (), w\<lparr>uw_db := d'\<rparr>)"
    using get act assms(2) by (simp add: install_transaction_def fail_operation_def fin repository_def)
  then show ?thesis
    using ended row by (simp add: finish_failed_def bindA_def tryA_def retA_def install_failed_def)
qed

section \<open>The steps of an installation\<close>

interpretation rows: action_contract same_rows
  by unfold_locales (simp_all add: same_rows_def)

lemma require_active_Inr:
  "require_active d oid st = Inr u \<longleftrightarrow>
     get_by_operation_id d oid = Some u \<and> u_active_slot u = Some ''global'' \<and> u_status u = st"
  by (auto simp: require_active_def split: option.splits)

lemma repository_Inr: "repository r = Inr x \<longleftrightarrow> r = Inr x"
  by (cases r) (simp_all add: repository_def)

lemma verified_target_row:
  assumes inv: "update_inv d" and u: "u \<in> set (db_updates d)"
    and run: "set_verified_target u v digest now d = Inr (x, d')"
  shows "update_inv d'" and "x \<in> set (db_updates d')" and "u_operation_id x = u_operation_id u"
proof -
  let ?u = "u\<lparr>u_target_version := Some v, u_target_digest := Some digest\<rparr>"
  have fl: "flush_update u ?u now d = Inr (x, d')"
    using run by (auto simp: set_verified_target_def split: if_splits)
  show inv': "update_inv d'" using set_verified_target_inv [OF inv run] by simp
  have first: "first_row (\<lambda>row. u_id row = u_id u) (db_updates d) = Some u"
    using first_row_unique [OF _ u, of u_id] inv by (simp add: update_inv_def)
  have "x = u \<and> d' = d \<or> x = ?u\<lparr>u_updated_at := now\<rparr> \<and> db_updates d' = put_row u x (db_updates d)"
    using fl first by (cases "?u = u") (auto simp: flush_update_def Let_def write_column_self split: if_splits)
  with u show "x \<in> set (db_updates d')" and "u_operation_id x = u_operation_id u" by auto
qed

lemma moved_row_installing:
  assumes "row_moves u d x d'" and "u_status x = st" and "u_active_slot x = Some ''global''"
    and "u_operation_id u = oid"
  shows "installing oid {st} (w\<lparr>uw_db := d'\<rparr>)"
  using assms row_operation [of d' x] by (simp add: installing_def row_moves_def)

lemma record_target_moves:
  assumes "installing oid {UpPulling} w" and "record_target oid t now (uw_db w) = Inr d2"
  shows "installing oid {UpDraining} (w\<lparr>uw_db := d2\<rparr>)"
proof -
  obtain u u1 d1 x where u: "get_by_operation_id (uw_db w) oid = Some u"
    and v: "set_verified_target u (it_version t) (it_digest t) now (uw_db w) = Inr (u1, d1)"
    and tr: "transition_active u1 UpDraining now d1 = Inr (x, d2)"
    using assms(2)
    by (auto simp: record_target_def require_active_Inr repository_Inr bindR_eq_Inr)
  have inv: "update_inv (uw_db w)" using assms(1) by (simp add: installing_def)
  note row = verified_target_row [OF inv conjunct1 [OF operation_row [OF u]] v]
  have "row_moves u1 d1 x d2 \<and> u_status x = UpDraining \<and> u_active_slot x = u_active_slot u1"
    by (rule transition_row_moves [OF row(1,2) tr])
  moreover have "u_active_slot u1 = Some ''global''"
    using tr by (auto simp: transition_active_def split: if_splits)
  ultimately show ?thesis
    using moved_row_installing [of u1 d1 x d2 UpDraining oid w] row(3) operation_row [OF u] by simp
qed

lemma record_handoff_moves:
  assumes "installing oid {UpDraining} w" and "record_handoff oid now (uw_db w) = Inr d'"
  shows "installing oid {UpHandoff} (w\<lparr>uw_db := d'\<rparr>)"
proof -
  obtain u x where u: "get_by_operation_id (uw_db w) oid = Some u"
    and tr: "transition_active u UpHandoff now (uw_db w) = Inr (x, d')"
    using assms(2)
    by (auto simp: record_handoff_def require_active_Inr repository_Inr bindR_eq_Inr)
  have inv: "update_inv (uw_db w)" using assms(1) by (simp add: installing_def)
  have "row_moves u (uw_db w) x d' \<and> u_status x = UpHandoff \<and> u_active_slot x = u_active_slot u"
    by (rule transition_row_moves [OF inv conjunct1 [OF operation_row [OF u]] tr])
  moreover have "u_active_slot u = Some ''global''"
    using tr by (auto simp: transition_active_def split: if_splits)
  ultimately show ?thesis
    using moved_row_installing [of u "uw_db w" x d' UpHandoff oid w] operation_row [OF u] by simp
qed

lemma install_transaction_moves:
  assumes "installing oid {a} w"
    and "\<And>now d. f now (uw_db w) = Inr d \<Longrightarrow> installing oid {b} (w\<lparr>uw_db := d\<rparr>)"
  obtains e where "install_transaction env f w = (Inl e, w)"
  | w' where "install_transaction env f w = (Inr (), w')" and "installing oid {b} w'"
  using assms by (cases "f (in_now env w) (uw_db w)"; cases "in_refused env w") (auto simp: install_transaction_def)

text \<open>
  The surroundings of an installation: nobody else writes the operations, the database accepts the
  service's transactions, a handoff can be unlinked, and time passes while the service sleeps.
\<close>

definition install_calm :: "'p install_env \<Rightarrow> bool" where
  "install_calm env \<longleftrightarrow>
     (\<forall>key v. keeps same_rows (in_pull env key v)) \<and> keeps same_rows (in_resolve env) \<and>
     engine_keeps same_rows (ha_engine (in_handoff env)) \<and> (\<forall>n w. same_rows w (in_sleep env n w)) \<and>
     (\<forall>w. \<not> in_refused env w) \<and>
     (\<forall>w. case ha_unlink (in_handoff env) w of DiskFailed _ \<Rightarrow> False | _ \<Rightarrow> True) \<and>
     (\<forall>w. in_clock env w < in_clock env (in_sleep env (in_drain_poll env) w))"

lemma drain_ends:
  assumes "install_calm env"
  shows "\<exists>r w'. drain env deadline w = Some (r, w') \<and> same_rows w w' \<and>
    (r = Inr () \<longrightarrow> \<not> unfinished_work (uw_db w'))"
proof (induction "nat (deadline - in_clock env w)" arbitrary: w rule: less_induct)
  case less
  let ?w = "in_sleep env (in_drain_poll env) w"
  have "in_clock env w < in_clock env ?w" and same: "same_rows w ?w"
    using assms by (simp_all add: install_calm_def)
  then have "\<exists>r w'. drain env deadline ?w = Some (r, w') \<and> same_rows ?w w' \<and>
      (r = Inr () \<longrightarrow> \<not> unfinished_work (uw_db w'))" if "in_clock env w < deadline"
    using less [of ?w] that by simp
  with same show ?case
    by (auto simp: drain.simps [of env deadline w] same_rows_def)
qed

lemma put_handoff_rows: "same_rows w (put_handoff oid f w)"
  by (simp add: same_rows_def put_handoff_def)

lemma write_handoff_rows: "keeps same_rows (write_handoff env doc)"
  by (auto simp: keeps_def write_handoff_def Let_def put_handoff_rows same_rows_def
      split: handoff_file.split disk_outcome.split) (simp_all add: put_handoff_def)

lemma unlink_handoff_rows: "keeps same_rows (unlink_handoff env oid)"
  by (auto simp: keeps_def unlink_handoff_def same_rows_def put_handoff_def split: disk_outcome.split)

lemmas keeps_rows = rows.keeps_ret rows.keeps_raise rows.keeps_bind rows.keeps_try

lemma rows_sum:
  "(\<And>x. keeps same_rows (f x)) \<Longrightarrow> (\<And>x. keeps same_rows (g x)) \<Longrightarrow>
     keeps same_rows (case r of Inl x \<Rightarrow> f x | Inr x \<Rightarrow> g x)"
  by (cases r) simp_all

lemma rows_if:
  "keeps same_rows m \<Longrightarrow> keeps same_rows n \<Longrightarrow> keeps same_rows (if b then m else n)"
  by simp

lemma discard_rows:
  assumes "engine_keeps same_rows (ha_engine env)"
  shows "keeps same_rows (discard_container env created)"
  unfolding discard_container_def
  by (cases created) (auto intro!: keeps_rows rows_sum engine_keeps [OF assms])

lemma abandon_rows:
  assumes "engine_keeps same_rows (ha_engine env)"
  shows "keeps same_rows (abandon_handoff env oid created e)"
  unfolding abandon_handoff_def by (intro keeps_rows rows_if discard_rows [OF assms] unlink_handoff_rows)

lemma create_updater_rows:
  assumes "engine_keeps same_rows (ha_engine env)"
  shows "keeps same_rows (create_updater env oid name config)"
  unfolding create_updater_def
  by (intro keeps_rows rows_sum rows_if engine_keeps [OF assms] abandon_rows [OF assms])

lemma prepare_handoff_rows:
  assumes "engine_keeps same_rows (ha_engine env)"
  shows "keeps same_rows (prepare_handoff env oid c t)"
proof -
  have "keeps same_rows (thenA (write_handoff env doc) (create_updater env oid name config))" for doc name config
    by (intro rows.keeps_bind write_handoff_rows create_updater_rows assms)
  then show ?thesis
    unfolding keeps_def prepare_handoff_def
    by (auto split: sum.split prod.split simp: rows.R_refl)
qed

end
