(* ===== verification/InstallProperties.thy ===== *)
theory InstallProperties
  imports InstallProofs "HOL-Library.Multiset"
begin

text \<open>
  The properties of the client of Docker, of the handoff and of the installation of an update.
\<close>

section \<open>The client of Docker\<close>

text \<open>Whatever identifiers, names and references the client is given, it asks Docker for nothing
  but the paths of the operations that it offers: a container by a hexadecimal identifier, an image or
  a network by a name in which every other character is quoted.  With a socket that refuses all other
  paths it does the same.\<close>

theorem requests_stay_on_docker_paths:
  "engine_client (safe_socket socket) timeout = engine_client socket timeout \<and>
   docker_ping (safe_socket socket) = docker_ping socket \<and>
   pull_image (safe_socket socket) timeout reference = pull_image socket timeout reference \<and>
   connect_network (safe_socket socket) network cid aliases = connect_network socket network cid aliases \<and>
   disconnect_network (safe_socket socket) network cid = disconnect_network socket network cid"
  unfolding docker_ping_def pull_image_def connect_network_def disconnect_network_def
  by (simp only: safe_client docker_paths)

section \<open>An installation settles\<close>



definition sample_pulling :: update_operation where
  "sample_pulling = \<lparr>u_id = 1, u_operation_id = sample_oid, u_status = UpPulling,
     u_active_slot = Some ''global'', u_source_version = ''v1.0.0'', u_target_version = Some ''v1.1.0'',
     u_target_digest = None, u_error_code = None, u_error_message = None, u_completed_at = None,
     u_created_at = 10, u_updated_at = 10\<rparr>"

definition sample_pulling_world :: "int update_world" where
  "sample_pulling_world =
     \<lparr>uw_db = empty_db\<lparr>db_updates := [sample_pulling]\<rparr>, uw_journal = \<lambda>_. JournalMissing,
      uw_handoff = \<lambda>_. HandoffMissing, uw_evidence = \<lambda>_. EvidenceMissing, uw_pending = MarkerMissing,
      uw_rest = 0\<rparr>"

definition sample_target :: verified_target where
  "sample_target = \<lparr>it_registry = ''dockerhub'', it_repository = ''josephyjq/mediasync'',
     it_version = ''v1.1.0'', it_digest = sample_digest, it_revision = replicate 40 (CHR ''e'')\<rparr>"

text \<open>Docker answers nothing; the rest of the world is the time.\<close>

definition sample_install :: "int install_env" where
  "sample_install =
     \<lparr>in_pull = \<lambda>_ _. retA sample_target, in_resolve = docker_down,
      in_handoff = \<lparr>ha_engine = sample_engine, ha_socket_path = ''/var/run/docker.sock'',
        ha_nonce = \<lambda>_. ''0a1b2c3d4e5f'', ha_disk = \<lambda>_. DiskOk, ha_unlink = \<lambda>_. DiskOk, ha_fits = \<lambda>_. True\<rparr>,
      in_registry_key = ''dockerhub'', in_drain_timeout = 300, in_drain_poll = 1,
      in_clock = uw_rest, in_sleep = \<lambda>n w. w\<lparr>uw_rest := uw_rest w + n\<rparr>, in_now = uw_rest,
      in_refused = \<lambda>_. False\<rparr>"



section \<open>An interrupted installation\<close>

text \<open>
  What still happens when the service has stopped before the updater was started: the appliance
  reconciles, the workers, the scheduler and the users change the rest of the store, and a user asks
  for an installation.
\<close>

inductive idle_step :: "'p reconcile_env \<Rightarrow> 'p install_env \<Rightarrow> 'p update_world \<Rightarrow> 'p update_world \<Rightarrow> bool"
  for renv env where
  idle_reconcile: "reconcile renv w = (r, w') \<Longrightarrow> idle_step renv env w w'"
| idle_others: "same_rows w w' \<Longrightarrow> uw_pending w' = uw_pending w \<Longrightarrow> idle_step renv env w w'"
| idle_install: "api_install env checked cap current oid target w = (r, w') \<Longrightarrow> idle_step renv env w w'"

lemma second_create_conflicts:
  assumes "get_active d = Some u" and "st \<notin> TERMINAL_UPDATE_OPERATION_STATUSES"
  shows "create_update sv st tv td oid now d = Inl ActiveUpdateOperationConflictError"
proof -
  have "u \<in> set (db_updates d)" "u_active_slot u = Some ''global''"
    using assms(1) first_row_SomeD [of _ "db_updates d" u] by (auto simp: get_active_def)
  then have "Some ''global'' \<in> set (filter (\<lambda>x. x \<noteq> None) (map u_active_slot (db_updates d)))"
    by force
  then have "\<not> unique_column (map u_active_slot (db_updates d) @ [Some ''global''])"
    unfolding unique_column_def by simp
  with assms(2) show ?thesis by (simp add: create_update_def Let_def update_unique_def)
qed

lemma install_refused:
  assumes "get_active (uw_db w) = Some u"
  shows "\<exists>reason. api_install env checked cap current oid target w = (Inr (Some reason), w)"
proof -
  have "install_begin env oid current v w =
      (Inl (tagged (CNamed ''ActiveUpdateOperationConflictError'') ''conflict''), w)" for v
    using second_create_conflicts [OF assms, of UpPulling]
    by (simp add: install_begin_def install_transaction_def repository_def TERMINAL_UPDATE_OPERATION_STATUSES_def)
  then show ?thesis
    by (cases "g_status checked"; cases "g_latest_release checked")
      (auto simp: api_install_def bindA_def tryA_def retA_def tagged_def raise_exn_def)
qed

lemma idle_step_waits:
  assumes "idle_step renv env w w'" and "get_active (uw_db w) = Some u"
    and "read_pending_marker (uw_pending w) = None"
  shows "get_active (uw_db w') = Some u \<and> read_pending_marker (uw_pending w') = None"
  using assms(1)
proof cases
  case (idle_reconcile r)
  have "w' = w" using idle_reconcile assms(3) by (simp add: reconcile_def split: if_splits)
  then show ?thesis using assms(2,3) by simp
next
  case idle_others
  then show ?thesis using assms(2,3) by (simp add: same_rows_def get_active_def)
next
  case (idle_install checked cap current oid target r)
  then show ?thesis using install_refused [OF assms(2)] assms(2,3) by (metis snd_conv)
qed

text \<open>C39: When the service stops between the beginning of an installation and the start of the updater,
  there is no marker and nobody ends the operation: whatever reconciliations, other work and requests
  follow, it stays the active one, every further installation is refused, and if the work was being
  drained or handed over, the gate stays closed for all tasks.\<close>

theorem interrupted_install_is_never_ended:
  assumes "get_active (uw_db w) = Some u" and "read_pending_marker (uw_pending w) = None"
    and "(idle_step renv env)\<^sup>*\<^sup>* w w'"
  shows "get_active (uw_db w') = Some u \<and>
    (u_status u \<in> GATED_UPDATE_STATUSES \<longrightarrow> gate_blocked (uw_pending w') (uw_db w')) \<and>
    (\<exists>reason. api_install env checked cap current oid target w' = (Inr (Some reason), w'))"
proof -
  from assms(3) have "get_active (uw_db w') = Some u \<and> read_pending_marker (uw_pending w') = None"
  proof (induction rule: rtranclp_induct)
    case base
    then show ?case using assms(1,2) by simp
  next
    case (step w1 w2)
    then show ?case using idle_step_waits by blast
  qed
  with install_refused show ?thesis by (auto simp: gate_blocked_iff)
qed

theorem interrupted_install_is_never_ended_witness:
  "get_active (uw_db sample_pulling_world) = Some sample_pulling \<and>
   (\<forall>checked cap. \<exists>reason.
      api_install sample_install checked cap ''v1.0.0'' sample_oid ''v1.1.0'' sample_pulling_world =
      (Inr (Some reason), sample_pulling_world))"
proof -
  have "get_active (uw_db sample_pulling_world) = Some sample_pulling"
    by (simp add: sample_pulling_world_def get_active_def first_row_def sample_pulling_def)
  moreover have "read_pending_marker (uw_pending sample_pulling_world) = None"
    by (simp add: sample_pulling_world_def read_pending_marker_def)
  ultimately show ?thesis
    using interrupted_install_is_never_ended [OF _ _ rtranclp.rtrancl_refl] by blast
qed

section \<open>The handoff document\<close>

definition same_handoffs :: "'p update_world \<Rightarrow> 'p update_world \<Rightarrow> bool" where
  "same_handoffs w w' \<longleftrightarrow> uw_handoff w' = uw_handoff w"

lemma abandon_raises: "fst (abandon_handoff env oid created e w) \<noteq> Inr x"
  by (auto simp: abandon_handoff_def bindA_def raiseA_def split: prod.splits sum.splits)

text \<open>What a preparation has done that returns.\<close>

lemma create_updater_returns:
  assumes "create_updater env oid name config w = (Inr cid, w')"
  obtains w1 c where "de_create_container (ha_engine env) name config w = (Inr cid, w1)"
    and "de_inspect_container (ha_engine env) cid w1 = (Inr c, w')" and "updater_creation_matches c"
proof -
  obtain r w1 where created: "de_create_container (ha_engine env) name config w = (r, w1)" by fastforce
  show ?thesis
  proof (cases r)
    case (Inl e)
    then show ?thesis
      using assms created abandon_raises [of env oid None e w1 cid]
      by (auto simp: create_updater_def bindA_def tryA_def)
  next
    case (Inr made)
    obtain r2 w2 where seen: "de_inspect_container (ha_engine env) made w1 = (r2, w2)" by fastforce
    have no_id: "abandon_handoff env oid (Some made) e w2 \<noteq> (Inr cid, w')" for e
      using abandon_raises [of env oid "Some made" e w2 cid] by (metis fst_conv)
    from assms created Inr seen no_id that show ?thesis
      by (cases r2) (auto simp: create_updater_def bindA_def tryA_def retA_def split: if_splits)
  qed
qed

lemma prepared_handoff:
  assumes run: "prepare_handoff env oid current t w = (Inr helper, w')"
    and engine: "engine_keeps same_handoffs (ha_engine env)"
  obtains template source config w1 where
    "operation_id_ok oid" and "validate_resolved_target t (it_registry t) (it_version t) = Inr ()"
    and "extract_candidate_template current (ha_socket_path env) = Inr template"
    and "extract_source_image current = Inr source"
    and "build_updater_create_config oid t template (ha_socket_path env) = Inr config"
    and "uw_handoff w' oid = (let doc = intent_of oid t template source in
           if ha_fits env doc then HandoffDoc doc else HandoffInvalid)"
    and "create_updater env oid (''mediasync-updater-'' @ ha_nonce env w) config w1 = (Inr helper, w')"
proof -
  obtain template source config where parts: "operation_id_ok oid"
      "validate_resolved_target t (it_registry t) (it_version t) = Inr ()"
      "extract_candidate_template current (ha_socket_path env) = Inr template"
      "extract_source_image current = Inr source"
      "build_updater_create_config oid t template (ha_socket_path env) = Inr config"
    and rest: "thenA (write_handoff env (intent_of oid t template source))
      (create_updater env oid (''mediasync-updater-'' @ ha_nonce env w) config) w = (Inr helper, w')"
    using run unfolding prepare_handoff_def by (auto split: sum.splits prod.splits)
  let ?doc = "intent_of oid t template source"
  obtain w1 where stored: "write_handoff env ?doc w = (Inr (), w1)"
    and create: "create_updater env oid (''mediasync-updater-'' @ ha_nonce env w) config w1 = (Inr helper, w')"
    using rest by (auto simp: bindA_eq_Inr)
  have "h_operation_id ?doc = oid" by (simp add: intent_of_def split: prod.split)
  with stored have "uw_handoff w1 oid = (if ha_fits env ?doc then HandoffDoc ?doc else HandoffInvalid)"
    by (auto simp: write_handoff_def put_handoff_def Let_def split: handoff_file.splits disk_outcome.splits if_splits)
  moreover have "uw_handoff w' = uw_handoff w1"
  proof -
    obtain w2 c where "de_create_container (ha_engine env) (''mediasync-updater-'' @ ha_nonce env w) config w1 =
        (Inr helper, w2)" and "de_inspect_container (ha_engine env) helper w2 = (Inr c, w')"
      using create by (rule create_updater_returns)
    then show ?thesis
      using engine_keeps(7,2) [OF engine] unfolding keeps_def same_handoffs_def by (metis snd_conv)
  qed
  ultimately show ?thesis using that parts create by (simp add: Let_def)
qed

lemma intent_fields:
  "h_operation_id (intent_of oid t template source) = oid"
  "h_current_container_id (intent_of oid t template source) = hc_container_id template"
  "h_candidate (intent_of oid t template source) = template"
  "h_target_version (intent_of oid t template source) = it_version t"
  "h_target_digest (intent_of oid t template source) = it_digest t"
  "h_target_revision (intent_of oid t template source) = it_revision t"
  "h_target_image (intent_of oid t template source) = immutable_reference t"
  by (simp_all add: intent_of_def split: prod.splits)

lemma resolved_registry:
  fixes t :: verified_target
  assumes "validate_resolved_target t (it_registry t) (it_version t) = Inr ()"
  obtains r where "r \<in> set OFFICIAL_REGISTRIES" and "it_registry t = or_key r"
    and "it_repository t = or_repository r" and "version_tag_ok (it_version t)"
proof -
  from assms obtain r where r: "get_official_registry (it_registry t) = Inr r"
    and same: "it_registry t = or_key r" "it_repository t = or_repository r"
    and v: "validate_exact_version (it_version t) = Inr (it_version t)"
    by (auto simp: validate_resolved_target_def)
  then have "r \<in> set OFFICIAL_REGISTRIES"
    using first_row_SomeD [of _ OFFICIAL_REGISTRIES r]
    by (auto simp: get_official_registry_def split: option.splits)
  moreover have "version_tag_ok (it_version t)"
    using v by (auto simp: validate_exact_version_def split: if_splits)
  ultimately show ?thesis using that same by blast
qed

lemma target_found:
  assumes r: "r \<in> set OFFICIAL_REGISTRIES" "it_registry t = or_key r" "it_repository t = or_repository r"
  shows "target_from_handoff (intent_of oid t template source) = Inr t"
proof -
  have "distinct (map or_repository OFFICIAL_REGISTRIES)" by (simp add: OFFICIAL_REGISTRIES_def)
  from first_row_unique [OF this r(1)]
  have "first_row (\<lambda>x. or_repository r = or_repository x) OFFICIAL_REGISTRIES = Some r"
    by (simp add: eq_commute)
  then have "target_from_handoff (intent_of oid t template source) =
      Inr \<lparr>it_registry = it_registry t, it_repository = it_repository t, it_version = it_version t,
        it_digest = it_digest t, it_revision = it_revision t\<rparr>"
    by (simp add: target_from_handoff_def intent_fields immutable_reference_def r(2,3))
  then show ?thesis by simp
qed

text \<open>C34: What a preparation that returns has written is what the updater will read: the document of
  this operation, with a target that the updater resolves to the very image that was verified, and
  valid in every respect but one.  The version of the running image is copied from its label, and a
  label without the leading v, which the check of a downloaded image accepts, makes the updater refuse
  the document.\<close>

theorem handoff_is_readable:
  assumes "prepare_handoff env oid current t w = (Inr helper, w')"
    and "engine_keeps same_handoffs (ha_engine env)" and "\<And>doc. ha_fits env doc"
    and "digest_ok (it_digest t)" and "revision_ok (it_revision t)"
  shows "\<exists>doc. uw_handoff w' oid = HandoffDoc doc \<and> target_from_handoff doc = Inr t \<and>
    jget current ''Id'' = JStr (h_current_container_id doc) \<and>
    read_handoff oid (uw_handoff w' oid) =
      (if version_tag_ok (h_source_version doc) then Inr doc else Inl (snapshot_exn ''handoff invariants''))"
proof -
  obtain template source where oid: "operation_id_ok oid"
    and resolved: "validate_resolved_target t (it_registry t) (it_version t) = Inr ()"
    and template: "extract_candidate_template current (ha_socket_path env) = Inr template"
    and source: "extract_source_image current = Inr source"
    and written: "uw_handoff w' oid = HandoffDoc (intent_of oid t template source)"
    by (rule prepared_handoff [OF assms(1,2)]) (simp add: assms(3) Let_def)
  let ?doc = "intent_of oid t template source"
  obtain r where r: "r \<in> set OFFICIAL_REGISTRIES" "it_registry t = or_key r"
      "it_repository t = or_repository r" and version: "version_tag_ok (it_version t)"
    using resolved_registry [OF resolved] .
  obtain image_id reference sv digest where s: "source = (image_id, reference, sv, digest)"
    by (cases source) auto
  have ids: "digest_ok image_id" "case digest of None \<Rightarrow> True | Some d \<Rightarrow> digest_ok d"
    using extracted_source [OF source [unfolded s]] by simp_all
  have doc: "h_source_image_id ?doc = image_id" "h_source_version ?doc = sv" "h_source_digest ?doc = digest"
    by (simp_all add: s intent_of_def)
  have image: "rpartition (CHR ''@'') (immutable_reference t) = (it_repository t, True, it_digest t)"
    using rpartition_at [OF digest_no_at [OF assms(4)], of "it_repository t"] by (simp add: immutable_reference_def)
  have "immutable_reference t = or_repository r @ ''@'' @ it_digest t"
    by (simp add: immutable_reference_def r(3))
  with r(1) have official: "immutable_reference t \<in> set (map (\<lambda>x. x @ ''@'' @ it_digest t) OFFICIAL_REPOSITORIES)"
    by (auto simp: OFFICIAL_REGISTRIES_def OFFICIAL_REPOSITORIES_def)
  have identity: "handoff_identity_ok ?doc \<longleftrightarrow> version_tag_ok sv"
    using extracted_template(1,2) [OF template] ids version assms(4,5) image
    by (simp add: handoff_identity_ok_def intent_fields doc immutable_reference_def)
  obtain m where "filter (\<lambda>m. hm_target m = ''/data'') (hc_mounts template) = [m]" "\<not> hm_read_only m"
    using extracted_template(4) [OF template] by blast
  then have valid: "validate_handoff_document ?doc =
      (if version_tag_ok sv then Inr () else Inl (snapshot_exn ''handoff invariants''))"
    using identity official ids(2) extracted_template(3) [OF template]
    by (simp add: validate_handoff_document_def intent_fields doc require_def)
  have "target_from_handoff ?doc = Inr t"
    by (rule target_found [OF r])
  moreover have "jget current ''Id'' = JStr (h_current_container_id ?doc)"
    using extracted_template(6) [OF template] by (simp add: intent_fields)
  moreover have "read_handoff oid (HandoffDoc ?doc) =
      (if version_tag_ok sv then Inr ?doc else Inl (snapshot_exn ''handoff invariants''))"
    using oid by (simp add: read_handoff_def intent_fields valid)
  ultimately show ?thesis
    unfolding written by (intro exI [of _ ?doc]) (simp only: doc simp_thms)
qed

section \<open>Recognition\<close>

text \<open>
  What Docker shows of a container that was made with a configuration: the given values, the image's
  command where none is given, the image's variables behind the given ones, capabilities with or
  without their prefix, and the mounts in any order.  The image declares no volume besides the given
  mounts.
\<close>

definition mount_shown :: "(string \<times> json) list \<Rightarrow> (string \<times> json) list \<Rightarrow> bool" where
  "mount_shown given m \<longleftrightarrow>
     jget m ''Type'' = jget given ''Type'' \<and> jget m ''Destination'' = jget given ''Target'' \<and>
     jget m (if jget given ''Type'' = JStr ''volume'' then ''Name'' else ''Source'') = jget given ''Source'' \<and>
     jget m ''RW'' = JBool (jget given ''ReadOnly'' \<noteq> JBool True)"

definition mounts_shown :: "(string \<times> json) list list \<Rightarrow> (string \<times> json) list list \<Rightarrow> bool" where
  "mounts_shown given seen \<longleftrightarrow> (\<exists>ms. mset ms = mset seen \<and> list_all2 mount_shown given ms)"

definition values_shown :: "json \<Rightarrow> (string \<times> json) list \<Rightarrow> container \<Rightarrow> bool" where
  "values_shown image_command config c \<longleftrightarrow>
     (let given = mapping (jget config ''HostConfig''); host = mapping (jget c ''HostConfig'');
          labels = mapping (jget config ''Labels'') in
      jget (container_config c) ''Image'' = jget config ''Image'' \<and>
      jget (container_config c) ''Cmd'' =
        (if map_of config ''Cmd'' = None then image_command else jget config ''Cmd'') \<and>
      (\<forall>k \<in> set (map fst labels). Some (jget (container_labels c) k) = map_of labels k) \<and>
      (case (jget config ''Env'', jget (container_config c) ''Env'') of
         (JList items, JList all) \<Rightarrow> take (length items) all = items
       | (JList _, _) \<Rightarrow> False
       | _ \<Rightarrow> True) \<and>
      (\<forall>k \<in> set [''NetworkMode'', ''ReadonlyRootfs'', ''SecurityOpt''].
         map_of given k = None \<or> jget host k = jget given k) \<and>
      (\<forall>k \<in> set [''CapDrop'', ''CapAdd''].
         case jget given k of
           JList js \<Rightarrow> (case strings js of Some ss \<Rightarrow> capability_list_matches (jget host k) ss | None \<Rightarrow> True)
         | _ \<Rightarrow> True))"

definition docker_shows :: "json \<Rightarrow> (string \<times> json) list \<Rightarrow> container \<Rightarrow> bool" where
  "docker_shows image_command config c \<longleftrightarrow>
     values_shown image_command config c \<and>
     mounts_shown (objects (jget (mapping (jget config ''HostConfig'')) ''Mounts''))
       (objects (jget c ''Mounts''))"

lemma shown_image:
  "docker_shows image_command config c \<Longrightarrow> jget (container_config c) ''Image'' = jget config ''Image''"
  by (simp add: docker_shows_def values_shown_def Let_def)

lemma shown_command:
  "docker_shows image_command config c \<Longrightarrow> jget (container_config c) ''Cmd'' =
     (if map_of config ''Cmd'' = None then image_command else jget config ''Cmd'')"
  by (simp add: docker_shows_def values_shown_def Let_def)

lemma shown_label:
  assumes "docker_shows image_command config c" and "map_of (mapping (jget config ''Labels'')) k = Some v"
  shows "jget (container_labels c) k = v"
proof -
  have "k \<in> set (map fst (mapping (jget config ''Labels'')))"
    using map_of_SomeD [OF assms(2)] by force
  then have "Some (jget (container_labels c) k) = map_of (mapping (jget config ''Labels'')) k"
    using assms(1) unfolding docker_shows_def values_shown_def Let_def by blast
  with assms(2) show ?thesis by simp
qed

lemma shown_environment:
  assumes "docker_shows image_command config c" and "jget config ''Env'' = JList items"
  shows "\<exists>rest. jget (container_config c) ''Env'' = JList (items @ rest)"
proof -
  obtain all where "jget (container_config c) ''Env'' = JList all" and "take (length items) all = items"
    using assms unfolding docker_shows_def values_shown_def Let_def
    by (cases "jget (container_config c) ''Env''") auto
  then show ?thesis by (metis append_take_drop_id)
qed

lemma shown_host:
  assumes "docker_shows image_command config c"
    and "k \<in> {''NetworkMode'', ''ReadonlyRootfs'', ''SecurityOpt''}"
    and "map_of (mapping (jget config ''HostConfig'')) k = Some v"
  shows "jget (mapping (jget c ''HostConfig'')) k = v"
proof -
  have "k \<in> set [''NetworkMode'', ''ReadonlyRootfs'', ''SecurityOpt'']" using assms(2) by simp
  then have "map_of (mapping (jget config ''HostConfig'')) k = None \<or>
      jget (mapping (jget c ''HostConfig'')) k = jget (mapping (jget config ''HostConfig'')) k"
    using assms(1) unfolding docker_shows_def values_shown_def Let_def by blast
  with assms(3) show ?thesis by (simp add: jget_def)
qed

lemma strings_JStr: "strings (map JStr ss) = Some ss"
  by (induction ss) simp_all

lemma shown_capabilities:
  assumes "docker_shows image_command config c" and "k \<in> {''CapDrop'', ''CapAdd''}"
    and "map_of (mapping (jget config ''HostConfig'')) k = Some (JList (map JStr ss))"
  shows "capability_list_matches (jget (mapping (jget c ''HostConfig'')) k) ss"
proof -
  have "k \<in> set [''CapDrop'', ''CapAdd'']" using assms(2) by simp
  then have "case jget (mapping (jget config ''HostConfig'')) k of
      JList js \<Rightarrow> (case strings js of
          Some ss \<Rightarrow> capability_list_matches (jget (mapping (jget c ''HostConfig'')) k) ss | None \<Rightarrow> True)
    | _ \<Rightarrow> True"
    using assms(1) unfolding docker_shows_def values_shown_def Let_def by blast
  moreover have "jget (mapping (jget config ''HostConfig'')) k = JList (map JStr ss)"
    using assms(3) by (simp add: jget_def)
  ultimately show ?thesis by (simp add: strings_JStr)
qed

lemma shown_mounts:
  "docker_shows image_command config c \<Longrightarrow>
     mounts_shown (objects (jget (mapping (jget config ''HostConfig'')) ''Mounts'')) (objects (jget c ''Mounts''))"
  by (simp add: docker_shows_def)

definition mount_members :: "handoff_mount \<Rightarrow> (string \<times> json) list" where
  "mount_members m = mapping (docker_mount m)"

lemma mount_objects: "objects (JList (map docker_mount ms)) = map mount_members ms"
  by (induction ms) (simp_all add: objects_def docker_mount_def mount_members_def mapping_def)

lemma two_mount_objects: "objects (JList [docker_mount m, docker_mount m']) = [mount_members m, mount_members m']"
  using mount_objects [of "[m, m']"] by simp

lemma shown_as_expected: "mount_shown (mount_members m) x \<longleftrightarrow>
    mount_as_expected m x \<and> jget x ''Destination'' = JStr (hm_target m)"
  by (auto simp: mount_shown_def mount_as_expected_def mount_members_def docker_mount_def mapping_def
      mount_source_def jget_def)

lemma shown_at:
  "list_all2 mount_shown (map mount_members ms) seen \<Longrightarrow>
     list_all2 mount_as_expected (filter (\<lambda>m. hm_target m = t) ms)
       (filter (\<lambda>x. jget x ''Destination'' = JStr t) seen)"
  by (induction ms arbitrary: seen) (auto simp: list_all2_Cons1 shown_as_expected)

lemma same_mset_single: "mset xs = mset ys \<Longrightarrow> filter P xs = [x] \<Longrightarrow> filter P ys = [x]"
  by (metis mset_filter mset_single_iff_right mset.simps(1) mset.simps(2) mset_single_iff)

lemma mount_seen:
  assumes "mounts_shown (map mount_members ms) seen" and "filter (\<lambda>m. hm_target m = t) ms = [m]"
  obtains x where "filter (\<lambda>x. jget x ''Destination'' = JStr t) seen = [x]" and "mount_as_expected m x"
proof -
  obtain xs where xs: "mset xs = mset seen" "list_all2 mount_shown (map mount_members ms) xs"
    using assms(1) by (auto simp: mounts_shown_def)
  from shown_at [OF xs(2), of t] obtain x where "filter (\<lambda>x. jget x ''Destination'' = JStr t) xs = [x]"
      and "mount_as_expected m x"
    unfolding assms(2) by (auto simp: list_all2_Cons1)
  with same_mset_single [OF xs(1)] that show ?thesis by blast
qed

lemma targets_seen:
  assumes "mounts_shown (map mount_members ms) (objects mounts)"
  shows "mount_targets mounts = hm_target ` set ms"
proof -
  obtain xs where xs: "mset xs = mset (objects mounts)" "list_all2 mount_shown (map mount_members ms) xs"
    using assms by (auto simp: mounts_shown_def)
  have "mount_targets mounts =
      set (concat (map (\<lambda>m. case jget m ''Destination'' of JStr s \<Rightarrow> [s] | _ \<Rightarrow> []) xs))"
    using mset_eq_setD [OF xs(1)] by (simp add: mount_targets_def)
  also have "\<dots> = hm_target ` set ms"
    using xs(2)
  proof (induction ms arbitrary: xs)
    case (Cons m ms)
    then obtain y ys where "xs = y # ys" "mount_shown (mount_members m) y"
      "list_all2 mount_shown (map mount_members ms) ys"
      by (auto simp: list_all2_Cons1)
    with Cons.IH [of ys] show ?case by (simp add: shown_as_expected)
  qed simp
  finally show ?thesis .
qed

lemma single_first: "filter P xs = [x] \<Longrightarrow> first_row P xs = Some x"
  by (induction xs) (auto simp: first_row_def split: if_splits)

lemma template_data_mount:
  assumes "extract_candidate_template current socket_path = Inr template"
    and "h_candidate doc = template"
  obtains m where "filter (\<lambda>m. hm_target m = ''/data'') (hc_mounts template) = [m]"
    and "data_mount doc = Some m" and "\<not> hm_read_only m"
  using extracted_template(4) [OF assms(1)] assms(2) single_first that by (force simp: data_mount_def)

lemma mount_recognised:
  assumes "mounts_shown (map mount_members ms) (objects (jget c ''Mounts''))"
    and "filter (\<lambda>m. hm_target m = ''/data'') ms = [m]"
    and "data_mount doc = Some m'" and "hm_type m' = hm_type m" and "hm_source m' = hm_source m"
    and "hm_read_only m' = hm_read_only m"
  shows "mount_matches doc c"
proof -
  obtain x where "filter (\<lambda>x. jget x ''Destination'' = JStr ''/data'') (objects (jget c ''Mounts'')) = [x]"
    and "mount_as_expected m x"
    using mount_seen [OF assms(1,2)] .
  with assms(3-6) show ?thesis by (simp add: mount_matches_def mount_as_expected_def)
qed

lemma updater_config:
  assumes "build_updater_create_config oid t template socket_path = Inr config"
    and "mount_at ''/data'' template = Some data"
  obtains s where
    "jget config ''Image'' = JStr (immutable_reference t)" and "map_of config ''Cmd'' = Some UPDATER_COMMAND"
    and "map_of (mapping (jget config ''Labels'')) UPDATE_OPERATION_LABEL = Some (JStr oid)"
    and "map_of (mapping (jget config ''Labels'')) UPDATE_ROLE_LABEL = Some (JStr ''updater'')"
    and "map_of (mapping (jget config ''HostConfig'')) ''NetworkMode'' = Some (JStr ''none'')"
    and "map_of (mapping (jget config ''HostConfig'')) ''ReadonlyRootfs'' = Some (JBool True)"
    and "map_of (mapping (jget config ''HostConfig'')) ''CapDrop'' = Some (JList (map JStr [''ALL'']))"
    and "map_of (mapping (jget config ''HostConfig'')) ''CapAdd'' = Some (JList (map JStr [''CAP_DAC_OVERRIDE'']))"
    and "map_of (mapping (jget config ''HostConfig'')) ''SecurityOpt'' =
      Some (JList [JStr ''no-new-privileges:true''])"
    and "objects (jget (mapping (jget config ''HostConfig'')) ''Mounts'') = map mount_members
      [\<lparr>hm_type = hm_type data, hm_source = hm_source data, hm_target = ''/data'', hm_read_only = False\<rparr>,
       \<lparr>hm_type = ''bind'', hm_source = s, hm_target = socket_path, hm_read_only = False\<rparr>]"
proof -
  obtain sock where sock: "mount_at socket_path template = Some sock"
    using assms by (cases "mount_at socket_path template") (simp_all add: build_updater_create_config_def)
  have config: "config =
      [(''Image'', JStr (immutable_reference t)), (''Cmd'', UPDATER_COMMAND),
       (''Env'', JList [JStr (''MEDIASYNC_UPDATE_OPERATION_ID='' @ oid)]),
       (''Labels'', JObj [(''io.mediasync.updater'', JStr ''true''),
          (UPDATE_ROLE_LABEL, JStr ''updater''), (UPDATE_OPERATION_LABEL, JStr oid),
          (''org.opencontainers.image.source'', JStr OFFICIAL_SOURCE)]),
       (''HostConfig'', JObj [(''AutoRemove'', JBool False),
          (''RestartPolicy'', JObj [(''Name'', JStr ''unless-stopped''), (''MaximumRetryCount'', JInt 0)]),
          (''NetworkMode'', JStr ''none''), (''ReadonlyRootfs'', JBool True),
          (''CapDrop'', JList [JStr ''ALL'']), (''CapAdd'', JList [JStr ''CAP_DAC_OVERRIDE'']),
          (''SecurityOpt'', JList [JStr ''no-new-privileges:true'']),
          (''Mounts'', JList (map docker_mount
             [\<lparr>hm_type = hm_type data, hm_source = hm_source data, hm_target = ''/data'', hm_read_only = False\<rparr>,
              \<lparr>hm_type = ''bind'', hm_source = hm_source sock, hm_target = socket_path, hm_read_only = False\<rparr>]))])]"
    using assms(1) unfolding build_updater_create_config_def assms(2) sock prod.case option.case sum.inject list.map
    by (rule sym)
  show ?thesis
    by (rule that [of "hm_source sock"])
      (simp_all add: config two_mount_objects jget_def mapping_def UPDATE_OPERATION_LABEL_def UPDATE_ROLE_LABEL_def)
qed

text \<open>The container of the updater is recognised: whatever the running container was, the container
  that Docker makes from the configuration of the handoff is accepted after its creation, and the
  updater in it finds itself to be the coordinator of the update, with the role, the operation and the
  isolation that the recovery decision asks for.\<close>

theorem updater_is_recognised:
  assumes "extract_candidate_template current socket_path = Inr template"
    and "build_updater_create_config oid t template socket_path = Inr config"
    and "docker_shows image_command config c" and "socket_path \<noteq> ''/data''"
    and "jr_target_image r = immutable_reference t"
  shows "updater_creation_matches c \<and> has_operation oid c \<and>
    jget (container_labels c) UPDATE_ROLE_LABEL = JStr ''updater'' \<and>
    valid_coordinator c (intent_of oid t template source) r socket_path"
proof -
  let ?doc = "intent_of oid t template source"
  obtain data where data: "filter (\<lambda>m. hm_target m = ''/data'') (hc_mounts template) = [data]"
      "data_mount ?doc = Some data" "\<not> hm_read_only data"
    using template_data_mount [OF assms(1), of ?doc] intent_fields(3) by blast
  then have at: "mount_at ''/data'' template = Some data" by (simp add: mount_at_def single_first)
  obtain s where config: "jget config ''Image'' = JStr (immutable_reference t)"
      "map_of config ''Cmd'' = Some UPDATER_COMMAND"
      "map_of (mapping (jget config ''Labels'')) UPDATE_OPERATION_LABEL = Some (JStr oid)"
      "map_of (mapping (jget config ''Labels'')) UPDATE_ROLE_LABEL = Some (JStr ''updater'')"
    and host: "map_of (mapping (jget config ''HostConfig'')) ''NetworkMode'' = Some (JStr ''none'')"
      "map_of (mapping (jget config ''HostConfig'')) ''ReadonlyRootfs'' = Some (JBool True)"
      "map_of (mapping (jget config ''HostConfig'')) ''CapDrop'' = Some (JList (map JStr [''ALL'']))"
      "map_of (mapping (jget config ''HostConfig'')) ''CapAdd'' = Some (JList (map JStr [''CAP_DAC_OVERRIDE'']))"
      "map_of (mapping (jget config ''HostConfig'')) ''SecurityOpt'' =
        Some (JList [JStr ''no-new-privileges:true''])"
    and mounts: "objects (jget (mapping (jget config ''HostConfig'')) ''Mounts'') = map mount_members
      [\<lparr>hm_type = hm_type data, hm_source = hm_source data, hm_target = ''/data'', hm_read_only = False\<rparr>,
       \<lparr>hm_type = ''bind'', hm_source = s, hm_target = socket_path, hm_read_only = False\<rparr>]"
    by (rule updater_config [OF assms(2) at])
  let ?host = "mapping (jget c ''HostConfig'')"
  have labels: "jget (container_labels c) UPDATE_OPERATION_LABEL = JStr oid"
      "jget (container_labels c) UPDATE_ROLE_LABEL = JStr ''updater''"
    and command: "jget (container_config c) ''Cmd'' = UPDATER_COMMAND"
    and image: "jget (container_config c) ''Image'' = JStr (immutable_reference t)"
    using shown_label [OF assms(3)] shown_command [OF assms(3)] shown_image [OF assms(3)] config
    by (simp_all add: jget_def)
  have "capability_list_matches (jget ?host ''CapDrop'') [''ALL'']"
    and "capability_list_matches (jget ?host ''CapAdd'') [''CAP_DAC_OVERRIDE'']"
    and options: "jget ?host ''SecurityOpt'' = JList [JStr ''no-new-privileges:true'']"
    and net: "jget ?host ''NetworkMode'' = JStr ''none''"
    and root: "jget ?host ''ReadonlyRootfs'' = JBool True"
    by (rule shown_capabilities [OF assms(3)] shown_host [OF assms(3)]; simp add: host)+
  then have isolation: "updater_isolation_matches ?host"
    by (simp add: updater_isolation_matches_def security_options_match_def)
  have seen: "mounts_shown (map mount_members
      [\<lparr>hm_type = hm_type data, hm_source = hm_source data, hm_target = ''/data'', hm_read_only = False\<rparr>,
       \<lparr>hm_type = ''bind'', hm_source = s, hm_target = socket_path, hm_read_only = False\<rparr>])
      (objects (jget c ''Mounts''))"
    using shown_mounts [OF assms(3)] by (simp only: mounts)
  have "mount_matches ?doc c"
    by (rule mount_recognised [OF seen _ data(2), where m =
          "\<lparr>hm_type = hm_type data, hm_source = hm_source data, hm_target = ''/data'', hm_read_only = False\<rparr>"])
      (use assms(4) data(3) in simp_all)
  moreover have "mount_targets (jget c ''Mounts'') = {''/data'', socket_path}"
    using targets_seen [OF seen] by simp
  ultimately have "valid_coordinator c ?doc r socket_path"
    unfolding valid_coordinator_def Let_def
    by (simp only: command image isolation net root assms(5) intent_fields simp_thms)
  moreover have "updater_creation_matches c"
  proof (cases "jget c ''HostConfig''")
    case (JObj m)
    with net root isolation show ?thesis by (simp only: updater_creation_matches_def json.case mapping_def simp_thms)
  qed (use net in \<open>simp_all only: mapping_def json.case jget_def map_of.simps option.case json.distinct\<close>)
  ultimately show ?thesis by (simp only: has_operation_def labels simp_thms)
qed

lemma env_pairs_append: "env_pairs (js @ ks) = env_pairs js @ env_pairs ks"
  by (induction js rule: env_pairs.induct) auto

lemma no_env_pair:
  "(\<And>s. s \<in> set ss \<Longrightarrow> takeWhile (\<lambda>c. c \<noteq> CHR ''='') s \<noteq> k) \<Longrightarrow> map_of (env_pairs (map JStr ss)) k = None"
  by (induction ss) auto

lemma candidate_token_shown:
  assumes "jget (container_config c) ''Env'' = JList (map JStr (candidate_environment doc m) @ rest)"
  shows "container_environment c ''MEDIASYNC_CANDIDATE_TOKEN'' = Some (q_candidate_token m)"
proof -
  let ?kept = "filter (\<lambda>item. takeWhile (\<lambda>c. c \<noteq> CHR ''='') item \<notin> INTERNAL_CANDIDATE_ENVIRONMENT)
      (hc_env (h_candidate doc))"
  have "map_of (env_pairs (map JStr ?kept)) ''MEDIASYNC_CANDIDATE_TOKEN'' = None"
    by (rule no_env_pair) (auto simp: INTERNAL_CANDIDATE_ENVIRONMENT_def)
  then show ?thesis
    by (simp add: container_environment_def assms candidate_environment_def env_pairs_append map_add_def)
qed

lemma candidate_config:
  assumes "build_candidate_create_config doc m = Inr config"
  shows "jget config ''Image'' = JStr (h_target_image doc)" and "map_of config ''Cmd'' = None"
    and "jget config ''Env'' = JList (map JStr (candidate_environment doc m))"
    and "jget config ''Labels'' = JObj (candidate_labels doc)"
    and "objects (jget (mapping (jget config ''HostConfig'')) ''Mounts'') =
      map mount_members (hc_mounts (h_candidate doc))"
proof -
  have mounts: "jget (candidate_host_config x) ''Mounts'' = JList (map docker_mount (hc_mounts x))" for x
    by (simp add: candidate_host_config_def docker_mount_def jget_def)
  have config: "config =
      [(''Image'', JStr (h_target_image doc)), (''Env'', JList (map JStr (candidate_environment doc m))),
       (''User'', JStr (hc_user (h_candidate doc))), (''Labels'', JObj (candidate_labels doc)),
       (''ExposedPorts'', JObj (map (\<lambda>p. (p, JObj [])) (hc_exposed_ports (h_candidate doc)))),
       (''HostConfig'', JObj (candidate_host_config (h_candidate doc))),
       (''NetworkingConfig'', JObj [(''EndpointsConfig'',
          JObj (map (\<lambda>(n, aliases). (n, JObj [(''Aliases'', JList (map JStr aliases))]))
            (hc_networks (h_candidate doc))))])]"
    using assms by (simp add: build_candidate_create_config_def Let_def split: if_splits)
  then show "jget config ''Image'' = JStr (h_target_image doc)" "map_of config ''Cmd'' = None"
    "jget config ''Env'' = JList (map JStr (candidate_environment doc m))"
    "jget config ''Labels'' = JObj (candidate_labels doc)"
    by (simp_all add: jget_def)
  have "jget config ''HostConfig'' = JObj (candidate_host_config (h_candidate doc))"
    by (simp add: config jget_def)
  then show "objects (jget (mapping (jget config ''HostConfig'')) ''Mounts'') =
      map mount_members (hc_mounts (h_candidate doc))"
    by (simp add: mapping_def mounts mount_objects)
qed

text \<open>The candidate is recognised: the container that Docker makes from the configuration of the
  candidate, with the command of the image and the name of the old container, is the candidate of the
  update: it shows the token whose hash is in the journal, whatever variables the old container had, its
  role and operation, the image and the mount of the data.\<close>

theorem candidate_is_recognised:
  assumes "extract_candidate_template current socket_path = Inr template"
    and "h_candidate doc = template" and "build_candidate_create_config doc m = Inr config"
    and "docker_shows APPLIANCE_COMMAND config c"
    and "container_name c = jr_source_container_name r" and "jr_target_image r = h_target_image doc"
    and "q_operation_id m = jr_operation_id r"
    and "jr_candidate_token_hash r = Some (token_hash sha256 (q_candidate_token m))"
  shows "valid_candidate sha256 c doc r (Some m) \<and> has_operation (h_operation_id doc) c \<and>
    jget (container_labels c) UPDATE_ROLE_LABEL = JStr ''candidate''"
proof -
  obtain data where data: "filter (\<lambda>m. hm_target m = ''/data'') (hc_mounts template) = [data]"
      "data_mount doc = Some data" "\<not> hm_read_only data"
    using template_data_mount [OF assms(1,2)] by blast
  note config = candidate_config [OF assms(3)]
  have "jget (container_config c) ''Cmd'' = APPLIANCE_COMMAND"
    and "jget (container_config c) ''Image'' = JStr (h_target_image doc)"
    using shown_image [OF assms(4)] shown_command [OF assms(4)] by (simp_all only: config(1,2) if_True simp_thms)
  moreover obtain rest where "jget (container_config c) ''Env'' =
      JList (map JStr (candidate_environment doc m) @ rest)"
    using shown_environment [OF assms(4) config(3)] by blast
  then have "container_environment c ''MEDIASYNC_CANDIDATE_TOKEN'' = Some (q_candidate_token m)"
    by (rule candidate_token_shown)
  moreover have "mount_matches doc c"
  proof (rule mount_recognised [OF _ data(1,2)])
    show "mounts_shown (map mount_members (hc_mounts template)) (objects (jget c ''Mounts''))"
      using shown_mounts [OF assms(4)] by (simp only: config(5) assms(2))
  qed simp_all
  ultimately have "valid_candidate sha256 c doc r (Some m)"
    unfolding valid_candidate_def by (simp only: option.case assms(5-8) simp_thms)
  moreover have "map_of (candidate_labels doc) UPDATE_OPERATION_LABEL = Some (JStr (h_operation_id doc))"
    and "map_of (candidate_labels doc) UPDATE_ROLE_LABEL = Some (JStr ''candidate'')"
    by (simp_all add: candidate_labels_def UPDATE_OPERATION_LABEL_def UPDATE_ROLE_LABEL_def)
  then have "jget (container_labels c) UPDATE_OPERATION_LABEL = JStr (h_operation_id doc)"
    and "jget (container_labels c) UPDATE_ROLE_LABEL = JStr ''candidate''"
    using shown_label [OF assms(4)] by (simp_all add: config(4) mapping_def)
  ultimately show ?thesis by (simp only: has_operation_def simp_thms)
qed

section \<open>A sample installation\<close>

text \<open>The running container, and what Docker shows of an updater made from its handoff.\<close>

definition sample_current :: container where
  "sample_current =
     [(''Id'', JStr (replicate 64 (CHR ''a''))), (''Name'', JStr ''/mediasync''),
      (''Image'', JStr sample_digest),
      (''Config'', JObj [(''Image'', JStr ''josephyjq/mediasync:latest''), (''Cmd'', APPLIANCE_COMMAND),
         (''Env'', JList [JStr ''TZ=UTC'']),
         (''Labels'', JObj [(''org.opencontainers.image.source'', JStr OFFICIAL_SOURCE),
            (''org.opencontainers.image.title'', JStr ''MediaSync''),
            (''org.opencontainers.image.version'', JStr ''1.0.0'')])]),
      (''HostConfig'', JObj [(''NetworkMode'', JStr ''bridge''),
         (''RestartPolicy'', JObj [(''Name'', JStr ''always''), (''MaximumRetryCount'', JInt 0)])]),
      (''Mounts'', JList
         [JObj [(''Type'', JStr ''volume''), (''Name'', JStr ''data''), (''Destination'', JStr ''/data''),
                (''RW'', JBool True)],
          JObj [(''Type'', JStr ''bind''), (''Source'', JStr ''/var/run/docker.sock''),
                (''Destination'', JStr ''/var/run/docker.sock''), (''RW'', JBool True)]]),
      (''NetworkSettings'', JObj [(''Networks'', JObj [])])]"

definition sample_updater_container :: container where
  "sample_updater_container =
     [(''Id'', JStr sample_coordinator), (''Name'', JStr ''/mediasync-updater-0a1b2c3d4e5f''),
      (''Config'', JObj [(''Image'', JStr (immutable_reference sample_target)), (''Cmd'', UPDATER_COMMAND),
         (''Env'', JList [JStr (''MEDIASYNC_UPDATE_OPERATION_ID='' @ sample_oid), JStr ''PATH=/bin'']),
         (''Labels'', JObj [(''io.mediasync.updater'', JStr ''true''), (UPDATE_ROLE_LABEL, JStr ''updater''),
            (UPDATE_OPERATION_LABEL, JStr sample_oid),
            (''org.opencontainers.image.source'', JStr OFFICIAL_SOURCE)])]),
      (''HostConfig'', JObj [(''NetworkMode'', JStr ''none''), (''ReadonlyRootfs'', JBool True),
         (''CapDrop'', JList [JStr ''ALL'']), (''CapAdd'', JList [JStr ''DAC_OVERRIDE'']),
         (''SecurityOpt'', JList [JStr ''no-new-privileges:true''])]),
      (''Mounts'', JList
         [JObj [(''Type'', JStr ''bind''), (''Source'', JStr ''/var/run/docker.sock''),
                (''Destination'', JStr ''/var/run/docker.sock''), (''RW'', JBool True)],
          JObj [(''Type'', JStr ''volume''), (''Name'', JStr ''data''), (''Destination'', JStr ''/data''),
                (''RW'', JBool True)]])]"

definition sample_handoff_env :: "unit handoff_env" where
  "sample_handoff_env =
     \<lparr>ha_engine = sample_engine\<lparr>de_create_container := \<lambda>_ _. retA sample_coordinator,
        de_inspect_container := \<lambda>_. retA sample_updater_container\<rparr>,
      ha_socket_path = ''/var/run/docker.sock'', ha_nonce = \<lambda>_. ''0a1b2c3d4e5f'', ha_disk = \<lambda>_. DiskOk,
      ha_unlink = \<lambda>_. DiskOk, ha_fits = \<lambda>_. True\<rparr>"

definition sample_image_source :: "string \<times> string \<times> string \<times> string option" where
  "sample_image_source = (sample_digest, ''josephyjq/mediasync:latest'', ''1.0.0'', None)"

definition sample_template :: handoff_candidate where
  "sample_template =
     (case extract_candidate_template sample_current ''/var/run/docker.sock'' of
        Inr template \<Rightarrow> template | Inl _ \<Rightarrow> h_candidate sample_handoff)"

lemma sample_extracted:
  "extract_candidate_template sample_current ''/var/run/docker.sock'' = Inr sample_template"
proof -
  have "case extract_candidate_template sample_current ''/var/run/docker.sock'' of
      Inr _ \<Rightarrow> True | Inl _ \<Rightarrow> False"
    by code_simp
  then show ?thesis by (auto simp: sample_template_def split: sum.splits)
qed

definition sample_intent :: handoff_document where
  "sample_intent = intent_of sample_oid sample_target sample_template sample_image_source"

definition sample_token_marker :: pending_update_marker where
  "sample_token_marker = marker_for sample_intent (replicate 43 (CHR ''t''))"

definition sample_candidate_container :: container where
  "sample_candidate_container =
     [(''Id'', JStr (replicate 64 (CHR ''f''))), (''Name'', JStr ''/mediasync''),
      (''Config'', JObj [(''Image'', JStr (immutable_reference sample_target)), (''Cmd'', APPLIANCE_COMMAND),
         (''Env'', JList (map JStr (candidate_environment sample_intent sample_token_marker @ [''PATH=/bin'']))),
         (''Labels'', JObj [(UPDATE_OPERATION_LABEL, JStr sample_oid), (UPDATE_ROLE_LABEL, JStr ''candidate'')])]),
      (''HostConfig'', JObj [(''NetworkMode'', JStr ''bridge''), (''ReadonlyRootfs'', JBool False)]),
      (''Mounts'', jget sample_current ''Mounts'')]"

lemma mounts_in_order: "list_all2 mount_shown given seen \<Longrightarrow> mounts_shown given seen"
  by (auto simp: mounts_shown_def)

lemma mounts_reversed: "list_all2 mount_shown given (rev seen) \<Longrightarrow> mounts_shown given seen"
  unfolding mounts_shown_def by (metis mset_rev)

theorem handoff_is_readable_witness:
  "\<exists>doc (w' :: unit update_world).
     uw_handoff w' sample_oid = HandoffDoc doc \<and> target_from_handoff doc = Inr sample_target"
proof -
  let ?run = "prepare_handoff sample_handoff_env sample_oid sample_current sample_target
    ((sample_update_world JournalMissing)\<lparr>uw_handoff := \<lambda>_. HandoffMissing\<rparr>)"
  have "case fst ?run of Inr _ \<Rightarrow> True | Inl _ \<Rightarrow> False" by code_simp
  then obtain helper w' where run: "?run = (Inr helper, w')"
    by (cases ?run) (auto split: sum.splits)
  have engine: "engine_keeps same_handoffs (ha_engine sample_handoff_env)"
    by (simp add: engine_keeps_def sample_handoff_env_def sample_engine_def docker_down_def same_handoffs_def
        keeps_def retA_def raiseA_def)
  have fits: "ha_fits sample_handoff_env doc" for doc by (simp add: sample_handoff_env_def)
  have "digest_ok (it_digest sample_target)" and "revision_ok (it_revision sample_target)"
    by code_simp+
  with handoff_is_readable [OF run engine fits] show ?thesis by blast
qed

theorem updater_is_recognised_witness:
  "valid_coordinator sample_updater_container sample_intent
     (sample_result\<lparr>jr_target_image := immutable_reference sample_target\<rparr>) ''/var/run/docker.sock''"
proof -
  let ?socket = "''/var/run/docker.sock''"
  have "case build_updater_create_config sample_oid sample_target sample_template ?socket of
      Inl _ \<Rightarrow> False
    | Inr config \<Rightarrow> values_shown JNull config sample_updater_container \<and>
        list_all2 mount_shown (objects (jget (mapping (jget config ''HostConfig'')) ''Mounts''))
          (rev (objects (jget sample_updater_container ''Mounts'')))"
    by code_simp
  then obtain config where "build_updater_create_config sample_oid sample_target sample_template ?socket = Inr config"
    and "docker_shows JNull config sample_updater_container"
    by (auto simp: docker_shows_def mounts_reversed split: sum.splits)
  from updater_is_recognised [OF sample_extracted this, of _ sample_image_source] show ?thesis
    unfolding sample_intent_def by simp
qed

theorem candidate_is_recognised_witness:
  "\<exists>r. valid_candidate (\<lambda>_. ''00'') sample_candidate_container sample_intent r (Some sample_token_marker)"
proof -
  let ?r = "sample_result\<lparr>jr_target_image := h_target_image sample_intent,
    jr_candidate_token_hash := Some (token_hash (\<lambda>_. ''00'') (q_candidate_token sample_token_marker))\<rparr>"
  have "case build_candidate_create_config sample_intent sample_token_marker of
      Inl _ \<Rightarrow> False
    | Inr config \<Rightarrow> values_shown APPLIANCE_COMMAND config sample_candidate_container \<and>
        list_all2 mount_shown (objects (jget (mapping (jget config ''HostConfig'')) ''Mounts''))
          (objects (jget sample_candidate_container ''Mounts''))"
    by code_simp
  then obtain config where config: "build_candidate_create_config sample_intent sample_token_marker = Inr config"
    and shown: "docker_shows APPLIANCE_COMMAND config sample_candidate_container"
    by (auto simp: docker_shows_def mounts_in_order split: sum.splits)
  have "h_candidate sample_intent = sample_template" by (simp add: sample_intent_def intent_fields)
  moreover have "container_name sample_candidate_container = jr_source_container_name ?r" by code_simp
  moreover have "q_operation_id sample_token_marker = jr_operation_id ?r" by code_simp
  ultimately show ?thesis
    using candidate_is_recognised [OF sample_extracted _ config shown, of ?r "\<lambda>_. ''00''"] by auto
qed

end
