(* ===== verification/DownloadStream.thy ===== *)
theory DownloadStream
  imports UpdaterImages Providers
begin

text \<open>
  Downloads in ranges with a checkpoint (\<open>app/services/download_stream.py\<close>).  The state is what the
  directory of the target shows under three names, the target, the partial file and its checkpoint,
  with the contents of files by inode, since publishing links the partial file to the target; and
  \<open>dw_memory\<close>, the dictionary \<open>state\<close> of the running call, which it changes in place and writes into
  the checkpoint.
\<close>

section \<open>Files\<close>

text \<open>\<open>_file_identity\<close>: device, inode, size and time of modification.\<close>

type_synonym file_identity = "int \<times> int \<times> int \<times> int"

text \<open>
  A link leads to nothing or to what has that identity; of what is no regular file only directories
  are considered.
\<close>

datatype dir_entry =
    Absent | InodeEntry int | LinkEntry "file_identity option" | DirectoryEntry file_identity

record inode =
  ino_content :: string
  ino_mtime :: int

record download_state =
  ck_identity :: "string option"
  ck_digests :: "string list option"
  ck_published :: "file_identity option"

text \<open>
  The checkpoint is written by this module only: what is a JSON object has the types it writes.
\<close>

datatype checkpoint_entry =
    CheckpointAbsent | CheckpointLink | CheckpointDirectory | CheckpointUnreadable
  | Checkpoint download_state

record 'p download_world =
  dw_partial :: dir_entry
  dw_target :: dir_entry
  dw_checkpoint :: checkpoint_entry
  dw_inodes :: "int \<Rightarrow> inode"
  dw_memory :: download_state
  dw_rest :: 'p

text \<open>The names beside the target's, and the one that a checkpoint is written under first.\<close>

definition partial_name :: "string \<Rightarrow> string" where
  "partial_name name = ''.'' @ name @ ''.mediasync.part''"

definition checkpoint_name :: "string \<Rightarrow> string" where
  "checkpoint_name name = ''.'' @ name @ ''.mediasync.json''"

definition temporary_name :: "string \<Rightarrow> string" where
  "temporary_name name = checkpoint_name name @ ''.tmp''"

text \<open>
  An answer has a body that arrives in parts of the size that is asked for, and may end in an
  exception.
\<close>

record download_response =
  dr_is_redirect :: bool
  dr_status :: int
  dr_location :: "string option"
  dr_encoding :: "string option"
  dr_range :: "string option"
  dr_parts :: "int \<Rightarrow> string list"
  dr_failure :: "exn option"

datatype download_site =
    IoMkdir | IoOpen | IoReadState | IoTruncate | IoWriteState | IoAppend | IoFlush | IoReadBlock
  | IoStat | IoLink | IoRemovePartial

text \<open>
  \<open>dl_io\<close> is how an operation on files fails, \<open>dl_short\<close> how much of a part is written when writing
  it fails; \<open>dl_get\<close> asks for a URL and a range; \<open>dl_sleep\<close> is what happens while the limit of the
  rate is waited for, in at most \<open>dl_fuel\<close> pauses; times are integers with \<open>dl_second\<close> to a second.
\<close>

record 'p download_env =
  dl_io :: "download_site \<Rightarrow> 'p download_world \<Rightarrow> exn option"
  dl_short :: "'p download_world \<Rightarrow> nat"
  dl_locked :: "'p download_world \<Rightarrow> bool"
  dl_new_inode :: "'p download_world \<Rightarrow> int"
  dl_mtime :: "'p download_world \<Rightarrow> int"
  dl_device :: int
  dl_cancelled :: "('p download_world, bool) act"
  dl_guard :: "('p download_world, unit) act option"
  dl_progress :: "int \<Rightarrow> ('p download_world, unit) act"
  dl_get :: "string \<Rightarrow> string option \<Rightarrow> ('p download_world, download_response) act"
  dl_join :: "string \<Rightarrow> string \<Rightarrow> exn + string"
  dl_netloc_ok :: "string \<Rightarrow> bool"
  dl_clock :: "'p download_world \<Rightarrow> int"
  dl_second :: int
  dl_sleep :: "'p download_world \<Rightarrow> 'p download_world"
  dl_fuel :: nat
  dl_sha1 :: "string \<Rightarrow> string"
  dl_sha256 :: "string \<Rightarrow> string"
  dl_dumps :: "json \<Rightarrow> string"

text \<open>The arguments of \<open>stream_download\<close>.\<close>

record download_request =
  dq_url :: string
  dq_size :: "int option"
  dq_identity :: "string option"
  dq_hash :: "string option"
  dq_chunk :: "int option"
  dq_rate :: int

text \<open>\<open>expected_size\<close>, once it is known, and \<open>chunk_bytes\<close> as a condition.\<close>

definition size_of :: "download_request \<Rightarrow> int" where
  "size_of r = coalesce (dq_size r) 0"

definition chunked :: "download_request \<Rightarrow> bool" where
  "chunked r \<longleftrightarrow> coalesce (dq_chunk r) 0 \<noteq> 0"

definition chunk_of :: "download_request \<Rightarrow> int" where
  "chunk_of r = coalesce (dq_chunk r) 0"

definition download_exn :: "string \<Rightarrow> exn" where
  "download_exn tag = tagged (CNamed ''DownloadError'') tag"

definition os_exn :: "string \<Rightarrow> exn" where
  "os_exn tag = tagged COSError tag"

text \<open>\<open>DownloadDeferred\<close> carries the count of bytes.\<close>

definition deferred :: "int \<Rightarrow> exn" where
  "deferred count = raise_exn (CNamed ''DownloadDeferred'') (Some (int_str count)) []"

definition deferred_count :: "exn \<Rightarrow> int" where
  "deferred_count e = int (digits_val (coalesce (e_code e) []))"

definition download_cancelled_exn :: exn where
  "download_cancelled_exn = tagged (CNamed ''CancelledError'') ''cancelled''"

definition dio :: "'p download_env \<Rightarrow> download_site \<Rightarrow> ('p download_world, unit) act" where
  "dio env site w = (case dl_io env site w of None \<Rightarrow> (Inr (), w) | Some e \<Rightarrow> (Inl e, w))"

definition modify_memory :: "(download_state \<Rightarrow> download_state) \<Rightarrow> ('p download_world, unit) act" where
  "modify_memory f w = (Inr (), w\<lparr>dw_memory := f (dw_memory w)\<rparr>)"

definition content_of :: "int \<Rightarrow> 'p download_world \<Rightarrow> string" where
  "content_of i w = ino_content (dw_inodes w i)"

definition set_content ::
    "'p download_env \<Rightarrow> int \<Rightarrow> string \<Rightarrow> 'p download_world \<Rightarrow> 'p download_world" where
  "set_content env i c w =
     w\<lparr>dw_inodes := (dw_inodes w)(i := \<lparr>ino_content = c, ino_mtime = dl_mtime env w\<rparr>)\<rparr>"

text \<open>\<open>output.truncate\<close>, and \<open>output.write\<close> at the end of the file.\<close>

definition truncate_partial :: "'p download_env \<Rightarrow> int \<Rightarrow> ('p download_world, unit) act" where
  "truncate_partial env i =
     thenA (dio env IoTruncate) (\<lambda>w. (Inr (), set_content env i [] w))"

definition append_partial :: "'p download_env \<Rightarrow> int \<Rightarrow> string \<Rightarrow> ('p download_world, unit) act" where
  "append_partial env i part w =
     (case dl_io env IoAppend w of
        Some e \<Rightarrow> (Inl e, set_content env i (content_of i w @ take (dl_short env w) part) w)
      | None \<Rightarrow> (Inr (), set_content env i (content_of i w @ part) w))"

section \<open>Addresses\<close>

text \<open>The port of a URL, on which \<open>urlsplit\<close> raises \<open>ValueError\<close> when it is no port.\<close>

definition url_netloc :: "string \<Rightarrow> string" where
  "url_netloc s = split_netloc (snd (split_scheme (clean_url s)))"

definition port_text :: "string \<Rightarrow> string option" where
  "port_text netloc =
     (let hostinfo = snd (snd (rpartition (CHR ''@'') netloc)) in
      case partition_char (CHR ''['') hostinfo of
        (_, Some bracketed) \<Rightarrow>
          (case partition_char (CHR '']'') bracketed of
             (_, Some r) \<Rightarrow> snd (partition_char (CHR '':'') r)
           | _ \<Rightarrow> None)
      | _ \<Rightarrow> snd (partition_char (CHR '':'') hostinfo))"

definition url_port :: "string \<Rightarrow> exn + int option" where
  "url_port netloc =
     (case port_text netloc of
        None \<Rightarrow> Inr None
      | Some t \<Rightarrow>
          if t = [] then Inr None
          else if list_all is_digit t \<and> digits_val t \<le> 65535 then Inr (Some (int (digits_val t)))
          else Inl (tagged CValueError ''port''))"

definition is_set :: "string option \<Rightarrow> bool" where
  "is_set x \<longleftrightarrow> x \<noteq> None \<and> x \<noteq> Some []"

definition pikpak_host :: "string \<Rightarrow> bool" where
  "pikpak_host host \<longleftrightarrow>
     host = ''mypikpak.com'' \<or> removesuffix ''.mypikpak.com'' host \<noteq> host"

definition validate_download_url :: "(string \<Rightarrow> bool) \<Rightarrow> string \<Rightarrow> exn + unit" where
  "validate_download_url netloc_ok url =
     bindR (urlparse netloc_ok url) (\<lambda>parsed.
     bindR (require (pu_scheme parsed = ''https'' \<and> \<not> is_set (pu_username parsed) \<and>
                     \<not> is_set (pu_password parsed)) (download_exn ''url'')) (\<lambda>_.
     bindR (url_port (url_netloc url)) (\<lambda>port.
     require (port \<in> {None, Some 443} \<and> pikpak_host (coalesce (pu_hostname parsed) []))
       (download_exn ''url''))))"

text \<open>\<open>bytes (\d+)-(\d+)/(\d+)\<close>, the whole text.\<close>

definition read_digits :: "string \<Rightarrow> (int \<times> string) option" where
  "read_digits s =
     (let ds = takeWhile is_digit s in
      if ds = [] then None else Some (int (digits_val ds), dropWhile is_digit s))"

definition parse_content_range :: "string \<Rightarrow> (int \<times> int \<times> int) option" where
  "parse_content_range s =
     (case expect ''bytes '' s of None \<Rightarrow> None | Some s1 \<Rightarrow>
      case read_digits s1 of None \<Rightarrow> None | Some (a, s2) \<Rightarrow>
      case expect ''-'' s2 of None \<Rightarrow> None | Some s3 \<Rightarrow>
      case read_digits s3 of None \<Rightarrow> None | Some (b, s4) \<Rightarrow>
      case expect ''/'' s4 of None \<Rightarrow> None | Some s5 \<Rightarrow>
      case read_digits s5 of None \<Rightarrow> None | Some (n, s6) \<Rightarrow>
      if s6 = [] then Some (a, b, n) else None)"

section \<open>The checkpoint\<close>

definition no_state :: download_state where
  "no_state = \<lparr>ck_identity = None, ck_digests = None, ck_published = None\<rparr>"

text \<open>\<open>_checkpoint\<close> replaces a link, but not a directory.\<close>

definition write_checkpoint :: "'p download_env \<Rightarrow> ('p download_world, unit) act" where
  "write_checkpoint env =
     thenA (dio env IoWriteState) (\<lambda>w.
       case dw_checkpoint w of
         CheckpointDirectory \<Rightarrow> (Inl (os_exn ''directory''), w)
       | _ \<Rightarrow> (Inr (), w\<lparr>dw_checkpoint := Checkpoint (dw_memory w)\<rparr>))"

definition read_checkpoint :: "'p download_env \<Rightarrow> ('p download_world, unit) act" where
  "read_checkpoint env =
     thenA (dio env IoReadState) (\<lambda>w.
       case dw_checkpoint w of
         CheckpointLink \<Rightarrow> (Inl (os_exn ''link''), w)
       | CheckpointDirectory \<Rightarrow> (Inl (os_exn ''directory''), w)
       | Checkpoint s \<Rightarrow> modify_memory (\<lambda>_. s) w
       | _ \<Rightarrow> modify_memory (\<lambda>_. no_state) w)"

text \<open>\<open>path.stat()\<close> of an entry.\<close>

definition entry_identity ::
    "'p download_env \<Rightarrow> dir_entry \<Rightarrow> 'p download_world \<Rightarrow> exn + file_identity" where
  "entry_identity env entry w =
     (case entry of
        InodeEntry i \<Rightarrow>
          Inr (dl_device env, i, int (length (content_of i w)), ino_mtime (dw_inodes w i))
      | LinkEntry (Some ident) \<Rightarrow> Inr ident
      | DirectoryEntry ident \<Rightarrow> Inr ident
      | _ \<Rightarrow> Inl (os_exn ''not found''))"

definition fingerprint :: "'p download_env \<Rightarrow> download_request \<Rightarrow> string" where
  "fingerprint env r =
     dl_sha256 env (dl_dumps env (JList
       [case dq_identity r of None \<Rightarrow> JNull | Some s \<Rightarrow> JStr s, JInt (size_of r),
        case dq_hash r of None \<Rightarrow> JNull | Some s \<Rightarrow> JStr s]))"

section \<open>Verifying\<close>

text \<open>
  The size of the blocks doubles from 256 KiB up to 2 MiB.  That a block is not empty is no
  condition of the code; it makes the recursion end for any block.
\<close>

function gcid_block_from :: "int \<Rightarrow> int \<Rightarrow> int" where
  "gcid_block_from n block =
     (if 0 < block \<and> block * 512 < n \<and> block < 2 * 1024 * 1024
      then gcid_block_from n (2 * block) else block)"
  by pat_completeness auto

termination by (relation "measure (\<lambda>(n, block). nat (2 * 1024 * 1024 - block))") auto

declare gcid_block_from.simps [simp del]

definition gcid_block :: "int \<Rightarrow> int" where
  "gcid_block n = gcid_block_from n (256 * 1024)"

definition hex_value :: "char \<Rightarrow> nat" where
  "hex_value c =
     (let n = of_char c in if n \<le> 57 then n - 48 else if n \<le> 70 then n - 55 else n - 87)"

text \<open>\<open>bytes.fromhex\<close>, of digits only, as digests are.\<close>

fun from_hex :: "string \<Rightarrow> string" where
  "from_hex (a # b # s) = char_of (16 * hex_value a + hex_value b) # from_hex s"
| "from_hex _ = []"

definition gcid_of :: "'p download_env \<Rightarrow> string list \<Rightarrow> string" where
  "gcid_of env digests = dl_sha1 env (concat (map from_hex digests))"

definition hash_format_ok :: "string \<Rightarrow> bool" where
  "hash_format_ok h \<longleftrightarrow> length h = 40 \<and> list_all is_hex h"

definition probe :: "'p download_env \<Rightarrow> ('p download_world, unit) act" where
  "probe env =
     bindA (dl_cancelled env) (\<lambda>cancelled.
     if cancelled then raiseA download_cancelled_exn
     else case dl_guard env of None \<Rightarrow> retA () | Some guard \<Rightarrow> guard)"

definition digests_of :: "download_state \<Rightarrow> string list" where
  "digests_of s = coalesce (ck_digests s) []"

definition add_digest :: "string \<Rightarrow> download_state \<Rightarrow> download_state" where
  "add_digest d s = s\<lparr>ck_digests := Some (digests_of s @ [d])\<rparr>"

definition read_at :: "int \<Rightarrow> int \<Rightarrow> int \<Rightarrow> 'p download_world \<Rightarrow> string" where
  "read_at i position count w = take (nat count) (drop (nat position) (content_of i w))"

function verify_blocks ::
    "'p download_env \<Rightarrow> download_request \<Rightarrow> int \<Rightarrow> int \<Rightarrow> int \<Rightarrow> int \<Rightarrow> int \<Rightarrow> ('p download_world, unit) act" where
  "verify_blocks env r i block deadline checked position w =
     (if \<not> position < size_of r then (Inr (), w)
      else case thenA (probe env) (dio env IoReadBlock) w of
        (Inl e, w1) \<Rightarrow> (Inl e, w1)
      | (Inr _, w1) \<Rightarrow>
          let content = read_at i position (min block (size_of r - position)) w1;
              count = int (length content);
              w2 = w1\<lparr>dw_memory := add_digest (dl_sha1 env content) (dw_memory w1)\<rparr> in
          if content = [] then (Inl (download_exn ''changed''), w1)
          else if position + count < size_of r \<and> chunked r \<and>
                  (chunk_of r \<le> checked + count \<or> deadline \<le> dl_clock env w2)
          then (Inl (deferred (size_of r)), w2)
          else verify_blocks env r i block deadline (checked + count) (position + count) w2)"
  by pat_completeness auto

termination
  by (relation "measure (\<lambda>(env, r, i, block, deadline, checked, position, w). nat (size_of r - position))") auto

declare verify_blocks.simps [simp del]

definition verify_download ::
    "'p download_env \<Rightarrow> download_request \<Rightarrow> int \<Rightarrow> int \<Rightarrow> ('p download_world, unit) act" where
  "verify_download env r i deadline =
     (case dq_hash r of
        None \<Rightarrow> retA ()
      | Some expected \<Rightarrow>
          thenA (guardA (hash_format_ok expected) (download_exn ''hash format''))
         (thenA (modify_memory (\<lambda>s. s\<lparr>ck_digests := Some (digests_of s)\<rparr>))
         (thenA (\<lambda>w. let block = gcid_block (size_of r);
                          known = int (length (digests_of (dw_memory w))) in
                      verify_blocks env r i block deadline 0 (min (known * block) (size_of r)) w)
            (\<lambda>w. if lower (gcid_of env (digests_of (dw_memory w))) = lower expected then (Inr (), w)
                 else thenA (truncate_partial env i)
                     (thenA (modify_memory (\<lambda>s. s\<lparr>ck_digests := Some []\<rparr>))
                       (raiseA (download_exn ''content''))) w))))"

section \<open>Receiving\<close>

text \<open>
  The limit of the rate: \<open>received / rate_limit\<close> seconds have to pass since \<open>started\<close>.  The quotient
  is a double in the code and exact here.
\<close>

definition too_fast :: "'p download_env \<Rightarrow> download_request \<Rightarrow> int \<Rightarrow> int \<Rightarrow> 'p download_world \<Rightarrow> bool" where
  "too_fast env r started received w \<longleftrightarrow>
     (dl_clock env w - started) * dq_rate r < received * dl_second env"

definition pauses_exhausted :: exn where
  "pauses_exhausted = tagged COutOfFuel ''pauses''"

fun throttle ::
    "'p download_env \<Rightarrow> download_request \<Rightarrow> int \<Rightarrow> int \<Rightarrow> nat \<Rightarrow> ('p download_world, unit) act" where
  "throttle env r started received 0 w =
     (if too_fast env r started received w then (Inl pauses_exhausted, w) else (Inr (), w))"
| "throttle env r started received (Suc n) w =
     (if too_fast env r started received w
      then thenA (probe env) (\<lambda>w1. throttle env r started received n (dl_sleep env w1)) w
      else (Inr (), w))"

definition read_size :: "download_request \<Rightarrow> int" where
  "read_size r = (if dq_rate r = 0 then 65536 else min 65536 (max 1024 (dq_rate r div 4)))"

fun receive ::
    "'p download_env \<Rightarrow> download_request \<Rightarrow> int \<Rightarrow> int \<Rightarrow> int \<Rightarrow> int \<Rightarrow> exn option \<Rightarrow> int \<Rightarrow> int \<Rightarrow> string list \<Rightarrow>
     ('p download_world, int) act" where
  "receive env r i response_end deadline started failure written received [] =
     (case failure of None \<Rightarrow> retA written | Some e \<Rightarrow> raiseA e)"
| "receive env r i response_end deadline started failure written received (part # parts) =
     (let written' = written + int (length part); received' = received + int (length part) in
      thenA (probe env)
     (thenA (guardA (written' \<le> response_end) (download_exn ''too much''))
     (thenA (append_partial env i part)
     (thenA (dl_progress env written')
     (thenA (if dq_rate r = 0 then retA () else throttle env r started received' (dl_fuel env))
       (\<lambda>w. if chunked r \<and> written' < size_of r \<and> deadline \<le> dl_clock env w
            then (Inl (deferred written'), w)
            else receive env r i response_end deadline started failure written' received' parts w))))))"

text \<open>
  What an answer may be used for: the end of what it brings, and how much the partial file has now.
\<close>

definition range_accepted :: "download_request \<Rightarrow> int \<Rightarrow> int \<Rightarrow> download_response \<Rightarrow> int option" where
  "range_accepted r start range_end resp =
     (case parse_content_range (coalesce (dr_range resp) []) of
        None \<Rightarrow> None
      | Some (a, b, n) \<Rightarrow>
          if a = start \<and> start \<le> b \<and> b \<le> range_end \<and> n = size_of r then Some (b + 1) else None)"

definition accept_response ::
    "'p download_env \<Rightarrow> download_request \<Rightarrow> int \<Rightarrow> int \<Rightarrow> int \<Rightarrow> download_response \<Rightarrow>
     ('p download_world, int \<times> int) act" where
  "accept_response env r i start range_end resp =
     thenA (guardA (coalesce (dr_encoding resp) ''identity'' = ''identity'') (download_exn ''encoding''))
       (if dr_status resp = 206 then
          (case range_accepted r start range_end resp of
             None \<Rightarrow> raiseA (download_exn ''range'')
           | Some response_end \<Rightarrow> retA (response_end, start))
        else if dr_status resp = 200 then
          thenA (if start = 0 then retA ()
                 else thenA (truncate_partial env i) (modify_memory (\<lambda>s. s\<lparr>ck_digests := Some []\<rparr>)))
         (thenA (guardA (\<not> (chunked r \<and> chunk_of r < size_of r)) (download_exn ''no ranges''))
           (retA (size_of r, 0)))
        else raiseA (download_exn ''status''))"

definition receive_response ::
    "'p download_env \<Rightarrow> download_request \<Rightarrow> int \<Rightarrow> int \<Rightarrow> int \<Rightarrow> int \<Rightarrow> download_response \<Rightarrow>
     ('p download_world, int) act" where
  "receive_response env r i deadline start range_end resp =
     bindA (accept_response env r i start range_end resp) (\<lambda>(response_end, written) w.
       bindA (receive env r i response_end deadline (dl_clock env w) (dr_failure resp) written 0
                (dr_parts resp (read_size r))) (\<lambda>written'.
       thenA (guardA (written' = response_end) (download_exn ''size'')) (retA written')) w)"

text \<open>Redirects are followed five times.\<close>

fun fetch ::
    "'p download_env \<Rightarrow> download_request \<Rightarrow> int \<Rightarrow> int \<Rightarrow> int \<Rightarrow> int \<Rightarrow> string option \<Rightarrow> nat \<Rightarrow> string \<Rightarrow>
     ('p download_world, int) act" where
  "fetch env r i deadline start range_end asked redirects url =
     (case validate_download_url (dl_netloc_ok env) url of
        Inl e \<Rightarrow> raiseA e
      | Inr _ \<Rightarrow>
          bindA (dl_get env url asked) (\<lambda>resp.
            if \<not> dr_is_redirect resp then receive_response env r i deadline start range_end resp
            else case (redirects, dr_location resp) of
                   (Suc n, Some location) \<Rightarrow>
                     (case dl_join env url location of
                        Inl e \<Rightarrow> raiseA e
                      | Inr url' \<Rightarrow> fetch env r i deadline start range_end asked n url')
                 | _ \<Rightarrow> raiseA (download_exn ''redirects'')))"

declare fetch.simps [simp del]

definition fetch_missing ::
    "'p download_env \<Rightarrow> download_request \<Rightarrow> int \<Rightarrow> int \<Rightarrow> int \<Rightarrow> ('p download_world, int) act" where
  "fetch_missing env r i deadline start =
     (let range_end = (if chunked r then min (size_of r) (start + chunk_of r) - 1 else size_of r - 1);
          asked = (if start \<noteq> 0 \<or> chunked r
                   then Some (''bytes='' @ int_str start @ ''-'' @ int_str range_end) else None) in
      if start < size_of r then fetch env r i deadline start range_end asked 5 (dq_url r)
      else retA start)"

section \<open>Publishing\<close>

definition remove_partial :: "'p download_env \<Rightarrow> ('p download_world, unit) act" where
  "remove_partial env =
     thenA (dio env IoRemovePartial) (\<lambda>w. case dw_partial w of
         Absent \<Rightarrow> (Inl (os_exn ''not found''), w)
       | DirectoryEntry _ \<Rightarrow> (Inl (os_exn ''directory''), w)
       | _ \<Rightarrow> (Inr (), w\<lparr>dw_partial := Absent\<rparr>))"

text \<open>\<open>os.link\<close> gives what has the name of the partial file a second name, which must be free.\<close>

definition link_target :: "'p download_env \<Rightarrow> ('p download_world, unit) act" where
  "link_target env =
     thenA (dio env IoLink) (\<lambda>w. case (dw_target w, dw_partial w) of
         (Absent, InodeEntry i) \<Rightarrow> (Inr (), w\<lparr>dw_target := InodeEntry i\<rparr>)
       | (Absent, LinkEntry l) \<Rightarrow> (Inr (), w\<lparr>dw_target := LinkEntry l\<rparr>)
       | _ \<Rightarrow> (Inl (os_exn ''link''), w))"

definition publish ::
    "'p download_env \<Rightarrow> int \<Rightarrow> ('p download_world, int) act" where
  "publish env written =
     thenA (probe env)
    (thenA (dio env IoFlush)
    (thenA (dio env IoStat)
    (bindA (\<lambda>w. (entry_identity env (dw_partial w) w, w)) (\<lambda>ident.
     thenA (modify_memory (\<lambda>s. s\<lparr>ck_published := Some ident, ck_digests := None\<rparr>))
    (thenA (write_checkpoint env)
    (thenA (probe env)
    (thenA (link_target env)
    (thenA (remove_partial env)
    (thenA (dl_progress env written) (retA written))))))))))"

section \<open>Downloading\<close>

text \<open>What exists under the name of the target: published by an earlier call, or not to be touched.\<close>

definition existing_target ::
    "'p download_env \<Rightarrow> download_request \<Rightarrow> ('p download_world, int) act" where
  "existing_target env r w =
     (case dw_target w of
        LinkEntry _ \<Rightarrow> (Inl (download_exn ''exists''), w)
      | entry \<Rightarrow>
          if ck_identity (dw_memory w) = Some (fingerprint env r)
          then (case thenA (dio env IoStat) (\<lambda>w. (entry_identity env entry w, w)) w of
                  (Inl e, w1) \<Rightarrow> (Inl e, w1)
                | (Inr ident, w1) \<Rightarrow>
                    if ck_published (dw_memory w1) = Some ident
                    then thenA (remove_partial env) (retA (size_of r)) w1
                    else (Inl (download_exn ''exists''), w1))
          else (Inl (download_exn ''exists''), w))"

definition prepare_partial ::
    "'p download_env \<Rightarrow> download_request \<Rightarrow> int \<Rightarrow> ('p download_world, unit) act" where
  "prepare_partial env r i w =
     (let fp = fingerprint env r; s = dw_memory w; here = int (length (content_of i w)) in
      if ck_identity s = Some fp \<and> here \<le> size_of r then (Inr (), w)
      else if is_set (ck_identity s) \<and> ck_identity s \<noteq> Some fp \<and> 0 < here
      then (Inl (download_exn ''other download''), w)
      else thenA (truncate_partial env i)
             (modify_memory (\<lambda>_. \<lparr>ck_identity = Some fp, ck_digests = Some [], ck_published = None\<rparr>)) w)"

text \<open>The body of the inner \<open>try\<close>, and its \<open>finally\<close>.\<close>

definition transfer_content ::
    "'p download_env \<Rightarrow> download_request \<Rightarrow> int \<Rightarrow> int \<Rightarrow> ('p download_world, int) act" where
  "transfer_content env r i deadline w =
     bindA (fetch_missing env r i deadline (int (length (content_of i w)))) (\<lambda>written.
       if written < size_of r then raiseA (deferred written)
       else thenA (dio env IoFlush)
           (thenA (verify_download env r i deadline)
             (publish env written))) w"

definition entry_exists :: "dir_entry \<Rightarrow> bool" where
  "entry_exists e \<longleftrightarrow> e \<noteq> Absent \<and> e \<noteq> LinkEntry None"

definition save_progress :: "'p download_env \<Rightarrow> ('p download_world, unit) act" where
  "save_progress env =
     thenA (dio env IoFlush)
       (\<lambda>w. if entry_exists (dw_partial w) then write_checkpoint env w else (Inr (), w))"

definition open_partial :: "'p download_env \<Rightarrow> ('p download_world, int) act" where
  "open_partial env =
     thenA (dio env IoOpen) (\<lambda>w. case dw_partial w of
         Absent \<Rightarrow>
           (let i = dl_new_inode env w in (Inr i, set_content env i [] (w\<lparr>dw_partial := InodeEntry i\<rparr>)))
       | InodeEntry i \<Rightarrow> (Inr i, w)
       | _ \<Rightarrow> (Inl (os_exn ''open''), w))"

definition download_locked ::
    "'p download_env \<Rightarrow> download_request \<Rightarrow> int \<Rightarrow> int \<Rightarrow> ('p download_world, int) act" where
  "download_locked env r i deadline =
     thenA (probe env)
    (thenA (read_checkpoint env)
      (\<lambda>w. if dw_target w \<noteq> Absent then existing_target env r w
           else thenA (prepare_partial env r i)
               (thenA (write_checkpoint env)
                 (finallyA (transfer_content env r i deadline) (save_progress env))) w))"

definition stream_download ::
    "'p download_env \<Rightarrow> download_request \<Rightarrow> ('p download_world, int) act" where
  "stream_download env r =
     (case bindR (validate_download_url (dl_netloc_ok env) (dq_url r)) (\<lambda>_.
           require (case dq_size r of None \<Rightarrow> False | Some n \<Rightarrow> 0 \<le> n) (download_exn ''size unknown'')) of
        Inl e \<Rightarrow> raiseA e
      | Inr _ \<Rightarrow>
          thenA (dio env IoMkdir)
         (bindA (open_partial env) (\<lambda>i w.
            if dl_locked env w then (Inl (download_exn ''locked''), w)
            else download_locked env r i (dl_clock env w + 8 * dl_second env) w)))"

end
