(* ===== verification/DownloadProofs.thy ===== *)
theory DownloadProofs
  imports DownloadStream
begin

text \<open>
  What a download keeps: a target that exists, whatever ends the call; and the agreement of the
  recorded digests with the partial file.  The tasks and processes that run while it waits leave its
  partial file and its checkpoint alone, and replace no target.
\<close>

lemma bindA_assoc: "bindA (bindA m f) g = bindA m (\<lambda>x. bindA (f x) g)"
  by (rule ext) (simp add: bindA_def split: prod.splits sum.splits)

section \<open>The surroundings of a download\<close>

definition target_kept :: "'p download_world \<Rightarrow> 'p download_world \<Rightarrow> bool" where
  "target_kept w w' \<longleftrightarrow>
     (dw_target w \<noteq> Absent \<longrightarrow> dw_target w' = dw_target w \<and>
        (\<forall>i. dw_target w = InodeEntry i \<longrightarrow> dw_inodes w' i = dw_inodes w i))"

definition bystander :: "'p download_world \<Rightarrow> 'p download_world \<Rightarrow> bool" where
  "bystander w w' \<longleftrightarrow>
     target_kept w w' \<and> dw_partial w' = dw_partial w \<and> dw_checkpoint w' = dw_checkpoint w \<and>
     dw_memory w' = dw_memory w \<and>
     (\<forall>i. dw_partial w = InodeEntry i \<longrightarrow> dw_inodes w' i = dw_inodes w i \<and>
        (dw_target w' = InodeEntry i \<longrightarrow> dw_target w = InodeEntry i))"

definition calm :: "'p download_env \<Rightarrow> bool" where
  "calm env \<longleftrightarrow>
     keeps bystander (dl_cancelled env) \<and>
     (\<forall>guard. dl_guard env = Some guard \<longrightarrow> keeps bystander guard) \<and>
     (\<forall>n. keeps bystander (dl_progress env n)) \<and>
     (\<forall>url asked. keeps bystander (dl_get env url asked)) \<and>
     (\<forall>w. bystander w (dl_sleep env w)) \<and>
     (\<forall>w. dw_target w \<noteq> InodeEntry (dl_new_inode env w))"

text \<open>While the partial file is \<open>i\<close> and no name of the target's.\<close>

definition partial_apart :: "int \<Rightarrow> 'p download_world \<Rightarrow> bool" where
  "partial_apart i w \<longleftrightarrow> dw_partial w = InodeEntry i \<and> dw_target w \<noteq> InodeEntry i"

definition apart_kept :: "int \<Rightarrow> 'p download_world \<Rightarrow> 'p download_world \<Rightarrow> bool" where
  "apart_kept i w w' \<longleftrightarrow>
     (partial_apart i w \<longrightarrow> partial_apart i w' \<and> target_kept w w')"

lemma target_kept_refl [simp]: "target_kept w w"
  by (simp add: target_kept_def)

lemma target_kept_trans: "target_kept w w1 \<Longrightarrow> target_kept w1 w2 \<Longrightarrow> target_kept w w2"
  by (simp add: target_kept_def)

lemma bystander_trans: "bystander w w1 \<Longrightarrow> bystander w1 w2 \<Longrightarrow> bystander w w2"
  unfolding bystander_def by (metis target_kept_trans)

interpretation target: action_contract target_kept
  by unfold_locales (simp, rule target_kept_trans)

interpretation others: action_contract bystander
  by unfold_locales (simp add: bystander_def, rule bystander_trans)

interpretation apart: action_contract "apart_kept i" for i
  by unfold_locales (simp add: apart_kept_def, metis apart_kept_def target_kept_trans)

lemma apart_kept_refl [simp]: "apart_kept i w w"
  by (rule apart.R_refl)

lemma bystander_target [simp]: "bystander w w' \<Longrightarrow> target_kept w w'"
  by (simp add: bystander_def)

lemma bystander_apart: "bystander w w' \<Longrightarrow> apart_kept i w w'"
  by (auto simp: bystander_def apart_kept_def partial_apart_def)

text \<open>An action that depends on what it reads in the state.\<close>

lemma keeps_reads: "(\<And>x. keeps R (m x)) \<Longrightarrow> keeps R (\<lambda>w. m (g w) w)"
  by (simp add: keeps_def)

lemma keeps_cond:
  "(\<And>w. P w \<Longrightarrow> R w (snd (m w))) \<Longrightarrow> keeps R n \<Longrightarrow> keeps R (\<lambda>w. if P w then m w else n w)"
  by (simp add: keeps_def)

lemma snd_dio [simp]: "snd (dio env site w) = w"
  by (simp add: dio_def split: option.splits)

lemma dio_keeps [simp]: "(\<And>w. R w w) \<Longrightarrow> keeps R (dio env site)"
  by (simp add: keeps_def)

named_theorems calm_steps \<open>what the surroundings keep\<close>

lemma calm_probe:
  assumes "calm env"
  shows "keeps bystander (probe env)"
  using assms unfolding probe_def calm_def by (intro others.keeps_bind) (auto split: option.splits)

lemma calm_parts [calm_steps]:
  assumes "calm env"
  shows "keeps bystander (dl_progress env n)" and "keeps bystander (dl_get env url asked)"
    and "bystander w (dl_sleep env w)" and "keeps bystander (probe env)"
  using assms calm_probe by (simp_all add: calm_def)

lemma calm_apart [calm_steps]:
  assumes "calm env"
  shows "keeps (apart_kept i) (dl_progress env n)" and "keeps (apart_kept i) (dl_get env url asked)"
    and "apart_kept i w (dl_sleep env w)" and "keeps (apart_kept i) (probe env)"
  using calm_parts(3) [OF assms]
  by (simp_all add: bystander_apart
        keeps_mono [OF calm_parts(1) [OF assms] bystander_apart]
        keeps_mono [OF calm_parts(2) [OF assms] bystander_apart]
        keeps_mono [OF calm_parts(4) [OF assms] bystander_apart])

lemma calm_target [calm_steps]:
  assumes "calm env"
  shows "keeps target_kept (dl_progress env n)" and "keeps target_kept (dl_get env url asked)"
    and "keeps target_kept (probe env)"
  by (simp_all add:
        keeps_mono [OF calm_parts(1) [OF assms] bystander_target]
        keeps_mono [OF calm_parts(2) [OF assms] bystander_target]
        keeps_mono [OF calm_parts(4) [OF assms] bystander_target])

section \<open>An existing target is kept\<close>

lemma set_content_apart: "apart_kept i w (set_content env i c w)"
  by (auto simp: apart_kept_def partial_apart_def target_kept_def set_content_def content_of_def)

lemma modify_memory_keeps [simp]:
  "(\<And>w. R w (w\<lparr>dw_memory := f (dw_memory w)\<rparr>)) \<Longrightarrow> keeps R (modify_memory f)"
  by (simp add: keeps_def modify_memory_def)

lemma memory_kept [simp]:
  "target_kept w (w\<lparr>dw_memory := m\<rparr>)" "apart_kept i w (w\<lparr>dw_memory := m\<rparr>)"
  by (simp_all add: target_kept_def apart_kept_def partial_apart_def content_of_def)

lemma checkpoint_kept [simp]:
  "target_kept w (w\<lparr>dw_checkpoint := c\<rparr>)" "apart_kept i w (w\<lparr>dw_checkpoint := c\<rparr>)"
  by (simp_all add: target_kept_def apart_kept_def partial_apart_def content_of_def)

lemma truncate_apart: "keeps (apart_kept i) (truncate_partial env i)"
  unfolding truncate_partial_def
  by (intro apart.keeps_bind keepsI) (simp_all add: set_content_apart)

lemma append_apart: "keeps (apart_kept i) (append_partial env i part)"
  by (rule keepsI) (simp add: append_partial_def set_content_apart split: option.splits)

lemma write_checkpoint_keeps:
  "keeps target_kept (write_checkpoint env)" "keeps (apart_kept i) (write_checkpoint env)"
  unfolding write_checkpoint_def
  by (intro target.keeps_bind apart.keeps_bind keepsI;
      simp split: checkpoint_entry.splits)+

lemma throttle_apart: "calm env \<Longrightarrow> keeps (apart_kept i) (throttle env r started received n)"
proof (induction n)
  case 0
  show ?case by (rule keepsI) simp
next
  case (Suc n)
  have "keeps (apart_kept i) (\<lambda>w. throttle env r started received n (dl_sleep env w))"
  proof (rule keepsI)
    fix w
    have "apart_kept i (dl_sleep env w) (snd (throttle env r started received n (dl_sleep env w)))"
      using Suc.IH [OF Suc.prems] by (simp add: keeps_def)
    with calm_apart(3) [OF Suc.prems]
    show "apart_kept i w (snd (throttle env r started received n (dl_sleep env w)))"
      by (rule apart.R_trans)
  qed
  with Suc.prems have "keeps (apart_kept i)
      (thenA (probe env) (\<lambda>w. throttle env r started received n (dl_sleep env w)))"
    by (intro apart.keeps_bind calm_steps)
  then show ?case by (simp add: keeps_def)
qed

lemma receive_apart:
  "calm env \<Longrightarrow>
   keeps (apart_kept i) (receive env r i response_end deadline started failure written received parts)"
proof (induction parts arbitrary: written received)
  case Nil
  show ?case by (simp split: option.splits)
next
  case (Cons part parts)
  have "keeps (apart_kept i) (\<lambda>w.
      if chunked r \<and> written + int (length part) < size_of r \<and> deadline \<le> dl_clock env w
      then (Inl (deferred (written + int (length part))), w)
      else receive env r i response_end deadline started failure (written + int (length part))
             (received + int (length part)) parts w)"
    using Cons by (simp add: keeps_def)
  with Cons.prems show ?case
    unfolding receive.simps Let_def
    by (intro apart.keeps_bind calm_steps append_apart) (auto intro: throttle_apart)
qed

lemma accept_apart: "keeps (apart_kept i) (accept_response env r i start range_end resp)"
  unfolding accept_response_def
  by (intro apart.keeps_bind) (auto intro!: apart.keeps_bind truncate_apart split: option.splits)

lemma receive_response_apart:
  assumes "calm env"
  shows "keeps (apart_kept i) (receive_response env r i deadline start range_end resp)"
proof -
  have "keeps (apart_kept i) (bindA (receive env r i response_end deadline started
      (dr_failure resp) written 0 (dr_parts resp (read_size r))) (\<lambda>written'.
      thenA (guardA (written' = response_end) (download_exn ''size'')) (retA written')))"
    for response_end written started
    by (intro apart.keeps_bind receive_apart assms apart.keeps_guard apart.keeps_ret)
  note keeps_reads [where g = "dl_clock env", OF this]
  then show ?thesis
    unfolding receive_response_def by (intro apart.keeps_bind accept_apart) (auto split: prod.splits)
qed

lemma fetch_apart:
  "calm env \<Longrightarrow> keeps (apart_kept i) (fetch env r i deadline start range_end asked redirects url)"
proof (induction redirects arbitrary: url)
  case 0
  then show ?case
    by (subst fetch.simps)
      (auto intro!: apart.keeps_bind calm_steps receive_response_apart split: sum.splits option.splits)
next
  case (Suc n)
  then show ?case
    by (subst fetch.simps)
      (auto intro!: apart.keeps_bind calm_steps receive_response_apart split: sum.splits option.splits)
qed

lemma fetch_missing_apart: "calm env \<Longrightarrow> keeps (apart_kept i) (fetch_missing env r i deadline start)"
  by (simp add: fetch_missing_def Let_def fetch_apart)

lemma verify_blocks_apart:
  "calm env \<Longrightarrow> apart_kept i w (snd (verify_blocks env r i block deadline checked position w))"
proof (induction env r i block deadline checked position w rule: verify_blocks.induct)
  case (1 env r i block deadline checked position w)
  have "keeps (apart_kept i) (thenA (probe env) (dio env IoReadBlock))"
    using "1.prems" by (intro apart.keeps_bind calm_steps dio_keeps) simp_all
  then obtain res w1 where step: "thenA (probe env) (dio env IoReadBlock) w = (res, w1)"
    and kept: "apart_kept i w w1"
    by (metis keeps_def prod.collapse)
  show ?case
  proof (cases res)
    case (Inl e)
    with step kept show ?thesis by (subst verify_blocks.simps) simp
  next
    case (Inr u)
    let ?content = "read_at i position (min block (size_of r - position)) w1"
    let ?w2 = "w1\<lparr>dw_memory := add_digest (dl_sha1 env ?content) (dw_memory w1)\<rparr>"
    have kept2: "apart_kept i w ?w2"
      using kept memory_kept(2) by (rule apart.R_trans)
    note IH = "1.IH" [OF _ step [symmetric] Inr refl refl refl _ _ "1.prems"]
    from step Inr kept kept2 show ?thesis
      by (subst verify_blocks.simps)
        (auto simp: Let_def intro: apart.R_trans [OF kept2 IH])
  qed
qed

lemma verify_download_apart:
  assumes "calm env"
  shows "keeps (apart_kept i) (verify_download env r i deadline)"
proof -
  have loop: "keeps (apart_kept i) (\<lambda>w. verify_blocks env r i block deadline 0 (g w) w)" for block g
    using verify_blocks_apart [OF assms] by (simp add: keeps_def)
  have last: "keeps (apart_kept i) (\<lambda>w. if P w then (Inr (), w)
      else thenA (truncate_partial env i)
        (thenA (modify_memory (\<lambda>s. s\<lparr>ck_digests := Some []\<rparr>)) (raiseA (download_exn ''content''))) w)" for P
    by (intro keeps_cond apart.keeps_bind truncate_apart modify_memory_keeps apart.keeps_raise) simp_all
  show ?thesis
    unfolding verify_download_def Let_def
    by (cases "dq_hash r")
      (auto intro!: apart.keeps_bind loop last modify_memory_keeps)
qed

lemma link_target_keeps: "keeps target_kept (link_target env)"
  unfolding link_target_def
  by (intro target.keeps_bind keepsI)
    (auto simp: target_kept_def content_of_def split: dir_entry.splits)

lemma remove_partial_keeps: "keeps target_kept (remove_partial env)"
  unfolding remove_partial_def
  by (intro target.keeps_bind keepsI)
    (auto simp: target_kept_def content_of_def split: dir_entry.splits)

lemma publish_keeps:
  assumes "calm env"
  shows "keeps target_kept (publish env written)"
  unfolding publish_def
  by (intro target.keeps_bind calm_target [OF assms] dio_keeps write_checkpoint_keeps
        link_target_keeps remove_partial_keeps target.keeps_ret)
    (auto intro: keepsI)

lemma save_progress_keeps: "keeps target_kept (save_progress env)"
proof -
  have "target_kept w (snd (write_checkpoint env w))" for w
    using write_checkpoint_keeps(1) by (metis keeps_def)
  then have "keeps target_kept (\<lambda>w. if entry_exists (dw_partial w) then write_checkpoint env w else (Inr (), w))"
    by (intro keeps_cond) (simp_all add: keeps_def)
  then show ?thesis unfolding save_progress_def by (intro target.keeps_bind) auto
qed

text \<open>After steps that keep the partial file apart, steps that keep the target.\<close>

lemma apart_then:
  assumes "keeps (apart_kept i) m" and "\<And>x. keeps target_kept (f x)" and "partial_apart i w"
  shows "target_kept w (snd (bindA m f w))"
proof (cases "m w")
  case (Pair r w1)
  then have "target_kept w w1" using assms(1,3) by (metis apart_kept_def keeps_def snd_conv)
  moreover have "target_kept w1 (snd (f x w1))" for x using assms(2) by (simp add: keeps_def)
  ultimately show ?thesis
    using Pair by (cases r) (auto simp: bindA_def intro: target_kept_trans)
qed

lemma transfer_content_target:
  assumes "calm env" and "partial_apart i w"
  shows "target_kept w (snd (transfer_content env r i deadline w))"
proof -
  obtain res w1 where fetched: "fetch_missing env r i deadline (int (length (content_of i w))) w = (res, w1)"
    by fastforce
  then have kept: "apart_kept i w w1"
    using fetch_missing_apart [OF assms(1)] by (metis keeps_def snd_conv)
  with assms(2) have "partial_apart i w1" and "target_kept w w1" by (simp_all add: apart_kept_def)
  have "keeps (apart_kept i) (thenA (dio env IoFlush) (verify_download env r i deadline))"
    by (intro apart.keeps_bind dio_keeps verify_download_apart assms) simp
  from apart_then [OF this publish_keeps [OF assms(1)] \<open>partial_apart i w1\<close>]
  have "target_kept w1 (snd (thenA (dio env IoFlush)
      (thenA (verify_download env r i deadline) (publish env n)) w1))" for n
    by (simp add: bindA_assoc)
  with \<open>target_kept w w1\<close> fetched show ?thesis
    using target_kept_trans
    by (cases res) (auto simp: transfer_content_def bindA_def raiseA_def)
qed

lemma existing_target_keeps: "keeps target_kept (existing_target env r)"
proof (rule keepsI)
  fix w :: "'a download_world"
  have "keeps target_kept (thenA (remove_partial env) (retA n))" for n :: int
    by (intro target.keeps_bind remove_partial_keeps target.keeps_ret)
  then have rest: "target_kept w1 (snd (thenA (remove_partial env) (retA n) w1))"
    for w1 :: "'a download_world" and n :: int by (simp add: keeps_def)
  let ?stat = "\<lambda>entry. thenA (dio env IoStat) (\<lambda>w. (entry_identity env entry w, w))"
  have branch: "target_kept w (snd (case ?stat entry w of (Inl e, w1) \<Rightarrow> (Inl e, w1)
      | (Inr ident, w1) \<Rightarrow> if ck_published (dw_memory w1) = Some ident
          then thenA (remove_partial env) (retA (size_of r)) w1
          else (Inl (download_exn ''exists''), w1)))" for entry
  proof -
    have "snd (?stat entry w) = w" by (simp add: bindA_def dio_def split: option.splits)
    then obtain res where res: "?stat entry w = (res, w)"
      by (cases "?stat entry w") auto
    show ?thesis unfolding res using rest [of w "size_of r"] by (cases res) auto
  qed
  show "target_kept w (snd (existing_target env r w))"
    unfolding existing_target_def by (cases "dw_target w") (simp_all add: branch)
qed

lemma prepare_apart: "keeps (apart_kept i) (prepare_partial env r i)"
proof -
  have "keeps (apart_kept i) (thenA (truncate_partial env i) (modify_memory f))" for f
    by (intro apart.keeps_bind truncate_apart modify_memory_keeps) simp
  then show ?thesis by (simp add: keeps_def prepare_partial_def Let_def)
qed

lemma read_checkpoint_others: "w' = snd (read_checkpoint env w) \<Longrightarrow> w' = w\<lparr>dw_memory := dw_memory w'\<rparr>"
  by (auto simp: read_checkpoint_def bindA_def dio_def modify_memory_def split: option.splits checkpoint_entry.splits)

lemma finally_target:
  assumes "target_kept w (snd (m w))" and "keeps target_kept n"
  shows "target_kept w (snd (finallyA m n w))"
proof -
  have "target_kept (snd (m w)) (snd (n (snd (m w))))" using assms(2) by (simp add: keeps_def)
  with assms(1) show ?thesis
    by (cases "m w"; cases "n (snd (m w))"; cases "fst (n (snd (m w)))")
      (auto simp: finallyA_def bindA_def tryA_def raiseA_def retA_def intro: target_kept_trans
        split: sum.splits)
qed

lemma download_locked_target:
  assumes "calm env" and "dw_partial w = InodeEntry i"
  shows "target_kept w (snd (download_locked env r i deadline w))"
proof -
  let ?rest = "\<lambda>w. if dw_target w \<noteq> Absent then existing_target env r w
      else thenA (prepare_partial env r i) (thenA (write_checkpoint env)
             (finallyA (transfer_content env r i deadline) (save_progress env))) w"
  have fresh: "target_kept w1 (snd (thenA (prepare_partial env r i) (thenA (write_checkpoint env)
      (finallyA (transfer_content env r i deadline) (save_progress env))) w1))"
    if "partial_apart i w1" for w1
  proof -
    have first: "keeps (apart_kept i) (thenA (prepare_partial env r i) (write_checkpoint env))"
      by (intro apart.keeps_bind prepare_apart write_checkpoint_keeps)
    obtain res w2 where run: "thenA (prepare_partial env r i) (write_checkpoint env) w1 = (res, w2)"
      by fastforce
    with first that have "partial_apart i w2" and "target_kept w1 w2"
      by (metis apart_kept_def keeps_def snd_conv)+
    moreover from this(1) have "target_kept w2
        (snd (finallyA (transfer_content env r i deadline) (save_progress env) w2))"
      by (intro finally_target transfer_content_target save_progress_keeps assms(1))
    ultimately have "target_kept w1 (snd (thenA (thenA (prepare_partial env r i) (write_checkpoint env))
        (finallyA (transfer_content env r i deadline) (save_progress env)) w1))"
      using run by (cases res) (auto simp: bindA_Inl bindA_Inr intro: target_kept_trans)
    then show ?thesis by (simp add: bindA_assoc)
  qed
  obtain res w1 where probed: "probe env w = (res, w1)" by fastforce
  with calm_probe [OF assms(1)] have "bystander w w1" by (metis keeps_def snd_conv)
  then have "target_kept w w1" and partial: "dw_partial w1 = InodeEntry i"
    using assms(2) by (simp_all add: bystander_def)
  obtain res' w2 where read: "read_checkpoint env w1 = (res', w2)" by fastforce
  then have "w2 = w1\<lparr>dw_memory := dw_memory w2\<rparr>" by (metis read_checkpoint_others snd_conv)
  then have "target_kept w1 w2" and "dw_partial w2 = InodeEntry i"
    using partial by (metis memory_kept(1), metis download_world.select_convs(1) download_world.surjective download_world.update_convs(5))
  moreover have "target_kept w2 (snd (?rest w2))"
    using fresh [of w2] existing_target_keeps \<open>dw_partial w2 = InodeEntry i\<close>
    by (auto simp: partial_apart_def keeps_def)
  ultimately have "target_kept w (snd (?rest w2))" and "target_kept w w2"
    using \<open>target_kept w w1\<close> by (blast intro: target_kept_trans)+
  with probed read \<open>target_kept w w1\<close> show ?thesis
    unfolding download_locked_def by (cases res; cases res') (auto simp: bindA_Inl bindA_Inr)
qed

lemma open_partial_runs:
  assumes "calm env" and "open_partial env w = (res, w1)"
  shows "target_kept w w1" and "res = Inr i \<Longrightarrow> dw_partial w1 = InodeEntry i"
proof -
  have "dw_target w \<noteq> InodeEntry (dl_new_inode env w)" using assms(1) by (simp add: calm_def)
  with assms(2) show "target_kept w w1" and "res = Inr i \<Longrightarrow> dw_partial w1 = InodeEntry i"
    by (auto simp: open_partial_def bindA_def dio_def set_content_def target_kept_def content_of_def
        Let_def split: option.splits dir_entry.splits)
qed

lemma stream_download_target:
  assumes "calm env"
  shows "target_kept w (snd (stream_download env r w))"
proof -
  let ?body = "\<lambda>i w. if dl_locked env w then (Inl (download_exn ''locked''), w)
      else download_locked env r i (dl_clock env w + 8 * dl_second env) w"
  obtain res w1 where opened: "open_partial env w = (res, w1)" by fastforce
  have kept: "target_kept w w1" by (rule open_partial_runs [OF assms opened])
  have body: "target_kept w (snd (?body i w1))" if "res = Inr i" for i
    using download_locked_target [OF assms open_partial_runs(2) [OF assms opened that]] kept
    by (auto intro: target_kept_trans)
  have "target_kept w (snd (thenA (dio env IoMkdir) (bindA (open_partial env) ?body) w))"
    using opened kept body
    by (cases res) (auto simp: bindA_def dio_def split: option.splits)
  then show ?thesis
    unfolding stream_download_def by (auto simp: raiseA_def split: sum.splits)
qed

end
