(* ===== verification/DownloadContent.thy ===== *)
theory DownloadContent
  imports DownloadProofs
begin

text \<open>
  What a published file contains, and that the recorded digests stay those of the partial file: a
  small calculus of triples over actions that end normally or raise, and the triples of the steps
  of a download.
\<close>

section \<open>Triples\<close>

definition triple ::
    "('s \<Rightarrow> bool) \<Rightarrow> ('s, 'a) act \<Rightarrow> ('a \<Rightarrow> 's \<Rightarrow> bool) \<Rightarrow> ('s \<Rightarrow> bool) \<Rightarrow> bool" where
  "triple P m Q E \<longleftrightarrow>
     (\<forall>w. P w \<longrightarrow> (case m w of (Inl e, w') \<Rightarrow> E w' | (Inr x, w') \<Rightarrow> Q x w'))"

lemma triple_bind:
  assumes "triple P m R E" and "\<And>x. triple (R x) (f x) Q E"
  shows "triple P (bindA m f) Q E"
  unfolding triple_def
proof (intro allI impI)
  fix w
  assume "P w"
  with assms(1) have first: "case m w of (Inl e, w') \<Rightarrow> E w' | (Inr x, w') \<Rightarrow> R x w'"
    by (simp add: triple_def)
  show "case bindA m f w of (Inl e, w') \<Rightarrow> E w' | (Inr x, w') \<Rightarrow> Q x w'"
  proof (cases "m w")
    case (Pair r w1)
    with first assms(2) show ?thesis by (cases r) (auto simp: bindA_def triple_def)
  qed
qed

lemma triple_then:
  "triple P m (\<lambda>_. R) E \<Longrightarrow> triple R n Q E \<Longrightarrow> triple P (thenA m n) Q E"
  by (rule triple_bind)

lemma triple_ret: "(\<And>w. P w \<Longrightarrow> Q x w) \<Longrightarrow> triple P (retA x) Q E"
  by (simp add: triple_def retA_def)

lemma triple_raise: "(\<And>w. P w \<Longrightarrow> E w) \<Longrightarrow> triple P (raiseA e) Q E"
  by (simp add: triple_def raiseA_def)

lemma triple_guard:
  "(\<And>w. P w \<Longrightarrow> b \<Longrightarrow> Q () w) \<Longrightarrow> (\<And>w. P w \<Longrightarrow> E w) \<Longrightarrow> triple P (guardA b e) Q E"
  by (simp add: triple_def guardA_def retA_def raiseA_def)

lemma triple_reads:
  "(\<And>x. triple (\<lambda>w. P w \<and> g w = x) (m x) Q E) \<Longrightarrow> triple P (\<lambda>w. m (g w) w) Q E"
  by (simp add: triple_def)

lemma triple_delay: "(\<And>x. triple P (m x) Q E) \<Longrightarrow> triple P (\<lambda>w. m (g w) w) Q E"
  by (simp add: triple_def)

lemma triple_cond:
  "triple (\<lambda>w. P w \<and> b w) m Q E \<Longrightarrow> triple (\<lambda>w. P w \<and> \<not> b w) n Q E \<Longrightarrow>
   triple P (\<lambda>w. if b w then m w else n w) Q E"
  by (simp add: triple_def)

lemma triple_conseq:
  "triple P m Q E \<Longrightarrow> (\<And>w. P' w \<Longrightarrow> P w) \<Longrightarrow> (\<And>x w. Q x w \<Longrightarrow> Q' x w) \<Longrightarrow>
   (\<And>w. E w \<Longrightarrow> E' w) \<Longrightarrow> triple P' m Q' E'"
  unfolding triple_def by (fastforce split: prod.splits sum.splits)

lemma tripleD:
  "triple P m Q E \<Longrightarrow> P w \<Longrightarrow> case m w of (Inl e, w') \<Rightarrow> E w' | (Inr x, w') \<Rightarrow> Q x w'"
  by (simp add: triple_def)

lemma triple_inr: "triple P m Q E \<Longrightarrow> P w \<Longrightarrow> m w = (Inr x, w') \<Longrightarrow> Q x w'"
  unfolding triple_def by fastforce

lemma triple_inl: "triple P m Q E \<Longrightarrow> P w \<Longrightarrow> m w = (Inl e, w') \<Longrightarrow> E w'"
  unfolding triple_def by fastforce

text \<open>What others leave as it is, and what reading and failing leave.\<close>

definition stable :: "('p download_world \<Rightarrow> bool) \<Rightarrow> bool" where
  "stable P \<longleftrightarrow> (\<forall>w w'. P w \<longrightarrow> bystander w w' \<longrightarrow> P w')"

lemma stableD: "stable P \<Longrightarrow> P w \<Longrightarrow> bystander w w' \<Longrightarrow> P w'"
  by (simp add: stable_def)

lemma triple_others:
  assumes "keeps bystander m" and "stable P" and "\<And>w. P w \<Longrightarrow> E w"
  shows "triple P m (\<lambda>_. P) E"
  unfolding triple_def
proof (intro allI impI)
  fix w
  assume "P w"
  moreover have "bystander w (snd (m w))" using assms(1) by (simp add: keeps_def)
  ultimately have "P (snd (m w))" using assms(2) by (auto simp: stable_def)
  with assms(3) show "case m w of (Inl e, w') \<Rightarrow> E w' | (Inr x, w') \<Rightarrow> P w'"
    by (cases "m w"; cases "fst (m w)") auto
qed

lemma triple_dio: "(\<And>w. P w \<Longrightarrow> E w) \<Longrightarrow> triple P (dio env site) (\<lambda>_. P) E"
  by (simp add: triple_def dio_def split: option.splits)

section \<open>Blocks\<close>

function blocks :: "nat \<Rightarrow> string \<Rightarrow> string list" where
  "blocks b c = (if b = 0 \<or> c = [] then [] else take b c # blocks b (drop b c))"
  by pat_completeness auto

termination by (relation "measure (\<lambda>(b, c). length c)") auto

declare blocks.simps [simp del]

lemma blocks_index:
  "0 < b \<Longrightarrow> k < length (blocks b c) \<longleftrightarrow> k * b < length c"
  "0 < b \<Longrightarrow> k * b < length c \<Longrightarrow> blocks b c ! k = take b (drop (k * b) c)"
proof (induction k arbitrary: c)
  case 0
  { case 1 then show ?case by (subst blocks.simps) simp }
  { case 2 then show ?case by (subst blocks.simps) simp }
next
  case (Suc k)
  { case 1
    then show ?case using Suc.IH(1) [of "drop b c"]
      by (subst blocks.simps) auto }
  { case 2
    then have "k * b < length (drop b c)" by simp
    with 2 show ?case using Suc.IH(2) [of "drop b c"]
      by (subst blocks.simps) (auto simp: add.commute) }
qed

lemma gcid_block_from_ge: "block \<le> gcid_block_from n block"
proof (induction n block rule: gcid_block_from.induct)
  case (1 n block)
  then show ?case by (subst gcid_block_from.simps) auto
qed

lemma gcid_block_pos: "0 < gcid_block n"
  using gcid_block_from_ge [of "256 * 1024" n] by (simp add: gcid_block_def)

text \<open>The reference: the hash of the digests of the blocks.\<close>

definition block_digests :: "'p download_env \<Rightarrow> download_request \<Rightarrow> string \<Rightarrow> string list" where
  "block_digests env r c = map (dl_sha1 env) (blocks (nat (gcid_block (size_of r))) c)"

definition content_hash :: "'p download_env \<Rightarrow> download_request \<Rightarrow> string \<Rightarrow> string" where
  "content_hash env r c = gcid_of env (block_digests env r c)"

definition digests_match :: "'p download_env \<Rightarrow> download_request \<Rightarrow> string \<Rightarrow> string list \<Rightarrow> bool" where
  "digests_match env r c ds \<longleftrightarrow>
     int (length c) = size_of r \<and> ds = take (length ds) (block_digests env r c)"

lemma digests_match_step:
  assumes "digests_match env r c ds" and "int (length ds) * gcid_block (size_of r) < size_of r"
    and "block = gcid_block (size_of r)" and "position = int (length ds) * block"
  shows "digests_match env r c (ds @ [dl_sha1 env
           (take (nat (min block (size_of r - position))) (drop (nat position) c))])"
    and "take (nat (min block (size_of r - position))) (drop (nat position) c) \<noteq> []"
    and "int (length (take (nat (min block (size_of r - position))) (drop (nat position) c))) =
           min block (size_of r - position)"
proof -
  let ?b = "nat block"
  have b: "0 < ?b" and len: "int (length c) = size_of r"
    using assms(1,3) gcid_block_pos [of "size_of r"] by (simp_all add: digests_match_def)
  have pos: "nat position = length ds * ?b"
    using assms(3,4) gcid_block_pos [of "size_of r"] by (simp add: nat_mult_distrib)
  have "int (length ds * ?b) < int (length c)"
    using assms(2,3) len b by simp
  then have small: "length ds * ?b < length c" by (simp only: of_nat_less_iff)
  have "0 \<le> position" using assms(3,4) gcid_block_pos [of "size_of r"] by simp
  with pos have "position = int (length ds * ?b)" by linarith
  with len small have rest: "size_of r - position = int (length c - length ds * ?b)" by linarith
  then have tail: "length (drop (nat position) c) = nat (size_of r - position)" by (simp add: pos)
  have piece: "take (nat (min block (size_of r - position))) (drop (nat position) c) =
      take ?b (drop (length ds * ?b) c)" (is "?l = ?r")
    using tail by (cases "block \<le> size_of r - position") (simp_all add: pos min_def)
  show "?l \<noteq> []" using small b by (simp add: piece)
  have "0 < int (length c - length ds * ?b)" using small by (simp only: of_nat_0_less_iff zero_less_diff)
  with rest have "0 < size_of r - position" by (simp only:)
  then show "int (length ?l) = min block (size_of r - position)"
    unfolding length_take tail using b by (simp add: min_def nat_le_eq_zle)
  have "length ds < length (blocks ?b c)" using blocks_index(1) [OF b] small by simp
  then have "take (Suc (length ds)) (block_digests env r c) =
      take (length ds) (block_digests env r c) @ [dl_sha1 env (blocks ?b c ! length ds)]"
    using assms(3) by (simp add: block_digests_def take_Suc_conv_app_nth)
  also have "blocks ?b c ! length ds = ?l"
    using blocks_index(2) [OF b small] by (simp add: piece)
  finally show "digests_match env r c (ds @ [dl_sha1 env ?l])"
    using assms(1) by (simp add: digests_match_def)
qed

lemma digests_match_all:
  assumes "digests_match env r c ds" and "size_of r \<le> int (length ds) * gcid_block (size_of r)"
  shows "ds = block_digests env r c"
proof -
  let ?b = "nat (gcid_block (size_of r))"
  have b: "0 < ?b" using gcid_block_pos by simp
  have "int (length c) \<le> int (length ds * ?b)"
    using assms b by (simp add: digests_match_def)
  then have "length c \<le> length ds * ?b" by (simp only: of_nat_le_iff)
  then have "\<not> length ds < length (blocks ?b c)"
    using blocks_index(1) [OF b] by (simp add: not_less)
  then have "take (length ds) (block_digests env r c) = block_digests env r c"
    by (simp add: block_digests_def)
  with assms(1) show ?thesis by (metis digests_match_def)
qed

section \<open>The state of a running download\<close>

definition partial_sound ::
    "'p download_env \<Rightarrow> download_request \<Rightarrow> int \<Rightarrow> 'p download_world \<Rightarrow> bool" where
  "partial_sound env r i w \<longleftrightarrow>
     dw_partial w = InodeEntry i \<and> (\<exists>s. dw_checkpoint w = Checkpoint s) \<and>
     ck_identity (dw_memory w) = Some (fingerprint env r) \<and>
     int (length (content_of i w)) \<le> size_of r \<and>
     (digests_of (dw_memory w) \<noteq> [] \<longrightarrow>
        digests_match env r (content_of i w) (digests_of (dw_memory w)))"

definition has_length :: "int \<Rightarrow> int \<Rightarrow> 'p download_world \<Rightarrow> bool" where
  "has_length i n w \<longleftrightarrow> int (length (content_of i w)) = n"

abbreviation holding ::
    "'p download_env \<Rightarrow> download_request \<Rightarrow> int \<Rightarrow> int \<Rightarrow> 'p download_world \<Rightarrow> bool" where
  "holding env r i n \<equiv> \<lambda>w. partial_sound env r i w \<and> has_length i n w"

lemma bystander_content:
  "bystander w w' \<Longrightarrow> dw_partial w = InodeEntry i \<Longrightarrow> content_of i w' = content_of i w"
  by (simp add: bystander_def content_of_def)

lemma bystander_same:
  "bystander w w' \<Longrightarrow> dw_partial w' = dw_partial w" "bystander w w' \<Longrightarrow> dw_memory w' = dw_memory w"
  "bystander w w' \<Longrightarrow> dw_checkpoint w' = dw_checkpoint w"
  by (simp_all add: bystander_def)

lemma partial_sound_bystander:
  assumes "partial_sound env r i w" and "bystander w w'"
  shows "partial_sound env r i w'" and "content_of i w' = content_of i w"
proof -
  have "dw_partial w = InodeEntry i" using assms(1) by (simp add: partial_sound_def)
  then show c: "content_of i w' = content_of i w" by (rule bystander_content [OF assms(2)])
  show "partial_sound env r i w'"
    using assms(1) by (simp add: partial_sound_def c bystander_same [OF assms(2)])
qed

lemma partial_sound_stable: "stable (partial_sound env r i)"
  by (simp add: stable_def partial_sound_bystander(1))

lemma holding_stable: "stable (holding env r i n)"
  unfolding stable_def has_length_def using partial_sound_bystander by metis

lemma set_content_simps [simp]:
  "content_of j (set_content env i c w) = (if j = i then c else content_of j w)"
  "dw_partial (set_content env i c w) = dw_partial w"
  "dw_target (set_content env i c w) = dw_target w"
  "dw_memory (set_content env i c w) = dw_memory w"
  "dw_checkpoint (set_content env i c w) = dw_checkpoint w"
  by (simp_all add: set_content_def content_of_def)

lemma content_of_simps [simp]:
  "content_of i (w\<lparr>dw_memory := m\<rparr>) = content_of i w"
  "content_of i (w\<lparr>dw_checkpoint := c\<rparr>) = content_of i w"
  "content_of i (w\<lparr>dw_partial := e\<rparr>) = content_of i w"
  "content_of i (w\<lparr>dw_target := e\<rparr>) = content_of i w"
  by (simp_all add: content_of_def)

text \<open>Appending within the size keeps the partial file partial_sound: there were no digests yet.\<close>

lemma append_sound:
  assumes "partial_sound env r i w" and "int (length (content_of i w @ part)) \<le> size_of r"
  shows "partial_sound env r i (set_content env i (content_of i w @ part) w)"
proof (cases "part = []")
  case False
  then obtain c cs where "part = c # cs" by (cases part) auto
  with assms(2) have "int (length (content_of i w)) < size_of r" by simp
  then have "digests_of (dw_memory w) = []"
    using assms(1) by (auto simp: partial_sound_def digests_match_def)
  with assms show ?thesis by (simp add: partial_sound_def)
qed (use assms in \<open>simp add: partial_sound_def\<close>)

lemma append_triple:
  assumes "n + int (length part) \<le> size_of r"
  shows "triple (holding env r i n) (append_partial env i part)
           (\<lambda>_. holding env r i (n + int (length part))) (partial_sound env r i)"
  unfolding triple_def
proof (intro allI impI)
  fix w
  assume w: "holding env r i n w"
  have "int (length (content_of i w @ take k part)) \<le> size_of r" for k
    using w assms by (simp add: has_length_def)
  from append_sound [OF conjunct1 [OF w] this]
  have short: "partial_sound env r i (set_content env i (content_of i w @ take k part) w)" for k .
  from short [of "length part"] w
  have "holding env r i (n + int (length part)) (set_content env i (content_of i w @ part) w)"
    by (simp add: has_length_def)
  with short show "case append_partial env i part w of (Inl e, w') \<Rightarrow> partial_sound env r i w'
      | (Inr x, w') \<Rightarrow> holding env r i (n + int (length part)) w'"
    by (simp add: append_partial_def split: option.splits)
qed

lemma truncate_triple:
  "triple (partial_sound env r i)
     (thenA (truncate_partial env i) (modify_memory (\<lambda>s. s\<lparr>ck_digests := Some []\<rparr>)))
     (\<lambda>_. holding env r i 0) (partial_sound env r i)"
  by (auto simp: triple_def truncate_partial_def bindA_def dio_def modify_memory_def partial_sound_def
      has_length_def digests_of_def split: option.splits)

lemma throttle_triple:
  assumes "calm env" and "stable P" and "\<And>w. P w \<Longrightarrow> E w"
  shows "triple P (throttle env r started received n) (\<lambda>_. P) E"
proof (induction n)
  case 0
  then show ?case using assms(3) by (simp add: triple_def)
next
  case (Suc n)
  have "triple P (\<lambda>w. throttle env r started received n (dl_sleep env w)) (\<lambda>_. P) E"
    unfolding triple_def
  proof (intro allI impI)
    fix w
    assume "P w"
    then have "P (dl_sleep env w)" using assms(2) calm_parts(3) [OF assms(1)] by (auto simp: stable_def)
    with Suc show "case throttle env r started received n (dl_sleep env w) of
        (Inl e, w') \<Rightarrow> E w' | (Inr x, w') \<Rightarrow> P w'"
      by (simp add: triple_def)
  qed
  then have "triple P (thenA (probe env) (\<lambda>w. throttle env r started received n (dl_sleep env w)))
      (\<lambda>_. P) E"
    by (intro triple_then [OF triple_others]) (simp_all add: calm_probe assms)
  with assms(3) show ?case by (simp add: triple_def)
qed

section \<open>Receiving\<close>

lemma receive_triple:
  assumes "calm env" and "response_end \<le> size_of r"
  shows "triple (holding env r i written)
     (receive env r i response_end deadline started failure written received parts)
     (\<lambda>n. holding env r i n) (partial_sound env r i)"
proof (induction parts arbitrary: written received)
  case Nil
  show ?case
    by (cases failure) (auto intro!: triple_ret triple_raise)
next
  case (Cons part parts)
  let ?n = "written + int (length part)"
  have last: "triple (holding env r i ?n)
      (\<lambda>w. if chunked r \<and> ?n < size_of r \<and> deadline \<le> dl_clock env w
            then (Inl (deferred ?n), w)
            else receive env r i response_end deadline started failure ?n (received + int (length part)) parts w)
      (\<lambda>n. holding env r i n) (partial_sound env r i)"
    using Cons [of ?n "received + int (length part)"] by (simp add: triple_def)
  have limited: "triple (holding env r i ?n)
      (if dq_rate r = 0 then retA () else throttle env r started (received + int (length part)) (dl_fuel env))
      (\<lambda>_. holding env r i ?n) (partial_sound env r i)"
    by (auto intro!: triple_ret throttle_triple assms(1) holding_stable)
  have append: "triple (holding env r i written) (append_partial env i part)
      (\<lambda>_. holding env r i ?n) (partial_sound env r i)" if "?n \<le> response_end"
    by (rule append_triple) (use that assms(2) in linarith)
  have written: "triple (holding env r i written)
      (thenA (guardA (?n \<le> response_end) (download_exn ''too much'')) (append_partial env i part))
      (\<lambda>_. holding env r i ?n) (partial_sound env r i)"
  proof (cases "?n \<le> response_end")
    case True
    then show ?thesis by (intro triple_then [OF triple_guard append]) auto
  next
    case False
    then show ?thesis by (auto simp: triple_def guardA_def raiseA_def bindA_def)
  qed
  have "triple (holding env r i written)
     (thenA (probe env)
     (thenA (thenA (guardA (?n \<le> response_end) (download_exn ''too much'')) (append_partial env i part))
     (thenA (dl_progress env ?n)
     (thenA (if dq_rate r = 0 then retA ()
             else throttle env r started (received + int (length part)) (dl_fuel env))
       (\<lambda>w. if chunked r \<and> ?n < size_of r \<and> deadline \<le> dl_clock env w
            then (Inl (deferred ?n), w)
            else receive env r i response_end deadline started failure ?n (received + int (length part)) parts w)))))
     (\<lambda>n. holding env r i n) (partial_sound env r i)"
    by (intro triple_then [OF triple_others] triple_then [OF written] triple_then [OF limited] last
          calm_parts assms(1) holding_stable) simp_all
  then show ?case by (simp add: Let_def bindA_assoc)
qed

lemma range_accepted_end:
  "range_accepted r start range_end resp = Some response_end \<Longrightarrow> range_end < size_of r \<Longrightarrow>
   response_end \<le> size_of r"
  by (auto simp: range_accepted_def split: option.splits if_splits)

lemma holding_sound: "holding env r i n w \<Longrightarrow> partial_sound env r i w"
  by simp

lemma accept_triple:
  assumes "range_end < size_of r"
  shows "triple (holding env r i start) (accept_response env r i start range_end resp)
     (\<lambda>(response_end, written) w. holding env r i written w \<and> response_end \<le> size_of r)
     (partial_sound env r i)"
proof -
  let ?Q = "\<lambda>(response_end, written) w. holding env r i written w \<and> response_end \<le> size_of r"
  have partial: "triple (holding env r i start)
      (case range_accepted r start range_end resp of
             None \<Rightarrow> raiseA (download_exn ''range'')
           | Some response_end \<Rightarrow> retA (response_end, start)) ?Q (partial_sound env r i)"
    using range_accepted_end [OF _ assms]
    by (cases "range_accepted r start range_end resp") (auto intro!: triple_ret triple_raise)
  have reset: "triple (holding env r i start)
      (if start = 0 then retA ()
       else thenA (truncate_partial env i) (modify_memory (\<lambda>s. s\<lparr>ck_digests := Some []\<rparr>)))
      (\<lambda>_. holding env r i 0) (partial_sound env r i)"
    by (auto intro!: triple_ret triple_conseq [OF truncate_triple])
  have whole: "triple (holding env r i start)
      (thenA (if start = 0 then retA ()
         else thenA (truncate_partial env i) (modify_memory (\<lambda>s. s\<lparr>ck_digests := Some []\<rparr>)))
         (thenA (guardA (\<not> (chunked r \<and> chunk_of r < size_of r)) (download_exn ''no ranges''))
           (retA (size_of r, 0)))) ?Q (partial_sound env r i)"
    by (intro triple_then [OF reset] triple_then [OF triple_guard [where Q = "\<lambda>_. holding env r i 0"]] triple_ret) auto
  show ?thesis
    unfolding accept_response_def
    by (intro triple_then [OF triple_guard [where Q = "\<lambda>_. holding env r i start"]])
      (use partial whole in \<open>auto intro!: triple_raise\<close>)
qed

lemma receive_response_triple:
  assumes "calm env" and "range_end < size_of r"
  shows "triple (holding env r i start) (receive_response env r i deadline start range_end resp)
     (\<lambda>n. holding env r i n) (partial_sound env r i)"
  unfolding receive_response_def
proof (intro triple_bind [OF accept_triple [OF assms(2)]])
  fix p :: "int \<times> int"
  obtain response_end written where p: "p = (response_end, written)" by fastforce
  have body: "triple (holding env r i written)
      (bindA (receive env r i response_end deadline started (dr_failure resp) written 0
                (dr_parts resp (read_size r))) (\<lambda>written'.
       thenA (guardA (written' = response_end) (download_exn ''size'')) (retA written')))
      (\<lambda>n. holding env r i n) (partial_sound env r i)" if "response_end \<le> size_of r" for started
    by (intro triple_bind [OF receive_triple [OF assms(1) that]]
        triple_then [OF triple_guard [where Q = "\<lambda>_. holding env r i _"]] triple_ret) auto
  show "triple (case p of (response_end, written) \<Rightarrow>
        \<lambda>w. holding env r i written w \<and> response_end \<le> size_of r)
      (case p of (response_end, written) \<Rightarrow> \<lambda>w.
       bindA (receive env r i response_end deadline (dl_clock env w) (dr_failure resp) written 0
                (dr_parts resp (read_size r))) (\<lambda>written'.
       thenA (guardA (written' = response_end) (download_exn ''size'')) (retA written')) w)
      (\<lambda>n. holding env r i n) (partial_sound env r i)"
  proof (cases "response_end \<le> size_of r")
    case True
    from triple_delay [where g = "dl_clock env", OF body [OF True]] True
    show ?thesis by (simp add: p)
  next
    case False
    then show ?thesis by (simp add: p triple_def)
  qed
qed

lemma fetch_triple:
  assumes "calm env" and "range_end < size_of r"
  shows "triple (holding env r i start) (fetch env r i deadline start range_end asked redirects url)
     (\<lambda>n. holding env r i n) (partial_sound env r i)"
proof (induction redirects arbitrary: url)
  case 0
  show ?case
    by (subst fetch.simps)
      (auto intro!: triple_raise triple_bind [OF triple_others] calm_parts assms holding_stable
        receive_response_triple split: sum.splits option.splits)
next
  case (Suc n)
  then show ?case
    by (subst fetch.simps)
      (auto intro!: triple_raise triple_bind [OF triple_others] calm_parts assms holding_stable
        receive_response_triple split: sum.splits option.splits)
qed

lemma fetch_missing_triple:
  assumes "calm env"
  shows "triple (holding env r i start) (fetch_missing env r i deadline start)
     (\<lambda>n. holding env r i n) (partial_sound env r i)"
  unfolding fetch_missing_def Let_def
  by (auto intro!: triple_ret fetch_triple assms)

section \<open>Verifying\<close>

text \<open>The whole file is there, and \<open>position\<close> is where the recorded digests end.\<close>

definition verified_to ::
    "'p download_env \<Rightarrow> download_request \<Rightarrow> int \<Rightarrow> int \<Rightarrow> 'p download_world \<Rightarrow> bool" where
  "verified_to env r i position w \<longleftrightarrow>
     holding env r i (size_of r) w \<and>
     position = min (int (length (digests_of (dw_memory w))) * gcid_block (size_of r)) (size_of r)"

lemma digests_of_add [simp]:
  "digests_of (add_digest d s) = digests_of s @ [d]" "ck_identity (add_digest d s) = ck_identity s"
  by (simp_all add: digests_of_def add_digest_def)

lemma verify_step:
  assumes "verified_to env r i position w" and "position < size_of r"
    and "block = gcid_block (size_of r)"
  shows "read_at i position (min block (size_of r - position)) w \<noteq> []"
    and "verified_to env r i
           (position + int (length (read_at i position (min block (size_of r - position)) w)))
           (w\<lparr>dw_memory := add_digest (dl_sha1 env (read_at i position (min block (size_of r - position)) w))
                (dw_memory w)\<rparr>)"
proof -
  let ?ds = "digests_of (dw_memory w)" and ?c = "content_of i w"
  let ?part = "read_at i position (min block (size_of r - position)) w"
  have run: "holding env r i (size_of r) w"
    and position: "position = int (length ?ds) * block" and more: "position < size_of r"
    using assms by (auto simp: verified_to_def min_def split: if_splits)
  have match: "digests_match env r ?c ?ds"
    using run by (cases "?ds = []") (auto simp: partial_sound_def has_length_def digests_match_def)
  have "int (length ?ds) * gcid_block (size_of r) < size_of r" using more position assms(3) by simp
  note step = digests_match_step [OF match this assms(3) position]
  have part: "?part = take (nat (min block (size_of r - position))) (drop (nat position) ?c)"
    by (simp add: read_at_def)
  show "?part \<noteq> []" unfolding part by (rule step(2))
  have ds: "digests_match env r ?c (?ds @ [dl_sha1 env ?part])"
    unfolding part by (rule step(1))
  have "int (length ?part) = min block (size_of r - position)"
    unfolding part by (rule step(3))
  moreover have "int (length (?ds @ [dl_sha1 env ?part])) * block = position + block"
    using position by (simp add: algebra_simps)
  ultimately have "position + int (length ?part) =
      min (int (length (?ds @ [dl_sha1 env ?part])) * block) (size_of r)"
    by (simp only: min_def) (simp split: if_splits)
  with run ds assms(3) show "verified_to env r i (position + int (length ?part))
      (w\<lparr>dw_memory := add_digest (dl_sha1 env ?part) (dw_memory w)\<rparr>)"
    by (simp add: verified_to_def partial_sound_def has_length_def)
qed

lemma verified_to_sound: "verified_to env r i position w \<Longrightarrow> partial_sound env r i w"
  by (simp add: verified_to_def)

lemma verified_to_stable: "stable (verified_to env r i position)"
  unfolding stable_def
proof (intro allI impI)
  fix w w' :: "'a download_world"
  assume w: "verified_to env r i position w" and kept: "bystander w w'"
  then have "holding env r i (size_of r) w" by (simp add: verified_to_def)
  from stableD [OF holding_stable this kept] have "holding env r i (size_of r) w'" .
  with w bystander_same(2) [OF kept] show "verified_to env r i position w'"
    by (simp add: verified_to_def)
qed

lemma verify_blocks_ends:
  "calm env \<Longrightarrow> verified_to env r i position w \<Longrightarrow> block = gcid_block (size_of r) \<Longrightarrow>
   (case verify_blocks env r i block deadline checked position w of
      (Inl e, w') \<Rightarrow> partial_sound env r i w'
    | (Inr u, w') \<Rightarrow> verified_to env r i (size_of r) w')"
proof (induction env r i block deadline checked position w rule: verify_blocks.induct)
  case (1 env r i block deadline checked position w)
  have position: "position \<le> size_of r" using "1.prems"(2) by (simp add: verified_to_def)
  show ?case
  proof (cases "position < size_of r")
    case False
    with position "1.prems"(2) show ?thesis by (subst verify_blocks.simps) simp
  next
    case True
    have "triple (verified_to env r i position) (thenA (probe env) (dio env IoReadBlock))
        (\<lambda>_. verified_to env r i position) (partial_sound env r i)"
      by (intro triple_then [OF triple_others] triple_dio calm_probe "1.prems" verified_to_stable)
        (auto intro: verified_to_sound)
    note probed = this
    obtain res w1 where step: "thenA (probe env) (dio env IoReadBlock) w = (res, w1)" by fastforce
    show ?thesis
    proof (cases res)
      case (Inl e)
      with triple_inl [OF probed "1.prems"(2)] step True show ?thesis
        by (subst verify_blocks.simps) simp
    next
      case (Inr u)
      then have w1: "verified_to env r i position w1"
        using triple_inr [OF probed "1.prems"(2)] step by simp
      let ?part = "read_at i position (min block (size_of r - position)) w1"
      let ?w2 = "w1\<lparr>dw_memory := add_digest (dl_sha1 env ?part) (dw_memory w1)\<rparr>"
      note next_step = verify_step [OF w1 True "1.prems"(3)]
      show ?thesis
      proof (cases "position + int (length ?part) < size_of r \<and> chunked r \<and>
          (chunk_of r \<le> checked + int (length ?part) \<or> deadline \<le> dl_clock env ?w2)")
        case True
        with step Inr \<open>position < size_of r\<close> next_step show ?thesis
          by (subst verify_blocks.simps) (simp add: Let_def verified_to_sound)
      next
        case False
        from "1.IH" [OF _ step [symmetric] Inr refl refl refl next_step(1) False "1.prems"(1) next_step(2)
            "1.prems"(3)] True
        show ?thesis
          by (subst verify_blocks.simps) (simp add: step Inr Let_def next_step(1) False)
      qed
    qed
  qed
qed

definition content_ok ::
    "'p download_env \<Rightarrow> download_request \<Rightarrow> string \<Rightarrow> bool" where
  "content_ok env r c \<longleftrightarrow>
     int (length c) = size_of r \<and>
     (\<forall>h. dq_hash r = Some h \<longrightarrow> lower (content_hash env r c) = lower h)"

lemma verified_all:
  assumes "verified_to env r i (size_of r) w"
  shows "digests_of (dw_memory w) = block_digests env r (content_of i w)"
proof -
  let ?ds = "digests_of (dw_memory w)" and ?c = "content_of i w"
  have match: "digests_match env r ?c ?ds"
    using assms by (cases "?ds = []") (auto simp: verified_to_def partial_sound_def has_length_def digests_match_def)
  have "size_of r \<le> int (length ?ds) * gcid_block (size_of r)"
    using assms by (auto simp: verified_to_def min_def split: if_splits)
  with match show ?thesis by (rule digests_match_all)
qed

definition verified_file ::
    "'p download_env \<Rightarrow> download_request \<Rightarrow> int \<Rightarrow> 'p download_world \<Rightarrow> bool" where
  "verified_file env r i w \<longleftrightarrow> partial_sound env r i w \<and> content_ok env r (content_of i w)"

lemma verified_file_stable: "stable (verified_file env r i)"
  unfolding stable_def verified_file_def using partial_sound_bystander by metis

lemma verify_download_triple:
  assumes "calm env"
  shows "triple (holding env r i (size_of r)) (verify_download env r i deadline)
     (\<lambda>_. verified_file env r i) (partial_sound env r i)"
proof (cases "dq_hash r")
  case None
  then show ?thesis
    by (auto simp: verify_download_def verified_file_def content_ok_def has_length_def intro!: triple_ret)
next
  case (Some h)
  have known: "triple (holding env r i (size_of r)) (modify_memory (\<lambda>s. s\<lparr>ck_digests := Some (digests_of s)\<rparr>))
      (\<lambda>_. holding env r i (size_of r)) (partial_sound env r i)"
    by (auto simp: triple_def modify_memory_def partial_sound_def has_length_def digests_of_def)
  have loop: "triple (holding env r i (size_of r))
      (\<lambda>w. let block = gcid_block (size_of r); known = int (length (digests_of (dw_memory w)))
            in verify_blocks env r i block deadline 0 (min (known * block) (size_of r)) w)
      (\<lambda>_. verified_to env r i (size_of r)) (partial_sound env r i)"
    unfolding triple_def Let_def
    using verify_blocks_ends [OF assms _ refl] by (auto simp: verified_to_def)
  have mismatch: "triple (verified_to env r i (size_of r))
      (thenA (truncate_partial env i)
        (thenA (modify_memory (\<lambda>s. s\<lparr>ck_digests := Some []\<rparr>)) (raiseA (download_exn ''content''))))
      (\<lambda>_. verified_file env r i) (partial_sound env r i)"
  proof -
    have "triple (verified_to env r i (size_of r))
        (thenA (thenA (truncate_partial env i) (modify_memory (\<lambda>s. s\<lparr>ck_digests := Some []\<rparr>)))
           (raiseA (download_exn ''content'')))
        (\<lambda>_. verified_file env r i) (partial_sound env r i)"
      by (intro triple_then [OF triple_conseq [OF truncate_triple]] triple_raise)
        (auto intro: verified_to_sound)
    then show ?thesis by (simp add: bindA_assoc)
  qed
  have compare: "triple (verified_to env r i (size_of r))
      (\<lambda>w. if lower (gcid_of env (digests_of (dw_memory w))) = lower h then (Inr (), w)
            else thenA (truncate_partial env i)
             (thenA (modify_memory (\<lambda>s. s\<lparr>ck_digests := Some []\<rparr>)) (raiseA (download_exn ''content''))) w)
      (\<lambda>_. verified_file env r i) (partial_sound env r i)"
  proof (intro triple_cond)
    show "triple (\<lambda>w. verified_to env r i (size_of r) w \<and>
          lower (gcid_of env (digests_of (dw_memory w))) = lower h) (Pair (Inr ()))
        (\<lambda>_. verified_file env r i) (partial_sound env r i)"
      unfolding triple_def
    proof (intro allI impI)
      fix w :: "'a download_world"
      assume w: "verified_to env r i (size_of r) w \<and> lower (gcid_of env (digests_of (dw_memory w))) = lower h"
      then have "lower (content_hash env r (content_of i w)) = lower h"
        using verified_all [OF conjunct1 [OF w]] by (simp add: content_hash_def)
      with w Some show "case (Inr (), w) of (Inl e, w') \<Rightarrow> partial_sound env r i w'
          | (Inr x, w') \<Rightarrow> verified_file env r i w'"
        by (simp add: verified_file_def content_ok_def verified_to_def has_length_def)
    qed
    show "triple (\<lambda>w. verified_to env r i (size_of r) w \<and>
          lower (gcid_of env (digests_of (dw_memory w))) \<noteq> lower h)
        (thenA (truncate_partial env i)
          (thenA (modify_memory (\<lambda>s. s\<lparr>ck_digests := Some []\<rparr>)) (raiseA (download_exn ''content''))))
        (\<lambda>_. verified_file env r i) (partial_sound env r i)"
      using mismatch by (rule triple_conseq) auto
  qed
  show ?thesis
    unfolding verify_download_def Some option.case
    by (intro triple_then [OF triple_guard [where Q = "\<lambda>_. holding env r i (size_of r)"]]
        triple_then [OF known] triple_then [OF loop] compare) auto
qed

section \<open>Publishing\<close>

text \<open>What is saved once a file is ready: no digests, and the identity of the file.\<close>

definition recorded ::
    "'p download_env \<Rightarrow> download_request \<Rightarrow> dir_entry \<Rightarrow> 'p download_world \<Rightarrow> bool" where
  "recorded env r entry w \<longleftrightarrow>
     (\<exists>s ident. dw_checkpoint w = Checkpoint s \<and> ck_identity s = Some (fingerprint env r) \<and>
        ck_published s = Some ident \<and> entry_identity env entry w = Inr ident)"

definition checkpoint_clean :: "'p download_world \<Rightarrow> bool" where
  "checkpoint_clean w \<longleftrightarrow> (\<exists>s. dw_checkpoint w = Checkpoint s \<and> digests_of s = [])"

definition published ::
    "'p download_env \<Rightarrow> download_request \<Rightarrow> int \<Rightarrow> 'p download_world \<Rightarrow> bool" where
  "published env r i w \<longleftrightarrow>
     dw_target w = InodeEntry i \<and> content_ok env r (content_of i w) \<and> dw_partial w = Absent \<and>
     checkpoint_clean w \<and> recorded env r (InodeEntry i) w"

text \<open>Whatever ends a call: the state that its end saves is sound, or nothing is left to save.\<close>

definition ending ::
    "'p download_env \<Rightarrow> download_request \<Rightarrow> int \<Rightarrow> 'p download_world \<Rightarrow> bool" where
  "ending env r i w \<longleftrightarrow> partial_sound env r i w \<or> (dw_partial w = Absent \<and> checkpoint_clean w)"

lemma published_stable: "stable (published env r i)"
  unfolding stable_def published_def checkpoint_clean_def recorded_def
  by (auto simp: bystander_def target_kept_def content_of_def entry_identity_def)

definition ready ::
    "'p download_env \<Rightarrow> download_request \<Rightarrow> int \<Rightarrow> 'p download_world \<Rightarrow> bool" where
  "ready env r i w \<longleftrightarrow>
     verified_file env r i w \<and> checkpoint_clean w \<and> recorded env r (InodeEntry i) w"

lemma ready_stable: "stable (ready env r i)"
  unfolding stable_def
proof (intro allI impI)
  fix w w' :: "'a download_world"
  assume w: "ready env r i w" and kept: "bystander w w'"
  then have "dw_partial w = InodeEntry i"
    by (simp add: ready_def verified_file_def partial_sound_def)
  with kept have "dw_inodes w' i = dw_inodes w i" by (simp add: bystander_def)
  moreover have "verified_file env r i w'"
    using w kept stableD [OF verified_file_stable] by (auto simp: ready_def)
  ultimately show "ready env r i w'"
    using w bystander_same(3) [OF kept]
    by (simp add: ready_def checkpoint_clean_def recorded_def entry_identity_def content_of_def)
qed

lemma ending_intros:
  "partial_sound env r i w \<Longrightarrow> ending env r i w" "verified_file env r i w \<Longrightarrow> ending env r i w"
  "ready env r i w \<Longrightarrow> ending env r i w" "published env r i w \<Longrightarrow> ending env r i w"
  by (simp_all add: ending_def verified_file_def ready_def published_def)

lemma publish_triple:
  assumes "calm env"
  shows "triple (verified_file env r i) (publish env written)
     (\<lambda>n w. n = written \<and> published env r i w) (ending env r i)"
proof -
  let ?V = "verified_file env r i" and ?E = "ending env r i"
  have probed: "triple ?V (probe env) (\<lambda>_. ?V) ?E"
    by (intro triple_others calm_probe assms verified_file_stable ending_intros)
  have ident: "triple ?V (\<lambda>w. (entry_identity env (dw_partial w) w, w))
      (\<lambda>d w. ?V w \<and> entry_identity env (InodeEntry i) w = Inr d) ?E"
    by (auto simp: triple_def ending_intros verified_file_def partial_sound_def split: sum.splits)
  have clean: "triple (\<lambda>w. ?V w \<and> entry_identity env (InodeEntry i) w = Inr d) (thenA (modify_memory (\<lambda>s. s\<lparr>ck_published := Some d, ck_digests := None\<rparr>))
      (write_checkpoint env)) (\<lambda>_. ready env r i) ?E" for d
    by (auto simp: triple_def bindA_def modify_memory_def write_checkpoint_def dio_def ready_def
        checkpoint_clean_def verified_file_def partial_sound_def digests_of_def ending_def recorded_def
        entry_identity_def content_of_def split: option.splits checkpoint_entry.splits)
  have again: "triple (ready env r i) (probe env) (\<lambda>_. ready env r i) ?E"
    by (intro triple_others calm_probe assms ready_stable ending_intros)
  have link: "triple (ready env r i) (link_target env)
      (\<lambda>_ w. ready env r i w \<and> dw_target w = InodeEntry i) ?E"
    by (auto simp: triple_def link_target_def bindA_def dio_def ready_def checkpoint_clean_def
        verified_file_def partial_sound_def ending_def recorded_def entry_identity_def content_of_def
        split: option.splits dir_entry.splits)
  have remove: "triple (\<lambda>w. ready env r i w \<and> dw_target w = InodeEntry i) (remove_partial env)
      (\<lambda>_. published env r i) ?E"
    by (auto simp: triple_def remove_partial_def bindA_def dio_def ready_def checkpoint_clean_def
        verified_file_def partial_sound_def ending_def published_def recorded_def entry_identity_def
        content_of_def split: option.splits dir_entry.splits)
  have "triple ?V
     (thenA (probe env)
    (thenA (dio env IoFlush)
    (thenA (dio env IoStat)
    (bindA (\<lambda>w. (entry_identity env (dw_partial w) w, w)) (\<lambda>d.
     thenA (thenA (modify_memory (\<lambda>s. s\<lparr>ck_published := Some d, ck_digests := None\<rparr>)) (write_checkpoint env))
    (thenA (probe env)
    (thenA (link_target env)
    (thenA (remove_partial env)
    (thenA (dl_progress env written) (retA written))))))))))
     (\<lambda>n w. n = written \<and> published env r i w) ?E"
    by (intro triple_then [OF probed] triple_then [OF triple_dio] triple_bind [OF ident]
        triple_then [OF clean] triple_then [OF again] triple_then [OF link] triple_then [OF remove]
        triple_then [OF triple_others [OF calm_parts(1) [OF assms] published_stable]] triple_ret)
      (auto intro: ending_intros)
  then show ?thesis by (simp add: publish_def bindA_assoc)
qed

lemma transfer_content_triple:
  assumes "calm env"
  shows "triple (partial_sound env r i) (transfer_content env r i deadline)
     (\<lambda>n w. n = size_of r \<and> published env r i w) (ending env r i)"
proof -
  let ?then = "\<lambda>written. if written < size_of r then raiseA (deferred written)
       else thenA (dio env IoFlush) (thenA (verify_download env r i deadline) (publish env written))"
  let ?Q = "\<lambda>n w. n = size_of r \<and> published env r i w"
  have whole: "triple (holding env r i (size_of r))
      (thenA (dio env IoFlush) (thenA (verify_download env r i deadline) (publish env (size_of r))))
      ?Q (ending env r i)"
    by (intro triple_then [OF triple_dio] triple_then [OF triple_conseq [OF verify_download_triple [OF assms]]]
        triple_conseq [OF publish_triple [OF assms]]) (auto intro: ending_intros)
  have rest: "triple (holding env r i written) (?then written) ?Q (ending env r i)" for written
  proof (cases "written = size_of r")
    case True
    with whole show ?thesis by simp
  next
    case False
    then show ?thesis by (auto simp: triple_def raiseA_def partial_sound_def has_length_def ending_def)
  qed
  have fetched: "triple (holding env r i start) (fetch_missing env r i deadline start)
      (\<lambda>n. holding env r i n) (ending env r i)" for start
    by (rule triple_conseq [OF fetch_missing_triple [OF assms]]) (auto intro: ending_intros)
  have "triple (holding env r i start) (bindA (fetch_missing env r i deadline start) ?then) ?Q (ending env r i)"
    for start
    by (rule triple_bind [OF fetched rest])
  then have "triple (\<lambda>w. partial_sound env r i w \<and> int (length (content_of i w)) = x)
      (bindA (fetch_missing env r i deadline x) ?then) ?Q (ending env r i)" for x
    by (rule triple_conseq) (auto simp: has_length_def)
  from triple_reads [where g = "\<lambda>w. int (length (content_of i w))", OF this]
  show ?thesis by (simp add: transfer_content_def [abs_def] cong: if_cong)
qed

section \<open>The whole call\<close>

text \<open>
  What a checkpoint promises while the target is not there: the digests it has are those of the
  complete partial file.
\<close>

definition digests_sound ::
    "'p download_env \<Rightarrow> download_request \<Rightarrow> 'p download_world \<Rightarrow> bool" where
  "digests_sound env r w \<longleftrightarrow>
     (dw_target w = Absent \<longrightarrow>
       (\<forall>s. dw_checkpoint w = Checkpoint s \<longrightarrow> ck_identity s = Some (fingerprint env r) \<longrightarrow>
          digests_of s \<noteq> [] \<longrightarrow>
          (\<exists>i. dw_partial w = InodeEntry i \<and> digests_match env r (content_of i w) (digests_of s))))"

definition writes_ok :: "'p download_env \<Rightarrow> bool" where
  "writes_ok env \<longleftrightarrow> (\<forall>w. dl_io env IoWriteState w = None \<and> dl_io env IoFlush w = None)"

abbreviation sound_if_written ::
    "'p download_env \<Rightarrow> download_request \<Rightarrow> 'p download_world \<Rightarrow> bool" where
  "sound_if_written env r \<equiv> \<lambda>w. writes_ok env \<longrightarrow> digests_sound env r w"

lemma digests_sound_stable: "stable (digests_sound env r)"
  unfolding stable_def
proof (intro allI impI)
  fix w w' :: "'a download_world"
  assume w: "digests_sound env r w" and kept: "bystander w w'"
  show "digests_sound env r w'"
    unfolding digests_sound_def
  proof (intro impI allI)
    fix s
    assume "dw_target w' = Absent" and s: "dw_checkpoint w' = Checkpoint s"
      "ck_identity s = Some (fingerprint env r)" "digests_of s \<noteq> []"
    moreover from this(1) have "dw_target w = Absent"
      using kept by (auto simp: bystander_def target_kept_def)
    ultimately obtain i where i: "dw_partial w = InodeEntry i"
      "digests_match env r (content_of i w) (digests_of s)"
      using w bystander_same(3) [OF kept] by (auto simp: digests_sound_def)
    then show "\<exists>i. dw_partial w' = InodeEntry i \<and> digests_match env r (content_of i w') (digests_of s)"
      using bystander_content [OF kept i(1)] bystander_same(1) [OF kept] by auto
  qed
qed

definition to_prepare ::
    "'p download_env \<Rightarrow> download_request \<Rightarrow> int \<Rightarrow> 'p download_world \<Rightarrow> bool" where
  "to_prepare env r i w \<longleftrightarrow>
     dw_partial w = InodeEntry i \<and> dw_target w = Absent \<and> digests_sound env r w \<and>
     dw_checkpoint w \<noteq> CheckpointDirectory \<and>
     (\<forall>s. dw_checkpoint w = Checkpoint s \<longrightarrow> dw_memory w = s) \<and>
     ((\<forall>s. dw_checkpoint w \<noteq> Checkpoint s) \<longrightarrow> dw_memory w = no_state)"

lemma prepared_triple:
  assumes "0 \<le> size_of r"
  shows "triple (to_prepare env r i) (thenA (prepare_partial env r i) (write_checkpoint env))
     (\<lambda>_. partial_sound env r i) (sound_if_written env r)"
  unfolding triple_def
proof (intro allI impI)
  fix w :: "'a download_world"
  assume w: "to_prepare env r i w"
  let ?reset = "\<lparr>ck_identity = Some (fingerprint env r), ck_digests = Some [], ck_published = None\<rparr>"
  have keep: "digests_match env r (content_of i w) (digests_of (dw_memory w))"
    if "ck_identity (dw_memory w) = Some (fingerprint env r)" "digests_of (dw_memory w) \<noteq> []"
    using w that by (cases "dw_checkpoint w") (auto simp: to_prepare_def digests_sound_def no_state_def)
  show "case thenA (prepare_partial env r i) (write_checkpoint env) w of
      (Inl e, w') \<Rightarrow> sound_if_written env r w' | (Inr x, w') \<Rightarrow> partial_sound env r i w'"
    using w keep assms
    by (auto simp: prepare_partial_def Let_def bindA_def truncate_partial_def dio_def modify_memory_def
        write_checkpoint_def writes_ok_def to_prepare_def partial_sound_def digests_of_def
        split: option.splits checkpoint_entry.splits if_splits)
qed

lemma save_progress_triple:
  "triple (ending env r i) (save_progress env) (\<lambda>_. sound_if_written env r) (sound_if_written env r)"
  "triple (published env r i) (save_progress env) (\<lambda>_. published env r i) (sound_if_written env r)"
proof -
  have saved: "digests_sound env r (w\<lparr>dw_checkpoint := Checkpoint (dw_memory w)\<rparr>)"
    if "partial_sound env r i w" for w :: "'a download_world"
    using that by (auto simp: digests_sound_def partial_sound_def)
  have clean: "digests_sound env r w" if "checkpoint_clean w" for w :: "'a download_world"
    using that by (auto simp: digests_sound_def checkpoint_clean_def)
  have partial: "entry_exists (dw_partial w)" "dw_checkpoint w \<noteq> CheckpointDirectory"
    if "partial_sound env r i w" for w :: "'a download_world"
    using that by (auto simp: entry_exists_def partial_sound_def)
  show "triple (ending env r i) (save_progress env) (\<lambda>_. sound_if_written env r) (sound_if_written env r)"
    unfolding triple_def ending_def using saved clean partial
    by (auto simp: save_progress_def bindA_def dio_def writes_ok_def write_checkpoint_def entry_exists_def
        split: option.splits checkpoint_entry.splits)
  show "triple (published env r i) (save_progress env) (\<lambda>_. published env r i) (sound_if_written env r)"
    unfolding triple_def published_def using clean
    by (auto simp: save_progress_def bindA_def dio_def writes_ok_def entry_exists_def split: option.splits)
qed

lemma finally_triple:
  assumes "triple P m Q E" and "\<And>x. triple (Q x) n (\<lambda>_. Q' x) E'" and "triple E n (\<lambda>_. E') E'"
  shows "triple P (finallyA m n) Q' E'"
  unfolding triple_def
proof (intro allI impI)
  fix w
  assume w: "P w"
  obtain res w1 where m: "m w = (res, w1)" by fastforce
  obtain res' w2 where n: "n w1 = (res', w2)" by fastforce
  show "case finallyA m n w of (Inl e, w') \<Rightarrow> E' w' | (Inr x, w') \<Rightarrow> Q' x w'"
  proof (cases res)
    case (Inl e)
    with triple_inl [OF assms(1) w] m have "E w1" by simp
    with assms(3) n have "E' w2" unfolding triple_def by (cases res') fastforce+
    with m n Inl show ?thesis by (cases res') (simp_all add: finallyA_def bindA_def tryA_def raiseA_def)
  next
    case (Inr x)
    with triple_inr [OF assms(1) w] m have "Q x w1" by simp
    with assms(2) n have "case res' of Inl e \<Rightarrow> E' w2 | Inr u \<Rightarrow> Q' x w2"
      unfolding triple_def by (cases res') fastforce+
    with m n Inr show ?thesis by (cases res') (simp_all add: finallyA_def bindA_def tryA_def retA_def)
  qed
qed

text \<open>The checkpoint \<open>c\<close> is as the call found it, and \<open>state\<close> what it says.\<close>

definition state_read :: "checkpoint_entry \<Rightarrow> 'p download_world \<Rightarrow> bool" where
  "state_read c w \<longleftrightarrow>
     dw_checkpoint w = c \<and> c \<noteq> CheckpointDirectory \<and>
     (\<forall>s. c = Checkpoint s \<longrightarrow> dw_memory w = s) \<and>
     ((\<forall>s. c \<noteq> Checkpoint s) \<longrightarrow> dw_memory w = no_state)"

definition found_published ::
    "'p download_env \<Rightarrow> download_request \<Rightarrow> checkpoint_entry \<Rightarrow> 'p download_world \<Rightarrow> bool" where
  "found_published env r c w \<longleftrightarrow>
     dw_checkpoint w = c \<and> dw_target w \<noteq> Absent \<and> recorded env r (dw_target w) w"

lemma existing_target_triple:
  "triple (\<lambda>w. state_read c w \<and> dw_target w \<noteq> Absent) (existing_target env r)
     (\<lambda>n w. n = size_of r \<and> found_published env r c w) (\<lambda>w. dw_target w \<noteq> Absent)"
  unfolding triple_def
proof (intro allI impI)
  fix w :: "'a download_world"
  assume w: "state_read c w \<and> dw_target w \<noteq> Absent"
  let ?Q = "\<lambda>res. case res of (Inl e, w') \<Rightarrow> dw_target w' \<noteq> Absent
      | (Inr n, w') \<Rightarrow> n = size_of r \<and> found_published env r c w'"
  have remove: "?Q (thenA (remove_partial env) (retA (size_of r)) w)"
    if "ck_identity (dw_memory w) = Some (fingerprint env r)" "ck_published (dw_memory w) = Some ident"
      "entry_identity env (dw_target w) w = Inr ident" for ident
  proof -
    have c: "dw_checkpoint w = Checkpoint (dw_memory w)" "c = Checkpoint (dw_memory w)"
      using w that(1) by (cases "dw_checkpoint w"; auto simp: state_read_def no_state_def)+
    show ?thesis using w that c
      by (auto simp: remove_partial_def bindA_def dio_def retA_def found_published_def recorded_def
          entry_identity_def content_of_def split: option.splits dir_entry.splits)
  qed
  have branch: "?Q (case thenA (dio env IoStat) (\<lambda>w. (entry_identity env (dw_target w') w, w)) w of
        (Inl e, w1) \<Rightarrow> (Inl e, w1)
      | (Inr ident, w1) \<Rightarrow> if ck_published (dw_memory w1) = Some ident
          then thenA (remove_partial env) (retA (size_of r)) w1
          else (Inl (download_exn ''exists''), w1))"
    if id: "ck_identity (dw_memory w) = Some (fingerprint env r)" and [simp]: "w' = w" for w'
  proof (cases "dl_io env IoStat w")
    case (Some e)
    then show ?thesis using w by (simp add: bindA_def dio_def)
  next
    case None
    then show ?thesis using w remove [OF id]
      by (cases "entry_identity env (dw_target w) w") (auto simp: bindA_def dio_def)
  qed
  show "?Q (existing_target env r w)"
    using w branch [OF _ refl] unfolding existing_target_def by (cases "dw_target w") auto
qed

lemma read_checkpoint_triple:
  "triple (\<lambda>w. dw_partial w = InodeEntry i \<and> digests_sound env r w \<and> dw_checkpoint w = c)
     (read_checkpoint env)
     (\<lambda>_ w. dw_partial w = InodeEntry i \<and> digests_sound env r w \<and> state_read c w)
     (digests_sound env r)"
  by (auto simp: triple_def read_checkpoint_def bindA_def dio_def modify_memory_def state_read_def
      digests_sound_def split: option.splits checkpoint_entry.splits)

lemma download_locked_triple:
  assumes "calm env" and "0 \<le> size_of r"
  shows "triple (\<lambda>w. dw_partial w = InodeEntry i \<and> digests_sound env r w \<and> dw_checkpoint w = c)
     (download_locked env r i deadline)
     (\<lambda>n w. n = size_of r \<and> (published env r i w \<or> found_published env r c w))
     (sound_if_written env r)"
proof -
  let ?P = "\<lambda>w. dw_partial w = InodeEntry i \<and> digests_sound env r w \<and> dw_checkpoint w = c"
  let ?R = "\<lambda>w. dw_partial w = InodeEntry i \<and> digests_sound env r w \<and> state_read c w"
  let ?Q = "\<lambda>n w. n = size_of r \<and> (published env r i w \<or> found_published env r c w)"
  have stable: "stable ?P"
    using stableD [OF digests_sound_stable] bystander_same(1,3) unfolding stable_def by metis
  have fresh: "triple (\<lambda>w. ?R w \<and> \<not> dw_target w \<noteq> Absent)
      (thenA (prepare_partial env r i) (thenA (write_checkpoint env)
         (finallyA (transfer_content env r i deadline) (save_progress env)))) ?Q (sound_if_written env r)"
  proof -
    have "triple (partial_sound env r i) (finallyA (transfer_content env r i deadline) (save_progress env))
        ?Q (sound_if_written env r)"
    proof (rule finally_triple [OF transfer_content_triple [OF assms(1)]])
      show "triple (\<lambda>w. x = size_of r \<and> published env r i w) (save_progress env) (\<lambda>_. ?Q x)
          (sound_if_written env r)" for x
      proof (cases "x = size_of r")
        case True
        show ?thesis by (rule triple_conseq [OF save_progress_triple(2)]) (auto simp: True)
      qed (simp add: triple_def)
    qed (rule save_progress_triple(1))
    then have "triple (\<lambda>w. ?R w \<and> \<not> dw_target w \<noteq> Absent)
      (thenA (thenA (prepare_partial env r i) (write_checkpoint env))
         (finallyA (transfer_content env r i deadline) (save_progress env))) ?Q (sound_if_written env r)"
      by (intro triple_then [OF triple_conseq [OF prepared_triple [OF assms(2)]]])
        (auto simp: to_prepare_def state_read_def)
    then show ?thesis by (simp add: bindA_assoc)
  qed
  have old: "triple (\<lambda>w. ?R w \<and> dw_target w \<noteq> Absent) (existing_target env r) ?Q (sound_if_written env r)"
    by (rule triple_conseq [OF existing_target_triple [of c]]) (auto simp: digests_sound_def)
  have read: "triple ?P (read_checkpoint env) (\<lambda>_. ?R) (sound_if_written env r)"
    by (rule triple_conseq [OF read_checkpoint_triple [of i env r c]]) auto
  have probed: "triple ?P (probe env) (\<lambda>_. ?P) (sound_if_written env r)"
    by (rule triple_others [OF calm_probe [OF assms(1)] stable]) simp
  show ?thesis
    unfolding download_locked_def
    by (rule triple_then [OF probed triple_then [OF read triple_cond [OF old fresh]]])
qed

lemma open_partial_sound:
  assumes "digests_sound env r w" and "open_partial env w = (res, w1)"
  shows "digests_sound env r w1" and "dw_checkpoint w1 = dw_checkpoint w"
    and "dw_memory w1 = dw_memory w"
  using assms
  by (auto simp: open_partial_def bindA_def dio_def digests_sound_def set_content_def Let_def
      split: option.splits dir_entry.splits)

lemma stream_download_ends:
  assumes "calm env" and "digests_sound env r w"
  shows "case stream_download env r w of
      (Inl e, w') \<Rightarrow> writes_ok env \<longrightarrow> digests_sound env r w'
    | (Inr n, w') \<Rightarrow> n = size_of r \<and>
        ((\<exists>i. published env r i w') \<or> found_published env r (dw_checkpoint w) w')"
proof -
  let ?body = "\<lambda>i w. if dl_locked env w then (Inl (download_exn ''locked''), w)
      else download_locked env r i (dl_clock env w + 8 * dl_second env) w"
  let ?ends = "\<lambda>res. case res of
      (Inl e, w') \<Rightarrow> writes_ok env \<longrightarrow> digests_sound env r w'
    | (Inr n, w') \<Rightarrow> n = size_of r \<and>
        ((\<exists>i. published env r i w') \<or> found_published env r (dw_checkpoint w) w')"
  obtain res w1 where opened: "open_partial env w = (res, w1)" by fastforce
  note w1 = open_partial_sound [OF assms(2) opened]
  have body: "?ends (?body i w1)" if "0 \<le> size_of r" and "res = Inr i" for i
  proof (cases "dl_locked env w1")
    case True
    then show ?thesis using w1 by simp
  next
    case False
    have "dw_partial w1 = InodeEntry i \<and> digests_sound env r w1 \<and> dw_checkpoint w1 = dw_checkpoint w"
      using w1 open_partial_runs(2) [OF assms(1) opened that(2)] by simp
    note ended = tripleD [OF download_locked_triple [OF assms(1) that(1)] this]
    have "?ends (download_locked env r i deadline w1)" for deadline
      using ended [of deadline] by (auto split: prod.splits sum.splits)
    with False show ?thesis by simp
  qed
  have "?ends (thenA (dio env IoMkdir) (bindA (open_partial env) ?body) w)" if "0 \<le> size_of r"
    using opened body [OF that] assms(2) w1(1)
    by (cases res) (auto simp: bindA_def dio_def split: option.splits)
  moreover have "0 \<le> size_of r" if "dq_size r \<noteq> None" "case dq_size r of None \<Rightarrow> False | Some n \<Rightarrow> 0 \<le> n"
    using that by (auto simp: size_of_def)
  ultimately show ?thesis
    unfolding stream_download_def using assms(2)
    by (cases "dq_size r"; cases "validate_download_url (dl_netloc_ok env) (dq_url r)")
      (auto simp: raiseA_def require_def)
qed

end
