(* ===== verification/DownloadService.thy ===== *)
theory DownloadService
  imports DownloadStream TransferHandler ExecutionGate
begin

text \<open>
  Download tasks (\<open>app/services/download_service.py\<close>): where a download may be written, one call of
  a task with the outcome of every way it ends, and the path of version 0.1 that runs one pending
  task.  The state of a download holds the world of the task handlers and the time of the last
  message in \<open>dw_rest\<close>.
\<close>

section \<open>Destinations\<close>

text \<open>
  What the file system shows: whether the root is a directory, its path and that of a file below it
  with the links followed, and which paths are links.  Absolute paths are the lists of their parts.
\<close>

record path_view =
  pv_is_dir :: "string \<Rightarrow> bool"
  pv_root :: "string \<Rightarrow> string list"
  pv_is_symlink :: "string list \<Rightarrow> bool"
  pv_resolve :: "string list \<Rightarrow> string list"

definition RESERVED_SUFFIXES :: "string list" where
  "RESERVED_SUFFIXES = [''.mediasync.part'', ''.mediasync.json'', ''.mediasync.json.tmp'']"

definition reserved_name :: "string \<Rightarrow> bool" where
  "reserved_name part \<longleftrightarrow>
     take 1 part = ''.'' \<and> list_ex (\<lambda>suffix. removesuffix suffix part \<noteq> part) RESERVED_SUFFIXES"

definition destination_path :: "path_view \<Rightarrow> string \<Rightarrow> string \<Rightarrow> exn + string list" where
  "destination_path view root relative =
     (let path = parse_path relative; parts = path_parts path; base = pv_root view root;
          target = base @ parts in
      if relative = [] \<or> pp_root path \<noteq> [] \<or> list_ex (\<lambda>x. x \<in> {''..'', ''.''}) (split_slash relative)
      then Inl (download_exn ''relative path'')
      else if char_of (92 :: nat) \<in> set relative \<or> char_of (0 :: nat) \<in> set relative
      then Inl (download_exn ''characters'')
      else if list_ex reserved_name parts then Inl (download_exn ''reserved name'')
      else if \<not> pv_is_dir view root then Inl (download_exn ''root'')
      else if list_ex (\<lambda>n. pv_is_symlink view (base @ take n parts)) [1..<length parts + 1]
      then Inl (download_exn ''link'')
      else if take (length base) (pv_resolve view target) \<noteq> base then Inl (download_exn ''outside'')
      else Inr target)"

section \<open>The state and the services of a task\<close>

record 'p download_service_state =
  sv_world :: "'p world"
  sv_last_progress :: int

type_synonym 'p service_world = "'p download_service_state download_world"

text \<open>A provider of PikPak: its download address, and the token that was rotated meanwhile.\<close>

record 's address_provider =
  ap_get_url :: "string \<Rightarrow> ('s, string) act"
  ap_consume_token :: "'s \<Rightarrow> string option \<times> 's"

text \<open>
  \<open>se_stream\<close> is what \<open>stream_download\<close> is given beside its arguments, for the directory that a
  target is in; \<open>se_stat\<close> is \<open>root.stat()\<close>, and \<open>se_second\<close> a second of \<open>se_monotonic\<close>.
\<close>

record 'p service_env =
  se_stream :: "string list \<Rightarrow> 'p download_service_state download_env"
  se_paths :: "'p service_world \<Rightarrow> path_view"
  se_expanduser :: "string \<Rightarrow> string"
  se_stat :: "'p service_world \<Rightarrow> string \<Rightarrow> exn + int \<times> int"
  se_download_root :: string
  se_chunk_bytes :: int
  se_rate_limit_kib :: int
  se_provider :: "string \<Rightarrow> string \<Rightarrow> exn + 'p service_world address_provider"
  se_decrypt :: "string \<Rightarrow> exn + string"
  se_encrypt :: "string \<Rightarrow> exn + string"
  se_enter :: "('p service_world, unit) act"
  se_now :: "'p service_world \<Rightarrow> datetime"
  se_marker :: "'p service_world \<Rightarrow> marker_file"
  se_monotonic :: "'p service_world \<Rightarrow> int"
  se_second :: int

text \<open>The context of the worker: the token of the lease, and whether the task is cancelled.\<close>

record 's task_context =
  tc_lock_token :: string
  tc_cancelled :: "('s, bool) act"

definition world_of :: "'p service_world \<Rightarrow> 'p world" where
  "world_of w = sv_world (dw_rest w)"

definition on_world :: "('p world, 'a) act \<Rightarrow> ('p service_world, 'a) act" where
  "on_world m w =
     (case m (world_of w) of (res, x) \<Rightarrow> (res, w\<lparr>dw_rest := (dw_rest w)\<lparr>sv_world := x\<rparr>\<rparr>))"

text \<open>\<open>str\<close> of a value of a payload.\<close>

fun py_json :: "json \<Rightarrow> string" and py_item :: "string \<times> json \<Rightarrow> string" where
  "py_json JNull = ''None''"
| "py_json (JBool b) = (if b then ''True'' else ''False'')"
| "py_json (JInt n) = int_str n"
| "py_json (JStr s) = py_repr s"
| "py_json (JList xs) = ''['' @ intercalate '', '' (map py_json xs) @ '']''"
| "py_json (JObj m) = ''{'' @ intercalate '', '' (map py_item m) @ ''}''"
| "py_item (k, v) = py_repr k @ '': '' @ py_json v"

definition py_str :: "json \<Rightarrow> string" where
  "py_str j = (case j of JStr s \<Rightarrow> s | _ \<Rightarrow> py_json j)"

section \<open>Loading\<close>

record download_job =
  dj_relative :: string
  dj_root :: string
  dj_root_identity :: json
  dj_target :: "string list"
  dj_size :: "int option"
  dj_hash :: "string option"
  dj_remote_id :: string
  dj_account_id :: int
  dj_credential :: string
  dj_provider :: string

text \<open>\<open>guard\<close>: the root is the directory that was chosen, and the destination still allowed.\<close>

definition check_root :: "'p service_env \<Rightarrow> string \<Rightarrow> json \<Rightarrow> string \<Rightarrow> ('p service_world, unit) act" where
  "check_root env root root_identity relative w =
     (case se_stat env w root of
        Inl e \<Rightarrow> (Inl e, w)
      | Inr (dev, ino) \<Rightarrow>
          if truthy root_identity \<and> root_identity \<noteq> JList [JInt dev, JInt ino]
          then (Inl (download_exn ''root changed''), w)
          else (case destination_path (se_paths env w) root relative of
                  Inl e \<Rightarrow> (Inl e, w)
                | Inr _ \<Rightarrow> (Inr (), w)))"

definition payload_relative :: "task \<Rightarrow> string" where
  "payload_relative t =
     (case map_of (t_payload t) ''relative_path'' of None \<Rightarrow> [] | Some j \<Rightarrow> py_str j)"

definition payload_root :: "'p service_env \<Rightarrow> task \<Rightarrow> string" where
  "payload_root env t =
     se_expanduser env
       (if truthy (jget (t_payload t) ''root'') then py_str (jget (t_payload t) ''root'')
        else se_download_root env)"

text \<open>The task with its file, its subscription and the account.\<close>

definition download_rows :: "'p world \<Rightarrow> int \<Rightarrow> (task \<times> cloud_file \<times> cloud_account) option" where
  "download_rows x task_id =
     Option.bind (get_task (wo_db x) task_id) (\<lambda>t.
     Option.bind (Option.bind (t_file_id t) (get_file (wo_db x))) (\<lambda>f.
     Option.bind (Option.bind (t_subscription_id t) (get_subscription (wo_db x))) (\<lambda>s.
     Option.bind (first_row (\<lambda>a. ca_id a = s_cloud_account_id s) (wo_accounts x)) (\<lambda>a.
     Some (t, f, a)))))"

definition load_download :: "'p service_env \<Rightarrow> int \<Rightarrow> ('p service_world, download_job) act" where
  "load_download env task_id w =
     (case download_rows (world_of w) task_id of
        None \<Rightarrow> (Inl (download_exn ''no record''), w)
      | Some (t, f, a) \<Rightarrow>
          if ca_provider a \<noteq> ''pikpak'' \<or> f_status f \<noteq> ''saved'' \<or> \<not> is_set (f_target_file_id f)
          then (Inl (download_exn ''not saved''), w)
          else
            let root = payload_root env t; relative = payload_relative t;
                identity = jget (t_payload t) ''root_identity'' in
            (case destination_path (se_paths env w) root relative of
               Inl e \<Rightarrow> (Inl e, w)
             | Inr target \<Rightarrow>
                 thenA (check_root env root identity relative)
                   (retA \<lparr>dj_relative = relative, dj_root = root, dj_root_identity = identity,
                          dj_target = target, dj_size = f_size f, dj_hash = f_content_hash f,
                          dj_remote_id = coalesce (f_target_file_id f) [], dj_account_id = ca_id a,
                          dj_credential = ca_refresh_token a, dj_provider = ca_provider a\<rparr>) w))"

definition make_provider ::
    "'p service_env \<Rightarrow> download_job \<Rightarrow> exn + 'p service_world address_provider" where
  "make_provider env job =
     bindR (se_decrypt env (dj_credential job)) (\<lambda>token. se_provider env (dj_provider job) token)"

section \<open>The address\<close>

definition store_token :: "'p service_env \<Rightarrow> download_job \<Rightarrow> string \<Rightarrow> ('p service_world, unit) act" where
  "store_token env job rotated =
     (case se_encrypt env rotated of
        Inl e \<Rightarrow> raiseA e
      | Inr encrypted \<Rightarrow>
          thenA (se_enter env)
            (on_world (\<lambda>x. (Inr (), x\<lparr>wo_accounts :=
               update_rows (\<lambda>a. ca_id a = dj_account_id job \<and> ca_refresh_token a = dj_credential job)
                 (\<lambda>a. a\<lparr>ca_refresh_token := encrypted\<rparr>) (wo_accounts x)\<rparr>))))"

definition keep_rotated_token ::
    "'p service_env \<Rightarrow> download_job \<Rightarrow> 'p service_world address_provider \<Rightarrow> ('p service_world, unit) act" where
  "keep_rotated_token env job provider w =
     (case ap_consume_token provider w of (rotated, w1) \<Rightarrow>
        if is_set rotated then store_token env job (coalesce rotated []) w1 else (Inr (), w1))"

definition download_address ::
    "'p service_env \<Rightarrow> download_job \<Rightarrow> 'p service_world address_provider \<Rightarrow> ('p service_world, string) act" where
  "download_address env job provider =
     finallyA (ap_get_url provider (dj_remote_id job)) (keep_rotated_token env job provider)"

section \<open>While it runs\<close>

definition cancel_seen ::
    "'p service_env \<Rightarrow> 'p service_world task_context option \<Rightarrow> int \<Rightarrow> ('p service_world, bool) act" where
  "cancel_seen env ctx task_id =
     (case ctx of
        Some c \<Rightarrow> tc_cancelled c
      | None \<Rightarrow>
          thenA (se_enter env)
            (\<lambda>w. (Inr (case get_task (wo_db (world_of w)) task_id of
                         None \<Rightarrow> True | Some t \<Rightarrow> t_status t = CancelRequested), w)))"

text \<open>The message of the task, at most once in a second, and at the end.\<close>

definition report_progress ::
    "'p service_env \<Rightarrow> 'p service_world task_context option \<Rightarrow> int \<Rightarrow> int option \<Rightarrow> int \<Rightarrow>
     ('p service_world, unit) act" where
  "report_progress env ctx task_id expected count w =
     (let now = se_monotonic env w in
      if now - sv_last_progress (dw_rest w) < se_second env \<and> Some count \<noteq> expected then (Inr (), w)
      else
        thenA (se_enter env) (\<lambda>w1.
          case get_task (wo_db (world_of w1)) task_id of
            None \<Rightarrow> (Inr (), w1)
          | Some t \<Rightarrow>
              if (case ctx of None \<Rightarrow> True | Some c \<Rightarrow> t_lock_token t = Some (tc_lock_token c))
              then on_world (flush_task (se_now env w1) t
                     (t\<lparr>t_message := Some (''downloading '' @ int_str count)\<rparr>)) w1
              else (Inr (), w1))
          (w\<lparr>dw_rest := (dw_rest w)\<lparr>sv_last_progress := now\<rparr>\<rparr>))"

definition stream_env ::
    "'p service_env \<Rightarrow> 'p service_world task_context option \<Rightarrow> int \<Rightarrow> download_job \<Rightarrow>
     'p download_service_state download_env" where
  "stream_env env ctx task_id job =
     (se_stream env (dj_target job))
       \<lparr>dl_cancelled := cancel_seen env ctx task_id,
        dl_guard := Some (check_root env (dj_root job) (dj_root_identity job) (dj_relative job)),
        dl_progress := report_progress env ctx task_id (dj_size job)\<rparr>"

definition stream_request :: "'p service_env \<Rightarrow> download_job \<Rightarrow> string \<Rightarrow> download_request" where
  "stream_request env job url =
     \<lparr>dq_url = url, dq_size = dj_size job,
      dq_identity = Some (int_str (dj_account_id job) @ '':'' @ dj_remote_id job),
      dq_hash = dj_hash job, dq_chunk = Some (se_chunk_bytes env),
      dq_rate = se_rate_limit_kib env * 1024\<rparr>"

section \<open>Outcomes\<close>

definition failed_download :: "string option \<Rightarrow> string \<Rightarrow> task_outcome" where
  "failed_download code msg =
     \<lparr>o_status = OutFailed, o_summary = None, o_error_code = code, o_error_message = Some msg,
      o_metrics = None, o_retry_after = None, o_blocked_reason = None\<rparr>"

definition downloaded :: "int \<Rightarrow> task_outcome" where
  "downloaded count =
     \<lparr>o_status = OutSuccess, o_summary = Some (''downloaded '' @ int_str count), o_error_code = None,
      o_error_message = None, o_metrics = None, o_retry_after = None, o_blocked_reason = None\<rparr>"

definition deferred_download :: "int \<Rightarrow> task_outcome" where
  "deferred_download count =
     \<lparr>o_status = OutDeferred, o_summary = Some (''saved '' @ int_str count), o_error_code = None,
      o_error_message = None,
      o_metrics = Some [(''continuation'', JBool True), (''downloaded_bytes'', JInt count)],
      o_retry_after = Some (seconds 1), o_blocked_reason = None\<rparr>"

definition credential_required :: "exn \<Rightarrow> task_outcome" where
  "credential_required e =
     \<lparr>o_status = OutWaitingCredential, o_summary = None, o_error_code = e_code e,
      o_error_message = Some (e_message e), o_metrics = None, o_retry_after = None,
      o_blocked_reason = Some ''PikPak credential requires user action''\<rparr>"

definition cancelled_download :: task_outcome where
  "cancelled_download =
     \<lparr>o_status = OutCancelled, o_summary = Some ''cancelled'', o_error_code = None,
      o_error_message = None, o_metrics = None, o_retry_after = None, o_blocked_reason = None\<rparr>"

text \<open>The clauses of the \<open>try\<close>, in their order.\<close>

definition download_outcome :: "exn + int \<Rightarrow> task_outcome" where
  "download_outcome res =
     (case res of
        Inr count \<Rightarrow> downloaded count
      | Inl e \<Rightarrow>
          if e_class e = CNamed ''DownloadDeferred'' then deferred_download (deferred_count e)
          else if e_class e = CPikPakCredential then credential_required e
          else if is_pikpak_error (e_class e) then failed_download (e_code e) (e_message e)
          else if e_class e = CNamed ''CancelledError'' then cancelled_download
          else if e_class e = CNamed ''DownloadError'' then failed_download (Some ''DOWNLOAD_FAILED'') (e_message e)
          else if e_class e = COSError then failed_download (Some ''DOWNLOAD_IO_ERROR'') ''write failed''
          else failed_download (Some ''DOWNLOAD_REQUEST_FAILED'') ''request failed'')"

definition run_download ::
    "'p service_env \<Rightarrow> 'p service_world task_context option \<Rightarrow> int \<Rightarrow> ('p service_world, int) act" where
  "run_download env ctx task_id =
     thenA (se_enter env)
    (bindA (load_download env task_id) (\<lambda>job.
     case make_provider env job of
       Inl e \<Rightarrow> raiseA e
     | Inr provider \<Rightarrow>
         bindA (download_address env job provider) (\<lambda>url.
           stream_download (stream_env env ctx task_id job) (stream_request env job url))))"

definition execute_download ::
    "'p service_env \<Rightarrow> 'p service_world task_context option \<Rightarrow> int \<Rightarrow> 'p service_world \<Rightarrow>
     task_outcome \<times> 'p service_world" where
  "execute_download env ctx task_id w =
     (case run_download env ctx task_id (w\<lparr>dw_rest := (dw_rest w)\<lparr>sv_last_progress := 0\<rparr>\<rparr>) of
        (res, w') \<Rightarrow> (download_outcome res, w'))"

section \<open>The path of version 0.1\<close>

text \<open>
  Without a lease: the task is marked running, and its slot is free again after every call.  What is
  written is the row as the session sees it, \<open>UPDATE\<close> with the constraints of the table.
\<close>

definition next_download :: "datetime \<Rightarrow> db \<Rightarrow> task option" where
  "next_download now d =
     select_one t_id
       (\<lambda>t. t_type t = ''download'' \<and> t_status t = Pending \<and>
            (case t_next_attempt_at t of None \<Rightarrow> True | Some due \<Rightarrow> due \<le> now)) (db_tasks d)"

definition start_download :: "'p service_env \<Rightarrow> ('p service_world, int option) act" where
  "start_download env =
     thenA (se_enter env) (\<lambda>w.
       if gate_blocked (se_marker env w) (wo_db (world_of w)) then (Inr None, w)
       else case next_download (se_now env w) (wo_db (world_of w)) of
              None \<Rightarrow> (Inr None, w)
            | Some t \<Rightarrow>
                thenA (on_world (flush_task (se_now env w) t
                         (t\<lparr>t_status := Running, t_started_at := Some (se_now env w),
                            t_attempt_count := t_attempt_count t + 1,
                            t_message := Some ''fetching the address''\<rparr>)))
                  (retA (Some (t_id t))) w)"

fun legacy_status :: "outcome_status \<Rightarrow> task_status" where
  "legacy_status OutDeferred = Pending"
| "legacy_status OutSuccess = Success"
| "legacy_status OutRetry = Retry"
| "legacy_status OutFailed = Failed"
| "legacy_status OutWaitingCredential = WaitingCredential"
| "legacy_status OutCancelled = Cancelled"

definition or_else :: "string option \<Rightarrow> string option \<Rightarrow> string option" where
  "or_else a b = (if is_set a then a else b)"

definition settled_download :: "task_outcome \<Rightarrow> datetime \<Rightarrow> task \<Rightarrow> task" where
  "settled_download result now t =
     (let oc = (if t_status t = CancelRequested \<and> o_status result = OutDeferred
                then cancelled_download\<lparr>o_summary := Some ''cancelled, kept''\<rparr> else result);
          again = o_status oc = OutDeferred in
      t\<lparr>t_status := legacy_status (o_status oc),
        t_next_attempt_at := (if again then Some (now + seconds 1) else None),
        t_message := or_else (o_summary oc) (o_error_message oc), t_error_code := o_error_code oc,
        t_finished_at := (if again then None else Some now)\<rparr>)"

definition settle_download ::
    "'p service_env \<Rightarrow> int \<Rightarrow> task_outcome \<Rightarrow> ('p service_world, unit) act" where
  "settle_download env task_id result =
     thenA (se_enter env) (\<lambda>w.
       case get_task (wo_db (world_of w)) task_id of
         None \<Rightarrow> (Inr (), w)
       | Some t \<Rightarrow>
           on_world (flush_task (se_now env w) t (settled_download result (se_now env w) t)) w)"

definition process_pending_downloads :: "'p service_env \<Rightarrow> ('p service_world, unit) act" where
  "process_pending_downloads env =
     bindA (start_download env) (\<lambda>started. case started of
       None \<Rightarrow> retA ()
     | Some task_id \<Rightarrow>
         (\<lambda>w. case execute_download env None task_id w of
               (result, w1) \<Rightarrow> settle_download env task_id result w1))"

end
