(* ===== verification/DownloadTaskProofs.thy ===== *)
theory DownloadTaskProofs
  imports DownloadContent DownloadService
begin

text \<open>
  What a download task leaves: the calls of the database, of the provider and of the worker around
  \<open>stream_download\<close> touch no file of the download, so what holds of it holds of the task.
\<close>

section \<open>The surroundings of a task\<close>

definition service_calm :: "'p service_env \<Rightarrow> 'p service_world task_context option \<Rightarrow> bool" where
  "service_calm env ctx \<longleftrightarrow>
     keeps bystander (se_enter env) \<and>
     (\<forall>c. ctx = Some c \<longrightarrow> keeps bystander (tc_cancelled c)) \<and>
     (\<forall>kind token p. se_provider env kind token = Inr p \<longrightarrow>
        (\<forall>x. keeps bystander (ap_get_url p x)) \<and> (\<forall>w. bystander w (snd (ap_consume_token p w)))) \<and>
     (\<forall>target. calm (se_stream env target))"

lemma bystander_rest: "bystander w (w\<lparr>dw_rest := x\<rparr>)"
  by (simp add: bystander_def target_kept_def)

lemma on_world_keeps: "keeps bystander (on_world m)"
  by (rule keepsI) (simp add: on_world_def bystander_rest split: prod.splits)

lemma same_keeps: "(\<And>w. snd (m w) = w) \<Longrightarrow> keeps bystander m"
  by (rule keepsI) (simp add: others.R_refl)

lemma check_root_same: "snd (check_root env root identity relative w) = w"
  by (simp add: check_root_def split: sum.splits prod.splits)

lemma load_download_same: "snd (load_download env task_id w) = w"
proof -
  have "snd (thenA (check_root env root identity relative) (retA job) w) = w"
    for root identity relative and job :: download_job
    using check_root_same [of env root identity relative w]
    by (auto simp: bindA_def retA_def split: prod.splits sum.splits)
  then show ?thesis
    by (simp add: load_download_def Let_def split: option.splits prod.splits sum.splits)
qed

lemma cancel_seen_keeps: "service_calm env ctx \<Longrightarrow> keeps bystander (cancel_seen env ctx task_id)"
  unfolding cancel_seen_def service_calm_def
  by (cases ctx) (simp_all, elim conjE, rule others.keeps_bind, simp, rule same_keeps, simp)

lemma report_progress_keeps:
  assumes "service_calm env ctx"
  shows "keeps bystander (report_progress env ctx task_id expected n)"
proof -
  have wrote: "keeps bystander (\<lambda>w1. case get_task (wo_db (world_of w1)) task_id of
            None \<Rightarrow> (Inr (), w1)
          | Some t \<Rightarrow>
              if (case ctx of None \<Rightarrow> True | Some c \<Rightarrow> t_lock_token t = Some (tc_lock_token c))
              then on_world (flush_task (se_now env w1) t
                     (t\<lparr>t_message := Some (''downloading '' @ int_str n)\<rparr>)) w1
              else (Inr (), w1))"
    using on_world_keeps by (auto simp: keeps_def others.R_refl split: option.splits)
  have "keeps bystander (thenA (se_enter env) (\<lambda>w1. case get_task (wo_db (world_of w1)) task_id of
            None \<Rightarrow> (Inr (), w1)
          | Some t \<Rightarrow>
              if (case ctx of None \<Rightarrow> True | Some c \<Rightarrow> t_lock_token t = Some (tc_lock_token c))
              then on_world (flush_task (se_now env w1) t
                     (t\<lparr>t_message := Some (''downloading '' @ int_str n)\<rparr>)) w1
              else (Inr (), w1)))"
    using assms wrote by (intro others.keeps_bind) (simp_all add: service_calm_def)
  then show ?thesis
    unfolding report_progress_def Let_def
    by (intro keepsI) (auto simp: keeps_def others.R_refl intro: others.R_trans [OF bystander_rest])
qed

lemma stream_env_calm:
  assumes "service_calm env ctx"
  shows "calm (stream_env env ctx task_id job)"
proof -
  have "calm (se_stream env (dj_target job))" using assms by (simp add: service_calm_def)
  then show ?thesis
    using cancel_seen_keeps [OF assms] report_progress_keeps [OF assms] same_keeps [OF check_root_same]
    by (simp add: calm_def stream_env_def)
qed

lemma download_address_keeps:
  assumes "service_calm env ctx" and "make_provider env job = Inr provider"
  shows "keeps bystander (download_address env job provider)"
proof -
  have provider: "keeps bystander (ap_get_url provider x)" "bystander w (snd (ap_consume_token provider w))" for x w
    using assms unfolding service_calm_def make_provider_def by fastforce+
  have "keeps bystander (store_token env job rotated)" for rotated
    using assms(1) on_world_keeps unfolding store_token_def service_calm_def
    by (auto intro!: others.keeps_bind split: sum.splits)
  then have "keeps bystander (keep_rotated_token env job provider)"
    unfolding keep_rotated_token_def using provider(2)
    by (intro keepsI) (auto simp: keeps_def split: prod.splits; metis others.R_trans snd_conv)
  with provider(1) show ?thesis unfolding download_address_def by (rule others.keeps_finally)
qed

section \<open>The call of a task\<close>

text \<open>Either nothing was downloaded, or \<open>stream_download\<close> ran behind steps that leave its files alone.\<close>

lemma run_download_cases:
  assumes "service_calm env ctx" and "run_download env ctx task_id w = (res, w')"
  obtains (before) e where "res = Inl e" and "bystander w w'"
  | (streamed) job url w1 where "bystander w w1"
      and "stream_download (stream_env env ctx task_id job) (stream_request env job url) w1 = (res, w')"
proof -
  obtain entered w1 where enter: "se_enter env w = (entered, w1)" by fastforce
  have kept: "bystander w w1"
    using assms(1) enter unfolding service_calm_def keeps_def by (metis snd_conv)
  show thesis
  proof (cases entered)
    case (Inl e)
    with assms(2) enter show thesis
      by (intro before [of e]) (use kept in \<open>auto simp: run_download_def bindA_def\<close>)
  next
    case (Inr u)
    obtain loaded w2 where load: "load_download env task_id w1 = (loaded, w2)" by fastforce
    with load_download_same have [simp]: "w2 = w1" by (metis snd_conv)
    show thesis
    proof (cases loaded)
      case (Inl e)
      with assms(2) enter load \<open>entered = Inr u\<close> show thesis
        by (intro before [of e]) (use kept in \<open>auto simp: run_download_def bindA_def\<close>)
    next
      case (Inr job)
      note job = this
      show thesis
      proof (cases "make_provider env job")
        case (Inl e)
        with assms(2) enter load job \<open>entered = Inr u\<close> show thesis
          by (intro before [of e]) (use kept in \<open>auto simp: run_download_def bindA_def raiseA_def\<close>)
      next
        case (Inr provider)
        obtain address w3 where addr: "download_address env job provider w1 = (address, w3)" by fastforce
        with download_address_keeps [OF assms(1) Inr] have kept3: "bystander w w3"
          unfolding keeps_def using kept by (metis others.R_trans snd_conv)
        note steps = enter load job \<open>entered = Inr u\<close> Inr addr
        show thesis
        proof (cases address)
          case (Inl e)
          with assms(2) steps show thesis
            by (intro before [of e]) (use kept3 in \<open>auto simp: run_download_def bindA_def\<close>)
        next
          case (Inr url)
          with assms(2) steps show thesis
            by (intro streamed [OF kept3, of job url]) (auto simp: run_download_def bindA_def)
        qed
      qed
    qed
  qed
qed

lemma download_outcome_valid: "outcome_valid (download_outcome res)" "o_status (download_outcome res) \<noteq> OutRetry"
  by (auto simp: download_outcome_def outcome_valid_def downloaded_def deferred_download_def
      credential_required_def failed_download_def cancelled_download_def seconds_def split: sum.splits)

lemma download_outcome_success: "o_status (download_outcome res) = OutSuccess \<Longrightarrow> \<exists>n. res = Inr n"
  by (auto simp: download_outcome_def deferred_download_def credential_required_def failed_download_def
      cancelled_download_def split: sum.splits if_splits)

lemma digests_sound_rest [simp]:
  "digests_sound env r (w\<lparr>dw_rest := x\<rparr>) = digests_sound env r w"
  by (simp add: digests_sound_def content_of_def)

lemma execute_download_ends:
  assumes "service_calm env ctx" and "execute_download env ctx task_id w = (result, w')"
  shows "target_kept w w'" and "outcome_valid result" and "o_status result \<noteq> OutRetry"
    and "o_status result = OutSuccess \<Longrightarrow>
      (\<And>job url. digests_sound (stream_env env ctx task_id job) (stream_request env job url) w) \<Longrightarrow>
      \<exists>job url. dw_target w' \<noteq> Absent \<and>
        recorded (stream_env env ctx task_id job) (stream_request env job url) (dw_target w') w'"
proof -
  let ?w = "w\<lparr>dw_rest := (dw_rest w)\<lparr>sv_last_progress := 0\<rparr>\<rparr>"
  obtain res where run: "run_download env ctx task_id ?w = (res, w')" and result: "result = download_outcome res"
    using assms(2) by (auto simp: execute_download_def split: prod.splits)
  show "outcome_valid result" "o_status result \<noteq> OutRetry"
    by (simp_all add: result download_outcome_valid)
  have start: "bystander w ?w" by (rule bystander_rest)
  from assms(1) run show "target_kept w w'"
  proof (cases rule: run_download_cases)
    case (before e)
    with start show ?thesis by (blast intro: bystander_target others.R_trans)
  next
    case (streamed job url w1)
    from stream_download_target [OF stream_env_calm [OF assms(1)], of w1] streamed(2)
    have "target_kept w1 w'" by (metis snd_conv)
    moreover have "target_kept w w1" using streamed(1) start by (blast intro: bystander_target others.R_trans)
    ultimately show ?thesis by (blast intro: target_kept_trans)
  qed
  assume "o_status result = OutSuccess"
    and sound: "\<And>job url. digests_sound (stream_env env ctx task_id job) (stream_request env job url) w"
  then obtain n where n: "res = Inr n" using result download_outcome_success by blast
  from assms(1) run show "\<exists>job url. dw_target w' \<noteq> Absent \<and>
        recorded (stream_env env ctx task_id job) (stream_request env job url) (dw_target w') w'"
  proof (cases rule: run_download_cases)
    case (before e)
    with n show ?thesis by simp
  next
    case (streamed job url w1)
    have "digests_sound (stream_env env ctx task_id job) (stream_request env job url) w1"
      by (rule stableD [OF digests_sound_stable _ streamed(1)]) (simp add: sound)
    from stream_download_ends [OF stream_env_calm [OF assms(1)] this] streamed(2) n
    have "dw_target w' \<noteq> Absent \<and>
        recorded (stream_env env ctx task_id job) (stream_request env job url) (dw_target w') w'"
      by (auto simp: published_def found_published_def)
    then show ?thesis by blast
  qed
qed

end
