(* ===== verification/DownloadApi.thy ===== *)
theory DownloadApi
  imports DownloadService Scheduling
begin

text \<open>
  The requests about downloads (\<open>app/api/v1/downloads.py\<close>) and the place downloads go to by default
  (\<open>app/services/download_settings.py\<close>).  A request that raises is rolled back; what other clients
  do to the database while it runs is an argument.
\<close>

section \<open>The download directory\<close>

text \<open>
  \<open>ds_resolve\<close> is the path with links followed, if it exists and can be reached; \<open>ds_config\<close> the
  settings file: \<open>None\<close> when it does not exist, \<open>Some None\<close> when it is not readable as JSON.
\<close>

record settings_env =
  ds_expanduser :: "string \<Rightarrow> string"
  ds_resolve :: "string \<Rightarrow> string option"
  ds_is_dir :: "string \<Rightarrow> bool"
  ds_writable :: "string \<Rightarrow> bool"
  ds_config :: "json option option"
  ds_download_root :: string
  ds_absolute :: "string \<Rightarrow> string"

definition value_exn :: "string \<Rightarrow> exn" where
  "value_exn tag = tagged CValueError tag"

definition is_absolute :: "string \<Rightarrow> bool" where
  "is_absolute s \<longleftrightarrow> take 1 s = ''/''"

definition validate_directory :: "settings_env \<Rightarrow> string \<Rightarrow> exn + string" where
  "validate_directory env value =
     (let path = ds_expanduser env value in
      if \<not> is_absolute path then Inl (value_exn ''absolute'')
      else case ds_resolve env path of
             None \<Rightarrow> Inl (value_exn ''directory'')
           | Some p \<Rightarrow>
               if \<not> ds_is_dir env p then Inl (value_exn ''directory'')
               else if \<not> ds_writable env p then Inl (value_exn ''not writable'')
               else Inr p)"

definition default_download_root :: "settings_env \<Rightarrow> exn + string" where
  "default_download_root env =
     (case ds_config env of
        None \<Rightarrow> Inr (ds_absolute env (ds_expanduser env (ds_download_root env)))
      | Some (Some (JObj m)) \<Rightarrow>
          (case jget m ''root'' of
             JStr s \<Rightarrow> if is_absolute s then Inr s else Inl (value_exn ''configuration'')
           | _ \<Rightarrow> Inl (value_exn ''configuration''))
      | _ \<Rightarrow> Inl (value_exn ''configuration''))"

text \<open>
  \<open>save_download_root\<close> writes a new file and puts it in the place of the old one: what the settings
  file is afterwards, for every way it may fail.
\<close>

definition save_download_root ::
    "exn option \<Rightarrow> exn option \<Rightarrow> string \<Rightarrow> json option option \<Rightarrow> (exn + unit) \<times> json option option" where
  "save_download_root written replaced root config =
     (case written of
        Some e \<Rightarrow> (Inl e, config)
      | None \<Rightarrow>
          (case replaced of
             Some e \<Rightarrow> (Inl e, config)
           | None \<Rightarrow> (Inr (), Some (Some (JObj [(''root'', JStr root)])))))"

section \<open>Tasks of a destination\<close>

datatype api_error = HttpError int string | ApiRepo repo_error | ApiRaised exn

definition active_download :: "task \<Rightarrow> bool" where
  "active_download t \<longleftrightarrow> t_status t \<in> {Pending, Running, Retry, CancelRequested, WaitingCredential}"

definition at_destination :: "string \<Rightarrow> string \<Rightarrow> task \<Rightarrow> bool" where
  "at_destination root relative t \<longleftrightarrow>
     t_type t = ''download'' \<and> jget (t_payload t) ''root'' = JStr root \<and>
     jget (t_payload t) ''relative_path'' = JStr relative"

text \<open>\<open>_destination_tasks\<close> for one path: the active tasks, the newest first, and the latest of all.\<close>

definition active_at :: "string \<Rightarrow> string \<Rightarrow> db \<Rightarrow> task list" where
  "active_at root relative d =
     sort_key (\<lambda>t. - t_id t)
       (filter (\<lambda>t. at_destination root relative t \<and> active_download t) (db_tasks d))"

definition latest_at :: "string \<Rightarrow> string \<Rightarrow> db \<Rightarrow> task option" where
  "latest_at root relative d = select_one (\<lambda>t. - t_id t) (at_destination root relative) (db_tasks d)"

definition check_destination :: "task list \<Rightarrow> int option \<Rightarrow> api_error + task option" where
  "check_destination tasks file_id =
     (if list_ex (\<lambda>t. t_file_id t \<noteq> file_id) tasks then Inl (HttpError 409 ''path in use'')
      else Inr (case tasks of [] \<Rightarrow> None | t # _ \<Rightarrow> Some t))"

text \<open>
  \<open>ae_others\<close> is what other clients commit between the look for the key and the insertion.
\<close>

record api_env =
  ae_sha256 :: "string \<Rightarrow> string"
  ae_stat :: "string \<Rightarrow> exn + int \<times> int"
  ae_others :: "db \<Rightarrow> db"
  ae_now :: datetime
  ae_settings :: settings_env
  ae_paths :: path_view

definition download_location :: "string \<Rightarrow> string \<Rightarrow> string" where
  "download_location root relative = root @ [char_of (0 :: nat)] @ relative"

definition download_key :: "api_env \<Rightarrow> string \<Rightarrow> int \<Rightarrow> string" where
  "download_key env location predecessor_id =
     ''download:'' @ ae_sha256 env location @ '':'' @ int_str predecessor_id"

definition download_task ::
    "api_env \<Rightarrow> cloud_file \<Rightarrow> subscription \<Rightarrow> string \<Rightarrow> string \<Rightarrow> int \<times> int \<Rightarrow> int \<Rightarrow> task" where
  "download_task env f s root relative root_identity predecessor_id =
     (default_task (ae_now env))
       \<lparr>t_type := ''download'', t_trigger_type := (if predecessor_id = 0 then ''manual'' else ''retry''),
        t_status := Pending, t_account_id := Some (s_cloud_account_id s),
        t_subscription_id := Some (f_subscription_id f), t_file_id := Some (f_id f),
        t_payload := [(''relative_path'', JStr relative), (''root'', JStr root),
                      (''root_identity'', JList [JInt (fst root_identity), JInt (snd root_identity)])],
        t_idempotency_key := Some (download_key env (download_location root relative) predecessor_id),
        t_message := Some ''waiting''\<rparr>"

definition with_key :: "string \<Rightarrow> db \<Rightarrow> task option" where
  "with_key key d = first_row (\<lambda>t. t_idempotency_key t = Some key) (db_tasks d)"

text \<open>The task that has the key already, if it is for the same file.\<close>

definition use_existing :: "task \<Rightarrow> cloud_file \<Rightarrow> db \<Rightarrow> api_error + task \<times> db" where
  "use_existing t f d = bindR (check_destination [t] (Some (f_id f))) (\<lambda>_. Inr (t, d))"

definition create_download ::
    "api_env \<Rightarrow> cloud_file \<Rightarrow> subscription \<Rightarrow> string \<Rightarrow> string \<Rightarrow> int \<Rightarrow> db \<Rightarrow> api_error + task \<times> db" where
  "create_download env f s root relative predecessor_id d =
     (case ae_stat env root of
        Inl e \<Rightarrow> Inl (ApiRaised e)
      | Inr root_identity \<Rightarrow>
          let key = download_key env (download_location root relative) predecessor_id in
          (case with_key key d of
             Some t \<Rightarrow> use_existing t f d
           | None \<Rightarrow>
               let d1 = ae_others env d in
               (case create_task (download_task env f s root relative root_identity predecessor_id) d1 of
                  Inr (t, d2) \<Rightarrow> Inr (t, d2)
                | Inl IntegrityError \<Rightarrow>
                    (case with_key key d1 of
                       None \<Rightarrow> Inl (ApiRepo IntegrityError)
                     | Some t \<Rightarrow> use_existing t f d1)
                | Inl e \<Rightarrow> Inl (ApiRepo e))))"

section \<open>The configuration\<close>

definition download_config :: "settings_env \<Rightarrow> api_error + string \<times> bool" where
  "download_config env =
     (case default_download_root env of
        Inl e \<Rightarrow> Inl (HttpError 400 (e_message e))
      | Inr root \<Rightarrow> Inr (root, ds_is_dir env root))"

text \<open>The answer, and the settings file afterwards.\<close>

definition set_download_config ::
    "settings_env \<Rightarrow> exn option \<Rightarrow> exn option \<Rightarrow> string \<Rightarrow> (api_error + string) \<times> json option option" where
  "set_download_config env written replaced value =
     (case validate_directory env value of
        Inl e \<Rightarrow> (Inl (HttpError 400 (e_message e)), ds_config env)
      | Inr root \<Rightarrow>
          (case save_download_root written replaced root (ds_config env) of
             (Inr _, config) \<Rightarrow> (Inr root, config)
           | (Inl e, config) \<Rightarrow>
               (if e_class e \<in> {CValueError, COSError} then Inl (HttpError 400 ''not saved'')
                else Inl (ApiRaised e), config)))"

section \<open>Requesting downloads\<close>

definition or_text :: "string \<Rightarrow> string \<Rightarrow> string" where
  "or_text a b = (if a = [] then b else a)"

definition relative_text :: "string \<Rightarrow> cloud_file \<Rightarrow> string" where
  "relative_text directory f =
     intercalate ''/'' (filter (\<lambda>s. s \<noteq> []) [strip directory, or_text (f_relative_path f) (f_filename f)])"

definition requested_file :: "db \<Rightarrow> int \<Rightarrow> api_error + cloud_file \<times> subscription" where
  "requested_file d file_id =
     (case get_file d file_id of
        None \<Rightarrow> Inl (HttpError 404 ''file'')
      | Some f \<Rightarrow>
          (case get_subscription d (f_subscription_id f) of
             None \<Rightarrow> Inl (ApiRaised (tagged COther ''subscription''))
           | Some s \<Rightarrow>
               if s_provider s \<noteq> ''pikpak'' \<or> f_status f \<noteq> ''saved'' \<or> \<not> is_set (f_target_file_id f) \<or>
                  f_item_type f \<noteq> ''file''
               then Inl (HttpError 400 ''not saved'') else Inr (f, s)))"

text \<open>\<open>destination_path(root, relative).relative_to(root).as_posix()\<close>.\<close>

definition posix_destination :: "path_view \<Rightarrow> string \<Rightarrow> string \<Rightarrow> api_error + string" where
  "posix_destination view root relative =
     (case destination_path view root relative of
        Inl e \<Rightarrow> Inl (HttpError 400 (e_message e))
      | Inr target \<Rightarrow> Inr (intercalate ''/'' (drop (length (pv_root view root)) target)))"

fun prepare_downloads ::
    "api_env \<Rightarrow> string \<Rightarrow> string \<Rightarrow> db \<Rightarrow> string list \<Rightarrow> int list \<Rightarrow>
     api_error + (cloud_file \<times> subscription \<times> string) list" where
  "prepare_downloads env root directory d destinations [] = Inr []"
| "prepare_downloads env root directory d destinations (file_id # ids) =
     bindR (requested_file d file_id) (\<lambda>(f, s).
     bindR (posix_destination (ae_paths env) root (relative_text directory f)) (\<lambda>relative.
     if relative \<in> set destinations then Inl (HttpError 409 ''same path'')
     else bindR (prepare_downloads env root directory d (relative # destinations) ids) (\<lambda>rest.
          Inr ((f, s, relative) # rest))))"

definition check_prepared ::
    "string \<Rightarrow> db \<Rightarrow> (cloud_file \<times> subscription \<times> string) list \<Rightarrow> api_error + unit" where
  "check_prepared root d items =
     (if list_ex (\<lambda>(f, _, relative). case check_destination (active_at root relative d) (Some (f_id f)) of
                    Inl _ \<Rightarrow> True | Inr _ \<Rightarrow> False) items
      then Inl (HttpError 409 ''path in use'') else Inr ())"

text \<open>
  The tasks, one after the other; \<open>d0\<close> is the database as it was when the destinations were looked
  up, \<open>d\<close> as it is now.
\<close>

fun create_downloads ::
    "api_env \<Rightarrow> string \<Rightarrow> db \<Rightarrow> (cloud_file \<times> subscription \<times> string) list \<Rightarrow> db \<Rightarrow>
     api_error + int list \<times> db" where
  "create_downloads env root d0 [] d = Inr ([], d)"
| "create_downloads env root d0 ((f, s, relative) # items) d =
     bindR (check_destination (active_at root relative d0) (Some (f_id f))) (\<lambda>active.
     bindR (case active of
              Some t \<Rightarrow> Inr (t, d)
            | None \<Rightarrow>
                create_download env f s root relative
                  (case latest_at root relative d0 of None \<Rightarrow> 0 | Some p \<Rightarrow> t_id p) d) (\<lambda>(t, d1).
     bindR (create_downloads env root d0 items d1) (\<lambda>(ids, d2). Inr (t_id t # ids, d2))))"

definition enqueue_downloads ::
    "api_env \<Rightarrow> int list \<Rightarrow> string option \<Rightarrow> string \<Rightarrow> db \<Rightarrow> api_error + int list \<times> db" where
  "enqueue_downloads env file_ids root directory d =
     (case (if is_set root then validate_directory (ae_settings env) (coalesce root [])
            else bindR (default_download_root (ae_settings env)) (validate_directory (ae_settings env))) of
        Inl e \<Rightarrow> Inl (HttpError 400 (e_message e))
      | Inr path \<Rightarrow>
          bindR (prepare_downloads env path directory d [] (rev (remdups (rev file_ids)))) (\<lambda>items.
          bindR (check_prepared path d items) (\<lambda>_.
          create_downloads env path d items d)))"

section \<open>Retrying and cancelling\<close>

text \<open>A payload has the texts that \<open>create_download\<close> wrote; a missing one is a \<open>KeyError\<close>.\<close>

definition key_error :: exn where
  "key_error = tagged (CNamed ''KeyError'') ''payload''"

definition task_file :: "db \<Rightarrow> task \<Rightarrow> api_error + cloud_file \<times> subscription" where
  "task_file d t =
     (case Option.bind (Option.bind (t_file_id t) (get_file d))
             (\<lambda>f. map_option (\<lambda>s. (f, s)) (get_subscription d (f_subscription_id f))) of
        None \<Rightarrow> Inl (ApiRaised (tagged COther ''file''))
      | Some p \<Rightarrow> Inr p)"

definition retry_finished :: "api_env \<Rightarrow> task \<Rightarrow> db \<Rightarrow> api_error + task \<times> db" where
  "retry_finished env t d =
     (case bindR (case map_of (t_payload t) ''root'' of None \<Rightarrow> Inl key_error | Some j \<Rightarrow> Inr (py_str j))
             (validate_directory (ae_settings env)) of
        Inl _ \<Rightarrow> Inl (HttpError 400 ''directory'')
      | Inr root \<Rightarrow>
          (case map_of (t_payload t) ''relative_path'' of
             None \<Rightarrow> Inl (ApiRaised key_error)
           | Some j \<Rightarrow>
               bindR (check_destination (active_at root (py_str j) d) (t_file_id t)) (\<lambda>active.
               case active of
                 Some successor \<Rightarrow> Inr (successor, d)
               | None \<Rightarrow>
                   bindR (task_file d t) (\<lambda>(f, s).
                   create_download env f s root (py_str j) (t_id t) d))))"

definition repository_result :: "repo_error + 'a \<Rightarrow> api_error + 'a" where
  "repository_result r = (case r of Inl e \<Rightarrow> Inl (ApiRepo e) | Inr x \<Rightarrow> Inr x)"

definition requested_download :: "db \<Rightarrow> int \<Rightarrow> api_error + task" where
  "requested_download d task_id =
     (case get_task d task_id of
        None \<Rightarrow> Inl (HttpError 404 ''task'')
      | Some t \<Rightarrow> if t_type t \<noteq> ''download'' then Inl (HttpError 404 ''task'') else Inr t)"

definition retry_download :: "api_env \<Rightarrow> int \<Rightarrow> db \<Rightarrow> api_error + int \<times> db" where
  "retry_download env task_id d =
     bindR (requested_download d task_id) (\<lambda>t.
     if t_status t = WaitingCredential then
       bindR (repository_result (transition d d task_id WaitingCredential Pending (ae_now env)
                None None None None)) (\<lambda>(_, d'). Inr (task_id, d'))
     else if t_status t \<notin> {Failed, Cancelled} then Inl (HttpError 409 ''not failed'')
     else bindR (retry_finished env t d) (\<lambda>(successor, d'). Inr (t_id successor, d')))"

definition cancel_download :: "api_env \<Rightarrow> int \<Rightarrow> db \<Rightarrow> api_error + int \<times> db" where
  "cancel_download env task_id d =
     bindR (requested_download d task_id) (\<lambda>t.
     if t_status t = Running then
       bindR (repository_result (transition d d task_id Running CancelRequested (ae_now env)
                None None None None)) (\<lambda>(_, d'). Inr (task_id, d'))
     else if t_status t \<in> {Pending, Retry, WaitingCredential} then
       bindR (repository_result (transition d d task_id (t_status t) Cancelled (ae_now env)
                None None None None)) (\<lambda>(_, d'). Inr (task_id, d'))
     else Inl (HttpError 409 ''cannot be cancelled''))"

end
