(* ===== verification/DownloadApiProofs.thy ===== *)
theory DownloadApiProofs
  imports DownloadApi
begin

text \<open>
  The tasks of one destination form a chain: every new one carries, in its key, the identifier of the
  task it follows, so that among them only the newest can be active, however requests overlap.
\<close>

section \<open>The chain\<close>

definition located :: "string \<Rightarrow> task \<Rightarrow> bool" where
  "located l t \<longleftrightarrow> t_type t = ''download'' \<and>
     (\<exists>a b. jget (t_payload t) ''root'' = JStr a \<and> jget (t_payload t) ''relative_path'' = JStr b \<and>
        l = download_location a b)"

definition key_taken :: "api_env \<Rightarrow> string \<Rightarrow> int \<Rightarrow> db \<Rightarrow> bool" where
  "key_taken env l n d \<longleftrightarrow> (\<exists>u \<in> set (db_tasks d). t_idempotency_key u = Some (download_key env l n))"

text \<open>
  Every download has a destination.  The first task of it has the key of none before it; a task that another one follows is
  finished, and the key of its successor is taken.
\<close>

definition chained :: "api_env \<Rightarrow> db \<Rightarrow> bool" where
  "chained env d \<longleftrightarrow>
     distinct (map t_id (db_tasks d)) \<and>
     (\<forall>t \<in> set (db_tasks d). t_type t = ''download'' \<longrightarrow> (\<exists>l. located l t)) \<and>
     (\<forall>t \<in> set (db_tasks d). \<forall>l. located l t \<longrightarrow> key_taken env l 0 d) \<and>
     (\<forall>t \<in> set (db_tasks d). \<forall>t' \<in> set (db_tasks d). \<forall>l.
        located l t \<longrightarrow> located l t' \<longrightarrow> t_id t < t_id t' \<longrightarrow>
        key_taken env l (t_id t) d \<and> \<not> active_download t)"

definition later :: "db \<Rightarrow> db \<Rightarrow> bool" where
  "later d d' \<longleftrightarrow>
     (\<forall>t \<in> set (db_tasks d). \<exists>t' \<in> set (db_tasks d').
        t_id t' = t_id t \<and> t_type t' = t_type t \<and> t_payload t' = t_payload t \<and>
        (\<not> active_download t \<longrightarrow> \<not> active_download t'))"

definition others_fair :: "api_env \<Rightarrow> bool" where
  "others_fair env \<longleftrightarrow> (\<forall>d. chained env d \<longrightarrow> chained env (ae_others env d) \<and> later d (ae_others env d))"

lemma later_refl [simp]: "later d d"
  by (auto simp: later_def)

lemma later_trans: "later d d1 \<Longrightarrow> later d1 d2 \<Longrightarrow> later d d2"
  unfolding later_def by metis

lemma chained_one_active:
  assumes "chained env d" and "t \<in> set (db_tasks d)" and "t' \<in> set (db_tasks d)"
    and "located l t" and "located l t'" and "active_download t" and "active_download t'"
  shows "t = t'"
proof -
  have "\<not> t_id t < t_id t'" and "\<not> t_id t' < t_id t"
    using assms unfolding chained_def by blast+
  then have "t_id t = t_id t'" by simp
  with assms(1-3) show ?thesis by (auto simp: chained_def dest: distinct_map_unique)
qed

lemma at_destination_located:
  "at_destination root relative t \<Longrightarrow> located (download_location root relative) t"
  by (auto simp: at_destination_def located_def)

section \<open>A new task\<close>

text \<open>What the new task follows: nothing, or a finished task of the destination.\<close>

definition follows :: "string \<Rightarrow> int \<Rightarrow> db \<Rightarrow> bool" where
  "follows l p d \<longleftrightarrow>
     p = 0 \<or> (\<exists>q \<in> set (db_tasks d). t_id q = p \<and> located l q \<and> \<not> active_download q)"

lemma follows_later: "follows l p d \<Longrightarrow> later d d' \<Longrightarrow> follows l p d'"
  unfolding follows_def later_def located_def by (elim disjE bexE conjE; fastforce)

lemma chained_insert:
  assumes "chained env d" and "follows l p d" and "located l t"
    and "t_idempotency_key t = Some (download_key env l p)"
    and "sql_insert_task t d = Inr (t', d')"
  shows "chained env d'" and "later d d'"
proof -
  let ?n = "next_id (map t_id (db_tasks d))"
  have t': "t' = t\<lparr>t_id := ?n\<rparr>" and d': "d' = d\<lparr>db_tasks := db_tasks d @ [t']\<rparr>"
    and new: "Some (download_key env l p) \<notin> set (map t_idempotency_key (db_tasks d))"
    using assms(4,5) by (auto simp: sql_insert_task_def Let_def split: if_splits)
  have tasks: "set (db_tasks d') = insert t' (set (db_tasks d))" by (simp add: d')
  have above: "t_id u < ?n" if "u \<in> set (db_tasks d)" for u
    using that by (intro next_id_gt) simp
  have untaken: "\<not> key_taken env l p d" using new by (force simp: key_taken_def)
  have kept: "key_taken env k n d \<Longrightarrow> key_taken env k n d'" for k n
    by (auto simp: key_taken_def tasks)
  have own: "key_taken env l p d'"
    using assms(4) by (auto simp: key_taken_def tasks t')
  have located': "located k t' \<longleftrightarrow> k = l" for k
    using assms(3) by (auto simp: located_def t')
  have before: "key_taken env l (t_id u) d' \<and> \<not> active_download u"
    if u: "u \<in> set (db_tasks d)" "located l u" for u
  proof -
    have "key_taken env l 0 d" using assms(1) u unfolding chained_def by blast
    with untaken assms(2) obtain q where q: "q \<in> set (db_tasks d)" "t_id q = p" "located l q"
      "\<not> active_download q" unfolding follows_def by auto
    have "\<not> t_id q < t_id u"
      using assms(1) q u untaken unfolding chained_def by blast
    then consider "t_id u < t_id q" | "t_id u = t_id q" by linarith
    then show ?thesis
    proof cases
      case 1
      then show ?thesis using assms(1) q(1,3) u kept unfolding chained_def by blast
    next
      case 2
      then have "u = q" using assms(1) q(1) u(1) by (auto simp: chained_def dest: distinct_map_unique)
      with own q show ?thesis by simp
    qed
  qed
  have first: "key_taken env l 0 d'"
    using assms(1,2) own kept unfolding follows_def chained_def by blast
  have ids: "distinct (map t_id (db_tasks d'))"
    using assms(1) next_id_fresh [of "map t_id (db_tasks d)"] by (simp add: chained_def d' t')
  have places: "\<exists>k. located k u" if "u \<in> set (db_tasks d')" "t_type u = ''download''" for u
    using that assms(1) located' unfolding chained_def tasks by auto
  have pairs: "key_taken env k (t_id u) d' \<and> \<not> active_download u"
    if "u \<in> set (db_tasks d')" "v \<in> set (db_tasks d')" "located k u" "located k v" "t_id u < t_id v"
    for u v k
  proof -
    have "u \<in> set (db_tasks d)" using that above by (fastforce simp: tasks t')
    show ?thesis
    proof (cases "v = t'")
      case True
      with that(4) have "k = l" by (simp add: located')
      with before \<open>u \<in> set (db_tasks d)\<close> that(3) show ?thesis by simp
    next
      case False
      with that(2) have "v \<in> set (db_tasks d)" by (simp add: tasks)
      with \<open>u \<in> set (db_tasks d)\<close> that(3-5) assms(1) kept show ?thesis unfolding chained_def by blast
    qed
  qed
  have firsts: "key_taken env k 0 d'" if "u \<in> set (db_tasks d')" "located k u" for u k
    using that first assms(1) kept located' unfolding chained_def tasks by auto
  show "chained env d'"
    unfolding chained_def using ids places pairs firsts by blast
  show "later d d'" by (auto simp: later_def tasks)
qed

section \<open>Changing what is active\<close>

lemma chained_update:
  assumes "chained env d" and "\<And>t. p t \<Longrightarrow> active_download t"
    and "\<And>t. t_id (f t) = t_id t" and "\<And>t. t_type (f t) = t_type t"
    and "\<And>t. t_payload (f t) = t_payload t" and "\<And>t. t_idempotency_key (f t) = t_idempotency_key t"
  shows "chained env (d\<lparr>db_tasks := update_rows p f (db_tasks d)\<rparr>)" (is "chained env ?d")
    and "later d (d\<lparr>db_tasks := update_rows p f (db_tasks d)\<rparr>)"
proof -
  let ?g = "\<lambda>t. if p t then f t else t"
  have tasks: "set (db_tasks ?d) = ?g ` set (db_tasks d)" by (simp add: set_update_rows)
  have located: "located l (?g t) \<longleftrightarrow> located l t" for l t
    using assms(4,5) by (simp add: located_def)
  have keys: "key_taken env l n ?d \<longleftrightarrow> key_taken env l n d" for l n
    unfolding key_taken_def tasks bex_simps using assms(6) by simp
  have id: "t_id (?g t) = t_id t" for t using assms(3) by simp
  have "distinct (map t_id (db_tasks ?d))"
    using assms(1,3) map_update_rows [where g = t_id and p = p and f = f] by (simp add: chained_def)
  moreover have "\<exists>l. located l u" if "u \<in> set (db_tasks ?d)" "t_type u = ''download''" for u
  proof -
    from that(1) obtain t where t: "t \<in> set (db_tasks d)" "u = ?g t" unfolding tasks by blast
    with that(2) assms(4) have "t_type t = ''download''" by (simp split: if_splits)
    with t assms(1) show ?thesis unfolding chained_def using located by blast
  qed
  moreover have "key_taken env l 0 ?d" if "u \<in> set (db_tasks ?d)" "located l u" for u l
  proof -
    from that(1) obtain t where "t \<in> set (db_tasks d)" "u = ?g t" unfolding tasks by blast
    with that(2) assms(1) show ?thesis unfolding chained_def keys using located by blast
  qed
  moreover have "key_taken env l (t_id u) ?d \<and> \<not> active_download u"
    if "u \<in> set (db_tasks ?d)" "v \<in> set (db_tasks ?d)" "located l u" "located l v" "t_id u < t_id v"
    for u v l
  proof -
    from that(1,2) obtain t t' where t: "t \<in> set (db_tasks d)" "u = ?g t" "t' \<in> set (db_tasks d)" "v = ?g t'"
      unfolding tasks by blast
    with that(3-5) have "located l t" "located l t'" "t_id t < t_id t'"
      using located id by metis+
    with t assms(1) have "key_taken env l (t_id t) d" and idle: "\<not> active_download t"
      unfolding chained_def by blast+
    moreover from idle have "\<not> p t" using assms(2) by blast
    ultimately show ?thesis using t(2) keys by simp
  qed
  ultimately show "chained env ?d" unfolding chained_def by blast
  show "later d ?d"
    unfolding later_def
  proof
    fix t
    assume "t \<in> set (db_tasks d)"
    then have "?g t \<in> set (db_tasks ?d)" unfolding tasks by blast
    then show "\<exists>t' \<in> set (db_tasks ?d). t_id t' = t_id t \<and> t_type t' = t_type t \<and>
        t_payload t' = t_payload t \<and> (\<not> active_download t \<longrightarrow> \<not> active_download t')"
      using assms by (intro bexI [of _ "?g t"]) auto
  qed
qed

lemma transition_row_same:
  "t_id (transition_row target now reason ec em n t) = t_id t"
  "t_type (transition_row target now reason ec em n t) = t_type t"
  "t_payload (transition_row target now reason ec em n t) = t_payload t"
  "t_idempotency_key (transition_row target now reason ec em n t) = t_idempotency_key t"
  by (simp_all add: transition_row_def task_transition_values_def Let_def)

lemma transition_chained:
  assumes "chained env d" and "transition d d tid expected target now reason ec em n = Inr (t, d')"
    and "expected \<in> {Pending, Running, Retry, CancelRequested, WaitingCredential}"
  shows "chained env d'" and "later d d'"
proof -
  have d': "d' = d\<lparr>db_tasks := update_rows (\<lambda>t. t_id t = tid \<and> t_status t = expected)
      (transition_row target now reason ec em n) (db_tasks d)\<rparr>"
    using assms(2) by (auto simp: transition_def sql_update_tasks_def Let_def require_def
        bindR_eq_Inl split: if_splits option.splits)
  note update = chained_update [OF assms(1), where p = "\<lambda>t. t_id t = tid \<and> t_status t = expected"]
  show "chained env d'" and "later d d'"
    unfolding d' using assms(3)
    by (intro update transition_row_same; auto simp: active_download_def)+
qed

section \<open>The requests\<close>

lemma use_existing_same: "use_existing t f d = Inr (t', d') \<Longrightarrow> d' = d"
  by (auto simp: use_existing_def)

lemma download_task_simps:
  "located (download_location root relative) (download_task env f s root relative ident p)"
  "t_idempotency_key (download_task env f s root relative ident p) =
     Some (download_key env (download_location root relative) p)"
  "t_status (download_task env f s root relative ident p) = Pending"
  by (auto simp: download_task_def located_def jget_def)

lemma create_download_chained:
  assumes "chained env d" and "others_fair env" and "follows (download_location root relative) p d"
    and "create_download env f s root relative p d = Inr (t, d')"
  shows "chained env d' \<and> later d d'"
proof -
  let ?l = "download_location root relative"
  from assms(4) obtain ident where "ae_stat env root = Inr ident"
    by (auto simp: create_download_def split: sum.splits)
  note made = assms(4) [unfolded create_download_def this sum.case Let_def]
  have fair: "chained env (ae_others env d)" "later d (ae_others env d)"
    using assms(1,2) by (simp_all add: others_fair_def)
  have new: ?thesis
    if "create_task (download_task env f s root relative ident p) (ae_others env d) = Inr (t', d')" for t'
  proof -
    from that have "sql_insert_task (download_task env f s root relative ident p) (ae_others env d) = Inr (t', d')"
      by (simp add: create_task_def download_task_simps)
    from chained_insert [OF fair(1) follows_later [OF assms(3) fair(2)] download_task_simps(1,2) this] fair(2)
    show ?thesis by (blast intro: later_trans)
  qed
  show ?thesis
  proof (cases "with_key (download_key env ?l p) d")
    case (Some u)
    with made have "d' = d" by (auto dest: use_existing_same)
    with assms(1) show ?thesis by simp
  next
    case None
    note made = made [unfolded None option.case]
    show ?thesis
    proof (cases "create_task (download_task env f s root relative ident p) (ae_others env d)")
      case (Inr pair)
      with made have "create_task (download_task env f s root relative ident p) (ae_others env d) = Inr (t, d')"
        by (cases pair) simp
      then show ?thesis by (rule new)
    next
      case (Inl e)
      with made have "d' = ae_others env d"
        by (cases e) (auto split: option.splits dest: use_existing_same)
      with fair show ?thesis by simp
    qed
  qed
qed

lemma nothing_active_follows:
  assumes "check_destination (active_at root relative d) fid = Inr None"
  shows "follows (download_location root relative)
    (case latest_at root relative d of None \<Rightarrow> 0 | Some p \<Rightarrow> t_id p) d"
proof (cases "latest_at root relative d")
  case None
  then show ?thesis by (simp add: follows_def)
next
  case (Some q)
  from assms have "active_at root relative d = []"
    by (auto simp: check_destination_def split: if_splits list.splits)
  then have "set (active_at root relative d) = {}" by simp
  then have idle: "\<not> active_download t" if "t \<in> set (db_tasks d)" "at_destination root relative t" for t
    using that by (auto simp: active_at_def)
  from Some have "q \<in> set (db_tasks d) \<and> at_destination root relative q"
    unfolding latest_at_def by (blast dest: select_one_SomeD)
  with idle Some show ?thesis
    by (auto simp: follows_def at_destination_located)
qed

lemma create_downloads_chained:
  assumes "others_fair env"
  shows "chained env d \<Longrightarrow> later d0 d \<Longrightarrow> create_downloads env root d0 items d = Inr (ids, d') \<Longrightarrow>
    chained env d' \<and> later d d'"
proof (induction items arbitrary: d ids)
  case Nil
  then show ?case by simp
next
  case (Cons item items)
  obtain f s relative where item: "item = (f, s, relative)" by (cases item)
  from Cons.prems(3) obtain active t d1 ids' where
    active: "check_destination (active_at root relative d0) (Some (f_id f)) = Inr active"
    and made: "(case active of Some t \<Rightarrow> Inr (t, d)
       | None \<Rightarrow> create_download env f s root relative
           (case latest_at root relative d0 of None \<Rightarrow> 0 | Some p \<Rightarrow> t_id p) d) = Inr (t, d1)"
    and rest: "create_downloads env root d0 items d1 = Inr (ids', d')"
    by (auto simp: item)
  have "chained env d1 \<and> later d d1"
  proof (cases active)
    case (Some u)
    with made Cons.prems show ?thesis by simp
  next
    case None
    with active have "follows (download_location root relative)
        (case latest_at root relative d0 of None \<Rightarrow> 0 | Some p \<Rightarrow> t_id p) d0"
      by (auto intro: nothing_active_follows)
    from follows_later [OF this Cons.prems(2)] made None show ?thesis
      by (intro create_download_chained [OF Cons.prems(1) assms]) auto
  qed
  with Cons.IH [of d1 ids'] rest Cons.prems(2) show ?case by (blast intro: later_trans)
qed

lemma enqueue_chained:
  assumes "others_fair env" and "chained env d"
    and "enqueue_downloads env file_ids root directory d = Inr (ids, d')"
  shows "chained env d' \<and> later d d'"
  using assms(3) create_downloads_chained [OF assms(1,2) later_refl]
  by (auto simp: enqueue_downloads_def split: sum.splits)

text \<open>No stored root has become a link to somewhere else.\<close>

definition roots_stable :: "api_env \<Rightarrow> db \<Rightarrow> bool" where
  "roots_stable env d \<longleftrightarrow>
     (\<forall>t \<in> set (db_tasks d). \<forall>a p. jget (t_payload t) ''root'' = JStr a \<longrightarrow>
        validate_directory (ae_settings env) a = Inr p \<longrightarrow> p = a)"

lemma retry_finished_chained:
  assumes "others_fair env" and "chained env d" and "roots_stable env d"
    and "t \<in> set (db_tasks d)" and "t_type t = ''download''" and "\<not> active_download t"
    and "retry_finished env t d = Inr (t', d')"
  shows "chained env d' \<and> later d d'"
proof -
  obtain a b where t: "jget (t_payload t) ''root'' = JStr a" "jget (t_payload t) ''relative_path'' = JStr b"
    "located (download_location a b) t"
    using assms(2,4,5) unfolding chained_def located_def by metis
  then have maps: "map_of (t_payload t) ''root'' = Some (JStr a)"
    "map_of (t_payload t) ''relative_path'' = Some (JStr b)"
    by (auto simp: jget_def split: option.splits)
  from assms(7) obtain root where root: "validate_directory (ae_settings env) a = Inr root"
    by (auto simp: retry_finished_def maps py_str_def split: sum.splits)
  with assms(3,4) t(1) have [simp]: "root = a" unfolding roots_stable_def by blast
  from assms(7) root obtain active where
    "check_destination (active_at a b d) (t_file_id t) = Inr active"
    and made: "(case active of Some u \<Rightarrow> Inr (u, d)
      | None \<Rightarrow> bindR (task_file d t) (\<lambda>(f, s). create_download env f s a b (t_id t) d)) = Inr (t', d')"
    by (auto simp: retry_finished_def maps py_str_def)
  have "follows (download_location a b) (t_id t) d"
    using assms(4,6) t(3) unfolding follows_def by blast
  with made create_download_chained [OF assms(2,1)] assms(2) show ?thesis
    by (cases active) auto
qed

lemma requested_download_found:
  "requested_download d tid = Inr t \<Longrightarrow> t \<in> set (db_tasks d) \<and> t_type t = ''download''"
  by (auto simp: requested_download_def get_task_def dest: first_row_SomeD split: option.splits if_splits)

lemma repository_result_Inr [simp]: "repository_result r = Inr x \<longleftrightarrow> r = Inr x"
  by (simp add: repository_result_def split: sum.splits)

lemma retry_chained:
  assumes "others_fair env" and "chained env d" and "roots_stable env d"
    and "retry_download env tid d = Inr (n, d')"
  shows "chained env d' \<and> later d d'"
proof -
  from assms(4) obtain t where t: "requested_download d tid = Inr t"
    by (auto simp: retry_download_def)
  note found = requested_download_found [OF this]
  show ?thesis
  proof (cases "t_status t = WaitingCredential")
    case True
    with assms(4) t obtain u where
      "transition d d tid WaitingCredential Pending (ae_now env) None None None None = Inr (u, d')"
      by (auto simp: retry_download_def)
    from transition_chained [OF assms(2) this] show ?thesis by simp
  next
    case False
    with assms(4) t obtain u where "t_status t \<in> {Failed, Cancelled}" "retry_finished env t d = Inr (u, d')"
      by (auto simp: retry_download_def split: if_splits)
    with found show ?thesis
      by (intro retry_finished_chained [OF assms(1-3)]) (auto simp: active_download_def)
  qed
qed

lemma cancel_chained:
  assumes "chained env d" and "cancel_download env tid d = Inr (n, d')"
  shows "chained env d' \<and> later d d'"
proof -
  from assms(2) obtain t expected target u where
    "transition d d tid expected target (ae_now env) None None None None = Inr (u, d')"
    and "expected \<in> {Pending, Running, Retry, CancelRequested, WaitingCredential}"
    by (auto simp: cancel_download_def split: if_splits)
  from transition_chained [OF assms(1) this] show ?thesis by simp
qed

end
