(* ===== verification/DownloadProperties.thy ===== *)
theory DownloadProperties
  imports DownloadTaskProofs DownloadApiProofs
begin

text \<open>
  The properties of downloads: of one call, and of the tasks that requests make; with the small
  downloads of the witnesses.
\<close>

section \<open>A small download\<close>

text \<open>A server that sends the content in one part, and a file system without failures.\<close>

definition plain_download :: "string \<Rightarrow> (string \<Rightarrow> string) \<Rightarrow> 'p download_env" where
  "plain_download content sha1 =
     \<lparr>dl_io = (\<lambda>_ _. None), dl_short = (\<lambda>_. 0), dl_locked = (\<lambda>_. False),
      dl_new_inode = (\<lambda>w. case dw_target w of InodeEntry i \<Rightarrow> i + 1 | _ \<Rightarrow> 1),
      dl_mtime = (\<lambda>_. 0), dl_device = 1, dl_cancelled = retA False, dl_guard = None,
      dl_progress = (\<lambda>_. retA ()),
      dl_get = (\<lambda>_ _. retA \<lparr>dr_is_redirect = False, dr_status = 200, dr_location = None,
                  dr_encoding = None, dr_range = None, dr_parts = (\<lambda>_. [content]), dr_failure = None\<rparr>),
      dl_join = (\<lambda>_ location. Inr location), dl_netloc_ok = (\<lambda>_. True), dl_clock = (\<lambda>_. 0),
      dl_second = 1, dl_sleep = (\<lambda>w. w), dl_fuel = 0, dl_sha1 = sha1, dl_sha256 = (\<lambda>s. s),
      dl_dumps = (\<lambda>_. ''request'')\<rparr>"

definition plain_request :: "int \<Rightarrow> string option \<Rightarrow> download_request" where
  "plain_request n expected =
     \<lparr>dq_url = ''https://dl.mypikpak.com/f'', dq_size = Some n, dq_identity = Some ''1:f'',
      dq_hash = expected, dq_chunk = None, dq_rate = 0\<rparr>"

definition plain_directory :: "dir_entry \<Rightarrow> checkpoint_entry \<Rightarrow> (int \<Rightarrow> inode) \<Rightarrow> unit download_world" where
  "plain_directory target checkpoint inodes =
     \<lparr>dw_partial = Absent, dw_target = target, dw_checkpoint = checkpoint, dw_inodes = inodes,
      dw_memory = no_state, dw_rest = ()\<rparr>"

definition no_inodes :: "int \<Rightarrow> inode" where
  "no_inodes = (\<lambda>_. \<lparr>ino_content = [], ino_mtime = 0\<rparr>)"

lemma plain_calm: "calm (plain_download content sha1)"
  by (auto simp: calm_def plain_download_def keeps_def retA_def bystander_def split: dir_entry.splits)

lemma plain_url: "validate_download_url (\<lambda>_. True) ''https://dl.mypikpak.com/f'' = Inr ()"
  by code_simp

section \<open>The small download runs\<close>

lemma plain_fields:
  "dl_io (plain_download content sha1) = (\<lambda>_ _. None)"
  "dl_cancelled (plain_download content sha1) = retA False"
  "dl_guard (plain_download content sha1) = None"
  "dl_progress (plain_download content sha1) = (\<lambda>_. retA ())"
  "dl_get (plain_download content sha1) = (\<lambda>_ _. retA \<lparr>dr_is_redirect = False, dr_status = 200,
     dr_location = None, dr_encoding = None, dr_range = None, dr_parts = (\<lambda>_. [content]),
     dr_failure = None\<rparr>)"
  "dl_locked (plain_download content sha1) = (\<lambda>_. False)"
  "dl_netloc_ok (plain_download content sha1) = (\<lambda>_. True)"
  "fingerprint (plain_download content sha1) r = ''request''"
  by (simp_all add: plain_download_def fingerprint_def)

lemma plain_runs:
  "dio (plain_download content sha1) site w = (Inr (), w)"
  "probe (plain_download content sha1) w = (Inr (), w)"
  by (simp_all add: dio_def probe_def plain_fields bindA_def retA_def)

lemma plain_fetch:
  assumes "content \<noteq> []" and "n = int (length content)" and "content_of i w = []"
  shows "fetch_missing (plain_download content sha1) (plain_request n h) i deadline 0 w =
    (Inr n, set_content (plain_download content sha1) i content w)"
  using assms plain_url
  by (simp add: fetch_missing_def fetch.simps plain_request_def chunked_def size_of_def plain_fields bindA_def
      retA_def receive_response_def accept_response_def guardA_def plain_runs append_partial_def)

lemma plain_verify:
  assumes "hash_format_ok h" and "dw_memory w = s" and "ck_digests s = Some ds"
    and "n \<le> int (length ds) * gcid_block n"
    and "lower (gcid_of (plain_download content sha1 :: 'p download_env) ds) = lower h"
  shows "verify_download (plain_download content sha1) (plain_request n (Some h)) i deadline w =
    (Inr (), w :: 'p download_world)"
proof -
  have "verify_blocks env r i block deadline checked n w = (Inr (), w)" if "size_of r = n"
    for env :: "'p download_env" and r i block deadline checked and w :: "'p download_world"
    using that by (subst verify_blocks.simps) simp
  moreover have "size_of (plain_request n (Some h)) = n" by (simp add: plain_request_def size_of_def)
  moreover have "min (int (length ds) * gcid_block n) n = n" using assms(4) by simp
  moreover have "w\<lparr>dw_memory := s\<lparr>ck_digests := Some ds\<rparr>\<rparr> = w"
    using assms(2,3) by auto
  moreover have "dq_hash (plain_request n (Some h)) = Some h" by (simp add: plain_request_def)
  ultimately show ?thesis
    using assms
    by (simp add: verify_download_def bindA_def guardA_def retA_def modify_memory_def
        digests_of_def Let_def)
qed

lemma plain_publish:
  assumes "dw_partial w = InodeEntry i" and "dw_target w = Absent" and "dw_checkpoint w = Checkpoint s"
  shows "publish (plain_download content sha1) n w =
    (Inr n, w\<lparr>dw_memory := (dw_memory w)\<lparr>ck_published := Some (1, i, int (length (content_of i w)),
                  ino_mtime (dw_inodes w i)), ck_digests := None\<rparr>,
              dw_checkpoint := Checkpoint ((dw_memory w)\<lparr>ck_published := Some (1, i, int (length (content_of i w)),
                  ino_mtime (dw_inodes w i)), ck_digests := None\<rparr>),
              dw_target := InodeEntry i, dw_partial := Absent\<rparr>)"
  using assms
  by (simp add: publish_def bindA_def plain_runs plain_fields entry_identity_def modify_memory_def
      write_checkpoint_def link_target_def remove_partial_def retA_def)
    (simp add: plain_download_def)

text \<open>The whole call, for a checkpoint of this request and without a partial file.\<close>

lemma plain_download_runs:
  fixes inodes :: "int \<Rightarrow> inode"
  assumes "content \<noteq> []" and "n = int (length content)" and "ck_identity s = Some ''request''"
    and "\<And>deadline (w :: unit download_world). dw_memory w = s \<Longrightarrow>
      verify_download (plain_download content sha1) (plain_request n h) 1 deadline w = (Inr (), w)"
    and "w = plain_directory Absent (Checkpoint s) inodes"
  shows "\<exists>w'. stream_download (plain_download content sha1) (plain_request n h) w = (Inr n, w') \<and>
      dw_target w' = InodeEntry 1 \<and> content_of 1 w' = content"
proof -
  let ?env = "plain_download content sha1 :: unit download_env" and ?r = "plain_request n h"
  have size: "size_of ?r = n" "dq_url ?r = ''https://dl.mypikpak.com/f''" "dq_size ?r = Some n"
    by (simp_all add: plain_request_def size_of_def)
  have positive: "0 \<le> n" using assms(2) by simp
  define w1 where "w1 = set_content ?env 1 [] (w\<lparr>dw_partial := InodeEntry 1\<rparr>)"
  define w2 where "w2 = w1\<lparr>dw_memory := s\<rparr>"
  define w3 where "w3 = set_content ?env 1 content w2"
  have opened: "open_partial ?env w = (Inr 1, w1)"
    by (simp add: open_partial_def bindA_def plain_runs assms(5) plain_directory_def w1_def)
      (simp add: plain_download_def)
  have same: "w2\<lparr>dw_checkpoint := Checkpoint s\<rparr> = w2"
    by (simp add: w2_def w1_def assms(5) plain_directory_def set_content_def)
  have w2: "dw_target w2 = Absent" "dw_partial w2 = InodeEntry 1" "dw_checkpoint w2 = Checkpoint s"
    "dw_memory w2 = s" "content_of 1 w2 = []"
    by (simp_all add: w2_def w1_def assms(5) plain_directory_def)
  have w3: "dw_target w3 = Absent" "dw_partial w3 = InodeEntry 1" "dw_checkpoint w3 = Checkpoint s"
    "dw_memory w3 = s" "content_of 1 w3 = content"
    by (simp_all add: w3_def w2)
  have verified: "verify_download ?env ?r 1 deadline w3 = (Inr (), w3)" for deadline
    by (rule assms(4) [OF w3(4)])
  obtain w4 where published: "publish ?env n w3 = (Inr n, w4)" "dw_target w4 = InodeEntry 1"
    "dw_partial w4 = Absent" "content_of 1 w4 = content"
    using plain_publish [OF w3(2,1,3), of content sha1 n] w3(5) by (auto simp: content_of_def)
  have content: "transfer_content ?env ?r 1 deadline w2 = (Inr n, w4)" for deadline
    using plain_fetch [OF assms(1,2) w2(5)] verified published(1)
    by (simp add: transfer_content_def bindA_def w2(5) size plain_runs w3_def)
  have prepared: "prepare_partial ?env ?r 1 w2 = (Inr (), w2)" "write_checkpoint ?env w2 = (Inr (), w2)"
    using same positive
    by (simp_all add: prepare_partial_def w2 assms(3) plain_fields size write_checkpoint_def bindA_def plain_runs Let_def)
  have saved: "save_progress ?env w4 = (Inr (), w4)"
    by (simp add: save_progress_def bindA_def plain_runs published entry_exists_def)
  have "download_locked ?env ?r 1 deadline w1 = (Inr n, w4)" for deadline
  proof -
    have read: "read_checkpoint ?env w1 = (Inr (), w2)"
      by (simp add: read_checkpoint_def bindA_def plain_runs modify_memory_def w2_def w1_def assms(5)
          plain_directory_def)
    have "finallyA (transfer_content ?env ?r 1 deadline) (save_progress ?env) w2 = (Inr n, w4)"
      by (simp add: finallyA_def bindA_def tryA_def content saved retA_def)
    then show ?thesis
      by (simp add: download_locked_def bindA_def plain_runs read w2(1) prepared)
  qed
  then have "stream_download ?env ?r w = (Inr n, w4)"
    using positive plain_url opened
    by (simp add: stream_download_def size plain_fields bindA_def plain_runs require_def)
  with published show ?thesis by blast
qed

section \<open>What a download keeps\<close>

text \<open>C25: A download never touches a target that exists: whatever ends the call, the name leads to what
  it led to, with the content and the times it had, as long as nobody else replaces it.
\<close>

theorem existing_target_is_kept:
  assumes "calm env" and "dw_target w \<noteq> Absent"
    and "stream_download env r w = (res, w')"
  shows "dw_target w' = dw_target w \<and> (\<forall>i. dw_target w = InodeEntry i \<longrightarrow> dw_inodes w' i = dw_inodes w i)"
  using stream_download_target [OF assms(1), of w r] assms(2,3) by (simp add: target_kept_def)

lemma existing_target_is_kept_witness:
  "let w = plain_directory (InodeEntry 5) CheckpointAbsent (\<lambda>_. \<lparr>ino_content = ''old'', ino_mtime = 3\<rparr>);
       w' = snd (stream_download (plain_download ''new'' (\<lambda>s. s)) (plain_request 3 None) w)
   in dw_target w' = InodeEntry 5 \<and> content_of 5 w' = ''old''"
proof -
  let ?w = "plain_directory (InodeEntry 5) CheckpointAbsent (\<lambda>_. \<lparr>ino_content = ''old'', ino_mtime = 3\<rparr>)"
  let ?run = "stream_download (plain_download ''new'' (\<lambda>s. s)) (plain_request 3 None) ?w"
  have "dw_target (snd ?run) = dw_target ?w \<and>
      (\<forall>i. dw_target ?w = InodeEntry i \<longrightarrow> dw_inodes (snd ?run) i = dw_inodes ?w i)"
    by (rule existing_target_is_kept [OF plain_calm _ prod.collapse [symmetric]]) (simp add: plain_directory_def)
  then show ?thesis by (simp add: Let_def plain_directory_def content_of_def)
qed



text \<open>C24: The recorded digests stay those of the partial file: if they are before a call, they are after
  it, however it ends, as long as the checkpoint can be written; so the next call may go on from them.
\<close>

theorem digests_stay_sound:
  assumes "calm env" and "writes_ok env" and "digests_sound env r w"
  shows "digests_sound env r (snd (stream_download env r w))"
proof (cases "stream_download env r w")
  case (Pair res w')
  show ?thesis
  proof (cases res)
    case (Inl e)
    with stream_download_ends [OF assms(1,3)] assms(2) Pair show ?thesis by simp
  next
    case (Inr n)
    with stream_download_ends [OF assms(1,3)] Pair have "dw_target w' \<noteq> Absent"
      by (auto simp: published_def found_published_def)
    with Pair show ?thesis by (simp add: digests_sound_def)
  qed
qed

lemma digests_stay_sound_witness:
  "digests_sound (plain_download ''abc'' (\<lambda>s. s)) (plain_request 4 None)
     (snd (stream_download (plain_download ''abc'' (\<lambda>s. s)) (plain_request 4 None)
        (plain_directory Absent CheckpointAbsent (\<lambda>_. \<lparr>ino_content = [], ino_mtime = 0\<rparr>))))"
  by (rule digests_stay_sound [OF plain_calm])
    (simp_all add: writes_ok_def plain_fields digests_sound_def plain_directory_def)

text \<open>A partial file that was removed is not verified again: with the digests of an earlier, complete
  download in the checkpoint and without the partial file, whatever content of the right length the
  server sends is published.
\<close>

theorem removed_partial_is_not_verified:
  fixes content :: string
  assumes "content \<noteq> []" and "hash_format_ok h"
    and "int (length content) \<le> int (length ds) * gcid_block (int (length content))"
    and "lower (gcid_of (plain_download content sha1 :: unit download_env) ds) = lower h"
  shows "\<exists>w'. stream_download (plain_download content sha1) (plain_request (int (length content)) (Some h))
      (plain_directory Absent (Checkpoint \<lparr>ck_identity = Some ''request'', ck_digests = Some ds,
         ck_published = None\<rparr>) inodes) = (Inr (int (length content)), w') \<and>
      dw_target w' = InodeEntry 1 \<and> content_of 1 w' = content"
proof (rule plain_download_runs [OF assms(1) refl _ _ refl])
  let ?s = "\<lparr>ck_identity = Some ''request'', ck_digests = Some ds, ck_published = None\<rparr>"
  show "verify_download (plain_download content sha1) (plain_request (int (length content)) (Some h)) 1 deadline w =
      (Inr (), w)" if "dw_memory w = ?s" for deadline and w :: "unit download_world"
    by (rule plain_verify [OF assms(2) that _ assms(3,4)]) simp
qed simp

text \<open>The hash of another content, for a hash function that gives the content back in part.\<close>

definition sample_sha1 :: "string \<Rightarrow> string" where
  "sample_sha1 s = take 40 (s @ replicate 40 (CHR ''0''))"

lemma removed_partial_is_not_verified_witness:
  "\<exists>w'. stream_download (plain_download ''abc'' sample_sha1)
      (plain_request 3 (Some (gcid_of (plain_download ''abc'' sample_sha1 :: unit download_env) [''61626364''])))
      (plain_directory Absent (Checkpoint \<lparr>ck_identity = Some ''request'', ck_digests = Some [''61626364''],
         ck_published = None\<rparr>) no_inodes) = (Inr 3, w') \<and>
      dw_target w' = InodeEntry 1 \<and> content_of 1 w' = ''abc'' \<and>
      content_hash (plain_download ''abc'' sample_sha1 :: unit download_env) (plain_request 3 None) ''abc'' \<noteq>
        gcid_of (plain_download ''abc'' sample_sha1 :: unit download_env) [''61626364'']"
proof -
  let ?env = "plain_download ''abc'' sample_sha1 :: unit download_env"
  have format: "hash_format_ok (gcid_of ?env [''61626364''])"
    by (simp add: gcid_of_def plain_download_def) code_simp
  have block: "3 \<le> gcid_block 3" "gcid_block 3 = 262144"
    by (code_simp)+
  have "content_hash ?env (plain_request 3 None) ''abc'' \<noteq> gcid_of ?env [''61626364'']"
    by (simp add: content_hash_def block_digests_def size_of_def plain_request_def block gcid_of_def plain_download_def
        blocks.simps) code_simp
  with removed_partial_is_not_verified [of "''abc''" "gcid_of ?env [''61626364'']" "[''61626364'']" sample_sha1 no_inodes]
    format block(1) show ?thesis by auto
qed

section \<open>The limit of the rate\<close>

lemma throttle_waits:
  "throttle env r started received n w = (Inr (), w') \<Longrightarrow> \<not> too_fast env r started received w'"
proof (induction n arbitrary: w)
  case 0
  then show ?case by (auto split: if_splits)
next
  case (Suc n)
  then show ?case by (auto simp: bindA_eq_Inr split: if_splits)
qed

text \<open>As many pauses as time units to wait are enough when every pause takes one.\<close>

lemma throttle_ends:
  assumes "\<And>w w1. probe env w = (Inr (), w1) \<Longrightarrow> dl_clock env w \<le> dl_clock env w1"
    and "\<And>w. dl_clock env w < dl_clock env (dl_sleep env w)" and "0 < dq_rate r"
    and "\<And>w e w1. probe env w = (Inl e, w1) \<Longrightarrow> e \<noteq> pauses_exhausted"
  shows "received * dl_second env - (dl_clock env w - started) * dq_rate r \<le> int n \<Longrightarrow>
    fst (throttle env r started received n w) \<noteq> Inl pauses_exhausted"
proof (induction n arbitrary: w)
  case 0
  then show ?case by (simp add: too_fast_def)
next
  case (Suc n)
  show ?case
  proof (cases "probe env w")
    case (Pair res w1)
    show ?thesis
    proof (cases res)
      case (Inl e)
      with Pair assms(4) show ?thesis by (auto simp: bindA_def)
    next
      case (Inr u)
      with Pair assms(1,2) have "dl_clock env w + 1 \<le> dl_clock env (dl_sleep env w1)"
        by (metis add1_zle_eq le_less_trans old.unit.exhaust)
      then have "(dl_clock env w + 1 - started) * dq_rate r \<le>
          (dl_clock env (dl_sleep env w1) - started) * dq_rate r"
        using assms(3) by (intro mult_right_mono) auto
      with Suc.prems assms(3) have "received * dl_second env -
          (dl_clock env (dl_sleep env w1) - started) * dq_rate r \<le> int n"
        by (simp add: algebra_simps)
      with Suc.IH Pair Inr show ?thesis by (simp add: bindA_def)
    qed
  qed
qed

text \<open>C28: A response that was received under a limit of the rate took at least the time that the limit
  asks for: what arrived, in seconds times the limit, is no more than the time that has passed.
\<close>

theorem rate_limit_is_kept:
  assumes "receive env r i response_end deadline started failure written received parts w = (Inr n, w')"
    and "dq_rate r \<noteq> 0" and "parts \<noteq> []"
  shows "(received + (n - written)) * dl_second env \<le> (dl_clock env w' - started) * dq_rate r"
  using assms(1,3)
proof (induction parts arbitrary: written received w)
  case Nil
  then show ?case by simp
next
  case (Cons part parts)
  let ?written = "written + int (length part)" and ?received = "received + int (length part)"
  from Cons.prems(1) assms(2) obtain w1 w2 where
    waited: "throttle env r started ?received (dl_fuel env) w1 = (Inr (), w2)" and
    rest: "receive env r i response_end deadline started failure ?written ?received parts w2 = (Inr n, w')"
    by (auto simp: Let_def bindA_eq_Inr split: if_splits)
  show ?case
  proof (cases "parts = []")
    case True
    with rest have "n = ?written" "w' = w2"
      by (auto simp: retA_def raiseA_def split: option.splits)
    with throttle_waits [OF waited] show ?thesis by (simp add: too_fast_def)
  next
    case False
    from Cons.IH [OF rest this] show ?thesis by simp
  qed
qed

text \<open>The clock of the witness passes as the waits do.\<close>

definition slow_download :: "int download_env" where
  "slow_download =
     (plain_download [] (\<lambda>s. s))\<lparr>dl_clock := dw_rest, dl_sleep := (\<lambda>w. w\<lparr>dw_rest := dw_rest w + 1\<rparr>),
        dl_second := 1000, dl_fuel := 5\<rparr>"

definition slow_request :: download_request where
  "slow_request = (plain_request 2 None)\<lparr>dq_rate := 1024\<rparr>"

definition slow_start :: "int download_world" where
  "slow_start =
     \<lparr>dw_partial = InodeEntry 1, dw_target = Absent, dw_checkpoint = CheckpointAbsent,
      dw_inodes = (\<lambda>_. \<lparr>ino_content = [], ino_mtime = 0\<rparr>), dw_memory = no_state, dw_rest = 0\<rparr>"

lemma slow_receives:
  "fst (receive slow_download slow_request 1 2 9 0 None 0 0 [''a'', ''b''] slow_start) = Inr 2"
  by (simp add: slow_download_def slow_request_def slow_start_def plain_request_def plain_download_def bindA_def
      probe_def retA_def guardA_def append_partial_def set_content_def too_fast_def chunked_def content_of_def
      numeral_eq_Suc)

lemma rate_limit_is_kept_witness:
  "\<exists>w'. receive slow_download slow_request 1 2 9 0 None 0 0 [''a'', ''b''] slow_start = (Inr 2, w') \<and>
     2 * 1000 \<le> (dl_clock slow_download w' - 0) * 1024"
proof -
  obtain w' where run:
    "receive slow_download slow_request 1 2 9 0 None 0 0 [''a'', ''b''] slow_start = (Inr 2, w')"
    using slow_receives by (metis prod.collapse)
  from rate_limit_is_kept [OF this] run show ?thesis
    by (intro exI [of _ w']) (simp add: slow_request_def slow_download_def)
qed

section \<open>Destinations\<close>

lemma removesuffix_append: "suffix \<noteq> [] \<Longrightarrow> removesuffix suffix (s @ suffix) \<noteq> s @ suffix"
  by (simp add: removesuffix_def)

lemma reserved_names:
  "reserved_name (partial_name n)" "reserved_name (checkpoint_name n)" "reserved_name (temporary_name n)"
  using removesuffix_append [of "''.mediasync.part''" "''.'' @ n"]
    removesuffix_append [of "''.mediasync.json''" "''.'' @ n"]
    removesuffix_append [of "''.mediasync.json.tmp''" "''.'' @ n"]
  by (simp_all add: reserved_name_def RESERVED_SUFFIXES_def partial_name_def checkpoint_name_def
      temporary_name_def)

lemma split_slash_no_slash: "p \<in> set (split_slash s) \<Longrightarrow> CHR ''/'' \<notin> set p"
  by (induction s arbitrary: p) (auto split: list.splits if_splits)

lemma destination_stays_below:
  assumes "destination_path view root relative = Inr target"
  shows "\<exists>parts. target = pv_root view root @ parts \<and>
    (\<forall>p \<in> set parts. p \<noteq> [] \<and> p \<noteq> ''.'' \<and> p \<noteq> ''..'' \<and> CHR ''/'' \<notin> set p \<and> \<not> reserved_name p) \<and>
    (\<forall>n. 0 < n \<longrightarrow> n \<le> length parts \<longrightarrow> \<not> pv_is_symlink view (pv_root view root @ take n parts)) \<and>
    take (length (pv_root view root)) (pv_resolve view target) = pv_root view root"
proof -
  let ?parts = "path_parts (parse_path relative)"
  from assms have ok: "pp_root (parse_path relative) = []" "target = pv_root view root @ ?parts"
    "\<forall>x \<in> set (split_slash relative). x \<noteq> ''..''" "\<forall>p \<in> set ?parts. \<not> reserved_name p"
    "\<forall>n \<in> set [1..<length ?parts + 1]. \<not> pv_is_symlink view (pv_root view root @ take n ?parts)"
    "take (length (pv_root view root)) (pv_resolve view target) = pv_root view root"
    by (auto simp: destination_path_def Let_def list_ex_iff split: if_splits)
  have parts: "set ?parts \<subseteq> {p \<in> set (split_slash relative). p \<noteq> [] \<and> p \<noteq> ''.''}"
    using ok(1) by (auto simp: path_parts_def parse_path_def)
  show ?thesis
    using ok parts split_slash_no_slash by (intro exI [of _ ?parts]) fastforce
qed

text \<open>A destination that is accepted is below the root: the root's path followed by parts that are
  names, of which none is a link, none a name of the recovery files, and which leads below the root once
  the links are followed.
\<close>

theorem destination_stays_below_root:
  assumes "destination_path view root relative = Inr target"
  shows "\<exists>parts. target = pv_root view root @ parts \<and>
    (\<forall>p \<in> set parts. p \<noteq> [] \<and> p \<noteq> ''.'' \<and> p \<noteq> ''..'' \<and> CHR ''/'' \<notin> set p \<and> \<not> reserved_name p) \<and>
    (\<forall>n. 0 < n \<longrightarrow> n \<le> length parts \<longrightarrow> \<not> pv_is_symlink view (pv_root view root @ take n parts)) \<and>
    take (length (pv_root view root)) (pv_resolve view target) = pv_root view root"
  by (rule destination_stays_below [OF assms])

lemma destination_stays_below_root_witness:
  "destination_path \<lparr>pv_is_dir = (\<lambda>_. True), pv_root = (\<lambda>_. [''srv'']), pv_is_symlink = (\<lambda>_. False),
      pv_resolve = (\<lambda>p. p)\<rparr> ''/srv'' ''a/b'' = Inr [''srv'', ''a'', ''b''] \<and>
   (\<exists>parts. [''srv'', ''a'', ''b''] = [''srv''] @ parts \<and> ''..'' \<notin> set parts)"
proof -
  let ?view = "\<lparr>pv_is_dir = (\<lambda>_. True), pv_root = (\<lambda>_. [''srv'']), pv_is_symlink = (\<lambda>_. False),
      pv_resolve = (\<lambda>p. p)\<rparr>"
  have run: "destination_path ?view ''/srv'' ''a/b'' = Inr [''srv'', ''a'', ''b'']" by code_simp
  from destination_stays_below_root [OF run] run show ?thesis by auto
qed

lemma recovery_names_eq [simp]:
  "partial_name a = partial_name b \<longleftrightarrow> a = b" "checkpoint_name a = checkpoint_name b \<longleftrightarrow> a = b"
  "temporary_name a = temporary_name b \<longleftrightarrow> a = b"
  by (simp_all add: partial_name_def checkpoint_name_def temporary_name_def)

lemma recovery_names_last:
  "last (partial_name a) = CHR ''t''" "last (checkpoint_name a) = CHR ''n''"
  "last (temporary_name a) = CHR ''p''"
  by (simp_all add: partial_name_def checkpoint_name_def temporary_name_def)

lemma recovery_names_neq [simp]:
  "partial_name a \<noteq> checkpoint_name b" "partial_name a \<noteq> temporary_name b"
  "checkpoint_name a \<noteq> temporary_name b" "checkpoint_name a \<noteq> partial_name b"
  "temporary_name a \<noteq> partial_name b" "temporary_name a \<noteq> checkpoint_name b"
  using recovery_names_last [of a] recovery_names_last [of b] by auto

text \<open>The names that a download of \<open>name\<close> uses in its directory.\<close>

definition download_names :: "string \<Rightarrow> string set" where
  "download_names name = {name, partial_name name, checkpoint_name name, temporary_name name}"

text \<open>Downloads do not get in each other's way: two accepted destinations with different names in one
  directory share none of the names of target, partial file, checkpoint and its temporary file.
\<close>

theorem downloads_do_not_collide:
  assumes "destination_path view root r1 = Inr (pv_root view root @ directory @ [n1])"
    and "destination_path view root r2 = Inr (pv_root view root @ directory @ [n2])"
    and "n1 \<noteq> n2"
  shows "download_names n1 \<inter> download_names n2 = {}"
proof -
  have "\<not> reserved_name n1" "\<not> reserved_name n2"
    using destination_stays_below [OF assms(1)] destination_stays_below [OF assms(2)] by auto
  then have "n1 \<notin> {partial_name a, checkpoint_name a, temporary_name a}"
    "n2 \<notin> {partial_name a, checkpoint_name a, temporary_name a}" for a
    using reserved_names by auto
  with assms(3) show ?thesis by (auto simp: download_names_def)
qed

lemma downloads_do_not_collide_witness:
  "download_names ''a'' \<inter> download_names ''b'' = {}"
proof -
  let ?view = "\<lparr>pv_is_dir = (\<lambda>_. True), pv_root = (\<lambda>_. [''srv'']), pv_is_symlink = (\<lambda>_. False),
      pv_resolve = (\<lambda>p. p)\<rparr>"
  have "destination_path ?view ''/srv'' ''x/a'' = Inr (pv_root ?view ''/srv'' @ [''x''] @ [''a''])"
    "destination_path ?view ''/srv'' ''x/b'' = Inr (pv_root ?view ''/srv'' @ [''x''] @ [''b''])"
    by code_simp+
  from downloads_do_not_collide [OF this] show ?thesis by simp
qed

section \<open>Tasks\<close>

text \<open>C26: At most one download of a destination is active: a request that is granted, to download, to retry or
  to cancel, keeps the chain of the tasks of each destination, whatever other clients do between its look
  for a task and its insertion, as long as they keep the chain too and no chosen directory has become a
  link; and in such a chain two active tasks with one destination are the same.
\<close>

theorem one_active_download_per_destination:
  assumes "others_fair env" and "chained env d" and "roots_stable env d"
    and "enqueue_downloads env file_ids root directory d = Inr (ids, d') \<or>
      retry_download env tid d = Inr (n, d') \<or> cancel_download env tid d = Inr (n, d')"
  shows "chained env d' \<and>
    (\<forall>t \<in> set (db_tasks d'). \<forall>t' \<in> set (db_tasks d'). at_destination a b t \<and> at_destination a b t' \<and>
       active_download t \<and> active_download t' \<longrightarrow> t = t')"
proof -
  have "chained env d'"
    using assms(4) enqueue_chained [OF assms(1,2)] retry_chained [OF assms(1-3)] cancel_chained [OF assms(2)]
    by blast
  then show ?thesis using chained_one_active at_destination_located by blast
qed

definition plain_subscription :: subscription where
  "plain_subscription =
     \<lparr>s_id = 7, s_cloud_account_id = 2, s_name = ''s'', s_provider = ''pikpak'', s_share_url = ''u'',
      s_share_key = None, s_share_password = None, s_source_folder_id = None, s_target_path = ''/t'',
      s_target_drive_id = None, s_target_drive_type = None, s_target_folder_id = None,
      s_schedule = ''1h'', s_enabled = True, s_status = ''active'', s_initial_sync_mode = ''full'',
      s_last_scanned_at = None, s_last_full_scanned_at = None, s_next_scan_at = None, s_last_error = None\<rparr>"

definition plain_file :: cloud_file where
  "plain_file =
     \<lparr>f_id = 3, f_subscription_id = 7, f_remote_file_id = ''r'', f_parent_remote_file_id = None,
      f_filename = ''f'', f_relative_path = ''a/f'', f_item_type = ''file'', f_size = Some 3,
      f_content_hash = None, f_fingerprint = ''p'', f_status = ''saved'', f_target_file_id = Some ''x'',
      f_target_path = Some ''/t/f'', f_first_seen_at = 0, f_last_seen_at = 0, f_saved_at = Some 0,
      f_last_error = None\<rparr>"

definition plain_store :: db where
  "plain_store =
     \<lparr>db_tasks = [], db_runs = [], db_subscriptions = [plain_subscription], db_files = [plain_file],
      db_updates = []\<rparr>"

definition plain_api :: api_env where
  "plain_api =
     \<lparr>ae_sha256 = (\<lambda>s. s), ae_stat = (\<lambda>_. Inr (1, 2)), ae_others = (\<lambda>d. d), ae_now = 100,
      ae_settings = \<lparr>ds_expanduser = (\<lambda>s. s), ds_resolve = (\<lambda>s. Some s), ds_is_dir = (\<lambda>_. True),
        ds_writable = (\<lambda>_. True), ds_config = None, ds_download_root = ''/srv'', ds_absolute = (\<lambda>s. s)\<rparr>,
      ae_paths = \<lparr>pv_is_dir = (\<lambda>_. True), pv_root = (\<lambda>_. [''srv'']), pv_is_symlink = (\<lambda>_. False),
        pv_resolve = (\<lambda>p. p)\<rparr>\<rparr>"

lemma one_active_download_per_destination_witness:
  "case enqueue_downloads plain_api [3, 3] None [] plain_store of
     Inl _ \<Rightarrow> False | Inr (ids, d') \<Rightarrow> ids = [1] \<and> chained plain_api d'"
proof -
  have "(case enqueue_downloads plain_api [3, 3] None [] plain_store of Inl _ \<Rightarrow> [] | Inr (ids, _) \<Rightarrow> ids) = [1]"
    by code_simp
  then obtain d' where run: "enqueue_downloads plain_api [3, 3] None [] plain_store = Inr ([1], d')"
    by (auto split: sum.splits)
  have "others_fair plain_api" by (simp add: others_fair_def plain_api_def)
  moreover have "chained plain_api plain_store" "roots_stable plain_api plain_store"
    by (simp_all add: chained_def roots_stable_def plain_store_def)
  ultimately show ?thesis
    using one_active_download_per_destination [of plain_api plain_store "[3, 3]" None "[]" "[1]" d'] run by simp
qed

section \<open>The call of a task\<close>








section \<open>A finished download is found again\<close>

text \<open>Nothing fails, nobody else downloads, and the task is not cancelled.\<close>

definition untroubled :: "'p download_env \<Rightarrow> download_request \<Rightarrow> bool" where
  "untroubled env r \<longleftrightarrow>
     (\<forall>site w. dl_io env site w = None) \<and> (\<forall>w. \<not> dl_locked env w) \<and> (\<forall>w. fst (probe env w) = Inr ()) \<and>
     validate_download_url (dl_netloc_ok env) (dq_url r) = Inr () \<and>
     (case dq_size r of None \<Rightarrow> False | Some n \<Rightarrow> 0 \<le> n)"

lemma recorded_kept:
  assumes "recorded env r (InodeEntry i) w" and "dw_target w = InodeEntry i" and "target_kept w w'"
    and "dw_checkpoint w' = dw_checkpoint w"
  shows "recorded env r (InodeEntry i) w'"
proof -
  have "dw_inodes w' i = dw_inodes w i" using assms(2,3) by (simp add: target_kept_def)
  then show ?thesis
    using assms(1,4) by (simp add: recorded_def entry_identity_def content_of_def)
qed

lemma found_again:
  assumes "untroubled env r" and "dw_target w = InodeEntry i" and "dw_partial w = InodeEntry j"
    and "recorded env r (InodeEntry i) w"
  shows "\<exists>w'. thenA (read_checkpoint env) (\<lambda>w. if dw_target w \<noteq> Absent then existing_target env r w
           else m w) w = (Inr (size_of r), w') \<and> dw_partial w' = Absent"
proof -
  obtain s ident where s: "dw_checkpoint w = Checkpoint s" "ck_identity s = Some (fingerprint env r)"
    "ck_published s = Some ident" "entry_identity env (InodeEntry i) w = Inr ident"
    using assms(4) by (auto simp: recorded_def)
  have io: "dio env site w = (Inr (), w)" for site w using assms(1) by (simp add: dio_def untroubled_def)
  have "entry_identity env (InodeEntry i) (w\<lparr>dw_memory := s\<rparr>) = Inr ident"
    using s(4) by (simp add: entry_identity_def)
  then show ?thesis
    using assms(2,3) s
    by (simp add: read_checkpoint_def bindA_def io modify_memory_def existing_target_def remove_partial_def retA_def)
qed

text \<open>A download whose file was published is found again: when nothing fails, the next call returns the
  size, leaves the file as it is and no partial file beside it.
\<close>

theorem finished_download_is_found_again:
  assumes "calm env" and "untroubled env r" and "dw_target w = InodeEntry i" and "dw_partial w = Absent"
    and "recorded env r (InodeEntry i) w"
  shows "\<exists>w'. stream_download env r w = (Inr (size_of r), w') \<and> dw_partial w' = Absent \<and>
      dw_target w' = InodeEntry i \<and> dw_inodes w' i = dw_inodes w i"
proof -
  let ?rest = "\<lambda>j deadline. \<lambda>w. if dw_target w \<noteq> Absent then existing_target env r w
      else thenA (prepare_partial env r j) (thenA (write_checkpoint env)
             (finallyA (transfer_content env r j deadline) (save_progress env))) w"
  have io: "dio env site w = (Inr (), w)" for site w using assms(2) by (simp add: dio_def untroubled_def)
  define j where "j = dl_new_inode env w"
  define w1 where "w1 = set_content env j [] (w\<lparr>dw_partial := InodeEntry j\<rparr>)"
  have opened: "open_partial env w = (Inr j, w1)"
    using assms(4) by (simp add: open_partial_def bindA_def io Let_def j_def w1_def)
  have kept1: "target_kept w w1" by (rule open_partial_runs(1) [OF assms(1) opened])
  obtain w2 where probed: "probe env w1 = (Inr (), w2)"
    using assms(2) unfolding untroubled_def by (metis prod.collapse)
  have after_probe: "thenA (probe env) m w1 = m w2" for m :: "('a download_world, int) act"
    by (simp add: bindA_def probed)
  have "bystander w1 w2" using calm_probe [OF assms(1)] probed by (metis keeps_def snd_conv)
  then have w2: "target_kept w w2" "dw_partial w2 = InodeEntry j" "dw_checkpoint w2 = dw_checkpoint w"
    using kept1 by (auto simp: bystander_def w1_def intro: target_kept_trans)
  have "dw_target w2 = InodeEntry i" using w2(1) assms(3) by (simp add: target_kept_def)
  from found_again [OF assms(2) this w2(2) recorded_kept [OF assms(5,3) w2(1,3)]]
  have "\<exists>w'. download_locked env r j deadline w1 = (Inr (size_of r), w') \<and> dw_partial w' = Absent" for deadline
    unfolding download_locked_def after_probe .
  then obtain w' where locked: "download_locked env r j (dl_clock env w1 + 8 * dl_second env) w1 =
      (Inr (size_of r), w')" and "dw_partial w' = Absent" by blast
  then have "stream_download env r w = (Inr (size_of r), w')"
    using assms(2) opened io
    by (auto simp: stream_download_def untroubled_def bindA_def require_def split: option.splits)
  with stream_download_target [OF assms(1), of w r] assms(3) \<open>dw_partial w' = Absent\<close> show ?thesis
    by (auto simp: target_kept_def)
qed

lemma finished_download_is_found_again_witness:
  "\<exists>w'. stream_download (plain_download ''abc'' (\<lambda>s. s)) (plain_request 3 None)
      (plain_directory (InodeEntry 4) (Checkpoint \<lparr>ck_identity = Some ''request'', ck_digests = None,
         ck_published = Some (1, 4, 3, 0)\<rparr>) (\<lambda>_. \<lparr>ino_content = ''abc'', ino_mtime = 0\<rparr>)) = (Inr 3, w') \<and>
    dw_target w' = InodeEntry 4 \<and> content_of 4 w' = ''abc''"
proof -
  let ?env = "plain_download ''abc'' (\<lambda>s. s) :: unit download_env" and ?r = "plain_request 3 None"
  let ?w = "plain_directory (InodeEntry 4) (Checkpoint \<lparr>ck_identity = Some ''request'', ck_digests = None,
         ck_published = Some (1, 4, 3, 0)\<rparr>) (\<lambda>_. \<lparr>ino_content = ''abc'', ino_mtime = 0\<rparr>)"
  have "untroubled ?env ?r"
    by (simp add: untroubled_def plain_fields plain_runs plain_request_def plain_url)
  moreover have "recorded ?env ?r (InodeEntry 4) ?w"
    by (simp add: recorded_def plain_fields entry_identity_def content_of_def plain_directory_def)
      (simp add: plain_download_def)
  ultimately have "\<exists>w'. stream_download ?env ?r ?w = (Inr (size_of ?r), w') \<and> dw_partial w' = Absent \<and>
      dw_target w' = InodeEntry 4 \<and> dw_inodes w' 4 = dw_inodes ?w 4"
    by (intro finished_download_is_found_again plain_calm) (simp_all add: plain_directory_def)
  then show ?thesis
    by (auto simp: plain_request_def size_of_def content_of_def plain_directory_def)
qed

end
