(* ===== verification/Base64.thy ===== *)
theory Base64
  imports Prelude
begin

text \<open>
  Base64 with the URL-safe alphabet (\<open>base64.urlsafe_b64encode\<close>, and \<open>base64.b64decode\<close> with
  \<open>altchars=b"-_"\<close> and \<open>validate=True\<close>), over the bytes of strings, and that decoding undoes encoding
  whether or not the padding was stripped.
\<close>

section \<open>Encoding\<close>

definition b64_char :: "nat \<Rightarrow> char" where
  "b64_char n =
     (if n < 26 then char_of (65 + n) else if n < 52 then char_of (71 + n)
      else if n < 62 then char_of (n - 4) else if n = 62 then CHR ''-'' else CHR ''_'')"

definition b64_pad :: char where
  "b64_pad = CHR ''=''"

fun b64_encode :: "string \<Rightarrow> string" where
  "b64_encode [] = []"
| "b64_encode [a] =
     (let x = of_char a :: nat in [b64_char (x div 4), b64_char (x mod 4 * 16), b64_pad, b64_pad])"
| "b64_encode [a, b] =
     (let x = of_char a :: nat; y = of_char b in
      [b64_char (x div 4), b64_char (x mod 4 * 16 + y div 16), b64_char (y mod 16 * 4), b64_pad])"
| "b64_encode (a # b # c # s) =
     (let x = of_char a :: nat; y = of_char b; z = of_char c in
      [b64_char (x div 4), b64_char (x mod 4 * 16 + y div 16), b64_char (y mod 16 * 4 + z div 64),
       b64_char (z mod 64)] @ b64_encode s)"

text \<open>\<open>rstrip("=")\<close>, and the padding that is put back.\<close>

definition strip_padding :: "string \<Rightarrow> string" where
  "strip_padding s = rev (dropWhile (\<lambda>c. c = b64_pad) (rev s))"

definition pad_base64 :: "string \<Rightarrow> string" where
  "pad_base64 s = s @ replicate (nat (- int (length s) mod 4)) b64_pad"

section \<open>Decoding\<close>

text \<open>
  The alphabet also has the characters that \<open>altchars\<close> replaces; a padding that ends no group of four
  is an error.
\<close>

definition b64_value :: "char \<Rightarrow> nat option" where
  "b64_value c =
     (let n = of_char c :: nat in
      if 65 \<le> n \<and> n \<le> 90 then Some (n - 65) else if 97 \<le> n \<and> n \<le> 122 then Some (n - 71)
      else if 48 \<le> n \<and> n \<le> 57 then Some (n + 4)
      else if c = CHR ''-'' \<or> c = CHR ''+'' then Some 62
      else if c = CHR ''_'' \<or> c = CHR ''/'' then Some 63 else None)"

fun b64_decode :: "string \<Rightarrow> string option" where
  "b64_decode [] = Some []"
| "b64_decode (a # b # c # d # s) =
     (case (b64_value a, b64_value b) of
        (Some x, Some y) \<Rightarrow>
          if c = b64_pad then
            (if d = b64_pad \<and> s = [] then Some [char_of (x * 4 + y div 16)] else None)
          else (case b64_value c of
                  None \<Rightarrow> None
                | Some z \<Rightarrow>
                    if d = b64_pad then
                      (if s = [] then Some [char_of (x * 4 + y div 16), char_of (y mod 16 * 16 + z div 4)]
                       else None)
                    else (case (b64_value d, b64_decode s) of
                            (Some u, Some r) \<Rightarrow>
                              Some (char_of (x * 4 + y div 16) # char_of (y mod 16 * 16 + z div 4) #
                                    char_of (z mod 4 * 64 + u) # r)
                          | _ \<Rightarrow> None))
      | _ \<Rightarrow> None)"
| "b64_decode _ = None"

section \<open>Decoding undoes encoding\<close>

lemma b64_char [simp]:
  assumes "n < 64"
  shows "b64_value (b64_char n) = Some n" and "b64_char n \<noteq> b64_pad"
proof -
  have code: "(of_char (b64_char n) :: nat) =
      (if n < 26 then 65 + n else if n < 52 then 71 + n else if n < 62 then n - 4 else if n = 62 then 45 else 95)"
    using assms by (simp add: b64_char_def)
  then have "(of_char (b64_char n) :: nat) \<noteq> of_char b64_pad" using assms by (auto simp: b64_pad_def)
  then show "b64_char n \<noteq> b64_pad" by metis
  show "b64_value (b64_char n) = Some n"
    using assms unfolding b64_value_def Let_def code by (auto simp: b64_char_def)
qed

text \<open>A byte in its parts.\<close>

lemma byte_less [simp]: "(of_char c :: nat) < 256"
  using nat_of_char_less_256 [of c] by simp

lemma byte_div [simp]:
  "(of_char c :: nat) div 4 < 64" "(of_char c :: nat) div 16 < 16" "(of_char c :: nat) div 64 < 4"
  by (simp_all add: less_mult_imp_div_less)

lemma byte_parts [simp]:
  "(of_char c :: nat) mod 4 * 16 < 64" "(of_char c :: nat) mod 16 * 4 < 64" "(of_char c :: nat) mod 64 < 64"
  "(of_char c :: nat) mod 4 * 16 + (of_char d :: nat) div 16 < 64"
  "(of_char c :: nat) mod 16 * 4 + (of_char d :: nat) div 64 < 64"
  using mod_less_divisor [of 4 "of_char c :: nat"] mod_less_divisor [of 16 "of_char c :: nat"]
    byte_div(2) [of d] byte_div(3) [of d]
  by linarith+

lemma b64_decode_encode: "b64_decode (b64_encode s) = Some s"
  by (induction s rule: b64_encode.induct) (simp_all add: Let_def)

lemma length_b64_encode: "length (b64_encode s) mod 4 = 0"
  by (induction s rule: b64_encode.induct) (simp_all add: Let_def)

text \<open>What is encoded ends in at most two characters of padding.\<close>

definition padded :: "string \<Rightarrow> string \<Rightarrow> nat \<Rightarrow> bool" where
  "padded s t n \<longleftrightarrow> s = t @ replicate n b64_pad \<and> n < 3 \<and> (if t = [] then n = 0 else last t \<noteq> b64_pad)"

lemma padded_cons: "padded s t n \<Longrightarrow> d \<noteq> b64_pad \<Longrightarrow> padded (a # b # c # d # s) (a # b # c # d # t) n"
  by (auto simp: padded_def split: if_splits)

lemma encode_padded: "\<exists>t n. padded (b64_encode s) t n"
proof (induction s rule: b64_encode.induct)
  case 1
  have "padded (b64_encode []) [] 0" by (simp add: padded_def)
  then show ?case by blast
next
  case (2 a)
  have "padded [x, y, b64_pad, b64_pad] [x, y] 2" if "y \<noteq> b64_pad" for x y
    using that by (simp add: padded_def numeral_2_eq_2)
  then show ?case unfolding b64_encode.simps Let_def using b64_char(2) byte_parts(1) by blast
next
  case (3 a b)
  have "padded [x, y, z, b64_pad] [x, y, z] 1" if "z \<noteq> b64_pad" for x y z
    using that by (simp add: padded_def)
  then show ?case unfolding b64_encode.simps Let_def using b64_char(2) byte_parts(2) by blast
next
  case (4 a b c s)
  then obtain t n where "padded (b64_encode s) t n" by blast
  from padded_cons [OF this b64_char(2) [OF byte_parts(3)]] show ?case
    unfolding b64_encode.simps Let_def append_Cons append_Nil by blast
qed

lemma dropWhile_replicate_append: "P x \<Longrightarrow> dropWhile P (replicate n x @ ys) = dropWhile P ys"
  by (induction n) auto

lemma strip_padded: "padded s t n \<Longrightarrow> strip_padding s = t"
  by (cases t rule: rev_cases)
    (auto simp: padded_def strip_padding_def dropWhile_replicate_append)

lemma base64_roundtrip: "b64_decode (pad_base64 (strip_padding (b64_encode s))) = Some s"
proof -
  obtain t n where t: "padded (b64_encode s) t n" using encode_padded by blast
  then have eq: "b64_encode s = t @ replicate n b64_pad" and "n < 3" by (simp_all add: padded_def)
  have "(length t + n) mod 4 = 0" using length_b64_encode [of s] eq by simp
  then obtain k where "length t + n = k * 4" by (metis mod_0_imp_dvd dvd_div_mult_self)
  then have "- int (length t) = int n + (- int k) * 4" by linarith
  then have "- int (length t) mod 4 = int n mod 4" by (metis mod_mult_self1)
  then have "nat (- int (length t) mod 4) = n" using \<open>n < 3\<close> by simp
  with strip_padded [OF t] have "pad_base64 (strip_padding (b64_encode s)) = b64_encode s"
    by (simp add: pad_base64_def eq)
  then show ?thesis by (simp add: b64_decode_encode)
qed

end
