(* ===== verification/PikPak.thy ===== *)
theory PikPak
  imports DownloadStream ScanService Base64
begin

text \<open>
  The provider of PikPak (\<open>app/providers/pikpak/provider.py\<close>, \<open>pikpak/login.py\<close>): addresses of
  shares, the session with its tokens, listings, and saving a shared file with one submission that is
  confirmed by fingerprint.  The HTTP client, the hashes and the writer of JSON are parameters; the
  session of the provider object is a part of the state.  Lengths of texts are counted in bytes.
\<close>

section \<open>Errors and identifiers\<close>

definition pikpak_exn :: "string \<Rightarrow> exn" where
  "pikpak_exn tag = raise_exn CPikPakRequest (Some ''PIKPAK_REQUEST_FAILED'') tag"

definition pikpak_credential_exn :: exn where
  "pikpak_credential_exn = raise_exn CPikPakCredential (Some ''PIKPAK_CREDENTIAL_INVALID'') ''credential''"

definition uncertain_exn :: "string \<Rightarrow> exn" where
  "uncertain_exn tag = raise_exn CWriteUncertain (Some ''PROVIDER_WRITE_UNCERTAIN'') tag"

definition capability_exn :: "string \<Rightarrow> exn" where
  "capability_exn tag = raise_exn CProviderCapability (Some ''PROVIDER_CAPABILITY_UNAVAILABLE'') tag"

text \<open>\<open>error = ProviderWriteUncertainError if write else PikPakRequestError\<close>.\<close>

definition request_exn :: "bool \<Rightarrow> string \<Rightarrow> exn" where
  "request_exn writes tag = (if writes then uncertain_exn tag else pikpak_exn tag)"

definition id_char :: "char \<Rightarrow> bool" where
  "id_char c \<longleftrightarrow> is_letter c \<or> is_digit c \<or> c = CHR ''_'' \<or> c = CHR ''-''"

definition id_ok :: "string \<Rightarrow> bool" where
  "id_ok s \<longleftrightarrow> s \<noteq> [] \<and> length s \<le> 128 \<and> list_all id_char s"

text \<open>\<open>_parent\<close>.\<close>

definition folder_parent :: "string \<Rightarrow> exn + string" where
  "folder_parent folder_id =
     (if folder_id \<in> {[], ''root'', ''/''} then Inr []
      else if id_ok folder_id then Inr folder_id else Inl (pikpak_exn ''folder id''))"

text \<open>The path of a URL, and its segments.\<close>

definition url_path :: "string \<Rightarrow> string" where
  "url_path s =
     (let rest = snd (split_scheme (clean_url s)) in
      takeWhile (\<lambda>c. c \<notin> {CHR ''?'', CHR ''#''})
        (case expect ''//'' rest of
           None \<Rightarrow> rest
         | Some r \<Rightarrow> dropWhile (\<lambda>c. c \<notin> {CHR ''/'', CHR ''?'', CHR ''#''}) r))"

definition strip_slashes :: "string \<Rightarrow> string" where
  "strip_slashes s =
     (let slash = (\<lambda>c. c = CHR ''/'') in rev (dropWhile slash (rev (dropWhile slash s))))"

definition parse_share_url :: "(string \<Rightarrow> bool) \<Rightarrow> string \<Rightarrow> exn + string \<times> string" where
  "parse_share_url netloc_ok value =
     (let url = strip value; parts = split_slash (strip_slashes (url_path url)) in
      case bindR (urlparse netloc_ok url) (\<lambda>parsed.
           bindR (require (pu_scheme parsed = ''https'' \<and>
                    pu_hostname parsed \<in> {Some ''mypikpak.com'', Some ''www.mypikpak.com''} \<and>
                    \<not> is_set (pu_username parsed) \<and> \<not> is_set (pu_password parsed)) (tagged CValueError ''url'')) (\<lambda>_.
           bindR (url_port (url_netloc url)) (\<lambda>port.
           require (port \<in> {None, Some 443} \<and> length parts \<in> {2, 3} \<and> parts ! 0 = ''s'' \<and>
                    list_all id_ok (tl parts)) (tagged CValueError ''url'')))) of
        Inl _ \<Rightarrow> Inl (pikpak_exn ''share url'')
      | Inr _ \<Rightarrow> Inr (parts ! 1, if length parts = 3 then parts ! 2 else ''root''))"

section \<open>The session\<close>

definition AUTH_URL :: string where
  "AUTH_URL = ''https://user.mypikpak.com''"

definition DRIVE_URL :: string where
  "DRIVE_URL = ''https://api-drive.mypikpak.com''"

definition WEB_CLIENT_ID :: string where
  "WEB_CLIENT_ID = ''YUMx5nI8ZU8Ap8pm''"

definition WEB_CAPTCHA_SALTS :: "string list" where
  "WEB_CAPTCHA_SALTS =
     [''C9qPpZLN8ucRTaTiUMWYS9cQvWOE'', ''+r6CQVxjzJV6LCV'', ''F'', ''pFJRC'',
      ''9WXYIDGrwTCz2OiVlgZa90qpECPD6olt'', ''/750aCr4lm/Sly/c'', ''RB+DT/gZCrbV'', [],
      ''CyLsf7hdkIRxRm215hl'', ''7xHvLi2tOYP0Y92b'', ''ZGTXXxu8E/MIWaEDB+Sm/'', ''1UI3'',
      ''E7fP5Pfijd+7K+t6Tg/NhuLq0eEUVChpJSkrKxpO'', ''ihtqpG6FMt65+Xk+tWUH2'', ''NhXXU9rg4XXdzo7u5o'']"

record pikpak_credentials =
  pc_refresh_token :: string
  pc_client_id :: string
  pc_device_id :: string

text \<open>
  The attributes of the object that change; \<open>px_listing\<close> has the page tokens and the identifiers that
  the listing of a folder has seen.
\<close>

record pikpak_session =
  px_credentials :: pikpak_credentials
  px_access_token :: "string option"
  px_expires_at :: int
  px_captcha_token :: "string option"
  px_captcha_expires_at :: int
  px_token_update :: "string option"
  px_user_id :: "string option"
  px_share_tokens :: "string \<rightharpoonup> string"
  px_share_passwords :: "string \<rightharpoonup> string"
  px_share_root_pages :: "string \<rightharpoonup> (string \<times> json) list"
  px_listing :: "string \<rightharpoonup> string list \<times> string list"
  px_request_count :: int

record pikpak_request =
  kq_method :: string
  kq_url :: string
  kq_headers :: "(string \<times> string) list"
  kq_params :: "(string \<times> json) list"
  kq_json :: "json option"

text \<open>
  Where the session is in the state, and what the provider is given: \<open>pe_http\<close> is the HTTP client,
  whose errors are of the class \<open>HTTPError\<close>; of an answer the code reads the status and the JSON value,
  which \<open>json()\<close> may fail to read.  \<open>pe_fuel\<close> bounds the pages of a listing; \<open>pe_dumps\<close> and
  \<open>pe_dumps_text\<close> write JSON without blanks, in ASCII and not.
\<close>

record 's pikpak_env =
  pe_session :: "'s \<Rightarrow> pikpak_session"
  pe_set_session :: "pikpak_session \<Rightarrow> 's \<Rightarrow> 's"
  pe_http :: "pikpak_request \<Rightarrow> ('s, int \<times> json option) act"
  pe_monotonic :: "'s \<Rightarrow> int"
  pe_second :: int
  pe_time_ms :: "'s \<Rightarrow> int"
  pe_fuel :: nat
  pe_md5 :: "string \<Rightarrow> string"
  pe_sha256 :: "string \<Rightarrow> string"
  pe_dumps :: "json \<Rightarrow> string"
  pe_dumps_text :: "json \<Rightarrow> string"
  pe_loads :: "string \<Rightarrow> json option"
  pe_isoformat :: "string \<Rightarrow> string option"
  pe_netloc_ok :: "string \<Rightarrow> bool"

definition modify_session :: "'s pikpak_env \<Rightarrow> (pikpak_session \<Rightarrow> pikpak_session) \<Rightarrow> ('s, unit) act" where
  "modify_session env f s = (Inr (), pe_set_session env (f (pe_session env s)) s)"

text \<open>\<open>__init__\<close>: the stored credential is a token or a JSON object; \<open>uuid\<close> is a new identifier.\<close>

definition string_or :: "string \<Rightarrow> json \<Rightarrow> string" where
  "string_or d j = (case j of JStr s \<Rightarrow> s | _ \<Rightarrow> d)"

definition read_credentials :: "(string \<Rightarrow> json option) \<Rightarrow> string \<Rightarrow> exn + (string \<times> json) list" where
  "read_credentials loads value =
     (if take 1 value = ''{'' then
        (case loads value of
           None \<Rightarrow> Inl (pikpak_exn ''credential json'')
         | Some (JObj m) \<Rightarrow> Inr m
         | Some _ \<Rightarrow> Inl (pikpak_exn ''credentials''))
      else Inr [(''refresh_token'', JStr value)])"

definition session_credentials ::
    "(string \<Rightarrow> json option) \<Rightarrow> string \<Rightarrow> string \<Rightarrow> exn + pikpak_credentials" where
  "session_credentials loads uuid refresh_token =
     bindR (read_credentials loads (strip refresh_token)) (\<lambda>m.
     let token = strip (string_or [] (jget m ''refresh_token''));
         client = (case map_of m ''client_id'' of None \<Rightarrow> WEB_CLIENT_ID | Some j \<Rightarrow> string_or [] j);
         device = (case map_of m ''device_id'' of None \<Rightarrow> uuid | Some j \<Rightarrow> string_or [] j) in
     bindR (require (token \<noteq> []) (pikpak_exn ''token required'')) (\<lambda>_.
     bindR (require (id_ok client \<and> id_ok device) (pikpak_exn ''client or device'')) (\<lambda>_.
     Inr \<lparr>pc_refresh_token = token, pc_client_id = client, pc_device_id = device\<rparr>)))"

definition new_session :: "pikpak_credentials \<Rightarrow> pikpak_session" where
  "new_session c =
     \<lparr>px_credentials = c, px_access_token = None, px_expires_at = 0, px_captcha_token = None,
      px_captcha_expires_at = 0, px_token_update = None, px_user_id = None,
      px_share_tokens = (\<lambda>_. None), px_share_passwords = (\<lambda>_. None),
      px_share_root_pages = (\<lambda>_. None), px_listing = (\<lambda>_. None), px_request_count = 0\<rparr>"

section \<open>Requests\<close>

text \<open>Which stage was refused and why, in the message of the error.\<close>

definition STAGES :: "(string \<times> string) list" where
  "STAGES =
     [(''/v1/auth/token'', ''refresh''), (''/v1/shield/captcha/init'', ''captcha''),
      (''/v1/auth/signin'', ''sign in''), (''/drive/v1/about'', ''account''),
      (''/drive/v1/share'', ''share''), (''/drive/v1/share/detail'', ''share folder''),
      (''/drive/v1/files'', ''target folder''), (''/drive/v1/share/restore'', ''save'')]"

definition REASONS :: "(string \<times> string) list" where
  "REASONS =
     [(''captcha_invalid'', ''captcha invalid''), (''captcha_required'', ''captcha required''),
      (''invalid_argument'', ''argument refused''), (''invalid_request'', ''request refused''),
      (''invalid_account_or_password'', ''wrong account or password''),
      (''file_restore_own'', ''own share''), (''permission_denied'', ''no permission''),
      (''file_not_found'', ''not found'')]"

definition refusal :: "string \<Rightarrow> int \<Rightarrow> (string \<times> json) list \<Rightarrow> string" where
  "refusal url status payload =
     coalesce (map_of STAGES (url_path url)) ''request'' @ '': '' @
     coalesce (map_of REASONS (string_or [] (jget payload ''error''))) ''refused'' @ '' (HTTP '' @ int_str status @
     (case jget payload ''error_code'' of JInt n \<Rightarrow> '', code '' @ int_str n | _ \<Rightarrow> []) @ '')''"

definition check_answer ::
    "bool \<Rightarrow> string \<Rightarrow> int \<times> json option \<Rightarrow> exn + (string \<times> json) list" where
  "check_answer writes url answer =
     (case answer of (status, body) \<Rightarrow>
        if 500 \<le> status \<or> status \<in> {408, 429} then Inl (request_exn writes ''unavailable'')
        else case body of
               Some (JObj payload) \<Rightarrow>
                 if status \<in> {401, 403} \<or> jget payload ''error_code'' \<in> {JInt 16, JInt 4126}
                 then Inl pikpak_credential_exn
                 else if \<not> (200 \<le> status \<and> status < 300) \<or> truthy (jget payload ''error'') \<or>
                         truthy (jget payload ''error_code'')
                 then Inl (if 300 \<le> status \<and> status < 400 then request_exn writes ''redirect''
                           else pikpak_exn (refusal url status payload))
                 else Inr payload
             | _ \<Rightarrow> Inl (request_exn writes ''invalid response''))"

definition send_request ::
    "'s pikpak_env \<Rightarrow> bool \<Rightarrow> pikpak_request \<Rightarrow> ('s, (string \<times> json) list) act" where
  "send_request env writes req =
     thenA (modify_session env (\<lambda>x. x\<lparr>px_request_count := px_request_count x + 1\<rparr>)) (\<lambda>s.
       case pe_http env req s of
         (Inl e, s1) \<Rightarrow>
           (Inl (if e_class e = CNamed ''HTTPError'' then request_exn writes ''interrupted'' else e), s1)
       | (Inr answer, s1) \<Rightarrow> (check_answer writes (kq_url req) answer, s1))"

text \<open>How long a token lasts, in seconds.\<close>

definition lifetime_of :: "json \<Rightarrow> int" where
  "lifetime_of j =
     (case j of
        JInt n \<Rightarrow> n
      | JStr s \<Rightarrow> if s \<noteq> [] \<and> list_all is_digit s then int (digits_val s) else 300
      | _ \<Rightarrow> 300)"

definition expiry :: "'s pikpak_env \<Rightarrow> int \<Rightarrow> json \<Rightarrow> 's \<Rightarrow> int" where
  "expiry env cap j s = pe_monotonic env s + max 0 (min (lifetime_of j) cap - 30) * pe_second env"

definition credentials_json :: "pikpak_credentials \<Rightarrow> json" where
  "credentials_json c =
     JObj [(''refresh_token'', JStr (pc_refresh_token c)), (''client_id'', JStr (pc_client_id c)),
           (''device_id'', JStr (pc_device_id c))]"

definition json_option :: "string option \<Rightarrow> json" where
  "json_option x = (case x of None \<Rightarrow> JNull | Some s \<Rightarrow> JStr s)"

definition opt_string :: "json \<Rightarrow> string option" where
  "opt_string j = (case j of JStr s \<Rightarrow> Some s | _ \<Rightarrow> None)"

definition keep_tokens ::
    "'s pikpak_env \<Rightarrow> (string \<times> json) list \<Rightarrow> string \<Rightarrow> string \<Rightarrow> ('s, unit) act" where
  "keep_tokens env payload token refresh s =
     modify_session env (\<lambda>x.
       let c = (px_credentials x)\<lparr>pc_refresh_token := refresh\<rparr> in
       x\<lparr>px_access_token := Some token, px_credentials := c,
         px_token_update := Some (pe_dumps env (credentials_json c)),
         px_user_id := opt_string (jget payload ''sub''),
         px_expires_at := expiry env 7200 (jget payload ''expires_in'') s\<rparr>) s"

definition authenticate :: "'s pikpak_env \<Rightarrow> ('s, unit) act" where
  "authenticate env s =
     (let x = pe_session env s; c = px_credentials x in
      if is_set (px_access_token x) \<and> pe_monotonic env s < px_expires_at x then (Inr (), s)
      else bindA (send_request env False
             \<lparr>kq_method = ''POST'', kq_url = AUTH_URL @ ''/v1/auth/token'', kq_headers = [], kq_params = [],
              kq_json = Some (JObj [(''client_id'', JStr (pc_client_id c)),
                (''refresh_token'', JStr (pc_refresh_token c)), (''grant_type'', JStr ''refresh_token'')])\<rparr>)
             (\<lambda>payload.
               case (jget payload ''access_token'', jget payload ''refresh_token'') of
                 (JStr token, JStr refresh) \<Rightarrow>
                   if token = [] \<or> refresh = [] then raiseA (pikpak_exn ''token response'')
                   else keep_tokens env payload token refresh
               | _ \<Rightarrow> raiseA (pikpak_exn ''token response'')) s)"

definition captcha_signature :: "'s pikpak_env \<Rightarrow> string \<Rightarrow> string \<Rightarrow> string" where
  "captcha_signature env device timestamp =
     foldl (\<lambda>signature salt. pe_md5 env (signature @ salt))
       (WEB_CLIENT_ID @ ''2.0.0mypikpak.com'' @ device @ timestamp) WEB_CAPTCHA_SALTS"

definition captcha_request :: "'s pikpak_env \<Rightarrow> string \<Rightarrow> string \<Rightarrow> 's \<Rightarrow> pikpak_request" where
  "captcha_request env http_method path s =
     (let x = pe_session env s; device = pc_device_id (px_credentials x);
          timestamp = int_str (pe_time_ms env s) in
      \<lparr>kq_method = ''POST'', kq_url = AUTH_URL @ ''/v1/shield/captcha/init'', kq_headers = [], kq_params = [],
       kq_json = Some (JObj [(''client_id'', JStr WEB_CLIENT_ID), (''device_id'', JStr device),
         (''action'', JStr (http_method @ '':'' @ path)),
         (''meta'', JObj [(''client_version'', JStr ''2.0.0''), (''package_name'', JStr ''mypikpak.com''),
            (''user_id'', json_option (px_user_id x)), (''timestamp'', JStr timestamp),
            (''captcha_sign'', JStr (''1.'' @ captcha_signature env device timestamp))])])\<rparr>)"

definition keep_captcha :: "'s pikpak_env \<Rightarrow> (string \<times> json) list \<Rightarrow> ('s, unit) act" where
  "keep_captcha env payload s =
     (let token = string_or [] (jget payload ''captcha_token'') in
      if truthy (jget payload ''url'') \<or> token = [] then (Inl (pikpak_exn ''captcha''), s)
      else modify_session env (\<lambda>x. x\<lparr>px_captcha_token := Some token,
             px_captcha_expires_at := expiry env 300 (jget payload ''expires_in'') s\<rparr>) s)"

definition ensure_captcha :: "'s pikpak_env \<Rightarrow> string \<Rightarrow> string \<Rightarrow> ('s, unit) act" where
  "ensure_captcha env http_method path s =
     (let x = pe_session env s in
      if pc_client_id (px_credentials x) \<noteq> WEB_CLIENT_ID then (Inr (), s)
      else if is_set (px_captcha_token x) \<and> pe_monotonic env s < px_captcha_expires_at x then (Inr (), s)
      else bindA (send_request env False (captcha_request env http_method path s)) (keep_captcha env) s)"

text \<open>A request to the drive: its method and path, its parameters or its JSON body.\<close>

definition drive_request ::
    "'s pikpak_env \<Rightarrow> bool \<Rightarrow> string \<Rightarrow> string \<Rightarrow> (string \<times> json) list \<Rightarrow> json option \<Rightarrow>
     ('s, (string \<times> json) list) act" where
  "drive_request env writes http_method path params body =
     thenA (authenticate env)
    (thenA (ensure_captcha env http_method path)
      (\<lambda>s. let x = pe_session env s in
        send_request env writes
          \<lparr>kq_method = http_method, kq_url = DRIVE_URL @ path,
           kq_headers = [(''Authorization'', ''Bearer '' @ coalesce (px_access_token x) ''None''),
                         (''X-Device-Id'', pc_device_id (px_credentials x))] @
                        (if is_set (px_captcha_token x)
                         then [(''X-Captcha-Token'', coalesce (px_captcha_token x) [])] else []),
           kq_params = params, kq_json = body\<rparr> s))"

record drive_ref =
  dv_id :: string
  dv_type :: string
  dv_name :: string

record account_profile =
  af_identity :: string
  af_user_id :: "string option"
  af_default_drive_id :: "string option"
  af_drives :: "drive_ref list"

definition validate_account :: "'s pikpak_env \<Rightarrow> ('s, account_profile) act" where
  "validate_account env =
     bindA (drive_request env False ''GET'' ''/drive/v1/about'' [] None) (\<lambda>payload s.
       case (jget payload ''quota'', px_user_id (pe_session env s)) of
         (JObj _, Some user) \<Rightarrow>
           if user = [] then (Inl (pikpak_exn ''account response''), s)
           else (Inr \<lparr>af_identity = ''PikPak '' @ user, af_user_id = Some user,
                      af_default_drive_id = Some ''root'',
                      af_drives = [\<lparr>dv_id = ''root'', dv_type = ''default'', dv_name = ''default''\<rparr>]\<rparr>, s)
       | _ \<Rightarrow> (Inl (pikpak_exn ''account response''), s))"

section \<open>Listings\<close>

definition item_size :: "json \<Rightarrow> int option" where
  "item_size j =
     (case j of
        JInt n \<Rightarrow> if n < 0 then None else Some n
      | JStr s \<Rightarrow> if s \<noteq> [] \<and> list_all is_digit s then Some (int (digits_val s)) else None
      | _ \<Rightarrow> None)"

definition read_item :: "'s pikpak_env \<Rightarrow> json \<Rightarrow> exn + remote_item" where
  "read_item env raw =
     (case raw of
        JObj m \<Rightarrow>
          let file_id = string_or [] (jget m ''id''); name = string_or [] (jget m ''name'');
              kind = jget m ''kind'' in
          if \<not> id_ok file_id \<or> name = [] \<or> kind \<notin> {JStr ''drive#file'', JStr ''drive#folder''}
          then Inl (pikpak_exn ''file metadata'')
          else Inr \<lparr>ri_remote_file_id = file_id, ri_parent_id = opt_string (jget m ''parent_id''),
                    ri_filename = name,
                    ri_item_type = (if kind = JStr ''drive#folder'' then ''folder'' else ''file''),
                    ri_size = item_size (jget m ''size''),
                    ri_content_hash = opt_string (jget m ''hash''),
                    ri_updated_at = Option.bind (opt_string (jget m ''modified_time''))
                                      (\<lambda>s. pe_isoformat env (replace_Z s)),
                    ri_phase = jget m ''phase''\<rparr>
      | _ \<Rightarrow> Inl (pikpak_exn ''invalid file''))"

fun read_items :: "'s pikpak_env \<Rightarrow> json list \<Rightarrow> exn + remote_item list" where
  "read_items env [] = Inr []"
| "read_items env (raw # raws) =
     bindR (read_item env raw) (\<lambda>item. bindR (read_items env raws) (\<lambda>items. Inr (item # items)))"

definition read_page ::
    "'s pikpak_env \<Rightarrow> (string \<times> json) list \<Rightarrow> string option \<Rightarrow> exn + remote_page" where
  "read_page env payload marker =
     (case jget payload ''files'' of
        JList files \<Rightarrow>
          let token = jget payload ''next_page_token'' in
          if truthy token \<and> opt_string token = None then Inl (pikpak_exn ''page token'')
          else if files = [] then Inr \<lparr>rp_items = [], rp_next_marker = None\<rparr>
          else
            let next = (if truthy token then opt_string token else None) in
            if next \<noteq> None \<and> next = marker then Inl (pagination_exn ''no advance'')
            else bindR (read_items env files) (\<lambda>items.
                 Inr \<lparr>rp_items = items, rp_next_marker = next\<rparr>)
      | _ \<Rightarrow> Inl (pikpak_exn ''files missing''))"

section \<open>Shares\<close>

definition require_available :: "(string \<times> json) list \<Rightarrow> exn + unit" where
  "require_available payload =
     require (jget payload ''share_status'' = JStr ''OK'') (pikpak_exn ''share unavailable'')"

definition resolve_share ::
    "'s pikpak_env \<Rightarrow> string \<Rightarrow> string option \<Rightarrow> ('s, share_info) act" where
  "resolve_share env share_url password =
     (case parse_share_url (pe_netloc_ok env) share_url of
        Inl e \<Rightarrow> raiseA e
      | Inr (share_id, parent) \<Rightarrow>
          bindA (drive_request env False ''GET'' ''/drive/v1/share''
             [(''share_id'', JStr share_id), (''pass_code'', JStr (coalesce password [])),
              (''limit'', JInt 100)] None) (\<lambda>payload.
          case bindR (require_available payload) (\<lambda>_.
               case map_of payload ''pass_code_token'' of
                 None \<Rightarrow> Inr []
               | Some (JStr t) \<Rightarrow> Inr t
               | Some _ \<Rightarrow> Inl (pikpak_exn ''share authorization'')) of
            Inl e \<Rightarrow> raiseA e
          | Inr token \<Rightarrow>
              thenA (modify_session env (\<lambda>x.
                  x\<lparr>px_share_tokens := (px_share_tokens x)(share_id \<mapsto> token),
                    px_share_passwords := (px_share_passwords x)(share_id \<mapsto> coalesce password []),
                    px_share_root_pages := (px_share_root_pages x)(share_id \<mapsto> payload)\<rparr>))
                (retA \<lparr>sh_key = share_id, sh_name = string_or ''PikPak share'' (jget payload ''title''),
                       sh_root_folder_id = parent\<rparr>)))"

definition share_token :: "'s pikpak_env \<Rightarrow> share_info \<Rightarrow> ('s, string) act" where
  "share_token env share s =
     (case px_share_tokens (pe_session env s) (sh_key share) of
        None \<Rightarrow> (Inl (pikpak_exn ''share not resolved''), s)
      | Some token \<Rightarrow> (Inr token, s))"

definition returned :: "exn + 'a \<Rightarrow> ('s, 'a) act" where
  "returned r s = (r, s)"

text \<open>
  The three maps of shares have the same keys: a share with a token has its root page and its password.
\<close>

definition list_share_items ::
    "'s pikpak_env \<Rightarrow> share_info \<Rightarrow> string \<Rightarrow> string option \<Rightarrow> ('s, remote_page) act" where
  "list_share_items env share parent_id marker =
     bindA (share_token env share) (\<lambda>token s.
       let x = pe_session env s in
       if parent_id \<in> {''root'', [], ''/''} then
         (case marker of
            None \<Rightarrow> (read_page env (coalesce (px_share_root_pages x (sh_key share)) []) None, s)
          | Some m \<Rightarrow>
              bindA (drive_request env False ''GET'' ''/drive/v1/share''
                 [(''share_id'', JStr (sh_key share)),
                  (''pass_code'', JStr (coalesce (px_share_passwords x (sh_key share)) [])),
                  (''page_token'', JStr m), (''limit'', JInt 100)] None) (\<lambda>payload.
                returned (bindR (require_available payload) (\<lambda>_. read_page env payload marker))) s)
       else
         (case folder_parent parent_id of
            Inl e \<Rightarrow> (Inl e, s)
          | Inr parent \<Rightarrow>
              bindA (drive_request env False ''GET'' ''/drive/v1/share/detail''
                 [(''share_id'', JStr (sh_key share)), (''pass_code_token'', JStr token),
                  (''parent_id'', JStr parent), (''page_token'', JStr (coalesce marker [])),
                  (''limit'', JInt 100)] None) (\<lambda>payload. returned (read_page env payload marker)) s))"

section \<open>The target\<close>

text \<open>One page of a folder, with the guard over all the pages that were asked for.\<close>

definition advance_listing ::
    "'s pikpak_env \<Rightarrow> string \<Rightarrow> string option \<Rightarrow> remote_page \<Rightarrow> ('s, remote_page) act" where
  "advance_listing env key marker page s =
     (let x = pe_session env s;
          (seen_markers, seen_ids) =
            (if marker = None then ([], []) else coalesce (px_listing x key) ([], []));
          ids = map ri_remote_file_id (rp_items page);
          progress = (\<lambda>p. modify_session env (\<lambda>x. x\<lparr>px_listing := (px_listing x)(key \<mapsto> p)\<rparr>)) in
      thenA (progress (seen_markers, seen_ids))
     (thenA (guardA (rp_items page = [] \<or> \<not> set ids \<subseteq> set seen_ids) (pagination_exn ''repeated files''))
     (thenA (guardA (case rp_next_marker page of None \<Rightarrow> True | Some m \<Rightarrow> m \<notin> set seen_markers)
               (pagination_exn ''repeated token''))
     (thenA (progress ((case rp_next_marker page of None \<Rightarrow> [] | Some m \<Rightarrow> [m]) @ seen_markers, ids @ seen_ids))
       (retA page)))) s)"

definition list_target_items ::
    "'s pikpak_env \<Rightarrow> folder_ref \<Rightarrow> string option \<Rightarrow> ('s, remote_page) act" where
  "list_target_items env target marker =
     (case folder_parent (fr_folder_id target) of
        Inl e \<Rightarrow> raiseA e
      | Inr key \<Rightarrow>
          bindA (drive_request env False ''GET'' ''/drive/v1/files''
             [(''parent_id'', JStr key), (''page_token'', JStr (coalesce marker [])),
              (''limit'', JInt 100),
              (''filters'', JStr ''{\"trashed\": {\"eq\": false}}'')] None)
            (\<lambda>payload.
          bindA (returned (read_page env payload marker)) (advance_listing env key marker)))"

text \<open>\<open>_items\<close>, all of it: every caller reads the generator to its end.\<close>

fun items_from ::
    "'s pikpak_env \<Rightarrow> folder_ref \<Rightarrow> nat \<Rightarrow> string option \<Rightarrow> string list \<Rightarrow> string list \<Rightarrow>
     ('s, remote_item list) act" where
  "items_from env target 0 marker seen_markers seen_ids = raiseA out_of_fuel"
| "items_from env target (Suc n) marker seen_markers seen_ids =
     bindA (list_target_items env target marker) (\<lambda>page.
       let new_items = filter (\<lambda>i. ri_remote_file_id i \<notin> set seen_ids) (rp_items page) in
       thenA (guardA (rp_items page = [] \<or> new_items \<noteq> []) (pagination_exn ''repeated files''))
         (case rp_next_marker page of
            None \<Rightarrow> retA new_items
          | Some m \<Rightarrow>
              if m \<in> set seen_markers then raiseA (pagination_exn ''repeated token'')
              else bindA (items_from env target n (Some m) (m # seen_markers)
                            (map ri_remote_file_id new_items @ seen_ids)) (\<lambda>items.
                   retA (new_items @ items))))"

declare items_from.simps [simp del]

definition target_items :: "'s pikpak_env \<Rightarrow> folder_ref \<Rightarrow> ('s, remote_item list) act" where
  "target_items env target = items_from env target (pe_fuel env) None [] []"

definition PHASE_COMPLETE :: json where
  "PHASE_COMPLETE = JStr ''PHASE_TYPE_COMPLETE''"

definition find_target_item ::
    "'s pikpak_env \<Rightarrow> folder_ref \<Rightarrow> string \<Rightarrow> ('s, remote_item option) act" where
  "find_target_item env target name =
     bindA (target_items env target) (\<lambda>items.
       case filter (\<lambda>i. ri_filename i = name) items of
         [] \<Rightarrow> retA None
       | [item] \<Rightarrow>
           if ri_phase item \<in> {JNull, PHASE_COMPLETE} then retA (Some item)
           else raiseA (pikpak_exn ''not complete yet'')
       | _ \<Rightarrow> raiseA (pikpak_exn ''duplicate names''))"

definition item_fingerprint :: "'s pikpak_env \<Rightarrow> remote_item \<Rightarrow> string" where
  "item_fingerprint env item =
     pe_sha256 env (pe_dumps_text env (JList
       [JStr (ri_filename item), (case ri_size item of None \<Rightarrow> JNull | Some n \<Rightarrow> JInt n),
        json_option (ri_content_hash item), JStr (ri_item_type item)]))"

definition validate_existing_item :: "'s pikpak_env \<Rightarrow> remote_item \<Rightarrow> remote_item \<Rightarrow> exn + unit" where
  "validate_existing_item env source existing =
     require (is_set (ri_content_hash source) \<and> ri_size source \<noteq> None \<and>
              item_fingerprint env source = item_fingerprint env existing \<and>
              ri_phase existing = PHASE_COMPLETE) (pikpak_exn ''fingerprint differs'')"

text \<open>\<open>f"{path.rstrip('/')}/{name}"\<close>.\<close>

definition child_path :: "string \<Rightarrow> string \<Rightarrow> string" where
  "child_path path name = rev (dropWhile (\<lambda>c. c = CHR ''/'') (rev path)) @ ''/'' @ name"

fun resolve_segments ::
    "'s pikpak_env \<Rightarrow> folder_ref \<Rightarrow> string list \<Rightarrow> ('s, folder_ref) act" where
  "resolve_segments env current [] = retA current"
| "resolve_segments env current (segment # segments) =
     bindA (find_target_item env current segment) (\<lambda>item. case item of
       None \<Rightarrow> raiseA (pikpak_exn ''no folder'')
     | Some i \<Rightarrow>
         if ri_item_type i \<noteq> ''folder'' then raiseA (pikpak_exn ''no folder'')
         else resolve_segments env
                \<lparr>fr_folder_id = ri_remote_file_id i, fr_path = child_path (fr_path current) segment\<rparr> segments)"

definition resolve_target_path :: "'s pikpak_env \<Rightarrow> string \<Rightarrow> ('s, folder_ref) act" where
  "resolve_target_path env path =
     resolve_segments env \<lparr>fr_folder_id = ''root'', fr_path = ''/''\<rparr> (filter (\<lambda>s. s \<noteq> []) (split_slash path))"

text \<open>What a new folder's answer has to show.\<close>

definition created_folder ::
    "'s pikpak_env \<Rightarrow> string \<Rightarrow> string \<Rightarrow> (string \<times> json) list \<Rightarrow> exn + string" where
  "created_folder env parent_id name payload =
     (case read_item env (jget payload ''file'') of
        Inl _ \<Rightarrow> Inl (uncertain_exn ''folder incomplete'')
      | Inr item \<Rightarrow>
          if ri_item_type item \<noteq> ''folder'' \<or> ri_filename item \<noteq> name
          then Inl (uncertain_exn ''other folder'')
          else bindR (folder_parent (if is_set (ri_parent_id item) then coalesce (ri_parent_id item) [] else ''root''))
            (\<lambda>p. bindR (folder_parent parent_id) (\<lambda>q.
             if p \<noteq> q then Inl (uncertain_exn ''other folder'') else Inr (ri_remote_file_id item))))"

definition ensure_folder ::
    "'s pikpak_env \<Rightarrow> folder_ref \<Rightarrow> string \<Rightarrow> ('s, folder_ref) act" where
  "ensure_folder env parent name =
     (if name \<in> {[], ''.'', ''..''} \<or> CHR ''/'' \<in> set name \<or> char_of (0 :: nat) \<in> set name
      then raiseA (pikpak_exn ''folder name'')
      else bindA (find_target_item env parent name) (\<lambda>existing.
        let path = child_path (fr_path parent) name in
        case existing of
          Some item \<Rightarrow>
            if ri_item_type item \<noteq> ''folder'' then raiseA (pikpak_exn ''occupied'')
            else retA \<lparr>fr_folder_id = ri_remote_file_id item, fr_path = path\<rparr>
        | None \<Rightarrow>
            (case folder_parent (fr_folder_id parent) of
               Inl e \<Rightarrow> raiseA e
             | Inr parent_id \<Rightarrow>
                 bindA (drive_request env True ''POST'' ''/drive/v1/files'' []
                    (Some (JObj [(''kind'', JStr ''drive#folder''), (''name'', JStr name),
                       (''parent_id'', JStr parent_id)]))) (\<lambda>payload.
                 bindA (returned (created_folder env (fr_folder_id parent) name payload)) (\<lambda>folder_id.
                   retA \<lparr>fr_folder_id = folder_id, fr_path = path\<rparr>)))))"

section \<open>Saving\<close>

definition operation_id_of :: "string \<Rightarrow> string \<Rightarrow> string" where
  "operation_id_of target_id hash =
     ''pikpak1.'' @ strip_padding (b64_encode target_id) @ ''.'' @ hash"

definition start_save_shared_item ::
    "'s pikpak_env \<Rightarrow> share_info \<Rightarrow> remote_item \<Rightarrow> folder_ref \<Rightarrow> ('s, string) act" where
  "start_save_shared_item env share source target =
     bindA (share_token env share) (\<lambda>token.
     thenA (guardA (ri_item_type source = ''file'' \<and> is_set (ri_content_hash source) \<and>
                    ri_size source \<noteq> None) (capability_exn ''hash and size''))
     (case folder_parent (fr_folder_id target) of
        Inl e \<Rightarrow> raiseA e
      | Inr parent \<Rightarrow>
          let operation_id = operation_id_of (if parent = [] then ''root'' else parent)
                               (item_fingerprint env source) in
          thenA (guardA (length operation_id \<le> 255) (pikpak_exn ''target id too long''))
         (bindA (find_target_item env target (ri_filename source)) (\<lambda>existing.
          thenA (guardA (existing = None) (pikpak_exn ''name exists''))
         (bindA (drive_request env True ''POST'' ''/drive/v1/share/restore'' []
             (Some (JObj [(''share_id'', JStr (sh_key share)), (''pass_code_token'', JStr token),
                (''file_ids'', JList [JStr (ri_remote_file_id source)])]))) (\<lambda>payload.
          thenA (guardA (jget payload ''restore_status'' \<in> {JStr ''RESTORE_START'', JStr ''RESTORE_COMPLETE''})
                  (uncertain_exn ''acknowledgement''))
            (retA operation_id)))))))"

fun split_dots :: "string \<Rightarrow> string list" where
  "split_dots [] = [[]]"
| "split_dots (c # s) =
     (if c = CHR ''.'' then [] # split_dots s
      else case split_dots s of [] \<Rightarrow> [[c]] | w # ws \<Rightarrow> (c # w) # ws)"

definition fingerprint_ok :: "string \<Rightarrow> bool" where
  "fingerprint_ok s \<longleftrightarrow> length s = 64 \<and> list_all is_lower_hex s"

text \<open>
  The folder and the fingerprint of an operation.  What does not decode to text ends, as a text that is
  no identifier, in a \<open>PikPakRequestError\<close>.
\<close>

definition parse_operation_id :: "string \<Rightarrow> exn + string \<times> string" where
  "parse_operation_id operation_id =
     (case split_dots operation_id of
        [version, encoded, hash] \<Rightarrow>
          if version = ''pikpak1'' \<and> fingerprint_ok hash then
            (case b64_decode (pad_base64 encoded) of
               None \<Rightarrow> Inl (pikpak_exn ''operation id'')
             | Some target_id \<Rightarrow> Inr (target_id, hash))
          else Inl (pikpak_exn ''operation id'')
      | _ \<Rightarrow> Inl (pikpak_exn ''operation id''))"

definition folder_at :: "string \<Rightarrow> folder_ref" where
  "folder_at folder_id = \<lparr>fr_folder_id = folder_id, fr_path = ''/''\<rparr>"

definition with_fingerprint :: "'s pikpak_env \<Rightarrow> string \<Rightarrow> remote_item list \<Rightarrow> remote_item list" where
  "with_fingerprint env hash items =
     filter (\<lambda>i. item_fingerprint env i = hash) items"

fun candidates_in ::
    "'s pikpak_env \<Rightarrow> string \<Rightarrow> remote_item list \<Rightarrow> ('s, remote_item list) act" where
  "candidates_in env hash [] = retA []"
| "candidates_in env hash (folder # folders) =
     bindA (target_items env (folder_at (ri_remote_file_id folder))) (\<lambda>items.
     bindA (candidates_in env hash folders) (\<lambda>rest.
       retA (with_fingerprint env hash items @ rest)))"

text \<open>A restored file that is still in the receiving folder is moved to where it belongs.\<close>

definition move_received ::
    "'s pikpak_env \<Rightarrow> string \<Rightarrow> string \<Rightarrow> string \<Rightarrow> ('s, remote_item list) act" where
  "move_received env target_id parent hash =
     bindA (target_items env (folder_at ''root'')) (\<lambda>roots.
       let receiving = filter (\<lambda>i. ri_item_type i = ''folder'' \<and> ri_filename i = ''Pack From Shared'') roots in
       thenA (guardA (length receiving \<le> 1) (uncertain_exn ''receiving folder''))
      (bindA (candidates_in env hash receiving) (\<lambda>candidates.
       thenA (guardA (length candidates \<le> 1) (uncertain_exn ''restored file''))
        (case candidates of
           c # _ \<Rightarrow>
             if ri_phase c = PHASE_COMPLETE then
               thenA (drive_request env True ''POST'' ''/drive/v1/files:batchMove'' []
                        (Some (JObj [(''ids'', JList [JStr (ri_remote_file_id c)]),
                           (''to'', JObj [(''parent_id'', JStr parent)])])))
                 (bindA (target_items env (folder_at target_id)) (\<lambda>items.
                    retA (with_fingerprint env hash items)))
             else retA []
         | [] \<Rightarrow> retA []))))"

fun require_inside :: "string \<Rightarrow> remote_item list \<Rightarrow> exn + unit" where
  "require_inside parent [] = Inr ()"
| "require_inside parent (item # items) =
     bindR (folder_parent (if is_set (ri_parent_id item) then coalesce (ri_parent_id item) [] else ''root''))
       (\<lambda>p. if p \<noteq> parent then Inl (uncertain_exn ''outside folder'') else require_inside parent items)"

definition save_state :: "remote_item list \<Rightarrow> exn + save_operation" where
  "save_state matches =
     (case matches of
        _ # _ # _ \<Rightarrow> Inl (uncertain_exn ''multiple files'')
      | [item] \<Rightarrow>
          Inr (if ri_phase item = PHASE_COMPLETE
               then \<lparr>so_completed = True, so_target_file_ids = [ri_remote_file_id item]\<rparr>
               else \<lparr>so_completed = False, so_target_file_ids = []\<rparr>)
      | [] \<Rightarrow> Inr \<lparr>so_completed = False, so_target_file_ids = []\<rparr>)"

definition query_save_operation :: "'s pikpak_env \<Rightarrow> string \<Rightarrow> ('s, save_operation) act" where
  "query_save_operation env operation_id =
     (case bindR (parse_operation_id operation_id) (\<lambda>(target_id, hash).
           bindR (folder_parent target_id) (\<lambda>parent. Inr (target_id, parent, hash))) of
        Inl e \<Rightarrow> raiseA e
      | Inr (target_id, parent, hash) \<Rightarrow>
          bindA (target_items env (folder_at target_id)) (\<lambda>items.
            let found = with_fingerprint env hash items in
            bindA (if found = [] then move_received env target_id parent hash else retA found)
              (\<lambda>matches. returned (bindR (require_inside parent matches) (\<lambda>_. save_state matches)))))"

definition get_download_url :: "'s pikpak_env \<Rightarrow> string \<Rightarrow> ('s, string) act" where
  "get_download_url env file_id =
     (if \<not> id_ok file_id then raiseA (pikpak_exn ''file id'')
      else bindA (drive_request env False ''GET'' (''/drive/v1/files/'' @ file_id) [] None) (\<lambda>payload.
        let url = string_or [] (jget payload ''web_content_link'') in
        if url = [] then raiseA (pikpak_exn ''no download link'') else retA url))"

definition consume_refresh_token_update :: "'s pikpak_env \<Rightarrow> 's \<Rightarrow> string option \<times> 's" where
  "consume_refresh_token_update env s =
     (px_token_update (pe_session env s), snd (modify_session env (\<lambda>x. x\<lparr>px_token_update := None\<rparr>) s))"

text \<open>The provider as the handlers see it, and as downloads do.\<close>

definition pikpak_provider :: "'s pikpak_env \<Rightarrow> 's provider" where
  "pikpak_provider env =
     \<lparr>pr_resolve_share = resolve_share env, pr_list_share_items = list_share_items env,
      pr_ensure_folder = ensure_folder env, pr_find_target_item = find_target_item env,
      pr_validate_existing = Some (\<lambda>source existing. returned (validate_existing_item env source existing)),
      pr_resumable = Some (start_save_shared_item env, query_save_operation env),
      pr_save_shared_item = (\<lambda>_ _ _. raiseA (capability_exn ''resumable'')),
      pr_consume_token = consume_refresh_token_update env, pr_consume_open_token = None,
      pr_request_count = (\<lambda>s. Some (px_request_count (pe_session env s)))\<rparr>"

section \<open>Signing in with a password\<close>

definition WEB_CLIENT_SECRET :: string where
  "WEB_CLIENT_SECRET = ''dbw2OtmVEeuUvIptb1Coyg''"

text \<open>\<open>\+?\d{11,18}\<close>.\<close>

definition is_phone_number :: "string \<Rightarrow> bool" where
  "is_phone_number s =
     (let ds = (case expect ''+'' s of None \<Rightarrow> s | Some r \<Rightarrow> r) in
      list_all is_digit ds \<and> 11 \<le> length ds \<and> length ds \<le> 18)"

definition sign_in_exn :: "string \<Rightarrow> exn" where
  "sign_in_exn tag = raise_exn CProviderRequest (Some ''PROVIDER_REQUEST_FAILED'') tag"

definition login_with_password ::
    "'s pikpak_env \<Rightarrow> string \<Rightarrow> string \<Rightarrow> string \<Rightarrow> ('s, string \<times> string) act" where
  "login_with_password env device_id username password =
     (let user = strip username;
          identity_type = (if CHR ''@'' \<in> set user then ''email''
                           else if is_phone_number user then ''phone_number'' else ''username'');
          signin = AUTH_URL @ ''/v1/auth/signin'' in
      thenA (guardA (user \<noteq> [] \<and> password \<noteq> [] \<and>
                     length (filter (\<lambda>c. \<not> continuation_byte c) password) \<le> 1024) (sign_in_exn ''required''))
     (bindA (send_request env False
         \<lparr>kq_method = ''POST'', kq_url = AUTH_URL @ ''/v1/shield/captcha/init'', kq_headers = [], kq_params = [],
          kq_json = Some (JObj [(''client_id'', JStr WEB_CLIENT_ID), (''device_id'', JStr device_id),
            (''action'', JStr (''POST:'' @ signin)), (''meta'', JObj [(identity_type, JStr user)])])\<rparr>) (\<lambda>captcha.
      let token = string_or [] (jget captcha ''captcha_token'') in
      thenA (guardA (\<not> truthy (jget captcha ''url'') \<and> token \<noteq> []) (sign_in_exn ''captcha''))
     (bindA (send_request env False
         \<lparr>kq_method = ''POST'', kq_url = signin, kq_headers = [(''X-Device-Id'', device_id)], kq_params = [],
          kq_json = Some (JObj [(''client_id'', JStr WEB_CLIENT_ID), (''client_secret'', JStr WEB_CLIENT_SECRET),
            (''username'', JStr user), (''password'', JStr password), (''captcha_token'', JStr token)])\<rparr>) (\<lambda>answer.
      case (jget answer ''refresh_token'', jget answer ''sub'') of
        (JStr refresh, JStr user_id) \<Rightarrow>
          if refresh = [] \<or> user_id = [] then raiseA (sign_in_exn ''incomplete'')
          else retA (pe_dumps env (credentials_json \<lparr>pc_refresh_token = refresh,
                       pc_client_id = WEB_CLIENT_ID, pc_device_id = device_id\<rparr>), user_id)
      | _ \<Rightarrow> raiseA (sign_in_exn ''incomplete''))))))"

end
