(* ===== verification/PikPakProofs.thy ===== *)
theory PikPakProofs
  imports PikPak
begin

text \<open>
  What the requests of the PikPak provider are: the provider run with a log of its requests, in which
  a session, a listing and a search only read; which errors an operation can raise; that listings end;
  and what becomes of the tokens of the session.
\<close>

section \<open>The log of requests\<close>

text \<open>The same provider on a state with the requests that were sent so far.\<close>

definition logged :: "'s pikpak_env \<Rightarrow> ('s \<times> pikpak_request list) pikpak_env" where
  "logged env =
     \<lparr>pe_session = (\<lambda>(s, l). pe_session env s), pe_set_session = (\<lambda>x (s, l). (pe_set_session env x s, l)),
      pe_http = (\<lambda>req (s, l). case pe_http env req s of (r, s') \<Rightarrow> (r, (s', l @ [req]))),
      pe_monotonic = (\<lambda>(s, l). pe_monotonic env s), pe_second = pe_second env,
      pe_time_ms = (\<lambda>(s, l). pe_time_ms env s), pe_fuel = pe_fuel env, pe_md5 = pe_md5 env,
      pe_sha256 = pe_sha256 env, pe_dumps = pe_dumps env, pe_dumps_text = pe_dumps_text env,
      pe_loads = pe_loads env,
      pe_isoformat = pe_isoformat env, pe_netloc_ok = pe_netloc_ok env\<rparr>"

text \<open>A request that changes something on the drive; signing in and the like do not.\<close>

definition is_write :: "pikpak_request \<Rightarrow> bool" where
  "is_write req \<longleftrightarrow> kq_method req = ''POST'' \<and> take (length DRIVE_URL) (kq_url req) = DRIVE_URL"

definition is_restore :: "pikpak_request \<Rightarrow> bool" where
  "is_restore req \<longleftrightarrow> kq_method req = ''POST'' \<and> kq_url req = DRIVE_URL @ ''/drive/v1/share/restore''"

lemma restore_is_write: "is_restore req \<Longrightarrow> is_write req"
  by (simp add: is_restore_def is_write_def)

definition log_grows :: "(pikpak_request \<Rightarrow> bool) \<Rightarrow> 's \<times> pikpak_request list \<Rightarrow> 's \<times> pikpak_request list \<Rightarrow> bool" where
  "log_grows P w w' \<longleftrightarrow> (\<exists>k. snd w' = snd w @ k \<and> list_all P k)"

interpretation grows: action_contract "log_grows P" for P
proof
  show "log_grows P s s" for s :: "'a \<times> pikpak_request list"
    by (auto simp: log_grows_def intro: exI [of _ "[]"])
  show "log_grows P s s2" if "log_grows P s s1" and "log_grows P s1 s2" for s s1 s2 :: "'a \<times> pikpak_request list"
  proof -
    from that obtain k k1 where "snd s1 = snd s @ k" "snd s2 = snd s1 @ k1" "list_all P k" "list_all P k1"
      by (auto simp: log_grows_def)
    then show ?thesis by (auto simp: log_grows_def intro!: exI [of _ "k @ k1"])
  qed
qed

abbreviation only_sends :: "(pikpak_request \<Rightarrow> bool) \<Rightarrow> ('s \<times> pikpak_request list, 'a) act \<Rightarrow> bool" where
  "only_sends P \<equiv> keeps (log_grows P)"

lemma only_sends_pure:
  assumes "\<And>s l. snd (snd (m (s, l))) = l"
  shows "only_sends P m"
  using assms by (force simp: keeps_def log_grows_def intro: exI [of _ "[]"])

lemma only_sends_returned [intro, simp]: "only_sends P (returned r)"
  by (rule only_sends_pure) (simp add: returned_def)

lemma only_sends_session [intro, simp]: "only_sends P (modify_session (logged env) f)"
  by (rule only_sends_pure) (simp add: modify_session_def logged_def)

lemma log_grows_refl [simp]: "log_grows P w w"
  by (rule grows.R_refl)

lemma only_sends_request:
  assumes "P req"
  shows "only_sends P (send_request (logged env) writes req)"
proof -
  have "only_sends P (\<lambda>s. case pe_http (logged env) req s of
      (Inl e, s1) \<Rightarrow> (Inl (if e_class e = CNamed ''HTTPError'' then request_exn writes ''interrupted'' else e), s1)
    | (Inr answer, s1) \<Rightarrow> (check_answer writes (kq_url req) answer, s1))"
    using assms
    by (auto simp: keeps_def log_grows_def logged_def split: prod.splits sum.splits)
  then show ?thesis unfolding send_request_def by (intro grows.keeps_bind only_sends_session)
qed

section \<open>What only reads\<close>

abbreviation reads :: "('s \<times> pikpak_request list, 'a) act \<Rightarrow> bool" where
  "reads \<equiv> only_sends (\<lambda>req. \<not> is_write req)"

lemma auth_no_write: "kq_url req = AUTH_URL @ path \<Longrightarrow> \<not> is_write req"
  by (auto simp: is_write_def AUTH_URL_def DRIVE_URL_def)

lemma reads_auth_request:
  "kq_url req = AUTH_URL @ path \<Longrightarrow> reads (send_request (logged env) writes req)"
  using auth_no_write by (rule only_sends_request)

lemma reads_authenticate [intro, simp]: "reads (authenticate (logged env))"
proof (rule keepsI)
  fix w :: "'a \<times> pikpak_request list"
  have "reads (keep_tokens (logged env) payload token refresh)" for payload token refresh
    by (rule only_sends_pure) (simp add: keep_tokens_def modify_session_def logged_def)
  then have "reads (case (jget payload ''access_token'', jget payload ''refresh_token'') of
      (JStr token, JStr refresh) \<Rightarrow>
        if token = [] \<or> refresh = [] then raiseA (pikpak_exn ''token response'')
        else keep_tokens (logged env) payload token refresh
    | _ \<Rightarrow> raiseA (pikpak_exn ''token response''))" for payload
    by (auto split: json.splits)
  then show "log_grows (\<lambda>req. \<not> is_write req) w (snd (authenticate (logged env) w))"
    unfolding authenticate_def Let_def
    by (auto intro!: keepsD [OF grows.keeps_bind] reads_auth_request)
qed

lemma reads_captcha [intro, simp]: "reads (ensure_captcha (logged env) http_method path)"
proof (rule keepsI)
  fix w :: "'a \<times> pikpak_request list"
  have "reads (keep_captcha (logged env) payload)" for payload
    by (rule only_sends_pure) (simp add: keep_captcha_def modify_session_def logged_def Let_def)
  then show "log_grows (\<lambda>req. \<not> is_write req) w (snd (ensure_captcha (logged env) http_method path w))"
    unfolding ensure_captcha_def Let_def
    by (auto intro!: keepsD [OF grows.keeps_bind] reads_auth_request simp: captcha_request_def Let_def)
qed

lemma reads_session: "reads (thenA (authenticate (logged env)) (ensure_captcha (logged env) http_method path))"
  by (intro grows.keeps_bind reads_authenticate reads_captcha)

lemma reads_get [intro, simp]: "reads (drive_request (logged env) writes ''GET'' path params body)"
  unfolding drive_request_def Let_def
  by (intro grows.keeps_bind reads_authenticate reads_captcha keepsI keepsD [OF only_sends_request])
    (simp add: is_write_def)

lemma reads_advance [intro, simp]: "reads (advance_listing (logged env) key marker page)"
proof (rule keepsI)
  fix w :: "'a \<times> pikpak_request list"
  show "log_grows (\<lambda>req. \<not> is_write req) w (snd (advance_listing (logged env) key marker page w))"
    unfolding advance_listing_def Let_def split_def
    by (intro keepsD [where R = "log_grows (\<lambda>req. \<not> is_write req)"] grows.keeps_bind only_sends_session
        grows.keeps_guard grows.keeps_ret)
qed

lemma reads_list_target [intro, simp]: "reads (list_target_items (logged env) target marker)"
  unfolding list_target_items_def
  by (auto split: sum.splits intro!: grows.keeps_bind)

lemma reads_items_from [intro, simp]:
  "reads (items_from (logged env) target n marker seen_markers seen_ids)"
proof (induction n arbitrary: marker seen_markers seen_ids)
  case (Suc n)
  then show ?case
    unfolding items_from.simps Let_def
    by (auto intro!: grows.keeps_bind split: option.splits)
qed (simp add: items_from.simps)

lemma reads_target_items [intro, simp]: "reads (target_items (logged env) target)"
  by (simp add: target_items_def)

lemma reads_find [intro, simp]: "reads (find_target_item (logged env) target name)"
  unfolding find_target_item_def
  by (auto intro!: grows.keeps_bind split: list.splits)

lemma reads_share_token [intro, simp]: "reads (share_token (logged env) share)"
  by (rule only_sends_pure) (simp add: share_token_def split: option.splits)

section \<open>What can be raised\<close>

definition raises_only :: "(exn \<Rightarrow> bool) \<Rightarrow> ('s, 'a) act \<Rightarrow> bool" where
  "raises_only Q m \<longleftrightarrow> (\<forall>s e s'. m s = (Inl e, s') \<longrightarrow> Q e)"

lemma raises_onlyD: "raises_only Q m \<Longrightarrow> m s = (Inl e, s') \<Longrightarrow> Q e"
  by (auto simp: raises_only_def)

lemma raises_ret [intro, simp]: "raises_only Q (retA x)"
  by (simp add: raises_only_def retA_def)

lemma raises_raise [simp]: "raises_only Q (raiseA e) \<longleftrightarrow> Q e"
  by (auto simp: raises_only_def raiseA_def)

lemma raises_guard [simp]: "raises_only Q (guardA b e) \<longleftrightarrow> b \<or> Q e"
  by (auto simp: guardA_def)

lemma raises_bind_returned:
  assumes "raises_only Q m" and "\<And>s x s'. m s = (Inr x, s') \<Longrightarrow> raises_only Q (f x)"
  shows "raises_only Q (bindA m f)"
  unfolding raises_only_def
proof (intro allI impI)
  fix s e s'
  assume "bindA m f s = (Inl e, s')"
  then show "Q e"
    using assms by (cases rule: bindA_cases) (auto simp: raises_only_def, blast)
qed

lemma raises_bind: "raises_only Q m \<Longrightarrow> (\<And>x. raises_only Q (f x)) \<Longrightarrow> raises_only Q (bindA m f)"
  by (rule raises_bind_returned)

lemma raises_returned [simp]: "raises_only Q (returned r) \<longleftrightarrow> (\<forall>e. r = Inl e \<longrightarrow> Q e)"
  by (auto simp: raises_only_def returned_def)

lemma raises_modify [intro, simp]: "raises_only Q (modify_session env f)"
  by (simp add: raises_only_def modify_session_def)

text \<open>The HTTP client raises its own errors, and may be cancelled.\<close>

definition transport :: "'s pikpak_env \<Rightarrow> bool" where
  "transport env \<longleftrightarrow> (\<forall>req s e s'. pe_http env req s = (Inl e, s') \<longrightarrow>
     e_class e \<in> {CNamed ''HTTPError'', CNamed ''CancelledError''})"

lemma transport_logged: "transport env \<Longrightarrow> transport (logged env)"
  by (auto simp: transport_def logged_def split: prod.splits)

text \<open>The errors of what only reads.\<close>

locale read_errors =
  fixes Q :: "exn \<Rightarrow> bool"
  assumes request_error: "Q (pikpak_exn tag)" and credential_error: "Q pikpak_credential_exn"
    and pagination_error: "Q (pagination_exn tag)"
    and client_error: "e_class e \<in> {CNamed ''HTTPError'', CNamed ''CancelledError''} \<Longrightarrow> Q e"
begin

lemmas errors = request_error credential_error pagination_error

lemma check_answer_error:
  "check_answer False url answer = Inl e \<Longrightarrow> Q e"
  by (auto simp: check_answer_def request_exn_def errors split: prod.splits option.splits json.splits if_splits)

lemma send_raises:
  assumes "transport env"
  shows "raises_only Q (send_request env False req)"
  unfolding send_request_def
proof (intro raises_bind raises_modify)
  have "Q e" if "pe_http env req s = (Inl e, s')" for s e s'
    using assms that client_error unfolding transport_def by blast
  then show "raises_only Q (\<lambda>s. case pe_http env req s of
      (Inl e, s1) \<Rightarrow> (Inl (if e_class e = CNamed ''HTTPError'' then request_exn False ''interrupted'' else e), s1)
    | (Inr answer, s1) \<Rightarrow> (check_answer False (kq_url req) answer, s1))"
    using check_answer_error
    by (auto simp: raises_only_def request_exn_def errors split: prod.splits sum.splits if_splits)
qed

lemma authenticate_raises:
  assumes "transport env"
  shows "raises_only Q (authenticate env)"
proof -
  have keep: "raises_only Q (keep_tokens env payload token refresh)" for payload token refresh
    by (simp add: raises_only_def keep_tokens_def modify_session_def)
  have "raises_only Q (bindA (send_request env False req) (\<lambda>payload.
      case (jget payload ''access_token'', jget payload ''refresh_token'') of
        (JStr token, JStr refresh) \<Rightarrow>
          if token = [] \<or> refresh = [] then raiseA (pikpak_exn ''token response'')
          else keep_tokens env payload token refresh
      | _ \<Rightarrow> raiseA (pikpak_exn ''token response'')))" for req
    using assms by (intro raises_bind send_raises) (auto simp: keep errors split: json.splits)
  then show ?thesis
    by (auto simp: raises_only_def authenticate_def Let_def split: if_splits)
qed

lemma captcha_raises:
  assumes "transport env"
  shows "raises_only Q (ensure_captcha env http_method path)"
proof -
  have keep: "raises_only Q (keep_captcha env payload)" for payload
    by (auto simp: raises_only_def keep_captcha_def modify_session_def Let_def errors split: if_splits)
  have "raises_only Q (bindA (send_request env False req) (keep_captcha env))" for req
    using assms by (intro raises_bind send_raises keep)
  then show ?thesis
    by (auto simp: raises_only_def ensure_captcha_def Let_def split: if_splits)
qed

lemma session_raises:
  "transport env \<Longrightarrow> raises_only Q (thenA (authenticate env) (ensure_captcha env http_method path))"
  by (intro raises_bind authenticate_raises captcha_raises)

lemma read_request_raises:
  assumes "transport env"
  shows "raises_only Q (drive_request env False http_method path params body)"
proof -
  have "raises_only Q (\<lambda>s. send_request env False (req s) s)" for req
    using send_raises [OF assms] by (simp add: raises_only_def)
  then show ?thesis
    unfolding drive_request_def Let_def
    using assms by (intro raises_bind authenticate_raises captcha_raises)
qed

lemma read_item_error: "read_item env raw = Inl e \<Longrightarrow> Q e"
  by (auto simp: read_item_def Let_def errors split: json.splits if_splits)

lemma read_items_error: "read_items env raws = Inl e \<Longrightarrow> Q e"
  by (induction raws) (auto simp: bindR_eq_Inl read_item_error)

lemma read_page_error: "read_page env payload marker = Inl e \<Longrightarrow> Q e"
  by (auto simp: read_page_def Let_def bindR_eq_Inl errors read_items_error split: json.splits if_splits)

lemma folder_parent_error: "folder_parent folder_id = Inl e \<Longrightarrow> Q e"
  by (auto simp: folder_parent_def errors split: if_splits)

lemma list_target_raises:
  assumes "transport env"
  shows "raises_only Q (list_target_items env target marker)"
proof -
  have "raises_only Q (advance_listing env key marker page)" for key page
    by (auto simp: raises_only_def advance_listing_def Let_def split_def bindA_def modify_session_def
        guardA_def retA_def raiseA_def errors split: if_splits)
  then show ?thesis
    unfolding list_target_items_def
    using assms read_page_error folder_parent_error
    by (auto split: sum.splits intro!: raises_bind read_request_raises)
qed

lemma items_from_raises:
  assumes "transport env" and "Q out_of_fuel"
  shows "raises_only Q (items_from env target n marker seen_markers seen_ids)"
proof (induction n arbitrary: marker seen_markers seen_ids)
  case (Suc n)
  then show ?case
    unfolding items_from.simps Let_def using assms
    by (auto simp: errors split: option.splits intro!: raises_bind list_target_raises)
qed (simp add: items_from.simps assms(2))

lemma find_raises:
  assumes "transport env" and "Q out_of_fuel"
  shows "raises_only Q (find_target_item env target name)"
  unfolding find_target_item_def target_items_def
  using assms by (auto simp: errors split: list.splits intro!: raises_bind items_from_raises)

lemma share_token_raises: "raises_only Q (share_token env share)"
  by (auto simp: raises_only_def share_token_def errors split: option.splits)

end

interpretation certain: read_errors "\<lambda>e. e_class e \<noteq> CWriteUncertain"
  by unfold_locales
    (auto simp: pikpak_exn_def pikpak_credential_exn_def pagination_exn_def raise_exn_def)

interpretation bounded: read_errors "\<lambda>e. e_class e \<noteq> COutOfFuel"
  by unfold_locales
    (auto simp: pikpak_exn_def pikpak_credential_exn_def pagination_exn_def raise_exn_def)

section \<open>Listings end\<close>

lemma empty_page_is_last:
  "read_page env payload marker = Inr page \<Longrightarrow> rp_items page = [] \<Longrightarrow> rp_next_marker page = None"
proof -
  have "read_items env raws = Inr [] \<Longrightarrow> raws = []" for raws
    by (cases raws) auto
  then show "read_page env payload marker = Inr page \<Longrightarrow> rp_items page = [] \<Longrightarrow> rp_next_marker page = None"
    by (auto simp: read_page_def Let_def split: json.splits if_splits)
qed

lemma advance_page: "advance_listing env key marker page s = (Inr page', s') \<Longrightarrow> page' = page"
  by (auto simp: advance_listing_def Let_def split_def bindA_def modify_session_def guardA_def retA_def
      raiseA_def split: if_splits)

lemma listed_empty_is_last:
  "list_target_items env target marker s = (Inr page, s') \<Longrightarrow> rp_items page = [] \<Longrightarrow>
    rp_next_marker page = None"
  unfolding list_target_items_def
  by (auto simp: bindA_eq_Inr raiseA_def returned_def split: sum.splits
      dest!: advance_page empty_page_is_last)

text \<open>A server that knows finitely many identifiers in a folder.\<close>

definition page_ids_in :: "'s pikpak_env \<Rightarrow> folder_ref \<Rightarrow> string set \<Rightarrow> bool" where
  "page_ids_in env target U \<longleftrightarrow>
     (\<forall>marker s page s'. list_target_items env target marker s = (Inr page, s') \<longrightarrow>
        ri_remote_file_id ` set (rp_items page) \<subseteq> U)"

lemma items_from_ends:
  assumes "transport env" and "finite U" and "page_ids_in env target U"
  shows "card (U - set seen_ids) < n \<Longrightarrow>
    raises_only (\<lambda>e. e_class e \<noteq> COutOfFuel) (items_from env target n marker seen_markers seen_ids)"
proof (induction n arbitrary: marker seen_markers seen_ids)
  case (Suc n)
  have next_page: "raises_only (\<lambda>e. e_class e \<noteq> COutOfFuel)
      (items_from env target n (Some m) (m # seen_markers) (map ri_remote_file_id new_items @ seen_ids))"
    if page: "list_target_items env target marker s = (Inr page, s')" and "rp_next_marker page = Some m"
      and new: "new_items = filter (\<lambda>i. ri_remote_file_id i \<notin> set seen_ids) (rp_items page)"
      and progress: "rp_items page = [] \<or> new_items \<noteq> []"
    for s page s' m new_items
  proof (rule Suc.IH)
    have ids: "ri_remote_file_id ` set (rp_items page) \<subseteq> U"
      using page assms(3) unfolding page_ids_in_def by blast
    have "new_items \<noteq> []" using listed_empty_is_last [OF page] that(2) progress by auto
    then obtain i where "i \<in> set new_items" by (cases new_items) auto
    then have "ri_remote_file_id i \<in> U - set seen_ids"
      using ids new by auto
    with \<open>i \<in> set new_items\<close>
    have "U - set (map ri_remote_file_id new_items @ seen_ids) \<subset> U - set seen_ids" by auto
    then have "card (U - set (map ri_remote_file_id new_items @ seen_ids)) < card (U - set seen_ids)"
      using assms(2) by (intro psubset_card_mono) auto
    with Suc.prems show "card (U - set (map ri_remote_file_id new_items @ seen_ids)) < n" by linarith
  qed
  show ?case
    unfolding items_from.simps Let_def
  proof (rule raises_bind_returned [OF bounded.list_target_raises [OF assms(1)]])
    fix s page s'
    assume page: "list_target_items env target marker s = (Inr page, s')"
    let ?new = "filter (\<lambda>i. ri_remote_file_id i \<notin> set seen_ids) (rp_items page)"
    show "raises_only (\<lambda>e. e_class e \<noteq> COutOfFuel)
      (thenA (guardA (rp_items page = [] \<or> ?new \<noteq> []) (pagination_exn ''repeated files''))
        (case rp_next_marker page of
           None \<Rightarrow> retA ?new
         | Some m \<Rightarrow>
             if m \<in> set seen_markers then raiseA (pagination_exn ''repeated token'')
             else bindA (items_from env target n (Some m) (m # seen_markers)
                           (map ri_remote_file_id ?new @ seen_ids)) (\<lambda>items. retA (?new @ items))))"
    proof (rule raises_bind_returned)
      fix s1 x s2
      assume "guardA (rp_items page = [] \<or> ?new \<noteq> []) (pagination_exn ''repeated files'') s1 = (Inr x, s2)"
      then have progress: "rp_items page = [] \<or> ?new \<noteq> []"
        by (auto simp: guardA_def raiseA_def split: if_splits)
      then show "raises_only (\<lambda>e. e_class e \<noteq> COutOfFuel)
        (case rp_next_marker page of
           None \<Rightarrow> retA ?new
         | Some m \<Rightarrow>
             if m \<in> set seen_markers then raiseA (pagination_exn ''repeated token'')
             else bindA (items_from env target n (Some m) (m # seen_markers)
                           (map ri_remote_file_id ?new @ seen_ids)) (\<lambda>items. retA (?new @ items)))"
        using next_page [OF page _ refl progress]
        by (auto split: option.splits intro!: raises_bind simp: bounded.errors)
    qed (simp add: bounded.errors)
  qed
qed simp

lemma target_items_end:
  assumes "transport env" and "finite U" and "page_ids_in env target U" and "card U < pe_fuel env"
  shows "raises_only (\<lambda>e. e_class e \<noteq> COutOfFuel) (target_items env target)"
  unfolding target_items_def using items_from_ends [OF assms(1-3), of "[]"] assms(4) by simp

section \<open>Writes\<close>

lemma readsE:
  assumes "reads m" and "m (s, l) = (res, (s', l'))"
  obtains k where "l' = l @ k" and "list_all (\<lambda>req. \<not> is_write req) k"
  using keepsD [OF assms(1), of "(s, l)"] assms(2) by (auto simp: log_grows_def)

lemma send_logs:
  assumes "send_request (logged env) writes req (s, l) = (res, (s', l'))"
  shows "l' = l @ [req]"
  using assms
  by (auto simp: send_request_def bindA_def modify_session_def logged_def split: prod.splits sum.splits)

text \<open>
  A request that writes is sent once, when the session is there, and otherwise not: then it is certain
  that nothing was written.
\<close>

definition written_once ::
    "(pikpak_request \<Rightarrow> bool) \<Rightarrow> pikpak_request list \<Rightarrow> exn + 'a \<Rightarrow> bool" where
  "written_once P k res \<longleftrightarrow>
     (\<exists>reqs. list_all (\<lambda>req. \<not> is_write req) reqs \<and>
        ((k = reqs \<and> (case res of Inl e \<Rightarrow> e_class e \<noteq> CWriteUncertain | Inr _ \<Rightarrow> False)) \<or>
         (\<exists>req. k = reqs @ [req] \<and> P req)))"

lemma written_once_after:
  "list_all (\<lambda>req. \<not> is_write req) k0 \<Longrightarrow> written_once P k res \<Longrightarrow> written_once P (k0 @ k) res"
  unfolding written_once_def
  by (elim exE conjE disjE) (auto intro: exI [of _ "k0 @ reqs" for reqs])

lemma written_once_none:
  "list_all (\<lambda>req. \<not> is_write req) k \<Longrightarrow> e_class e \<noteq> CWriteUncertain \<Longrightarrow> written_once P k (Inl e)"
  by (auto simp: written_once_def)

definition writes_once :: "(pikpak_request \<Rightarrow> bool) \<Rightarrow> ('s \<times> pikpak_request list, 'a) act \<Rightarrow> bool" where
  "writes_once P m \<longleftrightarrow> (\<forall>s l res s' l'. m (s, l) = (res, (s', l')) \<longrightarrow>
     (\<exists>k. l' = l @ k \<and> written_once P k res))"

lemma writes_onceI:
  "(\<And>s l res s' l'. m (s, l) = (res, (s', l')) \<Longrightarrow> \<exists>k. l' = l @ k \<and> written_once P k res) \<Longrightarrow> writes_once P m"
  by (simp add: writes_once_def)

lemma writes_onceD:
  "writes_once P m \<Longrightarrow> m (s, l) = (res, (s', l')) \<Longrightarrow> \<exists>k. l' = l @ k \<and> written_once P k res"
  by (simp add: writes_once_def)

lemma writes_once_raise: "e_class e \<noteq> CWriteUncertain \<Longrightarrow> writes_once P (raiseA e)"
  by (auto intro!: writes_onceI simp: raiseA_def written_once_none)

lemma writes_once_mono:
  assumes "writes_once P m" and "\<And>req. P req \<Longrightarrow> Q req"
  shows "writes_once Q m"
  using assms unfolding writes_once_def written_once_def by meson

lemma drive_write:
  assumes "transport env"
  shows "writes_once (\<lambda>req. kq_method req = http_method \<and> kq_url req = DRIVE_URL @ path \<and> kq_json req = body)
    (drive_request (logged env) True http_method path params body)"
proof (rule writes_onceI)
  fix s l res s' l'
  assume run: "drive_request (logged env) True http_method path params body (s, l) = (res, (s', l'))"
  let ?P = "\<lambda>req. kq_method req = http_method \<and> kq_url req = DRIVE_URL @ path \<and> kq_json req = body"
  let ?session = "thenA (authenticate (logged env)) (ensure_captcha (logged env) http_method path)"
  let ?req = "\<lambda>w. let x = pe_session (logged env) w in
      \<lparr>kq_method = http_method, kq_url = DRIVE_URL @ path,
       kq_headers = [(''Authorization'', ''Bearer '' @ coalesce (px_access_token x) ''None''),
                     (''X-Device-Id'', pc_device_id (px_credentials x))] @
                    (if is_set (px_captcha_token x)
                     then [(''X-Captcha-Token'', coalesce (px_captcha_token x) [])] else []),
       kq_params = params, kq_json = body\<rparr>"
  have parts: "drive_request (logged env) True http_method path params body (s, l) =
      thenA ?session (\<lambda>w. send_request (logged env) True (?req w) w) (s, l)"
    by (auto simp: drive_request_def bindA_def Let_def split: prod.splits sum.splits)
  obtain r s1 l1 where session: "?session (s, l) = (r, (s1, l1))" by (metis surj_pair)
  obtain k where k: "l1 = l @ k" "list_all (\<lambda>req. \<not> is_write req) k"
    using readsE [OF reads_session session] by blast
  show "\<exists>k. l' = l @ k \<and> written_once ?P k res"
  proof (cases r)
    case (Inl e)
    with parts run session have "res = Inl e" "l' = l1" by (auto simp: bindA_Inl)
    moreover have "e_class e \<noteq> CWriteUncertain"
      using raises_onlyD [OF certain.session_raises [OF transport_logged [OF assms(1)]]] session Inl by blast
    ultimately show ?thesis using k written_once_none by blast
  next
    case (Inr x)
    with parts run session
    have "send_request (logged env) True (?req (s1, l1)) (s1, l1) = (res, (s', l'))"
      by (simp add: bindA_Inr)
    from send_logs [OF this] have "l' = l @ k @ [?req (s1, l1)]" using k by simp
    moreover have "?P (?req (s1, l1))" by (simp add: Let_def)
    ultimately show ?thesis unfolding written_once_def using k(2) by blast
  qed
qed

text \<open>After what only reads, and raises no doubt; and before what sends nothing.\<close>

lemma writes_once_bind:
  assumes "reads m" and "raises_only (\<lambda>e. e_class e \<noteq> CWriteUncertain) m"
    and "\<And>x w w'. m w = (Inr x, w') \<Longrightarrow> writes_once P (f x)"
  shows "writes_once P (bindA m f)"
proof (rule writes_onceI)
  fix s l res s' l'
  assume "bindA m f (s, l) = (res, (s', l'))"
  then show "\<exists>k. l' = l @ k \<and> written_once P k res"
  proof (cases rule: bindA_cases)
    case (raised e)
    then show ?thesis
      using readsE [OF assms(1) raised(1)] raises_onlyD [OF assms(2) raised(1)] written_once_none by metis
  next
    case (returned x w)
    obtain s1 l1 where w: "w = (s1, l1)" by (cases w)
    obtain k where k: "l1 = l @ k" "list_all (\<lambda>req. \<not> is_write req) k"
      using readsE [OF assms(1)] returned(1) unfolding w by blast
    obtain k1 where "l' = l1 @ k1" "written_once P k1 res"
      using writes_onceD [OF assms(3) [OF returned(1)]] returned(2) unfolding w by blast
    with k show ?thesis by (auto intro: written_once_after)
  qed
qed

lemma writes_once_guard:
  assumes "e_class e \<noteq> CWriteUncertain" and "b \<Longrightarrow> writes_once P m"
  shows "writes_once P (thenA (guardA b e) m)"
  using assms by (intro writes_once_bind) (auto simp: guardA_def raiseA_def split: if_splits)

lemma written_once_returned: "written_once P k (Inr x) \<Longrightarrow> written_once P k res"
  by (auto simp: written_once_def)

lemma writes_once_then:
  assumes "writes_once P m" and "\<And>x. only_sends (\<lambda>_. False) (f x)"
  shows "writes_once P (bindA m f)"
proof (rule writes_onceI)
  fix s l res s' l'
  assume "bindA m f (s, l) = (res, (s', l'))"
  then show "\<exists>k. l' = l @ k \<and> written_once P k res"
  proof (cases rule: bindA_cases)
    case (raised e)
    show ?thesis
      using writes_onceD [OF assms(1) raised(1)] unfolding raised(2) written_once_def sum.case .
  next
    case (returned x w)
    obtain s1 l1 where w: "w = (s1, l1)" by (cases w)
    obtain k0 where "l' = l1 @ k0" "list_all (\<lambda>_. False) k0"
      using keepsD [OF assms(2), of "(s1, l1)" x] returned(2) unfolding w by (auto simp: log_grows_def)
    then have "l' = l1" by (cases k0) auto
    from writes_onceD [OF assms(1) returned(1) [unfolded w]]
    obtain k where "l1 = l @ k" "written_once P k (Inr x)" by (elim exE conjE)
    then show ?thesis using \<open>l' = l1\<close> by (auto intro: written_once_returned)
  qed
qed

section \<open>Saving and asking\<close>

text \<open>The one request of a submission, sent when a listing has shown that the name is free.\<close>

definition name_was_free :: "'s pikpak_env \<Rightarrow> folder_ref \<Rightarrow> string \<Rightarrow> bool" where
  "name_was_free env target name \<longleftrightarrow>
     (\<exists>w w'. find_target_item (logged env) target name w = (Inr None, w'))"

definition submission ::
    "'s pikpak_env \<Rightarrow> remote_item \<Rightarrow> folder_ref \<Rightarrow> pikpak_request \<Rightarrow> bool" where
  "submission env source target req \<longleftrightarrow>
     is_restore req \<and>
     (\<exists>share token. kq_json req = Some (JObj [(''share_id'', JStr share), (''pass_code_token'', JStr token),
        (''file_ids'', JList [JStr (ri_remote_file_id source)])])) \<and>
     name_was_free env target (ri_filename source)"

lemma certain_tags [simp]:
  "e_class (capability_exn t) \<noteq> CWriteUncertain" "e_class (pikpak_exn t) \<noteq> CWriteUncertain"
  "e_class out_of_fuel \<noteq> CWriteUncertain"
  by (simp_all add: capability_exn_def pikpak_exn_def out_of_fuel_def raise_exn_def)

lemma save_writes_once:
  assumes "transport env"
  shows "writes_once (submission env source target) (start_save_shared_item (logged env) share source target)"
proof -
  note logged = transport_logged [OF assms]
  let ?name = "ri_filename source"
  have submit: "writes_once (submission env source target)
      (bindA (drive_request (logged env) True ''POST'' ''/drive/v1/share/restore'' []
         (Some (JObj [(''share_id'', JStr (sh_key share)), (''pass_code_token'', JStr token),
            (''file_ids'', JList [JStr (ri_remote_file_id source)])]))) (\<lambda>payload.
       thenA (guardA (accepted payload) (uncertain_exn ''acknowledgement'')) (retA operation_id)))"
    if "find_target_item (logged env) target ?name w = (Inr None, w')" for token operation_id accepted w w'
  proof -
    have "name_was_free env target ?name" using that unfolding name_was_free_def by blast
    then show ?thesis
      by (intro writes_once_then [OF writes_once_mono [OF drive_write [OF assms]]])
        (auto simp: submission_def is_restore_def intro: grows.keeps_bind)
  qed
  show ?thesis
    unfolding start_save_shared_item_def Let_def
    by (intro writes_once_bind [OF reads_share_token certain.share_token_raises] writes_once_guard certain_tags)
      (auto split: sum.splits intro!: writes_once_raise writes_once_guard submit
        writes_once_bind [OF reads_find certain.find_raises [OF logged]]
        dest: certain.folder_parent_error)
qed

text \<open>Asking about an operation never submits again.\<close>

lemma reads_no_restore: "reads m \<Longrightarrow> only_sends (\<lambda>req. \<not> is_restore req) m"
  using restore_is_write
  by (erule_tac keeps_mono) (auto simp: log_grows_def list_all_iff)

lemma move_no_restore:
  "only_sends (\<lambda>req. \<not> is_restore req)
     (drive_request (logged env) True http_method ''/drive/v1/files:batchMove'' params body)"
  unfolding drive_request_def Let_def
  by (intro grows.keeps_bind reads_no_restore [OF reads_authenticate] reads_no_restore [OF reads_captcha]
      keepsI keepsD [OF only_sends_request])
    (simp add: is_restore_def)

lemma candidates_no_restore:
  "only_sends (\<lambda>req. \<not> is_restore req) (candidates_in (logged env) hash folders)"
  by (induction folders) (auto intro!: grows.keeps_bind reads_no_restore [OF reads_target_items])

lemma query_no_restore:
  "only_sends (\<lambda>req. \<not> is_restore req) (query_save_operation (logged env) operation_id)"
proof -
  have "only_sends (\<lambda>req. \<not> is_restore req) (move_received (logged env) target_id parent hash)"
    for target_id parent hash
    unfolding move_received_def Let_def
    by (auto intro!: grows.keeps_bind reads_no_restore [OF reads_target_items] candidates_no_restore
        move_no_restore split: list.splits)
  then show ?thesis
    unfolding query_save_operation_def Let_def
    by (auto intro!: grows.keeps_bind reads_no_restore [OF reads_target_items]
        split: sum.splits prod.splits)
qed

text \<open>What is reported as complete was just listed: one file with the fingerprint, in its folder.\<close>

lemma received_listed:
  assumes "move_received env target_id parent hash s = (Inr matches, s')" and "matches \<noteq> []"
  shows "\<exists>items s1. target_items env (folder_at target_id) s1 = (Inr items, s') \<and>
    matches = with_fingerprint env hash items"
proof -
  obtain candidates :: "remote_item list" and s2 where "(case candidates of
      c # _ \<Rightarrow>
        if ri_phase c = PHASE_COMPLETE then
          thenA (drive_request env True ''POST'' ''/drive/v1/files:batchMove'' []
                   (Some (JObj [(''ids'', JList [JStr (ri_remote_file_id c)]),
                      (''to'', JObj [(''parent_id'', JStr parent)])])))
            (bindA (target_items env (folder_at target_id)) (\<lambda>items.
               retA (with_fingerprint env hash items)))
        else retA []
    | [] \<Rightarrow> retA []) s2 = (Inr matches, s')"
    using assms(1) unfolding move_received_def Let_def bindA_eq_Inr by (elim exE conjE) (rule that)
  with assms(2) show ?thesis
    by (cases candidates) (auto simp: bindA_eq_Inr retA_def split: if_splits)
qed

lemma matches_listed:
  assumes "(if found = [] then move_received env target_id parent hash else retA found) s = (Inr matches, s')"
    and "found = with_fingerprint env hash items" and "target_items env (folder_at target_id) s0 = (Inr items, s)"
    and "matches \<noteq> []"
  shows "\<exists>items s1. target_items env (folder_at target_id) s1 = (Inr items, s') \<and>
    matches = with_fingerprint env hash items"
proof (cases "found = []")
  case True
  then have "move_received env target_id parent hash s = (Inr matches, s')" using assms(1) by simp
  from received_listed [OF this assms(4)] show ?thesis .
next
  case False
  with assms show ?thesis by (auto simp: retA_def)
qed

lemma require_inside_parents:
  "require_inside parent items = Inr () \<Longrightarrow> item \<in> set items \<Longrightarrow>
    folder_parent (if is_set (ri_parent_id item) then coalesce (ri_parent_id item) [] else ''root'') = Inr parent"
  by (induction items) (auto split: if_splits)

lemma save_state_completed:
  "save_state matches = Inr oc \<Longrightarrow> so_completed oc \<Longrightarrow>
    \<exists>item. matches = [item] \<and> ri_phase item = PHASE_COMPLETE \<and> so_target_file_ids oc = [ri_remote_file_id item]"
  by (auto simp: save_state_def split: list.splits if_splits)

lemma query_completed:
  assumes "query_save_operation env operation_id s = (Inr oc, s')" and "so_completed oc"
  shows "\<exists>target_id hash parent items item s1.
    parse_operation_id operation_id = Inr (target_id, hash) \<and> folder_parent target_id = Inr parent \<and>
    target_items env (folder_at target_id) s1 = (Inr items, s') \<and>
    with_fingerprint env hash items = [item] \<and> ri_phase item = PHASE_COMPLETE \<and>
    folder_parent (if is_set (ri_parent_id item) then coalesce (ri_parent_id item) [] else ''root'') = Inr parent \<and>
    so_target_file_ids oc = [ri_remote_file_id item]"
proof -
  obtain target_id hash parent where ids: "parse_operation_id operation_id = Inr (target_id, hash)"
    "folder_parent target_id = Inr parent"
    using assms(1) by (auto simp: query_save_operation_def raiseA_def split: sum.splits)
  with assms(1) obtain items s1 matches where
    listed: "target_items env (folder_at target_id) s = (Inr items, s1)" and
    matches: "(if with_fingerprint env hash items = [] then move_received env target_id parent hash
       else retA (with_fingerprint env hash items)) s1 = (Inr matches, s')" and
    ok: "require_inside parent matches = Inr ()" "save_state matches = Inr oc"
    by (auto simp: query_save_operation_def bindA_eq_Inr Let_def returned_def)
  obtain item where item: "matches = [item]" "ri_phase item = PHASE_COMPLETE"
    "so_target_file_ids oc = [ri_remote_file_id item]"
    using save_state_completed [OF ok(2) assms(2)] by blast
  then obtain items' s2 where "target_items env (folder_at target_id) s2 = (Inr items', s')"
    "[item] = with_fingerprint env hash items'"
    using matches_listed [OF matches refl listed] by auto
  with ids item require_inside_parents [OF ok(1)] show ?thesis by (metis list.set_intros(1))
qed

section \<open>Identifiers of operations\<close>

lemma split_dots_append: "CHR ''.'' \<notin> set a \<Longrightarrow> split_dots (a @ CHR ''.'' # b) = a # split_dots b"
  by (induction a) auto

lemma split_dots_none: "CHR ''.'' \<notin> set a \<Longrightarrow> split_dots a = [a]"
  by (induction a) auto

lemma b64_no_dot: "n < 64 \<Longrightarrow> b64_char n \<noteq> CHR ''.''"
  using b64_char(1) [of n] by (auto simp: b64_value_def)

lemma encode_no_dot: "CHR ''.'' \<notin> set (b64_encode s)"
  by (induction s rule: b64_encode.induct)
    (auto simp: Let_def b64_pad_def b64_no_dot [THEN not_sym])

lemma strip_padding_subset: "set (strip_padding s) \<subseteq> set s"
  unfolding strip_padding_def using set_dropWhileD by fastforce

lemma operation_id_roundtrip:
  assumes "fingerprint_ok hash"
  shows "parse_operation_id (operation_id_of target_id hash) = Inr (target_id, hash)"
proof -
  have "CHR ''.'' \<notin> set hash"
    using assms by (auto simp: fingerprint_ok_def list_all_iff is_lower_hex_def is_digit_def Let_def)
  moreover have "CHR ''.'' \<notin> set (strip_padding (b64_encode target_id))"
    using encode_no_dot strip_padding_subset by blast
  ultimately have "split_dots (operation_id_of target_id hash) =
      [''pikpak1'', strip_padding (b64_encode target_id), hash]"
    using split_dots_append [of "''pikpak1''"]
    by (simp add: operation_id_of_def split_dots_append split_dots_none)
  then show ?thesis by (simp add: parse_operation_id_def assms base64_roundtrip)
qed

section \<open>Rotated tokens\<close>

text \<open>The session is a part of the state of its own, which requests leave alone.\<close>

definition session_apart :: "'s pikpak_env \<Rightarrow> bool" where
  "session_apart env \<longleftrightarrow>
     (\<forall>x s. pe_session env (pe_set_session env x s) = x) \<and>
     (\<forall>req. keeps (\<lambda>s s'. pe_session env s' = pe_session env s) (pe_http env req))"

text \<open>
  Credentials that differ from those before wait in \<open>_token_update\<close> to be stored; and what waits is not
  lost.
\<close>

definition announced :: "'s pikpak_env \<Rightarrow> 's \<Rightarrow> 's \<Rightarrow> bool" where
  "announced env s s' \<longleftrightarrow>
     (let x = pe_session env s; x' = pe_session env s' in
      (px_credentials x' = px_credentials x \<and> px_token_update x' = px_token_update x) \<or>
      px_token_update x' = Some (pe_dumps env (credentials_json (px_credentials x'))))"

interpretation announced: action_contract "announced env" for env
  by unfold_locales (auto simp: announced_def Let_def)

abbreviation announces :: "'s pikpak_env \<Rightarrow> ('s, 'a) act \<Rightarrow> bool" where
  "announces env \<equiv> keeps (announced env)"

lemma announced_refl [simp]: "announced env s s"
  by (rule announced.R_refl)

lemma announces_returned [intro, simp]: "announces env (returned r)"
  by (rule keepsI) (simp add: returned_def)

lemma announces_share_token [intro, simp]: "announces env (share_token env share)"
  by (rule keepsI) (simp add: share_token_def split: option.splits)

lemma announces_modify:
  assumes "session_apart env"
    and "\<And>x. px_credentials (f x) = px_credentials x \<and> px_token_update (f x) = px_token_update x"
  shows "announces env (modify_session env f)"
  using assms by (auto intro!: keepsI simp: modify_session_def announced_def session_apart_def Let_def)

lemma announces_send:
  assumes "session_apart env"
  shows "announces env (send_request env writes req)"
proof -
  have "announced env s (snd (pe_http env req s))" for s
    using assms by (simp add: session_apart_def keeps_def announced_def Let_def)
  then have "announces env (\<lambda>s. case pe_http env req s of
      (Inl e, s1) \<Rightarrow> (Inl (if e_class e = CNamed ''HTTPError'' then request_exn writes ''interrupted'' else e), s1)
    | (Inr answer, s1) \<Rightarrow> (check_answer writes (kq_url req) answer, s1))"
    by (intro keepsI) (auto split: prod.splits sum.splits, (metis snd_conv)+)
  then show ?thesis
    unfolding send_request_def by (intro announced.keeps_bind announces_modify assms) auto
qed

lemma announces_authenticate:
  assumes "session_apart env"
  shows "announces env (authenticate env)"
proof (rule keepsI)
  fix w
  have "announces env (keep_tokens env payload token refresh)" for payload token refresh
    using assms by (auto intro!: keepsI
        simp: keep_tokens_def modify_session_def announced_def session_apart_def Let_def)
  then have "announces env (case (jget payload ''access_token'', jget payload ''refresh_token'') of
      (JStr token, JStr refresh) \<Rightarrow>
        if token = [] \<or> refresh = [] then raiseA (pikpak_exn ''token response'')
        else keep_tokens env payload token refresh
    | _ \<Rightarrow> raiseA (pikpak_exn ''token response''))" for payload
    by (auto split: json.splits)
  then show "announced env w (snd (authenticate env w))"
    unfolding authenticate_def Let_def
    by (auto intro!: keepsD [OF announced.keeps_bind] announces_send assms)
qed

lemma announces_captcha:
  assumes "session_apart env"
  shows "announces env (ensure_captcha env http_method path)"
proof (rule keepsI)
  fix w
  have "announces env (keep_captcha env payload)" for payload
    using assms by (auto intro!: keepsI
        simp: keep_captcha_def modify_session_def announced_def session_apart_def Let_def)
  then show "announced env w (snd (ensure_captcha env http_method path w))"
    unfolding ensure_captcha_def Let_def
    by (auto intro!: keepsD [OF announced.keeps_bind] announces_send assms)
qed

lemma announces_request:
  assumes "session_apart env"
  shows "announces env (drive_request env writes http_method path params body)"
  unfolding drive_request_def Let_def
  by (intro announced.keeps_bind announces_authenticate announces_captcha assms keepsI
      keepsD [OF announces_send])

lemma announces_list_target:
  assumes "session_apart env"
  shows "announces env (list_target_items env target marker)"
proof -
  have "announced env w (snd (advance_listing env key marker page w))" for key page w
    unfolding advance_listing_def Let_def split_def
    by (intro keepsD [where R = "announced env"] announced.keeps_bind announces_modify assms
        announced.keeps_guard announced.keeps_ret) simp_all
  then have "announces env (advance_listing env key marker page)" for key page by (rule keepsI)
  then show ?thesis
    unfolding list_target_items_def
    by (auto split: sum.splits intro!: announced.keeps_bind announces_request assms)
qed

lemma announces_items:
  assumes "session_apart env"
  shows "announces env (items_from env target n marker seen_markers seen_ids)"
proof (induction n arbitrary: marker seen_markers seen_ids)
  case (Suc n)
  then show ?case
    unfolding items_from.simps Let_def
    by (auto intro!: announced.keeps_bind announces_list_target assms split: option.splits)
qed (simp add: items_from.simps)

text \<open>The operations of the provider.\<close>

lemma announces_target_items:
  "session_apart env \<Longrightarrow> announces env (target_items env target)"
  by (simp add: target_items_def announces_items)

lemma announces_find:
  assumes "session_apart env"
  shows "announces env (find_target_item env target name)"
  unfolding find_target_item_def
  by (auto intro!: announced.keeps_bind announces_target_items assms split: list.splits)

lemmas announces_parts = announces_request announces_find announces_target_items

lemma announces_resolve:
  assumes "session_apart env"
  shows "announces env (resolve_share env share_url password)"
proof -
  have "announces env (modify_session env (\<lambda>x.
      x\<lparr>px_share_tokens := (px_share_tokens x)(k \<mapsto> t),
        px_share_passwords := (px_share_passwords x)(k \<mapsto> p),
        px_share_root_pages := (px_share_root_pages x)(k \<mapsto> m)\<rparr>))" for k t p m
    by (rule announces_modify [OF assms]) simp
  then show ?thesis
    unfolding resolve_share_def
    by (auto split: sum.splits intro!: announced.keeps_bind announces_request assms)
qed

lemma announces_list_share:
  assumes "session_apart env"
  shows "announces env (list_share_items env share parent_id marker)"
proof -
  have req: "announced env w (snd (bindA (drive_request env False http_method path params body)
      (\<lambda>payload. returned (g payload)) w))" for http_method path params body g w
    by (intro keepsD [where R = "announced env"] announced.keeps_bind announces_request assms announces_returned)
  have "announces env (\<lambda>s.
       let x = pe_session env s in
       if parent_id \<in> {''root'', [], ''/''} then
         (case marker of
            None \<Rightarrow> (read_page env (coalesce (px_share_root_pages x (sh_key share)) []) None, s)
          | Some m \<Rightarrow>
              bindA (drive_request env False ''GET'' ''/drive/v1/share''
                 [(''share_id'', JStr (sh_key share)),
                  (''pass_code'', JStr (coalesce (px_share_passwords x (sh_key share)) [])),
                  (''page_token'', JStr m), (''limit'', JInt 100)] None) (\<lambda>payload.
                returned (bindR (require_available payload) (\<lambda>_. read_page env payload marker))) s)
       else
         (case folder_parent parent_id of
            Inl e \<Rightarrow> (Inl e, s)
          | Inr parent \<Rightarrow>
              bindA (drive_request env False ''GET'' ''/drive/v1/share/detail''
                 [(''share_id'', JStr (sh_key share)), (''pass_code_token'', JStr token),
                  (''parent_id'', JStr parent), (''page_token'', JStr (coalesce marker [])),
                  (''limit'', JInt 100)] None) (\<lambda>payload. returned (read_page env payload marker)) s))" for token
    by (intro keepsI) (auto simp: Let_def req split: option.splits sum.splits)
  then show ?thesis
    unfolding list_share_items_def by (intro announced.keeps_bind announces_share_token)
qed

lemma announces_ensure_folder:
  assumes "session_apart env"
  shows "announces env (ensure_folder env parent name)"
  unfolding ensure_folder_def Let_def
  by (auto split: sum.splits option.splits intro!: announced.keeps_bind announces_parts assms)

lemma announces_save:
  assumes "session_apart env"
  shows "announces env (start_save_shared_item env share source target)"
  unfolding start_save_shared_item_def Let_def
  by (intro announced.keeps_bind announces_share_token announced.keeps_guard)
    (auto split: sum.splits intro!: announced.keeps_bind announces_parts assms)

lemma announces_candidates:
  assumes "session_apart env"
  shows "announces env (candidates_in env hash folders)"
  by (induction folders) (auto intro!: announced.keeps_bind announces_target_items assms)

lemma announces_query:
  assumes "session_apart env"
  shows "announces env (query_save_operation env operation_id)"
proof -
  have "announces env (move_received env target_id parent hash)" for target_id parent hash
    unfolding move_received_def Let_def
    by (auto intro!: announced.keeps_bind announces_parts announces_candidates assms split: list.splits)
  then show ?thesis
    unfolding query_save_operation_def Let_def
    by (auto intro!: announced.keeps_bind announces_target_items assms split: sum.splits prod.splits)
qed

lemma announces_download_url:
  assumes "session_apart env"
  shows "announces env (get_download_url env file_id)"
  unfolding get_download_url_def Let_def
  by (auto intro!: announced.keeps_bind announces_request assms)

text \<open>What the provider hands over is what has to be stored.\<close>

lemma announced_consumed:
  assumes "announced env s s'" and "px_credentials (pe_session env s') \<noteq> px_credentials (pe_session env s)"
  shows "fst (consume_refresh_token_update env s') =
    Some (pe_dumps env (credentials_json (px_credentials (pe_session env s'))))"
  using assms by (auto simp: announced_def consume_refresh_token_update_def Let_def)

text \<open>A stored credential is read back as it was.\<close>

lemma credentials_read_back:
  assumes "loads (dumps (credentials_json c)) = Some (credentials_json c)"
    and "take 1 (strip (dumps (credentials_json c))) = ''{''"
    and "strip (dumps (credentials_json c)) = dumps (credentials_json c)"
    and "strip (pc_refresh_token c) = pc_refresh_token c" and "pc_refresh_token c \<noteq> []"
    and "id_ok (pc_client_id c)" and "id_ok (pc_device_id c)"
  shows "session_credentials loads uuid (dumps (credentials_json c)) = Inr c"
  using assms
  by (simp add: session_credentials_def read_credentials_def credentials_json_def string_or_def jget_def Let_def)

end
