(* ===== verification/PikPakTransfer.thy ===== *)
theory PikPakTransfer
  imports PikPakProofs TransferOperation
begin

text \<open>
  The transfer of a file (\<open>services/transfer_operation.py\<close>) over the PikPak provider: how many copies a
  call submits, whatever happens between the requests, as long as that sends nothing to the drive.
\<close>

section \<open>Submitted copies\<close>

text \<open>How many copies an action may submit.\<close>

definition restores :: "nat \<Rightarrow> ('s \<times> pikpak_request list, 'a) act \<Rightarrow> bool" where
  "restores n m \<longleftrightarrow> (\<forall>s l. \<exists>k. snd (snd (m (s, l))) = l @ k \<and> length (filter is_restore k) \<le> n)"

lemma restores_none: "only_sends (\<lambda>req. \<not> is_restore req) m \<Longrightarrow> restores 0 m"
  by (fastforce simp: restores_def keeps_def log_grows_def list_all_iff filter_empty_conv)

lemma restores_silent: "only_sends (\<lambda>_. False) m \<Longrightarrow> restores 0 m"
  by (rule restores_none, erule keeps_mono) (auto simp: log_grows_def list_all_iff)

lemma restores_weaken: "restores n m \<Longrightarrow> n \<le> n' \<Longrightarrow> restores n' m"
  unfolding restores_def by (meson order_trans)

lemma restores_run:
  assumes "restores n m" and "m (s, l) = (res, (s', l'))"
  obtains k where "l' = l @ k" and "length (filter is_restore k) \<le> n"
  using assms by (auto simp: restores_def dest!: spec [of _ s] spec [of _ l])

lemma restores_bind:
  assumes "restores p m" and "\<And>x. restores q (f x)" and "p + q \<le> n"
  shows "restores n (bindA m f)"
  unfolding restores_def
proof (intro allI)
  fix s l
  obtain r s1 l1 where run: "m (s, l) = (r, (s1, l1))" by (metis surj_pair)
  obtain k1 where k1: "l1 = l @ k1" "length (filter is_restore k1) \<le> p"
    by (rule restores_run [OF assms(1) run])
  show "\<exists>k. snd (snd (bindA m f (s, l))) = l @ k \<and> length (filter is_restore k) \<le> n"
  proof (cases r)
    case (Inl e)
    with run k1 assms(3) show ?thesis by (intro exI [of _ k1]) (simp add: bindA_Inl)
  next
    case (Inr x)
    obtain r2 s2 l2 where run2: "f x (s1, l1) = (r2, (s2, l2))" by (metis surj_pair)
    obtain k2 where "l2 = l1 @ k2" "length (filter is_restore k2) \<le> q"
      by (rule restores_run [OF assms(2) run2])
    with run run2 Inr k1 assms(3) show ?thesis by (intro exI [of _ "k1 @ k2"]) (simp add: bindA_Inr)
  qed
qed

lemma provider_step_snd: "snd (provider_step st m w) = snd (m w)"
  by (auto simp: provider_step_def split: prod.splits sum.splits)

lemma restores_step: "restores n m \<Longrightarrow> restores n (provider_step st m)"
  by (simp add: restores_def provider_step_snd)

lemma restores_save:
  assumes "transport env"
  shows "restores 1 (start_save_shared_item (logged env) share source target)"
  unfolding restores_def
proof (intro allI)
  fix s l
  obtain res s' l' where run: "start_save_shared_item (logged env) share source target (s, l) = (res, (s', l'))"
    by (metis surj_pair)
  obtain k where k: "l' = l @ k" "written_once (submission env source target) k res"
    using writes_onceD [OF save_writes_once [OF assms] run] by blast
  then have "length (filter is_write k) \<le> 1"
    by (auto simp: written_once_def list_all_iff filter_empty_conv)
  moreover have "length (filter is_restore k) \<le> length (filter is_write k)"
    using restore_is_write by (induction k) auto
  ultimately show "\<exists>k. snd (snd (start_save_shared_item (logged env) share source target (s, l))) = l @ k \<and>
      length (filter is_restore k) \<le> 1"
    using run k(1) by (intro exI [of _ k]) simp
qed

lemma reads_resolve: "reads (resolve_share (logged env) share_url password)"
  unfolding resolve_share_def
  by (auto split: sum.splits intro!: grows.keeps_bind)

lemma folder_no_restore:
  "only_sends (\<lambda>req. \<not> is_restore req) (ensure_folder (logged env) parent name)"
proof -
  have "only_sends (\<lambda>req. \<not> is_restore req)
      (drive_request (logged env) True http_method ''/drive/v1/files'' params body)" for http_method params body
    unfolding drive_request_def Let_def
    by (intro grows.keeps_bind reads_no_restore [OF reads_authenticate] reads_no_restore [OF reads_captcha]
        keepsI keepsD [OF only_sends_request])
      (simp add: is_restore_def)
  then show ?thesis
    unfolding ensure_folder_def Let_def
    by (auto split: sum.splits option.splits
        intro!: grows.keeps_bind reads_no_restore [OF reads_find])
qed

text \<open>What the handler does between the requests sends nothing to the drive.\<close>

definition silent :: "('s \<times> pikpak_request list, 'a) act \<Rightarrow> bool" where
  "silent = only_sends (\<lambda>_. False)"

lemma silent_no_restore: "silent m \<Longrightarrow> only_sends (\<lambda>req. \<not> is_restore req) m"
  unfolding silent_def by (erule keeps_mono) (auto simp: log_grows_def list_all_iff)

lemma cancelled_no_restore:
  "silent ask \<Longrightarrow> only_sends (\<lambda>req. \<not> is_restore req) (stop_if_cancelled ask msg)"
  unfolding stop_if_cancelled_def by (rule grows.keeps_bind [OF silent_no_restore]) auto

lemma target_no_restore:
  assumes "silent ask"
  shows "only_sends (\<lambda>req. \<not> is_restore req) (ensure_target_folder (pikpak_provider (logged env)) ask root_path rel)"
proof -
  have "only_sends (\<lambda>req. \<not> is_restore req) (ensure_parts (pikpak_provider (logged env)) ask parts target)"
    for parts target
    by (induction parts arbitrary: target)
      (auto simp: pikpak_provider_def intro!: grows.keeps_bind cancelled_no_restore folder_no_restore assms)
  then show ?thesis by (simp add: ensure_target_folder_def)
qed

lemma restores_save_item:
  assumes "transport env" and "silent intent" and "\<And>oid. silent (rec oid)"
  shows "restores (if known = None then 1 else 0)
    (save_item (pikpak_provider (logged env)) known intent rec spec share source target)"
proof -
  let ?start = "start_save_shared_item (logged env)"
  have recorded: "restores 0 (bindA (tryA (rec oid)) (\<lambda>recorded. case recorded of
      Inl _ \<Rightarrow> raiseA write_uncertain_exn | Inr _ \<Rightarrow> retA oid))" for oid
    by (rule restores_none, rule grows.keeps_bind [OF grows.keeps_try [OF silent_no_restore [OF assms(3)]]])
      (auto split: sum.splits)
  have "restores 1 (bindA (provider_step ''submit shared file copy'' (?start share source target)) (\<lambda>oid.
      bindA (tryA (rec oid)) (\<lambda>recorded. case recorded of
        Inl _ \<Rightarrow> raiseA write_uncertain_exn | Inr _ \<Rightarrow> retA oid)))"
    by (rule restores_bind [OF restores_step [OF restores_save [OF assms(1)]] recorded]) simp
  then have submit: "restores 1 (submit_save ?start intent rec share source target)"
    unfolding submit_save_def
    by (rule restores_bind [OF restores_none [OF silent_no_restore [OF assms(2)]]]) simp
  have asked: "restores 0 (bindA (provider_step ''check copy result'' (query_save_operation (logged env) oid))
      (\<lambda>operation.
          if \<not> so_completed operation
          then raiseA (operation_pending_exn ''cloud-drive save operation is still pending'')
          else case so_target_file_ids operation of
                 [fid] \<Rightarrow> retA \<lparr>sr_target_file_id = fid, sr_target_path = target_file_path target spec\<rparr>
               | _ \<Rightarrow> raiseA (operation_pending_exn
                        ''cloud-drive save result requires manual reconciliation'')))" for oid
    by (intro restores_bind [where p = 0 and q = 0] restores_step restores_none query_no_restore)
      (auto split: list.splits)
  show ?thesis
    unfolding save_item_def
    by (cases known) (auto simp: pikpak_provider_def intro!: restores_bind [OF submit asked]
        restores_bind [where p = 0 and q = 0] restores_none asked)
qed

text \<open>The transfer as a whole.\<close>

lemma transfer_restores:
  assumes "transport env" and "silent ask" and "silent intent" and "\<And>oid. silent (rec oid)"
  shows "restores (if known = None then 1 else 0)
    (execute_transfer (pikpak_provider (logged env)) spec ask known intent rec)"
proof -
  let ?n = "if known = None then 1 else 0 :: nat"
  note none = restores_none [OF cancelled_no_restore [OF assms(2)]]
  have save: "restores ?n (bindA (save_item (pikpak_provider (logged env)) known intent rec spec share source target)
      (\<lambda>result. retA \<lparr>tr_target_file_id = sr_target_file_id result,
               tr_target_path = sr_target_path result, tr_already_existed = False\<rparr>))" for share source target
    by (rule restores_bind [OF restores_save_item [OF assms(1,3,4)] restores_none [OF grows.keeps_ret]]) simp
  have exists: "restores ?n (bindA (case pr_validate_existing (pikpak_provider (logged env)) of
        None \<Rightarrow> retA () | Some v \<Rightarrow> v source item) (\<lambda>_. retA r))" for source item and r :: transfer_result
    by (rule restores_weaken [OF restores_none]) (auto simp: pikpak_provider_def intro!: grows.keeps_bind)
  have found: "restores ?n (case existing of
       Some item \<Rightarrow>
         bindA (case pr_validate_existing (pikpak_provider (logged env)) of
             None \<Rightarrow> retA () | Some v \<Rightarrow> v (source_item spec) item) (\<lambda>_.
         retA \<lparr>tr_target_file_id = ri_remote_file_id item,
               tr_target_path = target_file_path target spec, tr_already_existed = True\<rparr>)
     | None \<Rightarrow>
         bindA (stop_if_cancelled ask ''transfer cancelled before remote save'') (\<lambda>_.
         bindA (save_item (pikpak_provider (logged env)) known intent rec spec share (source_item spec) target)
           (\<lambda>result. retA \<lparr>tr_target_file_id = sr_target_file_id result,
               tr_target_path = sr_target_path result, tr_already_existed = False\<rparr>)))" for existing share target
    by (cases existing) (simp_all only: option.case exists restores_bind [OF none save])
  have search: "restores 0 (if known = None
      then provider_step ''check existing target file''
             (pr_find_target_item (pikpak_provider (logged env)) target (ts_filename spec))
      else retA None)" for target
    by (cases known)
      (simp_all add: pikpak_provider_def restores_step restores_none reads_no_restore reads_find)
  have resolve: "restores 0 (provider_step ''resolve share''
      (pr_resolve_share (pikpak_provider (logged env)) (ts_share_url spec) (ts_share_password spec)))"
    by (simp add: pikpak_provider_def restores_step restores_none reads_no_restore reads_resolve)
  note folder = restores_step [OF restores_none [OF target_no_restore [OF assms(2)]]]
  show ?thesis
    unfolding execute_transfer_def Let_def
    by (rule restores_bind [where q = ?n, OF none], rule restores_bind [where q = ?n, OF resolve],
        rule restores_bind [where q = ?n, OF folder], rule restores_bind [OF search found]) simp_all
qed

end
