(* ===== verification/PikPakProperties.thy ===== *)
theory PikPakProperties
  imports PikPakTransfer
begin

text \<open>
  The properties of the PikPak provider, with the small drive of the witnesses.
\<close>

section \<open>A small drive\<close>

text \<open>A drive that shows the same files in every folder and accepts everything; its state is the session.\<close>

definition sample_answer :: "json list \<Rightarrow> string \<Rightarrow> (string \<times> json) list" where
  "sample_answer files path =
     (if path = ''/v1/auth/token'' then
        [(''access_token'', JStr ''a''), (''refresh_token'', JStr ''r2''), (''expires_in'', JInt 7200)]
      else if path = ''/drive/v1/files'' then [(''files'', JList files)]
      else [(''restore_status'', JStr ''RESTORE_START'')])"

definition sample_pikpak :: "json list \<Rightarrow> pikpak_session pikpak_env" where
  "sample_pikpak files =
     \<lparr>pe_session = (\<lambda>s. s), pe_set_session = (\<lambda>x s. x),
      pe_http = (\<lambda>req s. (Inr (200, Some (JObj (sample_answer files (url_path (kq_url req))))), s)),
      pe_monotonic = (\<lambda>_. 0), pe_second = 1, pe_time_ms = (\<lambda>_. 0), pe_fuel = 3, pe_md5 = (\<lambda>s. s),
      pe_sha256 = (\<lambda>_. replicate 64 (CHR ''0'')), pe_dumps = (\<lambda>_. ''{}''),
      pe_dumps_text = (\<lambda>_. ''{}''), pe_loads = (\<lambda>_. None),
      pe_isoformat = (\<lambda>_. None), pe_netloc_ok = (\<lambda>_. True)\<rparr>"

definition sample_session :: pikpak_session where
  "sample_session =
     (new_session \<lparr>pc_refresh_token = ''r1'', pc_client_id = ''c'', pc_device_id = ''d''\<rparr>)
       \<lparr>px_share_tokens := (\<lambda>_. None)(''share'' \<mapsto> ''t'')\<rparr>"

definition sample_share :: share_info where
  "sample_share = \<lparr>sh_key = ''share'', sh_name = ''s'', sh_root_folder_id = ''root''\<rparr>"

definition shared_file :: remote_item where
  "shared_file =
     \<lparr>ri_remote_file_id = ''f1'', ri_parent_id = None, ri_filename = ''name'', ri_item_type = ''file'',
      ri_size = Some 3, ri_content_hash = Some ''h'', ri_updated_at = None, ri_phase = JNull\<rparr>"

definition saved_entry :: json where
  "saved_entry =
     JObj [(''id'', JStr ''f2''), (''name'', JStr ''name''), (''kind'', JStr ''drive#file''),
           (''size'', JStr ''3''), (''hash'', JStr ''h''), (''parent_id'', JStr ''folder''),
           (''phase'', JStr ''PHASE_TYPE_COMPLETE'')]"


lemma sample_apart: "session_apart (sample_pikpak files)"
  by (simp add: session_apart_def sample_pikpak_def keeps_def)


section \<open>Saving\<close>



text \<open>The folder and the fingerprint that an operation is about.\<close>

lemma started_operation:
  assumes "start_save_shared_item env share source target s = (Inr operation_id, s')"
  shows "\<exists>target_id parent. folder_parent (fr_folder_id target) = Inr parent \<and>
    folder_parent target_id = Inr parent \<and>
    operation_id = operation_id_of target_id (item_fingerprint env source)"
proof -
  obtain parent where parent: "folder_parent (fr_folder_id target) = Inr parent"
    using assms unfolding start_save_shared_item_def
    by (cases "folder_parent (fr_folder_id target)") (auto simp: bindA_eq_Inr raiseA_def)
  then have "operation_id = operation_id_of (if parent = [] then ''root'' else parent) (item_fingerprint env source)"
    using assms unfolding start_save_shared_item_def Let_def parent sum.case bindA_eq_Inr retA_def by blast
  moreover have "folder_parent (if parent = [] then ''root'' else parent) = Inr parent"
    using parent by (auto simp: folder_parent_def split: if_splits)
  ultimately show ?thesis using parent by blast
qed

text \<open>C20: A copy that is reported as complete is in its folder: the listing that the answer rests on has
  exactly one file with the name, size, hash and type of the source, complete and in the folder that
  the copy was started for, and the identifier that is returned is that file's.
\<close>

theorem completed_save_is_verified:
  assumes "start_save_shared_item env share source target s0 = (Inr operation_id, s1)"
    and "query_save_operation env operation_id s = (Inr oc, s')" and "so_completed oc"
    and "fingerprint_ok (item_fingerprint env source)"
  shows "\<exists>folder parent items item s2.
    folder_parent (fr_folder_id target) = Inr parent \<and> folder_parent (fr_folder_id folder) = Inr parent \<and>
    target_items env folder s2 = (Inr items, s') \<and>
    filter (\<lambda>i. item_fingerprint env i = item_fingerprint env source) items = [item] \<and>
    ri_phase item = PHASE_COMPLETE \<and>
    folder_parent (if is_set (ri_parent_id item) then coalesce (ri_parent_id item) [] else ''root'') = Inr parent \<and>
    so_target_file_ids oc = [ri_remote_file_id item]"
proof -
  obtain target_id parent where target: "folder_parent (fr_folder_id target) = Inr parent"
    "folder_parent target_id = Inr parent" "operation_id = operation_id_of target_id (item_fingerprint env source)"
    using started_operation [OF assms(1)] by blast
  from query_completed [OF assms(2,3)] target(2,3) operation_id_roundtrip [OF assms(4), of target_id]
  obtain items item s2 where "target_items env (folder_at target_id) s2 = (Inr items, s')"
    "filter (\<lambda>i. item_fingerprint env i = item_fingerprint env source) items = [item]"
    "ri_phase item = PHASE_COMPLETE"
    "folder_parent (if is_set (ri_parent_id item) then coalesce (ri_parent_id item) [] else ''root'') = Inr parent"
    "so_target_file_ids oc = [ri_remote_file_id item]"
    by (auto simp: with_fingerprint_def)
  moreover have "folder_parent (fr_folder_id (folder_at target_id)) = Inr parent"
    using target(2) by (simp add: folder_at_def)
  ultimately show ?thesis using target(1) by blast
qed

text \<open>A drive with its files in the state: none at first, then the one that was saved.\<close>

definition stocked_pikpak :: "(pikpak_session \<times> json list) pikpak_env" where
  "stocked_pikpak =
     \<lparr>pe_session = fst, pe_set_session = (\<lambda>x w. (x, snd w)),
      pe_http = (\<lambda>req w. (Inr (200, Some (JObj (sample_answer (snd w) (url_path (kq_url req))))), w)),
      pe_monotonic = (\<lambda>_. 0), pe_second = 1, pe_time_ms = (\<lambda>_. 0), pe_fuel = 3, pe_md5 = (\<lambda>s. s),
      pe_sha256 = (\<lambda>_. replicate 64 (CHR ''0'')), pe_dumps = (\<lambda>_. ''{}''),
      pe_dumps_text = (\<lambda>_. ''{}''), pe_loads = (\<lambda>_. None),
      pe_isoformat = (\<lambda>_. None), pe_netloc_ok = (\<lambda>_. True)\<rparr>"

definition sample_operation :: string where
  "sample_operation = operation_id_of ''folder'' (replicate 64 (CHR ''0''))"

lemma stocked_runs:
  "fst (start_save_shared_item stocked_pikpak sample_share shared_file (folder_at ''folder'') (sample_session, [])) =
    Inr sample_operation"
  "fst (query_save_operation stocked_pikpak sample_operation (sample_session, [saved_entry])) =
    Inr \<lparr>so_completed = True, so_target_file_ids = [''f2'']\<rparr>"
  by code_simp+

lemma completed_save_is_verified_witness:
  "\<exists>s' folder items item s2.
    query_save_operation stocked_pikpak sample_operation (sample_session, [saved_entry]) =
      (Inr \<lparr>so_completed = True, so_target_file_ids = [''f2'']\<rparr>, s') \<and>
    target_items stocked_pikpak folder s2 = (Inr items, s') \<and>
    filter (\<lambda>i. item_fingerprint stocked_pikpak i = item_fingerprint stocked_pikpak shared_file) items = [item] \<and>
    ri_remote_file_id item = ''f2''"
proof -
  let ?oc = "\<lparr>so_completed = True, so_target_file_ids = [''f2'']\<rparr>"
  have fp: "fingerprint_ok (item_fingerprint stocked_pikpak shared_file)" by code_simp
  obtain s1 where started: "start_save_shared_item stocked_pikpak sample_share shared_file (folder_at ''folder'')
      (sample_session, []) = (Inr sample_operation, s1)"
    using stocked_runs(1) by (metis prod.collapse)
  obtain s' where query: "query_save_operation stocked_pikpak sample_operation (sample_session, [saved_entry]) =
      (Inr ?oc, s')"
    using stocked_runs(2) by (metis prod.collapse)
  have "so_completed ?oc" by simp
  from completed_save_is_verified [OF started query this fp] obtain folder items item s2 where
    "target_items stocked_pikpak folder s2 = (Inr items, s')"
    "filter (\<lambda>i. item_fingerprint stocked_pikpak i = item_fingerprint stocked_pikpak shared_file) items = [item]"
    "so_target_file_ids ?oc = [ri_remote_file_id item]"
    by (elim exE conjE)
  with query show ?thesis by (intro exI conjI) auto
qed

section \<open>Transfers\<close>

text \<open>C21: A transfer over PikPak submits at most one copy, and none when its operation is known: whatever the
  server answers and wherever the call stops, the requests of \<open>execute_transfer\<close> have at most one
  submission, and those of a call with an operation identifier none.
\<close>

theorem transfer_submits_at_most_once:
  assumes "transport env" and "silent ask" and "silent intent" and "\<And>oid. silent (rec oid)"
    and "execute_transfer (pikpak_provider (logged env)) spec ask known intent rec (s, []) = (res, (s', log))"
  shows "length (filter is_restore log) \<le> (if known = None then 1 else 0)"
  by (rule restores_run [OF transfer_restores [OF assms(1-4)] assms(5)]) simp

definition sample_spec :: transfer_spec where
  "sample_spec =
     \<lparr>ts_share_url = ''https://mypikpak.com/s/share'', ts_share_password = None, ts_target_path = [],
      ts_remote_file_id = ''f1'', ts_parent_remote_file_id = None, ts_filename = ''name'',
      ts_relative_path = ''name'', ts_item_type = ''file'', ts_size = Some 3, ts_content_hash = Some ''h''\<rparr>"

lemma transfer_submits_at_most_once_witness:
  "filter is_restore (snd (snd (execute_transfer (pikpak_provider (logged stocked_pikpak)) sample_spec (retA False)
     (Some sample_operation) (retA ()) (\<lambda>_. retA ()) ((sample_session, [saved_entry]), [])))) = []"
proof -
  have quiet: "silent (retA x :: (('s \<times> pikpak_request list), 'b) act)" for x by (simp add: silent_def)
  have "transport stocked_pikpak" by (simp add: transport_def stocked_pikpak_def)
  moreover obtain res s' log where run: "execute_transfer (pikpak_provider (logged stocked_pikpak)) sample_spec
      (retA False) (Some sample_operation) (retA ()) (\<lambda>_. retA ()) ((sample_session, [saved_entry]), []) =
      (res, (s', log))" by (metis surj_pair)
  ultimately have "length (filter is_restore log) \<le> 0"
    using transfer_submits_at_most_once [OF _ quiet quiet quiet run] by simp
  with run show ?thesis by simp
qed

section \<open>Tokens\<close>

text \<open>C22: A rotated token is never lost inside the provider: whatever an operation does, however it ends,
  the credentials are as before, or the new ones wait to be handed over and stored.
\<close>

theorem rotated_token_is_announced:
  assumes "session_apart env"
  shows "announced env s (snd (resolve_share env share_url password s)) \<and>
    announced env s (snd (list_share_items env share parent_id marker s)) \<and>
    announced env s (snd (find_target_item env target name s)) \<and>
    announced env s (snd (ensure_folder env target name s)) \<and>
    announced env s (snd (start_save_shared_item env share source target s)) \<and>
    announced env s (snd (query_save_operation env operation_id s)) \<and>
    announced env s (snd (get_download_url env file_id s))"
  by (simp add: keepsD [OF announces_resolve] keepsD [OF announces_list_share] keepsD [OF announces_find]
      keepsD [OF announces_ensure_folder] keepsD [OF announces_save] keepsD [OF announces_query]
      keepsD [OF announces_download_url] assms)

lemma rotated_token_is_announced_witness:
  "fst (consume_refresh_token_update (sample_pikpak [])
     (snd (find_target_item (sample_pikpak []) (folder_at ''folder'') ''x'' sample_session))) = Some ''{}''"
proof -
  let ?env = "sample_pikpak []"
  let ?s = "snd (find_target_item ?env (folder_at ''folder'') ''x'' sample_session)"
  have "pc_refresh_token (px_credentials (pe_session ?env ?s)) = ''r2''" by code_simp
  then have "px_credentials (pe_session ?env ?s) \<noteq> px_credentials (pe_session ?env sample_session)"
    by (auto simp: sample_pikpak_def sample_session_def new_session_def)
  with rotated_token_is_announced [OF sample_apart, of "[]" sample_session "[]" None sample_share "[]" None
      "folder_at ''folder''" "''x''"] announced_consumed [of ?env sample_session ?s]
  show ?thesis by (simp add: sample_pikpak_def)
qed

section \<open>Listings\<close>

text \<open>Listings end: when the server knows fewer identifiers in a folder than the fuel allows pages, a listing
  does not run out of it, however the pages repeat.
\<close>

theorem listings_end:
  assumes "transport env" and "finite U" and "page_ids_in env target U" and "card U < pe_fuel env"
    and "target_items env target s = (Inl e, s')"
  shows "e_class e \<noteq> COutOfFuel"
  by (rule raises_onlyD [OF target_items_end [OF assms(1-4)] assms(5)])

end
